(* ===== verification/Prelude.thy ===== *)
theory Prelude
  imports Main "HOL-Library.Word"
begin

text \<open>
  Shared vocabulary of the development: machine words, C strings and
  \<^verbatim>\<open>std::string_view\<close> searches, bounded character buffers written by
  \<^verbatim>\<open>snprintf\<close>, decimal and hexadecimal text, and byte-order reads.
  Everything here models the C++ language and its standard library as the
  program uses them; no definition belongs to one component only.
\<close>

unbundle bit_operations_syntax

type_synonym u8 = "8 word"
type_synonym u16 = "16 word"
type_synonym u32 = "32 word"
type_synonym u64 = "64 word"
type_synonym s32 = "32 word" \<comment> \<open>two's complement, read by \<^const>\<open>sint\<close>\<close>

named_theorems text_simps \<open>evaluation of string searches and number text\<close>
named_theorems buf_simps \<open>bounded character buffers\<close>

lemma unat_of_nat_small:
  "n < 2 ^ LENGTH('a) \<Longrightarrow> unat (of_nat n :: 'a::len word) = n"
  by (simp add: unat_of_nat take_bit_nat_eq_self)

lemma length_filter_mono: "(\<And>x. P x \<Longrightarrow> Q x) \<Longrightarrow> length (filter P xs) \<le> length (filter Q xs)"
  by (induction xs) (auto intro: le_SucI)

subsection \<open>Characters and digits\<close>

definition digit_val :: "char \<Rightarrow> nat" where
  "digit_val c = of_char c - 48"

definition is_digit :: "char \<Rightarrow> bool" where
  "is_digit c \<longleftrightarrow> 48 \<le> (of_char c :: nat) \<and> (of_char c :: nat) \<le> 57"

definition digit_char :: "nat \<Rightarrow> char" where
  "digit_char n = char_of (48 + n)"

lemma of_char_digit_char [simp]: "n < 10 \<Longrightarrow> (of_char (digit_char n) :: nat) = 48 + n"
  by (simp add: digit_char_def)

lemma is_digit_digit_char [simp]: "n < 10 \<Longrightarrow> is_digit (digit_char n)"
  by (simp add: is_digit_def)

lemma digit_val_digit_char [simp]: "n < 10 \<Longrightarrow> digit_val (digit_char n) = n"
  by (simp add: digit_val_def)

lemma digit_val_bound: "is_digit c \<Longrightarrow> digit_val c < 10"
  unfolding is_digit_def digit_val_def by linarith

subsection \<open>Decimal text\<close>

definition dec_step :: "nat \<Rightarrow> char \<Rightarrow> nat" where
  "dec_step n c = n * 10 + digit_val c"

definition dec_value :: "string \<Rightarrow> nat" where
  "dec_value s = foldl dec_step 0 s"

lemma dec_value_Nil [simp]: "dec_value [] = 0"
  by (simp add: dec_value_def)

lemma dec_value_snoc [simp]: "dec_value (s @ [c]) = dec_value s * 10 + digit_val c"
  by (simp add: dec_value_def dec_step_def)

text \<open>\<^verbatim>\<open>%u\<close>, \<^verbatim>\<open>%zu\<close> and \<^verbatim>\<open>%llu\<close>.\<close>

fun show_dec :: "nat \<Rightarrow> string" where
  "show_dec n = (if n < 10 then [digit_char n] else show_dec (n div 10) @ [digit_char (n mod 10)])"

declare show_dec.simps [simp del]

lemma show_dec_digits: "c \<in> set (show_dec n) \<Longrightarrow> is_digit c"
proof (induction n rule: show_dec.induct)
  case (1 n)
  then show ?case
    by (subst (asm) (2) show_dec.simps) (auto split: if_splits)
qed

lemma show_dec_nonempty [simp]: "show_dec n \<noteq> []"
  by (subst show_dec.simps) simp

lemma dec_value_show_dec [simp]: "dec_value (show_dec n) = n"
proof (induction n rule: show_dec.induct)
  case (1 n)
  then show ?case
    using dec_value_snoc [of "[]"] by (subst show_dec.simps) auto
qed

lemma length_show_dec_less: "n < 10 ^ k \<Longrightarrow> 0 < k \<Longrightarrow> length (show_dec n) \<le> k"
proof (induction n arbitrary: k rule: show_dec.induct)
  case (1 n)
  show ?case
  proof (cases "n < 10")
    case True
    with 1 show ?thesis by (subst show_dec.simps) simp
  next
    case False
    then obtain j where k: "k = Suc j" and j: "0 < j"
      using "1.prems" by (cases k; cases "k - 1") auto
    have "n div 10 < 10 ^ j"
      using "1.prems" k by (simp add: less_mult_imp_div_less mult.commute)
    with "1.IH" [OF False, of j] j have "length (show_dec (n div 10)) \<le> j" by simp
    with False k show ?thesis by (subst show_dec.simps) simp
  qed
qed

lemma length_show_word:
  assumes "2 ^ LENGTH('a) \<le> (10::nat) ^ k" "0 < k"
  shows "length (show_dec (unat (w :: 'a::len word))) \<le> k"
proof -
  have "unat w < 2 ^ LENGTH('a)" by (rule unsigned_less)
  from less_le_trans [OF this assms(1)] assms(2) show ?thesis by (intro length_show_dec_less)
qed

text \<open>\<^verbatim>\<open>%d\<close> of a signed 32-bit value.\<close>

definition show_int :: "int \<Rightarrow> string" where
  "show_int i = (if i < 0 then CHR ''-'' # show_dec (nat (- i)) else show_dec (nat i))"

subsection \<open>Hexadecimal text\<close>

definition hex_digit :: "bool \<Rightarrow> nat \<Rightarrow> char" where
  "hex_digit upper n = (if n < 10 then char_of (48 + n) else char_of ((if upper then 55 else 87) + n))"

fun show_hex :: "bool \<Rightarrow> nat \<Rightarrow> string" where
  "show_hex upper n = (if n < 16 then [hex_digit upper n]
     else show_hex upper (n div 16) @ [hex_digit upper (n mod 16)])"

declare show_hex.simps [simp del]

lemma length_show_hex: "n < 16 ^ k \<Longrightarrow> 0 < k \<Longrightarrow> length (show_hex upper n) \<le> k"
proof (induction upper n arbitrary: k rule: show_hex.induct)
  case (1 upper n)
  show ?case
  proof (cases "n < 16")
    case True
    with 1 show ?thesis by (subst show_hex.simps) simp
  next
    case False
    then obtain j where k: "k = Suc j" and j: "0 < j"
      using "1.prems" by (cases k; cases "k - 1") auto
    have "n div 16 < 16 ^ j"
      using "1.prems" k by (simp add: less_mult_imp_div_less mult.commute)
    with "1.IH" [OF False, of j] j have "length (show_hex upper (n div 16)) \<le> j" by simp
    with False k show ?thesis by (subst show_hex.simps) simp
  qed
qed

definition pad_zero :: "nat \<Rightarrow> string \<Rightarrow> string" where
  "pad_zero w s = replicate (w - length s) (CHR ''0'') @ s"

lemma length_pad_zero: "length (pad_zero w s) = max w (length s)"
  by (simp add: pad_zero_def)

subsection \<open>\<^verbatim>\<open>std::from_chars\<close> on an unsigned integer type\<close>

datatype errc = InvalidArgument | ResultOutOfRange

definition from_chars :: "string \<Rightarrow> (errc + 'a::len word) \<times> string" where
  "from_chars s =
     (let ds = takeWhile is_digit s; rest = dropWhile is_digit s
      in if ds = [] then (Inl InvalidArgument, s)
         else if 2 ^ LENGTH('a) \<le> dec_value ds then (Inl ResultOutOfRange, rest)
         else (Inr (of_nat (dec_value ds)), rest))"

subsection \<open>String views\<close>

text \<open>\<^verbatim>\<open>view.find(c, offset)\<close>; \<^term>\<open>None\<close> is \<^verbatim>\<open>npos\<close>.\<close>

definition sv_find :: "char \<Rightarrow> nat \<Rightarrow> string \<Rightarrow> nat option" where
  "sv_find c off s =
     (let r = drop off s
      in if c \<in> set r then Some (off + length (takeWhile (\<lambda>x. x \<noteq> c) r)) else None)"

text \<open>\<^verbatim>\<open>view.rfind(c)\<close>.\<close>

definition sv_rfind :: "char \<Rightarrow> string \<Rightarrow> nat option" where
  "sv_rfind c s =
     (if c \<in> set s then Some (length s - 1 - length (takeWhile (\<lambda>x. x \<noteq> c) (rev s))) else None)"

text \<open>\<^verbatim>\<open>view.substr(offset, count)\<close> and \<^verbatim>\<open>view.substr(offset)\<close>.\<close>

definition sv_substr :: "nat \<Rightarrow> nat \<Rightarrow> string \<Rightarrow> string" where
  "sv_substr off n s = take n (drop off s)"

definition sv_starts_with :: "string \<Rightarrow> string \<Rightarrow> bool" where
  "sv_starts_with p s \<longleftrightarrow> take (length p) s = p"

text \<open>First occurrence of a string, as \<^verbatim>\<open>view.find(text)\<close> and \<^verbatim>\<open>strstr\<close> look for it.\<close>

fun str_find :: "string \<Rightarrow> string \<Rightarrow> nat option" where
  "str_find p [] = (if p = [] then Some 0 else None)"
| "str_find p (x # xs) =
     (if sv_starts_with p (x # xs) then Some 0 else map_option Suc (str_find p xs))"

text \<open>A character array read as a C string ends at its first NUL.\<close>

definition c_str :: "string \<Rightarrow> string" where
  "c_str s = takeWhile (\<lambda>c. c \<noteq> CHR 0x00) s"

lemma sv_find_Some:
  assumes "sv_find c off s = Some i"
  shows "off \<le> i" "i < length s" "s ! i = c"
    "\<forall>x \<in> set (sv_substr off (i - off) s). x \<noteq> c"
proof -
  let ?r = "drop off s"
  from assms have mem: "c \<in> set ?r" and i: "i = off + length (takeWhile (\<lambda>x. x \<noteq> c) ?r)"
    by (auto simp: sv_find_def Let_def split: if_splits)
  have lt: "length (takeWhile (\<lambda>x. x \<noteq> c) ?r) < length ?r"
  proof -
    have "takeWhile (\<lambda>x. x \<noteq> c) ?r \<noteq> ?r"
      using mem by (auto simp: takeWhile_eq_all_conv)
    then show ?thesis
      by (metis length_takeWhile_le le_neq_implies_less order_refl take_all takeWhile_eq_take)
  qed
  show "off \<le> i" using i by simp
  show "i < length s" using i lt by simp
  show "s ! i = c"
    using nth_length_takeWhile [OF lt] lt i by simp
  show "\<forall>x \<in> set (sv_substr off (i - off) s). x \<noteq> c"
    using i by (auto simp: sv_substr_def takeWhile_eq_take [symmetric] dest: set_takeWhileD)
qed

lemma sv_find_None: "sv_find c off s = None \<longleftrightarrow> c \<notin> set (drop off s)"
  by (simp add: sv_find_def Let_def)

lemma sv_find_append [text_simps]:
  "c \<notin> set xs \<Longrightarrow> sv_find c 0 (xs @ c # ys) = Some (length xs)"
  by (auto simp: sv_find_def Let_def takeWhile_append)

text \<open>A text splits in one way only at the first occurrence of a separator.\<close>

lemma first_split_unique:
  "c \<notin> set a \<Longrightarrow> c \<notin> set b \<Longrightarrow> a @ c # r = b @ c # t \<longleftrightarrow> a = b \<and> r = t"
proof (induction a arbitrary: b)
  case Nil
  then show ?case by (cases b) auto
next
  case (Cons x a)
  then show ?case by (cases b) auto
qed

lemma sv_starts_with_append [simp]: "sv_starts_with p (p @ s)"
  by (simp add: sv_starts_with_def)

lemma sv_starts_with_iff: "sv_starts_with p s \<longleftrightarrow> (\<exists>r. s = p @ r)"
  by (metis append_take_drop_id sv_starts_with_append sv_starts_with_def)

subsection \<open>Bounded character buffers\<close>

text \<open>
  A \<^verbatim>\<open>char*\<close> parameter with its size: \<^term>\<open>None\<close> is the null pointer, otherwise the
  capacity and the C string the buffer holds. \<^verbatim>\<open>snprintf\<close> keeps at most one
  character less than the capacity.
\<close>

record cbuf =
  cap :: nat
  content :: string

definition writable :: "cbuf option \<Rightarrow> bool" where
  "writable b \<longleftrightarrow> (case b of None \<Rightarrow> False | Some c \<Rightarrow> 0 < cap c)"

definition snprintf :: "cbuf option \<Rightarrow> string \<Rightarrow> cbuf option" where
  "snprintf b s =
     (case b of None \<Rightarrow> None
      | Some c \<Rightarrow> if cap c = 0 then Some c else Some (c\<lparr>content := take (cap c - 1) s\<rparr>))"

definition fresh_buf :: "nat \<Rightarrow> cbuf option" where
  "fresh_buf n = Some \<lparr>cap = n, content = []\<rparr>"

definition buf_text :: "cbuf option \<Rightarrow> string" where
  "buf_text b = (case b of None \<Rightarrow> [] | Some c \<Rightarrow> content c)"

text \<open>The text, and its terminating NUL, fit the capacity.\<close>

definition buf_ok :: "cbuf option \<Rightarrow> bool" where
  "buf_ok b \<longleftrightarrow> (case b of None \<Rightarrow> True | Some c \<Rightarrow> cap c = 0 \<or> length (content c) < cap c)"

definition buf_cap :: "cbuf option \<Rightarrow> nat option" where
  "buf_cap b = map_option cap b"

lemma buf_ok_snprintf [buf_simps, simp]: "buf_ok b \<Longrightarrow> buf_ok (snprintf b s)"
  by (auto simp: buf_ok_def snprintf_def split: option.splits)

lemma buf_cap_snprintf [buf_simps, simp]: "buf_cap (snprintf b s) = buf_cap b"
  by (auto simp: buf_cap_def snprintf_def split: option.splits)

lemma writable_snprintf [buf_simps, simp]: "writable (snprintf b s) = writable b"
  by (auto simp: writable_def snprintf_def split: option.splits)

lemma buf_text_snprintf [buf_simps]:
  "writable b \<Longrightarrow> buf_text (snprintf b s) = take (cap (the b) - 1) s"
  by (auto simp: writable_def snprintf_def buf_text_def split: option.splits)

lemma snprintf_snprintf [buf_simps, simp]: "snprintf (snprintf b s) t = snprintf b t"
  by (auto simp: snprintf_def split: option.splits)

lemma snprintf_not_writable [buf_simps]: "\<not> writable b \<Longrightarrow> snprintf b s = b"
  by (auto simp: snprintf_def writable_def split: option.splits)

lemma buf_ok_fresh [simp]: "buf_ok (fresh_buf n)"
  by (auto simp: buf_ok_def fresh_buf_def)

lemma writable_fresh [simp]: "writable (fresh_buf n) \<longleftrightarrow> 0 < n"
  by (simp add: writable_def fresh_buf_def)

lemma buf_text_snprintf_fresh [buf_simps, simp]:
  "buf_text (snprintf (fresh_buf n) s) = take (n - 1) s"
  by (simp add: buf_text_def snprintf_def fresh_buf_def)

subsection \<open>Byte order\<close>

text \<open>
  \<^verbatim>\<open>memcpy\<close> of a plain integer on the little-endian target reads the least
  significant byte first.
\<close>

fun le_value :: "u8 list \<Rightarrow> nat" where
  "le_value [] = 0"
| "le_value (b # bs) = unat b + 256 * le_value bs"

fun le_bytes :: "nat \<Rightarrow> nat \<Rightarrow> u8 list" where
  "le_bytes 0 n = []"
| "le_bytes (Suc k) n = of_nat (n mod 256) # le_bytes k (n div 256)"

lemma length_le_bytes [simp]: "length (le_bytes k n) = k"
  by (induction k arbitrary: n) auto

lemma le_value_bound: "le_value bs < 256 ^ length bs"
proof (induction bs)
  case (Cons b bs)
  have "unat b < 256" using unsigned_less [of b] by simp
  with Cons show ?case by simp
qed simp

lemma le_value_le_bytes: "le_value (le_bytes k n) = n mod 256 ^ k"
proof (induction k arbitrary: n)
  case (Suc k)
  have "n mod (256 * 256 ^ k) = 256 * (n div 256 mod 256 ^ k) + n mod 256"
    by (rule mod_mult2_eq)
  with Suc show ?case by (simp add: unat_of_nat)
qed simp

definition le_word :: "u8 list \<Rightarrow> 'a::len word" where
  "le_word bs = of_nat (le_value bs)"

lemma le_word_le_bytes:
  "k * 8 = LENGTH('a) \<Longrightarrow> le_word (le_bytes k (unat (w :: 'a::len word))) = w"
proof -
  assume k: "k * 8 = LENGTH('a)"
  have "(256::nat) ^ k = 2 ^ LENGTH('a)"
    using power_mult [of "2::nat" 8 k] by (simp add: k [symmetric] mult.commute)
  then show ?thesis by (simp add: le_word_def le_value_le_bytes)
qed

end
