(* ===== verification/Ipv4Text.thy ===== *)
theory Ipv4Text
  imports Prelude
begin

text \<open>
  Dotted IPv4 text. The toolbox validates it twice, with two hand-written
  routines: \<^verbatim>\<open>IsValidIpv4\<close> (\<^verbatim>\<open>toolbox/src/runtime_config.cpp\<close>), which splits the
  text at its dots and parses four fields, and \<^verbatim>\<open>IsIpv4Address\<close>
  (\<^verbatim>\<open>toolbox/src/https_scenario_parsing.cpp\<close>), a single pass over the characters.
  Both are modelled here with the shared \<^verbatim>\<open>ParseUnsigned\<close>, next to the grammar
  they are meant to accept.
\<close>

subsection \<open>\<^verbatim>\<open>ParseUnsigned\<close>\<close>

text \<open>
  The result is stored only when the whole text was consumed, so \<^term>\<open>None\<close> stands
  for the return value false with the destination untouched.
\<close>

definition ParseUnsigned :: "string \<Rightarrow> 'a::len word option" where
  "ParseUnsigned text =
     (case from_chars text of
        (Inl e, rest) \<Rightarrow> None
      | (Inr parsed, rest) \<Rightarrow> if rest \<noteq> [] then None else Some parsed)"

lemma ParseUnsigned_eq:
  "ParseUnsigned text =
     (if text \<noteq> [] \<and> (\<forall>c \<in> set text. is_digit c) \<and> dec_value text < 2 ^ LENGTH('a)
      then Some (of_nat (dec_value text) :: 'a::len word) else None)"
proof (cases "\<forall>c \<in> set text. is_digit c")
  case True
  then have tw: "takeWhile is_digit text = text" and dw: "dropWhile is_digit text = []"
    by (simp_all add: takeWhile_eq_all_conv dropWhile_eq_Nil_conv)
  show ?thesis
    unfolding ParseUnsigned_def from_chars_def Let_def tw dw using True by simp
next
  case False
  then have "dropWhile is_digit text \<noteq> []" by (simp add: dropWhile_eq_Nil_conv)
  with False show ?thesis
    by (auto simp: ParseUnsigned_def from_chars_def Let_def split: sum.splits)
qed

lemma ParseUnsigned_show_dec [simp]:
  "ParseUnsigned (show_dec (unat w)) = Some (w :: 'a::len word)"
proof -
  have "unat w < 2 ^ LENGTH('a)" by (rule unsigned_less)
  then show ?thesis by (auto simp: ParseUnsigned_eq dest: show_dec_digits)
qed

lemma ParseUnsigned_unat:
  "ParseUnsigned text = Some (w :: 'a::len word) \<Longrightarrow> unat w = dec_value text"
  by (auto simp: ParseUnsigned_eq unat_of_nat split: if_splits)

subsection \<open>The grammar\<close>

definition octet_text :: "string \<Rightarrow> bool" where
  "octet_text s \<longleftrightarrow>
     s \<noteq> [] \<and> length s \<le> 3 \<and> (\<forall>c \<in> set s. is_digit c) \<and> dec_value s \<le> 255"

fun dotted :: "nat \<Rightarrow> string \<Rightarrow> bool" where
  \<comment> \<open>an octet followed by exactly \<open>n\<close> further octets, each after a dot\<close>
  "dotted 0 s = octet_text s"
| "dotted (Suc n) s = (\<exists>a r. s = a @ CHR ''.'' # r \<and> octet_text a \<and> dotted n r)"

definition ipv4_text :: "string \<Rightarrow> bool" where
  "ipv4_text s \<longleftrightarrow> dotted 3 s"

lemma dot_not_digit [simp]: "\<not> is_digit CHR ''.''"
  by (simp add: is_digit_def)

lemma octet_text_no_dot: "octet_text s \<Longrightarrow> CHR ''.'' \<notin> set s"
  using dot_not_digit by (auto simp: octet_text_def)

lemma octet_text_iff_ParseUnsigned:
  "octet_text s \<longleftrightarrow>
     s \<noteq> [] \<and> length s \<le> 3 \<and> (\<exists>v :: u32. ParseUnsigned s = Some v \<and> unat v \<le> 255)"
proof -
  have "dec_value s < 2 ^ LENGTH(32)" if "dec_value s \<le> 255" using that by simp
  then show ?thesis
    by (auto simp: octet_text_def ParseUnsigned_eq unat_of_nat split: if_splits)
qed

subsection \<open>\<^verbatim>\<open>IsValidIpv4\<close>: splitting at the dots\<close>

text \<open>
  The body of the loop at a given index; the result is the offset after the last
  component, or \<^term>\<open>None\<close> where the code returns false.
\<close>

definition ipv4_component :: "nat \<Rightarrow> nat \<Rightarrow> string \<Rightarrow> nat option" where
  "ipv4_component index offset text =
     (let separator = sv_find (CHR ''.'') offset text;
          final_component = (index + 1 = 4)
      in if (final_component \<and> separator \<noteq> None) \<or> (\<not> final_component \<and> separator = None)
         then None
         else let end = (if final_component then length text else the separator)
              in if end = offset \<or> end - offset > 3 then None
                 else case (ParseUnsigned (sv_substr offset (end - offset) text) :: u32 option) of
                        None \<Rightarrow> None
                      | Some octet \<Rightarrow> if 255 < octet then None else Some (end + 1))"

fun ipv4_components :: "nat list \<Rightarrow> nat \<Rightarrow> string \<Rightarrow> nat option" where
  "ipv4_components [] offset text = Some offset"
| "ipv4_components (index # is) offset text =
     (case ipv4_component index offset text of
        None \<Rightarrow> None
      | Some offset' \<Rightarrow> ipv4_components is offset' text)"

definition IsValidIpv4 :: "string \<Rightarrow> bool" where
  "IsValidIpv4 text =
     (case ipv4_components [0, 1, 2, 3] 0 text of
        None \<Rightarrow> False
      | Some offset \<Rightarrow> offset = length text + 1)"

lemma u32_gt_255: "(255 < (v :: u32)) \<longleftrightarrow> 255 < unat v"
  by (simp add: word_less_nat_alt)

lemma ipv4_component_final:
  "off \<le> length s \<Longrightarrow> ipv4_component 3 off s =
     (if octet_text (drop off s) then Some (length s + 1) else None)"
proof (cases "CHR ''.'' \<in> set (drop off s)")
  case True
  then have "\<not> octet_text (drop off s)" using octet_text_no_dot by blast
  moreover have "sv_find CHR ''.'' off s \<noteq> None" using True by (simp add: sv_find_None)
  ultimately show ?thesis by (simp add: ipv4_component_def Let_def)
next
  case False
  assume "off \<le> length s"
  moreover have "sv_find CHR ''.'' off s = None" using False by (simp add: sv_find_None)
  ultimately show ?thesis
    by (auto simp: ipv4_component_def Let_def sv_substr_def octet_text_iff_ParseUnsigned u32_gt_255
        split: option.splits)
qed

lemma ipv4_component_dot:
  assumes i: "i < 3" and s: "s = pre @ a @ CHR ''.'' # r" and a: "CHR ''.'' \<notin> set a"
  shows "ipv4_component i (length pre) s =
     (if octet_text a then Some (length (pre @ a) + 1) else None)"
proof -
  have "sv_find CHR ''.'' (length pre) s = Some (length pre + length a)"
    using a by (auto simp: s sv_find_def Let_def takeWhile_append)
  moreover have "sv_substr (length pre) (length a) s = a"
    by (simp add: s sv_substr_def)
  ultimately show ?thesis using i
    by (auto simp: ipv4_component_def octet_text_iff_ParseUnsigned u32_gt_255 Let_def
        split: option.splits)
qed

lemma ipv4_component_no_dot:
  "i < 3 \<Longrightarrow> CHR ''.'' \<notin> set (drop off s) \<Longrightarrow> ipv4_component i off s = None"
  by (simp add: ipv4_component_def sv_find_None)

lemma ipv4_components_correct:
  "k \<le> 3 \<Longrightarrow>
   ipv4_components (drop (3 - k) [0, 1, 2, 3]) (length pre) (pre @ s) =
     (if dotted k s then Some (length (pre @ s) + 1) else None)"
proof (induction k arbitrary: pre s)
  case 0
  then show ?case by (simp add: ipv4_component_final)
next
  case (Suc k)
  define i where "i = 3 - Suc k"
  have dr: "drop i [0, 1, 2, 3] = i # drop (3 - k) [0, 1, 2, 3::nat]"
  proof -
    have "k = 0 \<or> k = 1 \<or> k = 2" using Suc.prems by arith
    then show ?thesis by (auto simp: i_def)
  qed
  have i: "i < 3" by (simp add: i_def)
  have "ipv4_components (drop i [0, 1, 2, 3]) (length pre) (pre @ s) =
     (if dotted (Suc k) s then Some (length (pre @ s) + 1) else None)"
  proof (cases "CHR ''.'' \<in> set s")
    case False
    then have "\<not> dotted (Suc k) s" by auto
    with False show ?thesis
      unfolding dr by (simp add: ipv4_component_no_dot [OF i] del: dotted.simps)
  next
    case True
    then obtain a r where s: "s = a @ CHR ''.'' # r" and a: "CHR ''.'' \<notin> set a"
      by (meson split_list_first)
    have uniq: "dotted (Suc k) s \<longleftrightarrow> octet_text a \<and> dotted k r"
    proof
      assume "dotted (Suc k) s"
      then obtain a' r' where *: "s = a' @ CHR ''.'' # r'" "octet_text a'" "dotted k r'" by auto
      then have "CHR ''.'' \<notin> set a'" by (simp add: octet_text_no_dot)
      with * s a have "a = a' \<and> r = r'" using first_split_unique [of "CHR ''.''" a a' r r'] by simp
      with * show "octet_text a \<and> dotted k r" by simp
    qed (auto simp: s)
    have assoc: "pre @ s = (pre @ a @ [CHR ''.'']) @ r" by (simp add: s)
    have h1: "ipv4_component i (length pre) (pre @ s) =
        (if octet_text a then Some (length (pre @ a) + 1) else None)"
      by (rule ipv4_component_dot [OF i _ a]) (simp add: s)
    have h2: "ipv4_components (drop (3 - k) [0, 1, 2, 3]) (length (pre @ a) + 1) (pre @ s) =
        (if dotted k r then Some (length (pre @ s) + 1) else None)"
      using Suc.IH [of "pre @ a @ [CHR ''.'']" r] Suc.prems unfolding assoc by simp
    show ?thesis
      unfolding dr ipv4_components.simps h1 uniq using h2 by (cases "octet_text a") simp_all
  qed
  then show ?case by (simp only: i_def)
qed

lemma IsValidIpv4_iff: "IsValidIpv4 s \<longleftrightarrow> ipv4_text s"
  using ipv4_components_correct [of 3 "[]" s]
  by (simp add: IsValidIpv4_def ipv4_text_def del: dotted.simps)

subsection \<open>\<^verbatim>\<open>IsIpv4Address\<close>: one pass over the characters\<close>

text \<open>
  The three counters are \<^verbatim>\<open>unsigned int\<close>; the loop returns early with false.
\<close>

fun ipv4_scan :: "u32 \<Rightarrow> u32 \<Rightarrow> u32 \<Rightarrow> string \<Rightarrow> bool" where
  "ipv4_scan octets value digits [] = (octets = 3 \<and> 0 < digits \<and> value \<le> 255)"
| "ipv4_scan octets value digits (ch # rest) =
     (if ch = CHR ''.'' then
        (if digits = 0 \<or> 255 < value \<or> octets = 3 then False
         else ipv4_scan (octets + 1) 0 0 rest)
      else if \<not> is_digit ch then False
      else if 3 < digits + 1 then False
      else ipv4_scan octets (value * 10 + of_nat (digit_val ch)) (digits + 1) rest)"

definition IsIpv4Address :: "string \<Rightarrow> bool" where
  "IsIpv4Address address = ipv4_scan 0 0 0 address"

text \<open>
  What the scan has read of the current component is a digit string \<open>p\<close> of at most three
  characters; the counters hold its length and value.
\<close>

fun dotted_from :: "string \<Rightarrow> nat \<Rightarrow> string \<Rightarrow> bool" where
  "dotted_from p 0 s = octet_text (p @ s)"
| "dotted_from p (Suc n) s =
     (\<exists>a r. s = a @ CHR ''.'' # r \<and> octet_text (p @ a) \<and> dotted n r)"

lemma dotted_from_Nil [simp]: "dotted_from [] n s = dotted n s"
  by (cases n) auto

lemma dec_value_lt_1000:
  "length p \<le> 3 \<Longrightarrow> \<forall>c \<in> set p. is_digit c \<Longrightarrow> dec_value p < 10 ^ length p"
proof (induction p rule: rev_induct)
  case (snoc c p)
  then have "dec_value p < 10 ^ length p" "digit_val c < 10"
    by (auto intro: digit_val_bound)
  then show ?case by simp
qed simp

lemma octet_text_Cons_dot: "\<not> octet_text (p @ CHR ''.'' # s)"
  using dot_not_digit by (auto simp: octet_text_def)

lemma dotted_from_dot:
  "dotted_from p n (CHR ''.'' # s) \<longleftrightarrow> octet_text p \<and> 0 < n \<and> dotted (n - 1) s"
proof (cases n)
  case 0
  then show ?thesis by (simp add: octet_text_Cons_dot)
next
  case (Suc m)
  have "dotted_from p n (CHR ''.'' # s)" if "octet_text p" "dotted m s"
    using that Suc by (auto intro: exI [of _ "[]"])
  moreover have "octet_text p \<and> dotted m s" if "dotted_from p n (CHR ''.'' # s)"
  proof -
    from that Suc obtain a r where
      *: "CHR ''.'' # s = a @ CHR ''.'' # r" "octet_text (p @ a)" "dotted m r" by auto
    then have "a = []"
      by (cases a) (auto simp: octet_text_Cons_dot)
    with * show ?thesis by simp
  qed
  ultimately show ?thesis using Suc by auto
qed

lemma dotted_from_step:
  assumes "ch \<noteq> CHR ''.''"
  shows "dotted_from p n (ch # s) \<longleftrightarrow> dotted_from (p @ [ch]) n s"
proof (cases n)
  case (Suc m)
  have "dotted_from p n (ch # s) \<longleftrightarrow>
      (\<exists>a r. s = a @ CHR ''.'' # r \<and> octet_text (p @ ch # a) \<and> dotted m r)"
    using assms Suc by (auto simp: Cons_eq_append_conv)
  then show ?thesis using Suc by simp
qed simp

lemma dotted_from_bad_prefix:
  "\<not> (length p \<le> 3 \<and> (\<forall>c \<in> set p. is_digit c)) \<Longrightarrow> \<not> dotted_from p n s"
  by (cases n) (auto simp: octet_text_def)

lemma ipv4_scan_correct:
  assumes "length p \<le> 3" "\<forall>c \<in> set p. is_digit c" "n \<le> 3"
    and "unat octets = 3 - n" "unat value = dec_value p" "unat digits = length p"
  shows "ipv4_scan octets value digits s \<longleftrightarrow> dotted_from p n s"
  using assms
proof (induction s arbitrary: p n octets "value" digits)
  case Nil
  then have "octets = 3 \<longleftrightarrow> n = 0" "0 < digits \<longleftrightarrow> p \<noteq> []" "value \<le> 255 \<longleftrightarrow> dec_value p \<le> 255"
    by (auto simp: word_le_nat_alt word_less_nat_alt unsigned_word_eqI word_unat_eq_iff)
  with Nil.prems show ?case by (cases n) (auto simp: octet_text_def)
next
  case (Cons ch s)
  consider (dot) "ch = CHR ''.''" | (bad) "ch \<noteq> CHR ''.''" "\<not> is_digit ch"
    | (digit) "ch \<noteq> CHR ''.''" "is_digit ch" by blast
  then show ?case
  proof cases
    case dot
    have eqs: "digits = 0 \<longleftrightarrow> p = []" "255 < value \<longleftrightarrow> 255 < dec_value p" "octets = 3 \<longleftrightarrow> n = 0"
      using Cons.prems by (auto simp: word_less_nat_alt word_unat_eq_iff)
    have "ipv4_scan (octets + 1) 0 0 s \<longleftrightarrow> dotted_from [] (n - 1) s" if "0 < n"
      using Cons.prems that by (intro Cons.IH) (auto simp: unat_word_ariths)
    with dot eqs Cons.prems show ?thesis
      by (auto simp: dotted_from_dot octet_text_def)
  next
    case bad
    then have "\<not> dotted_from (p @ [ch]) n s" by (intro dotted_from_bad_prefix) auto
    with bad show ?thesis by (simp add: dotted_from_step)
  next
    case digit
    have v: "dec_value p < 1000" "digit_val ch < 10"
      using dec_value_lt_1000 [of p] Cons.prems digit digit_val_bound
        power_increasing [of "length p" 3 "10::nat"] by auto
    have full: "3 < digits + 1 \<longleftrightarrow> length p = 3"
      using Cons.prems by (auto simp: word_less_nat_alt unat_word_ariths)
    have "ipv4_scan octets (value * 10 + of_nat (digit_val ch)) (digits + 1) s
        \<longleftrightarrow> dotted_from (p @ [ch]) n s" if "length p < 3"
      using Cons.prems digit v that
      by (intro Cons.IH) (auto simp: unat_word_ariths unat_of_nat mod_simps)
    moreover have "\<not> dotted_from (p @ [ch]) n s" if "length p = 3"
      using that by (intro dotted_from_bad_prefix) auto
    ultimately show ?thesis
      using digit full Cons.prems by (auto simp: dotted_from_step)
  qed
qed

lemma IsIpv4Address_iff: "IsIpv4Address s \<longleftrightarrow> ipv4_text s"
  using ipv4_scan_correct [of "[]" 3 0 0 0 s]
  by (simp add: IsIpv4Address_def ipv4_text_def del: dotted.simps)

end
