(* ===== verification/RuntimeConfig.thy ===== *)
theory RuntimeConfig
  imports Ipv4Text
begin

text \<open>
  The runtime configuration of the toolbox: the data of
  \<^verbatim>\<open>toolbox/src/runtime_config.hpp\<close>, the setting parser \<^verbatim>\<open>ApplySetting\<close> with the
  legacy keys it still accepts, \<^verbatim>\<open>ValidateRuntimeConfig\<close>, the compiled defaults of
  \<^verbatim>\<open>toolbox/src/config.hpp\<close>, and the pure outcome classification of
  \<^verbatim>\<open>bsd_system_udp_outcome.cpp\<close> and \<^verbatim>\<open>runtime_scenario.cpp\<close>.

  The two limits the validation takes from \<^verbatim>\<open>wgnx/tunnel_protocol.hpp\<close>, a header of
  another repository, are the record \<open>tunnel_limits\<close>.
\<close>

subsection \<open>Data\<close>

datatype BsdSystemUdpExpectedOutcome = EchoReply | NoReplyTimeout | TerminalClosure

datatype BsdPollObservation = Timeout | Readable | Closed | Error | Unexpected

datatype RuntimeScenario =
  DirectTunnelUdp | DirectTunnelTcp | BsdSystemUdp | BsdSystemTcp | TunnelContractValidation

record TunnelUdpWorkloadConfig =
  tw_destination_ipv4 :: string
  tw_destination_port :: u16
  tw_workload_id :: u32
  tw_payload_bytes :: u64
  tw_datagram_count :: u32
  tw_pacing_ms :: u32
  tw_concurrent_flows :: u32
  tw_receive_deadline_ms :: u32
  tw_payload_seed :: u32
  tw_echo_replies :: bool

record TunnelContractValidationConfig =
  verify_cloned_session_lifetime :: bool
  verify_mixed_batch :: bool

record BsdSystemUdpWorkloadConfig =
  verify_post_route_rejection :: bool
  expected_outcome :: BsdSystemUdpExpectedOutcome
  require_writable_recovery :: bool

record RuntimeProfile =
  pr_name :: string
  tunnel_destination_ipv4 :: string
  bsd_destination_ipv4 :: string
  udp_destination_port :: u16
  tcp_destination_port :: u16

record UdpScenarioConfig =
  payload_bytes :: u64
  datagram_count :: u32
  pacing_ms :: u32
  concurrent_flows :: u32
  udp_receive_deadline_ms :: u32
  payload_seed :: u32
  echo_replies :: bool

record TcpScenarioConfig =
  tcp_receive_deadline_ms :: u32

record RuntimeConfig =
  scenario :: RuntimeScenario
  next_workload_id :: u32
  active_profile :: u64
  profiles :: "RuntimeProfile list"
  udp :: UdpScenarioConfig
  tcp :: TcpScenarioConfig
  tunnel_contract :: TunnelContractValidationConfig
  bsd_system_udp :: BsdSystemUdpWorkloadConfig

record tunnel_limits =
  MaximumUdpPayloadStorageBytes :: u64
  MaximumFlowsPerClient :: u32

definition MinimumPayloadBytes :: u64 where "MinimumPayloadBytes = 24"
definition MaximumProfiles :: nat where "MaximumProfiles = 8"
definition MaximumProfileNameLength :: nat where "MaximumProfileNameLength = 32"
definition MaximumDatagramCount :: u32 where "MaximumDatagramCount = 4096"
definition MaximumDurationMs :: u32 where "MaximumDurationMs = 60000"

subsection \<open>Outcome classification\<close>

text \<open>
  \<^verbatim>\<open>revents\<close> is a 16-bit mask; the bit values of \<^verbatim>\<open><poll.h>\<close> are the arguments
  \<open>pollin\<close> and \<open>pollhup\<close>.
\<close>

definition ClassifyBsdPollObservation :: "u16 \<Rightarrow> u16 \<Rightarrow> int \<Rightarrow> u16 \<Rightarrow> BsdPollObservation" where
  "ClassifyBsdPollObservation pollin pollhup poll_result revents =
     (if poll_result < 0 then Error
      else if poll_result = 0 then Timeout
      else if revents AND pollhup \<noteq> 0 then Closed
      else if revents AND pollin \<noteq> 0 then Readable
      else Unexpected)"

fun IsExpectedBsdPollObservation :: "BsdSystemUdpExpectedOutcome \<Rightarrow> BsdPollObservation \<Rightarrow> bool" where
  "IsExpectedBsdPollObservation EchoReply observation = (observation = Readable)"
| "IsExpectedBsdPollObservation NoReplyTimeout observation = (observation = Timeout)"
| "IsExpectedBsdPollObservation TerminalClosure observation = (observation = Closed)"

definition HasWritableRecovery :: "u32 \<Rightarrow> bool \<Rightarrow> bool" where
  "HasWritableRecovery queue_full_retries observed_pollout \<longleftrightarrow>
     queue_full_retries \<noteq> 0 \<and> observed_pollout"

subsection \<open>Value parsers\<close>

definition is_trim_space :: "char \<Rightarrow> bool" where
  "is_trim_space c \<longleftrightarrow> c = CHR '' '' \<or> c = CHR 0x09 \<or> c = CHR 0x0D \<or> c = CHR 0x0A"

definition Trim :: "string \<Rightarrow> string" where
  "Trim s = rev (dropWhile is_trim_space (rev (dropWhile is_trim_space s)))"

definition ParseBool :: "string \<Rightarrow> bool option" where
  "ParseBool s =
     (if s = ''true'' \<or> s = ''1'' then Some True
      else if s = ''false'' \<or> s = ''0'' then Some False
      else None)"

definition ParseBsdSystemUdpExpectedOutcome :: "string \<Rightarrow> BsdSystemUdpExpectedOutcome option" where
  "ParseBsdSystemUdpExpectedOutcome v =
     (if v = ''echo'' then Some EchoReply
      else if v = ''no_reply_timeout'' then Some NoReplyTimeout
      else if v = ''terminal_closure'' then Some TerminalClosure
      else None)"

text \<open>
  \<^verbatim>\<open>ParseRuntimeScenario(value, scenario)\<close>: the destination is a nullable pointer, given
  by the value it points to; the result is the return value with the destination after
  the call.
\<close>

definition ParseRuntimeScenario :: "string \<Rightarrow> RuntimeScenario option \<Rightarrow> bool \<times> RuntimeScenario option" where
  "ParseRuntimeScenario v dest =
     (if dest = None then (False, dest)
      else if v = ''direct_tunnel_udp'' then (True, Some DirectTunnelUdp)
      else if v = ''direct_tunnel_tcp'' then (True, Some DirectTunnelTcp)
      else if v = ''bsd_system_udp'' then (True, Some BsdSystemUdp)
      else if v = ''bsd_system_tcp'' then (True, Some BsdSystemTcp)
      else if v = ''tunnel_contract_validation'' then (True, Some TunnelContractValidation)
      else (False, dest))"

text \<open>
  \<^verbatim>\<open>ParseProfileKey\<close>: the index and the field of \<^verbatim>\<open>profile.<index>.<field>\<close>.
\<close>

definition ParseProfileKey :: "string \<Rightarrow> (u64 \<times> string) option" where
  "ParseProfileKey key =
     (if \<not> sv_starts_with ''profile.'' key then None
      else let remainder = drop (length ''profile.'') key
           in case sv_find (CHR ''.'') 0 remainder of
                None \<Rightarrow> None
              | Some separator \<Rightarrow>
                  (case ParseUnsigned (sv_substr 0 separator remainder) of
                     None \<Rightarrow> None
                   | Some index \<Rightarrow> Some (index, drop (separator + 1) remainder)))"

text \<open>The result of a parser stored into a field, with the boolean it returns.\<close>

definition store :: "'v option \<Rightarrow> ('v \<Rightarrow> RuntimeConfig) \<Rightarrow> RuntimeConfig \<Rightarrow> RuntimeConfig \<times> bool" where
  "store parsed upd config =
     (case parsed of None \<Rightarrow> (config, False) | Some v \<Rightarrow> (upd v, True))"

text \<open>
  The port idiom \<^verbatim>\<open>ParseUnsigned(value, &port) && port != 0\<close>: the field is written before
  it is compared with zero.
\<close>

definition store_port :: "u16 option \<Rightarrow> (u16 \<Rightarrow> RuntimeConfig) \<Rightarrow> RuntimeConfig \<Rightarrow> RuntimeConfig \<times> bool" where
  "store_port parsed upd config =
     (case parsed of None \<Rightarrow> (config, False) | Some p \<Rightarrow> (upd p, p \<noteq> 0))"

subsection \<open>The active profile\<close>

definition ActiveRuntimeProfile :: "RuntimeConfig \<Rightarrow> RuntimeProfile option" where
  "ActiveRuntimeProfile config =
     (if unat (active_profile config) < length (profiles config)
      then Some (profiles config ! unat (active_profile config)) else None)"

text \<open>Writing through the pointer \<^verbatim>\<open>ActiveRuntimeProfile(config)\<close> or \<^verbatim>\<open>profiles[i]\<close>.\<close>

definition update_profile :: "nat \<Rightarrow> (RuntimeProfile \<Rightarrow> RuntimeProfile) \<Rightarrow> RuntimeConfig \<Rightarrow> RuntimeConfig" where
  "update_profile i f config =
     config\<lparr>profiles := (profiles config)[i := f (profiles config ! i)]\<rparr>"

definition update_udp :: "(UdpScenarioConfig \<Rightarrow> UdpScenarioConfig) \<Rightarrow> RuntimeConfig \<Rightarrow> RuntimeConfig" where
  "update_udp f config = config\<lparr>udp := f (udp config)\<rparr>"

definition update_contract ::
  "(TunnelContractValidationConfig \<Rightarrow> TunnelContractValidationConfig) \<Rightarrow> RuntimeConfig \<Rightarrow> RuntimeConfig" where
  "update_contract f config = config\<lparr>tunnel_contract := f (tunnel_contract config)\<rparr>"

definition update_bsd ::
  "(BsdSystemUdpWorkloadConfig \<Rightarrow> BsdSystemUdpWorkloadConfig) \<Rightarrow> RuntimeConfig \<Rightarrow> RuntimeConfig" where
  "update_bsd f config = config\<lparr>bsd_system_udp := f (bsd_system_udp config)\<rparr>"

subsection \<open>Settings\<close>

text \<open>
  \<^verbatim>\<open>ApplyLegacySetting\<close>: the keys of the configuration format before profiles.
\<close>

definition legacy_enable :: "RuntimeScenario \<Rightarrow> string \<Rightarrow> RuntimeConfig \<Rightarrow> RuntimeConfig \<times> bool" where
  "legacy_enable target v config =
     store (ParseBool v) (\<lambda>enabled. if enabled then config\<lparr>scenario := target\<rparr> else config) config"

definition ApplyLegacySetting :: "RuntimeConfig \<Rightarrow> string \<Rightarrow> string \<Rightarrow> RuntimeConfig \<times> bool" where
  "ApplyLegacySetting config key v =
     (case ActiveRuntimeProfile config of
        None \<Rightarrow> (config, False)
      | Some profile \<Rightarrow>
          let active = unat (active_profile config) in
          if key = ''tunnel_udp.enabled'' then legacy_enable DirectTunnelUdp v config
          else if key = ''bsd_system_udp.enabled'' then legacy_enable BsdSystemUdp v config
          else if key = ''tunnel_contract.enabled'' then legacy_enable TunnelContractValidation v config
          else if key = ''tunnel_udp.destination_ipv4'' then
            if \<not> IsValidIpv4 v then (config, False)
            else (update_profile active
                    (\<lambda>p. p\<lparr>tunnel_destination_ipv4 := v, bsd_destination_ipv4 := v\<rparr>) config, True)
          else if key = ''tunnel_udp.destination_port'' then
            store_port (ParseUnsigned v)
              (\<lambda>port. update_profile active (\<lambda>p. p\<lparr>udp_destination_port := port\<rparr>) config) config
          else if key = ''tunnel_udp.workload_id'' then
            store (ParseUnsigned v) (\<lambda>n. config\<lparr>next_workload_id := n\<rparr>) config
          else if key = ''tunnel_udp.payload_bytes'' then
            store (ParseUnsigned v) (\<lambda>n. update_udp (\<lambda>u. u\<lparr>payload_bytes := n\<rparr>) config) config
          else if key = ''tunnel_udp.datagram_count'' then
            store (ParseUnsigned v) (\<lambda>n. update_udp (\<lambda>u. u\<lparr>datagram_count := n\<rparr>) config) config
          else if key = ''tunnel_udp.pacing_ms'' then
            store (ParseUnsigned v) (\<lambda>n. update_udp (\<lambda>u. u\<lparr>pacing_ms := n\<rparr>) config) config
          else if key = ''tunnel_udp.concurrent_flows'' then
            store (ParseUnsigned v) (\<lambda>n. update_udp (\<lambda>u. u\<lparr>concurrent_flows := n\<rparr>) config) config
          else if key = ''tunnel_udp.receive_deadline_ms'' then
            store (ParseUnsigned v) (\<lambda>n. update_udp (\<lambda>u. u\<lparr>udp_receive_deadline_ms := n\<rparr>) config) config
          else if key = ''tunnel_udp.payload_seed'' then
            store (ParseUnsigned v) (\<lambda>n. update_udp (\<lambda>u. u\<lparr>payload_seed := n\<rparr>) config) config
          else if key = ''tunnel_udp.echo_replies'' then
            store (ParseBool v) (\<lambda>b. update_udp (\<lambda>u. u\<lparr>echo_replies := b\<rparr>) config) config
          else if key = ''tunnel_contract.verify_cloned_session_lifetime'' then
            store (ParseBool v) (\<lambda>b. update_contract (\<lambda>t. t\<lparr>verify_cloned_session_lifetime := b\<rparr>) config) config
          else if key = ''tunnel_contract.verify_mixed_batch'' then
            store (ParseBool v) (\<lambda>b. update_contract (\<lambda>t. t\<lparr>verify_mixed_batch := b\<rparr>) config) config
          else if key = ''bsd_system_udp.verify_post_route_rejection'' then
            store (ParseBool v) (\<lambda>b. update_bsd (\<lambda>t. t\<lparr>verify_post_route_rejection := b\<rparr>) config) config
          else if key = ''bsd_system_udp.expected_outcome'' then
            store (ParseBsdSystemUdpExpectedOutcome v) (\<lambda>b. update_bsd (\<lambda>t. t\<lparr>expected_outcome := b\<rparr>) config) config
          else if key = ''bsd_system_udp.require_writable_recovery'' then
            store (ParseBool v) (\<lambda>b. update_bsd (\<lambda>t. t\<lparr>require_writable_recovery := b\<rparr>) config) config
          else (config, False))"

text \<open>
  \<^verbatim>\<open>ApplySetting(config, key, value, migrated_legacy, error)\<close> with the three values it
  writes through its pointers. The outer \<^term>\<open>None\<close> is the one undefined behaviour the
  code can reach: \<^verbatim>\<open>profiles.front()\<close> of an empty vector.
\<close>

record setting_result =
  sr_config :: RuntimeConfig
  sr_ok :: bool
  sr_migrated :: bool
  sr_error :: string

definition setting_reply :: "string \<Rightarrow> bool \<Rightarrow> string \<Rightarrow> RuntimeConfig \<times> bool \<Rightarrow> setting_result" where
  "setting_reply key migrated error r =
     \<lparr>sr_config = fst r, sr_ok = snd r, sr_migrated = migrated,
      sr_error = (if snd r then error else ''invalid value for '' @ key)\<rparr>"

definition apply_scenario :: "RuntimeConfig \<Rightarrow> string \<Rightarrow> RuntimeConfig \<times> bool" where
  "apply_scenario config v =
     (case ParseRuntimeScenario v (Some (scenario config)) of
        (ok, None) \<Rightarrow> (config, ok)
      | (ok, Some s) \<Rightarrow> (config\<lparr>scenario := s\<rparr>, ok))"

definition apply_profile_count :: "RuntimeConfig \<Rightarrow> string \<Rightarrow> (RuntimeConfig \<times> bool) option" where
  "apply_profile_count config v =
     (case (ParseUnsigned v :: u64 option) of
        None \<Rightarrow> Some (config, False)
      | Some count \<Rightarrow>
          let n = unat count in
          if n = 0 \<or> n > MaximumProfiles then Some (config, False)
          else (case profiles config of
                  [] \<Rightarrow> None
                | default_profile # _ \<Rightarrow>
                    Some (config\<lparr>profiles := take n (profiles config)
                            @ replicate (n - length (profiles config)) default_profile\<rparr>, True)))"

text \<open>A setting of a profile whose index is in range; \<^term>\<open>None\<close> is an unknown field.\<close>

definition apply_profile_field :: "RuntimeConfig \<Rightarrow> nat \<Rightarrow> string \<Rightarrow> string \<Rightarrow> (RuntimeConfig \<times> bool) option" where
  "apply_profile_field config i field v =
     (if field = ''name'' then
        if length v > MaximumProfileNameLength then Some (config, False)
        else Some (update_profile i (\<lambda>p. p\<lparr>pr_name := v\<rparr>) config, True)
      else if field = ''tunnel_destination_ipv4'' then
        if \<not> IsValidIpv4 v then Some (config, False)
        else Some (update_profile i (\<lambda>p. p\<lparr>tunnel_destination_ipv4 := v\<rparr>) config, True)
      else if field = ''bsd_destination_ipv4'' then
        if \<not> IsValidIpv4 v then Some (config, False)
        else Some (update_profile i (\<lambda>p. p\<lparr>bsd_destination_ipv4 := v\<rparr>) config, True)
      else if field = ''udp_destination_port'' then
        Some (store_port (ParseUnsigned v) (\<lambda>port. update_profile i (\<lambda>p. p\<lparr>udp_destination_port := port\<rparr>) config) config)
      else if field = ''tcp_destination_port'' then
        Some (store_port (ParseUnsigned v) (\<lambda>port. update_profile i (\<lambda>p. p\<lparr>tcp_destination_port := port\<rparr>) config) config)
      else None)"

text \<open>The scalar settings below \<^verbatim>\<open>udp.\<close>, \<^verbatim>\<open>tcp.\<close>, \<^verbatim>\<open>tunnel_contract.\<close> and \<^verbatim>\<open>bsd_system_udp.\<close>.\<close>

definition apply_scalar :: "RuntimeConfig \<Rightarrow> string \<Rightarrow> string \<Rightarrow> (RuntimeConfig \<times> bool) option" where
  "apply_scalar config key v =
     (if key = ''udp.payload_bytes'' then
        Some (store (ParseUnsigned v) (\<lambda>n. update_udp (\<lambda>u. u\<lparr>payload_bytes := n\<rparr>) config) config)
      else if key = ''udp.datagram_count'' then
        Some (store (ParseUnsigned v) (\<lambda>n. update_udp (\<lambda>u. u\<lparr>datagram_count := n\<rparr>) config) config)
      else if key = ''udp.pacing_ms'' then
        Some (store (ParseUnsigned v) (\<lambda>n. update_udp (\<lambda>u. u\<lparr>pacing_ms := n\<rparr>) config) config)
      else if key = ''udp.concurrent_flows'' then
        Some (store (ParseUnsigned v) (\<lambda>n. update_udp (\<lambda>u. u\<lparr>concurrent_flows := n\<rparr>) config) config)
      else if key = ''udp.receive_deadline_ms'' then
        Some (store (ParseUnsigned v) (\<lambda>n. update_udp (\<lambda>u. u\<lparr>udp_receive_deadline_ms := n\<rparr>) config) config)
      else if key = ''udp.payload_seed'' then
        Some (store (ParseUnsigned v) (\<lambda>n. update_udp (\<lambda>u. u\<lparr>payload_seed := n\<rparr>) config) config)
      else if key = ''udp.echo_replies'' then
        Some (store (ParseBool v) (\<lambda>b. update_udp (\<lambda>u. u\<lparr>echo_replies := b\<rparr>) config) config)
      else if key = ''tcp.receive_deadline_ms'' then
        Some (store (ParseUnsigned v) (\<lambda>n. config\<lparr>tcp := (tcp config)\<lparr>tcp_receive_deadline_ms := n\<rparr>\<rparr>) config)
      else if key = ''tunnel_contract.verify_cloned_session_lifetime'' then
        Some (store (ParseBool v) (\<lambda>b. update_contract (\<lambda>t. t\<lparr>verify_cloned_session_lifetime := b\<rparr>) config) config)
      else if key = ''tunnel_contract.verify_mixed_batch'' then
        Some (store (ParseBool v) (\<lambda>b. update_contract (\<lambda>t. t\<lparr>verify_mixed_batch := b\<rparr>) config) config)
      else if key = ''bsd_system_udp.verify_post_route_rejection'' then
        Some (store (ParseBool v) (\<lambda>b. update_bsd (\<lambda>t. t\<lparr>verify_post_route_rejection := b\<rparr>) config) config)
      else if key = ''bsd_system_udp.expected_outcome'' then
        Some (store (ParseBsdSystemUdpExpectedOutcome v) (\<lambda>b. update_bsd (\<lambda>t. t\<lparr>expected_outcome := b\<rparr>) config) config)
      else if key = ''bsd_system_udp.require_writable_recovery'' then
        Some (store (ParseBool v) (\<lambda>b. update_bsd (\<lambda>t. t\<lparr>require_writable_recovery := b\<rparr>) config) config)
      else None)"

definition ApplySetting ::
  "RuntimeConfig \<Rightarrow> string \<Rightarrow> string \<Rightarrow> bool \<Rightarrow> string \<Rightarrow> setting_result option" where
  "ApplySetting config key v migrated error =
     (let reply = setting_reply key migrated error in
      if key = ''run.scenario'' then Some (reply (apply_scenario config v))
      else if key = ''run.next_workload_id'' then
        Some (reply (store (ParseUnsigned v) (\<lambda>n. config\<lparr>next_workload_id := n\<rparr>) config))
      else if key = ''run.active_profile'' then
        Some (reply (store (ParseUnsigned v) (\<lambda>n. config\<lparr>active_profile := n\<rparr>) config))
      else if key = ''profiles.count'' then map_option reply (apply_profile_count config v)
      else case ParseProfileKey key of
        Some (profile_index, profile_field) \<Rightarrow>
          if unat profile_index \<ge> length (profiles config) then Some (reply (config, False))
          else (case apply_profile_field config (unat profile_index) profile_field v of
                  Some r \<Rightarrow> Some (reply r)
                | None \<Rightarrow> Some \<lparr>sr_config = config, sr_ok = False, sr_migrated = migrated,
                                sr_error = ''unrecognized profile setting '' @ key\<rparr>)
      | None \<Rightarrow>
          (case apply_scalar config key v of
             Some r \<Rightarrow> Some (reply r)
           | None \<Rightarrow>
               (case ApplyLegacySetting config key v of
                  (config', True) \<Rightarrow> Some \<lparr>sr_config = config', sr_ok = True, sr_migrated = True, sr_error = error\<rparr>
                | (config', False) \<Rightarrow> Some \<lparr>sr_config = config', sr_ok = False, sr_migrated = migrated,
                                           sr_error = ''unrecognized configuration key '' @ key\<rparr>)))"

subsection \<open>Validation\<close>

text \<open>The message of the first failing check; \<^term>\<open>None\<close> means valid.\<close>

definition validate_profile :: "RuntimeProfile \<Rightarrow> string option" where
  "validate_profile p =
     (if pr_name p = [] \<or> length (pr_name p) > MaximumProfileNameLength then
        Some ''profile names must be between one and 32 characters''
      else if \<not> IsValidIpv4 (tunnel_destination_ipv4 p) \<or> \<not> IsValidIpv4 (bsd_destination_ipv4 p) then
        Some ''profile destinations must be IPv4 addresses''
      else if udp_destination_port p = 0 then
        Some ''profile UDP destination ports must be non-zero''
      else if tcp_destination_port p = 0 then
        Some ''profile TCP destination ports must be non-zero''
      else None)"

fun validate_profiles :: "RuntimeProfile list \<Rightarrow> string option" where
  "validate_profiles [] = None"
| "validate_profiles (p # ps) =
     (case validate_profile p of Some e \<Rightarrow> Some e | None \<Rightarrow> validate_profiles ps)"

definition validate_scenarios :: "tunnel_limits \<Rightarrow> RuntimeConfig \<Rightarrow> string option" where
  "validate_scenarios lim config =
     (let u = udp config; b = bsd_system_udp config; t = tunnel_contract config in
      if payload_bytes u < MinimumPayloadBytes \<or> MaximumUdpPayloadStorageBytes lim < payload_bytes u then
        Some ''udp.payload_bytes is outside the supported range''
      else if datagram_count u = 0 \<or> MaximumDatagramCount < datagram_count u then
        Some ''udp.datagram_count is outside the supported range''
      else if MaximumDurationMs < pacing_ms u \<or> udp_receive_deadline_ms u = 0
              \<or> MaximumDurationMs < udp_receive_deadline_ms u then
        Some ''udp timeout is outside the supported range''
      else if concurrent_flows u = 0 \<or> MaximumFlowsPerClient lim < concurrent_flows u then
        Some ''udp.concurrent_flows is outside the supported range''
      else if tcp_receive_deadline_ms (tcp config) = 0
              \<or> MaximumDurationMs < tcp_receive_deadline_ms (tcp config) then
        Some ''tcp.receive_deadline_ms is outside the supported range''
      else if scenario config = BsdSystemUdp \<and> expected_outcome b = NoReplyTimeout
              \<and> (echo_replies u \<or> datagram_count u \<noteq> 1 \<or> concurrent_flows u \<noteq> 1) then
        Some ''BSD no-reply timeout requires no echo, one datagram, and one flow''
      else if scenario config = BsdSystemUdp \<and> expected_outcome b = TerminalClosure
              \<and> (require_writable_recovery b \<or> \<not> echo_replies u \<or> datagram_count u \<noteq> 1
                 \<or> concurrent_flows u \<noteq> 1) then
        Some ''BSD terminal closure requires echo, one datagram, one flow, and no writable recovery''
      else if scenario config = TunnelContractValidation \<and> \<not> verify_cloned_session_lifetime t
              \<and> \<not> verify_mixed_batch t then
        Some ''tunnel contract validation must enable at least one check''
      else None)"

definition ValidateRuntimeConfig :: "tunnel_limits \<Rightarrow> RuntimeConfig \<Rightarrow> string option" where
  "ValidateRuntimeConfig lim config =
     (if profiles config = [] \<or> length (profiles config) > MaximumProfiles
         \<or> unat (active_profile config) \<ge> length (profiles config) then
        Some ''an active profile must be selected''
      else case validate_profiles (profiles config) of
        Some e \<Rightarrow> Some e
      | None \<Rightarrow> validate_scenarios lim config)"

subsection \<open>Compiled defaults\<close>

text \<open>
  The value-initialised outcome is \<^verbatim>\<open>EchoReply\<close>; the parse of the compiled name overwrites
  it when the name is known.
\<close>

definition EnableScenarioBsdSystemUdpWorkload :: bool where
  "EnableScenarioBsdSystemUdpWorkload = False"

definition EnableScenarioWgnxTunnelContractValidation :: bool where
  "EnableScenarioWgnxTunnelContractValidation = False"

definition CompiledRuntimeDefaults :: RuntimeConfig where
  "CompiledRuntimeDefaults =
     \<lparr>scenario = (if EnableScenarioBsdSystemUdpWorkload then BsdSystemUdp
        else if EnableScenarioWgnxTunnelContractValidation then TunnelContractValidation
        else DirectTunnelUdp), next_workload_id = 1, active_profile = 0,
      profiles = [\<lparr>pr_name = ''Default'', tunnel_destination_ipv4 = ''10.1.0.2'',
        bsd_destination_ipv4 = ''10.1.0.2'', udp_destination_port = 29000, tcp_destination_port = 28080\<rparr>],
      udp = \<lparr>payload_bytes = 48, datagram_count = 1, pacing_ms = 0, concurrent_flows = 1,
        udp_receive_deadline_ms = 5000, payload_seed = 0x4E585256, echo_replies = True\<rparr>,
      tcp = \<lparr>tcp_receive_deadline_ms = 5000\<rparr>,
      tunnel_contract = \<lparr>verify_cloned_session_lifetime = True, verify_mixed_batch = True\<rparr>,
      bsd_system_udp = \<lparr>verify_post_route_rejection = False,
        expected_outcome = (case ParseBsdSystemUdpExpectedOutcome ''echo'' of
          None \<Rightarrow> EchoReply | Some outcome \<Rightarrow> outcome),
        require_writable_recovery = False\<rparr>\<rparr>"

fun BsdSystemUdpExpectedOutcomeName :: "BsdSystemUdpExpectedOutcome \<Rightarrow> string" where
  "BsdSystemUdpExpectedOutcomeName EchoReply = ''echo''"
| "BsdSystemUdpExpectedOutcomeName NoReplyTimeout = ''no_reply_timeout''"
| "BsdSystemUdpExpectedOutcomeName TerminalClosure = ''terminal_closure''"

fun RuntimeScenarioName :: "RuntimeScenario \<Rightarrow> string" where
  "RuntimeScenarioName DirectTunnelUdp = ''Direct tunnel UDP''"
| "RuntimeScenarioName DirectTunnelTcp = ''Direct tunnel TCP exchange''"
| "RuntimeScenarioName BsdSystemUdp = ''BSD system UDP''"
| "RuntimeScenarioName BsdSystemTcp = ''BSD system TCP exchange''"
| "RuntimeScenarioName TunnelContractValidation = ''Tunnel contract validation''"

definition BuildTunnelUdpWorkload :: "RuntimeConfig \<Rightarrow> RuntimeProfile \<Rightarrow> u32 \<Rightarrow> TunnelUdpWorkloadConfig" where
  "BuildTunnelUdpWorkload config profile workload_id =
     \<lparr>tw_destination_ipv4 = (if scenario config = BsdSystemUdp then bsd_destination_ipv4 profile
        else tunnel_destination_ipv4 profile),
      tw_destination_port = udp_destination_port profile,
      tw_workload_id = workload_id,
      tw_payload_bytes = payload_bytes (udp config),
      tw_datagram_count = datagram_count (udp config),
      tw_pacing_ms = pacing_ms (udp config),
      tw_concurrent_flows = concurrent_flows (udp config),
      tw_receive_deadline_ms = udp_receive_deadline_ms (udp config),
      tw_payload_seed = payload_seed (udp config),
      tw_echo_replies = echo_replies (udp config)\<rparr>"

end
