(* ===== verification/ConfigText.thy ===== *)
theory ConfigText
  imports RuntimeConfig
begin

text \<open>
  The configuration file of the toolbox as text: the reading loop of
  \<^verbatim>\<open>LoadRuntimeConfig\<close>, which goes through \<^verbatim>\<open>fgets\<close> with a 512-byte line buffer, and the
  text \<^verbatim>\<open>SaveRuntimeConfig\<close> prints (\<^verbatim>\<open>toolbox/src/runtime_config.cpp\<close>). The lemmas lead to
  the round trip: loading a saved configuration gives it back.
\<close>

subsection \<open>Reading\<close>

definition newline :: char where "newline = CHR 0x0A"

text \<open>\<^verbatim>\<open>fgets(line, n, file)\<close> on the rest of the file; \<^term>\<open>None\<close> is the null result.\<close>

definition fgets :: "nat \<Rightarrow> string \<Rightarrow> (string \<times> string) option" where
  "fgets n s =
     (if s = [] then None
      else let l = take (n - 1) s;
               k = (if newline \<in> set l then length (takeWhile (\<lambda>c. c \<noteq> newline) l) + 1 else length l)
           in Some (take k s, drop k s))"

record ConfigLoadReport =
  report_config :: RuntimeConfig
  loaded_from_file :: bool
  diagnostics :: "string list"

record load_state =
  ls_config :: RuntimeConfig
  ls_diagnostics :: "string list"
  ls_migrated :: bool
  ls_line_number :: nat

definition diagnose :: "load_state \<Rightarrow> string \<Rightarrow> load_state" where
  "diagnose st msg = st\<lparr>ls_diagnostics := ls_diagnostics st @ [msg]\<rparr>"

definition line_label :: "load_state \<Rightarrow> string" where
  "line_label st = ''configuration line '' @ show_dec (ls_line_number st)"

text \<open>The body of the reading loop on one buffer filled by \<^verbatim>\<open>fgets\<close>.\<close>

definition load_line :: "load_state \<Rightarrow> string \<Rightarrow> load_state option" where
  "load_line st0 line =
     (let st = st0\<lparr>ls_line_number := ls_line_number st0 + 1\<rparr>;
          trimmed = Trim (c_str line)
      in if trimmed = [] \<or> hd trimmed = CHR ''#'' then Some st
         else case sv_find (CHR ''='') 0 trimmed of
           None \<Rightarrow> Some (diagnose st (line_label st @ '' has no '' @ [CHR 0x27] @ ''='' @ [CHR 0x27] @ '' separator''))
         | Some separator \<Rightarrow>
             let key = Trim (sv_substr 0 separator trimmed);
                 v = Trim (drop (separator + 1) trimmed)
             in if key = [] \<or> v = [] then
                  Some (diagnose st (line_label st @ '' has an empty key or value''))
                else case ApplySetting (ls_config st) key v (ls_migrated st) [] of
                  None \<Rightarrow> None
                | Some r \<Rightarrow>
                    let st' = st\<lparr>ls_config := sr_config r, ls_migrated := sr_migrated r\<rparr>
                    in Some (if sr_ok r then st'
                             else diagnose st' (line_label st' @ '': '' @ sr_error r)))"

lemma fgets_shorter:
  "fgets n s = Some (l, r) \<Longrightarrow> 1 < n \<Longrightarrow> length r < length s"
  by (auto simp: fgets_def Let_def split: if_splits)

function load_lines :: "load_state \<Rightarrow> string \<Rightarrow> load_state option" where
  "load_lines st file =
     (case fgets 512 file of
        None \<Rightarrow> Some st
      | Some (line, rest) \<Rightarrow>
          (case load_line st line of None \<Rightarrow> None | Some st' \<Rightarrow> load_lines st' rest))"
  by pat_completeness auto

termination
  by (relation "measure (\<lambda>(st, file). length file)") (auto dest: fgets_shorter)

declare load_lines.simps [simp del]

text \<open>
  What \<^verbatim>\<open>fopen\<close> returned: the \<^verbatim>\<open>errno\<close> of the failure with its \<^verbatim>\<open>strerror\<close> text, or the
  contents of the file. \<open>enoent\<close> is the platform's \<^verbatim>\<open>ENOENT\<close>.
\<close>

datatype open_result = OpenFailed int string | Opened string

definition LoadRuntimeConfig ::
  "int \<Rightarrow> tunnel_limits \<Rightarrow> RuntimeConfig \<Rightarrow> open_result \<Rightarrow> ConfigLoadReport option" where
  "LoadRuntimeConfig enoent lim defaults file =
     (case file of
        OpenFailed e message \<Rightarrow>
          Some \<lparr>report_config = defaults, loaded_from_file = False,
                diagnostics = (if e \<noteq> enoent then [''unable to read configuration: '' @ message] else [])\<rparr>
      | Opened contents \<Rightarrow>
          (case load_lines \<lparr>ls_config = defaults, ls_diagnostics = [], ls_migrated = False,
                            ls_line_number = 0\<rparr> contents of
             None \<Rightarrow> None
           | Some st \<Rightarrow>
               let st' = (if ls_migrated st then diagnose st
                      ''legacy runtime configuration loaded; save to rewrite it as profiles and scenario settings''
                    else st)
               in (case ValidateRuntimeConfig lim (ls_config st') of
                     None \<Rightarrow> Some \<lparr>report_config = ls_config st', loaded_from_file = True,
                                   diagnostics = ls_diagnostics st'\<rparr>
                   | Some e \<Rightarrow> Some \<lparr>report_config = defaults, loaded_from_file = True,
                       diagnostics = ls_diagnostics st' @
                         [''configuration is invalid; using compiled defaults: '' @ e]\<rparr>)))"

subsection \<open>Printing\<close>

fun saved_scenario :: "RuntimeScenario \<Rightarrow> string" where
  "saved_scenario DirectTunnelUdp = ''direct_tunnel_udp''"
| "saved_scenario DirectTunnelTcp = ''direct_tunnel_tcp''"
| "saved_scenario BsdSystemUdp = ''bsd_system_udp''"
| "saved_scenario BsdSystemTcp = ''bsd_system_tcp''"
| "saved_scenario TunnelContractValidation = ''tunnel_contract_validation''"

definition saved_bool :: "bool \<Rightarrow> string" where
  "saved_bool b = (if b then ''true'' else ''false'')"

definition saved_word :: "'a::len word \<Rightarrow> string" where
  "saved_word w = show_dec (unat w)"

definition run_entries :: "RuntimeConfig \<Rightarrow> (string \<times> string) list" where
  "run_entries config =
     [(''run.scenario'', saved_scenario (scenario config)),
      (''run.next_workload_id'', saved_word (next_workload_id config)),
      (''run.active_profile'', saved_word (active_profile config)),
      (''profiles.count'', show_dec (length (profiles config)))]"

definition profile_key :: "nat \<Rightarrow> string \<Rightarrow> string" where
  "profile_key index field = ''profile.'' @ show_dec index @ CHR ''.'' # field"

definition profile_entries :: "nat \<Rightarrow> RuntimeProfile \<Rightarrow> (string \<times> string) list" where
  "profile_entries index p =
     [(profile_key index ''name'', c_str (pr_name p)),
      (profile_key index ''tunnel_destination_ipv4'', c_str (tunnel_destination_ipv4 p)),
      (profile_key index ''bsd_destination_ipv4'', c_str (bsd_destination_ipv4 p)),
      (profile_key index ''udp_destination_port'', saved_word (udp_destination_port p)),
      (profile_key index ''tcp_destination_port'', saved_word (tcp_destination_port p))]"

definition scalar_entries :: "RuntimeConfig \<Rightarrow> (string \<times> string) list" where
  "scalar_entries config =
     [(''udp.payload_bytes'', saved_word (payload_bytes (udp config))),
      (''udp.datagram_count'', saved_word (datagram_count (udp config))),
      (''udp.pacing_ms'', saved_word (pacing_ms (udp config))),
      (''udp.concurrent_flows'', saved_word (concurrent_flows (udp config))),
      (''udp.receive_deadline_ms'', saved_word (udp_receive_deadline_ms (udp config))),
      (''udp.payload_seed'', saved_word (payload_seed (udp config))),
      (''udp.echo_replies'', saved_bool (echo_replies (udp config))),
      (''tcp.receive_deadline_ms'', saved_word (tcp_receive_deadline_ms (tcp config))),
      (''tunnel_contract.verify_cloned_session_lifetime'',
         saved_bool (verify_cloned_session_lifetime (tunnel_contract config))),
      (''tunnel_contract.verify_mixed_batch'', saved_bool (verify_mixed_batch (tunnel_contract config))),
      (''bsd_system_udp.verify_post_route_rejection'',
         saved_bool (verify_post_route_rejection (bsd_system_udp config))),
      (''bsd_system_udp.expected_outcome'',
         BsdSystemUdpExpectedOutcomeName (expected_outcome (bsd_system_udp config))),
      (''bsd_system_udp.require_writable_recovery'',
         saved_bool (require_writable_recovery (bsd_system_udp config)))]"

fun all_profile_entries :: "nat \<Rightarrow> RuntimeProfile list \<Rightarrow> (string \<times> string) list" where
  "all_profile_entries index [] = []"
| "all_profile_entries index (p # ps) = profile_entries index p @ all_profile_entries (index + 1) ps"

definition entry_line :: "string \<times> string \<Rightarrow> string" where
  "entry_line e = fst e @ CHR ''='' # snd e @ [newline]"

definition config_text :: "RuntimeConfig \<Rightarrow> string" where
  "config_text config =
     ''# NX Reversing Toolbox runtime configuration'' @ [newline]
     @ concat (map entry_line (run_entries config
         @ all_profile_entries 0 (profiles config) @ scalar_entries config))"

subsection \<open>Lines that the loop reads back\<close>

definition clean_char :: "char \<Rightarrow> bool" where
  "clean_char c \<longleftrightarrow> c \<noteq> newline \<and> c \<noteq> CHR 0x00"

text \<open>A key or a value that survives trimming and line splitting.\<close>

definition clean_text :: "string \<Rightarrow> bool" where
  "clean_text s \<longleftrightarrow> s \<noteq> [] \<and> (\<forall>c \<in> set s. clean_char c)
     \<and> \<not> is_trim_space (hd s) \<and> \<not> is_trim_space (last s)"

definition clean_key :: "string \<Rightarrow> bool" where
  "clean_key s \<longleftrightarrow> clean_text s \<and> CHR ''='' \<notin> set s \<and> hd s \<noteq> CHR ''#''"

definition entry_ok :: "string \<times> string \<Rightarrow> bool" where
  "entry_ok e \<longleftrightarrow> clean_key (fst e) \<and> clean_text (snd e) \<and> length (fst e) + length (snd e) < 500"

lemma dropWhile_hd: "s = [] \<or> \<not> P (hd s) \<Longrightarrow> dropWhile P s = s"
  by (cases s) auto

lemma Trim_clean: "clean_text s \<Longrightarrow> Trim s = s"
  by (simp add: Trim_def clean_text_def dropWhile_hd hd_rev)

lemma Trim_clean_newline: "clean_text s \<Longrightarrow> Trim (s @ [newline]) = s"
proof -
  assume s: "clean_text s"
  then have "\<not> is_trim_space (hd (s @ [newline]))" by (auto simp: clean_text_def)
  then have "dropWhile is_trim_space (s @ [newline]) = s @ [newline]" by (simp add: dropWhile_hd)
  moreover have "dropWhile is_trim_space (rev (s @ [newline])) = rev s"
    using s by (simp add: clean_text_def dropWhile_hd hd_rev) (simp add: is_trim_space_def newline_def)
  ultimately show ?thesis by (simp add: Trim_def)
qed

lemma c_str_clean: "\<forall>c \<in> set s. clean_char c \<Longrightarrow> c_str s = s"
  by (auto simp: c_str_def clean_char_def takeWhile_eq_all_conv)

lemma c_str_clean_newline: "\<forall>c \<in> set s. clean_char c \<Longrightarrow> c_str (s @ [newline]) = s @ [newline]"
  by (auto simp: c_str_def clean_char_def takeWhile_eq_all_conv newline_def)

lemma fgets_line:
  assumes "\<forall>c \<in> set l. c \<noteq> newline" "length l < 511"
  shows "fgets 512 (l @ newline # rest) = Some (l @ [newline], rest)"
proof -
  have "take 511 (l @ newline # rest) = l @ newline # take (510 - length l) rest"
    using assms(2) by (simp add: take_Cons')
  moreover have "takeWhile (\<lambda>c. c \<noteq> newline) (l @ newline # xs) = l" for xs
    using assms(1) by (simp add: takeWhile_append2)
  ultimately show ?thesis by (simp add: fgets_def Let_def)
qed

lemma entry_body_clean:
  assumes "entry_ok (k, v)"
  shows "clean_text (k @ CHR ''='' # v)"
  using assms by (auto simp: entry_ok_def clean_key_def clean_text_def clean_char_def newline_def)

lemma load_line_setting:
  assumes e: "entry_ok (k, v)"
    and r: "ApplySetting (ls_config st) k v (ls_migrated st) [] = Some r"
    and st': "st' = st\<lparr>ls_line_number := ls_line_number st + 1, ls_config := sr_config r, ls_migrated := sr_migrated r\<rparr>"
  shows "load_line st (k @ CHR ''='' # v @ [newline]) =
    Some (if sr_ok r then st' else diagnose st' (line_label st' @ '': '' @ sr_error r))"
proof -
  from e have k: "clean_key k" "clean_text k" "k \<noteq> []" and v: "clean_text v" "v \<noteq> []"
    by (auto simp: entry_ok_def clean_key_def clean_text_def)
  note body = entry_body_clean [OF e]
  have cs: "c_str (k @ CHR ''='' # v @ [newline]) = k @ CHR ''='' # v @ [newline]"
    using c_str_clean_newline [of "k @ CHR ''='' # v"] body by (simp add: clean_text_def)
  have tr: "Trim (k @ CHR ''='' # v @ [newline]) = k @ CHR ''='' # v"
    using Trim_clean_newline [OF body] by simp
  have "hd (k @ CHR ''='' # v) \<noteq> CHR ''#''" using k by (auto simp: clean_key_def)
  moreover have "sv_find CHR ''='' 0 (k @ CHR ''='' # v) = Some (length k)"
    using k by (intro sv_find_append) (simp add: clean_key_def)
  ultimately show ?thesis
    using r k v st' by (simp add: load_line_def cs tr Let_def sv_substr_def Trim_clean)
qed

lemma load_line_entry:
  assumes "entry_ok (k, v)"
    and "ApplySetting (ls_config st) k v (ls_migrated st) [] =
      Some \<lparr>sr_config = c', sr_ok = True, sr_migrated = ls_migrated st, sr_error = []\<rparr>"
  shows "load_line st (k @ CHR ''='' # v @ [newline]) =
    Some (st\<lparr>ls_config := c', ls_line_number := ls_line_number st + 1\<rparr>)"
  using load_line_setting [OF assms refl] by simp

lemma load_lines_entry:
  assumes "entry_ok e"
    and "ApplySetting (ls_config st) (fst e) (snd e) (ls_migrated st) [] =
      Some \<lparr>sr_config = c', sr_ok = True, sr_migrated = ls_migrated st, sr_error = []\<rparr>"
  shows "load_lines st (entry_line e @ rest) =
    load_lines (st\<lparr>ls_config := c', ls_line_number := ls_line_number st + 1\<rparr>) rest"
proof -
  obtain k v where e: "e = (k, v)" by (cases e)
  have "\<forall>c \<in> set (k @ CHR ''='' # v). c \<noteq> newline"
    using entry_body_clean [of k v] assms(1) e by (auto simp: clean_text_def clean_char_def)
  then have "fgets 512 ((k @ CHR ''='' # v) @ newline # rest) = Some ((k @ CHR ''='' # v) @ [newline], rest)"
    using assms(1) e by (intro fgets_line) (auto simp: entry_ok_def)
  with load_line_entry [of k v st c'] assms e show ?thesis
    by (subst load_lines.simps) (simp add: entry_line_def)
qed

text \<open>Entries that are applied one after the other, without an error or a legacy key.\<close>

definition applies :: "RuntimeConfig \<Rightarrow> string \<times> string \<Rightarrow> RuntimeConfig \<Rightarrow> bool" where
  "applies c e c' \<longleftrightarrow> entry_ok e \<and>
     (\<forall>m error. ApplySetting c (fst e) (snd e) m error =
       Some \<lparr>sr_config = c', sr_ok = True, sr_migrated = m, sr_error = error\<rparr>)"

fun applies_all :: "RuntimeConfig \<Rightarrow> (string \<times> string) list \<Rightarrow> RuntimeConfig \<Rightarrow> bool" where
  "applies_all c [] c' \<longleftrightarrow> c' = c"
| "applies_all c (e # es) c' \<longleftrightarrow> (\<exists>c1. applies c e c1 \<and> applies_all c1 es c')"

lemma applies_all_append:
  "applies_all c es c1 \<Longrightarrow> applies_all c1 fs c2 \<Longrightarrow> applies_all c (es @ fs) c2"
  by (induction es arbitrary: c) auto

lemma load_lines_applies_all:
  assumes "applies_all (ls_config st) es c'"
  shows "load_lines st (concat (map entry_line es)) =
    Some (st\<lparr>ls_config := c', ls_line_number := ls_line_number st + length es\<rparr>)"
  using assms
proof (induction es arbitrary: st)
  case Nil
  then show ?case by (subst load_lines.simps) (simp add: fgets_def)
next
  case (Cons e es)
  then obtain c1 where c1: "applies (ls_config st) e c1" "applies_all c1 es c'" by auto
  then have "load_lines st (entry_line e @ concat (map entry_line es)) =
      load_lines (st\<lparr>ls_config := c1, ls_line_number := ls_line_number st + 1\<rparr>) (concat (map entry_line es))"
    by (intro load_lines_entry) (auto simp: applies_def)
  with Cons.IH [of "st\<lparr>ls_config := c1, ls_line_number := ls_line_number st + 1\<rparr>"] c1
  show ?case by simp
qed

end
