(* ===== verification/ConfigRoundTrip.thy ===== *)
theory ConfigRoundTrip
  imports ConfigText
begin

text \<open>
  Loading a saved configuration gives it back. The interface \<open>text_codec\<close> is what the
  saved settings rely on: a printer and a parser that invert each other and a printed
  value that survives line splitting and trimming. It is interpreted on the integer,
  boolean and outcome values of \<^verbatim>\<open>toolbox/src/runtime_config.cpp\<close>.
\<close>

locale text_codec =
  fixes print :: "'v \<Rightarrow> string" and parse :: "string \<Rightarrow> 'v option"
  assumes parse_print: "parse (print x) = Some x"
    and print_clean: "clean_text (print x)"
    and print_short: "length (print x) \<le> 30"
begin

lemma store_print: "store (parse (print x)) upd c = (upd x, True)"
  by (simp add: store_def parse_print)

lemma entry_printed: "clean_key k \<Longrightarrow> length k < 400 \<Longrightarrow> entry_ok (k, print x)"
  using print_clean [of x] print_short [of x] by (simp add: entry_ok_def)

end

lemma clean_digits:
  assumes "s \<noteq> []" "\<forall>c \<in> set s. is_digit c"
  shows "clean_text s"
proof -
  have "hd s \<in> set s" "last s \<in> set s" using assms by auto
  moreover have "clean_char c" "\<not> is_trim_space c" if "is_digit c" for c
    using that by (auto simp: is_digit_def clean_char_def newline_def is_trim_space_def)
  ultimately show ?thesis using assms by (auto simp: clean_text_def)
qed

lemma clean_show_dec: "clean_text (show_dec n)"
  by (intro clean_digits) (auto dest: show_dec_digits)

lemma length_show_word64: "LENGTH('a) \<le> 64 \<Longrightarrow> length (show_dec (unat (w :: 'a::len word))) \<le> 20"
proof (rule length_show_word)
  assume "LENGTH('a) \<le> 64"
  then have "(2::nat) ^ LENGTH('a) \<le> 2 ^ 64" by (rule power_increasing) simp
  then show "2 ^ LENGTH('a) \<le> (10::nat) ^ 20" by simp
qed simp

interpretation codec16: text_codec "saved_word :: u16 \<Rightarrow> string" ParseUnsigned
  by unfold_locales (auto simp: saved_word_def clean_show_dec intro!: order_trans [OF length_show_word64])

interpretation codec32: text_codec "saved_word :: u32 \<Rightarrow> string" ParseUnsigned
  by unfold_locales (auto simp: saved_word_def clean_show_dec intro!: order_trans [OF length_show_word64])

interpretation codec64: text_codec "saved_word :: u64 \<Rightarrow> string" ParseUnsigned
  by unfold_locales (auto simp: saved_word_def clean_show_dec intro!: order_trans [OF length_show_word64])

lemmas clean_literal = clean_text_def clean_key_def clean_char_def newline_def is_trim_space_def

interpretation codec_bool: text_codec saved_bool ParseBool
  by unfold_locales (auto simp: saved_bool_def ParseBool_def clean_literal)

interpretation codec_outcome: text_codec BsdSystemUdpExpectedOutcomeName ParseBsdSystemUdpExpectedOutcome
proof unfold_locales
  fix x :: BsdSystemUdpExpectedOutcome
  show "ParseBsdSystemUdpExpectedOutcome (BsdSystemUdpExpectedOutcomeName x) = Some x"
    by (cases x) (simp_all add: ParseBsdSystemUdpExpectedOutcome_def)
  show "clean_text (BsdSystemUdpExpectedOutcomeName x)"
    by (cases x) (simp_all add: clean_literal)
  show "length (BsdSystemUdpExpectedOutcomeName x) \<le> 30"
    by (cases x) simp_all
qed

lemmas codec_store = codec16.store_print codec32.store_print codec64.store_print
  codec_bool.store_print codec_outcome.store_print

lemmas codec_entry = codec16.entry_printed codec32.entry_printed codec64.entry_printed
  codec_bool.entry_printed codec_outcome.entry_printed

subsection \<open>Each saved line sets its field\<close>

lemma applies_scalarI:
  assumes "entry_ok (k, v)" "apply_scalar c k v = Some (c', True)"
    and "\<not> sv_starts_with ''profile'' k" "\<not> sv_starts_with ''run'' k"
  shows "applies c (k, v) c'"
proof -
  have "\<not> sv_starts_with ''profile.'' k"
    using assms(3) by (auto simp: sv_starts_with_iff)
  then have "ParseProfileKey k = None" by (simp add: ParseProfileKey_def)
  moreover have "k \<noteq> ''run.scenario'' \<and> k \<noteq> ''run.next_workload_id'' \<and> k \<noteq> ''run.active_profile''
      \<and> k \<noteq> ''profiles.count''"
    using assms(3,4) by (auto simp: sv_starts_with_def)
  ultimately show ?thesis
    using assms(1,2) by (simp add: applies_def ApplySetting_def setting_reply_def)
qed

lemmas key_simps = apply_scalar_def sv_starts_with_def clean_literal codec_store

lemma applies_udp:
  "applies c (''udp.payload_bytes'', saved_word w64) (update_udp (\<lambda>u. u\<lparr>payload_bytes := w64\<rparr>) c)"
  "applies c (''udp.datagram_count'', saved_word w) (update_udp (\<lambda>u. u\<lparr>datagram_count := w\<rparr>) c)"
  "applies c (''udp.pacing_ms'', saved_word w) (update_udp (\<lambda>u. u\<lparr>pacing_ms := w\<rparr>) c)"
  "applies c (''udp.concurrent_flows'', saved_word w) (update_udp (\<lambda>u. u\<lparr>concurrent_flows := w\<rparr>) c)"
  "applies c (''udp.receive_deadline_ms'', saved_word w) (update_udp (\<lambda>u. u\<lparr>udp_receive_deadline_ms := w\<rparr>) c)"
  "applies c (''udp.payload_seed'', saved_word w) (update_udp (\<lambda>u. u\<lparr>payload_seed := w\<rparr>) c)"
  "applies c (''udp.echo_replies'', saved_bool b) (update_udp (\<lambda>u. u\<lparr>echo_replies := b\<rparr>) c)"
  "applies c (''tcp.receive_deadline_ms'', saved_word w)
     (c\<lparr>tcp := (tcp c)\<lparr>tcp_receive_deadline_ms := w\<rparr>\<rparr>)"
  by (rule applies_scalarI; simp add: key_simps codec_entry)+

lemma applies_checks:
  "applies c (''tunnel_contract.verify_cloned_session_lifetime'', saved_bool b)
     (update_contract (\<lambda>t. t\<lparr>verify_cloned_session_lifetime := b\<rparr>) c)"
  "applies c (''tunnel_contract.verify_mixed_batch'', saved_bool b)
     (update_contract (\<lambda>t. t\<lparr>verify_mixed_batch := b\<rparr>) c)"
  "applies c (''bsd_system_udp.verify_post_route_rejection'', saved_bool b)
     (update_bsd (\<lambda>t. t\<lparr>verify_post_route_rejection := b\<rparr>) c)"
  "applies c (''bsd_system_udp.expected_outcome'', BsdSystemUdpExpectedOutcomeName e)
     (update_bsd (\<lambda>t. t\<lparr>expected_outcome := e\<rparr>) c)"
  "applies c (''bsd_system_udp.require_writable_recovery'', saved_bool b)
     (update_bsd (\<lambda>t. t\<lparr>require_writable_recovery := b\<rparr>) c)"
  by (rule applies_scalarI; simp add: key_simps codec_entry)+

lemma applies_all_ConsI:
  "applies c e c1 \<Longrightarrow> applies_all c1 es c' \<Longrightarrow> applies_all c (e # es) c'"
  by auto

lemma applies_all_scalar:
  "applies_all c (scalar_entries g)
     (c\<lparr>udp := udp g, tcp := tcp g, tunnel_contract := tunnel_contract g, bsd_system_udp := bsd_system_udp g\<rparr>)"
  unfolding scalar_entries_def
  by (rule applies_all_ConsI, rule applies_udp applies_checks)+
    (simp add: update_udp_def update_contract_def update_bsd_def)

lemma applies_run:
  "applies c (''run.scenario'', saved_scenario s) (c\<lparr>scenario := s\<rparr>)"
  "applies c (''run.next_workload_id'', saved_word w) (c\<lparr>next_workload_id := w\<rparr>)"
  "applies c (''run.active_profile'', saved_word w64) (c\<lparr>active_profile := w64\<rparr>)"
proof -
  show "applies c (''run.scenario'', saved_scenario s) (c\<lparr>scenario := s\<rparr>)"
    by (cases s) (simp_all add: applies_def entry_ok_def clean_literal ApplySetting_def
        apply_scenario_def ParseRuntimeScenario_def setting_reply_def)
  show "applies c (''run.next_workload_id'', saved_word w) (c\<lparr>next_workload_id := w\<rparr>)"
    "applies c (''run.active_profile'', saved_word w64) (c\<lparr>active_profile := w64\<rparr>)"
    by (simp_all add: applies_def codec_entry clean_literal ApplySetting_def setting_reply_def codec_store)
qed

definition resized :: "nat \<Rightarrow> RuntimeProfile list \<Rightarrow> RuntimeProfile list" where
  "resized n ps = take n ps @ replicate (n - length ps) (hd ps)"

lemma length_resized [simp]: "length (resized n ps) = n"
  by (simp add: resized_def)

lemma applies_profile_count:
  assumes "profiles c \<noteq> []" "0 < n" "n \<le> MaximumProfiles"
  shows "applies c (''profiles.count'', show_dec n) (c\<lparr>profiles := resized n (profiles c)\<rparr>)"
proof -
  have n: "n < 2 ^ LENGTH(64)" using assms(3) by (simp add: MaximumProfiles_def)
  then have u: "unat (of_nat n :: u64) = n" by (simp add: unat_of_nat_small)
  have "ParseUnsigned (show_dec n) = Some (of_nat n :: u64)"
    using ParseUnsigned_show_dec [of "of_nat n :: u64"] by (simp add: u)
  with assms u have "apply_profile_count c (show_dec n) = Some (c\<lparr>profiles := resized n (profiles c)\<rparr>, True)"
    by (auto simp: apply_profile_count_def resized_def split: list.splits)
  moreover have "length (show_dec n) \<le> 20"
    using length_show_word64 [of "of_nat n :: u64"] by (simp add: u)
  ultimately show ?thesis
    using clean_show_dec [of n]
    by (simp add: applies_def entry_ok_def ApplySetting_def setting_reply_def) (simp add: clean_literal)
qed

subsection \<open>The profile lines\<close>

definition clean_profile :: "RuntimeProfile \<Rightarrow> bool" where
  "clean_profile p \<longleftrightarrow> clean_text (pr_name p) \<and> length (pr_name p) \<le> MaximumProfileNameLength
     \<and> IsValidIpv4 (tunnel_destination_ipv4 p) \<and> IsValidIpv4 (bsd_destination_ipv4 p)
     \<and> udp_destination_port p \<noteq> 0 \<and> tcp_destination_port p \<noteq> 0"

lemma dotted_text: "dotted n s \<Longrightarrow> s \<noteq> [] \<and> length s \<le> 3 + 4 * n \<and> (\<forall>c \<in> set s. is_digit c \<or> c = CHR ''.'')"
  by (induction n arbitrary: s) (fastforce simp: octet_text_def)+

lemma ipv4_value:
  assumes "IsValidIpv4 s"
  shows "c_str s = s" "clean_text s" "length s \<le> 15"
proof -
  from assms have d: "dotted 3 s" by (simp add: IsValidIpv4_iff ipv4_text_def del: dotted.simps)
  then have cs: "s \<noteq> []" "\<forall>c \<in> set s. is_digit c \<or> c = CHR ''.''" "length s \<le> 15"
    using dotted_text [OF d] by auto
  moreover have "clean_char c \<and> \<not> is_trim_space c" if "is_digit c \<or> c = CHR ''.''" for c
    using that by (auto simp: is_digit_def clean_char_def newline_def is_trim_space_def)
  moreover have "hd s \<in> set s" "last s \<in> set s" using cs by auto
  ultimately show "clean_text s" "length s \<le> 15" by (auto simp: clean_text_def)
  then show "c_str s = s" by (simp add: c_str_clean clean_text_def)
qed

lemma profile_key_clean:
  assumes "clean_text f" "CHR ''='' \<notin> set f" "length f < 100"
  shows "clean_key (profile_key i f)"
proof -
  have "clean_char c \<and> c \<noteq> CHR ''=''" if "c \<in> set (show_dec i)" for c
    using show_dec_digits [OF that] by (auto simp: is_digit_def clean_char_def newline_def)
  then show ?thesis
    using assms by (auto simp: profile_key_def clean_key_def clean_text_def clean_char_def newline_def is_trim_space_def)
qed

lemma ParseProfileKey_profile_key:
  assumes "i < 2 ^ 64"
  shows "ParseProfileKey (profile_key i f) = Some (of_nat i, f)"
proof -
  have u: "unat (of_nat i :: u64) = i" using assms by (simp add: unat_of_nat_small)
  have p: "ParseUnsigned (show_dec i) = Some (of_nat i :: u64)"
    using ParseUnsigned_show_dec [of "of_nat i :: u64"] by (simp add: u)
  have "CHR ''.'' \<notin> set (show_dec i)" using show_dec_digits dot_not_digit by blast
  then have "sv_find CHR ''.'' 0 (show_dec i @ CHR ''.'' # f) = Some (length (show_dec i))"
    by (rule sv_find_append)
  with p show ?thesis
    by (simp add: ParseProfileKey_def profile_key_def sv_starts_with_def sv_substr_def Let_def)
qed

lemma applies_profileI:
  assumes "apply_profile_field c i f v = Some (c', True)"
    and "i < length (profiles c)" "i < 8" "clean_text f" "CHR ''='' \<notin> set f" "length f < 100"
    and "clean_text v" "length v \<le> 32"
  shows "applies c (profile_key i f, v) c'"
proof -
  have u: "unat (of_nat i :: u64) = i" using assms(3) by (simp add: unat_of_nat_small)
  have l: "length (show_dec i) \<le> 20"
    using length_show_word64 [of "of_nat i :: u64"] by (simp add: u)
  then have "entry_ok (profile_key i f, v)"
    using assms profile_key_clean [of f i] by (simp add: entry_ok_def profile_key_def)
  moreover have "profile_key i f \<noteq> ''run.scenario''" "profile_key i f \<noteq> ''run.next_workload_id''"
    "profile_key i f \<noteq> ''run.active_profile''" "profile_key i f \<noteq> ''profiles.count''"
    by (simp_all add: profile_key_def)
  ultimately show ?thesis
    using assms(1,2) ParseProfileKey_profile_key [of i f] assms(3) u
    by (simp add: applies_def ApplySetting_def setting_reply_def)
qed

lemma applies_profile_fields:
  assumes "i < length (profiles c)" "i < 8"
  shows
  "clean_text n \<Longrightarrow> length n \<le> 32 \<Longrightarrow>
     applies c (profile_key i ''name'', n) (update_profile i (\<lambda>p. p\<lparr>pr_name := n\<rparr>) c)"
  "IsValidIpv4 a \<Longrightarrow> applies c (profile_key i ''tunnel_destination_ipv4'', a)
     (update_profile i (\<lambda>p. p\<lparr>tunnel_destination_ipv4 := a\<rparr>) c)"
  "IsValidIpv4 a \<Longrightarrow> applies c (profile_key i ''bsd_destination_ipv4'', a)
     (update_profile i (\<lambda>p. p\<lparr>bsd_destination_ipv4 := a\<rparr>) c)"
  "port \<noteq> 0 \<Longrightarrow> applies c (profile_key i ''udp_destination_port'', saved_word port)
     (update_profile i (\<lambda>p. p\<lparr>udp_destination_port := port\<rparr>) c)"
  "port \<noteq> 0 \<Longrightarrow> applies c (profile_key i ''tcp_destination_port'', saved_word port)
     (update_profile i (\<lambda>p. p\<lparr>tcp_destination_port := port\<rparr>) c)"
proof -
  show "applies c (profile_key i ''name'', n) (update_profile i (\<lambda>p. p\<lparr>pr_name := n\<rparr>) c)"
    if "clean_text n" "length n \<le> 32"
    using assms that
    by (intro applies_profileI) (simp_all add: apply_profile_field_def MaximumProfileNameLength_def clean_literal)
  show "applies c (profile_key i ''tunnel_destination_ipv4'', a)
     (update_profile i (\<lambda>p. p\<lparr>tunnel_destination_ipv4 := a\<rparr>) c)"
    "applies c (profile_key i ''bsd_destination_ipv4'', a)
     (update_profile i (\<lambda>p. p\<lparr>bsd_destination_ipv4 := a\<rparr>) c)" if "IsValidIpv4 a"
    using assms that ipv4_value [OF that]
    by (intro applies_profileI; simp add: apply_profile_field_def; simp add: clean_literal)+
  show "applies c (profile_key i ''udp_destination_port'', saved_word port)
     (update_profile i (\<lambda>p. p\<lparr>udp_destination_port := port\<rparr>) c)"
    "applies c (profile_key i ''tcp_destination_port'', saved_word port)
     (update_profile i (\<lambda>p. p\<lparr>tcp_destination_port := port\<rparr>) c)" if "port \<noteq> 0"
    using assms that codec16.print_clean [of port] codec16.print_short [of port]
    by (intro applies_profileI;
        simp add: apply_profile_field_def store_port_def codec16.parse_print; simp add: clean_literal)+
qed

lemma applies_all_profile:
  assumes "i < length (profiles c)" "i < 8" "clean_profile p"
  shows "applies_all c (profile_entries i p) (c\<lparr>profiles := (profiles c)[i := p]\<rparr>)"
proof -
  have names: "c_str (pr_name p) = pr_name p" "c_str (tunnel_destination_ipv4 p) = tunnel_destination_ipv4 p"
    "c_str (bsd_destination_ipv4 p) = bsd_destination_ipv4 p"
    using assms(3) by (auto simp: clean_profile_def ipv4_value clean_text_def intro!: c_str_clean)
  have len: "i < length (profiles (update_profile i f d))" if "i < length (profiles d)" for f d
    using that by (simp add: update_profile_def)
  have full: "r\<lparr>pr_name := pr_name p, tunnel_destination_ipv4 := tunnel_destination_ipv4 p,
      bsd_destination_ipv4 := bsd_destination_ipv4 p, udp_destination_port := udp_destination_port p,
      tcp_destination_port := tcp_destination_port p\<rparr> = p" for r :: RuntimeProfile
    by (cases p; cases r) simp
  note step = applies_profile_fields [THEN applies_all_ConsI]
  show ?thesis
    unfolding profile_entries_def names
    using assms len
    by - (rule step(1), (simp_all add: clean_profile_def MaximumProfileNameLength_def)[4],
      (rule step(2) step(3) step(4) step(5), (simp_all add: clean_profile_def)[3])+,
      simp add: update_profile_def full)
qed

lemma applies_all_profiles:
  assumes "length (profiles c) = i + length ps" "i + length ps \<le> 8" "\<forall>p \<in> set ps. clean_profile p"
  shows "applies_all c (all_profile_entries i ps) (c\<lparr>profiles := take i (profiles c) @ ps\<rparr>)"
  using assms
proof (induction ps arbitrary: i c)
  case (Cons p ps)
  let ?c1 = "c\<lparr>profiles := (profiles c)[i := p]\<rparr>"
  have "applies_all c (profile_entries i p) ?c1"
    using Cons.prems by (intro applies_all_profile) auto
  moreover have "take (Suc i) ((profiles c)[i := p]) = take i (profiles c) @ [p]"
    using Cons.prems by (simp add: take_Suc_conv_app_nth)
  with Cons.IH [of ?c1 "Suc i"] Cons.prems
  have "applies_all ?c1 (all_profile_entries (i + 1) ps) (c\<lparr>profiles := take i (profiles c) @ p # ps\<rparr>)"
    by simp
  ultimately show ?case by (auto intro: applies_all_append)
qed simp

subsection \<open>The whole file\<close>

lemma validate_profiles_None: "validate_profiles ps = None \<longleftrightarrow> (\<forall>p \<in> set ps. validate_profile p = None)"
  by (induction ps) (auto split: option.splits)

lemma Validate_profiles:
  assumes "ValidateRuntimeConfig lim config = None" "p \<in> set (profiles config)"
  shows "validate_profile p = None"
  using assms by (auto simp: ValidateRuntimeConfig_def validate_profiles_None split: if_splits option.splits)

lemma Validate_profile_count:
  assumes "ValidateRuntimeConfig lim config = None"
  shows "profiles config \<noteq> []" "length (profiles config) \<le> MaximumProfiles"
    "unat (active_profile config) < length (profiles config)"
  using assms by (auto simp: ValidateRuntimeConfig_def split: if_splits)

text \<open>A profile name that the file format can carry: no line break or NUL, not padded.\<close>

definition portable_name :: "string \<Rightarrow> bool" where
  "portable_name s \<longleftrightarrow> (\<forall>c \<in> set s. clean_char c) \<and> Trim s = s"

lemma dropWhile_full: "length s \<le> length (dropWhile P s) \<Longrightarrow> s = [] \<or> \<not> P (hd s)"
  using length_dropWhile_le [of P "tl s"] by (cases s) auto

lemma Trim_fixed_ends:
  assumes "Trim s = s" "s \<noteq> []"
  shows "\<not> is_trim_space (hd s) \<and> \<not> is_trim_space (last s)"
proof -
  let ?d = "dropWhile is_trim_space s"
  have t: "rev (dropWhile is_trim_space (rev ?d)) = s" using assms(1) by (simp add: Trim_def)
  have "length s \<le> length ?d"
    using arg_cong [OF t, of length] length_dropWhile_le [of is_trim_space "rev ?d"] by simp
  then have h: "\<not> is_trim_space (hd s)" using dropWhile_full [of s is_trim_space] assms(2) by simp
  then have "?d = s" by (simp add: dropWhile_hd)
  then have "length (rev s) \<le> length (dropWhile is_trim_space (rev s))"
    using arg_cong [OF t, of length] by simp
  then have "\<not> is_trim_space (hd (rev s))"
    using dropWhile_full [of "rev s" is_trim_space] assms(2) by simp
  with h assms(2) show ?thesis by (simp add: hd_rev)
qed

lemma portable_valid_profile:
  "validate_profile p = None \<Longrightarrow> portable_name (pr_name p) \<Longrightarrow> clean_profile p"
  using Trim_fixed_ends [of "pr_name p"]
  by (auto simp: validate_profile_def portable_name_def clean_profile_def clean_text_def split: if_splits)

lemma load_lines_saved:
  assumes valid: "ValidateRuntimeConfig lim config = None"
    and names: "\<forall>p \<in> set (profiles config). portable_name (pr_name p)"
    and d: "profiles (ls_config st) \<noteq> []"
  shows "\<exists>n. load_lines st (config_text config) = Some (st\<lparr>ls_config := config, ls_line_number := n\<rparr>)"
proof -
  let ?n = "length (profiles config)"
  let ?c0 = "ls_config st"
  let ?c1 = "?c0\<lparr>scenario := scenario config, next_workload_id := next_workload_id config,
    active_profile := active_profile config, profiles := resized ?n (profiles ?c0)\<rparr>"
  let ?c2 = "?c1\<lparr>profiles := profiles config\<rparr>"
  note cnt = Validate_profile_count [OF valid]
  have run: "applies_all ?c0 (run_entries config) ?c1"
    unfolding run_entries_def
    by (rule applies_all_ConsI, rule applies_run)+
      (use cnt d applies_profile_count [of "?c0\<lparr>scenario := scenario config,
         next_workload_id := next_workload_id config, active_profile := active_profile config\<rparr>" ?n] in simp)
  have "clean_profile p" if "p \<in> set (profiles config)" for p
    using portable_valid_profile Validate_profiles [OF valid that] names that by blast
  then have profs: "applies_all ?c1 (all_profile_entries 0 (profiles config)) ?c2"
    using applies_all_profiles [of ?c1 0 "profiles config"] cnt(2) by (simp add: MaximumProfiles_def)
  have "applies_all ?c0 (run_entries config @ all_profile_entries 0 (profiles config) @ scalar_entries config) config"
  proof -
    have full: "r\<lparr>scenario := scenario config, next_workload_id := next_workload_id config,
        active_profile := active_profile config, profiles := profiles config, udp := udp config,
        tcp := tcp config, tunnel_contract := tunnel_contract config,
        bsd_system_udp := bsd_system_udp config\<rparr> = config" for r :: RuntimeConfig
      by (cases config; cases r) simp
    with applies_all_append [OF run applies_all_append [OF profs applies_all_scalar [of ?c2 config]]]
    show ?thesis by simp
  qed
  then have "load_lines (st\<lparr>ls_line_number := ls_line_number st + 1\<rparr>)
      (concat (map entry_line (run_entries config @ all_profile_entries 0 (profiles config) @ scalar_entries config)))
    = Some (st\<lparr>ls_config := config, ls_line_number := ls_line_number st + 1 + length
        (run_entries config @ all_profile_entries 0 (profiles config) @ scalar_entries config)\<rparr>)"
    (is "load_lines _ ?body = _")
    by (subst load_lines_applies_all) simp_all
  moreover have "load_lines st (config_text config) =
      load_lines (st\<lparr>ls_line_number := ls_line_number st + 1\<rparr>) ?body"
  proof -
    let ?h = "''# NX Reversing Toolbox runtime configuration''"
    have "fgets 512 (?h @ newline # ?body) = Some (?h @ [newline], ?body)"
      by (rule fgets_line) (simp_all add: newline_def)
    moreover have "load_line st (?h @ [newline]) = Some (st\<lparr>ls_line_number := ls_line_number st + 1\<rparr>)"
      by (simp add: load_line_def Let_def Trim_def c_str_def is_trim_space_def newline_def)
    ultimately show ?thesis
      by (subst load_lines.simps) (simp add: config_text_def)
  qed
  ultimately show ?thesis by auto
qed

end
