(* ===== verification/ConfigSave.thy ===== *)
theory ConfigSave
  imports ConfigText
begin

text \<open>
  \<^verbatim>\<open>SaveRuntimeConfig\<close> as the sequence of file operations it performs: create a temporary
  file, clear the backup, move the previous file to the backup, move the temporary file
  into place, restore on failure (\<^verbatim>\<open>toolbox/src/runtime_config.cpp\<close>).

  The file system is a map from paths to contents. Every system call can fail: the record
  \<open>save_env\<close> gives, per call site, the \<^verbatim>\<open>errno\<close> with its message, or success. A failed call
  leaves the files as they were. \<open>written\<close> maps the printed text to what the stream's
  writes left in the temporary file, since the code checks only the final flush and close. The trail records the files after every change, for the states a power
  cut can leave behind.
\<close>

type_synonym files = "string \<Rightarrow> string option"

datatype save_call =
  MkdirConfig | MkdirToolbox | OpenTemporary | FlushTemporary | CloseTemporary
  | RemoveTemporary | ClearBackup | MovePrevious | ReplaceCurrent | RestorePrevious | DropBackup

record save_env =
  failure :: "save_call \<Rightarrow> (int \<times> string) option"
  written :: "string \<Rightarrow> string"
  enoent :: int
  eexist :: int

record disk =
  files :: files
  trail :: "files list"

definition put :: "files \<Rightarrow> disk \<Rightarrow> disk" where
  "put fs d = \<lparr>files = fs, trail = trail d @ [fs]\<rparr>"

subsection \<open>System calls\<close>

definition EnsureDirectory :: "save_env \<Rightarrow> save_call \<Rightarrow> bool" where
  "EnsureDirectory env call =
     (case failure env call of None \<Rightarrow> True | Some (e, _) \<Rightarrow> e = eexist env)"

definition EnsureRuntimeConfigDirectories :: "save_env \<Rightarrow> bool" where
  "EnsureRuntimeConfigDirectories env \<longleftrightarrow> EnsureDirectory env MkdirConfig \<and> EnsureDirectory env MkdirToolbox"

text \<open>Both calls return the \<^verbatim>\<open>errno\<close> and message of their failure.\<close>

definition remove_file :: "save_env \<Rightarrow> save_call \<Rightarrow> string \<Rightarrow> disk \<Rightarrow> (int \<times> string) option \<times> disk" where
  "remove_file env call p d =
     (case failure env call of
        Some e \<Rightarrow> (Some e, d)
      | None \<Rightarrow>
          if files d p = None then (Some (enoent env, ''No such file or directory''), d)
          else (None, put ((files d)(p := None)) d))"

definition rename_file ::
  "save_env \<Rightarrow> save_call \<Rightarrow> string \<Rightarrow> string \<Rightarrow> disk \<Rightarrow> (int \<times> string) option \<times> disk" where
  "rename_file env call old new d =
     (case failure env call of
        Some e \<Rightarrow> (Some e, d)
      | None \<Rightarrow>
          if files d old = None then (Some (enoent env, ''No such file or directory''), d)
          else (None, put ((files d)(new := files d old, old := None)) d))"

subsection \<open>The save\<close>

definition temporary_path :: "string \<Rightarrow> string" where
  "temporary_path path = path @ ''.tmp''"

definition backup_path :: "string \<Rightarrow> string" where
  "backup_path path = path @ ''.bak''"

text \<open>The result: success, the error message, and the disk.\<close>

type_synonym save_result = "bool \<times> string \<times> disk"

definition abandon :: "save_env \<Rightarrow> string \<Rightarrow> string \<Rightarrow> disk \<Rightarrow> save_result" where
  "abandon env path message d =
     (False, message, snd (remove_file env RemoveTemporary (temporary_path path) d))"

definition replace_current :: "save_env \<Rightarrow> string \<Rightarrow> bool \<Rightarrow> disk \<Rightarrow> save_result" where
  "replace_current env path moved_previous d =
     (case rename_file env ReplaceCurrent (temporary_path path) path d of
        (Some (e, message), d1) \<Rightarrow>
          let restore = (if moved_previous then rename_file env RestorePrevious (backup_path path) path d1
                         else (None, d1));
              restored = (\<not> moved_previous \<or> fst restore = None)
          in abandon env path
               (''unable to replace configuration: '' @ message
                @ (if restored then [] else ''; unable to restore previous configuration''))
               (snd restore)
      | (None, d1) \<Rightarrow>
          (True, [], if moved_previous then snd (remove_file env DropBackup (backup_path path) d1) else d1))"

definition install :: "save_env \<Rightarrow> string \<Rightarrow> disk \<Rightarrow> save_result" where
  "install env path d =
     (case remove_file env ClearBackup (backup_path path) d of
        (cleared, d1) \<Rightarrow>
          if (case cleared of None \<Rightarrow> False | Some (e, _) \<Rightarrow> e \<noteq> enoent env) then
            abandon env path
              (''unable to clear previous configuration backup: '' @ (case cleared of None \<Rightarrow> [] | Some (_, m) \<Rightarrow> m)) d1
          else
            (case rename_file env MovePrevious path (backup_path path) d1 of
               (None, d2) \<Rightarrow> replace_current env path True d2
             | (Some (e, message), d2) \<Rightarrow>
                 if e \<noteq> enoent env then
                   abandon env path (''unable to prepare configuration replacement: '' @ message) d2
                 else replace_current env path False d2))"

definition SaveRuntimeConfig :: "save_env \<Rightarrow> tunnel_limits \<Rightarrow> RuntimeConfig \<Rightarrow> string \<Rightarrow> disk \<Rightarrow> save_result" where
  "SaveRuntimeConfig env lim config path d =
     (case ValidateRuntimeConfig lim config of
        Some e \<Rightarrow> (False, e, d)
      | None \<Rightarrow>
          if \<not> EnsureRuntimeConfigDirectories env then
            (False, ''unable to create configuration directory'', d)
          else (case failure env OpenTemporary of
            Some (_, message) \<Rightarrow> (False, ''unable to create configuration: '' @ message, d)
          | None \<Rightarrow>
              let d1 = put ((files d)(temporary_path path \<mapsto> written env (config_text config))) d in
              if failure env FlushTemporary \<noteq> None \<or> failure env CloseTemporary \<noteq> None then
                abandon env path ''unable to write configuration'' d1
              else install env path d1))"

subsection \<open>Which files a save touches\<close>

lemma paths_distinct [simp]:
  "temporary_path p \<noteq> p" "backup_path p \<noteq> p" "temporary_path p \<noteq> backup_path p"
  "p \<noteq> temporary_path p" "p \<noteq> backup_path p" "backup_path p \<noteq> temporary_path p"
  by (simp_all add: temporary_path_def backup_path_def)

lemma files_put [simp]: "files (put fs d) = fs" and trail_put [simp]: "trail (put fs d) = trail d @ [fs]"
  by (simp_all add: put_def)

text \<open>A previous file is kept under its own name or as the backup, or is already replaced.\<close>

definition previous_kept :: "string \<Rightarrow> string \<Rightarrow> string \<Rightarrow> files \<Rightarrow> bool" where
  "previous_kept path old new fs \<longleftrightarrow>
     fs path = Some old \<or> fs (backup_path path) = Some old \<or> fs path = Some new"

lemmas save_defs = SaveRuntimeConfig_def install_def replace_current_def abandon_def
  remove_file_def rename_file_def

lemma abandon_result:
  assumes "abandon env path m d = (ok, msg, d')"
  shows "\<not> ok" "files d' path = files d path" "files d' (backup_path path) = files d (backup_path path)"
    "\<forall>q. q \<notin> {path, temporary_path path, backup_path path} \<longrightarrow> files d' q = files d q"
    "\<forall>fs \<in> set (trail d') - set (trail d). fs path = files d path \<and> fs (backup_path path) = files d (backup_path path)"
  using assms by (auto simp: abandon_def remove_file_def split: option.splits if_splits)

lemma replace_current_result:
  assumes "replace_current env path moved d = (ok, msg, d')"
    and "files d (temporary_path path) = Some t"
  shows "ok \<Longrightarrow> files d' path = Some t \<and> files d' (temporary_path path) = None \<and> msg = []"
    and "\<not> ok \<Longrightarrow> moved \<Longrightarrow> files d path = None \<Longrightarrow> files d (backup_path path) \<noteq> None \<Longrightarrow>
       files d' path = files d (backup_path path) \<or> files d' path = None \<and> files d' (backup_path path) = files d (backup_path path)"
    and "\<not> ok \<Longrightarrow> \<not> moved \<Longrightarrow> files d' path = files d path"
    and "\<forall>q. q \<notin> {path, temporary_path path, backup_path path} \<longrightarrow> files d' q = files d q"
    and "fs \<in> set (trail d') - set (trail d) \<Longrightarrow>
       fs path = Some t \<or> fs path = files d path \<and> fs (backup_path path) = files d (backup_path path)
       \<or> moved \<and> fs path = files d (backup_path path)"
  using assms
  by (auto simp: replace_current_def abandon_def remove_file_def rename_file_def Let_def
      split: option.splits if_splits prod.splits)

lemma install_result:
  assumes "install env path d = (ok, msg, d')"
    and "files d (temporary_path path) = Some t"
  shows "ok \<Longrightarrow> files d' path = Some t \<and> files d' (temporary_path path) = None \<and> msg = []"
    and "\<not> ok \<Longrightarrow> files d' path = files d path
       \<or> files d' path = None \<and> files d' (backup_path path) = files d path"
    and "\<forall>q. q \<notin> {path, temporary_path path, backup_path path} \<longrightarrow> files d' q = files d q"
    and "files d path = Some old \<Longrightarrow> fs \<in> set (trail d') - set (trail d) \<Longrightarrow> previous_kept path old t fs"
proof -
  obtain cleared d1 where c: "remove_file env ClearBackup (backup_path path) d = (cleared, d1)"
    by (cases "remove_file env ClearBackup (backup_path path) d")
  have d1: "files d1 (temporary_path path) = Some t" "files d1 path = files d path"
    "\<forall>q. q \<noteq> backup_path path \<longrightarrow> files d1 q = files d q"
    "\<forall>fs \<in> set (trail d1) - set (trail d). fs path = files d path"
    using c assms(2) by (auto simp: remove_file_def split: option.splits if_splits)
  obtain moved d2 where m: "rename_file env MovePrevious path (backup_path path) d1 = (moved, d2)"
    by (cases "rename_file env MovePrevious path (backup_path path) d1")
  have d2: "files d2 (temporary_path path) = Some t"
    "moved = None \<Longrightarrow> files d2 path = None \<and> files d2 (backup_path path) = files d path \<and> files d path \<noteq> None"
    "moved \<noteq> None \<Longrightarrow> d2 = d1"
    "\<forall>q. q \<notin> {path, backup_path path} \<longrightarrow> files d2 q = files d1 q"
    "\<forall>fs \<in> set (trail d2) - set (trail d1). fs (backup_path path) = files d path"
    using m d1 by (auto simp: rename_file_def split: option.splits if_splits)
  consider (clear) "abandon env path msg d1 = (ok, msg, d')"
    | (moved) "moved = None" "replace_current env path True d2 = (ok, msg, d')"
    | (kept) "moved \<noteq> None" "abandon env path msg d2 = (ok, msg, d')"
    | (fresh) "moved \<noteq> None" "replace_current env path False d2 = (ok, msg, d')"
    using assms(1) c m
    by (auto simp: install_def abandon_def split: option.splits if_splits prod.splits)
  note cs = this
  show "files d' path = Some t \<and> files d' (temporary_path path) = None \<and> msg = []" if ok
    using cs by cases (use that abandon_result(1) replace_current_result(1) [OF _ d2(1)] in metis)+
  show "files d' path = files d path \<or> files d' path = None \<and> files d' (backup_path path) = files d path"
    if "\<not> ok"
    using cs
  proof cases
    case clear then show ?thesis using abandon_result(2) [OF clear] d1 by simp
  next
    case moved
    with replace_current_result(2) [OF moved(2) d2(1) that] d2(2) show ?thesis by auto
  next
    case kept then show ?thesis using abandon_result(2) [OF kept(2)] d1 d2 by simp
  next
    case fresh
    with replace_current_result(3) [OF fresh(2) d2(1) that] d1 d2 show ?thesis by auto
  qed
  show "\<forall>q. q \<notin> {path, temporary_path path, backup_path path} \<longrightarrow> files d' q = files d q"
    using cs abandon_result(4) replace_current_result(4) [OF _ d2(1)] d1 d2 by cases fastforce+
  show "previous_kept path old t fs" if "files d path = Some old" "fs \<in> set (trail d') - set (trail d)"
  proof -
    have early: "previous_kept path old t fs" if "fs \<in> set (trail d2) - set (trail d)"
      using that d1(4) d2(5) \<open>files d path = Some old\<close> by (auto simp: previous_kept_def)
    have early1: "previous_kept path old t fs" if "fs \<in> set (trail d1) - set (trail d)"
      using that d1(4) \<open>files d path = Some old\<close> by (auto simp: previous_kept_def)
    from cs show ?thesis
    proof cases
      case clear
      then show ?thesis
        using abandon_result(5) [OF clear] early1 that d1 by (cases "fs \<in> set (trail d1)") (auto simp: previous_kept_def)
    next
      case moved
      then show ?thesis
        using replace_current_result(5) [OF moved(2) d2(1), of fs] early that d2(2)
        by (cases "fs \<in> set (trail d2)") (auto simp: previous_kept_def)
    next
      case kept
      then show ?thesis
        using abandon_result(5) [OF kept(2)] early that d1 d2
        by (cases "fs \<in> set (trail d2)") (auto simp: previous_kept_def)
    next
      case fresh
      then show ?thesis
        using replace_current_result(5) [OF fresh(2) d2(1), of fs] early that d1 d2
        by (cases "fs \<in> set (trail d2)") (auto simp: previous_kept_def)
    qed
  qed
qed

subsection \<open>Results of a save\<close>

lemma SaveRuntimeConfig_cases:
  assumes "SaveRuntimeConfig env lim config path d = (ok, msg, d')"
  obtains (early) "\<not> ok" "d' = d"
  | (late) d1 where "ValidateRuntimeConfig lim config = None"
      "d1 = put ((files d)(temporary_path path \<mapsto> written env (config_text config))) d"
      "abandon env path msg d1 = (ok, msg, d') \<or> install env path d1 = (ok, msg, d')"
  using assms
  by (auto simp: SaveRuntimeConfig_def Let_def abandon_def split: option.splits if_splits)

lemma save_succeeds:
  assumes "SaveRuntimeConfig env lim config path d = (True, msg, d')"
  shows "ValidateRuntimeConfig lim config = None \<and> files d' path = Some (written env (config_text config))
    \<and> files d' (temporary_path path) = None \<and> msg = []"
  using assms
proof (cases rule: SaveRuntimeConfig_cases)
  case (late d1)
  then have "install env path d1 = (True, msg, d')" using abandon_result(1) by blast
  with install_result(1) [OF this, of "written env (config_text config)"] late show ?thesis by simp
qed simp

lemma save_fails:
  assumes "SaveRuntimeConfig env lim config path d = (False, msg, d')"
  shows "files d' path = files d path \<or> files d' path = None \<and> files d' (backup_path path) = files d path"
  using assms
proof (cases rule: SaveRuntimeConfig_cases)
  case (late d1)
  from late(3) show ?thesis
  proof
    assume "abandon env path msg d1 = (False, msg, d')"
    from abandon_result(2) [OF this] late show ?thesis by simp
  next
    assume "install env path d1 = (False, msg, d')"
    from install_result(2) [OF this, of "written env (config_text config)"] late show ?thesis by simp
  qed
qed simp

lemma save_frame:
  assumes "SaveRuntimeConfig env lim config path d = (ok, msg, d')"
    and "q \<notin> {path, temporary_path path, backup_path path}"
  shows "files d' q = files d q"
  using assms(1)
proof (cases rule: SaveRuntimeConfig_cases)
  case (late d1)
  from late(3) show ?thesis
  proof
    assume "abandon env path msg d1 = (ok, msg, d')"
    from abandon_result(4) [OF this] late assms(2) show ?thesis by simp
  next
    assume "install env path d1 = (ok, msg, d')"
    from install_result(3) [OF this, of "written env (config_text config)"] late assms(2) show ?thesis by simp
  qed
qed simp

lemma save_crash_safe:
  assumes s: "SaveRuntimeConfig env lim config path d = (ok, msg, d')"
    and old: "files d path = Some old" and fs: "fs \<in> set (trail d') - set (trail d)"
  shows "previous_kept path old (written env (config_text config)) fs"
  using s
proof (cases rule: SaveRuntimeConfig_cases)
  case (late d1)
  show ?thesis
  proof (cases "fs \<in> set (trail d1)")
    case True
    then show ?thesis using fs late old by (auto simp: previous_kept_def)
  next
    case False
    from late(3) show ?thesis
    proof
      assume "abandon env path msg d1 = (ok, msg, d')"
      from abandon_result(5) [OF this] False fs late old show ?thesis by (auto simp: previous_kept_def)
    next
      assume "install env path d1 = (ok, msg, d')"
      from install_result(4) [OF this, of "written env (config_text config)" old fs] False fs late old show ?thesis by simp
    qed
  qed
qed (use fs in simp)

end
