(* ===== verification/ConfigProperties.thy ===== *)
theory ConfigProperties
  imports ConfigRoundTrip ConfigSave
begin

text \<open>
  What the configuration code of the toolbox promises: the theorems over loading, saving
  and checking that rest on \<open>ConfigText\<close>, \<open>ConfigRoundTrip\<close> and \<open>ConfigSave\<close>.
\<close>

subsection \<open>Saving and loading\<close>

text \<open>
  C23. Loading what was saved gives the configuration back: when a save succeeds and the
  stream lost none of the text, the file it leaves loads, without a diagnostic, as the
  configuration that was saved, whatever the compiled defaults are. Profile names must
  survive the line format: no control characters, no blanks at their ends.
\<close>

theorem saved_configuration_loads:
  assumes "SaveRuntimeConfig env lim config path d = (True, msg, d')"
    and "written env (config_text config) = config_text config"
    and "\<forall>p \<in> set (profiles config). portable_name (pr_name p)"
    and "profiles defaults \<noteq> []"
  shows "\<exists>contents. files d' path = Some contents
    \<and> LoadRuntimeConfig e lim defaults (Opened contents)
      = Some \<lparr>report_config = config, loaded_from_file = True, diagnostics = []\<rparr>"
proof -
  note s = save_succeeds [OF assms(1), unfolded assms(2)]
  let ?st = "\<lparr>ls_config = defaults, ls_diagnostics = [], ls_migrated = False, ls_line_number = 0\<rparr>"
  from s have v: "ValidateRuntimeConfig lim config = None" by simp
  from assms(4) have "profiles (ls_config ?st) \<noteq> []" by simp
  from load_lines_saved [OF v assms(3) this] obtain n where
    "load_lines ?st (config_text config) = Some (?st\<lparr>ls_config := config, ls_line_number := n\<rparr>)" by blast
  with s v show ?thesis by (simp add: LoadRuntimeConfig_def)
qed

definition example_limits :: tunnel_limits where
  "example_limits = \<lparr>MaximumUdpPayloadStorageBytes = 1024, MaximumFlowsPerClient = 8\<rparr>"

definition example_env :: save_env where
  "example_env = \<lparr>failure = (\<lambda>_. None), written = (\<lambda>t. t), enoent = 2, eexist = 17\<rparr>"

definition empty_disk :: disk where "empty_disk = \<lparr>files = (\<lambda>_. None), trail = []\<rparr>"

lemma CompiledRuntimeDefaults_valid: "ValidateRuntimeConfig example_limits CompiledRuntimeDefaults = None"
proof -
  have "IsValidIpv4 ''10.1.0.2''"
    unfolding IsValidIpv4_iff IsIpv4Address_iff [symmetric]
    by (simp add: IsIpv4Address_def is_digit_def digit_val_def)
  then show ?thesis
    by (simp add: ValidateRuntimeConfig_def CompiledRuntimeDefaults_def example_limits_def validate_profile_def
        validate_scenarios_def Let_def MaximumProfiles_def MaximumProfileNameLength_def MinimumPayloadBytes_def
        MaximumDatagramCount_def MaximumDurationMs_def EnableScenarioBsdSystemUdpWorkload_def
        EnableScenarioWgnxTunnelContractValidation_def)
qed

lemma example_save: "\<exists>d'. SaveRuntimeConfig example_env example_limits CompiledRuntimeDefaults ''c'' empty_disk = (True, [], d')"
  using CompiledRuntimeDefaults_valid
  by (simp add: SaveRuntimeConfig_def example_env_def empty_disk_def EnsureRuntimeConfigDirectories_def
      EnsureDirectory_def install_def remove_file_def rename_file_def replace_current_def Let_def)

theorem saved_configuration_loads_witness:
  "\<exists>(d' :: disk) contents. files d' ''c'' = Some contents
    \<and> LoadRuntimeConfig 2 example_limits CompiledRuntimeDefaults (Opened contents)
      = Some \<lparr>report_config = CompiledRuntimeDefaults, loaded_from_file = True, diagnostics = []\<rparr>"
proof -
  obtain d' where d: "SaveRuntimeConfig example_env example_limits CompiledRuntimeDefaults ''c'' empty_disk = (True, [], d')"
    using example_save by blast
  have "\<forall>p \<in> set (profiles CompiledRuntimeDefaults). portable_name (pr_name p)"
    by (simp add: CompiledRuntimeDefaults_def portable_name_def Trim_def is_trim_space_def clean_char_def newline_def)
  moreover have "profiles CompiledRuntimeDefaults \<noteq> []" by (simp add: CompiledRuntimeDefaults_def)
  moreover have "written example_env (config_text CompiledRuntimeDefaults) = config_text CompiledRuntimeDefaults"
    by (simp add: example_env_def)
  ultimately show ?thesis using saved_configuration_loads [OF d] by blast
qed

text \<open>
  C29. A save is all or nothing. When it succeeds, the file is the printed configuration
  and the temporary file is gone; when it fails, the file is as it was, or, if even the
  restore failed, its old content is in the backup. No file but these three is touched.
\<close>

theorem save_all_or_nothing:
  assumes "SaveRuntimeConfig env lim config path d = (ok, msg, d')"
  shows "(ok \<longrightarrow> files d' path = Some (written env (config_text config)) \<and> files d' (temporary_path path) = None)
    \<and> (\<not> ok \<longrightarrow> files d' path = files d path \<or> files d' path = None \<and> files d' (backup_path path) = files d path)
    \<and> (\<forall>q. q \<notin> {path, temporary_path path, backup_path path} \<longrightarrow> files d' q = files d q)"
proof -
  have frame: "\<forall>q. q \<notin> {path, temporary_path path, backup_path path} \<longrightarrow> files d' q = files d q"
    using save_frame [OF assms] by blast
  show ?thesis
  proof (cases ok)
    case True
    with assms have "SaveRuntimeConfig env lim config path d = (True, msg, d')" by simp
    from save_succeeds [OF this] True frame show ?thesis by blast
  next
    case False
    with assms have "SaveRuntimeConfig env lim config path d = (False, msg, d')" by simp
    from save_fails [OF this] False frame show ?thesis by blast
  qed
qed

theorem save_all_or_nothing_witness:
  "\<exists>d' :: disk. files d' ''c'' = Some (config_text CompiledRuntimeDefaults) \<and> files d' (temporary_path ''c'') = None"
proof -
  obtain d' where "SaveRuntimeConfig example_env example_limits CompiledRuntimeDefaults ''c'' empty_disk = (True, [], d')"
    using example_save by blast
  from save_all_or_nothing [OF this] show ?thesis by (auto simp: example_env_def)
qed

text \<open>
  C24. A save survives a power cut. In every state of the disk the save passes through,
  an existing configuration is still under its own name, or in the backup, or the new
  one is already in place.
\<close>

theorem save_survives_power_cut:
  assumes "SaveRuntimeConfig env lim config path d = (ok, msg, d')" "files d path = Some old"
    and "fs \<in> set (trail d') - set (trail d)"
  shows "fs path = Some old \<or> fs (backup_path path) = Some old \<or> fs path = Some (written env (config_text config))"
  using save_crash_safe [OF assms] by (simp add: previous_kept_def)

definition old_disk :: disk where
  "old_disk = \<lparr>files = (\<lambda>p. if p = ''c'' then Some ''old'' else None), trail = []\<rparr>"

theorem save_survives_power_cut_witness:
  "let fs = (files old_disk)(temporary_path ''c'' \<mapsto> config_text CompiledRuntimeDefaults)
   in fs ''c'' = Some ''old'' \<or> fs (backup_path ''c'') = Some ''old''
     \<or> fs ''c'' = Some (config_text CompiledRuntimeDefaults)"
proof -
  let ?env = "example_env\<lparr>failure := (\<lambda>c. if c = FlushTemporary then Some (28, ''full'') else None)\<rparr>"
  let ?fs = "(files old_disk)(temporary_path ''c'' \<mapsto> config_text CompiledRuntimeDefaults)"
  obtain ok msg d' where s: "SaveRuntimeConfig ?env example_limits CompiledRuntimeDefaults ''c'' old_disk = (ok, msg, d')"
    by (cases "SaveRuntimeConfig ?env example_limits CompiledRuntimeDefaults ''c'' old_disk")
  have "?fs \<in> set (trail d') - set (trail old_disk)"
    using s CompiledRuntimeDefaults_valid
    by (auto simp: SaveRuntimeConfig_def example_env_def old_disk_def EnsureRuntimeConfigDirectories_def
        EnsureDirectory_def abandon_def remove_file_def Let_def)
  from save_survives_power_cut [OF s _ this, of "''old''"] show ?thesis
    by (simp add: old_disk_def example_env_def)
qed

subsection \<open>Settings keep a usable profile list\<close>

definition profiles_ok :: "RuntimeConfig \<Rightarrow> bool" where
  "profiles_ok config \<longleftrightarrow> profiles config \<noteq> [] \<and> length (profiles config) \<le> MaximumProfiles"

lemma profiles_ok_update [simp]:
  "profiles_ok (update_profile i f config) = profiles_ok config"
  "profiles_ok (update_udp g config) = profiles_ok config"
  "profiles_ok (update_contract h config) = profiles_ok config"
  "profiles_ok (update_bsd b config) = profiles_ok config"
  "profiles_ok (config\<lparr>scenario := s\<rparr>) = profiles_ok config"
  "profiles_ok (config\<lparr>next_workload_id := w\<rparr>) = profiles_ok config"
  "profiles_ok (config\<lparr>active_profile := a\<rparr>) = profiles_ok config"
  "profiles_ok (config\<lparr>tcp := t\<rparr>) = profiles_ok config"
  by (simp_all add: profiles_ok_def update_profile_def update_udp_def update_contract_def update_bsd_def)

lemma profiles_ok_store:
  "profiles_ok config \<Longrightarrow> (\<And>v. profiles_ok (upd v)) \<Longrightarrow> profiles_ok (fst (store x upd config))"
  "profiles_ok config \<Longrightarrow> (\<And>v. profiles_ok (upp v)) \<Longrightarrow> profiles_ok (fst (store_port y upp config))"
  by (auto simp: store_def store_port_def split: option.splits)

lemma profiles_ok_legacy_enable: "profiles_ok config \<Longrightarrow> profiles_ok (fst (legacy_enable t v config))"
  unfolding legacy_enable_def by (rule profiles_ok_store) simp_all

lemma profiles_ok_legacy: "profiles_ok config \<Longrightarrow> profiles_ok (fst (ApplyLegacySetting config key v))"
  unfolding ApplyLegacySetting_def Let_def
  by (cases "ActiveRuntimeProfile config")
    (simp_all add: profiles_ok_store profiles_ok_legacy_enable)

lemma profiles_ok_count:
  assumes "profiles_ok config"
  shows "\<exists>r. apply_profile_count config v = Some r \<and> profiles_ok (fst r)"
proof (cases "ParseUnsigned v :: u64 option")
  case None
  with assms show ?thesis by (simp add: apply_profile_count_def)
next
  case (Some n)
  with assms show ?thesis
    by (cases "profiles config") (auto simp: apply_profile_count_def Let_def profiles_ok_def)
qed

lemma profiles_ok_field:
  "profiles_ok config \<Longrightarrow> apply_profile_field config i f v = Some r \<Longrightarrow> profiles_ok (fst r)"
  unfolding apply_profile_field_def by (auto simp: profiles_ok_store split: if_splits)

lemma profiles_ok_scalar:
  "profiles_ok config \<Longrightarrow> apply_scalar config k v = Some r \<Longrightarrow> profiles_ok (fst r)"
  unfolding apply_scalar_def by (auto simp: profiles_ok_store split: if_splits)

lemma profiles_ok_scenario: "profiles_ok config \<Longrightarrow> profiles_ok (fst (apply_scenario config v))"
  by (auto simp: apply_scenario_def split: prod.splits option.splits)

lemma setting_reply_config [simp]: "sr_config (setting_reply k m e r) = fst r"
  by (simp add: setting_reply_def)

lemma setting_reply_ok [simp]: "sr_ok (setting_reply k m e r) = snd r"
  by (simp add: setting_reply_def)

lemma ApplySetting_defined_aux:
  assumes ok: "profiles_ok config"
  shows "\<exists>r. ApplySetting config key v migrated error = Some r \<and> profiles_ok (sr_config r)"
proof (cases "key = ''profiles.count''")
  case True
  with profiles_ok_count [OF ok, of v] show ?thesis by (auto simp: ApplySetting_def Let_def)
next
  case False
  with ok profiles_ok_legacy [OF ok, of key v] show ?thesis
    by (auto simp: ApplySetting_def Let_def profiles_ok_store profiles_ok_scenario
        dest: profiles_ok_scalar profiles_ok_field split: option.splits prod.splits bool.splits)
qed

text \<open>
  Applying a setting, accepted or not, legacy or not, never reaches the
  undefined \<^verbatim>\<open>profiles.front()\<close> of an empty list, and keeps between one and eight
  profiles.
\<close>

theorem ApplySetting_defined:
  assumes "profiles config \<noteq> []" "length (profiles config) \<le> 8"
  shows "\<exists>r. ApplySetting config key v migrated error = Some r
    \<and> profiles (sr_config r) \<noteq> [] \<and> length (profiles (sr_config r)) \<le> 8"
  using ApplySetting_defined_aux [of config key v migrated error] assms
  by (simp add: profiles_ok_def MaximumProfiles_def)

theorem ApplySetting_defined_witness:
  "\<exists>r. ApplySetting CompiledRuntimeDefaults ''profiles.count'' ''9'' False [] = Some r
    \<and> length (profiles (sr_config r)) \<le> 8"
  using ApplySetting_defined [of CompiledRuntimeDefaults "''profiles.count''" "''9''" False "[]"]
  by (auto simp: CompiledRuntimeDefaults_def)

lemma load_line_defined:
  assumes "profiles_ok (ls_config st)"
  shows "\<exists>st'. load_line st line = Some st' \<and> profiles_ok (ls_config st')"
proof -
  have a: "\<exists>r. ApplySetting (ls_config st) k v m e = Some r \<and> profiles_ok (sr_config r)" for k v m e
    using ApplySetting_defined_aux [OF assms] .
  show ?thesis
    using a assms by (auto simp: load_line_def Let_def diagnose_def split: option.splits) (metis option.inject option.discI)+
qed

lemma load_lines_defined:
  "profiles_ok (ls_config st) \<Longrightarrow> \<exists>st'. load_lines st s = Some st' \<and> profiles_ok (ls_config st')"
proof (induction st s rule: load_lines.induct)
  case (1 st s)
  show ?case
  proof (cases "fgets 512 s")
    case None
    with "1.prems" show ?thesis by (simp add: load_lines.simps)
  next
    case (Some lr)
    obtain l r where lr: "lr = (l, r)" by (cases lr)
    obtain st1 where st1: "load_line st l = Some st1" "profiles_ok (ls_config st1)"
      using load_line_defined [OF "1.prems"] by blast
    from "1.IH" [OF Some lr [symmetric] st1(1) st1(2)] Some lr st1 show ?thesis
      by (subst load_lines.simps) simp
  qed
qed

text \<open>
  C28. Loading always returns, and always returns a configuration that passes the checks,
  whatever the file holds or whyever it cannot be opened, provided the compiled defaults
  pass them.
\<close>

theorem load_total_and_valid:
  assumes "ValidateRuntimeConfig lim defaults = None"
  shows "\<exists>r. LoadRuntimeConfig e lim defaults opened = Some r \<and> ValidateRuntimeConfig lim (report_config r) = None"
proof (cases opened)
  case (OpenFailed err message)
  with assms show ?thesis by (simp add: LoadRuntimeConfig_def)
next
  case (Opened contents)
  let ?st = "\<lparr>ls_config = defaults, ls_diagnostics = [], ls_migrated = False, ls_line_number = 0\<rparr>"
  have "profiles_ok (ls_config ?st)"
    using Validate_profile_count [OF assms] by (simp add: profiles_ok_def)
  from load_lines_defined [OF this] obtain st where "load_lines ?st contents = Some st" by blast
  with Opened assms show ?thesis
    by (simp add: LoadRuntimeConfig_def Let_def diagnose_def split: option.splits)
qed

theorem load_total_and_valid_witness:
  "\<exists>r. LoadRuntimeConfig 2 example_limits CompiledRuntimeDefaults (Opened ''profile.0.udp_destination_port=0'') = Some r
    \<and> ValidateRuntimeConfig example_limits (report_config r) = None"
  by (rule load_total_and_valid [OF CompiledRuntimeDefaults_valid])

text \<open>
  C37. The toolbox's two IPv4 checks, the recursive one of the configuration and the
  scanning one of the HTTPS response, accept the same texts: four components of one to
  three digits, each at most 255.
\<close>

theorem ipv4_checks_agree:
  "IsValidIpv4 s = IsIpv4Address s \<and> (IsValidIpv4 s \<longleftrightarrow>
     (\<exists>a b c d. s = a @ ''.'' @ b @ ''.'' @ c @ ''.'' @ d
        \<and> octet_text a \<and> octet_text b \<and> octet_text c \<and> octet_text d))"
proof -
  have "ipv4_text s \<longleftrightarrow> (\<exists>a b c d. s = a @ ''.'' @ b @ ''.'' @ c @ ''.'' @ d
        \<and> octet_text a \<and> octet_text b \<and> octet_text c \<and> octet_text d)"
    by (simp add: ipv4_text_def numeral_3_eq_3) blast
  then show ?thesis unfolding IsValidIpv4_iff IsIpv4Address_iff by simp
qed

subsection \<open>What a rejected line leaves behind\<close>

definition zero_port :: "nat \<Rightarrow> RuntimeConfig \<Rightarrow> RuntimeConfig \<Rightarrow> bool" where
  "zero_port i config config' \<longleftrightarrow>
     config' = update_profile i (\<lambda>p. p\<lparr>udp_destination_port := 0\<rparr>) config
     \<or> config' = update_profile i (\<lambda>p. p\<lparr>tcp_destination_port := 0\<rparr>) config"

lemma rejected_store: "\<not> snd (store x upd config) \<Longrightarrow> fst (store x upd config) = config"
  by (auto simp: store_def split: option.splits)

lemma rejected_port:
  "\<not> snd (store_port x upp config) \<Longrightarrow> fst (store_port x upp config) = config \<or> fst (store_port x upp config) = upp 0"
  by (auto simp: store_port_def split: option.splits)

lemma rejected_legacy:
  assumes "ApplyLegacySetting config key v = (config', False)"
  shows "config' = config \<or> (\<exists>i < length (profiles config). zero_port i config config')"
proof (cases "ActiveRuntimeProfile config")
  case None
  with assms show ?thesis by (simp add: ApplyLegacySetting_def)
next
  case (Some p)
  then have i: "unat (active_profile config) < length (profiles config)"
    by (simp add: ActiveRuntimeProfile_def split: if_splits)
  have s: "fst (store x upd config) = config" if "\<not> snd (store x upd config)"
    for x :: "'v option" and upd using rejected_store [OF that] .
  show ?thesis
  proof (cases "key = ''tunnel_udp.destination_port''")
    case True
    let ?u = "\<lambda>port. update_profile (unat (active_profile config)) (\<lambda>p. p\<lparr>udp_destination_port := port\<rparr>) config"
    have "store_port (ParseUnsigned v) ?u config = (config', False)"
      using assms Some True by (simp add: ApplyLegacySetting_def Let_def)
    then have "config' = config \<or> config' = ?u 0"
      using rejected_port [of "ParseUnsigned v" ?u config] by simp
    with i show ?thesis by (auto simp: zero_port_def)
  next
    case False
    have "config' = config"
      using assms Some False
      by (auto simp: ApplyLegacySetting_def Let_def legacy_enable_def store_def split: if_splits option.splits)
    then show ?thesis by blast
  qed
qed

lemma rejected_field:
  assumes "apply_profile_field config i f v = Some (config', False)"
  shows "config' = config \<or> zero_port i config config'"
  using assms
  by (auto simp: apply_profile_field_def zero_port_def store_port_def split: if_splits option.splits)

lemma rejected_scalar: "apply_scalar config k v = Some (config', False) \<Longrightarrow> config' = config"
  by (auto simp: apply_scalar_def store_def split: if_splits option.splits)

lemma rejected_count: "apply_profile_count config v = Some (config', False) \<Longrightarrow> config' = config"
  by (auto simp: apply_profile_count_def Let_def split: option.splits if_splits list.splits)

lemma rejected_scenario: "\<not> snd (apply_scenario config v) \<Longrightarrow> fst (apply_scenario config v) = config"
  by (auto simp: apply_scenario_def ParseRuntimeScenario_def split: prod.splits option.splits if_splits)

text \<open>
  C32. A rejected setting leaves the configuration as it was, with one exception: a port
  line whose value is zero is reported as invalid, yet the zero has already been stored
  in the profile.
\<close>

theorem rejected_setting_effect:
  assumes "ApplySetting config key v migrated error = Some r" "\<not> sr_ok r"
  shows "sr_config r = config \<or> (\<exists>i < length (profiles config). zero_port i config (sr_config r))"
proof -
  have reply: "x = (sr_config r, False)" if "r = setting_reply key migrated error x" for x
    using assms(2) that by (cases x) (simp add: setting_reply_def)
  show ?thesis
  proof (cases "ParseProfileKey key")
    case None
    with assms show ?thesis
      by (auto simp: ApplySetting_def Let_def rejected_store rejected_scenario
          dest!: rejected_scalar rejected_count rejected_legacy reply
          split: if_splits option.splits prod.splits bool.splits)
  next
    case (Some kf)
    obtain k f where kf: "kf = (k, f)" by (cases kf)
    show ?thesis
    proof (cases "key \<in> {''run.scenario'', ''run.next_workload_id'', ''run.active_profile'', ''profiles.count''}
        \<or> length (profiles config) \<le> unat k")
      case True
      with assms Some kf show ?thesis
        by (auto simp: ApplySetting_def Let_def rejected_store rejected_scenario
            dest!: rejected_count reply split: if_splits option.splits)
    next
      case False
      then have i: "unat k < length (profiles config)" by simp
      have "sr_config r = config \<or> zero_port (unat k) config (sr_config r)"
      proof (cases "apply_profile_field config (unat k) f v")
        case None
        with assms Some kf False show ?thesis by (auto simp: ApplySetting_def Let_def)
      next
        case (Some x)
        with assms False \<open>ParseProfileKey key = Some kf\<close> kf have "r = setting_reply key migrated error x"
          by (auto simp: ApplySetting_def Let_def)
        from reply [OF this] Some show ?thesis using rejected_field by simp
      qed
      with i show ?thesis by blast
    qed
  qed
qed

theorem rejected_setting_effect_witness:
  "\<exists>r. ApplySetting CompiledRuntimeDefaults ''tcp.receive_deadline_ms'' ''soon'' False [] = Some r
    \<and> (sr_config r = CompiledRuntimeDefaults
       \<or> (\<exists>i < length (profiles CompiledRuntimeDefaults). zero_port i CompiledRuntimeDefaults (sr_config r)))"
proof -
  obtain r where r: "ApplySetting CompiledRuntimeDefaults ''tcp.receive_deadline_ms'' ''soon'' False [] = Some r" "\<not> sr_ok r"
    by (simp add: ApplySetting_def Let_def ParseProfileKey_def sv_starts_with_def apply_scalar_def store_def
        ParseUnsigned_def from_chars_def is_digit_def)
  from rejected_setting_effect [OF r] r(1) show ?thesis by blast
qed

lemma zero_port_invalid:
  assumes "i < length (profiles config)" "zero_port i config config'"
  shows "ValidateRuntimeConfig lim config' \<noteq> None"
proof
  assume v: "ValidateRuntimeConfig lim config' = None"
  have "profiles config' ! i \<in> set (profiles config')"
    using assms by (intro nth_mem) (auto simp: zero_port_def update_profile_def)
  from Validate_profiles [OF v this] assms show False
    by (auto simp: zero_port_def update_profile_def validate_profile_def split: if_splits)
qed

lemma zero_port_setting:
  assumes "i < length (profiles config)" "i < 8"
  shows "ApplySetting config (profile_key i ''udp_destination_port'') ''0'' m e =
    Some (setting_reply (profile_key i ''udp_destination_port'') m e
      (update_profile i (\<lambda>p. p\<lparr>udp_destination_port := 0\<rparr>) config, False))"
proof -
  have "ParseProfileKey (profile_key i ''udp_destination_port'') = Some (of_nat i, ''udp_destination_port'')"
    using assms(2) by (intro ParseProfileKey_profile_key) simp
  moreover have "unat (of_nat i :: u64) = i"
  proof (rule unat_of_nat_small)
    show "i < 2 ^ LENGTH(64)" using assms(2) by simp
  qed
  moreover have "ParseUnsigned ''0'' = Some (0 :: u16)"
    by (simp add: ParseUnsigned_def from_chars_def is_digit_def dec_value_def dec_step_def digit_val_def)
  ultimately show ?thesis
    using assms(1)
    by (simp add: ApplySetting_def Let_def profile_key_def apply_profile_field_def store_port_def)
qed

text \<open>
  C21. One port line with the value zero discards the whole file. After any accepted
  setting, the line \<^verbatim>\<open>profile.<i>.udp_destination_port=0\<close> is diagnosed as invalid, but
  the load then returns the compiled defaults, without the accepted setting.
\<close>

theorem zero_port_line_discards_file:
  assumes "applies defaults (k, v) accepted" "i < length (profiles accepted)" "i < 8"
    and contents: "contents = entry_line (k, v) @ entry_line (profile_key i ''udp_destination_port'', ''0'')"
  shows "\<exists>r. LoadRuntimeConfig e lim defaults (Opened contents) = Some r
    \<and> report_config r = defaults \<and> loaded_from_file r"
proof -
  let ?key = "profile_key i ''udp_destination_port''"
  let ?st = "\<lparr>ls_config = defaults, ls_diagnostics = [], ls_migrated = False, ls_line_number = 0\<rparr>"
  let ?st1 = "?st\<lparr>ls_config := accepted, ls_line_number := 1\<rparr>"
  have "load_lines ?st contents = load_lines ?st1 (entry_line (?key, ''0''))"
    unfolding contents using assms(1) by (subst load_lines_entry [where c' = accepted]) (auto simp: applies_def)
  moreover obtain st2 where st2: "load_lines ?st1 (entry_line (?key, ''0'')) = Some st2"
    "zero_port i accepted (ls_config st2)"
  proof -
    let ?r = "setting_reply ?key False [] (update_profile i (\<lambda>p. p\<lparr>udp_destination_port := 0\<rparr>) accepted, False)"
    have r: "ApplySetting (ls_config ?st1) ?key ''0'' (ls_migrated ?st1) [] = Some ?r"
      using zero_port_setting [OF assms(2,3)] by simp
    have "clean_key ?key"
      by (rule profile_key_clean) (simp_all add: clean_literal)
    moreover have "length ?key < 400"
      using length_show_dec_less [of i 1] assms(3) by (simp add: profile_key_def)
    ultimately have ok: "entry_ok (?key, ''0'')"
      by (simp add: entry_ok_def) (simp add: clean_literal)
    obtain st2 where l: "load_line ?st1 (?key @ CHR ''='' # ''0'' @ [newline]) = Some st2"
      "ls_config st2 = update_profile i (\<lambda>p. p\<lparr>udp_destination_port := 0\<rparr>) accepted"
      using load_line_setting [OF ok r refl] by (simp add: diagnose_def)
    have "\<forall>c \<in> set (?key @ CHR ''='' # ''0''). c \<noteq> newline"
      using entry_body_clean [OF ok] by (auto simp: clean_text_def clean_char_def)
    then have "fgets 512 ((?key @ CHR ''='' # ''0'') @ newline # []) = Some ((?key @ CHR ''='' # ''0'') @ [newline], [])"
      using \<open>length ?key < 400\<close> by (intro fgets_line) simp_all
    then have "load_lines ?st1 (entry_line (?key, ''0'')) = load_lines st2 []"
      using l(1) by (subst load_lines.simps) (simp add: entry_line_def)
    moreover have "load_lines st2 [] = Some st2"
      by (subst load_lines.simps) (simp add: fgets_def)
    ultimately show ?thesis using that l(2) by (simp add: zero_port_def)
  qed
  moreover have "ValidateRuntimeConfig lim (ls_config st2) \<noteq> None"
    by (rule zero_port_invalid [OF assms(2) st2(2)])
  ultimately show ?thesis
    by (auto simp: LoadRuntimeConfig_def Let_def diagnose_def)
qed

theorem zero_port_line_discards_file_witness:
  "\<exists>r. LoadRuntimeConfig 2 example_limits CompiledRuntimeDefaults
      (Opened (entry_line (''udp.pacing_ms'', ''7'') @ entry_line (profile_key 0 ''udp_destination_port'', ''0''))) = Some r
    \<and> report_config r = CompiledRuntimeDefaults"
proof -
  have "applies CompiledRuntimeDefaults (''udp.pacing_ms'', ''7'')
      (update_udp (\<lambda>u. u\<lparr>pacing_ms := 7\<rparr>) CompiledRuntimeDefaults)"
    by (simp add: applies_def entry_ok_def ApplySetting_def Let_def ParseProfileKey_def sv_starts_with_def
        apply_scalar_def store_def setting_reply_def clean_literal ParseUnsigned_def from_chars_def is_digit_def
        dec_value_def dec_step_def digit_val_def)
  moreover have "0 < length (profiles (update_udp (\<lambda>u. u\<lparr>pacing_ms := 7\<rparr>) CompiledRuntimeDefaults))"
    by (simp add: update_udp_def CompiledRuntimeDefaults_def)
  ultimately show ?thesis using zero_port_line_discards_file [OF _ _ _ refl, of _ _ _ _ 0] by fastforce
qed

end
