(* ===== verification/UdpMetrics.thy ===== *)
theory UdpMetrics
  imports Prelude
begin

text \<open>
  \<^verbatim>\<open>UdpWorkloadMetrics\<close> (\<^verbatim>\<open>toolbox/src/udp_workload_metrics.hpp\<close>): the counters of one UDP
  workload and its round-trip-time histogram of 64 power-of-two buckets, on 32- and 64-bit
  unsigned integers that wrap. The abstraction is the list of round-trip times recorded so
  far; \<open>represents\<close> ties the counters to it.
\<close>

record UdpWorkloadMetrics =
  first_submission_tick :: u64
  last_submission_tick :: u64
  submitted_bytes :: u64
  echoed_bytes :: u64
  rtt_min_ns :: u64
  rtt_max_ns :: u64
  rtt_total_ns :: u64
  attempted_datagrams :: u32
  submitted_datagrams :: u32
  echoed_datagrams :: u32
  rtt_histogram :: "u32 list"

definition new_metrics :: UdpWorkloadMetrics where
  "new_metrics = \<lparr>first_submission_tick = 0, last_submission_tick = 0, submitted_bytes = 0,
     echoed_bytes = 0, rtt_min_ns = 0, rtt_max_ns = 0, rtt_total_ns = 0, attempted_datagrams = 0,
     submitted_datagrams = 0, echoed_datagrams = 0, rtt_histogram = replicate 64 0\<rparr>"

definition RecordAttempt :: "UdpWorkloadMetrics \<Rightarrow> UdpWorkloadMetrics" where
  "RecordAttempt m = m\<lparr>attempted_datagrams := attempted_datagrams m + 1\<rparr>"

definition RecordSubmission :: "u64 \<Rightarrow> u64 \<Rightarrow> UdpWorkloadMetrics \<Rightarrow> UdpWorkloadMetrics" where
  "RecordSubmission tick payload_bytes m =
     (let m1 = (if submitted_datagrams m = 0 then m\<lparr>first_submission_tick := tick\<rparr> else m)
      in m1\<lparr>last_submission_tick := tick, submitted_datagrams := submitted_datagrams m1 + 1,
            submitted_bytes := submitted_bytes m1 + payload_bytes\<rparr>)"

definition TicksToNanoseconds :: "u64 \<Rightarrow> u64 \<Rightarrow> u64" where
  "TicksToNanoseconds ticks tick_frequency =
     (if tick_frequency = 0 then 0
      else (ticks div tick_frequency) * 1000000000
           + ((ticks mod tick_frequency) * 1000000000) div tick_frequency)"

text \<open>\<^verbatim>\<open>std::bit_width\<close>.\<close>

fun bit_width :: "nat \<Rightarrow> nat" where
  "bit_width n = (if n = 0 then 0 else Suc (bit_width (n div 2)))"

declare bit_width.simps [simp del]

definition RttBucket :: "u64 \<Rightarrow> nat" where
  "RttBucket elapsed_ns = (if elapsed_ns = 0 then 0 else bit_width (unat elapsed_ns) - 1)"

definition RecordEcho :: "u64 \<Rightarrow> u64 \<Rightarrow> u64 \<Rightarrow> u64 \<Rightarrow> UdpWorkloadMetrics \<Rightarrow> UdpWorkloadMetrics" where
  "RecordEcho start_tick end_tick tick_frequency payload_bytes m =
     (let elapsed_ns = TicksToNanoseconds (end_tick - start_tick) tick_frequency;
          m1 = (if echoed_datagrams m = 0 \<or> elapsed_ns < rtt_min_ns m then m\<lparr>rtt_min_ns := elapsed_ns\<rparr> else m);
          m2 = (if rtt_max_ns m1 < elapsed_ns then m1\<lparr>rtt_max_ns := elapsed_ns\<rparr> else m1);
          b = RttBucket elapsed_ns
      in m2\<lparr>rtt_total_ns := rtt_total_ns m2 + elapsed_ns,
            echoed_datagrams := echoed_datagrams m2 + 1,
            echoed_bytes := echoed_bytes m2 + payload_bytes,
            rtt_histogram := (rtt_histogram m2)[b := rtt_histogram m2 ! b + 1]\<rparr>)"

definition SubmissionElapsedNanoseconds :: "u64 \<Rightarrow> UdpWorkloadMetrics \<Rightarrow> u64" where
  "SubmissionElapsedNanoseconds tick_frequency m =
     (if submitted_datagrams m < 2 then 0
      else TicksToNanoseconds (last_submission_tick m - first_submission_tick m) tick_frequency)"

definition RttMeanNanoseconds :: "UdpWorkloadMetrics \<Rightarrow> u64" where
  "RttMeanNanoseconds m =
     (if echoed_datagrams m = 0 then 0 else rtt_total_ns m div ucast (echoed_datagrams m))"

text \<open>The histogram loop; \<open>index\<close> and \<open>observed\<close> are its two variables.\<close>

fun percentile_scan :: "u64 \<Rightarrow> nat \<Rightarrow> u64 \<Rightarrow> u32 list \<Rightarrow> u64" where
  "percentile_scan target index observed [] = 0"
| "percentile_scan target index observed (h # hs) =
     (let observed' = observed + ucast h
      in if target \<le> observed' then (if hs = [] then (- 1) else push_bit (index + 1) 1)
         else percentile_scan target (index + 1) observed' hs)"

definition percentile_target :: "u32 \<Rightarrow> UdpWorkloadMetrics \<Rightarrow> u64" where
  "percentile_target percentile m =
     (ucast (echoed_datagrams m) * ucast percentile + 99) div 100"

definition RttPercentileUpperNanoseconds :: "u32 \<Rightarrow> UdpWorkloadMetrics \<Rightarrow> u64" where
  "RttPercentileUpperNanoseconds percentile m =
     (if echoed_datagrams m = 0 then 0
      else percentile_scan (percentile_target percentile m) 0 0 (rtt_histogram m))"

subsection \<open>Buckets\<close>

lemma bit_width_bounds: "0 < n \<Longrightarrow> 2 ^ (bit_width n - 1) \<le> n \<and> n < 2 ^ bit_width n \<and> 0 < bit_width n"
proof (induction n rule: bit_width.induct)
  case (1 n)
  show ?case
  proof (cases "n = 1")
    case True
    have "bit_width 0 = 0" by (simp add: bit_width.simps [of 0])
    then have "bit_width 1 = 1" by (simp add: bit_width.simps [of "Suc 0"])
    with True show ?thesis by simp
  next
    case False
    with "1.prems" have "0 < n div 2" by linarith
    with "1.IH" "1.prems" have ih: "2 ^ (bit_width (n div 2) - 1) \<le> n div 2"
      "n div 2 < 2 ^ bit_width (n div 2)" "0 < bit_width (n div 2)" by auto
    have w: "bit_width n = Suc (bit_width (n div 2))" using "1.prems" by (simp add: bit_width.simps [of n])
    have "(2::nat) ^ bit_width (n div 2) = 2 * 2 ^ (bit_width (n div 2) - 1)"
      using ih(3) by (cases "bit_width (n div 2)") auto
    then show ?thesis using ih w by simp linarith
  qed
qed

lemma bit_width_le: "n < 2 ^ k \<Longrightarrow> bit_width n \<le> k"
proof (cases "n = 0")
  case False
  assume "n < 2 ^ k"
  with bit_width_bounds [of n] False have "2 ^ (bit_width n - 1) < (2::nat) ^ k" by linarith
  then have "bit_width n - 1 < k" by (simp add: power_strict_increasing_iff)
  then show ?thesis by linarith
qed (simp add: bit_width.simps [of 0])

lemma RttBucket_less_64: "RttBucket e < 64"
proof -
  have "unat e < 2 ^ 64" using unsigned_less [of e] by simp
  then show ?thesis using bit_width_le [of "unat e" 64] by (auto simp: RttBucket_def)
qed

lemma RttBucket_range:
  "unat e < 2 ^ (RttBucket e + 1)" "e \<noteq> 0 \<Longrightarrow> 2 ^ RttBucket e \<le> unat e"
proof -
  have pos: "0 < unat e \<longleftrightarrow> e \<noteq> 0" by (simp add: unat_gt_0)
  show "unat e < 2 ^ (RttBucket e + 1)"
    using bit_width_bounds [of "unat e"] pos by (cases "e = 0") (auto simp: RttBucket_def)
  show "e \<noteq> 0 \<Longrightarrow> 2 ^ RttBucket e \<le> unat e"
    using bit_width_bounds [of "unat e"] pos by (auto simp: RttBucket_def)
qed

lemma RttBucket_le_iff: "k < 64 \<Longrightarrow> RttBucket e \<le> k \<longleftrightarrow> unat e < 2 ^ (k + 1)"
proof
  assume "RttBucket e \<le> k"
  then have "(2::nat) ^ (RttBucket e + 1) \<le> 2 ^ (k + 1)" by (intro power_increasing) auto
  with RttBucket_range(1) [of e] show "unat e < 2 ^ (k + 1)" by (rule order_less_le_trans)
next
  assume l: "unat e < 2 ^ (k + 1)"
  show "RttBucket e \<le> k"
  proof (cases "e = 0")
    case False
    from order_le_less_trans [OF RttBucket_range(2) [OF this] l]
    have "RttBucket e < k + 1" by (rule power_less_imp_less_exp [of "2::nat", rotated]) simp
    then show ?thesis by simp
  qed (simp add: RttBucket_def)
qed

subsection \<open>The recorded samples\<close>

text \<open>
  The counters represent a list of round-trip times, newest first, as long as neither the
  32-bit count nor the 64-bit total has wrapped.
\<close>

definition represents :: "UdpWorkloadMetrics \<Rightarrow> u64 list \<Rightarrow> bool" where
  "represents m xs \<longleftrightarrow>
     length xs < 2 ^ 32 \<and> sum_list (map unat xs) < 2 ^ 64 \<and>
     unat (echoed_datagrams m) = length xs \<and>
     unat (rtt_total_ns m) = sum_list (map unat xs) \<and>
     (xs \<noteq> [] \<longrightarrow> rtt_min_ns m = Min (set xs) \<and> rtt_max_ns m = Max (set xs)) \<and>
     (xs = [] \<longrightarrow> rtt_max_ns m = 0) \<and>
     length (rtt_histogram m) = 64 \<and>
     (\<forall>b < 64. unat (rtt_histogram m ! b) = length (filter (\<lambda>x. RttBucket x = b) xs))"

lemma represents_new: "represents new_metrics []"
  by (simp add: represents_def new_metrics_def)

lemma RecordEcho_fields:
  fixes start_tick end_tick f bytes :: u64 and m :: UdpWorkloadMetrics
  defines "m' \<equiv> RecordEcho start_tick end_tick f bytes m"
    and "e \<equiv> TicksToNanoseconds (end_tick - start_tick) f"
  shows "rtt_min_ns m' = (if echoed_datagrams m = 0 \<or> e < rtt_min_ns m then e else rtt_min_ns m)"
    "rtt_max_ns m' = (if rtt_max_ns m < e then e else rtt_max_ns m)"
    "rtt_total_ns m' = rtt_total_ns m + e"
    "echoed_datagrams m' = echoed_datagrams m + 1"
    "rtt_histogram m' = (rtt_histogram m)[RttBucket e := rtt_histogram m ! RttBucket e + 1]"
  unfolding m'_def e_def RecordEcho_def Let_def by simp_all

lemma represents_RecordEcho:
  assumes r: "represents m xs"
    and e: "e = TicksToNanoseconds (end_tick - start_tick) f"
    and n: "length xs + 1 < 2 ^ 32" and t: "sum_list (map unat xs) + unat e < 2 ^ 64"
  shows "represents (RecordEcho start_tick end_tick f bytes m) (e # xs)"
proof -
  let ?m = "RecordEcho start_tick end_tick f bytes m"
  have cnt: "unat (echoed_datagrams m) = length xs" and tot: "unat (rtt_total_ns m) = sum_list (map unat xs)"
    and hist: "length (rtt_histogram m) = 64"
      "\<And>b. b < 64 \<Longrightarrow> unat (rtt_histogram m ! b) = length (filter (\<lambda>x. RttBucket x = b) xs)"
    using r by (auto simp: represents_def)
  have zero: "echoed_datagrams m = 0 \<longleftrightarrow> xs = []"
    using cnt by (metis length_0_conv unat_eq_zero)
  note fields = RecordEcho_fields [of start_tick end_tick f bytes m, folded e]
  have minmax: "rtt_min_ns ?m = Min (set (e # xs)) \<and> rtt_max_ns ?m = Max (set (e # xs))"
  proof (cases "xs = []")
    case True
    then have "rtt_max_ns m = 0" using r by (simp add: represents_def)
    with True zero show ?thesis by (auto simp: fields word_gt_0)
  next
    case False
    then have "rtt_min_ns m = Min (set xs)" "rtt_max_ns m = Max (set xs)" "echoed_datagrams m \<noteq> 0"
      using r zero by (auto simp: represents_def)
    moreover have "Min (set (e # xs)) = min e (Min (set xs))" "Max (set (e # xs)) = max e (Max (set xs))"
      using False by simp_all
    ultimately show ?thesis by (auto simp: fields min_def max_def simp del: list.set)
  qed
  have counts: "unat (echoed_datagrams ?m) = length (e # xs)" "unat (rtt_total_ns ?m) = sum_list (map unat (e # xs))"
    using cnt tot n t by (auto simp: fields unat_word_ariths)
  have h: "unat (rtt_histogram ?m ! b) = length (filter (\<lambda>x. RttBucket x = b) (e # xs))" if "b < 64" for b
  proof -
    have "length (filter (\<lambda>x. RttBucket x = b) xs) \<le> length xs" by simp
    then have "unat (rtt_histogram m ! b) + 1 < 2 ^ 32" using hist(2) [OF that] n by linarith
    then show ?thesis
      using hist that by (auto simp: fields nth_list_update unat_word_ariths)
  qed
  show ?thesis
    using minmax counts h n t hist(1) RttBucket_less_64
    by (simp add: represents_def fields(5))
qed

subsection \<open>Percentiles and the mean\<close>

text \<open>How many of the first \<open>k\<close> buckets' samples there are.\<close>

lemma sum_buckets:
  assumes "represents m xs" "k \<le> 64"
  shows "(\<Sum>b<k. unat (rtt_histogram m ! b)) = length (filter (\<lambda>x. RttBucket x < k) xs)"
  using assms(2)
proof (induction k)
  case (Suc k)
  have "length (filter (\<lambda>x. RttBucket x < Suc k) xs) =
      length (filter (\<lambda>x. RttBucket x < k) xs) + length (filter (\<lambda>x. RttBucket x = k) xs)"
    by (induction xs) auto
  with Suc assms(1) show ?case by (simp add: represents_def)
qed simp

lemma unat_ucast_32_64: "unat (ucast (w :: u32) :: u64) = unat w"
proof -
  have "unat w < 2 ^ LENGTH(32)" by (rule unsigned_less)
  then have "unat w < 2 ^ 64" by simp
  then show ?thesis by (simp add: unsigned_ucast_eq take_bit_nat_eq_self)
qed

lemma percentile_scan_sum:
  assumes r: "represents m xs" and k: "k \<le> 64"
    and obs: "unat observed = length (filter (\<lambda>x. RttBucket x < k) xs)"
    and tgt: "unat target \<le> length xs" "unat observed < unat target \<or> k = 0"
  shows "\<exists>b. k \<le> b \<and> b < 64
    \<and> percentile_scan target k observed (drop k (rtt_histogram m)) = (if b = 63 then - 1 else push_bit (b + 1) 1)
    \<and> unat target \<le> length (filter (\<lambda>x. RttBucket x \<le> b) xs)
    \<and> (b = k \<or> length (filter (\<lambda>x. RttBucket x < b) xs) < unat target)"
  using k obs tgt(2)
proof (induction "64 - k" arbitrary: k observed)
  case 0
  have "filter (\<lambda>x. RttBucket x < k) xs = xs"
    using 0 RttBucket_less_64 by (auto intro!: filter_True)
  with 0 tgt(1) show ?case by auto
next
  case (Suc d)
  then have k: "k < 64" by simp
  let ?h = "rtt_histogram m ! k"
  let ?o = "observed + ucast ?h"
  have len: "length (rtt_histogram m) = 64" "length xs < 2 ^ 32" using r by (auto simp: represents_def)
  have dr: "drop k (rtt_histogram m) = ?h # drop (Suc k) (rtt_histogram m)"
    using k len by (simp add: Cons_nth_drop_Suc)
  have split: "length (filter (\<lambda>x. RttBucket x < Suc k) xs) =
      length (filter (\<lambda>x. RttBucket x < k) xs) + length (filter (\<lambda>x. RttBucket x = k) xs)"
    by (induction xs) auto
  have "length (filter (\<lambda>x. RttBucket x < Suc k) xs) \<le> length xs" by simp
  then have o: "unat ?o = length (filter (\<lambda>x. RttBucket x < Suc k) xs)"
    using r k len(2) Suc.prems(2) split
    by (simp add: represents_def unat_word_ariths unat_ucast_32_64)
  have last: "drop (Suc k) (rtt_histogram m) = [] \<longleftrightarrow> k = 63" using k len by auto
  show ?case
  proof (cases "target \<le> ?o")
    case True
    then have "unat target \<le> length (filter (\<lambda>x. RttBucket x \<le> k) xs)"
      using o by (simp add: word_le_nat_alt less_Suc_eq_le)
    with True k last show ?thesis by (intro exI [of _ k]) (simp add: dr Let_def)
  next
    case False
    then have "unat ?o < unat target" by (simp add: word_le_nat_alt)
    moreover have d: "d = 64 - Suc k" using Suc.hyps(2) by simp
    ultimately obtain b where
      b: "Suc k \<le> b" "b < 64"
        "percentile_scan target (Suc k) ?o (drop (Suc k) (rtt_histogram m)) = (if b = 63 then - 1 else push_bit (b + 1) 1)"
        "unat target \<le> length (filter (\<lambda>x. RttBucket x \<le> b) xs)"
        "b = Suc k \<or> length (filter (\<lambda>x. RttBucket x < b) xs) < unat target"
      using Suc.hyps(1) [OF d _ o] k by auto
    then have "length (filter (\<lambda>x. RttBucket x < b) xs) < unat target"
      using o \<open>unat ?o < unat target\<close> by auto
    with b False show ?thesis by (intro exI [of _ b]) (simp add: dr Let_def)
  qed
qed

lemma unat_push_bit_1: "k < 64 \<Longrightarrow> unat (push_bit k (1 :: u64)) = 2 ^ k"
proof -
  assume k: "k < 64"
  then have "(2::nat) ^ k < 2 ^ 64" by (intro power_strict_increasing) auto
  then have "unat (of_nat (2 ^ k) :: u64) = 2 ^ k" by (intro unat_of_nat_small) simp
  then show ?thesis by (simp add: push_bit_eq_mult)
qed

lemma percentile_target_exact:
  assumes "represents m xs" "percentile \<le> 100"
  shows "unat (percentile_target percentile m) = (length xs * unat percentile + 99) div 100"
proof -
  have p: "unat percentile \<le> 100" using assms(2) by (simp add: word_le_nat_alt)
  have n: "length xs < 2 ^ 32" "unat (echoed_datagrams m) = length xs"
    using assms(1) by (auto simp: represents_def)
  have "length xs * unat percentile \<le> 2 ^ 32 * 100" using n p by (intro mult_mono) auto
  then have "length xs * unat percentile + 99 < 2 ^ 64" by simp
  then show ?thesis
    using n by (simp add: percentile_target_def unat_div unat_word_ariths unat_ucast_32_64)
qed

lemma percentile_result:
  assumes r: "represents m xs" and ne: "xs \<noteq> []" and p: "percentile \<le> 100"
  obtains b where "b < 64"
    "RttPercentileUpperNanoseconds percentile m = (if b = 63 then - 1 else push_bit (b + 1) 1)"
    "(length xs * unat percentile + 99) div 100 \<le> length (filter (\<lambda>x. RttBucket x \<le> b) xs)"
    "b = 0 \<or> length (filter (\<lambda>x. RttBucket x < b) xs) < (length xs * unat percentile + 99) div 100"
proof -
  have p': "unat percentile \<le> 100" using p by (simp add: word_le_nat_alt)
  have "echoed_datagrams m \<noteq> 0" using r ne by (auto simp: represents_def)
  moreover have "length xs * unat percentile \<le> length xs * 100" using p' by simp
  then have "(length xs * unat percentile + 99) div 100 \<le> length xs" by linarith
  moreover note percentile_target_exact [OF r p]
  ultimately show thesis
    using percentile_scan_sum [OF r, of 0 0 "percentile_target percentile m"] that
    by (auto simp: RttPercentileUpperNanoseconds_def)
qed

lemma bucket_bound:
  assumes "b < 64" "U = (if b = 63 then - 1 else push_bit (b + 1) (1 :: u64))"
  shows "RttBucket x \<le> b \<Longrightarrow> x \<le> U" and "x < U \<Longrightarrow> RttBucket x \<le> b"
proof -
  have u: "b \<noteq> 63 \<Longrightarrow> unat U = 2 ^ (b + 1)" using assms unat_push_bit_1 [of "b + 1"] by simp
  show "RttBucket x \<le> b \<Longrightarrow> x \<le> U"
    using u assms RttBucket_le_iff [OF assms(1), of x] by (cases "b = 63") (simp, auto simp: word_le_nat_alt)
  show "x < U \<Longrightarrow> RttBucket x \<le> b"
    using u assms RttBucket_le_iff [OF assms(1), of x] RttBucket_less_64 [of x]
    by (cases "b = 63") (auto simp: word_less_nat_alt)
qed

text \<open>A run of echoes, oldest first, each with its two ticks and payload size.\<close>

type_synonym echo = "u64 \<times> u64 \<times> u64"

fun record_echoes :: "u64 \<Rightarrow> echo list \<Rightarrow> UdpWorkloadMetrics \<Rightarrow> UdpWorkloadMetrics" where
  "record_echoes f [] m = m"
| "record_echoes f ((s, e, n) # es) m = record_echoes f es (RecordEcho s e f n m)"

definition echo_ns :: "u64 \<Rightarrow> echo \<Rightarrow> u64" where
  "echo_ns f e = (case e of (s, e', n) \<Rightarrow> TicksToNanoseconds (e' - s) f)"

lemma represents_record_echoes:
  assumes "represents m xs" "length xs + length es < 2 ^ 32"
    and "sum_list (map unat xs) + sum_list (map (unat \<circ> echo_ns f) es) < 2 ^ 64"
  shows "represents (record_echoes f es m) (rev (map (echo_ns f) es) @ xs)"
  using assms
proof (induction es arbitrary: m xs)
  case (Cons a es)
  obtain s e n where a: "a = (s, e, n)" by (cases a)
  have "represents (RecordEcho s e f n m) (echo_ns f a # xs)"
    using Cons.prems by (intro represents_RecordEcho) (auto simp: a echo_ns_def)
  from Cons.IH [OF this] Cons.prems show ?case by (simp add: a)
qed simp

text \<open>
  After any run of echoes whose count and total fit the counters, the reported
  percentile is a conservative upper bound: at least the requested share of the recorded
  round-trip times is at most the reported value.
\<close>

theorem rtt_percentile_conservative:
  assumes "length es < 2 ^ 32" "sum_list (map (unat \<circ> echo_ns f) es) < 2 ^ 64"
    and "es \<noteq> []" "percentile \<le> 100"
  shows "length es * unat percentile
    \<le> 100 * length (filter (\<lambda>e. echo_ns f e \<le> RttPercentileUpperNanoseconds percentile (record_echoes f es new_metrics)) es)"
proof -
  let ?xs = "rev (map (echo_ns f) es)"
  let ?m = "record_echoes f es new_metrics"
  have r: "represents ?m ?xs"
    using represents_record_echoes [OF represents_new, of es f] assms by simp
  obtain b where b: "b < 64"
    "RttPercentileUpperNanoseconds percentile ?m = (if b = 63 then - 1 else push_bit (b + 1) 1)"
    "(length ?xs * unat percentile + 99) div 100 \<le> length (filter (\<lambda>x. RttBucket x \<le> b) ?xs)"
    using percentile_result [OF r _ assms(4)] assms(3) by auto
  have "length (filter (\<lambda>x. RttBucket x \<le> b) ?xs)
      \<le> length (filter (\<lambda>x. x \<le> RttPercentileUpperNanoseconds percentile ?m) ?xs)"
    by (rule length_filter_mono) (rule bucket_bound(1) [OF b(1,2)])
  also have "\<dots> = length (filter (\<lambda>e. echo_ns f e \<le> RttPercentileUpperNanoseconds percentile ?m) es)"
    by (simp add: rev_filter [symmetric] filter_map comp_def)
  finally show ?thesis using b(3) by simp
qed

definition sample_echoes :: "echo list" where
  "sample_echoes = [(0, 1000, 1200), (0, 4000, 1200), (0, 8000, 1200), (0, 16000, 1200)]"

theorem rtt_percentile_conservative_witness:
  "4 * unat (50 :: u32) \<le> 100 * length (filter (\<lambda>e. echo_ns 1000000000 e
     \<le> RttPercentileUpperNanoseconds 50 (record_echoes 1000000000 sample_echoes new_metrics)) sample_echoes)"
  using rtt_percentile_conservative [of sample_echoes 1000000000 50]
  by (simp add: sample_echoes_def echo_ns_def TicksToNanoseconds_def)

text \<open>
  The reported percentile is tight to a factor of two: unless it is the lowest bucket
  bound, fewer than the requested share of the round-trip times are below half of it.
\<close>

theorem rtt_percentile_tight:
  assumes "length es < 2 ^ 32" "sum_list (map (unat \<circ> echo_ns f) es) < 2 ^ 64"
    and "es \<noteq> []" "percentile \<le> 100"
    and "U = RttPercentileUpperNanoseconds percentile (record_echoes f es new_metrics)" "2 < U" "U \<noteq> - 1"
  shows "100 * length (filter (\<lambda>e. unat (echo_ns f e) < unat U div 2) es) < length es * unat percentile"
proof -
  let ?xs = "rev (map (echo_ns f) es)"
  have r: "represents (record_echoes f es new_metrics) ?xs"
    using represents_record_echoes [OF represents_new, of es f] assms by simp
  obtain b where b: "b < 64" "U = (if b = 63 then - 1 else push_bit (b + 1) 1)"
    "b = 0 \<or> length (filter (\<lambda>x. RttBucket x < b) ?xs) < (length ?xs * unat percentile + 99) div 100"
    using percentile_result [OF r _ assms(4)] assms(3,5) by auto
  then have b1: "b < 63" using assms(7) by (auto split: if_splits)
  have b0: "b \<noteq> 0"
  proof
    assume "b = 0"
    with b(2) have "U = 2" by simp
    with assms(6) show False by simp
  qed
  have U: "unat U = 2 ^ (b + 1)" using b(2) b1 unat_push_bit_1 [of "b + 1"] by simp
  have "length (filter (\<lambda>x. unat x < unat U div 2) ?xs) \<le> length (filter (\<lambda>x. RttBucket x < b) ?xs)"
  proof (rule length_filter_mono)
    fix x :: u64
    assume "unat x < unat U div 2"
    then have "unat x < 2 ^ (b - 1 + 1)" using U b0 by simp
    then have "RttBucket x \<le> b - 1" using RttBucket_le_iff [of "b - 1" x] b(1) by simp
    then show "RttBucket x < b" using b0 by simp
  qed
  moreover have "length (filter (\<lambda>x. unat x < unat U div 2) ?xs) =
      length (filter (\<lambda>e. unat (echo_ns f e) < unat U div 2) es)"
    by (simp add: rev_filter [symmetric] filter_map comp_def)
  ultimately have "length (filter (\<lambda>e. unat (echo_ns f e) < unat U div 2) es)
      < (length es * unat percentile + 99) div 100"
    using b(3) b0 by simp
  then show ?thesis by linarith
qed

theorem rtt_percentile_tight_witness:
  "RttPercentileUpperNanoseconds 95 (record_echoes 1000000000 [(0, 3, 1200)] new_metrics) = 4
   \<and> 100 * length (filter (\<lambda>e. unat (echo_ns 1000000000 e) < 2) [(0, 3, 1200)]) < 1 * 95"
proof -
  have h: "replicate 64 (0 :: u32) = 0 # 0 # replicate 62 0" by (simp add: numeral_eq_Suc)
  have w: "RttBucket 3 = 1" by (simp add: RttBucket_def bit_width.simps [of 3] bit_width.simps [of "Suc 0"]
        bit_width.simps [of 0])
  have u: "RttPercentileUpperNanoseconds 95 (record_echoes 1000000000 [(0, 3, 1200)] new_metrics) = 4"
    by (simp add: RttPercentileUpperNanoseconds_def percentile_target_def RecordEcho_def Let_def
        TicksToNanoseconds_def new_metrics_def w h)
  show ?thesis
    using rtt_percentile_tight [of "[(0, 3, 1200)]" 1000000000 95 4] u
    by (simp add: echo_ns_def TicksToNanoseconds_def)
qed

lemma mult_div_split:
  fixes t g f :: nat
  assumes "0 < f"
  shows "t * g div f = t div f * g + t mod f * g div f"
proof -
  have "t * g = (t div f * f + t mod f) * g" by (simp only: div_mult_mod_eq)
  also have "\<dots> = t mod f * g + (t div f * g) * f" by (simp only: algebra_simps)
  finally have "t * g = t mod f * g + (t div f * g) * f" .
  then have "t * g div f = (t mod f * g + (t div f * g) * f) div f" by (rule arg_cong)
  also have "\<dots> = t div f * g + t mod f * g div f" using assms by (intro div_mult_self1) simp
  finally show ?thesis .
qed

text \<open>
  Tick conversion is exact: splitting the division keeps the product below 64 bits, so
  the result is the rounded-down number of nanoseconds wherever that number fits.
\<close>

theorem ticks_to_nanoseconds_exact:
  assumes f: "f \<noteq> 0" "unat f \<le> 2 ^ 64 div 1000000000"
    and r: "unat t * 1000000000 div unat f < 2 ^ 64"
  shows "unat (TicksToNanoseconds t f) = unat t * 1000000000 div unat f"
proof -
  let ?t = "unat t" and ?f = "unat f" and ?g = "1000000000 :: nat"
  have f0: "0 < ?f" using f(1) by (simp add: unat_gt_0)
  have m: "?t mod ?f * ?g < 2 ^ 64"
  proof -
    have "?t mod ?f + 1 \<le> 2 ^ 64 div ?g" using f0 f(2) mod_less_divisor [OF f0, of ?t] by linarith
    then have "(?t mod ?f + 1) * ?g \<le> 2 ^ 64 div ?g * ?g" by (rule mult_right_mono) simp
    also have "\<dots> \<le> 2 ^ 64" by simp
    finally show ?thesis by simp
  qed
  note eq = mult_div_split [OF f0, of ?t ?g]
  have d: "?t div ?f * ?g < 2 ^ 64" "?t div ?f * ?g + ?t mod ?f * ?g div ?f < 2 ^ 64"
    using r eq by simp_all
  have "unat ((t mod f) * 1000000000) = ?t mod ?f * ?g"
    using m by (simp add: unat_word_ariths unat_mod)
  then have "unat (((t mod f) * 1000000000) div f) = ?t mod ?f * ?g div ?f" by (simp add: unat_div)
  moreover have "unat ((t div f) * 1000000000) = ?t div ?f * ?g"
    using d(1) by (simp add: unat_word_ariths unat_div)
  ultimately show ?thesis
    using d(2) f(1) eq by (simp add: TicksToNanoseconds_def unat_word_ariths)
qed

theorem ticks_to_nanoseconds_exact_witness:
  "unat (TicksToNanoseconds 2000000000000 19200000) = unat (2000000000000 :: u64) * 1000000000 div 19200000"
  using ticks_to_nanoseconds_exact [of 19200000 2000000000000] by simp

text \<open>
  After any run of echoes that fits the counters, the mean is the rounded-down average
  of the recorded round-trip times and lies between the reported minimum and maximum.
\<close>

theorem rtt_mean_between:
  assumes "length es < 2 ^ 32" "sum_list (map (unat \<circ> echo_ns f) es) < 2 ^ 64" "es \<noteq> []"
    and m: "m = record_echoes f es new_metrics"
  shows "unat (RttMeanNanoseconds m) = sum_list (map (unat \<circ> echo_ns f) es) div length es
    \<and> rtt_min_ns m \<le> RttMeanNanoseconds m \<and> RttMeanNanoseconds m \<le> rtt_max_ns m"
proof -
  let ?xs = "rev (map (echo_ns f) es)"
  have r: "represents m ?xs"
    using represents_record_echoes [OF represents_new, of es f] assms by simp
  have n: "0 < length ?xs" and s: "sum_list (map unat ?xs) = sum_list (map (unat \<circ> echo_ns f) es)"
    using assms(3) by (auto simp: rev_map [symmetric] sum_list_rev comp_def)
  have mean: "unat (RttMeanNanoseconds m) = sum_list (map unat ?xs) div length ?xs"
  proof -
    have "echoed_datagrams m \<noteq> 0" using r n by (auto simp: represents_def)
    with r show ?thesis
      by (simp add: RttMeanNanoseconds_def unat_div unat_ucast_32_64 represents_def)
  qed
  have bounds: "unat (rtt_min_ns m) \<le> unat x \<and> unat x \<le> unat (rtt_max_ns m)" if "x \<in> set ?xs" for x
    using r that n by (auto simp: represents_def word_le_nat_alt [symmetric])
  have "length xs * a \<le> sum_list (map unat xs) \<and> sum_list (map unat xs) \<le> length xs * b"
    if "\<forall>x \<in> set xs. a \<le> unat x \<and> unat x \<le> b" for xs :: "u64 list" and a b
    using that by (induction xs) auto
  from this [of ?xs "unat (rtt_min_ns m)" "unat (rtt_max_ns m)"] bounds
  have "length ?xs * unat (rtt_min_ns m) \<le> sum_list (map unat ?xs)"
    "sum_list (map unat ?xs) \<le> length ?xs * unat (rtt_max_ns m)" by blast+
  then have "unat (rtt_min_ns m) \<le> unat (RttMeanNanoseconds m)"
    "unat (RttMeanNanoseconds m) \<le> unat (rtt_max_ns m)"
    using n mean div_le_mono [of "sum_list (map unat ?xs)" "length ?xs * unat (rtt_max_ns m)" "length ?xs"]
    by (simp_all add: less_eq_div_iff_mult_less_eq mult.commute)
  with mean s show ?thesis by (simp add: word_le_nat_alt)
qed

theorem rtt_mean_between_witness:
  "unat (RttMeanNanoseconds (record_echoes 1000000000 sample_echoes new_metrics)) = 7250"
  using rtt_mean_between [of sample_echoes 1000000000]
  by (simp add: sample_echoes_def echo_ns_def TicksToNanoseconds_def)

end
