(* ===== verification/HttpsParsing.thy ===== *)
theory HttpsParsing
  imports Ipv4Text
begin

text \<open>
  The two text parsers of the HTTPS scenarios
  (\<^verbatim>\<open>toolbox/src/https_scenario_parsing.cpp\<close>): the target URI and the response of the
  public-address service. Both report a detail message on failure.
\<close>

record HttpsTarget =
  host :: string
  port :: u16
  path :: string

definition default_target :: HttpsTarget where
  "default_target = \<lparr>host = [], port = 443, path = []\<rparr>"

definition Ipv4StringCapacity :: nat where "Ipv4StringCapacity = 16"

definition https_scheme :: string where "https_scheme = ''https://''"

text \<open>
  \<^verbatim>\<open>ParseHttpsUri\<close>: the target after the call, with the detail message of the failure or
  \<^term>\<open>None\<close> for the return value true.
\<close>

definition ParseHttpsUri :: "string \<Rightarrow> string option \<times> HttpsTarget" where
  "ParseHttpsUri uri =
     (if \<not> sv_starts_with https_scheme uri then
        (Some ''target URI must start with https://'', default_target)
      else
        let authority_begin = length https_scheme;
            path_begin = sv_find (CHR ''/'') authority_begin uri;
            authority = (case path_begin of
                           None \<Rightarrow> drop authority_begin uri
                         | Some i \<Rightarrow> sv_substr authority_begin (i - authority_begin) uri)
        in if authority = [] \<or> (\<exists>c \<in> set authority. c \<in> set ''@?#'') then
             (Some ''target URI has an invalid authority'', default_target)
           else
             let colon = sv_rfind (CHR '':'') authority;
                 hst = (case colon of None \<Rightarrow> authority | Some i \<Rightarrow> sv_substr 0 i authority);
                 parsed = (case colon of
                     None \<Rightarrow> Some (port default_target)
                   | Some i \<Rightarrow>
                       (case (from_chars (drop (i + 1) authority) :: (errc + u32) \<times> string) of
                          (Inl e, rest) \<Rightarrow> None
                        | (Inr p, rest) \<Rightarrow>
                            if hst = [] \<or> rest \<noteq> [] \<or> p = 0 \<or> 65535 < p then None
                            else Some (ucast p)))
             in case parsed of
                  None \<Rightarrow> (Some ''target URI has an invalid port'', default_target)
                | Some prt \<Rightarrow>
                    if hst = [] then
                      (Some ''target URI has an empty host'', default_target\<lparr>port := prt\<rparr>)
                    else (None, \<lparr>host = hst, port = prt,
                                 path = (case path_begin of None \<Rightarrow> ''/'' | Some i \<Rightarrow> drop i uri)\<rparr>))"

definition crlf :: string where "crlf = [CHR 0x0D, CHR 0x0A]"

definition json_prefix :: string where
  "json_prefix = [CHR 0x7B, CHR 0x22] @ ''global_ip'' @ [CHR 0x22, CHR '':'', CHR 0x22]"

text \<open>\<^verbatim>\<open>ParseGlobalIpResponse\<close>: the address, or the detail message of the failure.\<close>

definition ParseGlobalIpResponse :: "string \<Rightarrow> string + string" where
  "ParseGlobalIpResponse response =
     (case str_find crlf response of
        None \<Rightarrow> Inl ''expected HTTP status 200''
      | Some status_end \<Rightarrow>
          if \<not> sv_starts_with ''HTTP/1.'' (sv_substr 0 status_end response)
             \<or> str_find '' 200 '' (sv_substr 0 status_end response) = None then
            Inl ''expected HTTP status 200''
          else case str_find (crlf @ crlf) response of
            None \<Rightarrow> Inl ''response headers exceed the read buffer''
          | Some header_end \<Rightarrow>
              let body = drop (header_end + 4) response
              in if \<not> sv_starts_with json_prefix body then
                   Inl ''response body does not contain global_ip''
                 else
                   let ip_begin = length json_prefix
                   in case sv_find (CHR 0x22) ip_begin body of
                        None \<Rightarrow> Inl ''response global_ip is invalid''
                      | Some ip_end \<Rightarrow>
                          if ip_end = ip_begin \<or> Ipv4StringCapacity \<le> ip_end - ip_begin then
                            Inl ''response global_ip is invalid''
                          else
                            let ip = sv_substr ip_begin (ip_end - ip_begin) body
                            in if \<not> IsIpv4Address ip then Inl ''response global_ip is not IPv4''
                               else Inr ip)"

subsection \<open>Splitting lemmas\<close>

lemma sv_rfind_append:
  assumes "c \<notin> set ys"
  shows "sv_rfind c (xs @ c # ys) = Some (length xs)"
proof -
  have "takeWhile (\<lambda>x. x \<noteq> c) (rev ys @ c # rev xs) = rev ys"
    using assms by (subst takeWhile_append2) auto
  then show ?thesis by (simp add: sv_rfind_def)
qed

lemma sv_rfind_None: "sv_rfind c s = None \<longleftrightarrow> c \<notin> set s"
  by (simp add: sv_rfind_def)

lemma sv_rfind_Some:
  assumes "sv_rfind c s = Some i"
  shows "\<exists>xs ys. s = xs @ c # ys \<and> length xs = i \<and> c \<notin> set ys"
proof -
  have "c \<in> set s" using assms by (auto simp: sv_rfind_def split: if_splits)
  then obtain xs ys where s: "s = xs @ c # ys" "c \<notin> set ys" by (meson split_list_last)
  with sv_rfind_append [of c ys xs] assms show ?thesis by auto
qed

lemma sv_find_from_append:
  "c \<notin> set a \<Longrightarrow> sv_find c (length p) (p @ a @ c # r) = Some (length p + length a)"
  by (auto simp: sv_find_def Let_def takeWhile_append)

lemma authority_split:
  assumes "uri = https_scheme @ r"
  shows "\<exists>authority rest. r = authority @ rest \<and> CHR ''/'' \<notin> set authority \<and>
    (rest = [] \<and> sv_find (CHR ''/'') (length https_scheme) uri = None
     \<or> hd rest = CHR ''/'' \<and> rest \<noteq> []
       \<and> sv_find (CHR ''/'') (length https_scheme) uri = Some (length https_scheme + length authority))"
proof (cases "CHR ''/'' \<in> set r")
  case True
  then obtain a t where "r = a @ CHR ''/'' # t" "CHR ''/'' \<notin> set a" by (meson split_list_first)
  with assms sv_find_from_append [of "CHR ''/''" a https_scheme t] show ?thesis
    by (intro exI [of _ a] exI [of _ "CHR ''/'' # t"]) simp
next
  case False
  with assms show ?thesis by (intro exI [of _ r] exI [of _ "[]"]) (simp add: sv_find_None)
qed

text \<open>\<open>ParseHttpsUri\<close> on a URI already split into authority and path.\<close>

lemma ParseHttpsUri_split:
  assumes "CHR ''/'' \<notin> set authority" "rest = [] \<or> hd rest = CHR ''/''"
  shows "ParseHttpsUri (https_scheme @ authority @ rest) =
    (if authority = [] \<or> (\<exists>c \<in> set authority. c \<in> set ''@?#'')
     then (Some ''target URI has an invalid authority'', default_target)
     else case sv_rfind (CHR '':'') authority of
        None \<Rightarrow> (None, \<lparr>host = authority, port = 443, path = (if rest = [] then ''/'' else rest)\<rparr>)
      | Some i \<Rightarrow>
          (case (ParseUnsigned (drop (i + 1) authority) :: u32 option) of
             None \<Rightarrow> (Some ''target URI has an invalid port'', default_target)
           | Some p \<Rightarrow>
               if i = 0 \<or> p = 0 \<or> 65535 < p then (Some ''target URI has an invalid port'', default_target)
               else (None, \<lparr>host = take i authority, port = ucast p, path = (if rest = [] then ''/'' else rest)\<rparr>)))"
proof -
  have f: "sv_find (CHR ''/'') (length https_scheme) (https_scheme @ authority @ rest) =
      (if rest = [] then None else Some (length https_scheme + length authority))"
  proof (cases rest)
    case Nil
    with assms(1) show ?thesis by (simp add: sv_find_None)
  next
    case (Cons c t)
    with assms sv_find_from_append [of "CHR ''/''" authority https_scheme t] show ?thesis by simp
  qed
  show ?thesis
  proof (cases "sv_rfind CHR '':'' authority")
    case None
    with f show ?thesis
      by (cases "rest = []") (auto simp: ParseHttpsUri_def Let_def sv_substr_def default_target_def)
  next
    case (Some i)
    then have "i < length authority" using sv_rfind_Some [OF Some] by auto
    then have "take i authority = [] \<longleftrightarrow> i = 0" by auto
    with Some f show ?thesis
      by (cases "rest = []") (auto simp: ParseHttpsUri_def Let_def sv_substr_def default_target_def
          ParseUnsigned_def split: prod.splits sum.splits)
  qed
qed

text \<open>
  Building a URI from a host, a port and a path and parsing it gives the three back,
  for every host without a separator, every non-zero port and every absolute path.
\<close>

theorem https_uri_roundtrip:
  assumes h: "h \<noteq> []" "\<forall>c \<in> set h. c \<notin> set ''/@?#''" and p: "prt \<noteq> 0" and t: "hd t = CHR ''/''" "t \<noteq> []"
  shows "ParseHttpsUri (https_scheme @ h @ CHR '':'' # show_dec (unat prt) @ t)
    = (None, \<lparr>host = h, port = prt, path = t\<rparr>)"
proof -
  let ?a = "h @ CHR '':'' # show_dec (unat prt)"
  have dig: "c \<noteq> CHR '':'' \<and> c \<notin> set ''/@?#''" if "c \<in> set (show_dec (unat prt))" for c
    using show_dec_digits [OF that] by (auto simp: is_digit_def)
  have "CHR ''/'' \<notin> set ?a" "\<forall>c \<in> set ?a. c \<notin> set ''@?#''" using h dig by auto
  moreover have "sv_rfind CHR '':'' ?a = Some (length h)" using dig by (intro sv_rfind_append) auto
  moreover obtain q :: u32 where q: "unat q = unat prt"
  proof
    have "unat prt < 2 ^ LENGTH(16)" by (rule unsigned_less)
    then show "unat (of_nat (unat prt) :: u32) = unat prt" by (intro unat_of_nat_small) simp
  qed
  have "ParseUnsigned (show_dec (unat prt)) = Some q"
    using ParseUnsigned_show_dec [of q] by (simp only: q)
  moreover have "q \<noteq> 0" using q p by (metis unat_0 unat_eq_zero)
  moreover have "\<not> 65535 < q"
  proof -
    have "unat prt < 2 ^ LENGTH(16)" by (rule unsigned_less)
    then show ?thesis unfolding word_less_nat_alt q by simp
  qed
  moreover have "ucast q = prt"
  proof (rule word_unat_eq_iff [THEN iffD2])
    have "unat prt < 2 ^ LENGTH(16)" by (rule unsigned_less)
    then show "unat (ucast q :: u16) = unat prt"
      by (simp add: unsigned_ucast_eq q take_bit_nat_eq_self)
  qed
  ultimately have parts: "CHR ''/'' \<notin> set ?a" "\<not> (?a = [] \<or> (\<exists>c \<in> set ?a. c \<in> set ''@?#''))"
    "sv_rfind CHR '':'' ?a = Some (length h)" "ParseUnsigned (show_dec (unat prt)) = Some q"
    "\<not> (length h = 0 \<or> q = 0 \<or> 65535 < q)" "ucast q = prt"
    using h(1) by (blast, blast, blast, blast, auto)
  have d: "drop (length h + 1) ?a = show_dec (unat prt)" "take (length h) ?a = h" by simp_all
  have "ParseHttpsUri (https_scheme @ ?a @ t) = (None, \<lparr>host = h, port = prt, path = t\<rparr>)"
    unfolding ParseHttpsUri_split [OF parts(1) disjI2 [OF t(1)]] if_not_P [OF parts(2)] parts(3) option.case d
      parts(4) if_not_P [OF parts(5)] parts(6) if_not_P [OF t(2)] ..
  then show ?thesis by simp
qed

theorem https_uri_roundtrip_witness:
  "ParseHttpsUri (https_scheme @ ''example.test'' @ CHR '':'' # show_dec (unat (8443 :: u16)) @ ''/check'')
    = (None, \<lparr>host = ''example.test'', port = 8443, path = ''/check''\<rparr>)"
  by (rule https_uri_roundtrip) simp_all

text \<open>
  The parser is sound: an accepted text is the scheme, an authority that is the
  returned host with an optional port suffix, and the returned path (absent for the
  default). The host is not empty and the port is not zero; a rejected text leaves the
  default target.
\<close>

theorem https_uri_sound:
  "case ParseHttpsUri uri of
     (Some detail, t) \<Rightarrow> t = default_target
   | (None, t) \<Rightarrow> host t \<noteq> [] \<and> port t \<noteq> 0 \<and> hd (path t) = CHR ''/'' \<and>
       (\<exists>suffix rest. uri = https_scheme @ host t @ suffix @ rest \<and> (rest = path t \<or> rest = [] \<and> path t = ''/'')
          \<and> (suffix = [] \<and> port t = 443 \<or> (\<exists>digits. suffix = CHR '':'' # digits \<and> unat (port t) = dec_value digits)))"
proof (cases "sv_starts_with https_scheme uri")
  case False
  then show ?thesis by (simp add: ParseHttpsUri_def)
next
  case True
  then obtain r where r: "uri = https_scheme @ r" by (auto simp: sv_starts_with_iff)
  from authority_split [OF this] obtain a rest where
    s: "r = a @ rest" "CHR ''/'' \<notin> set a" "rest = [] \<or> hd rest = CHR ''/''" by auto
  note eq = ParseHttpsUri_split [OF s(2,3)]
  show ?thesis
  proof (cases "a = [] \<or> (\<exists>c \<in> set a. c \<in> set ''@?#'')")
    case True
    then show ?thesis unfolding r s(1) eq by simp
  next
    case good: False
    show ?thesis
    proof (cases "sv_rfind CHR '':'' a")
      case None
      have "\<exists>suffix rest'. a @ rest = a @ suffix @ rest' \<and> suffix = [] \<and> rest' = rest" by simp
      with None good s(3) show ?thesis
        unfolding r s(1) eq by (auto intro: exI [of _ "[]"])
    next
      case (Some i)
      from sv_rfind_Some [OF this] obtain h d where hd: "a = h @ CHR '':'' # d" "length h = i" by blast
      show ?thesis
      proof (cases "\<exists>p :: u32. ParseUnsigned d = Some p \<and> h \<noteq> [] \<and> p \<noteq> 0 \<and> \<not> 65535 < p")
        case False
        with Some good hd show ?thesis
          unfolding r s(1) eq by (auto split: option.splits)
      next
        case True
        then obtain p :: u32 where p: "ParseUnsigned d = Some p" "h \<noteq> []" "p \<noteq> 0" "\<not> 65535 < p" by blast
        have small: "unat p < 65536" using p(4) by (simp add: word_less_nat_alt)
        have up: "unat (ucast p :: u16) = unat p" using small by (simp add: unsigned_ucast_eq take_bit_nat_eq_self)
        have "unat (ucast p :: u16) = dec_value d" using up ParseUnsigned_unat [OF p(1)] by simp
        moreover have "(ucast p :: u16) \<noteq> 0"
          using up p(3) by (metis unat_0 unat_eq_zero)
        moreover have "ParseHttpsUri uri =
            (None, \<lparr>host = h, port = ucast p, path = (if rest = [] then ''/'' else rest)\<rparr>)"
          unfolding r s(1) eq using Some good hd(1) hd(2) [symmetric] p by simp
        moreover have "uri = https_scheme @ h @ (CHR '':'' # d) @ rest" using r s(1) hd by simp
        ultimately show ?thesis
          using p(2) s(3)
          by (simp, intro conjI impI exI [of _ "CHR '':'' # d"] exI [of _ rest]) auto
      qed
    qed
  qed
qed

text \<open>
  The response parser returns only a dotted IPv4 address of at most fifteen
  characters.
\<close>

theorem global_ip_sound:
  "case ParseGlobalIpResponse response of
     Inl detail \<Rightarrow> True
   | Inr ip \<Rightarrow> ipv4_text ip \<and> length ip \<le> 15"
  by (auto simp: ParseGlobalIpResponse_def Let_def IsIpv4Address_iff Ipv4StringCapacity_def sv_substr_def
      split: option.splits)

end
