(* ===== verification/TraceTypes.thy ===== *)
theory TraceTypes
  imports Prelude
begin

text \<open>
  The small types and tables of the trace module
  (\<^verbatim>\<open>net-probe/src/mitm_trace.cpp\<close>): trace families, their sinks and service codes,
  service names, the names of the monitor's events, durations and the hexadecimal
  preview. A \<^verbatim>\<open>const char*\<close> that may be null is a \<open>string option\<close>.
\<close>

text \<open>The size of the buffers that hold the path of a domain object.\<close>

definition MaxDomainPathLength :: nat where "MaxDomainPathLength = 96"

subsection \<open>Text helpers\<close>

definition StartsWith :: "string option \<Rightarrow> string option \<Rightarrow> bool" where
  "StartsWith value prefix =
     (case (value, prefix) of (Some v, Some p) \<Rightarrow> take (length p) v = p | _ \<Rightarrow> False)"

definition EndsWith :: "string option \<Rightarrow> string option \<Rightarrow> bool" where
  "EndsWith value suffix =
     (case (value, suffix) of
        (Some v, Some s) \<Rightarrow> length s \<le> length v \<and> drop (length v - length s) v = s
      | _ \<Rightarrow> False)"

lemma StartsWith_Some [simp]: "StartsWith (Some v) (Some p) \<longleftrightarrow> sv_starts_with p v"
  by (simp add: StartsWith_def sv_starts_with_def)

lemma EndsWith_Some: "EndsWith (Some v) (Some s) \<longleftrightarrow> (\<exists>p. v = p @ s)"
proof
  assume "EndsWith (Some v) (Some s)"
  then have "drop (length v - length s) v = s" by (simp add: EndsWith_def)
  then have "v = take (length v - length s) v @ s" by (metis append_take_drop_id)
  then show "\<exists>p. v = p @ s" ..
qed (auto simp: EndsWith_def)

definition ClampLength :: "int \<Rightarrow> nat \<Rightarrow> int" where
  "ClampLength written capacity =
     (if written \<le> 0 then 0
      else if int capacity \<le> written then int capacity - 1
      else written)"

subsection \<open>Families, sinks and service codes\<close>

datatype TraceFamily = Broadcast | FamilyNifm | FamilyBsd | FamilySsl | FamilyNotif

definition NifmBinaryPath :: string where "NifmBinaryPath = ''sdmc:/nxrv/probe/probe-mitm-nifm.bin''"
definition BsdBinaryPath :: string where "BsdBinaryPath = ''sdmc:/nxrv/probe/probe-mitm-bsd.bin''"
definition SslBinaryPath :: string where "SslBinaryPath = ''sdmc:/nxrv/probe/probe-mitm-ssl.bin''"
definition NotifBinaryPath :: string where "NotifBinaryPath = ''sdmc:/nxrv/probe/probe-mitm-notif.bin''"

record TraceSinkConfig =
  sink_family :: TraceFamily
  binary_path :: string

definition g_trace_sinks :: "TraceSinkConfig list" where
  "g_trace_sinks =
     [\<lparr>sink_family = FamilyNifm, binary_path = NifmBinaryPath\<rparr>,
      \<lparr>sink_family = FamilyBsd, binary_path = BsdBinaryPath\<rparr>,
      \<lparr>sink_family = FamilySsl, binary_path = SslBinaryPath\<rparr>,
      \<lparr>sink_family = FamilyNotif, binary_path = NotifBinaryPath\<rparr>]"

definition GetTraceSinkConfig :: "TraceFamily \<Rightarrow> TraceSinkConfig option" where
  "GetTraceSinkConfig f = List.find (\<lambda>sink. sink_family sink = f) g_trace_sinks"

text \<open>The wire values of \<open>TraceServiceCode\<close>.\<close>

datatype TraceServiceCode = Unknown | NifmU | NifmS | BsdU | BsdS | BsdA | ServiceSsl | SslS | NotifS

fun service_code_value :: "TraceServiceCode \<Rightarrow> u16" where
  "service_code_value Unknown = 0"
| "service_code_value NifmU = 0x101"
| "service_code_value NifmS = 0x102"
| "service_code_value BsdU = 0x201"
| "service_code_value BsdS = 0x202"
| "service_code_value BsdA = 0x203"
| "service_code_value ServiceSsl = 0x301"
| "service_code_value SslS = 0x302"
| "service_code_value NotifS = 0x401"

definition GetTraceServiceCode :: "string option \<Rightarrow> TraceServiceCode" where
  "GetTraceServiceCode service_name =
     (case service_name of None \<Rightarrow> Unknown
      | Some s \<Rightarrow>
          if s = ''nifm:u'' then NifmU
          else if s = ''nifm:s'' then NifmS
          else if s = ''bsd:u'' then BsdU
          else if s = ''bsd:s'' then BsdS
          else if s = ''bsd:a'' then BsdA
          else if s = ''ssl'' then ServiceSsl
          else if s = ''ssl:s'' then SslS
          else if s = ''notif:s'' then NotifS
          else Unknown)"

text \<open>
  \<open>GetTraceFamilyForServiceName\<close> is used on names that are not null: its last test
  passes the pointer to \<^verbatim>\<open>strcmp\<close>.
\<close>

definition GetTraceFamilyForServiceName :: "string \<Rightarrow> TraceFamily" where
  "GetTraceFamilyForServiceName s =
     (if StartsWith (Some s) (Some ''nifm:'') then FamilyNifm
      else if StartsWith (Some s) (Some ''bsd:'') then FamilyBsd
      else if StartsWith (Some s) (Some ''ssl'') then FamilySsl
      else if s = ''notif:s'' then FamilyNotif
      else Broadcast)"

definition GetTraceSinkConfigForServiceName :: "string \<Rightarrow> TraceSinkConfig option" where
  "GetTraceSinkConfigForServiceName s = GetTraceSinkConfig (GetTraceFamilyForServiceName s)"

text \<open>The family the high byte of a service code stands for.\<close>

definition code_family :: "u16 \<Rightarrow> TraceFamily" where
  "code_family c =
     (let h = drop_bit 8 c
      in if h = 1 then FamilyNifm else if h = 2 then FamilyBsd else if h = 3 then FamilySsl
         else if h = 4 then FamilyNotif else Broadcast)"

text \<open>
  The two tables agree: the family of a service's sink is the one the high byte of
  its service code names, for every service that has a code; and a service without a
  binary sink has no code.
\<close>

theorem service_code_matches_family:
  "(GetTraceServiceCode (Some s) \<noteq> Unknown \<longrightarrow>
      GetTraceFamilyForServiceName s = code_family (service_code_value (GetTraceServiceCode (Some s))))
   \<and> (GetTraceSinkConfigForServiceName s = None \<longrightarrow> GetTraceServiceCode (Some s) = Unknown)"
proof -
  have "GetTraceServiceCode (Some s) \<noteq> Unknown \<longrightarrow>
      GetTraceFamilyForServiceName s = code_family (service_code_value (GetTraceServiceCode (Some s)))"
    by (auto simp: GetTraceServiceCode_def GetTraceFamilyForServiceName_def sv_starts_with_def code_family_def)
  moreover have "GetTraceSinkConfigForServiceName s = None \<longrightarrow> GetTraceFamilyForServiceName s = Broadcast"
    by (cases "GetTraceFamilyForServiceName s")
      (simp_all add: GetTraceSinkConfigForServiceName_def GetTraceSinkConfig_def g_trace_sinks_def)
  moreover have "GetTraceFamilyForServiceName s = Broadcast \<longrightarrow> GetTraceServiceCode (Some s) = Unknown"
    by (auto simp: GetTraceServiceCode_def GetTraceFamilyForServiceName_def sv_starts_with_def)
  ultimately show ?thesis by blast
qed

theorem service_code_matches_family_witness:
  "GetTraceServiceCode (Some ''bsd:s'') \<noteq> Unknown \<and>
   GetTraceFamilyForServiceName ''bsd:s'' = code_family (service_code_value (GetTraceServiceCode (Some ''bsd:s'')))"
proof -
  have "GetTraceServiceCode (Some ''bsd:s'') \<noteq> Unknown" by (simp add: GetTraceServiceCode_def)
  with service_code_matches_family [of "''bsd:s''"] show ?thesis by blast
qed

subsection \<open>Service names, program ids, result codes\<close>

text \<open>\<open>EncodeServiceName\<close>: the name is a fixed array of \<open>max_length\<close> bytes.\<close>

definition EncodeServiceName :: "cbuf option \<Rightarrow> nat \<Rightarrow> string \<Rightarrow> cbuf option" where
  "EncodeServiceName out max_length name =
     (if \<not> writable out then out
      else let text = takeWhile (\<lambda>c. c \<noteq> CHR 0x00) (take max_length name)
           in if text = [] then snprintf out ''<invalid>'' else snprintf out text)"

definition hex_upper :: "nat \<Rightarrow> nat \<Rightarrow> string" where
  "hex_upper w n = pad_zero w (show_hex True n)"

lemma length_hex_upper:
  assumes "2 ^ LENGTH('a) \<le> (16::nat) ^ k" "0 < k"
  shows "length (hex_upper k (unat (w :: 'a::len word))) = k"
proof -
  have "unat w < 2 ^ LENGTH('a)" by (rule unsigned_less)
  from less_le_trans [OF this assms(1)] assms(2) have "length (show_hex True (unat w)) \<le> k"
    by (intro length_show_hex)
  then show ?thesis by (simp add: hex_upper_def length_pad_zero)
qed

definition hex_lower :: "nat \<Rightarrow> nat \<Rightarrow> string" where
  "hex_lower w n = pad_zero w (show_hex False n)"

definition FormatProgramId :: "cbuf option \<Rightarrow> u64 \<Rightarrow> cbuf option" where
  "FormatProgramId out program_id = snprintf out (''0x'' @ hex_upper 16 (unat program_id))"

subsection \<open>Names of the monitor's events\<close>

text \<open>
  The event types are enumerations of the system library; the constructors are the ones
  the code names, and one more stands for any other value, on which the code aborts.
\<close>

datatype SmLifecycleEventType =
  InstallBegin | InstallEnd | UninstallBegin | UninstallEnd | DeclareFutureBegin | DeclareFutureEnd
| ClearFutureBegin | ClearFutureEnd | AcknowledgeBegin | AcknowledgeEnd | HasBegin | HasEnd
| WaitBegin | WaitEnd | OtherSmLifecycleEvent

fun GetSmLifecycleOperation :: "SmLifecycleEventType \<Rightarrow> string option" where
  "GetSmLifecycleOperation InstallBegin = Some ''install''"
| "GetSmLifecycleOperation InstallEnd = Some ''install''"
| "GetSmLifecycleOperation UninstallBegin = Some ''uninstall''"
| "GetSmLifecycleOperation UninstallEnd = Some ''uninstall''"
| "GetSmLifecycleOperation DeclareFutureBegin = Some ''declare_future''"
| "GetSmLifecycleOperation DeclareFutureEnd = Some ''declare_future''"
| "GetSmLifecycleOperation ClearFutureBegin = Some ''clear_future''"
| "GetSmLifecycleOperation ClearFutureEnd = Some ''clear_future''"
| "GetSmLifecycleOperation AcknowledgeBegin = Some ''acknowledge''"
| "GetSmLifecycleOperation AcknowledgeEnd = Some ''acknowledge''"
| "GetSmLifecycleOperation HasBegin = Some ''has_mitm''"
| "GetSmLifecycleOperation HasEnd = Some ''has_mitm''"
| "GetSmLifecycleOperation WaitBegin = Some ''wait_mitm''"
| "GetSmLifecycleOperation WaitEnd = Some ''wait_mitm''"
| "GetSmLifecycleOperation OtherSmLifecycleEvent = None"

definition GetSmLifecyclePhase :: "SmLifecycleEventType \<Rightarrow> string option" where
  "GetSmLifecyclePhase e =
     (if e \<in> {InstallBegin, UninstallBegin, DeclareFutureBegin, ClearFutureBegin, AcknowledgeBegin, HasBegin, WaitBegin}
      then Some ''begin''
      else if e \<in> {InstallEnd, UninstallEnd, DeclareFutureEnd, ClearFutureEnd, AcknowledgeEnd, HasEnd, WaitEnd}
      then Some ''end'' else None)"

datatype AcceptTraceEventType =
  ProcessMitmServerBegin | ProcessMitmServerEnd | MitmServerDeferredLink | MitmServerWaitSelected
| MitmServerDeferredPromoted | ServerAcknowledgeBegin | ServerAcknowledgeServiceReady
| ServerAcknowledgeEnd | AcceptMitmSessionBegin | AcceptMitmSessionAccepted | AcceptMitmSessionEnd
| RegisterMitmSessionBegin | RegisterMitmSessionEnd | OtherAcceptEvent

definition GetAcceptOperation :: "AcceptTraceEventType \<Rightarrow> string option" where
  "GetAcceptOperation e =
     (if e \<in> {ProcessMitmServerBegin, ProcessMitmServerEnd} then Some ''process_mitm_server''
      else if e \<in> {MitmServerDeferredLink, MitmServerWaitSelected, MitmServerDeferredPromoted}
        then Some ''mitm_server_wait''
      else if e \<in> {ServerAcknowledgeBegin, ServerAcknowledgeServiceReady, ServerAcknowledgeEnd}
        then Some ''server_acknowledge''
      else if e \<in> {AcceptMitmSessionBegin, AcceptMitmSessionAccepted, AcceptMitmSessionEnd}
        then Some ''accept_mitm_session''
      else if e \<in> {RegisterMitmSessionBegin, RegisterMitmSessionEnd} then Some ''register_mitm_session''
      else None)"

definition GetAcceptPhase :: "AcceptTraceEventType \<Rightarrow> string option" where
  "GetAcceptPhase e =
     (if e \<in> {ProcessMitmServerBegin, ServerAcknowledgeBegin, AcceptMitmSessionBegin, RegisterMitmSessionBegin}
        then Some ''begin''
      else if e \<in> {ProcessMitmServerEnd, ServerAcknowledgeEnd, AcceptMitmSessionEnd, RegisterMitmSessionEnd}
        then Some ''end''
      else if e = MitmServerDeferredLink then Some ''queued''
      else if e = MitmServerWaitSelected then Some ''selected''
      else if e = MitmServerDeferredPromoted then Some ''promoted''
      else if e = ServerAcknowledgeServiceReady then Some ''service_ready''
      else if e = AcceptMitmSessionAccepted then Some ''accepted''
      else None)"

datatype DispatchTraceEventType =
  RootUnknownCommandForwardBegin | RootUnknownCommandForwardEnd | RootShouldForwardBegin
| RootShouldForwardEnd | RootLocalResult | DomainMissingObjectForwardBegin | DomainMissingObjectForwardEnd
| DomainLocalResult | ManagerRequestBegin | ManagerRequestEnd | ManagerRequestDomainOverride
| ManagerRequestBaseFallback | ManagerRequestCmifParseFail | ManagerRequestCmifHandlerLookup
| ManagerRequestCmifHandlerResult | OtherDispatchEvent

fun GetDispatchEventName :: "DispatchTraceEventType \<Rightarrow> string option" where
  "GetDispatchEventName RootUnknownCommandForwardBegin = Some ''root_unknown_forward_begin''"
| "GetDispatchEventName RootUnknownCommandForwardEnd = Some ''root_unknown_forward_end''"
| "GetDispatchEventName RootShouldForwardBegin = Some ''root_should_forward_begin''"
| "GetDispatchEventName RootShouldForwardEnd = Some ''root_should_forward_end''"
| "GetDispatchEventName RootLocalResult = Some ''root_local_result''"
| "GetDispatchEventName DomainMissingObjectForwardBegin = Some ''domain_missing_object_forward_begin''"
| "GetDispatchEventName DomainMissingObjectForwardEnd = Some ''domain_missing_object_forward_end''"
| "GetDispatchEventName DomainLocalResult = Some ''domain_local_result''"
| "GetDispatchEventName ManagerRequestBegin = Some ''manager_request_begin''"
| "GetDispatchEventName ManagerRequestEnd = Some ''manager_request_end''"
| "GetDispatchEventName ManagerRequestDomainOverride = Some ''manager_request_domain_override''"
| "GetDispatchEventName ManagerRequestBaseFallback = Some ''manager_request_base_fallback''"
| "GetDispatchEventName ManagerRequestCmifParseFail = Some ''manager_request_cmif_parse_fail''"
| "GetDispatchEventName ManagerRequestCmifHandlerLookup = Some ''manager_request_cmif_handler_lookup''"
| "GetDispatchEventName ManagerRequestCmifHandlerResult = Some ''manager_request_cmif_handler_result''"
| "GetDispatchEventName OtherDispatchEvent = None"

text \<open>An operation and its phase identify a lifecycle event, so the two text columns lose nothing.\<close>

lemma lifecycle_names_inject:
  "GetSmLifecycleOperation a = GetSmLifecycleOperation b \<Longrightarrow> GetSmLifecyclePhase a = GetSmLifecyclePhase b \<Longrightarrow> a = b"
  by (cases a; cases b) (simp_all add: GetSmLifecyclePhase_def)

lemma accept_names_inject:
  "GetAcceptOperation a = GetAcceptOperation b \<Longrightarrow> GetAcceptPhase a = GetAcceptPhase b \<Longrightarrow> a = b"
  by (cases a; cases b) (simp_all add: GetAcceptPhase_def GetAcceptOperation_def)

lemma dispatch_names_inject: "GetDispatchEventName a = GetDispatchEventName b \<Longrightarrow> a = b"
  by (cases a; cases b) simp_all

text \<open>
  The event names are injective: from the operation and phase columns (the event
  column for dispatches) of a trace line the event can be told.
\<close>

theorem event_names_injective:
  "inj (\<lambda>e. (GetSmLifecycleOperation e, GetSmLifecyclePhase e))
   \<and> inj (\<lambda>e. (GetAcceptOperation e, GetAcceptPhase e)) \<and> inj GetDispatchEventName"
  by (auto intro!: injI dest: lifecycle_names_inject accept_names_inject dispatch_names_inject)

definition ShouldMirrorMonitorEventToMainLog :: "string option \<Rightarrow> bool" where
  "ShouldMirrorMonitorEventToMainLog service_name \<longleftrightarrow> service_name = Some ''bsd:s''"

text \<open>\<open>GetDurationNs\<close>, given the library's conversion of a tick span to nanoseconds.\<close>

definition GetDurationNs :: "(int \<Rightarrow> int) \<Rightarrow> int \<Rightarrow> int \<Rightarrow> u64" where
  "GetDurationNs tick_span_ns start_tick end_tick =
     (if end_tick < start_tick then 0 else of_int (tick_span_ns (end_tick - start_tick)))"

subsection \<open>The hexadecimal preview\<close>

definition hex_pair :: "u8 \<Rightarrow> string" where
  "hex_pair b = [hex_digit False (unat (drop_bit 4 b AND 0xF)), hex_digit False (unat (b AND 0xF))]"

fun hex_loop :: "u8 list \<Rightarrow> nat \<Rightarrow> string \<Rightarrow> string" where
  "hex_loop [] out_size acc = acc"
| "hex_loop (b # bs) out_size acc =
     (if length acc + 2 < out_size then hex_loop bs out_size (acc @ hex_pair b) else acc)"

definition HexEncode :: "u8 list \<Rightarrow> cbuf option \<Rightarrow> cbuf option" where
  "HexEncode src out =
     (case out of None \<Rightarrow> None
      | Some b \<Rightarrow> if cap b = 0 then out else Some (b\<lparr>content := hex_loop src (cap b) []\<rparr>))"

lemma hex_loop_take:
  "hex_loop src n acc = acc @ concat (map hex_pair (take ((n - 1 - length acc) div 2) src))"
proof (induction src arbitrary: acc)
  case (Cons b bs)
  show ?case
  proof (cases "length acc + 2 < n")
    case True
    have "length (hex_pair b) = 2" by (simp add: hex_pair_def)
    moreover have "(n - 1 - length acc) div 2 = Suc ((n - 1 - (length acc + 2)) div 2)"
    proof -
      have "n - 1 - length acc = n - 1 - (length acc + 2) + 2" using True by simp
      then show ?thesis by (metis div_add_self2 Suc_eq_plus1 zero_neq_numeral)
    qed
    ultimately show ?thesis using True Cons by simp
  next
    case False
    then have "(n - 1 - length acc) div 2 = 0" by simp
    with False show ?thesis by simp
  qed
qed simp

text \<open>Reading a hexadecimal text back.\<close>

definition hex_char_value :: "char \<Rightarrow> nat" where
  "hex_char_value c = (if is_digit c then digit_val c else of_char c - 87)"

fun hex_decode :: "string \<Rightarrow> u8 list" where
  "hex_decode (h # l # r) = of_nat (hex_char_value h * 16 + hex_char_value l) # hex_decode r"
| "hex_decode _ = []"

lemma hex_char_value_digit: "n < 16 \<Longrightarrow> hex_char_value (hex_digit False n) = n"
proof -
  assume n: "n < 16"
  have "\<forall>n \<in> set [0..<16]. hex_char_value (hex_digit False n) = n"
    by (simp add: upt_rec hex_char_value_def hex_digit_def is_digit_def digit_val_def of_char_of)
  with n show ?thesis by simp
qed

lemma hex_pair_decode: "hex_decode (hex_pair b @ r) = b # hex_decode r"
proof -
  have m: "x AND 15 = x mod 16" for x :: nat
    using take_bit_eq_mask [of 4 x] by (simp add: take_bit_eq_mod mask_eq_exp_minus_1)
  have b: "unat b < 2 ^ LENGTH(8)" by (rule unsigned_less)
  have "unat (drop_bit 4 b) = unat b div 16"
    by (simp add: drop_bit_eq_div unat_div)
  then have hi: "unat (drop_bit 4 b AND 0xF) = unat b div 16"
    using b by (simp add: unsigned_and_eq m)
  have lo: "unat (b AND 0xF) = unat b mod 16"
    by (simp add: unsigned_and_eq m)
  have "hex_char_value (hex_digit False (unat b div 16)) = unat b div 16"
    "hex_char_value (hex_digit False (unat b mod 16)) = unat b mod 16"
    using b by (intro hex_char_value_digit; simp)+
  then show ?thesis by (simp add: hex_pair_def hi lo)
qed

lemma hex_decode_concat: "hex_decode (concat (map hex_pair bs)) = bs"
  by (induction bs) (simp_all add: hex_pair_decode)

text \<open>
  The hexadecimal preview is faithful: it fits its buffer, and reading it back gives
  the longest prefix of the source whose digits fit beside the terminator.
\<close>

theorem HexEncode_roundtrip:
  assumes "0 < n"
  shows "hex_decode (buf_text (HexEncode src (fresh_buf n))) = take ((n - 1) div 2) src
    \<and> buf_ok (HexEncode src (fresh_buf n))"
proof -
  let ?t = "concat (map hex_pair (take ((n - 1) div 2) src))"
  have e: "HexEncode src (fresh_buf n) = Some \<lparr>cap = n, content = ?t\<rparr>"
    using assms by (simp add: HexEncode_def fresh_buf_def hex_loop_take)
  have "length (concat (map hex_pair bs)) = 2 * length bs" for bs
    by (induction bs) (simp_all add: hex_pair_def)
  then have "length ?t \<le> n - 1" by simp
  with assms show ?thesis
    unfolding e by (simp add: buf_text_def buf_ok_def hex_decode_concat del: length_concat)
qed

theorem HexEncode_roundtrip_witness:
  "hex_decode (buf_text (HexEncode [0xDE, 0xAD, 0x0F] (fresh_buf 6))) = [0xDE, 0xAD]"
  using HexEncode_roundtrip [of 6 "[0xDE, 0xAD, 0x0F]"] by simp

end
