(* ===== verification/TraceJson.thy ===== *)
theory TraceJson
  imports TraceTypes
begin

text \<open>
  The JSON lines of the trace file (\<^verbatim>\<open>net-probe/src/mitm_trace.cpp\<close>). Every hook prints
  one flat object per line with \<^verbatim>\<open>snprintf\<close>; a line here is the list of its members, each
  value tagged with the conversion its format string uses. A reader of the lines, the width
  of a line, and the round trip between them are what the hooks' correctness rests on.
\<close>

subsection \<open>Printing\<close>

datatype jval =
  JUlong u64 \<comment> \<open>\<^verbatim>\<open>%llu\<close> and \<^verbatim>\<open>%zu\<close>\<close>
| JUint u32 \<comment> \<open>\<^verbatim>\<open>%u\<close>\<close>
| JInt s32 \<comment> \<open>\<^verbatim>\<open>%d\<close>\<close>
| JFlag bool \<comment> \<open>\<^verbatim>\<open>true\<close> or \<^verbatim>\<open>false\<close> for \<^verbatim>\<open>%s\<close>\<close>
| JHex u32 \<comment> \<open>\<^verbatim>\<open>"0x%08X"\<close>\<close>
| JHexLong u64 \<comment> \<open>\<^verbatim>\<open>"0x%016llX"\<close>\<close>
| JText string \<comment> \<open>\<^verbatim>\<open>"%s"\<close>, and text of the format itself\<close>
| JIds "u32 list" \<comment> \<open>the array of object identifiers\<close>

type_synonym members = "(string \<times> jval) list"

definition quoted :: "string \<Rightarrow> string" where
  "quoted s = CHR 0x22 # s @ [CHR 0x22]"

text \<open>The identifiers between the brackets, as the loops over \<open>out_object_ids\<close> print them.\<close>

fun ids_text :: "u32 list \<Rightarrow> string" where
  "ids_text [] = []"
| "ids_text [i] = show_dec (unat i)"
| "ids_text (i # j # is) = show_dec (unat i) @ '','' @ ids_text (j # is)"

fun jval_text :: "jval \<Rightarrow> string" where
  "jval_text (JUlong w) = show_dec (unat w)"
| "jval_text (JUint w) = show_dec (unat w)"
| "jval_text (JInt w) = show_int (sint w)"
| "jval_text (JFlag b) = (if b then ''true'' else ''false'')"
| "jval_text (JHex w) = quoted (''0x'' @ hex_upper 8 (unat w))"
| "jval_text (JHexLong w) = quoted (''0x'' @ hex_upper 16 (unat w))"
| "jval_text (JText s) = quoted s"
| "jval_text (JIds is) = ''['' @ ids_text is @ '']''"

definition member_text :: "string \<times> jval \<Rightarrow> string" where
  "member_text m = quoted (fst m) @ '':'' @ jval_text (snd m)"

text \<open>Members that continue an object, each led by a comma, and the whole line.\<close>

definition more_text :: "members \<Rightarrow> string" where
  "more_text ms = concat (map (\<lambda>m. '','' @ member_text m) ms)"

fun members_text :: "members \<Rightarrow> string" where
  "members_text [] = []"
| "members_text (m # ms) = member_text m @ more_text ms"

definition json_text :: "members \<Rightarrow> string \<Rightarrow> string" where
  "json_text ms extra = ''{'' @ members_text ms @ extra @ ''}'' @ [CHR 0x0A]"

lemma more_text_append [simp]: "more_text (ms @ ns) = more_text ms @ more_text ns"
  by (simp add: more_text_def)

lemma more_text_simps [simp]:
  "more_text [] = []" "more_text (m # ms) = '','' @ member_text m @ more_text ms"
  by (simp_all add: more_text_def)

lemma json_text_more: "ms \<noteq> [] \<Longrightarrow> json_text ms (more_text ns) = json_text (ms @ ns) []"
  by (cases ms) (simp_all add: json_text_def)

subsection \<open>Reading\<close>

text \<open>What a value means to a reader of the line.\<close>

datatype json = Num int | Truth bool | Str string | Arr "int list"

fun json_of :: "jval \<Rightarrow> json" where
  "json_of (JUlong w) = Num (int (unat w))"
| "json_of (JUint w) = Num (int (unat w))"
| "json_of (JInt w) = Num (sint w)"
| "json_of (JFlag b) = Truth b"
| "json_of (JHex w) = Str (''0x'' @ hex_upper 8 (unat w))"
| "json_of (JHexLong w) = Str (''0x'' @ hex_upper 16 (unat w))"
| "json_of (JText s) = Str s"
| "json_of (JIds is) = Arr (map (\<lambda>i. int (unat i)) is)"

text \<open>
  A character a JSON string may hold as it stands: printable, and neither the quote nor
  the backslash, as no line of the trace escapes anything.
\<close>

definition plain :: "char \<Rightarrow> bool" where
  "plain c \<longleftrightarrow> (let n = of_char c :: nat in 0x20 \<le> n \<and> n < 0x7F \<and> n \<noteq> 0x22 \<and> n \<noteq> 0x5C)"

definition plain_text :: "string \<Rightarrow> bool" where
  "plain_text s \<longleftrightarrow> (\<forall>c \<in> set s. plain c)"

text \<open>The readers return what they read with the rest; numbers have no leading zeros.\<close>

definition read_nat :: "string \<Rightarrow> (nat \<times> string) option" where
  "read_nat s =
     (let ds = takeWhile is_digit s
      in if ds = [] \<or> (hd ds = CHR ''0'' \<and> 1 < length ds) then None
         else Some (dec_value ds, dropWhile is_digit s))"

definition read_int :: "string \<Rightarrow> (int \<times> string) option" where
  "read_int s =
     (case s of
        c # r \<Rightarrow> if c = CHR ''-'' then map_option (\<lambda>(n, r). (- int n, r)) (read_nat r)
                 else map_option (\<lambda>(n, r). (int n, r)) (read_nat s)
      | [] \<Rightarrow> None)"

definition read_string :: "string \<Rightarrow> (string \<times> string) option" where
  "read_string s =
     (case s of
        c # r \<Rightarrow>
          if c = CHR 0x22 then
            (case dropWhile plain r of
               d # t \<Rightarrow> if d = CHR 0x22 then Some (takeWhile plain r, t) else None
             | [] \<Rightarrow> None)
          else None
      | [] \<Rightarrow> None)"

definition expect :: "string \<Rightarrow> string \<Rightarrow> string option" where
  "expect p s = (if sv_starts_with p s then Some (drop (length p) s) else None)"

lemma read_nat_shorter: "read_nat s = Some (n, r) \<Longrightarrow> length r < length s"
proof -
  assume "read_nat s = Some (n, r)"
  then have r: "r = dropWhile is_digit s" and "takeWhile is_digit s \<noteq> []"
    by (auto simp: read_nat_def Let_def split: if_splits)
  moreover have "length (takeWhile is_digit s) + length (dropWhile is_digit s) = length s"
    by (metis length_append takeWhile_dropWhile_id)
  ultimately show ?thesis by (simp flip: length_greater_0_conv)
qed

lemma read_int_shorter: "read_int s = Some (n, r) \<Longrightarrow> length r < length s"
  by (auto simp: read_int_def dest: read_nat_shorter split: list.splits if_splits)

lemma read_string_shorter: "read_string s = Some (n, r) \<Longrightarrow> length r < length s"
proof -
  assume a: "read_string s = Some (n, r)"
  then obtain t d where "s = CHR 0x22 # t" "dropWhile plain t = d # r"
    by (auto simp: read_string_def split: list.splits if_splits)
  moreover have "length (dropWhile plain t) \<le> length t" by (rule length_dropWhile_le)
  ultimately show ?thesis by simp
qed

text \<open>The elements of an array up to its closing bracket.\<close>

function read_ints :: "string \<Rightarrow> (int list \<times> string) option" where
  "read_ints s =
     (case read_int s of
        Some (i, c # r) \<Rightarrow>
          if c = CHR '','' then map_option (\<lambda>(is, t). (i # is, t)) (read_ints r)
          else if c = CHR '']'' then Some ([i], r) else None
      | _ \<Rightarrow> None)"
  by pat_completeness auto
termination
  by (relation "measure length") (auto dest: read_int_shorter)

declare read_ints.simps [simp del]

definition read_array :: "string \<Rightarrow> (int list \<times> string) option" where
  "read_array s =
     (case expect ''[]'' s of
        Some r \<Rightarrow> Some ([], r)
      | None \<Rightarrow> (case expect ''['' s of Some r \<Rightarrow> read_ints r | None \<Rightarrow> None))"

definition read_value :: "string \<Rightarrow> (json \<times> string) option" where
  "read_value s =
     (case read_string s of
        Some (t, r) \<Rightarrow> Some (Str t, r)
      | None \<Rightarrow>
          (case read_int s of
             Some (i, r) \<Rightarrow> Some (Num i, r)
           | None \<Rightarrow>
               (case read_array s of
                  Some (is, r) \<Rightarrow> Some (Arr is, r)
                | None \<Rightarrow>
                    (case expect ''true'' s of
                       Some r \<Rightarrow> Some (Truth True, r)
                     | None \<Rightarrow> map_option (\<lambda>r. (Truth False, r)) (expect ''false'' s)))))"


definition read_member :: "string \<Rightarrow> ((string \<times> json) \<times> string) option" where
  "read_member s =
     (case read_string s of
        Some (k, c # r) \<Rightarrow>
          if c = CHR '':'' then map_option (\<lambda>(v, t). ((k, v), t)) (read_value r) else None
      | _ \<Rightarrow> None)"

lemma expect_shorter: "expect p s = Some r \<Longrightarrow> p \<noteq> [] \<Longrightarrow> length r < length s"
  by (auto simp: expect_def sv_starts_with_iff split: if_splits)

lemma read_ints_shorter: "read_ints s = Some (is, r) \<Longrightarrow> length r < length s"
proof (induction s arbitrary: "is" rule: read_ints.induct)
  case (1 s)
  from "1.prems" obtain i c t where i: "read_int s = Some (i, c # t)"
    by (subst (asm) read_ints.simps) (auto split: option.splits list.splits)
  show ?case
  proof (cases "c = CHR '',''")
    case True
    with "1.prems" i obtain js where "read_ints t = Some (js, r)"
      by (subst (asm) read_ints.simps) auto
    from "1.IH" [OF i refl refl True this] read_int_shorter [OF i] show ?thesis by simp
  next
    case False
    with "1.prems" i have "r = t" by (subst (asm) read_ints.simps) (auto split: if_splits)
    with read_int_shorter [OF i] show ?thesis by simp
  qed
qed

lemma read_value_shorter: "read_value s = Some (v, r) \<Longrightarrow> length r < length s"
  by (auto simp: read_value_def read_array_def
      dest!: read_string_shorter read_int_shorter read_ints_shorter expect_shorter
      split: option.splits)

lemma read_member_shorter: "read_member s = Some (m, r) \<Longrightarrow> length r < length s"
  by (auto simp: read_member_def dest!: read_string_shorter read_value_shorter
      split: option.splits list.splits if_splits)

function read_members :: "string \<Rightarrow> ((string \<times> json) list \<times> string) option" where
  "read_members s =
     (case read_member s of
        Some (m, c # r) \<Rightarrow>
          if c = CHR '','' then map_option (\<lambda>(ms, t). (m # ms, t)) (read_members r)
          else if c = CHR ''}'' then Some ([m], r) else None
      | _ \<Rightarrow> None)"
  by pat_completeness auto
termination
  by (relation "measure length") (auto dest: read_member_shorter)

declare read_members.simps [simp del]

text \<open>A line: one object, and nothing after it but the newline.\<close>

definition read_line :: "string \<Rightarrow> (string \<times> json) list option" where
  "read_line s =
     (case expect ''{'' s of
        None \<Rightarrow> None
      | Some r \<Rightarrow>
          (case read_members r of
             Some (ms, t) \<Rightarrow> if t = [CHR 0x0A] then Some ms else None
           | None \<Rightarrow> None))"

subsection \<open>Reading what was printed\<close>

text \<open>A text that ends a number: nothing, or something that is not a digit.\<close>

definition stops :: "string \<Rightarrow> bool" where
  "stops r \<longleftrightarrow> (case r of [] \<Rightarrow> True | c # _ \<Rightarrow> \<not> is_digit c)"

lemma stops_Cons [simp]: "stops (c # r) \<longleftrightarrow> \<not> is_digit c"
  by (simp add: stops_def)

lemma takeWhile_stops:
  "\<forall>c \<in> set ds. is_digit c \<Longrightarrow> stops r \<Longrightarrow> takeWhile is_digit (ds @ r) = ds \<and> dropWhile is_digit (ds @ r) = r"
  by (cases r) (auto simp: takeWhile_append dropWhile_append)

lemma show_dec_no_leading_zero: "hd (show_dec n) = CHR ''0'' \<Longrightarrow> length (show_dec n) = 1"
proof (induction n rule: show_dec.induct)
  case (1 n)
  show ?case
  proof (cases "n < 10")
    case True
    then show ?thesis by (subst show_dec.simps) simp
  next
    case False
    then have e: "show_dec n = show_dec (n div 10) @ [digit_char (n mod 10)]"
      by (subst show_dec.simps) simp
    with "1.prems" have "hd (show_dec (n div 10)) = CHR ''0''" by simp
    with "1.IH" [OF False] obtain c where "show_dec (n div 10) = [c]" "c = CHR ''0''"
      by (cases "show_dec (n div 10)") auto
    then have "dec_value (show_dec (n div 10)) = 0"
      by (simp add: dec_value_def dec_step_def digit_val_def)
    with False show ?thesis by simp
  qed
qed

lemma read_nat_show_dec: "stops r \<Longrightarrow> read_nat (show_dec n @ r) = Some (n, r)"
proof -
  assume "stops r"
  with takeWhile_stops [of "show_dec n" r] show_dec_digits
  have "takeWhile is_digit (show_dec n @ r) = show_dec n" "dropWhile is_digit (show_dec n @ r) = r" by auto
  moreover have "\<not> (hd (show_dec n) = CHR ''0'' \<and> 1 < length (show_dec n))"
    using show_dec_no_leading_zero [of n] by auto
  ultimately show ?thesis by (simp add: read_nat_def Let_def)
qed

lemma digit_not_special:
  "is_digit c \<Longrightarrow> c \<noteq> CHR ''-'' \<and> c \<noteq> CHR 0x22 \<and> c \<noteq> CHR ''['' \<and> c \<noteq> CHR ''t'' \<and> c \<noteq> CHR ''f''"
  by (auto simp: is_digit_def)

lemma show_dec_Cons: "\<exists>c t. show_dec n = c # t \<and> is_digit c"
  by (cases "show_dec n") (use show_dec_digits [of _ n] in auto)

lemma read_int_show_dec: "stops r \<Longrightarrow> read_int (show_dec n @ r) = Some (int n, r)"
  using read_nat_show_dec [of r n] show_dec_Cons [of n] digit_not_special
  by (auto simp: read_int_def)

lemma read_int_show_int: "stops r \<Longrightarrow> read_int (show_int i @ r) = Some (i, r)"
  by (cases "i < 0") (simp_all add: show_int_def read_int_show_dec, simp add: read_int_def read_nat_show_dec)

lemma read_string_quoted:
  assumes "plain_text t" shows "read_string (quoted t @ r) = Some (t, r)"
proof -
  have "\<not> plain (CHR 0x22)" by (simp add: plain_def)
  with assms have "takeWhile plain (t @ CHR 0x22 # r) = t" "dropWhile plain (t @ CHR 0x22 # r) = CHR 0x22 # r"
    by (auto simp: plain_text_def takeWhile_append dropWhile_append)
  then show ?thesis by (simp add: read_string_def quoted_def)
qed

lemma read_string_None: "c \<noteq> CHR 0x22 \<Longrightarrow> read_string (c # r) = None"
  by (simp add: read_string_def)

lemma read_ints_ids:
  "is \<noteq> [] \<Longrightarrow> read_ints (ids_text is @ CHR '']'' # r) = Some (map (\<lambda>i. int (unat i)) is, r)"
proof (induction "is" rule: ids_text.induct)
  case (2 i)
  have "read_int (show_dec (unat i) @ CHR '']'' # r) = Some (int (unat i), CHR '']'' # r)"
    by (rule read_int_show_dec) (simp add: is_digit_def)
  then show ?case by (subst read_ints.simps) simp
next
  case (3 i j "is")
  have "read_int (show_dec (unat i) @ CHR '','' # ids_text (j # is) @ CHR '']'' # r)
      = Some (int (unat i), CHR '','' # ids_text (j # is) @ CHR '']'' # r)"
    by (rule read_int_show_dec) (simp add: is_digit_def)
  with 3 show ?case by (subst read_ints.simps) simp
qed simp

lemma ids_text_Cons: "is \<noteq> [] \<Longrightarrow> \<exists>c t. ids_text is = c # t \<and> is_digit c"
  using show_dec_Cons by (cases "is" rule: ids_text.cases) (fastforce, auto, (metis append_Cons)+)

text \<open>The values a member may hold: a text must be plain, everything else always is.\<close>

fun plain_value :: "jval \<Rightarrow> bool" where
  "plain_value (JText s) = plain_text s"
| "plain_value _ = True"

lemma hex_digit_plain: "n < 16 \<Longrightarrow> plain (hex_digit up n)"
proof -
  assume n: "n < 16"
  have "\<forall>n \<in> set [0..<16]. plain (hex_digit up n)"
    by (cases up) (simp_all add: upt_rec plain_def hex_digit_def of_char_of)
  with n show ?thesis by simp
qed

lemma show_hex_plain: "plain_text (show_hex up n)"
proof (induction up n rule: show_hex.induct)
  case (1 up n)
  then show ?case
    by (subst show_hex.simps) (auto simp: plain_text_def intro: hex_digit_plain)
qed

lemma plain_text_append [simp]: "plain_text (s @ t) \<longleftrightarrow> plain_text s \<and> plain_text t"
  by (auto simp: plain_text_def)

lemma plain_text_Nil [simp]: "plain_text []"
  by (simp add: plain_text_def)

lemma plain_text_Cons [simp]: "plain_text (c # t) \<longleftrightarrow> plain c \<and> plain_text t"
  by (auto simp: plain_text_def)

lemma hex_upper_plain [simp]: "plain_text (hex_upper w n)"
  using show_hex_plain [of True n] by (simp add: hex_upper_def pad_zero_def) (simp add: plain_text_def plain_def)

lemma plain_0x [simp]: "plain (CHR ''0'')" "plain (CHR ''x'')"
  by (simp_all add: plain_def)

lemma quoted_Cons: "quoted t @ r = CHR 0x22 # (t @ CHR 0x22 # r)"
  by (simp add: quoted_def)

lemma read_number:
  assumes "stops r" "s = show_int i"
  shows "read_string (s @ r) = None" "read_int (s @ r) = Some (i, r)"
proof -
  have "\<exists>c t. show_int i = c # t \<and> c \<noteq> CHR 0x22"
    using show_dec_Cons digit_not_special by (fastforce simp: show_int_def)
  then show "read_string (s @ r) = None" using assms(2) by (auto simp: read_string_None)
  show "read_int (s @ r) = Some (i, r)" using assms by (simp add: read_int_show_int)
qed

lemma read_word: "c \<notin> {CHR 0x22, CHR ''-''} \<Longrightarrow> \<not> is_digit c \<Longrightarrow> read_string (c # r) = None \<and> read_int (c # r) = None"
  by (auto simp: read_string_None read_int_def read_nat_def)

lemma read_value_text:
  assumes "plain_value v" "stops r"
  shows "read_value (jval_text v @ r) = Some (json_of v, r)"
proof -
  have num: "read_value (show_int i @ r) = Some (Num i, r)" for i
    using read_number [OF assms(2) refl, of i] by (simp add: read_value_def)
  have nat: "read_value (show_dec n @ r) = Some (Num (int n), r)" for n
    using num [of "int n"] by (simp add: show_int_def)
  have str: "plain_text t \<Longrightarrow> read_value (quoted t @ r) = Some (Str t, r)" for t
    by (simp add: read_value_def read_string_quoted)
  have arr: "read_value (''['' @ ids_text is @ '']'' @ r) = Some (Arr (map (\<lambda>i. int (unat i)) is), r)" for "is"
  proof (cases "is = []")
    case True
    then show ?thesis
      using read_word [of "CHR ''[''" "CHR '']'' # r"]
      by (simp add: read_value_def read_array_def expect_def sv_starts_with_def is_digit_def)
  next
    case False
    from ids_text_Cons [OF False] obtain c t where c: "ids_text is = c # t" "is_digit c" by blast
    then have "c \<noteq> CHR '']''" by (auto simp: is_digit_def)
    with c have "expect ''[]'' (''['' @ ids_text is @ '']'' @ r) = None"
      by (simp add: expect_def sv_starts_with_def)
    with read_word [of "CHR ''[''" "ids_text is @ CHR '']'' # r"] read_ints_ids [OF False, of r] show ?thesis
      by (simp add: read_value_def read_array_def is_digit_def) (simp add: expect_def sv_starts_with_def)
  qed
  have flag: "read_value (''true'' @ r) = Some (Truth True, r)" "read_value (''false'' @ r) = Some (Truth False, r)"
    using read_word [of "CHR ''t''" "''rue'' @ r"] read_word [of "CHR ''f''" "''alse'' @ r"]
    by (simp_all add: read_value_def read_array_def expect_def sv_starts_with_def is_digit_def)
  show ?thesis
    using assms(1) num nat str arr flag by (cases v) simp_all
qed

lemma read_member_text:
  assumes "plain_text (fst m)" "plain_value (snd m)" "stops r"
  shows "read_member (member_text m @ r) = Some ((fst m, json_of (snd m)), r)"
  using read_string_quoted [OF assms(1), of "CHR '':'' # jval_text (snd m) @ r"] read_value_text [OF assms(2,3)]
  by (simp add: read_member_def member_text_def)

definition plain_members :: "members \<Rightarrow> bool" where
  "plain_members ms \<longleftrightarrow> list_all plain_text (map fst ms) \<and> list_all plain_value (map snd ms)"

lemma read_members_text:
  "plain_members (m # ms) \<Longrightarrow>
     read_members (member_text m @ more_text ms @ CHR ''}'' # r) = Some (map (apsnd json_of) (m # ms), r)"
proof (induction ms arbitrary: m)
  case Nil
  then show ?case
    using read_member_text [of m "CHR ''}'' # r"]
    by (subst read_members.simps) (simp add: plain_members_def is_digit_def apsnd_def map_prod_def split_beta)
next
  case (Cons n ms)
  then show ?case
    using read_member_text [of m "CHR '','' # member_text n @ more_text ms @ CHR ''}'' # r"]
    by (subst read_members.simps) (simp add: plain_members_def is_digit_def apsnd_def map_prod_def split_beta)
qed

text \<open>A line of plain members reads back as its members.\<close>

lemma read_json_text:
  assumes "ms \<noteq> []" "plain_members ms"
  shows "read_line (json_text ms []) = Some (map (apsnd json_of) ms)"
proof -
  obtain m ns where ms: "ms = m # ns" using assms(1) by (cases ms) auto
  from read_members_text [of m ns "[CHR 0x0A]"] assms(2) show ?thesis
    by (simp add: read_line_def json_text_def expect_def sv_starts_with_def ms)
qed

subsection \<open>The width of a line\<close>

fun width :: "jval \<Rightarrow> nat" where
  "width (JUlong w) = 20"
| "width (JUint w) = 10"
| "width (JInt w) = 11"
| "width (JFlag b) = 5"
| "width (JHex w) = 12"
| "width (JHexLong w) = 20"
| "width (JText s) = length s + 2"
| "width (JIds is) = 11 * length is + 2"

lemma length_ids_text: "length (ids_text is) \<le> 11 * length is"
proof (induction "is" rule: ids_text.induct)
  case (2 i)
  show ?case using length_show_word [of 10 i] by simp
next
  case (3 i j "is")
  then show ?case using length_show_word [of 10 i] by simp
qed simp

lemma length_show_int: "length (show_int (sint (w :: s32))) \<le> 11"
proof -
  have "- (2 ^ 31) \<le> sint w" "sint w < 2 ^ 31"
    using sint_ge [of w] sint_lt [of w] by simp_all
  then have "nat (- sint w) < 10 ^ 10" "nat (sint w) < 10 ^ 11" by auto
  then show ?thesis
    using length_show_dec_less [of "nat (- sint w)" 10] length_show_dec_less [of "nat (sint w)" 11]
    by (auto simp: show_int_def)
qed

lemma length_jval_text: "length (jval_text v) \<le> width v"
proof (cases v)
  case (JUlong w)
  then show ?thesis using length_show_word [of 20 w] by simp
next
  case (JUint w)
  then show ?thesis using length_show_word [of 10 w] by simp
next
  case (JHex w)
  then show ?thesis using length_hex_upper [of 8 w] by (simp add: quoted_def)
next
  case (JHexLong w)
  then show ?thesis using length_hex_upper [of 16 w] by (simp add: quoted_def)
next
  case (JIds "is")
  then show ?thesis using length_ids_text [of "is"] by simp
qed (auto simp: quoted_def length_show_int)

fun members_width :: "members \<Rightarrow> nat" where
  "members_width [] = 0"
| "members_width ((k, v) # ms) = length k + 4 + width v + members_width ms"

lemma length_more_text: "length (more_text ms) \<le> members_width ms"
proof (induction ms)
  case (Cons m ms)
  then show ?case
    using length_jval_text [of "snd m"] by (cases m) (simp add: member_text_def quoted_def)
qed simp

lemma length_json_text: "ms \<noteq> [] \<Longrightarrow> length (json_text ms []) \<le> members_width ms + 2"
  using length_more_text [of ms] by (cases ms) (simp_all add: json_text_def)

end
