(* ===== verification/TraceText.thy ===== *)
theory TraceText
  imports TraceTypes
begin

text \<open>
  The text helpers of the trace decoder (\<^verbatim>\<open>net-probe/src/mitm_trace.cpp\<close>): addresses,
  names of socket constants, the summary line that grows field by field, and socket
  addresses. A byte pointer with its size is a byte list; the null pointer, which every
  function here treats as too short, is the empty list.
\<close>

subsection \<open>Addresses and integers\<close>

definition show_byte :: "u8 \<Rightarrow> string" where "show_byte b = show_dec (unat b)"

definition FormatIpv4 :: "cbuf option \<Rightarrow> u8 list \<Rightarrow> cbuf option" where
  "FormatIpv4 out bytes =
     (if \<not> writable out then out
      else if length bytes < 4 then snprintf out ''unknown''
      else snprintf out (show_byte (bytes ! 0) @ ''.'' @ show_byte (bytes ! 1) @ ''.''
             @ show_byte (bytes ! 2) @ ''.'' @ show_byte (bytes ! 3)))"

definition ReadLe16 :: "u8 list \<Rightarrow> u16" where
  "ReadLe16 bytes = or (ucast (bytes ! 0)) (push_bit 8 (ucast (bytes ! 1)))"

definition ReadBe16 :: "u8 list \<Rightarrow> u16" where
  "ReadBe16 bytes = or (push_bit 8 (ucast (bytes ! 0))) (ucast (bytes ! 1))"

definition ReadBe32 :: "u8 list \<Rightarrow> u32" where
  "ReadBe32 bytes = or (or (or (push_bit 24 (ucast (bytes ! 0))) (push_bit 16 (ucast (bytes ! 1))))
     (push_bit 8 (ucast (bytes ! 2)))) (ucast (bytes ! 3))"

fun hex_groups :: "u8 list \<Rightarrow> string" where
  "hex_groups (a # b # c # r) = hex_pair a @ hex_pair b @ ('':'' @ hex_groups (c # r))"
| "hex_groups bs = concat (map hex_pair bs)"

definition FormatIpv6 :: "cbuf option \<Rightarrow> u8 list \<Rightarrow> cbuf option" where
  "FormatIpv6 out bytes =
     (if \<not> writable out then out
      else if length bytes < 16 then snprintf out ''unknown''
      else snprintf out (hex_groups (take 16 bytes)))"

subsection \<open>Names of socket constants\<close>

definition GetBsdAddressFamilyName :: "u16 \<Rightarrow> string option" where
  "GetBsdAddressFamilyName family =
     (if family = 2 then Some ''AF_INET'' else if family = 28 then Some ''AF_INET6'' else None)"

definition GetBsdSocketTypeName :: "s32 \<Rightarrow> string option" where
  "GetBsdSocketTypeName t =
     (if t = 1 then Some ''SOCK_STREAM'' else if t = 2 then Some ''SOCK_DGRAM''
      else if t = 3 then Some ''SOCK_RAW'' else if t = 5 then Some ''SOCK_SEQPACKET'' else None)"

definition GetBsdProtocolName :: "s32 \<Rightarrow> string option" where
  "GetBsdProtocolName p = (if p = 6 then Some ''TCP'' else if p = 17 then Some ''UDP'' else None)"

definition GetBsdSocketLevelName :: "s32 \<Rightarrow> string option" where
  "GetBsdSocketLevelName level =
     (if level = 0xFFFF then Some ''SOL_SOCKET'' else if level = 6 then Some ''IPPROTO_TCP''
      else if level = 17 then Some ''IPPROTO_UDP'' else None)"

definition GetBsdSocketOptionName :: "s32 \<Rightarrow> s32 \<Rightarrow> string option" where
  "GetBsdSocketOptionName level optname =
     (if level = 0xFFFF then
        (if optname = 0x0004 then Some ''SO_REUSEADDR''
         else if optname = 0x0008 then Some ''SO_KEEPALIVE''
         else if optname = 0x0800 then Some ''SO_NOSIGPIPE''
         else if optname = 0x1007 then Some ''SO_ERROR'' else None)
      else if level = 6 then (if optname = 1 then Some ''TCP_NODELAY'' else None)
      else None)"

definition GetBsdFcntlCommandName :: "s32 \<Rightarrow> string option" where
  "GetBsdFcntlCommandName cmd = (if cmd = 3 then Some ''F_GETFL'' else if cmd = 4 then Some ''F_SETFL'' else None)"

definition GetBsdShutdownHowName :: "s32 \<Rightarrow> string option" where
  "GetBsdShutdownHowName how =
     (if how = 0 then Some ''SHUT_RD'' else if how = 1 then Some ''SHUT_WR''
      else if how = 2 then Some ''SHUT_RDWR'' else None)"

subsection \<open>The summary line\<close>

text \<open>
  \<open>AppendSummaryText\<close> with the text its format expands to: a full buffer is left alone,
  otherwise a blank separates the text from what is there, and the rest is cut at the
  capacity.
\<close>

definition AppendSummaryText :: "cbuf option \<Rightarrow> string \<Rightarrow> cbuf option" where
  "AppendSummaryText out text =
     (case out of None \<Rightarrow> None
      | Some b \<Rightarrow>
          if cap b = 0 then out
          else if cap b - 1 \<le> length (content b) then out
          else let prefix = (if content b \<noteq> [] then content b @ '' '' else content b)
               in Some (b\<lparr>content := prefix @ take (cap b - length prefix - 1) text\<rparr>))"

definition AppendNamedValue :: "cbuf option \<Rightarrow> string \<Rightarrow> s32 \<Rightarrow> string option \<Rightarrow> cbuf option" where
  "AppendNamedValue out label value name =
     (case name of
        Some n \<Rightarrow> AppendSummaryText out (label @ ''='' @ n @ ''('' @ show_int (sint value) @ '')'')
      | None \<Rightarrow> AppendSummaryText out (label @ ''='' @ show_int (sint value)))"

definition show_upper_hex :: "u32 \<Rightarrow> string" where "show_upper_hex v = show_hex True (unat v)"

definition AppendNamedHexValue :: "cbuf option \<Rightarrow> string \<Rightarrow> u32 \<Rightarrow> string option \<Rightarrow> cbuf option" where
  "AppendNamedHexValue out label value name =
     (case name of
        Some n \<Rightarrow> AppendSummaryText out (label @ ''='' @ n @ ''(0x'' @ show_upper_hex value @ '')'')
      | None \<Rightarrow> AppendSummaryText out (label @ ''=0x'' @ show_upper_hex value))"

text \<open>What a summary line holds after a sequence of appends.\<close>

definition join_fields :: "string \<Rightarrow> string list \<Rightarrow> string" where
  "join_fields s fs = foldl (\<lambda>acc f. if acc = [] then f else acc @ '' '' @ f) s fs"

lemma AppendSummaryText_text:
  assumes "out = Some b" "length (content b) < cap b"
  shows "AppendSummaryText out text = Some (b\<lparr>content := take (cap b - 1) (join_fields (content b) [text])\<rparr>)"
proof (cases "cap b - 1 \<le> length (content b)")
  case True
  with assms have "length (content b) = cap b - 1" by simp
  with assms show ?thesis by (cases b) (auto simp: AppendSummaryText_def join_fields_def)
next
  case False
  then have "cap b - Suc (length (content b)) = Suc (cap b - Suc (Suc (length (content b))))" by simp
  with assms False show ?thesis
    by (auto simp: AppendSummaryText_def join_fields_def Let_def)
qed

lemma buf_ok_AppendSummaryText [buf_simps, simp]: "buf_ok out \<Longrightarrow> buf_ok (AppendSummaryText out text)"
  by (auto simp: AppendSummaryText_def buf_ok_def Let_def split: option.splits)

lemma buf_cap_AppendSummaryText [buf_simps, simp]: "buf_cap (AppendSummaryText out text) = buf_cap out"
  by (auto simp: AppendSummaryText_def buf_cap_def Let_def split: option.splits)

lemma buf_ok_AppendNamedValue [buf_simps, simp]: "buf_ok out \<Longrightarrow> buf_ok (AppendNamedValue out l v n)"
  by (auto simp: AppendNamedValue_def split: option.splits)

lemma buf_cap_AppendNamedValue [buf_simps, simp]: "buf_cap (AppendNamedValue out l v n) = buf_cap out"
  by (auto simp: AppendNamedValue_def split: option.splits)

lemma buf_ok_AppendNamedHexValue [buf_simps, simp]: "buf_ok out \<Longrightarrow> buf_ok (AppendNamedHexValue out l v n)"
  by (auto simp: AppendNamedHexValue_def split: option.splits)

lemma buf_cap_AppendNamedHexValue [buf_simps, simp]: "buf_cap (AppendNamedHexValue out l v n) = buf_cap out"
  by (auto simp: AppendNamedHexValue_def split: option.splits)

subsection \<open>Socket addresses\<close>

definition HexPreviewBytes :: nat where "HexPreviewBytes = 64"

definition hex_preview :: "nat \<Rightarrow> u8 list \<Rightarrow> string" where
  "hex_preview n bytes = buf_text (HexEncode (take n bytes) (fresh_buf (HexPreviewBytes * 2 + 1)))"

definition inet_text :: "u8 list \<Rightarrow> string" where
  "inet_text bytes = ''family=AF_INET addr='' @ buf_text (FormatIpv4 (fresh_buf 32) (drop 4 bytes))
     @ '' port='' @ show_dec (unat (ReadBe16 (drop 2 bytes)))"

definition inet6_text :: "u8 list \<Rightarrow> string" where
  "inet6_text bytes = ''family=AF_INET6 addr='' @ buf_text (FormatIpv6 (fresh_buf 64) (drop 8 bytes))
     @ '' port='' @ show_dec (unat (ReadBe16 (drop 2 bytes)))
     @ '' flow=0x'' @ hex_upper 8 (unat (ReadBe32 (drop 4 bytes)))
     @ '' scope='' @ show_dec (unat (ReadBe32 (drop 24 bytes)))"

text \<open>The text of a socket address of at least two bytes, by the tests in their order.\<close>

definition sockaddr_text :: "u8 list \<Rightarrow> string" where
  "sockaddr_text bytes =
     (let size = length bytes
      in if 8 \<le> size \<and> bytes ! 1 = 2 then inet_text bytes
         else if 8 \<le> size \<and> ReadLe16 bytes = 2 then inet_text bytes
         else if 28 \<le> size \<and> bytes ! 1 = 28 \<and> 28 \<le> bytes ! 0 then inet6_text bytes
         else if 28 \<le> size \<and> ReadLe16 bytes = 28 then inet6_text bytes
         else case (if 2 \<le> bytes ! 0 then GetBsdAddressFamilyName (ucast (bytes ! 1)) else None) of
             Some family_name \<Rightarrow> ''family='' @ family_name @ '' raw='' @ hex_preview (min 16 size) bytes
           | None \<Rightarrow> ''family='' @ show_dec (unat (ReadLe16 bytes)) @ '' raw='' @ hex_preview (min 16 size) bytes)"

definition TryFormatSockaddr :: "cbuf option \<Rightarrow> u8 list \<Rightarrow> bool \<times> cbuf option" where
  "TryFormatSockaddr out bytes =
     (if \<not> writable out then (False, out)
      else if length bytes < 2 then (False, snprintf out [])
      else (True, snprintf (snprintf out []) (sockaddr_text bytes)))"

subsection \<open>Lengths\<close>

lemma length_show_byte: "length (show_byte b) \<le> 3"
proof -
  have "unat b < 2 ^ LENGTH(8)" by (rule unsigned_less)
  then have "unat b < 10 ^ 3" by simp
  then show ?thesis unfolding show_byte_def by (rule length_show_dec_less) simp
qed

lemma length_FormatIpv4: "length (buf_text (FormatIpv4 (fresh_buf n) bytes)) \<le> 15"
proof (cases "n = 0")
  case True
  then show ?thesis by (simp add: FormatIpv4_def) (simp add: buf_text_def fresh_buf_def)
next
  case False
  have "length (show_byte (bytes ! i)) \<le> 3" for i by (rule length_show_byte)
  from this [of 0] this [of 1] this [of 2] this [of 3] False show ?thesis
    by (auto simp: FormatIpv4_def)
qed

lemma length_hex_groups: "length (hex_groups bs) \<le> 5 * length bs div 2"
  by (induction bs rule: hex_groups.induct) (auto simp: hex_pair_def)

lemma length_FormatIpv6: "length (buf_text (FormatIpv6 (fresh_buf n) bytes)) \<le> 40"
proof (cases "n = 0")
  case True
  then show ?thesis by (simp add: FormatIpv6_def) (simp add: buf_text_def fresh_buf_def)
next
  case False
  with length_hex_groups [of "take 16 bytes"] show ?thesis by (auto simp: FormatIpv6_def)
qed

lemma length_hex_preview: "length (hex_preview n bytes) \<le> 2 * n"
proof -
  have l: "length (concat (map hex_pair bs)) = 2 * length bs" for bs
    by (induction bs) (simp_all add: hex_pair_def)
  show ?thesis
    by (simp add: hex_preview_def HexEncode_def fresh_buf_def buf_text_def hex_loop_take l del: length_concat)
qed

lemma length_inet_text: "length (inet_text bytes) \<le> 50"
  using length_FormatIpv4 [of 32 "drop 4 bytes"] length_show_word [of 5 "ReadBe16 (drop 2 bytes)"]
  by (simp add: inet_text_def)

lemma length_inet6_text: "length (inet6_text bytes) \<le> 110"
  using length_FormatIpv6 [of 64 "drop 8 bytes"] length_show_word [of 5 "ReadBe16 (drop 2 bytes)"]
    length_show_word [of 10 "ReadBe32 (drop 24 bytes)"] length_hex_upper [of 8 "ReadBe32 (drop 4 bytes)"]
  by (simp add: inet6_text_def)

lemma GetBsdAddressFamilyName_length: "GetBsdAddressFamilyName f = Some n \<Longrightarrow> length n \<le> 8"
  by (auto simp: GetBsdAddressFamilyName_def split: if_splits)

lemma length_sockaddr_text: "length (sockaddr_text bytes) \<le> 110"
proof -
  have "length (hex_preview (min 16 (length bytes)) bytes) \<le> 32"
    using length_hex_preview [of "min 16 (length bytes)" bytes] by simp
  moreover have "length (show_dec (unat (ReadLe16 bytes))) \<le> 5" by (rule length_show_word) simp_all
  ultimately show ?thesis
    using length_inet_text [of bytes] length_inet6_text [of bytes]
    by (auto simp: sockaddr_text_def Let_def split: option.splits if_splits dest!: GetBsdAddressFamilyName_length)
qed

text \<open>
  A socket address always prints in full: the 160 bytes the callers give are enough
  for every family, so a larger buffer prints the same text; and the call succeeds
  exactly when the two bytes of the family are there.
\<close>

theorem sockaddr_text_complete:
  assumes "160 \<le> n"
  shows "buf_text (snd (TryFormatSockaddr (fresh_buf n) bytes)) = buf_text (snd (TryFormatSockaddr (fresh_buf 160) bytes))
    \<and> (fst (TryFormatSockaddr (fresh_buf n) bytes) \<longleftrightarrow> 2 \<le> length bytes)"
proof -
  have "take (n - 1) (sockaddr_text bytes) = sockaddr_text bytes" "take 159 (sockaddr_text bytes) = sockaddr_text bytes"
    using length_sockaddr_text [of bytes] assms by simp_all
  with assms show ?thesis by (simp add: TryFormatSockaddr_def)
qed

theorem sockaddr_text_complete_witness:
  "fst (TryFormatSockaddr (fresh_buf 400) [16, 2, 0x1F, 0x90, 10, 0, 0, 1])"
  using sockaddr_text_complete [of 400 "[16, 2, 0x1F, 0x90, 10, 0, 0, 1]"] by simp

lemma sockaddr_inet_text:
  assumes "tag = (len, 2) \<or> tag = (2, 0)"
  shows "TryFormatSockaddr (fresh_buf 160) ([fst tag, snd tag, p1, p0, a, b, c, d] @ rest) =
    (True, snprintf (fresh_buf 160) (''family=AF_INET addr='' @ show_byte a @ ''.'' @ show_byte b @ ''.''
       @ show_byte c @ ''.'' @ show_byte d @ '' port='' @ show_dec (256 * unat p1 + unat p0)))"
proof -
  have be: "unat (ReadBe16 (p1 # p0 # r)) = 256 * unat p1 + unat p0" for r
  proof -
    have b: "unat p1 < 2 ^ LENGTH(8)" "unat p0 < 2 ^ LENGTH(8)" by (rule unsigned_less)+
    have "or (push_bit 8 (unat p1)) (unat p0) = push_bit 8 (unat p1) + unat p0"
    proof (intro disjunctive_add [symmetric])
      fix n
      have "unat p0 = take_bit 8 (unat p0)" using b(2) by (simp add: take_bit_nat_eq_self)
      then have "bit (unat p0) n \<Longrightarrow> n < 8" by (metis bit_take_bit_iff)
      then show "\<not> bit (push_bit 8 (unat p1)) n \<or> \<not> bit (unat p0) n" by (auto simp: bit_simps)
    qed
    moreover have "unat (ReadBe16 (p1 # p0 # r)) = or (push_bit 8 (unat p1)) (unat p0)"
    proof -
      have t: "take_bit 16 (unat p1) = unat p1" "take_bit 16 (unat p0) = unat p0"
        "take_bit 16 (push_bit 8 (unat p1)) = push_bit 8 (unat p1)"
        using b by (simp_all add: take_bit_nat_eq_self_iff push_bit_eq_mult)
      show ?thesis
        by (simp add: ReadBe16_def unsigned_or_eq unsigned_push_bit_eq unsigned_ucast_eq t)
    qed
    ultimately show ?thesis using b by (simp add: push_bit_eq_mult)
  qed
  have le: "ReadLe16 (2 # 0 # r) = 2" for r
    by (simp add: ReadLe16_def)
  show ?thesis
    using assms le length_show_byte [of a] length_show_byte [of b] length_show_byte [of c] length_show_byte [of d]
    by (auto simp: TryFormatSockaddr_def sockaddr_text_def Let_def inet_text_def FormatIpv4_def be)
qed

text \<open>
  The decoded address is the encoded one: a BSD socket address with its length byte,
  or a Linux-style one with a two-byte family, prints the four address bytes and the
  port in network order.
\<close>

theorem sockaddr_inet_decoded:
  assumes "tag = (len, 2) \<or> tag = (2, 0)"
  shows "TryFormatSockaddr (fresh_buf 160) ([fst tag, snd tag, p1, p0, a, b, c, d] @ rest) =
    (True, snprintf (fresh_buf 160) (''family=AF_INET addr='' @ show_byte a @ ''.'' @ show_byte b @ ''.''
       @ show_byte c @ ''.'' @ show_byte d @ '' port='' @ show_dec (256 * unat p1 + unat p0)))"
  using assms by (rule sockaddr_inet_text)

theorem sockaddr_inet_decoded_witness:
  "fst (TryFormatSockaddr (fresh_buf 160) [16, 2, 0x1F, 0x90, 10, 0, 0, 1])"
  using sockaddr_inet_decoded [of "(16, 2)" 16 "0x1F" "0x90" 10 0 0 1 "[]"] by simp

end
