(* ===== verification/TraceViews.thy ===== *)
theory TraceViews
  imports TraceText
begin

text \<open>
  The buffers of a traced call (\<^verbatim>\<open>net-probe/src/mitm_trace.cpp\<close>): which of a request's
  and a response's descriptors are looked at, and the summary of their sizes. A HIPC
  descriptor belongs to a library outside the repository; the code reads an address and a
  size through that library's accessors, so a descriptor here is the address with the
  bytes that lie there, as many as the size says.
\<close>

record hipc_descriptor =
  desc_address :: u64
  desc_bytes :: "u8 list"
  desc_index :: u32 \<comment> \<open>the index of a static descriptor\<close>

text \<open>The counts of the library's request and response are the lengths of the lists.\<close>

record HipcParsedRequest =
  send_statics :: "hipc_descriptor list"
  send_buffers :: "hipc_descriptor list"
  recv_buffers :: "hipc_descriptor list"
  exch_buffers :: "hipc_descriptor list"

record HipcResponse =
  statics :: "hipc_descriptor list"
  copy_handles :: "u32 list"
  move_handles :: "u32 list"

definition desc_size :: "hipc_descriptor \<Rightarrow> nat" where "desc_size d = length (desc_bytes d)"

subsection \<open>Views\<close>

definition GetBufferView :: "hipc_descriptor \<Rightarrow> u8 list option" where
  "GetBufferView d = (if desc_address d = 0 \<or> desc_size d = 0 then None else Some (desc_bytes d))"

definition GetStaticView :: "hipc_descriptor \<Rightarrow> u8 list option" where
  "GetStaticView d = (if desc_address d = 0 \<or> desc_size d = 0 then None else Some (desc_bytes d))"

text \<open>A view with the out parameter \<^verbatim>\<open>out_is_pointer_static\<close>.\<close>

type_synonym view = "u8 list \<times> bool"

text \<open>The view of the first descriptor of a list, when there is one.\<close>

definition first_view :: "(hipc_descriptor \<Rightarrow> u8 list option) \<Rightarrow> hipc_descriptor list \<Rightarrow> u8 list option" where
  "first_view get ds = (case ds of [] \<Rightarrow> None | d # _ \<Rightarrow> get d)"

definition GetFirstRequestInputView :: "HipcParsedRequest \<Rightarrow> view option" where
  "GetFirstRequestInputView request =
     (case first_view GetBufferView (send_buffers request) of
        Some bytes \<Rightarrow> Some (bytes, False)
      | None \<Rightarrow>
          (case first_view GetStaticView (send_statics request) of
             Some bytes \<Rightarrow> Some (bytes, True)
           | None \<Rightarrow>
               (case first_view GetBufferView (exch_buffers request) of
                  Some bytes \<Rightarrow> Some (bytes, False)
                | None \<Rightarrow> None)))"

text \<open>One of the three loops: the match, or the count of usable views so far.\<close>

fun match_views ::
  "(hipc_descriptor \<Rightarrow> u8 list option) \<Rightarrow> bool \<Rightarrow> nat \<Rightarrow> hipc_descriptor list \<Rightarrow> nat \<Rightarrow> view + nat" where
  "match_views get is_static ordinal [] current = Inr current"
| "match_views get is_static ordinal (d # ds) current =
     (case get d of
        None \<Rightarrow> match_views get is_static ordinal ds current
      | Some bytes \<Rightarrow>
          if current \<noteq> ordinal then match_views get is_static ordinal ds (current + 1)
          else Inl (bytes, is_static))"

definition GetRequestInputViewAt :: "HipcParsedRequest \<Rightarrow> nat \<Rightarrow> view option" where
  "GetRequestInputViewAt request ordinal =
     (case match_views GetBufferView False ordinal (send_buffers request) 0 of
        Inl v \<Rightarrow> Some v
      | Inr current \<Rightarrow>
          (case match_views GetStaticView True ordinal (send_statics request) current of
             Inl v \<Rightarrow> Some v
           | Inr current' \<Rightarrow>
               (case match_views GetBufferView False ordinal (exch_buffers request) current' of
                  Inl v \<Rightarrow> Some v
                | Inr _ \<Rightarrow> None)))"

definition GetFirstResponseOutputView ::
  "HipcParsedRequest \<Rightarrow> HipcResponse \<Rightarrow> bool \<Rightarrow> view option" where
  "GetFirstResponseOutputView request response have_response =
     (case first_view GetBufferView (recv_buffers request) of
        Some bytes \<Rightarrow> Some (bytes, False)
      | None \<Rightarrow>
          (case first_view GetBufferView (exch_buffers request) of
             Some bytes \<Rightarrow> Some (bytes, False)
           | None \<Rightarrow>
               (if have_response then
                  (case first_view GetStaticView (statics response) of
                     Some bytes \<Rightarrow> Some (bytes, True)
                   | None \<Rightarrow> None)
                else None)))"

text \<open>What the loops enumerate: the usable views in their order.\<close>

definition usable :: "(hipc_descriptor \<Rightarrow> u8 list option) \<Rightarrow> bool \<Rightarrow> hipc_descriptor list \<Rightarrow> view list" where
  "usable get is_static ds = map (\<lambda>b. (b, is_static)) (List.map_filter get ds)"

definition request_views :: "HipcParsedRequest \<Rightarrow> view list" where
  "request_views request = usable GetBufferView False (send_buffers request)
     @ usable GetStaticView True (send_statics request)
     @ usable GetBufferView False (exch_buffers request)"

lemma match_views_usable:
  "current \<le> ordinal \<Longrightarrow>
     match_views get is_static ordinal ds current =
       (if ordinal - current < length (usable get is_static ds)
        then Inl (usable get is_static ds ! (ordinal - current))
        else Inr (current + length (usable get is_static ds)))"
proof (induction ds arbitrary: current)
  case (Cons d ds)
  then show ?case
    by (cases "get d") (auto simp: usable_def map_filter_simps nth_Cons' Suc_diff_le)
qed (simp add: usable_def map_filter_simps)

lemma input_views_listed:
  "GetRequestInputViewAt request ordinal =
     (if ordinal < length (request_views request) then Some (request_views request ! ordinal) else None)"
  by (auto simp: GetRequestInputViewAt_def match_views_usable request_views_def nth_append)

text \<open>
  C40. The indexed search finds every usable input buffer of a call exactly once: asking
  for the n-th gives the n-th entry of the list of non-empty send buffers, pointer
  buffers and exchange buffers, in this order, and fails exactly past its end.
\<close>

theorem input_views_enumerated:
  "GetRequestInputViewAt request ordinal =
     (if ordinal < length (request_views request) then Some (request_views request ! ordinal) else None)"
  by (rule input_views_listed)

subsection \<open>Buffer layout summaries\<close>

text \<open>
  The summary is printed piece by piece into a local array of \<open>n\<close> characters; \<open>cursor\<close> is
  the write position, clamped after every \<^verbatim>\<open>snprintf\<close>.
\<close>

type_synonym layout = "string \<times> int"

definition layout_put :: "nat \<Rightarrow> string \<Rightarrow> layout \<Rightarrow> layout" where
  "layout_put n text st =
     (case st of (summary, cursor) \<Rightarrow>
        (take (nat cursor) summary @ take (n - nat cursor - 1) text,
         ClampLength (cursor + int (length text)) n))"

text \<open>One loop over the descriptors; \<open>first\<close> is \<^verbatim>\<open>i == 0\<close>.\<close>

fun layout_sizes :: "nat \<Rightarrow> bool \<Rightarrow> nat list \<Rightarrow> layout \<Rightarrow> layout" where
  "layout_sizes n first [] st = st"
| "layout_sizes n first (z # zs) st =
     (if snd st < int n - 1
      then layout_sizes n False zs (layout_put n ((if first then [] else '','') @ show_dec z) st)
      else st)"

definition AppendRequestBufferLayoutSummary :: "cbuf option \<Rightarrow> HipcParsedRequest \<Rightarrow> cbuf option" where
  "AppendRequestBufferLayoutSummary out request =
     (if \<not> writable out then out
      else let n = 384;
               st = layout_put n ''req_bufs=ss['' ([], 0);
               st = layout_sizes n True (map desc_size (send_statics request)) st;
               st = layout_put n ''] sm['' st;
               st = layout_sizes n True (map desc_size (send_buffers request)) st;
               st = layout_put n ''] rm['' st;
               st = layout_sizes n True (map desc_size (recv_buffers request)) st;
               st = layout_put n ''] xm['' st;
               st = layout_sizes n True (map desc_size (exch_buffers request)) st;
               st = layout_put n '']'' st
           in AppendSummaryText out (take (n - 1) (fst st)))"

definition AppendResponseBufferLayoutSummary ::
  "cbuf option \<Rightarrow> HipcParsedRequest \<Rightarrow> HipcResponse \<Rightarrow> bool \<Rightarrow> cbuf option" where
  "AppendResponseBufferLayoutSummary out request response have_response =
     (if \<not> writable out then out
      else let n = 256;
               st = layout_put n ''resp_bufs=rm['' ([], 0);
               st = layout_sizes n True (map desc_size (recv_buffers request)) st;
               st = layout_put n ''] xm['' st;
               st = layout_sizes n True (map desc_size (exch_buffers request)) st;
               st = layout_put n ''] rs['' st;
               st = layout_sizes n True (map desc_size (if have_response then statics response else [])) st;
               st = layout_put n '']'' st
           in AppendSummaryText out (take (n - 1) (fst st)))"

text \<open>The text the pieces make up, without any limit.\<close>

definition sizes_text :: "bool \<Rightarrow> nat list \<Rightarrow> string" where
  "sizes_text first zs = drop (if first then 1 else 0) (concat (map (\<lambda>z. CHR '','' # show_dec z) zs))"

definition request_layout_text :: "HipcParsedRequest \<Rightarrow> string" where
  "request_layout_text request =
     ''req_bufs=ss['' @ sizes_text True (map desc_size (send_statics request))
     @ ''] sm['' @ sizes_text True (map desc_size (send_buffers request))
     @ ''] rm['' @ sizes_text True (map desc_size (recv_buffers request))
     @ ''] xm['' @ sizes_text True (map desc_size (exch_buffers request)) @ '']''"

definition response_layout_text :: "HipcParsedRequest \<Rightarrow> HipcResponse \<Rightarrow> bool \<Rightarrow> string" where
  "response_layout_text request response have_response =
     ''resp_bufs=rm['' @ sizes_text True (map desc_size (recv_buffers request))
     @ ''] xm['' @ sizes_text True (map desc_size (exch_buffers request))
     @ ''] rs['' @ sizes_text True (map desc_size (if have_response then statics response else [])) @ '']''"

definition holds_prefix :: "nat \<Rightarrow> string \<Rightarrow> layout \<Rightarrow> bool" where
  "holds_prefix n text st \<longleftrightarrow> st = (take (n - 1) text, int (min (length text) (n - 1)))"

lemma ClampLength_nat: "0 < n \<Longrightarrow> ClampLength (int k) n = int (min k (n - 1))"
  by (auto simp: ClampLength_def)

lemma holds_prefix_put:
  assumes "holds_prefix n t st" "0 < n"
  shows "holds_prefix n (t @ piece) (layout_put n piece st)"
proof -
  let ?c = "min (length t) (n - 1)"
  have st: "st = (take (n - 1) t, int ?c)" using assms(1) by (simp add: holds_prefix_def)
  have "ClampLength (int ?c + int (length piece)) n = int (min (?c + length piece) (n - 1))"
    using ClampLength_nat [OF assms(2), of "?c + length piece"] by simp
  moreover have "min (?c + length piece) (n - 1) = min (length (t @ piece)) (n - 1)" by auto
  moreover have "take ?c (take (n - 1) t) @ take (n - ?c - 1) piece = take (n - 1) (t @ piece)"
    by (cases "length t \<le> n - 1") (simp_all add: min_def)
  ultimately show ?thesis
    by (simp only: st layout_put_def holds_prefix_def prod.case nat_int)
qed

lemma holds_prefix_start: "0 < n \<Longrightarrow> holds_prefix n piece (layout_put n piece ([], 0))"
  using holds_prefix_put [of n "[]" "([], 0)" piece] by (simp add: holds_prefix_def)

lemma holds_prefix_sizes:
  "holds_prefix n t st \<Longrightarrow> 0 < n \<Longrightarrow> holds_prefix n (t @ sizes_text first zs) (layout_sizes n first zs st)"
proof (induction zs arbitrary: t st first)
  case (Cons z zs)
  have pieces: "sizes_text first (z # zs) = ((if first then [] else '','') @ show_dec z) @ sizes_text False zs"
    by (simp add: sizes_text_def)
  show ?case
  proof (cases "snd st < int n - 1")
    case True
    then show ?thesis
      using Cons.IH [OF holds_prefix_put [OF Cons.prems(1,2),
          of "(if first then [] else '','') @ show_dec z"] Cons.prems(2), of False]
      unfolding pieces by (simp only: layout_sizes.simps if_True append_assoc)
  next
    case False
    with Cons.prems have full: "n - 1 \<le> length t" by (auto simp: holds_prefix_def)
    with Cons.prems False show ?thesis by (simp add: holds_prefix_def min_absorb2)
  qed
qed (simp add: sizes_text_def)

lemmas holds_prefix_rules = holds_prefix_put holds_prefix_sizes holds_prefix_start

lemma holds_prefix_text: "holds_prefix n t st \<Longrightarrow> take (n - 1) (fst st) = take (n - 1) t"
  by (simp add: holds_prefix_def)

lemma layout_three:
  assumes "0 < n"
  shows "holds_prefix n (a @ sizes_text True as @ b @ sizes_text True bs @ c @ sizes_text True cs @ d)
    (layout_put n d (layout_sizes n True cs (layout_put n c
      (layout_sizes n True bs (layout_put n b (layout_sizes n True as (layout_put n a ([], 0))))))))"
  unfolding append_assoc [symmetric] using assms by (intro holds_prefix_rules)

lemma layout_four:
  assumes "0 < n"
  shows "holds_prefix n (a @ sizes_text True as @ b @ sizes_text True bs @ c @ sizes_text True cs
      @ d @ sizes_text True ds @ e)
    (layout_put n e (layout_sizes n True ds (layout_put n d (layout_sizes n True cs (layout_put n c
      (layout_sizes n True bs (layout_put n b (layout_sizes n True as (layout_put n a ([], 0))))))))))"
  unfolding append_assoc [symmetric] using assms by (intro holds_prefix_rules)

text \<open>
  The clamped cursor loops print what one unbounded print would: the buffer layout
  appended to the summary line is the whole layout text of the request, or of the
  response, cut at the size of the local array, however many buffers a call has.
\<close>

theorem layout_summaries_are_prefixes:
  "AppendRequestBufferLayoutSummary out request =
     (if writable out then AppendSummaryText out (take 383 (request_layout_text request)) else out)
   \<and> AppendResponseBufferLayoutSummary out request response have_response =
     (if writable out
      then AppendSummaryText out (take 255 (response_layout_text request response have_response)) else out)"
proof -
  note request = holds_prefix_text [OF layout_four [of 384]]
  note response = holds_prefix_text [OF layout_three [of 256]]
  show ?thesis
    unfolding AppendRequestBufferLayoutSummary_def AppendResponseBufferLayoutSummary_def Let_def
      request_layout_text_def response_layout_text_def
    by (simp only: request response) simp
qed

end
