(* ===== verification/TraceNames.thy ===== *)
theory TraceNames
  imports TraceTypes
begin

text \<open>
  Object paths and command names (\<^verbatim>\<open>net-probe/src/mitm_trace.cpp\<close>): a domain object is
  traced under the path of commands that created it, \<^verbatim>\<open>root.cmd<id>[<index>]...\<close>; the
  number of \<^verbatim>\<open>.cmd\<close> segments and the last command number in that text decide which
  interface the object has and how its commands are called. A \<^verbatim>\<open>const char*\<close> that may be
  null is a \<open>string option\<close>, an out parameter with its size a \<open>cbuf option\<close>.
\<close>

subsection \<open>Requests\<close>

record ParsedRequestInfo =
  info_valid :: bool
  info_is_domain :: bool
  info_is_close :: bool
  info_command_type :: u32
  info_command_id :: u32
  info_object_id :: u32
  info_raw_size :: nat

definition empty_request_info :: ParsedRequestInfo where
  "empty_request_info = \<lparr>info_valid = False, info_is_domain = False, info_is_close = False,
     info_command_type = 0, info_command_id = 0, info_object_id = 0, info_raw_size = 0\<rparr>"

definition GetHipcCommandTypeName :: "u32 \<Rightarrow> string" where
  "GetHipcCommandTypeName command_type =
     (if command_type = 2 then ''close''
      else if command_type = 4 then ''request''
      else if command_type = 5 then ''control''
      else if command_type = 6 then ''request_with_context''
      else ''unknown'')"

definition GetSelectedKindText :: "ParsedRequestInfo \<Rightarrow> string" where
  "GetSelectedKindText request_info =
     (if \<not> info_valid request_info then ''invalid''
      else if info_is_close request_info then
        (if info_is_domain request_info then ''domain_close'' else ''root_close'')
      else if info_is_domain request_info then ''domain'' else ''root'')"

subsection \<open>The command segments of a path\<close>

definition cmd_mark :: string where "cmd_mark = ''.cmd''"

lemma str_find_bound: "str_find p s = Some i \<Longrightarrow> i + length p \<le> length s"
proof (induction p s arbitrary: i rule: str_find.induct)
  case (2 p x xs)
  then show ?case
    by (auto simp: sv_starts_with_iff split: if_splits dest: arg_cong [where f = length])
qed (auto split: if_splits)

lemma cmd_mark_progress [simp]:
  "str_find cmd_mark cursor = Some i \<Longrightarrow> length cursor - (i + 4) < length cursor"
  using str_find_bound [of cmd_mark cursor i] by (simp add: cmd_mark_def)

text \<open>The loop of \<^verbatim>\<open>CountCmdSegments\<close>: \<open>strstr\<close> from a cursor that moves past each match.\<close>

function count_segments :: "string \<Rightarrow> nat \<Rightarrow> nat" where
  "count_segments cursor count =
     (case str_find cmd_mark cursor of
        None \<Rightarrow> count
      | Some i \<Rightarrow> count_segments (drop (i + 4) cursor) (count + 1))"
  by auto
termination by (relation "measure (\<lambda>(cursor, count). length cursor)") auto

declare count_segments.simps [simp del]

definition CountCmdSegments :: "string option \<Rightarrow> nat" where
  "CountCmdSegments object_path =
     (case object_path of None \<Rightarrow> 0 | Some path \<Rightarrow> count_segments path 0)"

text \<open>The loop of \<^verbatim>\<open>GetLastCreatorCommandId\<close>: the text from the last match on.\<close>

function last_segment :: "string \<Rightarrow> string option \<Rightarrow> string option" where
  "last_segment cursor last_match =
     (case str_find cmd_mark cursor of
        None \<Rightarrow> last_match
      | Some i \<Rightarrow> last_segment (drop (i + 4) cursor) (Some (drop i cursor)))"
  by auto
termination by (relation "measure (\<lambda>(cursor, last_match). length cursor)") auto

declare last_segment.simps [simp del]

text \<open>
  \<^verbatim>\<open>strtoul(text, &end, 10)\<close> on a 64-bit \<^verbatim>\<open>unsigned long\<close>: the value and the rest of the
  text at \<^verbatim>\<open>end\<close>; blanks and a sign may precede the digits, a value out of range is the
  maximum, and a text without digits leaves \<^verbatim>\<open>end\<close> at its start.
\<close>

definition is_c_space :: "char \<Rightarrow> bool" where
  "is_c_space c \<longleftrightarrow> c = CHR 0x20 \<or> (9 \<le> (of_char c :: nat) \<and> (of_char c :: nat) \<le> 13)"

definition strtoul :: "string \<Rightarrow> u64 \<times> string" where
  "strtoul s =
     (let blanks = dropWhile is_c_space s;
          negative = (blanks \<noteq> [] \<and> hd blanks = CHR ''-'');
          body = (if blanks \<noteq> [] \<and> (hd blanks = CHR ''-'' \<or> hd blanks = CHR ''+'') then tl blanks else blanks);
          ds = takeWhile is_digit body;
          n = dec_value ds
      in if ds = [] then (0, s)
         else (if 2 ^ 64 \<le> n then - 1 else if negative then - of_nat n else of_nat n,
               dropWhile is_digit body))"

definition GetLastCreatorCommandId :: "string option \<Rightarrow> int" where
  "GetLastCreatorCommandId object_path =
     (case object_path of
        None \<Rightarrow> - 1
      | Some path \<Rightarrow>
          (case last_segment path None of
             None \<Rightarrow> - 1
           | Some segment \<Rightarrow>
               (let text = drop 4 segment; (value, rest) = strtoul text
                in if rest = text \<or> rest = [] \<or> hd rest \<noteq> CHR ''['' then - 1
                   else sint (ucast value :: s32))))"

subsection \<open>Command tables\<close>

text \<open>
  A switch over the command number that copies a name is an association list; a number
  without a case leaves the buffer as it was.
\<close>

definition put_command :: "(nat \<times> string) list \<Rightarrow> u32 \<Rightarrow> cbuf option \<Rightarrow> cbuf option" where
  "put_command commands command_id command_name =
     (case map_of commands (unat command_id) of
        None \<Rightarrow> command_name
      | Some name \<Rightarrow> snprintf command_name name)"

definition nifm_static_commands :: "(nat \<times> string) list" where
  "nifm_static_commands =
    [(4, ''CreateGeneralServiceOld''), (5, ''CreateGeneralService'')]"

definition nifm_general_commands :: "(nat \<times> string) list" where
  "nifm_general_commands =
    [(4, ''CreateRequest''), (5, ''GetCurrentNetworkProfile''),
     (12, ''GetCurrentIpAddress''), (15, ''GetCurrentIpConfigInfo''),
     (17, ''IsWirelessCommunicationEnabled''), (18, ''GetInternetConnectionStatus''),
     (36, ''GetCurrentAccessPoint'')]"

definition nifm_request_commands :: "(nat \<times> string) list" where
  "nifm_request_commands =
    [(0, ''GetRequestState''), (1, ''GetResult''), (2, ''GetSystemEventReadableHandles''),
     (4, ''Submit''), (6, ''SetRequirementPreset''), (12, ''SetPersistent''),
     (24, ''RegisterSocketDescriptor''), (25, ''UnregisterSocketDescriptor'')]"

definition bsd_commands :: "(nat \<times> string) list" where
  "bsd_commands =
    [(0, ''RegisterClient''), (1, ''StartMonitoring''), (2, ''Socket''),
     (3, ''SocketExempt''), (4, ''Open''), (5, ''Select''), (6, ''Poll''),
     (7, ''Sysctl''), (8, ''Recv''), (9, ''RecvFrom''), (10, ''Send''), (11, ''SendTo''),
     (12, ''Accept''), (13, ''Bind''), (14, ''Connect''), (15, ''GetPeerName''),
     (16, ''GetSockName''), (17, ''GetSockOpt''), (18, ''Listen''), (19, ''Ioctl''),
     (20, ''Fcntl''), (21, ''SetSockOpt''), (22, ''Shutdown''),
     (23, ''ShutdownAllSockets''), (24, ''Write''), (25, ''Read''), (26, ''Close''),
     (27, ''DuplicateSocket''), (29, ''RecvMMsg''), (30, ''SendMMsg'')]"

definition ssl_service_commands :: "(nat \<times> string) list" where
  "ssl_service_commands =
    [(0, ''CreateContext''), (1, ''GetContextCount''), (2, ''GetCertificates''),
     (3, ''GetCertificateBufSize''), (4, ''DebugIoctl''), (5, ''SetInterfaceVersion''),
     (6, ''FlushSessionCache''), (7, ''SetDebugOption''), (8, ''GetDebugOption''),
     (9, ''ClearTls12FallbackFlag''), (10, ''GetCertificateByIndex''),
     (11, ''GetTrustedCertificateCount''), (100, ''CreateContextForSystem''),
     (101, ''SetThreadCoreMask''), (102, ''GetThreadCoreMask''),
     (103, ''VerifySignature'')]"

definition ssl_context_commands :: "(nat \<times> string) list" where
  "ssl_context_commands =
    [(0, ''SetOption''), (1, ''GetOption''), (2, ''CreateConnection''),
     (3, ''GetConnectionCount''), (4, ''ImportServerPki''), (5, ''ImportClientPki''),
     (6, ''RemoveServerPki''), (7, ''RemoveClientPki''), (8, ''RegisterInternalPki''),
     (9, ''AddPolicyOid''), (10, ''ImportCrl''), (11, ''RemoveCrl''),
     (12, ''ImportClientCertKeyPki''), (13, ''GeneratePrivateKeyAndCert''),
     (100, ''CreateConnectionEx'')]"

definition ssl_connection_commands :: "(nat \<times> string) list" where
  "ssl_connection_commands =
    [(0, ''SetSocketDescriptor''), (1, ''SetHostName''), (2, ''SetVerifyOption''),
     (3, ''SetIoMode''), (4, ''GetSocketDescriptor''), (5, ''GetHostName''),
     (6, ''GetVerifyOption''), (7, ''GetIoMode''), (8, ''DoHandshake''),
     (9, ''DoHandshakeGetServerCert''), (10, ''Read''), (11, ''Write''),
     (12, ''Pending''), (13, ''Peek''), (14, ''Poll''), (15, ''GetVerifyCertError''),
     (16, ''GetNeededServerCertBufferSize''), (17, ''SetSessionCacheMode''),
     (18, ''GetSessionCacheMode''), (19, ''FlushSessionCache''),
     (20, ''SetRenegotiationMode''), (21, ''GetRenegotiationMode''), (22, ''SetOption''),
     (23, ''GetOption''), (24, ''GetVerifyCertErrors''), (25, ''GetCipherInfo''),
     (26, ''SetNextAlpnProto''), (27, ''GetNextAlpnProto''),
     (28, ''SetDtlsSocketDescriptor''), (29, ''GetDtlsHandshakeTimeout''),
     (30, ''SetPrivateOption''), (31, ''SetSrtpCiphers''), (32, ''GetSrtpCipher''),
     (33, ''ExportKeyingMaterial''), (34, ''SetIoTimeout''), (35, ''GetIoTimeout''),
     (36, ''GetSessionTicket''), (37, ''SetSessionTicket'')]"

definition hipc_manager_commands :: "(nat \<times> string) list" where
  "hipc_manager_commands =
    [(0, ''ConvertCurrentObjectToDomain''), (1, ''CopyFromCurrentDomain''),
     (2, ''CloneCurrentObject''), (3, ''QueryPointerBufferSize''),
     (4, ''CloneCurrentObjectEx'')]"

subsection \<open>Network interface manager\<close>

definition IsKnownNifmObjectPath :: "string option \<Rightarrow> bool" where
  "IsKnownNifmObjectPath object_path =
     (if object_path = None then False
      else let cmd_depth = CountCmdSegments object_path;
               last_creator = GetLastCreatorCommandId object_path
           in if EndsWith object_path (Some ''.root'') then True
              else if cmd_depth = 1 \<and> (last_creator = 4 \<or> last_creator = 5) then True
              else if cmd_depth = 2 \<and> last_creator = 4 then True
              else False)"

definition GetNifmObjectKindAndCommandName ::
  "string option \<Rightarrow> u32 \<Rightarrow> cbuf option \<Rightarrow> cbuf option \<Rightarrow> cbuf option \<times> cbuf option" where
  "GetNifmObjectKindAndCommandName object_path command_id object_kind command_name =
     (let kind = snprintf object_kind ''Unknown''; name = snprintf command_name ''Unknown''
      in if object_path = None then (kind, name)
         else let cmd_depth = CountCmdSegments object_path;
                  last_creator = GetLastCreatorCommandId object_path
              in if EndsWith object_path (Some ''.root'') then
                   (snprintf kind ''IStaticService'', put_command nifm_static_commands command_id name)
                 else if cmd_depth = 1 \<and> (last_creator = 4 \<or> last_creator = 5) then
                   (snprintf kind ''IGeneralService'', put_command nifm_general_commands command_id name)
                 else if cmd_depth = 2 \<and> last_creator = 4 then
                   (snprintf kind ''IRequest'', put_command nifm_request_commands command_id name)
                 else (kind, name))"

subsection \<open>Sockets\<close>

definition IsKnownBsdObjectPath :: "string option \<Rightarrow> bool" where
  "IsKnownBsdObjectPath object_path \<longleftrightarrow> object_path \<noteq> None \<and> EndsWith object_path (Some ''.root'')"

definition GetBsdObjectKindAndCommandName ::
  "string option \<Rightarrow> u32 \<Rightarrow> cbuf option \<Rightarrow> cbuf option \<Rightarrow> cbuf option \<times> cbuf option" where
  "GetBsdObjectKindAndCommandName object_path command_id object_kind command_name =
     (let kind = snprintf object_kind ''Unknown''; name = snprintf command_name ''Unknown''
      in if \<not> IsKnownBsdObjectPath object_path then (kind, name)
         else (snprintf kind ''IBsdService'', put_command bsd_commands command_id name))"

subsection \<open>Secure sockets\<close>

definition IsKnownSslObjectPath :: "string option \<Rightarrow> bool" where
  "IsKnownSslObjectPath object_path =
     (if object_path = None then False
      else let cmd_depth = CountCmdSegments object_path;
               last_creator = GetLastCreatorCommandId object_path
           in if EndsWith object_path (Some ''.root'') then True
              else if cmd_depth = 1 \<and> (last_creator = 0 \<or> last_creator = 100) then True
              else if cmd_depth = 2 \<and> (last_creator = 2 \<or> last_creator = 100) then True
              else False)"

definition GetSslObjectKindAndCommandName ::
  "string \<Rightarrow> string option \<Rightarrow> u32 \<Rightarrow> cbuf option \<Rightarrow> cbuf option \<Rightarrow> cbuf option \<times> cbuf option" where
  "GetSslObjectKindAndCommandName service_name object_path command_id object_kind command_name =
     (let kind = snprintf object_kind ''Unknown''; name = snprintf command_name ''Unknown''
      in if \<not> IsKnownSslObjectPath object_path then (kind, name)
         else let cmd_depth = CountCmdSegments object_path;
                  last_creator = GetLastCreatorCommandId object_path
              in if EndsWith object_path (Some ''.root'') then
                   (snprintf kind (if service_name = ''ssl:s'' then ''ISslServiceForSystem'' else ''ISslService''),
                    put_command ssl_service_commands command_id name)
                 else if cmd_depth = 1 \<and> (last_creator = 0 \<or> last_creator = 100) then
                   (snprintf kind (if last_creator = 100 then ''ISslContextForSystem'' else ''ISslContext''),
                    put_command ssl_context_commands command_id name)
                 else if cmd_depth = 2 \<and> (last_creator = 2 \<or> last_creator = 100) then
                   (snprintf kind ''ISslConnection'', put_command ssl_connection_commands command_id name)
                 else (kind, name))"

subsection \<open>All services\<close>

definition DescribeKnownObjectAndCommand ::
  "string option \<Rightarrow> string option \<Rightarrow> u32 \<Rightarrow> cbuf option \<Rightarrow> cbuf option \<Rightarrow> cbuf option \<times> cbuf option" where
  "DescribeKnownObjectAndCommand service_name object_path command_id object_kind command_name =
     (let kind = snprintf object_kind ''Unknown''; name = snprintf command_name ''Unknown''
      in case service_name of
           None \<Rightarrow> (kind, name)
         | Some service \<Rightarrow>
             if StartsWith service_name (Some ''nifm:'') then
               GetNifmObjectKindAndCommandName object_path command_id kind name
             else if StartsWith service_name (Some ''bsd:'') then
               GetBsdObjectKindAndCommandName object_path command_id kind name
             else if StartsWith service_name (Some ''ssl'') then
               GetSslObjectKindAndCommandName service object_path command_id kind name
             else (kind, name))"

definition GetHipcManagerCommandName :: "cbuf option \<Rightarrow> u32 \<Rightarrow> cbuf option" where
  "GetHipcManagerCommandName command_name command_id =
     (if \<not> writable command_name then command_name
      else put_command hipc_manager_commands command_id (snprintf command_name ''Unknown''))"

subsection \<open>Paths of created objects\<close>

text \<open>
  The text \<^verbatim>\<open>RememberReturnedDomainObjects\<close> formats for a child, and the path it gets:
  what \<^verbatim>\<open>snprintf\<close> leaves of that text in \<open>char[96]\<close>.
\<close>

definition child_text :: "string \<Rightarrow> u32 \<Rightarrow> u32 \<Rightarrow> string" where
  "child_text parent command_id i =
     parent @ ''.cmd'' @ show_dec (unat command_id) @ ''['' @ show_dec (unat i) @ '']''"

definition child_path :: "string \<Rightarrow> u32 \<Rightarrow> u32 \<Rightarrow> string" where
  "child_path parent command_id i =
     buf_text (snprintf (fresh_buf MaxDomainPathLength) (child_text parent command_id i))"

lemma child_path_take [simp]: "child_path parent command_id i = take 95 (child_text parent command_id i)"
  by (simp add: child_path_def MaxDomainPathLength_def)

lemma no_mark_without_dot: "CHR ''.'' \<notin> set s \<Longrightarrow> str_find cmd_mark s = None"
proof (induction s)
  case (Cons x s)
  then show ?case by (auto simp: cmd_mark_def sv_starts_with_def)
qed (simp add: cmd_mark_def)

lemma str_find_mark_append:
  "str_find cmd_mark (p @ cmd_mark @ r) =
     (case str_find cmd_mark p of Some i \<Rightarrow> Some i | None \<Rightarrow> Some (length p))"
proof (induction p)
  case Nil
  then show ?case by (simp add: cmd_mark_def sv_starts_with_def)
next
  case (Cons x p)
  have same: "sv_starts_with cmd_mark ((x # p) @ cmd_mark @ r) = sv_starts_with cmd_mark (x # p)"
  proof (cases "4 \<le> length (x # p)")
    case True
    then show ?thesis by (simp add: sv_starts_with_def cmd_mark_def)
  next
    case False
    then consider "p = []" | a where "p = [a]" | a b where "p = [a, b]"
      by (cases p; cases "tl p"; cases "tl (tl p)") auto
    then show ?thesis by cases (auto simp: sv_starts_with_def cmd_mark_def)
  qed
  show ?case
    using Cons same by (auto split: option.splits)
qed

lemma count_segments_append:
  "CHR ''.'' \<notin> set r \<Longrightarrow> count_segments (p @ cmd_mark @ r) count = Suc (count_segments p count)"
proof (induction p count rule: count_segments.induct)
  case (1 cursor count)
  show ?case
  proof (cases "str_find cmd_mark cursor")
    case None
    then show ?thesis
      using 1(2) by (subst (1 2) count_segments.simps)
        (simp add: str_find_mark_append cmd_mark_def [symmetric], simp add: cmd_mark_def, subst count_segments.simps, simp add: no_mark_without_dot)
  next
    case (Some i)
    then have "i + 4 \<le> length cursor"
      using str_find_bound [of cmd_mark cursor i] by (simp add: cmd_mark_def)
    with Some 1 show ?thesis
      by (subst (1 2) count_segments.simps) (simp add: str_find_mark_append)
  qed
qed

lemma last_segment_append:
  "CHR ''.'' \<notin> set r \<Longrightarrow> last_segment (p @ cmd_mark @ r) m = Some (cmd_mark @ r)"
proof (induction "length p" arbitrary: p m rule: less_induct)
  case less
  have four: "length cmd_mark = 4" by (simp add: cmd_mark_def)
  show ?case
  proof (cases "str_find cmd_mark p")
    case None
    then show ?thesis
      using less(2) four by (subst last_segment.simps)
        (simp add: str_find_mark_append, subst last_segment.simps, simp add: no_mark_without_dot)
  next
    case (Some i)
    then have "i + 4 \<le> length p"
      using str_find_bound [of cmd_mark p i] four by simp
    with Some less show ?thesis
      by (subst last_segment.simps) (simp add: str_find_mark_append)
  qed
qed

lemma is_digit_not_space: "is_digit c \<Longrightarrow> \<not> is_c_space c \<and> c \<noteq> CHR ''-'' \<and> c \<noteq> CHR ''+'' \<and> c \<noteq> CHR ''.''"
  by (auto simp: is_digit_def is_c_space_def)

lemma strtoul_show_dec:
  assumes "n < 2 ^ 64" and "r \<noteq> [] \<Longrightarrow> \<not> is_digit (hd r)"
  shows "strtoul (show_dec n @ r) = (of_nat n, r)"
proof -
  obtain c ds where s: "show_dec n = c # ds" by (cases "show_dec n") auto
  have digits: "\<forall>x \<in> set (show_dec n). is_digit x" by (blast intro: show_dec_digits)
  then have c: "\<not> is_c_space c" "c \<noteq> CHR ''-''" "c \<noteq> CHR ''+''"
    using is_digit_not_space [of c] s by auto
  have "takeWhile is_digit (show_dec n @ r) = show_dec n" "dropWhile is_digit (show_dec n @ r) = r"
    using digits assms(2) by (cases r; simp)+
  moreover have "dropWhile is_c_space (show_dec n @ r) = show_dec n @ r" "hd (show_dec n @ r) = c"
    using c s by simp_all
  ultimately show ?thesis
    using c assms(1) by (simp add: strtoul_def Let_def not_le)
qed

lemma show_dec_no_dot [simp]: "CHR ''.'' \<notin> set (show_dec n)"
  using show_dec_digits [of "CHR ''.''" n] by (auto simp: is_digit_def)

lemma child_text_mark:
  "child_text parent command_id i =
     parent @ cmd_mark @ (show_dec (unat command_id) @ ''['' @ show_dec (unat i) @ '']'')"
  by (simp add: child_text_def cmd_mark_def)

lemma child_text_not_root [simp]: "\<not> EndsWith (Some (child_text parent command_id i)) (Some ''.root'')"
  (is "\<not> EndsWith (Some ?p) _")
proof -
  let ?k = "length ?p - length ''.root''"
  have "last ?p = CHR '']''" by (simp add: child_text_def)
  moreover have "last (drop ?k ?p) = last ?p"
    by (rule last_drop) (simp add: child_text_def)
  ultimately have "drop ?k ?p \<noteq> ''.root''" by auto
  then show ?thesis by (simp add: EndsWith_def)
qed

lemma CountCmdSegments_child:
  "CountCmdSegments (Some (child_text parent command_id i)) = Suc (CountCmdSegments (Some parent))"
  by (simp add: CountCmdSegments_def child_text_mark count_segments_append)

lemma GetLastCreatorCommandId_child:
  "GetLastCreatorCommandId (Some (child_text parent command_id i)) = sint command_id"
proof -
  let ?rest = "CHR ''['' # show_dec (unat i) @ '']''"
  have "unat command_id < 2 ^ 32" by (rule order_less_le_trans [OF unsigned_less]) simp
  then have "unat command_id < 2 ^ 64" by simp
  then have number: "strtoul (show_dec (unat command_id) @ ?rest) = (of_nat (unat command_id), ?rest)"
    by (rule strtoul_show_dec) (simp add: is_digit_def)
  have segment: "last_segment (child_text parent command_id i) None
      = Some (cmd_mark @ show_dec (unat command_id) @ ?rest)"
    unfolding child_text_mark append_Cons append_Nil append_assoc
    by (rule last_segment_append) simp
  have "drop 4 (cmd_mark @ show_dec (unat command_id) @ ?rest) = show_dec (unat command_id) @ ?rest"
    by (simp add: cmd_mark_def)
  moreover have "(ucast (ucast command_id :: u64) :: s32) = command_id"
    by (rule bit_word_eqI) (simp add: bit_simps)
  ultimately show ?thesis
    unfolding GetLastCreatorCommandId_def segment option.case Let_def
    by (simp only: number prod.case) simp
qed

text \<open>
  C34. The path of a created object tells how it was created, as long as it fits its 96
  bytes: the path then has one command segment more than its parent's, the last command
  read back from it is the command that created the object, and it is never mistaken for a
  root. A path never has more than 95 characters, so the added segment is cut when it does
  not fit, and below a parent of 95 characters every child gets the parent's own path.
\<close>

theorem child_path_reads_back:
  "(length (child_text parent command_id i) \<le> 95 \<longrightarrow>
      CountCmdSegments (Some (child_path parent command_id i)) = CountCmdSegments (Some parent) + 1
      \<and> GetLastCreatorCommandId (Some (child_path parent command_id i)) = sint command_id
      \<and> \<not> EndsWith (Some (child_path parent command_id i)) (Some ''.root''))
   \<and> length (child_path parent command_id i) \<le> 95
   \<and> (length parent = 95 \<longrightarrow> child_path parent command_id i = parent)"
proof -
  have "take 95 (child_text parent command_id i) = parent" if "length parent = 95"
    using that by (simp add: child_text_def)
  then show ?thesis
    by (simp add: CountCmdSegments_child GetLastCreatorCommandId_child)
qed

theorem child_path_reads_back_witness:
  "CountCmdSegments (Some (child_path ''root.cmd5[0]'' 4 1)) = 2
   \<and> GetLastCreatorCommandId (Some (child_path ''root.cmd5[0]'' 4 1)) = 4
   \<and> child_path (replicate 95 CHR ''a'') 4 1 = replicate 95 CHR ''a''"
proof -
  have parent: "''root.cmd5[0]'' = child_text ''root'' 5 0"
    by code_simp
  have "length (child_text ''root.cmd5[0]'' 4 1) \<le> 95" by (simp add: child_text_def show_dec.simps)
  moreover have "CountCmdSegments (Some ''root.cmd5[0]'') = 1"
    unfolding parent CountCmdSegments_child
    by (simp add: CountCmdSegments_def, subst count_segments.simps, simp add: cmd_mark_def sv_starts_with_def)
  ultimately show ?thesis
    using child_path_reads_back [of "''root.cmd5[0]''" 4 1] child_path_reads_back [of "replicate 95 CHR ''a''" 4 1]
    by simp
qed

text \<open>The interface names the three services use for one object path.\<close>

definition nifm_kind :: "string option \<Rightarrow> string" where
  "nifm_kind object_path =
     buf_text (fst (GetNifmObjectKindAndCommandName object_path 0 (fresh_buf 48) None))"

definition bsd_kind :: "string option \<Rightarrow> string" where
  "bsd_kind object_path =
     buf_text (fst (GetBsdObjectKindAndCommandName object_path 0 (fresh_buf 48) None))"

definition ssl_kind :: "string \<Rightarrow> string option \<Rightarrow> string" where
  "ssl_kind service_name object_path =
     buf_text (fst (GetSslObjectKindAndCommandName service_name object_path 0 (fresh_buf 48) None))"

lemmas kind_defs = nifm_kind_def bsd_kind_def ssl_kind_def GetNifmObjectKindAndCommandName_def
  GetBsdObjectKindAndCommandName_def GetSslObjectKindAndCommandName_def

lemmas known_defs = IsKnownNifmObjectPath_def IsKnownBsdObjectPath_def IsKnownSslObjectPath_def

text \<open>
  A path is known exactly when it is named: for each service, the test that decides
  whether a call is decoded accepts a path exactly when the naming function, which repeats
  the same conditions, gives it an interface other than \<^verbatim>\<open>Unknown\<close>.
\<close>

theorem known_paths_are_named:
  "(IsKnownNifmObjectPath object_path \<longleftrightarrow> nifm_kind object_path \<noteq> ''Unknown'')
   \<and> (IsKnownBsdObjectPath object_path \<longleftrightarrow> bsd_kind object_path \<noteq> ''Unknown'')
   \<and> (IsKnownSslObjectPath object_path \<longleftrightarrow> ssl_kind service_name object_path \<noteq> ''Unknown'')"
  by (intro conjI) (auto simp: kind_defs known_defs Let_def)

lemma root_path_segments:
  "CHR ''.'' \<notin> set service \<Longrightarrow> CountCmdSegments (Some (service @ ''.root'')) = 0"
proof -
  assume "CHR ''.'' \<notin> set service"
  then have "str_find cmd_mark (service @ ''.root'') = None"
  proof (induction service)
    case (Cons x service)
    then show ?case by (auto simp: cmd_mark_def sv_starts_with_def)
  qed (simp add: cmd_mark_def sv_starts_with_def)
  then show ?thesis by (subst CountCmdSegments_def) (simp add: count_segments.simps [of _ 0])
qed

lemma root_path_is_root: "EndsWith (Some (service @ ''.root'')) (Some ''.root'')"
  by (simp add: EndsWith_def)

lemma signed_0: "sint (c :: s32) = 0 \<longleftrightarrow> c = 0"
  using signed_word_eqI [of c 0] by auto

lemma signed_2: "sint (c :: s32) = 2 \<longleftrightarrow> c = 2"
  using signed_word_eqI [of c 2] by auto

lemma signed_4: "sint (c :: s32) = 4 \<longleftrightarrow> c = 4"
  using signed_word_eqI [of c 4] by auto

lemma signed_5: "sint (c :: s32) = 5 \<longleftrightarrow> c = 5"
  using signed_word_eqI [of c 5] by auto

lemma signed_100: "sint (c :: s32) = 100 \<longleftrightarrow> c = 100"
  using signed_word_eqI [of c 100] by auto

lemmas signed_numbers = signed_0 signed_2 signed_4 signed_5 signed_100

lemmas child_simps = CountCmdSegments_child GetLastCreatorCommandId_child child_text_not_root
  root_path_segments root_path_is_root

lemma general_service_kind:
  assumes "CHR ''.'' \<notin> set service" "c = 4 \<or> c = 5"
  shows "nifm_kind (Some (child_text (service @ ''.root'') c i)) = ''IGeneralService''"
  using assms(2) by (auto simp: kind_defs known_defs Let_def child_simps assms(1) signed_numbers)

text \<open>
  Objects are named after their creation: the object a root created with a service
  command, and the object created from that one, get the interfaces the command tables
  announce, at whatever index of the response they were returned.
\<close>

theorem created_objects_are_named:
  assumes "CHR ''.'' \<notin> set service"
  defines "root \<equiv> service @ ''.root''"
  shows "nifm_kind (Some root) = ''IStaticService''
    \<and> (\<forall>c i. nifm_kind (Some (child_text root c i))
         = (if c = 4 \<or> c = 5 then ''IGeneralService'' else ''Unknown''))
    \<and> (\<forall>c i d j. nifm_kind (Some (child_text (child_text root c i) d j))
         = (if d = 4 then ''IRequest'' else ''Unknown''))
    \<and> (\<forall>c i. ssl_kind service (Some (child_text root c i))
         = (if c = 0 then ''ISslContext'' else if c = 100 then ''ISslContextForSystem'' else ''Unknown''))
    \<and> (\<forall>c i d j. ssl_kind service (Some (child_text (child_text root c i) d j))
         = (if d = 2 \<or> d = 100 then ''ISslConnection'' else ''Unknown''))"
  unfolding root_def
  by (intro conjI allI)
    (simp_all add: kind_defs known_defs Let_def child_simps assms(1) signed_numbers)

theorem created_objects_are_named_witness:
  "nifm_kind (Some (child_text (child_text ''nifm:u.root'' 5 0) 4 0)) = ''IRequest''"
  using created_objects_are_named [of "''nifm:u''"] by simp

end
