(* ===== verification/TraceDecode.thy ===== *)
theory TraceDecode
  imports TraceViews TraceNames "HOL-Library.Monad_Syntax"
begin

text \<open>
  The summaries of decoded calls (\<^verbatim>\<open>net-probe/src/mitm_trace.cpp\<close>): what the trace line
  of a known command says of its arguments and its result, read from the first 64 bytes of
  the payload and from the buffers of the call. Every summary clears its output first and
  leaves it empty for calls it does not know.
\<close>

definition SemanticPayloadBytes :: nat where "SemanticPayloadBytes = 64"

subsection \<open>Decoded messages\<close>

text \<open>
  A header copied from a message is kept as its bytes: its layout belongs to a library
  outside the repository. \<open>payload_words\<close> and \<open>payload_bytes\<close> are fixed arrays of 4 words
  and 64 bytes, zero where the payload is shorter.
\<close>

record RequestDecodeDetails =
  rq_have_raw :: bool
  rq_root_cmif_valid :: bool
  rq_domain_cmif_valid :: bool
  rq_root_close :: bool
  rq_domain_close :: bool
  rq_command_type :: u32
  rq_raw_size :: nat
  rq_raw_words :: "u32 list"
  rq_root_header :: "u8 list"
  rq_domain_header :: "u8 list"
  rq_domain_cmif_header :: "u8 list"
  rq_payload_size :: nat
  rq_payload_words :: "u32 list"
  rq_payload_bytes :: "u8 list"
  rq_raw_preview_hex :: string
  rq_payload_preview_hex :: string

record ParsedResponseInfo =
  ri_valid :: bool
  ri_is_domain :: bool
  ri_result_value :: u32
  ri_raw_size :: nat
  ri_out_object_count :: u32

record ResponseDecodeDetails =
  rs_have_raw :: bool
  rs_root_cmif_valid :: bool
  rs_domain_cmif_valid :: bool
  rs_out_object_ids_valid :: bool
  rs_raw_size :: nat
  rs_raw_words :: "u32 list"
  rs_root_header :: "u8 list"
  rs_domain_header :: "u8 list"
  rs_domain_cmif_header :: "u8 list"
  rs_payload_size :: nat
  rs_payload_words :: "u32 list"
  rs_payload_bytes :: "u8 list"
  rs_out_object_id_count :: nat
  rs_out_object_ids :: "u32 list"
  rs_raw_preview_hex :: string
  rs_payload_preview_hex :: string

text \<open>The values before a message is decoded; \<open>[]\<close> is a header that was not copied.\<close>

definition empty_request_details :: "RequestDecodeDetails" where
  "empty_request_details =
     \<lparr>rq_have_raw = False, rq_root_cmif_valid = False, rq_domain_cmif_valid = False,
      rq_root_close = False, rq_domain_close = False, rq_command_type = 0, rq_raw_size = 0,
      rq_raw_words = replicate 4 0, rq_root_header = [], rq_domain_header = [], rq_domain_cmif_header = [],
      rq_payload_size = 0, rq_payload_words = replicate 4 0,
      rq_payload_bytes = replicate SemanticPayloadBytes 0, rq_raw_preview_hex = [], rq_payload_preview_hex = []\<rparr>"

definition empty_response_info :: ParsedResponseInfo where
  "empty_response_info =
     \<lparr>ri_valid = False, ri_is_domain = False, ri_result_value = 0, ri_raw_size = 0, ri_out_object_count = 0\<rparr>"

definition empty_response_details :: "ResponseDecodeDetails" where
  "empty_response_details =
     \<lparr>rs_have_raw = False, rs_root_cmif_valid = False, rs_domain_cmif_valid = False,
      rs_out_object_ids_valid = False, rs_raw_size = 0, rs_raw_words = replicate 4 0,
      rs_root_header = [], rs_domain_header = [], rs_domain_cmif_header = [],
      rs_payload_size = 0, rs_payload_words = replicate 4 0,
      rs_payload_bytes = replicate SemanticPayloadBytes 0,
      rs_out_object_id_count = 0, rs_out_object_ids = replicate 8 0,
      rs_raw_preview_hex = [], rs_payload_preview_hex = []\<rparr>"

text \<open>\<^verbatim>\<open>memcpy\<close> of a plain integer from the bytes at an offset.\<close>

definition copy_word :: "u8 list \<Rightarrow> nat \<Rightarrow> 'a::len word" where
  "copy_word bytes offset = le_word (take (LENGTH('a) div 8) (drop offset bytes))"

definition ReadPod :: "u8 list \<Rightarrow> nat \<Rightarrow> nat \<Rightarrow> 'a::len word option" where
  "ReadPod bytes len offset =
     (if len < offset + LENGTH('a) div 8 then None else Some (copy_word bytes offset))"

text \<open>\<^verbatim>\<open>%u\<close>, \<^verbatim>\<open>%d\<close>, \<^verbatim>\<open>0x%X\<close>, \<^verbatim>\<open>0x%016llX\<close> and the flag texts.\<close>

definition fmt_u :: "'a::len word \<Rightarrow> string" where "fmt_u w = show_dec (unat w)"
definition fmt_d :: "s32 \<Rightarrow> string" where "fmt_d w = show_int (sint w)"
definition fmt_x :: "'a::len word \<Rightarrow> string" where "fmt_x w = ''0x'' @ show_hex True (unat w)"
definition fmt_x64 :: "u64 \<Rightarrow> string" where "fmt_x64 w = ''0x'' @ hex_upper 16 (unat w)"
definition fmt_bool :: "bool \<Rightarrow> string" where "fmt_bool b = (if b then ''true'' else ''false'')"

text \<open>A print that happens only when every read before it succeeded.\<close>

definition print_if :: "cbuf option \<Rightarrow> string option \<Rightarrow> cbuf option" where
  "print_if out text = (case text of None \<Rightarrow> out | Some t \<Rightarrow> snprintf out t)"

lemma buf_ok_print_if [buf_simps, simp]: "buf_ok out \<Longrightarrow> buf_ok (print_if out text)"
  by (simp add: print_if_def split: option.split)

lemma buf_cap_print_if [buf_simps, simp]: "buf_cap (print_if out text) = buf_cap out"
  by (simp add: print_if_def split: option.split)

subsection \<open>Network interface manager\<close>

definition FormatNifmSemanticRequestSummary ::
  "cbuf option \<Rightarrow> string option \<Rightarrow> u32 \<Rightarrow> RequestDecodeDetails \<Rightarrow> cbuf option" where
  "FormatNifmSemanticRequestSummary out object_path command_id d =
     (if \<not> writable out then out
      else let out = snprintf out []; len = rq_payload_size d; bytes = rq_payload_bytes d
      in if object_path = None \<or> \<not> IsKnownNifmObjectPath object_path then out
      else if EndsWith object_path (Some ''.root'') \<and> command_id = 5 \<and> 8 \<le> len then
        snprintf out (''reserved_pid='' @ fmt_x64 (copy_word bytes 0))
      else if CountCmdSegments object_path = 1 \<and> command_id = 4 \<and> 4 \<le> len then
        snprintf out (''requirement_preset='' @ fmt_u (rq_payload_words d ! 0))
      else if CountCmdSegments object_path = 2 \<and> GetLastCreatorCommandId object_path = 4 then
        (if command_id = 6 then
           if 4 \<le> len then snprintf out (''requirement_preset='' @ fmt_u (rq_payload_words d ! 0)) else out
         else if command_id = 12 then
           if 1 \<le> len then snprintf out (''persistent='' @ fmt_bool (bytes ! 0 \<noteq> 0)) else out
         else if command_id = 24 \<or> command_id = 25 then
           if 4 \<le> len then snprintf out (''socket_descriptor='' @ fmt_d (copy_word bytes 0)) else out
         else out)
      else out)"

definition ipv4_at :: "u8 list \<Rightarrow> nat \<Rightarrow> string" where
  "ipv4_at bytes offset = buf_text (FormatIpv4 (fresh_buf 32) (drop offset bytes))"

definition ip_config_text :: "u8 list \<Rightarrow> string" where
  "ip_config_text bytes =
     ''ip_auto='' @ fmt_u (bytes ! 0) @ '' ip='' @ ipv4_at bytes 1 @ '' mask='' @ ipv4_at bytes 5
     @ '' gateway='' @ ipv4_at bytes 9 @ '' dns_auto='' @ fmt_u (bytes ! 13)
     @ '' dns_pref='' @ ipv4_at bytes 14 @ '' dns_alt='' @ ipv4_at bytes 18"

definition FormatNifmSemanticResponseSummary ::
  "cbuf option \<Rightarrow> string option \<Rightarrow> u32 \<Rightarrow> ParsedResponseInfo \<Rightarrow> ResponseDecodeDetails \<Rightarrow> cbuf option" where
  "FormatNifmSemanticResponseSummary out object_path command_id info d =
     (if \<not> writable out then out
      else let out = snprintf out []; len = rs_payload_size d; bytes = rs_payload_bytes d
      in if object_path = None \<or> \<not> IsKnownNifmObjectPath object_path then out
      else if CountCmdSegments object_path = 1 \<and> command_id = 12 then
        (if 4 \<le> len then snprintf out (''ipv4='' @ ipv4_at bytes 0) else out)
      else if CountCmdSegments object_path = 1 \<and> command_id = 15 then
        (if 22 \<le> len then snprintf out (ip_config_text bytes) else out)
      else if CountCmdSegments object_path = 1 \<and> command_id = 17 then
        (if 1 \<le> len then snprintf out (''enabled='' @ fmt_bool (bytes ! 0 \<noteq> 0)) else out)
      else if CountCmdSegments object_path = 1 \<and> command_id = 18 then
        (if 3 \<le> len then snprintf out (''type='' @ fmt_u (bytes ! 0) @ '' wifi_strength='' @ fmt_u (bytes ! 1)
             @ '' status='' @ fmt_u (bytes ! 2))
         else out)
      else if CountCmdSegments object_path = 2 \<and> GetLastCreatorCommandId object_path = 4 then
        (if command_id = 0 then
           if 4 \<le> len then snprintf out (''state='' @ fmt_u (rs_payload_words d ! 0)) else out
         else if command_id = 1 then snprintf out (''result=0x'' @ hex_upper 8 (unat (ri_result_value info)))
         else if command_id = 2 then snprintf out (''copy_handles='' @ fmt_u (ri_out_object_count info))
         else out)
      else out)"

subsection \<open>Sockets\<close>

text \<open>\<^verbatim>\<open>RegisterClient\<close>: nine values, the last of eight bytes at offset 40.\<close>

definition register_client_text :: "u8 list \<Rightarrow> nat \<Rightarrow> string option" where
  "register_client_text bytes len = do {
     version \<leftarrow> (ReadPod bytes len 0 :: u32 option);
     tcp_tx \<leftarrow> (ReadPod bytes len 4 :: u32 option);
     tcp_rx \<leftarrow> (ReadPod bytes len 8 :: u32 option);
     tcp_tx_max \<leftarrow> (ReadPod bytes len 12 :: u32 option);
     tcp_rx_max \<leftarrow> (ReadPod bytes len 16 :: u32 option);
     udp_tx \<leftarrow> (ReadPod bytes len 20 :: u32 option);
     udp_rx \<leftarrow> (ReadPod bytes len 24 :: u32 option);
     sb_eff \<leftarrow> (ReadPod bytes len 28 :: u32 option);
     tmem_size \<leftarrow> (ReadPod bytes len 40 :: u64 option);
     Some (''version='' @ fmt_u version @ '' tcp_tx='' @ fmt_x tcp_tx @ '' tcp_rx='' @ fmt_x tcp_rx
       @ '' tcp_tx_max='' @ fmt_x tcp_tx_max @ '' tcp_rx_max='' @ fmt_x tcp_rx_max
       @ '' udp_tx='' @ fmt_x udp_tx @ '' udp_rx='' @ fmt_x udp_rx
       @ '' sb_eff='' @ fmt_u sb_eff @ '' tmem_size='' @ fmt_x tmem_size)
   }"

text \<open>The commands printed by one \<^verbatim>\<open>snprintf\<close>; the outer \<^term>\<open>None\<close> is any other command.\<close>

definition bsd_plain_text :: "u32 \<Rightarrow> u8 list \<Rightarrow> nat \<Rightarrow> string option option" where
  "bsd_plain_text command_id bytes len =
     (if command_id = 0 then Some (register_client_text bytes len)
      else if command_id = 1 then Some (do {
        pid \<leftarrow> ReadPod bytes len 0; Some (''pid='' @ fmt_x64 pid) })
      else if command_id = 4 then Some (do {
        flags \<leftarrow> (ReadPod bytes len 0 :: s32 option); Some (''flags='' @ fmt_x flags) })
      else if command_id = 5 then Some (do {
        nfds \<leftarrow> ReadPod bytes len 0; Some (''nfds='' @ fmt_d nfds) })
      else if command_id = 6 then Some (do {
        nfds \<leftarrow> (ReadPod bytes len 0 :: u32 option); timeout \<leftarrow> ReadPod bytes len 4;
        Some (''nfds='' @ fmt_u nfds @ '' timeout_ms='' @ fmt_d timeout) })
      else if command_id \<in> {8, 9, 10, 11} then Some (do {
        sockfd \<leftarrow> ReadPod bytes len 0; flags \<leftarrow> (ReadPod bytes len 4 :: s32 option);
        Some (''sockfd='' @ fmt_d sockfd @ '' flags='' @ fmt_x flags) })
      else if command_id \<in> {12, 13, 14, 15, 16, 24, 25, 26, 27} then Some (do {
        val \<leftarrow> ReadPod bytes len 0;
        Some ((if 24 \<le> command_id \<and> command_id \<le> 26 then ''fd'' else ''sockfd'') @ ''='' @ fmt_d val) })
      else if command_id = 18 then Some (do {
        sockfd \<leftarrow> ReadPod bytes len 0; backlog \<leftarrow> ReadPod bytes len 4;
        Some (''sockfd='' @ fmt_d sockfd @ '' backlog='' @ fmt_d backlog) })
      else if command_id = 19 then Some (do {
        fd \<leftarrow> ReadPod bytes len 0; request \<leftarrow> (ReadPod bytes len 4 :: s32 option); bufcount \<leftarrow> ReadPod bytes len 8;
        Some (''fd='' @ fmt_d fd @ '' request='' @ fmt_x request @ '' bufcount='' @ fmt_d bufcount) })
      else if command_id = 23 then Some (do {
        how \<leftarrow> ReadPod bytes len 0; Some (''how='' @ fmt_d how) })
      else if command_id \<in> {29, 30} then Some (do {
        sockfd \<leftarrow> ReadPod bytes len 0; vlen \<leftarrow> ReadPod bytes len 4; flags \<leftarrow> (ReadPod bytes len 8 :: s32 option);
        Some (''sockfd='' @ fmt_d sockfd @ '' vlen='' @ fmt_d vlen @ '' flags='' @ fmt_x flags) })
      else None)"

text \<open>The commands whose summary grows field by field.\<close>

definition bsd_socket_summary :: "cbuf option \<Rightarrow> u8 list \<Rightarrow> nat \<Rightarrow> cbuf option" where
  "bsd_socket_summary out bytes len =
     (case (ReadPod bytes len 0, ReadPod bytes len 4, ReadPod bytes len 8) of
        (Some domain, Some socket_type, Some protocol) \<Rightarrow>
          (let out = AppendNamedValue out ''domain'' domain (GetBsdAddressFamilyName (ucast domain));
               out = AppendNamedValue out ''type'' socket_type (GetBsdSocketTypeName socket_type)
           in AppendNamedValue out ''protocol'' protocol (GetBsdProtocolName protocol))
      | _ \<Rightarrow> out)"

definition bsd_option_summary :: "cbuf option \<Rightarrow> u32 \<Rightarrow> u8 list \<Rightarrow> nat \<Rightarrow> cbuf option" where
  "bsd_option_summary out command_id bytes len =
     (case (ReadPod bytes len 0, ReadPod bytes len 4, ReadPod bytes len 8) of
        (Some sockfd, Some level, Some optname) \<Rightarrow>
          (let out = AppendSummaryText out (''sockfd='' @ fmt_d sockfd);
               out = AppendNamedValue out ''level'' level (GetBsdSocketLevelName level);
               out = AppendNamedHexValue out ''optname'' optname (GetBsdSocketOptionName level optname)
           in if command_id = 17 then
                (case (ReadPod bytes len 12 :: u32 option) of
                   Some optlen \<Rightarrow> AppendSummaryText out (''optlen='' @ fmt_u optlen)
                 | None \<Rightarrow> out)
              else out)
      | _ \<Rightarrow> out)"

definition bsd_fcntl_summary :: "cbuf option \<Rightarrow> u8 list \<Rightarrow> nat \<Rightarrow> cbuf option" where
  "bsd_fcntl_summary out bytes len =
     (case (ReadPod bytes len 0, ReadPod bytes len 4, ReadPod bytes len 8) of
        (Some fd, Some cmd, Some flags) \<Rightarrow>
          (let out = AppendSummaryText out (''fd='' @ fmt_d fd);
               out = AppendNamedValue out ''cmd'' cmd (GetBsdFcntlCommandName cmd)
           in AppendSummaryText out (''flags='' @ fmt_x (flags :: s32)))
      | _ \<Rightarrow> out)"

definition bsd_shutdown_summary :: "cbuf option \<Rightarrow> u8 list \<Rightarrow> nat \<Rightarrow> cbuf option" where
  "bsd_shutdown_summary out bytes len =
     (case (ReadPod bytes len 0, ReadPod bytes len 4) of
        (Some sockfd, Some how) \<Rightarrow>
          AppendNamedValue (AppendSummaryText out (''sockfd='' @ fmt_d sockfd)) ''how'' how (GetBsdShutdownHowName how)
      | _ \<Rightarrow> out)"

definition FormatBsdSemanticRequestSummary ::
  "cbuf option \<Rightarrow> string option \<Rightarrow> u32 \<Rightarrow> RequestDecodeDetails \<Rightarrow> cbuf option" where
  "FormatBsdSemanticRequestSummary out object_path command_id d =
     (if \<not> writable out then out
      else let out = snprintf out []; len = rq_payload_size d; bytes = rq_payload_bytes d
      in if \<not> IsKnownBsdObjectPath object_path then out
      else if command_id = 2 \<or> command_id = 3 then bsd_socket_summary out bytes len
      else if command_id = 17 \<or> command_id = 21 then bsd_option_summary out command_id bytes len
      else if command_id = 20 then bsd_fcntl_summary out bytes len
      else if command_id = 22 then bsd_shutdown_summary out bytes len
      else (case bsd_plain_text command_id bytes len of
              Some text \<Rightarrow> print_if out text
            | None \<Rightarrow> out))"

definition FormatBsdSemanticResponseSummary ::
  "cbuf option \<Rightarrow> string option \<Rightarrow> u32 \<Rightarrow> ResponseDecodeDetails \<Rightarrow> cbuf option" where
  "FormatBsdSemanticResponseSummary out object_path command_id d =
     (if \<not> writable out then out
      else let out = snprintf out []; len = rs_payload_size d; bytes = rs_payload_bytes d
      in if \<not> IsKnownBsdObjectPath object_path then out
      else if command_id = 0 then
        print_if out (do { assigned_pid \<leftarrow> ReadPod bytes len 0; Some (''assigned_pid='' @ fmt_x64 assigned_pid) })
      else if len < 8 then out
      else case (ReadPod bytes len 0, ReadPod bytes len 4) of
             (Some ret, Some errno_value) \<Rightarrow>
               (let plain = ''ret='' @ fmt_d ret @ '' errno='' @ fmt_d errno_value
                in case (if command_id \<in> {9, 12, 15, 16, 17} then ReadPod bytes len 8 else None :: u32 option) of
                     Some out_len \<Rightarrow> snprintf out (plain @ '' out_len='' @ fmt_u out_len)
                   | None \<Rightarrow> snprintf out plain)
           | _ \<Rightarrow> out)"

definition TraceBsdPoll :: bool where "TraceBsdPoll \<longleftrightarrow> True"

definition ShouldSuppressBsdTrace :: "string option \<Rightarrow> u32 \<Rightarrow> bool" where
  "ShouldSuppressBsdTrace service_name command_id \<longleftrightarrow>
     StartsWith service_name (Some ''bsd:'') \<and> command_id = 6 \<and> \<not> TraceBsdPoll"

subsection \<open>Socket buffers\<close>

text \<open>The boolean result with the summary line.\<close>

definition TryAppendBsdSockaddrRequestSummary ::
  "cbuf option \<Rightarrow> u32 \<Rightarrow> HipcParsedRequest \<Rightarrow> bool \<times> cbuf option" where
  "TryAppendBsdSockaddrRequestSummary out command_id request =
     (if \<not> writable out then (False, out)
      else if command_id \<noteq> 11 \<and> command_id \<noteq> 13 \<and> command_id \<noteq> 14 then (False, out)
      else case GetRequestInputViewAt request (if command_id = 11 then 1 else 0) of
             None \<Rightarrow> (False, out)
           | Some (bytes, _) \<Rightarrow>
               (case TryFormatSockaddr (fresh_buf 160) bytes of
                  (False, _) \<Rightarrow> (False, out)
                | (True, text) \<Rightarrow>
                    (True, AppendSummaryText out
                       ((if command_id = 13 then ''bind'' else ''peer'') @ ''={'' @ buf_text text @ ''}''))))"

definition TryAppendBsdPayloadRequestSummary ::
  "cbuf option \<Rightarrow> u32 \<Rightarrow> HipcParsedRequest \<Rightarrow> bool \<times> cbuf option" where
  "TryAppendBsdPayloadRequestSummary out command_id request =
     (if \<not> writable out \<or> (command_id \<noteq> 10 \<and> command_id \<noteq> 11 \<and> command_id \<noteq> 24) then (False, out)
      else case GetRequestInputViewAt request 0 of
             None \<Rightarrow> (False, out)
           | Some (bytes, is_pointer_static) \<Rightarrow>
               (True, AppendSummaryText out
                  (''payload_len='' @ show_dec (length bytes)
                   @ '' payload_kind='' @ (if is_pointer_static then ''pointer_static'' else ''map_alias'')
                   @ '' payload_hex='' @ hex_preview (min HexPreviewBytes (length bytes)) bytes)))"

definition TryAppendBsdSockOptRequestSummary ::
  "cbuf option \<Rightarrow> u32 \<Rightarrow> HipcParsedRequest \<Rightarrow> bool \<times> cbuf option" where
  "TryAppendBsdSockOptRequestSummary out command_id request =
     (if \<not> writable out \<or> (command_id \<noteq> 17 \<and> command_id \<noteq> 21) then (False, out)
      else case GetFirstRequestInputView request of
             None \<Rightarrow> (False, out)
           | Some (bytes, _) \<Rightarrow>
               if 4 \<le> length bytes
               then (True, AppendSummaryText out
                       ((if command_id = 21 then ''optval'' else ''optlen_buf'')
                        @ ''_u32='' @ fmt_u (copy_word bytes 0 :: u32)))
               else (False, out))"

definition TryAppendBsdSockaddrResponseSummary ::
  "cbuf option \<Rightarrow> u32 \<Rightarrow> HipcParsedRequest \<Rightarrow> HipcResponse \<Rightarrow> bool \<Rightarrow> ResponseDecodeDetails
     \<Rightarrow> bool \<times> cbuf option" where
  "TryAppendBsdSockaddrResponseSummary out command_id request response have_response d =
     (if \<not> writable out then (False, out)
      else if (command_id \<noteq> 15 \<and> command_id \<noteq> 16) \<or> rs_payload_size d < 12 then (False, out)
      else let out_len = (copy_word (rs_payload_bytes d) 8 :: u32)
      in if out_len = 0 then (False, out)
      else case GetFirstResponseOutputView request response have_response of
             None \<Rightarrow> (False, out)
           | Some (bytes, _) \<Rightarrow>
               (case TryFormatSockaddr (fresh_buf 160) (take (min (length bytes) (unat out_len)) bytes) of
                  (False, _) \<Rightarrow> (False, out)
                | (True, text) \<Rightarrow>
                    (True, AppendSummaryText out
                       ((if command_id = 15 then ''peer'' else ''local'') @ ''={'' @ buf_text text @ ''}''))))"

definition TryAppendBsdSockOptResponseSummary ::
  "cbuf option \<Rightarrow> u32 \<Rightarrow> HipcParsedRequest \<Rightarrow> HipcResponse \<Rightarrow> bool \<Rightarrow> bool \<times> cbuf option" where
  "TryAppendBsdSockOptResponseSummary out command_id request response have_response =
     (if \<not> writable out \<or> command_id \<noteq> 17 then (False, out)
      else case GetFirstResponseOutputView request response have_response of
             None \<Rightarrow> (False, out)
           | Some (bytes, _) \<Rightarrow>
               if 4 \<le> length bytes
               then (True, AppendSummaryText out (''optval_u32='' @ fmt_u (copy_word bytes 0 :: u32)))
               else (False, out))"

subsection \<open>Text previews\<close>

text \<open>A character of the preview: quotes, backslashes and unprintable bytes become dots.\<close>

definition preview_char :: "u8 \<Rightarrow> char" where
  "preview_char ch =
     (if ch < 0x20 \<or> 0x7F \<le> ch \<or> ch = 0x22 \<or> ch = 0x5C then CHR ''.'' else char_of (unat ch))"

text \<open>The loop; \<open>cursor\<close> is the number of characters written so far.\<close>

fun preview_loop :: "u8 list \<Rightarrow> nat \<Rightarrow> nat \<Rightarrow> string" where
  "preview_loop [] out_size cursor = []"
| "preview_loop (ch # bytes) out_size cursor =
     (if cursor + 1 < out_size \<and> ch \<noteq> 0 then preview_char ch # preview_loop bytes out_size (cursor + 1) else [])"

definition CopyTextPreview :: "cbuf option \<Rightarrow> u8 list \<Rightarrow> bool \<times> cbuf option" where
  "CopyTextPreview out bytes =
     (case out of
        None \<Rightarrow> (False, None)
      | Some b \<Rightarrow>
          if cap b = 0 then (False, out)
          else if bytes = [] then (False, Some (b\<lparr>content := []\<rparr>))
          else let text = preview_loop bytes (cap b) 0 in (0 < length text, Some (b\<lparr>content := text\<rparr>)))"

subsection \<open>Secure sockets\<close>

text \<open>The two stages that print a value; the boolean is the early return.\<close>

definition print_value :: "cbuf option \<Rightarrow> RequestDecodeDetails \<Rightarrow> cbuf option" where
  "print_value out d =
     (if 4 \<le> rq_payload_size d then snprintf out (''value='' @ fmt_x (rq_payload_words d ! 0)) else out)"

definition ssl_root_request :: "cbuf option \<Rightarrow> u32 \<Rightarrow> RequestDecodeDetails \<Rightarrow> cbuf option \<times> bool" where
  "ssl_root_request out command_id d =
     (let len = rq_payload_size d; bytes = rq_payload_bytes d in
      if command_id = 0 \<or> command_id = 100 then
        (if 12 \<le> len then
           snprintf out (''ssl_version='' @ fmt_x (copy_word bytes 0 :: u32)
             @ '' pid_placeholder='' @ fmt_x64 (copy_word bytes 4))
         else out, True)
      else if command_id = 5 \<or> command_id = 101 then
        (if 4 \<le> len then snprintf out (''value='' @ fmt_x (rq_payload_words d ! 0))
         else if 8 \<le> len then snprintf out (''value='' @ fmt_x64 (copy_word bytes 0))
         else out, True)
      else if command_id = 6 \<or> command_id = 7 \<or> command_id = 8 \<or> command_id = 103 then
        (print_value out d, False)
      else (out, False))"

definition ssl_context_request :: "cbuf option \<Rightarrow> u32 \<Rightarrow> RequestDecodeDetails \<Rightarrow> cbuf option" where
  "ssl_context_request out command_id d =
     (if command_id = 0 \<or> command_id = 1 \<or> command_id = 8 \<or> command_id = 100
      then print_value out d else out)"

definition append_peer :: "cbuf option \<Rightarrow> u8 list \<Rightarrow> cbuf option" where
  "append_peer out bytes =
     (case TryFormatSockaddr (fresh_buf 160) bytes of
        (True, text) \<Rightarrow> AppendSummaryText out (''peer={'' @ buf_text text @ ''}'')
      | (False, _) \<Rightarrow> out)"

definition append_hostname :: "cbuf option \<Rightarrow> u8 list \<Rightarrow> cbuf option" where
  "append_hostname out bytes =
     (case CopyTextPreview (fresh_buf 128) bytes of
        (True, text) \<Rightarrow> AppendSummaryText out (''hostname='' @ buf_text text)
      | (False, _) \<Rightarrow> out)"

text \<open>The first input view of a request that may be missing.\<close>

definition input_view :: "HipcParsedRequest option \<Rightarrow> u8 list option" where
  "input_view request =
     (case request of None \<Rightarrow> None | Some r \<Rightarrow> map_option fst (GetFirstRequestInputView r))"

definition ssl_connection_request ::
  "cbuf option \<Rightarrow> u32 \<Rightarrow> RequestDecodeDetails \<Rightarrow> HipcParsedRequest option \<Rightarrow> cbuf option" where
  "ssl_connection_request out command_id d request =
     (if command_id = 0 \<or> command_id = 28 then
        (let out = (case ReadPod (rq_payload_bytes d) (rq_payload_size d) 0 of
                      Some sockfd \<Rightarrow> AppendSummaryText out (''sockfd='' @ fmt_d sockfd) | None \<Rightarrow> out)
         in case (if command_id = 28 then input_view request else None) of
              Some bytes \<Rightarrow> append_peer out bytes | None \<Rightarrow> out)
      else if command_id = 1 then
        (case input_view request of Some bytes \<Rightarrow> append_hostname out bytes | None \<Rightarrow> out)
      else if command_id \<in> {2, 3, 17, 20, 22, 23, 30, 34} then print_value out d
      else if command_id \<in> {10, 11, 13, 24, 27, 29, 33, 36} then
        (case input_view request of
           Some bytes \<Rightarrow> snprintf out (''in_buf_size='' @ show_dec (length bytes)) | None \<Rightarrow> out)
      else out)"

definition FormatSslSemanticRequestSummary ::
  "cbuf option \<Rightarrow> string option \<Rightarrow> u32 \<Rightarrow> RequestDecodeDetails \<Rightarrow> HipcParsedRequest option \<Rightarrow> cbuf option" where
  "FormatSslSemanticRequestSummary out object_path command_id d request =
     (if \<not> writable out then out
      else let out = snprintf out []
      in if \<not> IsKnownSslObjectPath object_path then out
      else let cmd_depth = CountCmdSegments object_path;
               last_creator = GetLastCreatorCommandId object_path;
               (out, returned) = (if EndsWith object_path (Some ''.root'')
                                  then ssl_root_request out command_id d else (out, False))
      in if returned then out
      else let out = (if cmd_depth = 1 \<and> (last_creator = 0 \<or> last_creator = 100)
                      then ssl_context_request out command_id d else out)
      in if cmd_depth = 2 \<and> (last_creator = 2 \<or> last_creator = 100)
         then ssl_connection_request out command_id d request else out)"

definition ssl_connection_response ::
  "cbuf option \<Rightarrow> u32 \<Rightarrow> ResponseDecodeDetails \<Rightarrow> HipcParsedRequest option \<Rightarrow> HipcResponse option \<Rightarrow> bool
     \<Rightarrow> cbuf option" where
  "ssl_connection_response out command_id d request response have_response =
     (if command_id = 0 \<or> command_id = 4 \<or> command_id = 28 then
        (if 4 \<le> rs_payload_size d
         then AppendSummaryText (snprintf out []) (''sockfd='' @ fmt_d (copy_word (rs_payload_bytes d) 0))
         else out)
      else if command_id \<in> {5, 9, 24, 27, 29, 36} then
        (case (request, response) of
           (Some req, Some resp) \<Rightarrow>
             if have_response then
               (case GetFirstResponseOutputView req resp have_response of
                  Some (bytes, _) \<Rightarrow> AppendSummaryText out (''out_buf_size='' @ show_dec (length bytes))
                | None \<Rightarrow> out)
             else out
         | _ \<Rightarrow> out)
      else out)"

definition FormatSslSemanticResponseSummary ::
  "cbuf option \<Rightarrow> string option \<Rightarrow> u32 \<Rightarrow> ParsedResponseInfo \<Rightarrow> ResponseDecodeDetails
     \<Rightarrow> HipcParsedRequest option \<Rightarrow> HipcResponse option \<Rightarrow> bool \<Rightarrow> cbuf option" where
  "FormatSslSemanticResponseSummary out object_path command_id info d request response have_response =
     (if \<not> writable out then out
      else let out = snprintf out []; len = rs_payload_size d
      in if \<not> IsKnownSslObjectPath object_path then out
      else let cmd_depth = CountCmdSegments object_path;
               last_creator = GetLastCreatorCommandId object_path;
               out = (if 4 \<le> len then AppendSummaryText out (''value0='' @ fmt_x (rs_payload_words d ! 0)) else out)
      in if 8 \<le> len \<and> command_id = 102 then
           AppendSummaryText (snprintf out []) (''mask='' @ fmt_x64 (copy_word (rs_payload_bytes d) 0))
      else let out = (if 0 < ri_out_object_count info
                      then AppendSummaryText out (''out_objects='' @ fmt_u (ri_out_object_count info)) else out)
      in if cmd_depth = 2 \<and> (last_creator = 2 \<or> last_creator = 100)
         then ssl_connection_response out command_id d request response have_response else out)"

subsection \<open>Memory safety of the summaries\<close>

lemma snprintf_AppendSummaryText [simp]: "snprintf (AppendSummaryText b s) t = snprintf b t"
  by (auto simp: snprintf_def AppendSummaryText_def Let_def split: option.split)

text \<open>A formatter that leaves a well-formed buffer of the same capacity.\<close>

definition fits :: "cbuf option \<Rightarrow> cbuf option \<Rightarrow> bool" where
  "fits out out' \<longleftrightarrow> (buf_ok out \<longrightarrow> buf_ok out') \<and> buf_cap out' = buf_cap out"

lemma fits_refl [simp]: "fits out out"
  by (simp add: fits_def)

lemma fits_fresh: "fits (fresh_buf n) out \<longleftrightarrow> buf_ok out \<and> buf_cap out = Some n"
proof -
  have "buf_cap (fresh_buf n) = Some n" by (simp add: buf_cap_def fresh_buf_def)
  then show ?thesis by (simp add: fits_def)
qed

lemma fits_prints [simp]:
  "fits out b \<Longrightarrow> fits out (snprintf b s)"
  "fits out b \<Longrightarrow> fits out (AppendSummaryText b s)"
  "fits out b \<Longrightarrow> fits out (AppendNamedValue b s v nm)"
  "fits out b \<Longrightarrow> fits out (AppendNamedHexValue b s v nm)"
  "fits out b \<Longrightarrow> fits out (print_if b t)"
  by (auto simp: fits_def)

lemmas format_defs = FormatNifmSemanticRequestSummary_def FormatNifmSemanticResponseSummary_def
  FormatBsdSemanticRequestSummary_def FormatBsdSemanticResponseSummary_def
  FormatSslSemanticRequestSummary_def FormatSslSemanticResponseSummary_def

lemma fits_bsd_parts [simp]:
  "fits out b \<Longrightarrow> fits out (bsd_socket_summary b bytes len)"
  "fits out b \<Longrightarrow> fits out (bsd_option_summary b c bytes len)"
  "fits out b \<Longrightarrow> fits out (bsd_fcntl_summary b bytes len)"
  "fits out b \<Longrightarrow> fits out (bsd_shutdown_summary b bytes len)"
  by (simp_all add: bsd_socket_summary_def bsd_option_summary_def bsd_fcntl_summary_def
      bsd_shutdown_summary_def Let_def split: option.split)

lemma fits_ssl_parts [simp]:
  "fits out b \<Longrightarrow> fits out (print_value b d)"
  "fits out b \<Longrightarrow> fits out (fst (ssl_root_request b c d))"
  "fits out b \<Longrightarrow> fits out (ssl_context_request b c d)"
  "fits out b \<Longrightarrow> fits out (append_peer b bytes)"
  "fits out b \<Longrightarrow> fits out (append_hostname b bytes)"
  by (simp_all add: print_value_def ssl_root_request_def ssl_context_request_def append_peer_def
      append_hostname_def Let_def split: prod.split bool.split)

lemma fits_ssl_connections [simp]:
  "fits out b \<Longrightarrow> fits out (ssl_connection_request b c d r)"
  "fits out b \<Longrightarrow> fits out (ssl_connection_response b c d' r rp h)"
  by (simp_all add: ssl_connection_request_def ssl_connection_response_def Let_def split: option.split)

lemma fits_formats:
  "fits out (FormatNifmSemanticRequestSummary out path c rq)"
  "fits out (FormatNifmSemanticResponseSummary out path c info rs)"
  "fits out (FormatBsdSemanticRequestSummary out path c rq)"
  "fits out (FormatBsdSemanticResponseSummary out path c rs)"
  "fits out (FormatSslSemanticRequestSummary out path c rq request)"
  "fits out (FormatSslSemanticResponseSummary out path c info rs request response have)"
  by (simp_all add: format_defs Let_def case_prod_beta split: option.split)

lemma preview_loop_text:
  "preview_loop bytes n cursor = map preview_char (take (n - 1 - cursor) (takeWhile (\<lambda>b. b \<noteq> 0) bytes))"
proof (induction bytes arbitrary: cursor)
  case (Cons b bytes)
  show ?case
  proof (cases "cursor + 1 < n")
    case True
    then have "n - 1 - cursor = Suc (n - 1 - (cursor + 1))" by simp
    with Cons True show ?thesis by simp
  qed simp
qed simp

lemma preview_char_printable:
  "32 \<le> (of_char (preview_char b) :: nat) \<and> (of_char (preview_char b) :: nat) < 127
   \<and> preview_char b \<noteq> CHR 0x22 \<and> preview_char b \<noteq> CHR 0x5C"
proof (cases "b < 0x20 \<or> 0x7F \<le> b \<or> b = 0x22 \<or> b = 0x5C")
  case False
  then have range: "32 \<le> unat b" "unat b < 127"
    by (auto simp: word_less_nat_alt word_le_nat_alt)
  have "unat b \<noteq> 0x22" using False by unat_arith
  moreover have "unat b \<noteq> 0x5C" using False by unat_arith
  ultimately have "char_of (unat b) \<noteq> CHR 0x22" "char_of (unat b) \<noteq> CHR 0x5C"
    using range by (auto dest: arg_cong [where f = "of_char :: char \<Rightarrow> nat"])
  with False range show ?thesis by (auto simp: preview_char_def)
qed (simp add: preview_char_def)

text \<open>
  A host name can be quoted in the trace as it stands: the preview is the text up to
  the first NUL byte, cut at the buffer, with every quote, backslash and unprintable byte
  replaced by a dot, and the call reports whether anything was copied.
\<close>

theorem text_preview_is_printable:
  assumes "0 < n"
  shows "\<exists>text. CopyTextPreview (fresh_buf n) bytes = (text \<noteq> [], Some \<lparr>cap = n, content = text\<rparr>)
    \<and> length text = min (n - 1) (length (takeWhile (\<lambda>b. b \<noteq> 0) bytes))
    \<and> list_all (\<lambda>c. 32 \<le> (of_char c :: nat) \<and> (of_char c :: nat) < 127 \<and> c \<noteq> CHR 0x22 \<and> c \<noteq> CHR 0x5C) text"
proof -
  let ?text = "map preview_char (take (n - 1) (takeWhile (\<lambda>b. b \<noteq> 0) bytes))"
  have "CopyTextPreview (fresh_buf n) bytes = (?text \<noteq> [], Some \<lparr>cap = n, content = ?text\<rparr>)"
    using assms by (simp add: CopyTextPreview_def fresh_buf_def preview_loop_text Let_def)
  moreover have "list_all (\<lambda>c. 32 \<le> (of_char c :: nat) \<and> (of_char c :: nat) < 127 \<and> c \<noteq> CHR 0x22 \<and> c \<noteq> CHR 0x5C) ?text"
    using preview_char_printable by (auto simp: list_all_iff)
  ultimately show ?thesis by (intro exI [of _ ?text]) (simp add: min.commute)
qed

theorem text_preview_is_printable_witness:
  "fst (CopyTextPreview (fresh_buf 128) [0x61, 0x22, 0x0A, 0, 0x62])"
  using text_preview_is_printable [of 128 "[0x61, 0x22, 0x0A, 0, 0x62]"] by auto

subsection \<open>What single calls print\<close>

text \<open>
  The wide value of an ssl service call is never printed: for \<^verbatim>\<open>SetInterfaceVersion\<close> and
  \<^verbatim>\<open>SetThreadCoreMask\<close> the branch for eight bytes stands behind the one for four, so
  whatever the size of the payload, at most its first word appears, while the matching
  \<^verbatim>\<open>GetThreadCoreMask\<close> response prints all eight bytes.
\<close>

theorem ssl_wide_value_unreachable:
  assumes "command_id = 5 \<or> command_id = 101" "0 < n"
  shows "FormatSslSemanticRequestSummary (fresh_buf n) (Some (service @ ''.root'')) command_id d request =
      (if 4 \<le> rq_payload_size d
       then snprintf (fresh_buf n) (''value='' @ fmt_x (rq_payload_words d ! 0))
       else snprintf (fresh_buf n) [])
    \<and> (8 \<le> rs_payload_size r \<longrightarrow>
       FormatSslSemanticResponseSummary (fresh_buf n) (Some (service @ ''.root'')) 102 info r request resp h =
         AppendSummaryText (snprintf (fresh_buf n) []) (''mask='' @ fmt_x64 (copy_word (rs_payload_bytes r) 0)))"
proof -
  have root: "EndsWith (Some (service @ ''.root'')) (Some ''.root'')" by (rule root_path_is_root)
  then have "IsKnownSslObjectPath (Some (service @ ''.root''))" by (simp add: IsKnownSslObjectPath_def)
  with root assms show ?thesis
    by (auto simp: FormatSslSemanticRequestSummary_def FormatSslSemanticResponseSummary_def
        ssl_root_request_def Let_def simp del: EndsWith_Some)
qed

theorem ssl_wide_value_unreachable_witness:
  "FormatSslSemanticRequestSummary (fresh_buf 64) (Some ''ssl.root'') 101
     (empty_request_details\<lparr>rq_payload_size := 8, rq_payload_words := [1, 2, 0, 0]\<rparr>) None =
   snprintf (fresh_buf 64) ''value=0x1''"
proof -
  have "fmt_x (1 :: u32) = ''0x1''" by code_simp
  then show ?thesis
    using ssl_wide_value_unreachable [of 101 64 "''ssl''"
        "empty_request_details\<lparr>rq_payload_size := 8, rq_payload_words := [1, 2, 0, 0]\<rparr>" None] by simp
qed

text \<open>
  The trace names the peer of a socket call: for \<^verbatim>\<open>SendTo\<close> the address is the second
  usable input buffer of the call, for \<^verbatim>\<open>Bind\<close> and \<^verbatim>\<open>Connect\<close> the first; when an IPv4
  socket address lies there, its four bytes and its port in network order are appended to
  the summary under the call's label.
\<close>

theorem socket_calls_name_their_peer:
  assumes "command_id \<in> {11, 13, 14}" "writable out"
    and "(if command_id = 11 then 1 else 0) < length (request_views request)"
    and "fst (request_views request ! (if command_id = 11 then 1 else 0)) =
      [len, 2, p1, p0, a, b, c, d] @ rest"
  shows "TryAppendBsdSockaddrRequestSummary out command_id request =
    (True, AppendSummaryText out ((if command_id = 13 then ''bind'' else ''peer'')
       @ ''={family=AF_INET addr='' @ show_byte a @ ''.'' @ show_byte b @ ''.'' @ show_byte c @ ''.''
       @ show_byte d @ '' port='' @ show_dec (256 * unat p1 + unat p0) @ ''}''))"
proof -
  let ?i = "if command_id = 11 then 1 else 0 :: nat"
  let ?text = "''family=AF_INET addr='' @ show_byte a @ ''.'' @ show_byte b @ ''.'' @ show_byte c @ ''.''
       @ show_byte d @ '' port='' @ show_dec (256 * unat p1 + unat p0)"
  obtain st where view: "GetRequestInputViewAt request ?i = Some ([len, 2, p1, p0, a, b, c, d] @ rest, st)"
    using assms(3,4) by (cases "request_views request ! ?i") (simp add: input_views_listed)
  have addr: "TryFormatSockaddr (fresh_buf 160) ([len, 2, p1, p0, a, b, c, d] @ rest) = (True, snprintf (fresh_buf 160) ?text)"
    using sockaddr_inet_text [of "(len, 2)" len p1 p0 a b c d rest] by simp
  have port: "length (show_dec (256 * unat p1 + unat p0)) \<le> 5"
  proof (rule length_show_dec_less)
    have "unat p1 < 2 ^ LENGTH(8)" "unat p0 < 2 ^ LENGTH(8)" by (rule unsigned_less)+
    then show "256 * unat p1 + unat p0 < 10 ^ 5" by simp
  qed simp
  have "length ?text \<le> 159"
    using port length_show_byte [of a] length_show_byte [of b] length_show_byte [of c] length_show_byte [of d] by simp
  then have whole: "buf_text (snprintf (fresh_buf 160) ?text) = ?text" by simp
  show ?thesis
    using assms(1,2) view
    by (auto simp: TryAppendBsdSockaddrRequestSummary_def addr whole simp del: append.simps buf_text_snprintf_fresh)
      simp_all
qed

theorem socket_calls_name_their_peer_witness:
  "fst (TryAppendBsdSockaddrRequestSummary (fresh_buf 256) 14
     \<lparr>send_statics = [\<lparr>desc_address = 4096, desc_bytes = [16, 2, 0x1F, 0x90, 10, 0, 0, 1], desc_index = 0\<rparr>],
      send_buffers = [\<lparr>desc_address = 0, desc_bytes = [], desc_index = 0\<rparr>], recv_buffers = [], exch_buffers = []\<rparr>)"
  using socket_calls_name_their_peer [of 14 "fresh_buf 256"
      "\<lparr>send_statics = [\<lparr>desc_address = 4096, desc_bytes = [16, 2, 0x1F, 0x90, 10, 0, 0, 1], desc_index = 0\<rparr>],
       send_buffers = [\<lparr>desc_address = 0, desc_bytes = [], desc_index = 0\<rparr>], recv_buffers = [], exch_buffers = []\<rparr>"
      16 "0x1F" "0x90" 10 0 0 1 "[]"]
  by (simp add: request_views_def usable_def map_filter_simps GetBufferView_def GetStaticView_def desc_size_def)

end
