(* ===== verification/SlotTable.thy ===== *)
theory SlotTable
  imports Prelude
begin

text \<open>
  The fixed-size slot tables of \<^verbatim>\<open>net-probe/src/mitm_trace.cpp\<close>: arrays of entries with
  a \<open>used\<close> flag. Remembering scans the array once for the entry with the key, noting the
  first free slot on the way, and falls back to slot 0 when there is neither; forgetting
  wipes matching entries; marking updates the first match. The loops are shared by the
  four tables; the locale \<open>slot_table\<close> states what an entry type must provide and proves
  the table a partial map that loses an entry only when it is full.
\<close>

fun scan_slots :: "('e \<Rightarrow> bool) \<Rightarrow> ('e \<Rightarrow> bool) \<Rightarrow> 'e list \<Rightarrow> nat \<Rightarrow> nat option \<Rightarrow> nat + nat option" where
  "scan_slots hit used [] i free = Inr free"
| "scan_slots hit used (e # es) i free =
     (if hit e then Inl i
      else scan_slots hit used es (i + 1) (if \<not> used e \<and> free = None then Some i else free))"

definition remember_slot ::
  "('e \<Rightarrow> bool) \<Rightarrow> ('e \<Rightarrow> bool) \<Rightarrow> ('e \<Rightarrow> 'e) \<Rightarrow> ('e \<Rightarrow> 'e) \<Rightarrow> 'e list \<Rightarrow> nat \<times> 'e list" where
  "remember_slot hit used refresh fresh table =
     (case scan_slots hit used table 0 None of
        Inl i \<Rightarrow> (i, table[i := refresh (table ! i)])
      | Inr (Some i) \<Rightarrow> (i, table[i := fresh (table ! i)])
      | Inr None \<Rightarrow> (0, table[0 := fresh (table ! 0)]))"

fun update_first :: "('e \<Rightarrow> bool) \<Rightarrow> ('e \<Rightarrow> 'e) \<Rightarrow> 'e list \<Rightarrow> 'e option \<times> 'e list" where
  "update_first hit f [] = (None, [])"
| "update_first hit f (e # es) =
     (if hit e then (Some (f e), f e # es)
      else (let (r, es') = update_first hit f es in (r, e # es')))"

definition wipe_slots :: "('e \<Rightarrow> bool) \<Rightarrow> ('e \<Rightarrow> 'e) \<Rightarrow> 'e list \<Rightarrow> 'e list" where
  "wipe_slots hit wipe table = map (\<lambda>e. if hit e then wipe e else e) table"

text \<open>Counting and copying loops: the copy keeps at most \<open>max_entries\<close>, the count is exact.\<close>

definition count_slots :: "('e \<Rightarrow> bool) \<Rightarrow> 'e list \<Rightarrow> nat" where
  "count_slots p table = length (filter p table)"

definition copy_slots :: "('e \<Rightarrow> bool) \<Rightarrow> nat \<Rightarrow> 'e list \<Rightarrow> 'e list \<times> nat" where
  "copy_slots p max_entries table = (take max_entries (filter p table), length (filter p table))"

subsection \<open>The scan\<close>

lemma scan_slots_eq:
  "scan_slots hit used t i free =
     (if \<exists>e \<in> set t. hit e then Inl (i + length (takeWhile (\<lambda>e. \<not> hit e) t))
      else Inr (if free = None \<and> (\<exists>e \<in> set t. \<not> used e) then Some (i + length (takeWhile used t)) else free))"
  by (induction t arbitrary: i free) auto

lemma nth_first:
  assumes "e \<in> set t" "\<not> P e"
  shows "length (takeWhile P t) < length t" "\<not> P (t ! length (takeWhile P t))"
proof -
  have "takeWhile P t \<noteq> t" using assms by (auto simp: takeWhile_eq_all_conv)
  then show *: "length (takeWhile P t) < length t"
    by (metis length_takeWhile_le le_neq_implies_less order_refl take_all takeWhile_eq_take)
  show "\<not> P (t ! length (takeWhile P t))" by (rule nth_length_takeWhile [OF *])
qed

lemma scan_slots_Inl:
  assumes "scan_slots hit used t 0 free = Inl i"
  shows "i < length t" "hit (t ! i)"
proof -
  from assms obtain e where "e \<in> set t" "hit e" and i: "i = length (takeWhile (\<lambda>e. \<not> hit e) t)"
    by (auto simp: scan_slots_eq split: if_splits)
  with nth_first [of e t "\<lambda>e. \<not> hit e"] show "i < length t" "hit (t ! i)" by simp_all
qed

lemma scan_slots_Inr:
  assumes "scan_slots hit used t 0 None = Inr r"
  shows "\<forall>e \<in> set t. \<not> hit e" "r = None \<Longrightarrow> \<forall>e \<in> set t. used e"
    "r = Some j \<Longrightarrow> j < length t \<and> \<not> used (t ! j)"
  using assms nth_first [of _ t used] by (auto simp: scan_slots_eq split: if_splits)

lemma update_first_length [simp]: "length (snd (update_first hit f t)) = length t"
  by (induction t) (auto simp: Let_def case_prod_beta)

lemma update_first_find: "fst (update_first hit f t) = map_option f (List.find hit t)"
  by (induction t) (auto simp: Let_def case_prod_beta)

lemma update_first_nth:
  "snd (update_first hit f t) =
     (case List.find hit t of None \<Rightarrow> t
      | Some e \<Rightarrow> takeWhile (\<lambda>x. \<not> hit x) t @ f e # drop (Suc (length (takeWhile (\<lambda>x. \<not> hit x) t))) t)"
  by (induction t) (auto simp: Let_def case_prod_beta split: option.splits)

lemma wipe_slots_length [simp]: "length (wipe_slots hit wipe t) = length t"
  by (simp add: wipe_slots_def)

subsection \<open>A slot table as a partial map\<close>

locale slot_table =
  fixes used :: "'e \<Rightarrow> bool"
    and key :: "'e \<Rightarrow> 'k"
    and refresh :: "'a \<Rightarrow> 'e \<Rightarrow> 'e"
    and fresh :: "'k \<Rightarrow> 'a \<Rightarrow> 'e \<Rightarrow> 'e"
    and wipe :: "'e \<Rightarrow> 'e"
  assumes used_refresh: "used (refresh a e) = used e"
    and key_refresh: "key (refresh a e) = key e"
    and used_fresh: "used (fresh k a e)"
    and key_fresh: "key (fresh k a e) = k"
    and used_wipe: "\<not> used (wipe e)"
begin

definition hit :: "'k \<Rightarrow> 'e \<Rightarrow> bool" where "hit k e \<longleftrightarrow> used e \<and> key e = k"

definition lookup :: "'e list \<Rightarrow> 'k \<Rightarrow> 'e option" where "lookup t k = List.find (hit k) t"

definition keys :: "'e list \<Rightarrow> 'k set" where "keys t = {key e |e. e \<in> set t \<and> used e}"

text \<open>The invariant: the slots exist and no key is used twice.\<close>

definition table_ok :: "nat \<Rightarrow> 'e list \<Rightarrow> bool" where
  "table_ok n t \<longleftrightarrow> 0 < n \<and> length t = n \<and>
     (\<forall>i < n. \<forall>j < n. used (t ! i) \<and> used (t ! j) \<and> key (t ! i) = key (t ! j) \<longrightarrow> i = j)"

definition remember :: "'k \<Rightarrow> 'a \<Rightarrow> 'e list \<Rightarrow> nat \<times> 'e list" where
  "remember k a t = remember_slot (hit k) used (refresh a) (fresh k a) t"

lemma lookup_None: "lookup t k = None \<longleftrightarrow> k \<notin> keys t"
  by (auto simp: lookup_def keys_def hit_def find_None_iff)

lemma lookup_nth:
  assumes "table_ok n t" "i < n" "used (t ! i)"
  shows "lookup t (key (t ! i)) = Some (t ! i)"
proof -
  have l: "length t = n" using assms(1) by (simp add: table_ok_def)
  have "\<forall>j < i. \<not> hit (key (t ! i)) (t ! j)"
    using assms unfolding table_ok_def hit_def by (metis nat_neq_iff order_less_trans)
  with assms(2,3) l show ?thesis
    unfolding lookup_def find_Some_iff by (auto simp: hit_def)
qed

lemma lookup_Some:
  assumes "lookup t k = Some e"
  shows "used e" "key e = k" "e \<in> set t"
  using assms by (auto simp: lookup_def hit_def find_Some_iff)

lemma lookup_index:
  assumes "lookup t k = Some e"
  obtains i where "i < length t" "t ! i = e" "used e" "key e = k"
  using assms by (auto simp: lookup_def hit_def find_Some_iff)

text \<open>The slot that \<open>remember\<close> writes and the entry it writes there.\<close>

lemma remember_cases:
  assumes "table_ok n t"
  obtains
    (known) i where "i < n" "lookup t k = Some (t ! i)" "hit k (t ! i)" "remember k a t = (i, t[i := refresh a (t ! i)])"
  | (free) i where "i < n" "lookup t k = None" "\<not> used (t ! i)" "remember k a t = (i, t[i := fresh k a (t ! i)])"
  | (full) "lookup t k = None" "\<forall>e \<in> set t. used e" "remember k a t = (0, t[0 := fresh k a (t ! 0)])"
proof (cases "scan_slots (hit k) used t 0 None")
  case (Inl i)
  note i = scan_slots_Inl [OF this]
  with assms lookup_nth [OF assms, of i] known [of i] Inl show ?thesis
    by (simp add: hit_def table_ok_def remember_def remember_slot_def)
next
  case (Inr r)
  note s = scan_slots_Inr [OF this]
  from s(1) have l: "lookup t k = None" by (simp add: lookup_def find_None_iff)
  show ?thesis
  proof (cases r)
    case None
    with Inr s(2) l full show ?thesis by (simp add: remember_def remember_slot_def)
  next
    case (Some j)
    with Inr s(3) l free [of j] assms show ?thesis
      by (simp add: remember_def remember_slot_def table_ok_def)
  qed
qed

lemma table_ok_update:
  assumes "table_ok n t" "i < n" "\<And>j. j < n \<Longrightarrow> j \<noteq> i \<Longrightarrow> used (t ! j) \<Longrightarrow> used e \<Longrightarrow> key (t ! j) \<noteq> key e"
  shows "table_ok n (t[i := e])"
  using assms unfolding table_ok_def
  by (auto simp: nth_list_update) metis+

text \<open>The invariant in words: the keys of the used entries are distinct.\<close>

lemma distinct_keys:
  "(\<And>i j. i < j \<Longrightarrow> j < length t \<Longrightarrow> used (t ! i) \<Longrightarrow> used (t ! j) \<Longrightarrow> key (t ! i) \<noteq> key (t ! j))
    \<Longrightarrow> distinct (map key (filter used t))"
proof (induction t)
  case (Cons e es)
  have "distinct (map key (filter used es))"
  proof (rule Cons.IH)
    fix i j assume "i < j" "j < length es" "used (es ! i)" "used (es ! j)"
    with Cons.prems [of "Suc i" "Suc j"] show "key (es ! i) \<noteq> key (es ! j)" by simp
  qed
  moreover have "key e \<noteq> key x" if x: "x \<in> set es" "used x" "used e" for x
  proof -
    from x(1) obtain j where "j < length es" "x = es ! j" by (auto simp: in_set_conv_nth)
    with Cons.prems [of 0 "Suc j"] x show ?thesis by simp
  qed
  ultimately show ?case by auto
qed simp

lemma table_ok_distinct: "table_ok n t \<Longrightarrow> distinct (map key (filter used t))"
proof (rule distinct_keys)
  fix i j assume a: "table_ok n t" "i < j" "j < length t" "used (t ! i)" "used (t ! j)"
  then have "i < n" "j < n" by (simp_all add: table_ok_def)
  with a show "key (t ! i) \<noteq> key (t ! j)" unfolding table_ok_def by blast
qed

lemma table_ok_length: "table_ok n t \<Longrightarrow> length t = n"
  by (simp add: table_ok_def)

text \<open>Remembering keeps the invariant.\<close>

lemma remember_ok:
  assumes "table_ok n t"
  shows "table_ok n (snd (remember k a t))"
proof (rule remember_cases [OF assms, of k a])
  fix i assume i: "i < n" "hit k (t ! i)" and r: "remember k a t = (i, t[i := refresh a (t ! i)])"
  then show ?thesis unfolding r snd_conv
    using assms by (intro table_ok_update) (auto simp: used_refresh key_refresh table_ok_def hit_def)
next
  fix i assume i: "i < n" "lookup t k = None" and r: "remember k a t = (i, t[i := fresh k a (t ! i)])"
  then show ?thesis unfolding r snd_conv
    using assms by (intro table_ok_update)
      (auto simp: used_fresh key_fresh lookup_None keys_def table_ok_def)
next
  assume i: "lookup t k = None" and r: "remember k a t = (0, t[0 := fresh k a (t ! 0)])"
  have "0 < n" using assms by (simp add: table_ok_def)
  with i show ?thesis unfolding r snd_conv
    using assms by (intro table_ok_update)
      (auto simp: used_fresh key_fresh lookup_None keys_def table_ok_def)
qed

text \<open>The slot it writes lies in the table and holds the entry of the key afterwards.\<close>

lemma remember_slot_in_table:
  assumes "table_ok n t" "remember k a t = (i, t')"
  shows "i < n \<and> length t' = n \<and> t' ! i \<in> set t' \<and> used (t' ! i) \<and> key (t' ! i) = k"
proof -
  have n: "0 < n" "length t = n" using assms(1) by (simp_all add: table_ok_def)
  show ?thesis
    by (rule remember_cases [OF assms(1), of k a])
      (use n assms(2) in \<open>auto simp: hit_def used_refresh key_refresh used_fresh key_fresh set_update_memI\<close>)
qed

text \<open>What a lookup returns after one slot changed.\<close>

lemma lookup_update_same:
  assumes "table_ok n (t[i := e])" "i < n" "used e"
  shows "lookup (t[i := e]) (key e) = Some e"
proof -
  have "length t = n" using assms(1) by (simp add: table_ok_def)
  with lookup_nth [OF assms(1), of i] assms show ?thesis by simp
qed

lemma lookup_update_other:
  assumes "table_ok n t" "table_ok n (t[i := e])" "i < n" "used e \<longrightarrow> key e \<noteq> k"
  shows "lookup (t[i := e]) k = (if used (t ! i) \<and> key (t ! i) = k then None else lookup t k)"
proof -
  have l: "length t = n" using assms(1) by (simp add: table_ok_def)
  show ?thesis
  proof (cases "\<exists>j < n. j \<noteq> i \<and> used (t ! j) \<and> key (t ! j) = k")
    case True
    then obtain j where j: "j < n" "j \<noteq> i" "used (t ! j)" "key (t ! j) = k" by blast
    from lookup_nth [OF assms(1) j(1,3)] lookup_nth [OF assms(2) j(1)] j l
    have "lookup (t[i := e]) k = Some (t ! j)" "lookup t k = Some (t ! j)" by auto
    moreover have "\<not> (used (t ! i) \<and> key (t ! i) = k)"
      using assms(1,3) j by (auto simp: table_ok_def)
    ultimately show ?thesis by simp
  next
    case False
    then have "k \<notin> keys (t[i := e])"
      using assms(3,4) l unfolding keys_def by (auto simp: in_set_conv_nth nth_list_update split: if_splits)
    moreover have "k \<notin> keys t" if "\<not> (used (t ! i) \<and> key (t ! i) = k)"
      using False l that unfolding keys_def by (auto simp: in_set_conv_nth)
    ultimately show ?thesis by (simp flip: lookup_None)
  qed
qed

text \<open>The remembered entry is found under its key.\<close>

lemma remember_found:
  assumes "table_ok n t"
  shows "\<exists>old. lookup (snd (remember k a t)) k =
    Some (case lookup t k of Some e \<Rightarrow> refresh a e | None \<Rightarrow> fresh k a old)"
proof -
  have n: "0 < n" using assms by (simp add: table_ok_def)
  note ok = remember_ok [OF assms, of k a]
  show ?thesis
  proof (rule remember_cases [OF assms, of k a])
    fix i assume i: "i < n" "lookup t k = Some (t ! i)" "hit k (t ! i)"
      and r: "remember k a t = (i, t[i := refresh a (t ! i)])"
    from lookup_update_same [OF ok [unfolded r snd_conv] i(1)] i r show ?thesis
      by (simp add: hit_def used_refresh key_refresh)
  next
    fix i assume i: "i < n" "lookup t k = None" and r: "remember k a t = (i, t[i := fresh k a (t ! i)])"
    from lookup_update_same [OF ok [unfolded r snd_conv] i(1)] i r show ?thesis
      by (auto simp: used_fresh key_fresh)
  next
    assume i: "lookup t k = None" and r: "remember k a t = (0, t[0 := fresh k a (t ! 0)])"
    from lookup_update_same [OF ok [unfolded r snd_conv] n] i r show ?thesis
      by (auto simp: used_fresh key_fresh)
  qed
qed

text \<open>Every other key keeps its entry, except the owner of slot 0 of a full table.\<close>

lemma remember_other:
  assumes "table_ok n t" "k' \<noteq> k"
  shows "lookup (snd (remember k a t)) k' =
    (if lookup t k = None \<and> (\<forall>e \<in> set t. used e) \<and> key (t ! 0) = k' then None else lookup t k')"
proof -
  have n: "0 < n" "length t = n" using assms by (simp_all add: table_ok_def)
  note ok = remember_ok [OF assms(1), of k a]
  show ?thesis
  proof (rule remember_cases [OF assms(1), of k a])
    fix i assume i: "i < n" "lookup t k = Some (t ! i)" "hit k (t ! i)"
      and r: "remember k a t = (i, t[i := refresh a (t ! i)])"
    from lookup_update_other [OF assms(1) ok [unfolded r snd_conv] i(1), of k'] i r assms(2) show ?thesis
      by (simp add: hit_def used_refresh key_refresh)
  next
    fix i assume i: "i < n" "lookup t k = None" "\<not> used (t ! i)"
      and r: "remember k a t = (i, t[i := fresh k a (t ! i)])"
    from lookup_update_other [OF assms(1) ok [unfolded r snd_conv] i(1), of k'] i r assms(2) n show ?thesis
      by (auto simp: used_fresh key_fresh)
  next
    assume i: "lookup t k = None" "\<forall>e \<in> set t. used e" and r: "remember k a t = (0, t[0 := fresh k a (t ! 0)])"
    from lookup_update_other [OF assms(1) ok [unfolded r snd_conv] n(1), of k'] i r assms(2) n show ?thesis
      by (auto simp: used_fresh key_fresh)
  qed
qed

text \<open>Remembering takes at most one free slot.\<close>

definition free_slots :: "'e list \<Rightarrow> nat" where
  "free_slots t = length (filter (\<lambda>e. \<not> used e) t)"

lemma free_slots_update: "free_slots t \<le> Suc (free_slots (t[i := e]))"
proof (induction t arbitrary: i)
  case (Cons x t)
  show ?case
  proof (cases i)
    case (Suc j)
    then show ?thesis using Cons.IH [of j] by (simp add: free_slots_def)
  qed (simp add: free_slots_def)
qed (simp add: free_slots_def)

lemma remember_free:
  assumes "table_ok n t"
  shows "free_slots t \<le> Suc (free_slots (snd (remember k a t)))"
  by (rule remember_cases [OF assms, of k a]) (simp_all add: free_slots_update)

lemma remember_keeps:
  assumes "table_ok n t" "k' \<noteq> k" "0 < free_slots t"
  shows "lookup (snd (remember k a t)) k' = lookup t k'"
proof -
  have "\<not> (\<forall>e \<in> set t. used e)"
    using assms(3) by (auto simp: free_slots_def filter_empty_conv)
  then show ?thesis using remember_other [OF assms(1,2), of a] by auto
qed

text \<open>Forgetting removes exactly the keys asked for.\<close>

lemma wipe_ok:
  assumes "table_ok n t"
  shows "table_ok n (wipe_slots (\<lambda>e. used e \<and> q (key e)) wipe t)"
  using assms used_wipe by (auto simp: table_ok_def wipe_slots_def)

lemma wipe_lookup:
  "lookup (wipe_slots (\<lambda>e. used e \<and> q (key e)) wipe t) k = (if q k then None else lookup t k)"
  by (induction t) (auto simp: lookup_def wipe_slots_def hit_def used_wipe)

text \<open>Updating the entry of a key in place.\<close>

lemma update_first_ok:
  assumes "table_ok n t" "\<And>e. used (f e) = used e" "\<And>e. key (f e) = key e"
  shows "table_ok n (snd (update_first p f t))"
proof -
  have "map used (snd (update_first p f t)) = map used t" "map key (snd (update_first p f t)) = map key t"
    using assms(2,3) by (induction t) (auto simp: Let_def case_prod_beta)
  then have "used (snd (update_first p f t) ! i) = used (t ! i)" "key (snd (update_first p f t) ! i) = key (t ! i)"
    if "i < length t" for i
    using that by (metis nth_map update_first_length)+
  with assms(1) show ?thesis by (auto simp: table_ok_def)
qed

lemma update_first_lookup:
  assumes "\<And>e. used (f e) = used e" "\<And>e. key (f e) = key e"
  shows "lookup (snd (update_first (hit k) f t)) k' = (if k' = k then map_option f (lookup t k) else lookup t k')"
  using assms by (induction t) (auto simp: Let_def case_prod_beta lookup_def hit_def)

text \<open>Wiping only the first match.\<close>

lemma update_first_index:
  "snd (update_first p f t) = t \<or> (\<exists>i < length t. snd (update_first p f t) = t[i := f (t ! i)])"
proof (induction t)
  case (Cons e es)
  show ?case
  proof (cases "p e")
    case False
    with Cons show ?thesis by (auto simp: Let_def case_prod_beta)
  qed (auto intro!: exI [of _ 0])
qed simp

lemma wipe_first_ok:
  assumes "table_ok n t"
  shows "table_ok n (snd (update_first p wipe t))"
proof -
  have "table_ok n (t[i := wipe (t ! i)])" if "i < length t" for i
    using assms that used_wipe by (intro table_ok_update) (auto simp: table_ok_def)
  with update_first_index [of p wipe t] assms show ?thesis by auto
qed

lemma wipe_first_lookup:
  assumes "table_ok n t"
  shows "lookup (snd (update_first (hit k) wipe t)) k' = (if k' = k then None else lookup t k')"
proof (cases "lookup t k")
  case None
  then have "\<forall>e \<in> set t. \<not> hit k e" by (simp add: lookup_def find_None_iff)
  then have "snd (update_first (hit k) wipe t) = t" by (induction t) (auto simp: Let_def case_prod_beta)
  with None show ?thesis by simp
next
  case (Some e)
  have "\<exists>i < length t. hit k (t ! i) \<and> snd (update_first (hit k) wipe t) = t[i := wipe (t ! i)]"
    if "\<exists>x \<in> set t. hit k x" using that
  proof (induction t)
    case (Cons e es)
    show ?case
    proof (cases "hit k e")
      case False
      with Cons show ?thesis by (auto simp: Let_def case_prod_beta)
    qed (auto intro!: exI [of _ 0])
  qed simp
  with lookup_Some [OF Some] obtain i where i: "i < length t" "hit k (t ! i)"
    "snd (update_first (hit k) wipe t) = t[i := wipe (t ! i)]"
    unfolding hit_def by blast
  have n: "length t = n" using assms by (simp add: table_ok_def)
  have "table_ok n (t[i := wipe (t ! i)])" using wipe_first_ok [OF assms, of "hit k"] i by simp
  from lookup_update_other [OF assms this, of k'] i n used_wipe show ?thesis by (auto simp: hit_def)
qed

end

end
