(* ===== verification/TraceTables.thy ===== *)
theory TraceTables
  imports SlotTable TraceTypes
begin

text \<open>
  The tracking state of \<^verbatim>\<open>net-probe/src/mitm_trace.cpp\<close>: which sessions are open, which
  handles and clones they have, and by which path every domain object was reached. Four
  fixed tables guarded by \<open>g_state_lock\<close>, each a slot table. The clock
  (\<open>GetMonotonicNs\<close>) is the argument \<open>now\<close>; an out parameter is a component of the
  result, \<^term>\<open>None\<close> when the code leaves it alone.
\<close>

record MitmProcessInfo =
  process_id :: u64
  program_id :: u64

definition no_client :: MitmProcessInfo where
  "no_client = \<lparr>process_id = 0, program_id = 0\<rparr>"

definition MaxTrackedDomainPaths :: nat where "MaxTrackedDomainPaths = 256"
definition MaxTrackedSessions :: nat where "MaxTrackedSessions = 64"
definition MaxTrackedSessionHandles :: nat where "MaxTrackedSessionHandles = 128"
definition MaxTrackedCloneHandles :: nat where "MaxTrackedCloneHandles = 128"

record DomainPathEntry =
  dp_used :: bool
  dp_session_id :: u64
  dp_object_id :: u32
  dp_parent_object_id :: u32
  dp_creator_command_id :: u32
  dp_created_ts_ns :: u64
  dp_close_seen_ts_ns :: u64
  dp_close_observed :: bool
  dp_relative_path :: string

record SessionEntry =
  se_used :: bool
  se_service_name :: string
  se_client_info :: MitmProcessInfo
  se_session_id :: u64

record SessionHandleEntry =
  sh_used :: bool
  sh_session_id :: u64
  sh_session_handle :: s32
  sh_peer_handle :: s32
  sh_forward_handle :: s32
  sh_has_forward_handle :: bool
  sh_is_clone :: bool
  sh_created_ts_ns :: u64
  sh_close_seen_ts_ns :: u64
  sh_close_observed :: bool

record CloneHandleEntry =
  ch_used :: bool
  ch_session_id :: u64
  ch_handle :: s32
  ch_server_handle :: s32
  ch_forward_handle :: s32
  ch_has_forward_handle :: bool
  ch_clone_registered :: bool
  ch_manager_command_id :: u32
  ch_created_ts_ns :: u64
  ch_close_seen_ts_ns :: u64
  ch_close_observed :: bool

definition empty_domain_path :: DomainPathEntry where
  "empty_domain_path = \<lparr>dp_used = False, dp_session_id = 0, dp_object_id = 0, dp_parent_object_id = 0,
     dp_creator_command_id = 0, dp_created_ts_ns = 0, dp_close_seen_ts_ns = 0, dp_close_observed = False,
     dp_relative_path = []\<rparr>"

definition empty_session :: SessionEntry where
  "empty_session = \<lparr>se_used = False, se_service_name = [], se_client_info = no_client, se_session_id = 0\<rparr>"

definition empty_session_handle :: SessionHandleEntry where
  "empty_session_handle = \<lparr>sh_used = False, sh_session_id = 0, sh_session_handle = - 1, sh_peer_handle = - 1,
     sh_forward_handle = - 1, sh_has_forward_handle = False, sh_is_clone = False, sh_created_ts_ns = 0,
     sh_close_seen_ts_ns = 0, sh_close_observed = False\<rparr>"

definition empty_clone_handle :: CloneHandleEntry where
  "empty_clone_handle = \<lparr>ch_used = False, ch_session_id = 0, ch_handle = - 1, ch_server_handle = - 1,
     ch_forward_handle = - 1, ch_has_forward_handle = False, ch_clone_registered = False,
     ch_manager_command_id = 0, ch_created_ts_ns = 0, ch_close_seen_ts_ns = 0, ch_close_observed = False\<rparr>"

record trace_tables =
  domain_paths :: "DomainPathEntry list"
  sessions :: "SessionEntry list"
  session_handles :: "SessionHandleEntry list"
  clone_handles :: "CloneHandleEntry list"

definition initial_tables :: trace_tables where
  "initial_tables = \<lparr>domain_paths = replicate MaxTrackedDomainPaths empty_domain_path,
     sessions = replicate MaxTrackedSessions empty_session,
     session_handles = replicate MaxTrackedSessionHandles empty_session_handle,
     clone_handles = replicate MaxTrackedCloneHandles empty_clone_handle\<rparr>"

subsection \<open>Resetting\<close>

definition reset_domain_path :: "DomainPathEntry \<Rightarrow> DomainPathEntry" where
  "reset_domain_path e = e\<lparr>dp_used := False, dp_session_id := 0, dp_object_id := 0, dp_relative_path := []\<rparr>"

definition ResetDomainPathState :: "trace_tables \<Rightarrow> trace_tables" where
  "ResetDomainPathState s = s\<lparr>domain_paths := map reset_domain_path (domain_paths s)\<rparr>"

definition ResetCloneHandleState :: "trace_tables \<Rightarrow> trace_tables" where
  "ResetCloneHandleState s = s\<lparr>clone_handles := map (\<lambda>_. empty_clone_handle) (clone_handles s)\<rparr>"

definition ResetSessionHandleState :: "trace_tables \<Rightarrow> trace_tables" where
  "ResetSessionHandleState s = s\<lparr>session_handles := map (\<lambda>_. empty_session_handle) (session_handles s)\<rparr>"

definition ResetSessionState :: "trace_tables \<Rightarrow> trace_tables" where
  "ResetSessionState s = s\<lparr>sessions := map (\<lambda>_. empty_session) (sessions s)\<rparr>"

subsection \<open>Forgetting a session's entries\<close>

definition ForgetDomainPathsForSessionLocked :: "u64 \<Rightarrow> trace_tables \<Rightarrow> trace_tables" where
  "ForgetDomainPathsForSessionLocked session_id s =
     s\<lparr>domain_paths := wipe_slots (\<lambda>e. dp_used e \<and> dp_session_id e = session_id) (\<lambda>_. empty_domain_path) (domain_paths s)\<rparr>"

definition ForgetCloneHandlesForSessionLocked :: "u64 \<Rightarrow> trace_tables \<Rightarrow> trace_tables" where
  "ForgetCloneHandlesForSessionLocked session_id s =
     s\<lparr>clone_handles := wipe_slots (\<lambda>e. ch_used e \<and> ch_session_id e = session_id) (\<lambda>_. empty_clone_handle) (clone_handles s)\<rparr>"

definition ForgetSessionHandlesForSessionLocked :: "u64 \<Rightarrow> trace_tables \<Rightarrow> trace_tables" where
  "ForgetSessionHandlesForSessionLocked session_id s =
     s\<lparr>session_handles := wipe_slots (\<lambda>e. sh_used e \<and> sh_session_id e = session_id) (\<lambda>_. empty_session_handle) (session_handles s)\<rparr>"

definition forget_session_entries :: "u64 \<Rightarrow> trace_tables \<Rightarrow> trace_tables" where
  "forget_session_entries session_id s =
     ForgetCloneHandlesForSessionLocked session_id
       (ForgetSessionHandlesForSessionLocked session_id (ForgetDomainPathsForSessionLocked session_id s))"

subsection \<open>Counting and copying\<close>

definition CountTrackedSessionsLocked :: "trace_tables \<Rightarrow> nat" where
  "CountTrackedSessionsLocked s = count_slots se_used (sessions s)"

definition active_clone :: "u64 \<Rightarrow> CloneHandleEntry \<Rightarrow> bool" where
  "active_clone session_id e \<longleftrightarrow> ch_used e \<and> ch_session_id e = session_id \<and> \<not> ch_close_observed e"

definition CountTrackedCloneHandlesForSessionLocked :: "u64 \<Rightarrow> trace_tables \<Rightarrow> nat" where
  "CountTrackedCloneHandlesForSessionLocked session_id s = count_slots (active_clone session_id) (clone_handles s)"

definition CopyTrackedCloneHandlesForSessionLocked ::
  "u64 \<Rightarrow> nat \<Rightarrow> trace_tables \<Rightarrow> CloneHandleEntry list \<times> nat" where
  "CopyTrackedCloneHandlesForSessionLocked session_id max_entries s =
     copy_slots (active_clone session_id) max_entries (clone_handles s)"

definition CountTrackedSessionHandlesForSessionLocked :: "u64 \<Rightarrow> bool \<Rightarrow> trace_tables \<Rightarrow> nat" where
  "CountTrackedSessionHandlesForSessionLocked session_id active_only s =
     count_slots (\<lambda>e. sh_used e \<and> sh_session_id e = session_id \<and> \<not> (active_only \<and> sh_close_observed e))
       (session_handles s)"

definition CopyTrackedSessionsLocked :: "nat \<Rightarrow> trace_tables \<Rightarrow> SessionEntry list \<times> nat" where
  "CopyTrackedSessionsLocked max_entries s = copy_slots se_used max_entries (sessions s)"

definition CopyTrackedDomainPathsLocked :: "nat \<Rightarrow> trace_tables \<Rightarrow> DomainPathEntry list \<times> nat" where
  "CopyTrackedDomainPathsLocked max_entries s = copy_slots dp_used max_entries (domain_paths s)"

definition FindSessionEntryLocked :: "u64 \<Rightarrow> trace_tables \<Rightarrow> SessionEntry option" where
  "FindSessionEntryLocked session_id s = List.find (\<lambda>e. se_used e \<and> se_session_id e = session_id) (sessions s)"

definition CopyTrackedDomainPathsForSessionLocked ::
  "u64 \<Rightarrow> nat \<Rightarrow> trace_tables \<Rightarrow> DomainPathEntry list \<times> nat \<times> SessionEntry" where
  "CopyTrackedDomainPathsForSessionLocked session_id max_entries s =
     (let (es, n) = copy_slots (\<lambda>e. dp_used e \<and> dp_session_id e = session_id) max_entries (domain_paths s)
      in (es, n, case FindSessionEntryLocked session_id s of None \<Rightarrow> empty_session | Some e \<Rightarrow> e))"

text \<open>The first \<open>entry_count\<close> captured entries; \<^term>\<open>None\<close> is a null array.\<close>

definition FindCapturedSessionEntry :: "SessionEntry list option \<Rightarrow> nat \<Rightarrow> u64 \<Rightarrow> SessionEntry option" where
  "FindCapturedSessionEntry entries entry_count session_id =
     (case entries of None \<Rightarrow> None
      | Some es \<Rightarrow> List.find (\<lambda>e. se_used e \<and> se_session_id e = session_id) (take entry_count es))"

subsection \<open>Sessions\<close>

definition fresh_session :: "string \<Rightarrow> MitmProcessInfo \<Rightarrow> u64 \<Rightarrow> SessionEntry \<Rightarrow> SessionEntry" where
  "fresh_session service_name client_info session_id e =
     e\<lparr>se_used := True, se_service_name := service_name, se_client_info := client_info, se_session_id := session_id\<rparr>"

definition RememberSessionLocked ::
  "string \<Rightarrow> u64 \<Rightarrow> MitmProcessInfo \<Rightarrow> trace_tables \<Rightarrow> nat \<times> trace_tables" where
  "RememberSessionLocked service_name session_id client_info s =
     (let s1 = (case scan_slots (\<lambda>e. se_used e \<and> se_session_id e = session_id) se_used (sessions s) 0 None of
          Inl i \<Rightarrow> s\<lparr>sessions := (sessions s)[i := (sessions s ! i)
                     \<lparr>se_service_name := service_name, se_client_info := client_info\<rparr>]\<rparr>
        | Inr (Some i) \<Rightarrow> s\<lparr>sessions := (sessions s)[i := fresh_session service_name client_info session_id (sessions s ! i)]\<rparr>
        | Inr None \<Rightarrow>
            let s0 = forget_session_entries (se_session_id (sessions s ! 0)) s
            in s0\<lparr>sessions := (sessions s0)[0 := fresh_session service_name client_info session_id (sessions s0 ! 0)]\<rparr>)
      in (CountTrackedSessionsLocked s1, s1))"

text \<open>The result: whether the session was known, its entry, the sessions left, the state.\<close>

definition ForgetSessionLocked :: "u64 \<Rightarrow> trace_tables \<Rightarrow> bool \<times> SessionEntry option \<times> nat \<times> trace_tables" where
  "ForgetSessionLocked session_id s =
     (let out_entry = FindSessionEntryLocked session_id s;
          (_, ss) = update_first (\<lambda>e. se_used e \<and> se_session_id e = session_id) (\<lambda>_. empty_session) (sessions s);
          s1 = forget_session_entries session_id (s\<lparr>sessions := ss\<rparr>)
      in (out_entry \<noteq> None, out_entry, CountTrackedSessionsLocked s1, s1))"

definition CopyTrackedSessions :: "nat \<Rightarrow> trace_tables \<Rightarrow> SessionEntry list \<times> nat" where
  "CopyTrackedSessions max_entries s = CopyTrackedSessionsLocked max_entries s"

subsection \<open>Domain paths\<close>

definition refresh_domain_path :: "u64 \<times> string \<times> u32 \<times> u32 \<Rightarrow> DomainPathEntry \<Rightarrow> DomainPathEntry" where
  "refresh_domain_path = (\<lambda>(now, path, parent, creator) e.
     e\<lparr>dp_relative_path := take (MaxDomainPathLength - 1) path, dp_parent_object_id := parent,
       dp_creator_command_id := creator,
       dp_created_ts_ns := (if dp_created_ts_ns e = 0 then now else dp_created_ts_ns e)\<rparr>)"

definition fresh_domain_path ::
  "u64 \<times> u32 \<Rightarrow> u64 \<times> string \<times> u32 \<times> u32 \<Rightarrow> DomainPathEntry \<Rightarrow> DomainPathEntry" where
  "fresh_domain_path = (\<lambda>(session_id, object_id) (now, path, parent, creator) e.
     e\<lparr>dp_used := True, dp_session_id := session_id, dp_object_id := object_id, dp_parent_object_id := parent,
       dp_creator_command_id := creator, dp_created_ts_ns := now, dp_close_seen_ts_ns := 0,
       dp_close_observed := False, dp_relative_path := take (MaxDomainPathLength - 1) path\<rparr>)"

definition RememberDomainPath ::
  "u64 \<Rightarrow> u64 \<Rightarrow> u32 \<Rightarrow> string option \<Rightarrow> u32 \<Rightarrow> u32 \<Rightarrow> trace_tables \<Rightarrow> trace_tables" where
  "RememberDomainPath now session_id object_id relative_path parent creator s =
     (case relative_path of None \<Rightarrow> s
      | Some path \<Rightarrow>
          if object_id = 0 \<or> path = [] then s
          else s\<lparr>domain_paths := snd (remember_slot
                   (\<lambda>e. dp_used e \<and> dp_session_id e = session_id \<and> dp_object_id e = object_id) dp_used
                   (refresh_domain_path (now, path, parent, creator))
                   (fresh_domain_path (session_id, object_id) (now, path, parent, creator))
                   (domain_paths s))\<rparr>)"

definition close_domain_path :: "u64 \<Rightarrow> DomainPathEntry \<Rightarrow> DomainPathEntry" where
  "close_domain_path now e = e\<lparr>dp_close_observed := True, dp_close_seen_ts_ns := now\<rparr>"

definition MarkDomainPathCloseObserved ::
  "u64 \<Rightarrow> u64 \<Rightarrow> u32 \<Rightarrow> trace_tables \<Rightarrow> DomainPathEntry option \<times> trace_tables" where
  "MarkDomainPathCloseObserved now session_id object_id s =
     (if object_id = 0 then (None, s)
      else let (r, ds) = update_first (\<lambda>e. dp_used e \<and> dp_session_id e = session_id \<and> dp_object_id e = object_id)
                           (close_domain_path now) (domain_paths s)
           in (r, s\<lparr>domain_paths := ds\<rparr>))"

definition GetTrackedDomainPath :: "u64 \<Rightarrow> u32 \<Rightarrow> trace_tables \<Rightarrow> DomainPathEntry option" where
  "GetTrackedDomainPath session_id object_id s =
     List.find (\<lambda>e. dp_used e \<and> dp_session_id e = session_id \<and> dp_object_id e = object_id) (domain_paths s)"

definition GetRelativeDomainPath :: "cbuf option \<Rightarrow> u64 \<Rightarrow> u32 \<Rightarrow> trace_tables \<Rightarrow> cbuf option" where
  "GetRelativeDomainPath out session_id object_id s =
     (if \<not> writable out then out
      else if object_id = 0 then snprintf out ''root''
      else case GetTrackedDomainPath session_id object_id s of
          Some e \<Rightarrow> snprintf out (dp_relative_path e)
        | None \<Rightarrow> snprintf out (''obj'' @ show_dec (unat object_id)))"

definition FormatObjectPath :: "cbuf option \<Rightarrow> string \<Rightarrow> u64 \<Rightarrow> u32 \<Rightarrow> trace_tables \<Rightarrow> cbuf option" where
  "FormatObjectPath out service_name session_id object_id s =
     (if \<not> writable out then out
      else let relative_path = GetRelativeDomainPath (fresh_buf MaxDomainPathLength) session_id object_id s
           in snprintf out (service_name @ ''.'' @ buf_text relative_path))"

subsection \<open>Clone handles\<close>

definition refresh_clone :: "u64 \<times> u32 \<Rightarrow> CloneHandleEntry \<Rightarrow> CloneHandleEntry" where
  "refresh_clone = (\<lambda>(now, command_id) e.
     e\<lparr>ch_manager_command_id := command_id,
       ch_created_ts_ns := (if ch_created_ts_ns e = 0 then now else ch_created_ts_ns e),
       ch_close_observed := False, ch_close_seen_ts_ns := 0\<rparr>)"

definition fresh_clone :: "u64 \<times> s32 \<Rightarrow> u64 \<times> u32 \<Rightarrow> CloneHandleEntry \<Rightarrow> CloneHandleEntry" where
  "fresh_clone = (\<lambda>(session_id, handle) (now, command_id) e.
     e\<lparr>ch_used := True, ch_session_id := session_id, ch_handle := handle, ch_server_handle := - 1,
       ch_forward_handle := - 1, ch_has_forward_handle := False, ch_clone_registered := False,
       ch_manager_command_id := command_id, ch_created_ts_ns := now, ch_close_seen_ts_ns := 0,
       ch_close_observed := False\<rparr>)"

definition RememberCloneHandleLocked ::
  "u64 \<Rightarrow> u64 \<Rightarrow> s32 \<Rightarrow> u32 \<Rightarrow> trace_tables \<Rightarrow> CloneHandleEntry \<times> trace_tables" where
  "RememberCloneHandleLocked now session_id handle command_id s =
     (let (i, cs) = remember_slot (\<lambda>e. ch_used e \<and> ch_session_id e = session_id \<and> ch_handle e = handle) ch_used
                      (refresh_clone (now, command_id)) (fresh_clone (session_id, handle) (now, command_id))
                      (clone_handles s)
      in (cs ! i, s\<lparr>clone_handles := cs\<rparr>))"

definition register_clone :: "s32 \<times> s32 \<times> bool \<Rightarrow> CloneHandleEntry \<Rightarrow> CloneHandleEntry" where
  "register_clone = (\<lambda>(server_handle, forward_handle, has_forward_handle) e.
     e\<lparr>ch_server_handle := server_handle, ch_forward_handle := forward_handle,
       ch_has_forward_handle := has_forward_handle, ch_clone_registered := True,
       ch_close_observed := False, ch_close_seen_ts_ns := 0\<rparr>)"

text \<open>The result: the registered entry (\<^term>\<open>None\<close> for the return value false), the active clones, the state.\<close>

definition NoteCloneRegisteredLocked ::
  "u64 \<Rightarrow> u64 \<Rightarrow> s32 \<Rightarrow> s32 \<Rightarrow> s32 \<Rightarrow> bool \<Rightarrow> trace_tables \<Rightarrow> CloneHandleEntry option \<times> nat \<times> trace_tables" where
  "NoteCloneRegisteredLocked now session_id client_handle server_handle forward_handle has_forward_handle s =
     (let hit = (\<lambda>e. ch_used e \<and> ch_session_id e = session_id \<and> ch_handle e = client_handle);
          s1 = (if List.find hit (clone_handles s) = None
                then snd (RememberCloneHandleLocked now session_id client_handle 0 s) else s);
          (r, cs) = update_first hit (register_clone (server_handle, forward_handle, has_forward_handle)) (clone_handles s1);
          s2 = s1\<lparr>clone_handles := cs\<rparr>
      in (r, CountTrackedCloneHandlesForSessionLocked session_id s2, s2))"

definition close_clone :: "u64 \<Rightarrow> CloneHandleEntry \<Rightarrow> CloneHandleEntry" where
  "close_clone now e = e\<lparr>ch_close_observed := True, ch_close_seen_ts_ns := now\<rparr>"

definition MarkCloneClosedByServerHandleLocked ::
  "u64 \<Rightarrow> u64 \<Rightarrow> s32 \<Rightarrow> trace_tables \<Rightarrow> CloneHandleEntry option \<times> nat \<times> trace_tables" where
  "MarkCloneClosedByServerHandleLocked now session_id server_handle s =
     (let (r, cs) = update_first
            (\<lambda>e. ch_used e \<and> ch_session_id e = session_id \<and> ch_server_handle e = server_handle \<and> \<not> ch_close_observed e)
            (close_clone now) (clone_handles s);
          s1 = s\<lparr>clone_handles := cs\<rparr>
      in (r, CountTrackedCloneHandlesForSessionLocked session_id s1, s1))"

subsection \<open>Session handles\<close>

type_synonym handle_facts = "u64 \<times> s32 \<times> s32 \<times> bool \<times> bool"

definition refresh_session_handle :: "handle_facts \<Rightarrow> SessionHandleEntry \<Rightarrow> SessionHandleEntry" where
  "refresh_session_handle = (\<lambda>(now, peer, forward, has_forward, is_clone) e.
     e\<lparr>sh_peer_handle := peer, sh_forward_handle := forward, sh_has_forward_handle := has_forward,
       sh_is_clone := is_clone,
       sh_created_ts_ns := (if sh_created_ts_ns e = 0 then now else sh_created_ts_ns e),
       sh_close_observed := False, sh_close_seen_ts_ns := 0\<rparr>)"

definition fresh_session_handle :: "u64 \<times> s32 \<Rightarrow> handle_facts \<Rightarrow> SessionHandleEntry \<Rightarrow> SessionHandleEntry" where
  "fresh_session_handle = (\<lambda>(session_id, handle) (now, peer, forward, has_forward, is_clone) e.
     e\<lparr>sh_used := True, sh_session_id := session_id, sh_session_handle := handle, sh_peer_handle := peer,
       sh_forward_handle := forward, sh_has_forward_handle := has_forward, sh_is_clone := is_clone,
       sh_created_ts_ns := now, sh_close_seen_ts_ns := 0, sh_close_observed := False\<rparr>)"

definition RememberSessionHandleLocked ::
  "u64 \<Rightarrow> u64 \<Rightarrow> s32 \<Rightarrow> s32 \<Rightarrow> s32 \<Rightarrow> bool \<Rightarrow> bool \<Rightarrow> trace_tables \<Rightarrow> SessionHandleEntry \<times> trace_tables" where
  "RememberSessionHandleLocked now session_id handle peer forward has_forward is_clone s =
     (let (i, hs) = remember_slot (\<lambda>e. sh_used e \<and> sh_session_id e = session_id \<and> sh_session_handle e = handle) sh_used
                      (refresh_session_handle (now, peer, forward, has_forward, is_clone))
                      (fresh_session_handle (session_id, handle) (now, peer, forward, has_forward, is_clone))
                      (session_handles s)
      in (hs ! i, s\<lparr>session_handles := hs\<rparr>))"

definition close_session_handle :: "u64 \<Rightarrow> SessionHandleEntry \<Rightarrow> SessionHandleEntry" where
  "close_session_handle now e = e\<lparr>sh_close_observed := True, sh_close_seen_ts_ns := now\<rparr>"

text \<open>The result: the closed entry, the handles still active, all handles, the state.\<close>

definition MarkSessionHandleCloseObservedLocked ::
  "u64 \<Rightarrow> u64 \<Rightarrow> s32 \<Rightarrow> trace_tables \<Rightarrow> SessionHandleEntry option \<times> nat \<times> nat \<times> trace_tables" where
  "MarkSessionHandleCloseObservedLocked now session_id handle s =
     (let (r, hs) = update_first (\<lambda>e. sh_used e \<and> sh_session_id e = session_id \<and> sh_session_handle e = handle)
                      (close_session_handle now) (session_handles s);
          s1 = s\<lparr>session_handles := hs\<rparr>
      in (r, CountTrackedSessionHandlesForSessionLocked session_id True s1,
          CountTrackedSessionHandlesForSessionLocked session_id False s1, s1))"

subsection \<open>The tables are slot tables\<close>

definition dp_key :: "DomainPathEntry \<Rightarrow> u64 \<times> u32" where "dp_key e = (dp_session_id e, dp_object_id e)"
definition ch_key :: "CloneHandleEntry \<Rightarrow> u64 \<times> s32" where "ch_key e = (ch_session_id e, ch_handle e)"
definition sh_key :: "SessionHandleEntry \<Rightarrow> u64 \<times> s32" where "sh_key e = (sh_session_id e, sh_session_handle e)"

definition refresh_session :: "string \<times> MitmProcessInfo \<Rightarrow> SessionEntry \<Rightarrow> SessionEntry" where
  "refresh_session a e = e\<lparr>se_service_name := fst a, se_client_info := snd a\<rparr>"

definition open_session :: "u64 \<Rightarrow> string \<times> MitmProcessInfo \<Rightarrow> SessionEntry \<Rightarrow> SessionEntry" where
  "open_session k a e = fresh_session (fst a) (snd a) k e"

interpretation paths:
  slot_table dp_used dp_key refresh_domain_path fresh_domain_path "\<lambda>_. empty_domain_path"
  by unfold_locales
    (auto simp: refresh_domain_path_def fresh_domain_path_def dp_key_def empty_domain_path_def split: prod.splits)

interpretation clones:
  slot_table ch_used ch_key refresh_clone fresh_clone "\<lambda>_. empty_clone_handle"
  by unfold_locales
    (auto simp: refresh_clone_def fresh_clone_def ch_key_def empty_clone_handle_def split: prod.splits)

interpretation handles:
  slot_table sh_used sh_key refresh_session_handle fresh_session_handle "\<lambda>_. empty_session_handle"
  by unfold_locales
    (auto simp: refresh_session_handle_def fresh_session_handle_def sh_key_def empty_session_handle_def
      split: prod.splits)

interpretation session_table:
  slot_table se_used se_session_id refresh_session open_session "\<lambda>_. empty_session"
  by unfold_locales (auto simp: refresh_session_def open_session_def fresh_session_def empty_session_def)

subsection \<open>The invariant\<close>

definition tables_ok :: "trace_tables \<Rightarrow> bool" where
  "tables_ok s \<longleftrightarrow> paths.table_ok MaxTrackedDomainPaths (domain_paths s)
     \<and> session_table.table_ok MaxTrackedSessions (sessions s)
     \<and> handles.table_ok MaxTrackedSessionHandles (session_handles s)
     \<and> clones.table_ok MaxTrackedCloneHandles (clone_handles s)"

text \<open>The loops' tests as tests on keys.\<close>

lemma dp_hit: "(\<lambda>e. dp_used e \<and> dp_session_id e = a \<and> dp_object_id e = b) = paths.hit (a, b)"
  by (auto simp: fun_eq_iff paths.hit_def dp_key_def)

lemma ch_hit: "(\<lambda>e. ch_used e \<and> ch_session_id e = a \<and> ch_handle e = b) = clones.hit (a, b)"
  by (auto simp: fun_eq_iff clones.hit_def ch_key_def)

lemma sh_hit: "(\<lambda>e. sh_used e \<and> sh_session_id e = a \<and> sh_session_handle e = b) = handles.hit (a, b)"
  by (auto simp: fun_eq_iff handles.hit_def sh_key_def)

lemma se_hit: "(\<lambda>e. se_used e \<and> se_session_id e = a) = session_table.hit a"
  by (auto simp: fun_eq_iff session_table.hit_def)

lemma forget_paths_eq:
  "domain_paths (ForgetDomainPathsForSessionLocked k s) =
     wipe_slots (\<lambda>e. dp_used e \<and> fst (dp_key e) = k) (\<lambda>_. empty_domain_path) (domain_paths s)"
  by (simp add: ForgetDomainPathsForSessionLocked_def dp_key_def)

lemma forget_clones_eq:
  "clone_handles (ForgetCloneHandlesForSessionLocked k s) =
     wipe_slots (\<lambda>e. ch_used e \<and> fst (ch_key e) = k) (\<lambda>_. empty_clone_handle) (clone_handles s)"
  by (simp add: ForgetCloneHandlesForSessionLocked_def ch_key_def)

lemma forget_handles_eq:
  "session_handles (ForgetSessionHandlesForSessionLocked k s) =
     wipe_slots (\<lambda>e. sh_used e \<and> fst (sh_key e) = k) (\<lambda>_. empty_session_handle) (session_handles s)"
  by (simp add: ForgetSessionHandlesForSessionLocked_def sh_key_def)

lemma forget_other_tables [simp]:
  "sessions (ForgetDomainPathsForSessionLocked k s) = sessions s"
  "session_handles (ForgetDomainPathsForSessionLocked k s) = session_handles s"
  "clone_handles (ForgetDomainPathsForSessionLocked k s) = clone_handles s"
  "sessions (ForgetSessionHandlesForSessionLocked k s) = sessions s"
  "domain_paths (ForgetSessionHandlesForSessionLocked k s) = domain_paths s"
  "clone_handles (ForgetSessionHandlesForSessionLocked k s) = clone_handles s"
  "sessions (ForgetCloneHandlesForSessionLocked k s) = sessions s"
  "domain_paths (ForgetCloneHandlesForSessionLocked k s) = domain_paths s"
  "session_handles (ForgetCloneHandlesForSessionLocked k s) = session_handles s"
  by (simp_all add: ForgetDomainPathsForSessionLocked_def ForgetSessionHandlesForSessionLocked_def
      ForgetCloneHandlesForSessionLocked_def)

lemma forget_session_entries_tables:
  "sessions (forget_session_entries k s) = sessions s"
  "domain_paths (forget_session_entries k s) =
     wipe_slots (\<lambda>e. dp_used e \<and> fst (dp_key e) = k) (\<lambda>_. empty_domain_path) (domain_paths s)"
  "session_handles (forget_session_entries k s) =
     wipe_slots (\<lambda>e. sh_used e \<and> fst (sh_key e) = k) (\<lambda>_. empty_session_handle) (session_handles s)"
  "clone_handles (forget_session_entries k s) =
     wipe_slots (\<lambda>e. ch_used e \<and> fst (ch_key e) = k) (\<lambda>_. empty_clone_handle) (clone_handles s)"
  by (simp_all add: forget_session_entries_def forget_paths_eq forget_clones_eq forget_handles_eq)

lemma forget_session_entries_ok: "tables_ok s \<Longrightarrow> tables_ok (forget_session_entries k s)"
  by (simp add: tables_ok_def forget_session_entries_tables
      paths.wipe_ok [where q = "\<lambda>x. fst x = k"] handles.wipe_ok [where q = "\<lambda>x. fst x = k"]
      clones.wipe_ok [where q = "\<lambda>x. fst x = k"])

lemma RememberSession_sessions:
  "sessions (snd (RememberSessionLocked name k client s)) = snd (session_table.remember k (name, client) (sessions s))"
  by (simp add: RememberSessionLocked_def session_table.remember_def remember_slot_def Let_def se_hit
      forget_session_entries_tables refresh_session_def open_session_def split: sum.splits option.splits)

lemma RememberSession_ok: "tables_ok s \<Longrightarrow> tables_ok (snd (RememberSessionLocked name k client s))"
proof -
  assume ok: "tables_ok s"
  let ?s = "snd (RememberSessionLocked name k client s)"
  have s: "session_table.table_ok MaxTrackedSessions (sessions ?s)"
    unfolding RememberSession_sessions using ok by (simp add: tables_ok_def session_table.remember_ok)
  have "(domain_paths ?s = domain_paths s \<and> session_handles ?s = session_handles s \<and> clone_handles ?s = clone_handles s)
    \<or> (\<exists>j. domain_paths ?s = domain_paths (forget_session_entries j s)
         \<and> session_handles ?s = session_handles (forget_session_entries j s)
         \<and> clone_handles ?s = clone_handles (forget_session_entries j s))"
    by (auto simp: RememberSessionLocked_def Let_def split: sum.splits option.splits)
  with s ok forget_session_entries_ok [OF ok] show ?thesis by (auto simp: tables_ok_def)
qed

lemma ForgetSession_ok: "tables_ok s \<Longrightarrow> tables_ok (snd (snd (snd (ForgetSessionLocked k s))))"
proof -
  assume ok: "tables_ok s"
  with ok show ?thesis
    by (auto simp: ForgetSessionLocked_def Let_def case_prod_beta tables_ok_def session_table.wipe_first_ok
        intro!: forget_session_entries_ok [unfolded tables_ok_def])
qed

text \<open>The remaining operations touch one table each.\<close>

lemma RememberDomainPath_paths:
  "domain_paths (RememberDomainPath now a b p parent creator s) =
     (case p of None \<Rightarrow> domain_paths s
      | Some path \<Rightarrow> if b = 0 \<or> path = [] then domain_paths s
                     else snd (paths.remember (a, b) (now, path, parent, creator) (domain_paths s)))"
  by (auto simp: RememberDomainPath_def paths.remember_def dp_hit split: option.splits)

lemma RememberDomainPath_others [simp]:
  "sessions (RememberDomainPath now a b p parent creator s) = sessions s"
  "session_handles (RememberDomainPath now a b p parent creator s) = session_handles s"
  "clone_handles (RememberDomainPath now a b p parent creator s) = clone_handles s"
  by (auto simp: RememberDomainPath_def split: option.splits)

lemma RememberDomainPath_ok: "tables_ok s \<Longrightarrow> tables_ok (RememberDomainPath now a b p parent creator s)"
  by (auto simp: tables_ok_def RememberDomainPath_paths paths.remember_ok split: option.splits)

lemma MarkDomainPath_ok: "tables_ok s \<Longrightarrow> tables_ok (snd (MarkDomainPathCloseObserved now a b s))"
  by (auto simp: tables_ok_def MarkDomainPathCloseObserved_def case_prod_beta Let_def close_domain_path_def dp_key_def
      intro!: paths.update_first_ok)

lemma RememberClone_clones:
  "clone_handles (snd (RememberCloneHandleLocked now a b c s)) = snd (clones.remember (a, b) (now, c) (clone_handles s))"
  by (simp add: RememberCloneHandleLocked_def clones.remember_def ch_hit case_prod_beta)

lemma RememberClone_ok: "tables_ok s \<Longrightarrow> tables_ok (snd (RememberCloneHandleLocked now a b c s))"
proof -
  assume "tables_ok s"
  then show ?thesis
    unfolding tables_ok_def RememberClone_clones
    by (simp add: clones.remember_ok) (simp add: RememberCloneHandleLocked_def case_prod_beta)
qed

lemma NoteClone_ok: "tables_ok s \<Longrightarrow> tables_ok (snd (snd (NoteCloneRegisteredLocked now a b c d h s)))"
proof -
  assume "tables_ok s"
  with RememberClone_ok [OF this, of now a b 0] show ?thesis
    by (auto simp: NoteCloneRegisteredLocked_def Let_def case_prod_beta tables_ok_def register_clone_def ch_key_def
        intro!: clones.update_first_ok)
qed

lemma MarkClone_ok: "tables_ok s \<Longrightarrow> tables_ok (snd (snd (MarkCloneClosedByServerHandleLocked now a b s)))"
  by (auto simp: tables_ok_def MarkCloneClosedByServerHandleLocked_def case_prod_beta Let_def close_clone_def ch_key_def
      intro!: clones.update_first_ok)

lemma RememberHandle_handles:
  "session_handles (snd (RememberSessionHandleLocked now a b p f h c s)) =
     snd (handles.remember (a, b) (now, p, f, h, c) (session_handles s))"
  by (simp add: RememberSessionHandleLocked_def handles.remember_def sh_hit case_prod_beta)

lemma RememberHandle_ok: "tables_ok s \<Longrightarrow> tables_ok (snd (RememberSessionHandleLocked now a b p f h c s))"
proof -
  assume "tables_ok s"
  then show ?thesis
    unfolding tables_ok_def RememberHandle_handles
    by (simp add: handles.remember_ok) (simp add: RememberSessionHandleLocked_def case_prod_beta)
qed

lemma MarkHandle_ok: "tables_ok s \<Longrightarrow> tables_ok (snd (snd (snd (MarkSessionHandleCloseObservedLocked now a b s))))"
  by (auto simp: tables_ok_def MarkSessionHandleCloseObservedLocked_def case_prod_beta Let_def
      close_session_handle_def sh_key_def intro!: handles.update_first_ok)

lemma initial_tables_ok: "tables_ok initial_tables"
  by (simp add: tables_ok_def initial_tables_def paths.table_ok_def session_table.table_ok_def handles.table_ok_def
      clones.table_ok_def empty_domain_path_def empty_session_def empty_session_handle_def empty_clone_handle_def
      MaxTrackedDomainPaths_def MaxTrackedSessions_def MaxTrackedSessionHandles_def MaxTrackedCloneHandles_def)

lemma resets_ok:
  assumes "tables_ok s"
  shows "tables_ok (ResetDomainPathState s)" "tables_ok (ResetCloneHandleState s)"
    "tables_ok (ResetSessionHandleState s)" "tables_ok (ResetSessionState s)"
  using assms
  by (simp_all add: tables_ok_def ResetDomainPathState_def ResetCloneHandleState_def ResetSessionHandleState_def
      ResetSessionState_def paths.table_ok_def session_table.table_ok_def handles.table_ok_def clones.table_ok_def
      empty_session_def empty_session_handle_def empty_clone_handle_def reset_domain_path_def)

text \<open>The states the module can reach: every operation, in any order, from the static initialisers.\<close>

inductive tracked :: "trace_tables \<Rightarrow> bool" where
  tracked_initial: "tracked initial_tables"
| tracked_reset_paths: "tracked s \<Longrightarrow> tracked (ResetDomainPathState s)"
| tracked_reset_clones: "tracked s \<Longrightarrow> tracked (ResetCloneHandleState s)"
| tracked_reset_handles: "tracked s \<Longrightarrow> tracked (ResetSessionHandleState s)"
| tracked_reset_sessions: "tracked s \<Longrightarrow> tracked (ResetSessionState s)"
| tracked_session: "tracked s \<Longrightarrow> tracked (snd (RememberSessionLocked name k client s))"
| tracked_forget: "tracked s \<Longrightarrow> tracked (snd (snd (snd (ForgetSessionLocked k s))))"
| tracked_path: "tracked s \<Longrightarrow> tracked (RememberDomainPath now a b p parent creator s)"
| tracked_path_closed: "tracked s \<Longrightarrow> tracked (snd (MarkDomainPathCloseObserved now a b s))"
| tracked_clone: "tracked s \<Longrightarrow> tracked (snd (RememberCloneHandleLocked now a h c s))"
| tracked_registered: "tracked s \<Longrightarrow> tracked (snd (snd (NoteCloneRegisteredLocked now a h srv fwd has s)))"
| tracked_clone_closed: "tracked s \<Longrightarrow> tracked (snd (snd (MarkCloneClosedByServerHandleLocked now a h s)))"
| tracked_handle: "tracked s \<Longrightarrow> tracked (snd (RememberSessionHandleLocked now a h peer fwd has cl s))"
| tracked_handle_closed: "tracked s \<Longrightarrow> tracked (snd (snd (snd (MarkSessionHandleCloseObservedLocked now a h s))))"

lemmas table_operations_ok =
  resets_ok RememberSession_ok ForgetSession_ok RememberDomainPath_ok MarkDomainPath_ok RememberClone_ok
  NoteClone_ok MarkClone_ok RememberHandle_ok MarkHandle_ok

lemma tracked_ok: "tracked s \<Longrightarrow> tables_ok s"
  by (induction rule: tracked.induct) (rule initial_tables_ok table_operations_ok; assumption?)+

subsection \<open>What the tables promise\<close>

lemma remembered_in_table:
  assumes "tables_ok s"
  shows "\<exists>e \<in> set (sessions (snd (RememberSessionLocked name k client s))). se_used e \<and> se_session_id e = k"
    "ob \<noteq> 0 \<Longrightarrow> path \<noteq> [] \<Longrightarrow> \<exists>e \<in> set (domain_paths (RememberDomainPath now k ob (Some path) parent creator s)).
       dp_used e \<and> dp_key e = (k, ob)"
    "RememberSessionHandleLocked now k h peer forward has cl s = (e, s') \<Longrightarrow>
       e \<in> set (session_handles s') \<and> sh_used e \<and> sh_key e = (k, h)"
    "RememberCloneHandleLocked now k h c s = (e', s') \<Longrightarrow> e' \<in> set (clone_handles s') \<and> ch_used e' \<and> ch_key e' = (k, h)"
proof -
  note ok = assms [unfolded tables_ok_def]
  show "\<exists>e \<in> set (sessions (snd (RememberSessionLocked name k client s))). se_used e \<and> se_session_id e = k"
    unfolding RememberSession_sessions
    using session_table.remember_slot_in_table [of MaxTrackedSessions "sessions s" k "(name, client)"] ok prod.collapse by metis
  show "\<exists>e \<in> set (domain_paths (RememberDomainPath now k ob (Some path) parent creator s)). dp_used e \<and> dp_key e = (k, ob)"
    if "ob \<noteq> 0" "path \<noteq> []"
  proof -
    obtain i t where r: "paths.remember (k, ob) (now, path, parent, creator) (domain_paths s) = (i, t)" by (rule prod.exhaust)
    with that have "domain_paths (RememberDomainPath now k ob (Some path) parent creator s) = t"
      by (simp add: RememberDomainPath_paths)
    with paths.remember_slot_in_table [OF _ r] ok show ?thesis by auto
  qed
  show "e \<in> set (session_handles s') \<and> sh_used e \<and> sh_key e = (k, h)"
    if "RememberSessionHandleLocked now k h peer forward has cl s = (e, s')"
  proof -
    obtain i t where r: "handles.remember (k, h) (now, peer, forward, has, cl) (session_handles s) = (i, t)" by (rule prod.exhaust)
    with that have "e = t ! i" "session_handles s' = t"
      by (auto simp: RememberSessionHandleLocked_def handles.remember_def sh_hit)
    with handles.remember_slot_in_table [OF _ r] ok show ?thesis by auto
  qed
  show "e' \<in> set (clone_handles s') \<and> ch_used e' \<and> ch_key e' = (k, h)"
    if "RememberCloneHandleLocked now k h c s = (e', s')"
  proof -
    obtain i t where r: "clones.remember (k, h) (now, c) (clone_handles s) = (i, t)" by (rule prod.exhaust)
    with that have "e' = t ! i" "clone_handles s' = t"
      by (auto simp: RememberCloneHandleLocked_def clones.remember_def ch_hit)
    with clones.remember_slot_in_table [OF _ r] ok show ?thesis by auto
  qed
qed

text \<open>
  C27. In every reachable state each table keeps its fixed size and holds at most one live
  entry per key: one per session, one per session and object, one per session and handle.
  And what is remembered next lands in a slot of the table, whether the key is known, a slot is
  free or the table is full: afterwards the table holds a live entry with that key.
\<close>

theorem tracked_tables_bounded_and_unique:
  assumes "tracked s"
  shows "length (sessions s) = 64 \<and> distinct (map se_session_id (filter se_used (sessions s)))
    \<and> length (domain_paths s) = 256 \<and> distinct (map dp_key (filter dp_used (domain_paths s)))
    \<and> length (session_handles s) = 128 \<and> distinct (map sh_key (filter sh_used (session_handles s)))
    \<and> length (clone_handles s) = 128 \<and> distinct (map ch_key (filter ch_used (clone_handles s)))
    \<and> (\<exists>e \<in> set (sessions (snd (RememberSessionLocked name k client s))). se_used e \<and> se_session_id e = k)
    \<and> (ob \<noteq> 0 \<and> path \<noteq> [] \<longrightarrow> (\<exists>e \<in> set (domain_paths (RememberDomainPath now k ob (Some path) parent creator s)).
         dp_used e \<and> dp_key e = (k, ob)))
    \<and> (case RememberSessionHandleLocked now k h peer forward has cl s of (e, s') \<Rightarrow>
         e \<in> set (session_handles s') \<and> sh_used e \<and> sh_key e = (k, h))
    \<and> (case RememberCloneHandleLocked now k h c s of (e, s') \<Rightarrow>
         e \<in> set (clone_handles s') \<and> ch_used e \<and> ch_key e = (k, h))"
proof -
  note ok = tracked_ok [OF assms]
  have tables: "paths.table_ok 256 (domain_paths s)" "session_table.table_ok 64 (sessions s)"
    "handles.table_ok 128 (session_handles s)" "clones.table_ok 128 (clone_handles s)"
    using ok unfolding tables_ok_def MaxTrackedDomainPaths_def MaxTrackedSessions_def MaxTrackedSessionHandles_def
      MaxTrackedCloneHandles_def by blast+
  have remembered: "case RememberSessionHandleLocked now k h peer forward has cl s of (e, s') \<Rightarrow>
         e \<in> set (session_handles s') \<and> sh_used e \<and> sh_key e = (k, h)"
    "case RememberCloneHandleLocked now k h c s of (e, s') \<Rightarrow> e \<in> set (clone_handles s') \<and> ch_used e \<and> ch_key e = (k, h)"
    using remembered_in_table(3,4) [OF ok] by (simp_all split: prod.split)
  show ?thesis
    by (intro conjI impI remembered remembered_in_table(1,2) [OF ok] paths.table_ok_length [OF tables(1)]
        session_table.table_ok_length [OF tables(2)] handles.table_ok_length [OF tables(3)] clones.table_ok_length [OF tables(4)]
        paths.table_ok_distinct [OF tables(1)] session_table.table_ok_distinct [OF tables(2)]
        handles.table_ok_distinct [OF tables(3)] clones.table_ok_distinct [OF tables(4)]) auto
qed

lemma tracked_example:
  "tracked (RememberDomainPath 9 5 3 (Some ''root.cmd4[0]'') 0 4
     (snd (RememberSessionLocked ''nifm:u'' 5 no_client initial_tables)))"
  by (intro tracked.intros)

theorem tracked_tables_bounded_and_unique_witness:
  "let s = RememberDomainPath 9 5 3 (Some ''root.cmd4[0]'') 0 4 (snd (RememberSessionLocked ''nifm:u'' 5 no_client initial_tables))
   in length (sessions s) = 64 \<and> (\<exists>e \<in> set (sessions (snd (RememberSessionLocked ''ssl'' 6 no_client s))). se_used e \<and> se_session_id e = 6)
     \<and> (\<exists>e \<in> set (domain_paths (RememberDomainPath 10 5 7 (Some ''root.cmd9[0]'') 0 9 s)). dp_used e \<and> dp_key e = (5, 7))"
  using tracked_tables_bounded_and_unique [OF tracked_example, of "''ssl''" 6 no_client]
    tracked_tables_bounded_and_unique [OF tracked_example, of "''ssl''" 5 no_client 7 "''root.cmd9[0]''" 10 0 9]
  by (simp add: Let_def)

lemma GetTracked_lookup: "GetTrackedDomainPath a b s = paths.lookup (domain_paths s) (a, b)"
  by (simp add: GetTrackedDomainPath_def paths.lookup_def dp_hit)

lemma tracked_paths_ok: "tracked s \<Longrightarrow> paths.table_ok MaxTrackedDomainPaths (domain_paths s)"
  using tracked_ok by (simp add: tables_ok_def)

lemma dp_fields_remembered:
  "dp_relative_path (refresh_domain_path (now, p, q, c) e) = take 95 p"
  "dp_relative_path (fresh_domain_path k (now, p, q, c) e) = take 95 p"
  by (auto simp: refresh_domain_path_def fresh_domain_path_def MaxDomainPathLength_def split: prod.splits)

text \<open>
  The path remembered for an object is the one the trace prints for it: right after
  remembering, the printed object path is the service name, a dot and the remembered
  path, cut to the 95 characters an entry holds and to the caller's buffer. The path of
  any other object is unchanged, unless the table was full and the object owned slot 0.
\<close>

theorem remembered_path_is_printed:
  assumes "tracked s" "object_id \<noteq> 0" "path \<noteq> []"
    and s'_def: "s' = RememberDomainPath now session_id object_id (Some path) parent creator s"
  shows "buf_text (FormatObjectPath (fresh_buf n) service session_id object_id s') = take (n - 1) (service @ ''.'' @ take 95 path)
    \<and> ((session', object') \<noteq> (session_id, object_id) \<longrightarrow>
        GetTrackedDomainPath session' object' s' = GetTrackedDomainPath session' object' s
        \<or> (\<forall>e \<in> set (domain_paths s). dp_used e) \<and> dp_key (domain_paths s ! 0) = (session', object'))"
proof -
  let ?t = "domain_paths s" let ?k = "(session_id, object_id)"
  have t': "domain_paths s' = snd (paths.remember ?k (now, path, parent, creator) ?t)"
    unfolding s'_def RememberDomainPath_paths using assms(2,3) by simp
  obtain e where e: "paths.lookup (domain_paths s') ?k = Some e" "dp_relative_path e = take 95 path"
    using paths.remember_found [OF tracked_paths_ok [OF assms(1)], of ?k "(now, path, parent, creator)"]
    by (auto simp: t' dp_fields_remembered split: option.splits)
  have "buf_text (FormatObjectPath (fresh_buf n) service session_id object_id s') = take (n - 1) (service @ ''.'' @ take 95 path)"
  proof (cases "n = 0")
    case True
    then show ?thesis by (simp add: FormatObjectPath_def) (simp add: buf_text_def fresh_buf_def)
  next
    case False
    with e assms(2) show ?thesis
      by (simp add: FormatObjectPath_def GetRelativeDomainPath_def GetTracked_lookup MaxDomainPathLength_def
          take_Cons' Let_def)
  qed
  moreover have "GetTrackedDomainPath session' object' s' = GetTrackedDomainPath session' object' s
        \<or> (\<forall>e \<in> set ?t. dp_used e) \<and> dp_key (?t ! 0) = (session', object')"
    if "(session', object') \<noteq> ?k"
    using paths.remember_other [OF tracked_paths_ok [OF assms(1)] that]
    by (auto simp: GetTracked_lookup t' split: if_splits)
  ultimately show ?thesis by blast
qed

theorem remembered_path_is_printed_witness:
  "buf_text (FormatObjectPath (fresh_buf 64) ''nifm:u'' 5 3
     (RememberDomainPath 9 5 3 (Some ''root.cmd4[0]'') 0 4 initial_tables)) = ''nifm:u.root.cmd4[0]''"
  using remembered_path_is_printed [OF tracked_initial _ _ refl, of 3 "''root.cmd4[0]''" 64 "''nifm:u''" 5 9 0 4] by simp

subsection \<open>Forgetting and evicting sessions\<close>

definition session_entries :: "u64 \<Rightarrow> trace_tables \<Rightarrow> bool" where
  "session_entries k s \<longleftrightarrow> (\<exists>e \<in> set (domain_paths s). dp_used e \<and> dp_session_id e = k)
     \<or> (\<exists>e \<in> set (session_handles s). sh_used e \<and> sh_session_id e = k)
     \<or> (\<exists>e \<in> set (clone_handles s). ch_used e \<and> ch_session_id e = k)"

lemma forgotten_no_entries: "\<not> session_entries k (forget_session_entries k s)"
  by (auto simp: session_entries_def forget_session_entries_tables wipe_slots_def dp_key_def sh_key_def ch_key_def
      empty_domain_path_def empty_session_handle_def empty_clone_handle_def)

lemma forgotten_others:
  assumes "a \<noteq> k"
  shows "paths.lookup (domain_paths (forget_session_entries k s)) (a, b) = paths.lookup (domain_paths s) (a, b)"
    "handles.lookup (session_handles (forget_session_entries k s)) (a, h) = handles.lookup (session_handles s) (a, h)"
    "clones.lookup (clone_handles (forget_session_entries k s)) (a, h) = clones.lookup (clone_handles s) (a, h)"
  using assms
  by (simp_all add: forget_session_entries_tables paths.wipe_lookup [where q = "\<lambda>x. fst x = k"]
      handles.wipe_lookup [where q = "\<lambda>x. fst x = k"] clones.wipe_lookup [where q = "\<lambda>x. fst x = k"])

lemma FindSession_lookup: "FindSessionEntryLocked k s = session_table.lookup (sessions s) k"
  by (simp add: FindSessionEntryLocked_def session_table.lookup_def se_hit)

lemma tracked_sessions_ok: "tracked s \<Longrightarrow> session_table.table_ok MaxTrackedSessions (sessions s)"
  using tracked_ok by (simp add: tables_ok_def)

lemma forget_session_facts:
  assumes "tracked s" "ForgetSessionLocked k s = (found, out_entry, remaining, s')"
  shows "(found \<longleftrightarrow> FindSessionEntryLocked k s \<noteq> None) \<and> out_entry = FindSessionEntryLocked k s
    \<and> FindSessionEntryLocked k s' = None \<and> \<not> session_entries k s' \<and> remaining = CountTrackedSessionsLocked s'
    \<and> (\<forall>j b. j \<noteq> k \<longrightarrow> FindSessionEntryLocked j s' = FindSessionEntryLocked j s
         \<and> GetTrackedDomainPath j b s' = GetTrackedDomainPath j b s)"
proof -
  let ?ss = "snd (update_first (session_table.hit k) (\<lambda>_. empty_session) (sessions s))"
  have s': "s' = forget_session_entries k (s\<lparr>sessions := ?ss\<rparr>)"
    and o: "out_entry = FindSessionEntryLocked k s" "found = (FindSessionEntryLocked k s \<noteq> None)"
      "remaining = CountTrackedSessionsLocked s'"
    using assms(2) by (auto simp: ForgetSessionLocked_def Let_def case_prod_beta se_hit)
  have f: "FindSessionEntryLocked j s' = (if j = k then None else FindSessionEntryLocked j s)" for j
    unfolding FindSession_lookup s' forget_session_entries_tables(1)
    using session_table.wipe_first_lookup [OF tracked_sessions_ok [OF assms(1)]] by simp
  have g: "GetTrackedDomainPath j b s' = GetTrackedDomainPath j b s" if "j \<noteq> k" for j b
    unfolding GetTracked_lookup s' using forgotten_others(1) [OF that] by simp
  from o f g forgotten_no_entries [of k] show ?thesis by (simp add: s')
qed

text \<open>
  C30. Forgetting a session reports whether it was known and leaves nothing of it: no
  session entry, no domain path, no session handle, no clone handle. Every other
  session keeps its entry, and its paths are found as before.
\<close>

theorem forget_session_complete:
  assumes "tracked s" "ForgetSessionLocked k s = (found, out_entry, remaining, s')"
  shows "(found \<longleftrightarrow> FindSessionEntryLocked k s \<noteq> None) \<and> out_entry = FindSessionEntryLocked k s
    \<and> FindSessionEntryLocked k s' = None \<and> \<not> session_entries k s' \<and> remaining = CountTrackedSessionsLocked s'
    \<and> (\<forall>j b. j \<noteq> k \<longrightarrow> FindSessionEntryLocked j s' = FindSessionEntryLocked j s
         \<and> GetTrackedDomainPath j b s' = GetTrackedDomainPath j b s)"
  by (rule forget_session_facts [OF assms])

theorem forget_session_complete_witness:
  "\<not> session_entries 5 (snd (snd (snd (ForgetSessionLocked 5 (RememberDomainPath 9 5 3 (Some ''root.cmd4[0]'') 0 4
     (snd (RememberSessionLocked ''nifm:u'' 5 no_client initial_tables)))))))"
  using forget_session_complete [OF tracked_example] prod.collapse by metis

lemma filter_used_full: "\<forall>e \<in> set t. used e \<Longrightarrow> filter used t = t"
  by simp

lemma count_fresh_slot:
  "i < length t \<Longrightarrow> \<not> p (t ! i) \<Longrightarrow> p e \<Longrightarrow> count_slots p (t[i := e]) = Suc (count_slots p t)"
  by (subst (2) id_take_nth_drop [of i t]) (simp_all add: count_slots_def upd_conv_take_nth_drop)

text \<open>
  C31. A new session always gets a slot, with its service and its client. While a slot is free
  the count goes up by one and nothing else changes: every other session keeps its entry, and
  the paths and handles stay. When all 64 slots are taken, the session of slot 0 is given up as
  a whole, so that neither its entry nor any of its paths and handles stays behind, while every
  other session keeps its entry and the table still counts 64.
\<close>

theorem full_session_table_evicts_whole_session:
  assumes "tables_ok s" "FindSessionEntryLocked k s = None"
    and victim: "v = se_session_id (sessions s ! 0)" and r: "RememberSessionLocked name k client s = (n, s')"
  shows "(\<exists>e. FindSessionEntryLocked k s' = Some e \<and> se_service_name e = name \<and> se_client_info e = client)
    \<and> (if CountTrackedSessionsLocked s < 64
       then n = Suc (CountTrackedSessionsLocked s) \<and> (\<forall>j. j \<noteq> k \<longrightarrow> FindSessionEntryLocked j s' = FindSessionEntryLocked j s)
         \<and> domain_paths s' = domain_paths s \<and> session_handles s' = session_handles s \<and> clone_handles s' = clone_handles s
       else n = 64 \<and> FindSessionEntryLocked v s' = None \<and> \<not> session_entries v s'
         \<and> (\<forall>j. j \<noteq> k \<and> j \<noteq> v \<longrightarrow> FindSessionEntryLocked j s' = FindSessionEntryLocked j s))"
proof -
  let ?t = "sessions s"
  have ok: "session_table.table_ok 64 ?t"
    using assms(1) by (simp add: tables_ok_def MaxTrackedSessions_def)
  have len: "length ?t = 64" using ok by (rule session_table.table_ok_length)
  have none: "\<forall>e \<in> set ?t. \<not> (se_used e \<and> se_session_id e = k)"
    using assms(2) by (simp add: FindSessionEntryLocked_def find_None_iff)
  have t': "sessions s' = snd (session_table.remember k (name, client) ?t)"
    using RememberSession_sessions [of name k client s] r by simp
  have n: "n = CountTrackedSessionsLocked s'" using r by (auto simp: RememberSessionLocked_def Let_def)
  have found: "\<exists>e. FindSessionEntryLocked k s' = Some e \<and> se_service_name e = name \<and> se_client_info e = client"
    using session_table.remember_found [OF ok, of k "(name, client)"]
    by (auto simp: FindSession_lookup t' refresh_session_def open_session_def fresh_session_def split: option.splits)
  have others: "FindSessionEntryLocked j s' = (if (\<forall>e \<in> set ?t. se_used e) \<and> j = v then None else FindSessionEntryLocked j s)"
    if "j \<noteq> k" for j
    using session_table.remember_other [OF ok that, of "(name, client)"] assms(2) victim by (simp add: FindSession_lookup t')
  show ?thesis
  proof (cases "\<forall>e \<in> set ?t. se_used e")
    case True
    then have count: "CountTrackedSessionsLocked s = 64" by (simp add: CountTrackedSessionsLocked_def count_slots_def len)
    have vk: "v \<noteq> k" using none True len victim by (metis nth_mem zero_less_numeral)
    have "scan_slots (\<lambda>e. se_used e \<and> se_session_id e = k) se_used ?t 0 None = Inr None"
      using none True by (simp add: scan_slots_eq)
    then have s': "s' = (forget_session_entries v s)\<lparr>sessions := ?t[0 := fresh_session name client k (?t ! 0)]\<rparr>"
      using r by (auto simp: RememberSessionLocked_def Let_def victim forget_session_entries_tables)
    have "\<not> session_entries v s'" using forgotten_no_entries [of v s] by (simp add: s' session_entries_def)
    moreover have "\<forall>e \<in> set (sessions s'). se_used e"
      using True unfolding s' by (auto simp: fresh_session_def dest!: set_update_subset_insert [THEN subsetD])
    then have "n = 64" unfolding n CountTrackedSessionsLocked_def count_slots_def by (simp add: s' len)
    ultimately show ?thesis using found others [OF vk] others True count by simp
  next
    case False
    have less: "CountTrackedSessionsLocked s < 64"
      using False len unfolding CountTrackedSessionsLocked_def count_slots_def by (metis length_filter_less)
    from False obtain i where sc: "scan_slots (\<lambda>e. se_used e \<and> se_session_id e = k) se_used ?t 0 None = Inr (Some i)"
      using none by (auto simp: scan_slots_eq)
    then have i: "i < length ?t" "\<not> se_used (?t ! i)" using scan_slots_Inr(3) by metis+
    have s': "s' = s\<lparr>sessions := ?t[i := fresh_session name client k (?t ! i)]\<rparr>"
      using r sc by (auto simp: RememberSessionLocked_def Let_def)
    have "n = Suc (CountTrackedSessionsLocked s)"
      unfolding n CountTrackedSessionsLocked_def s' using i by (simp add: count_fresh_slot fresh_session_def)
    with found others False less show ?thesis by (auto simp: s')
  qed
qed

definition numbered_sessions :: "nat \<Rightarrow> SessionEntry list" where
  "numbered_sessions n = map (\<lambda>i. \<lparr>se_used = True, se_service_name = ''ssl'',
     se_client_info = no_client, se_session_id = of_nat i\<rparr>) [0..<n]"

lemma numbered_sessions:
  assumes "0 < n" "n \<le> m" "m < 2 ^ 64"
  shows "session_table.table_ok n (numbered_sessions n)" "count_slots se_used (numbered_sessions n) = n"
    "se_session_id (numbered_sessions n ! 0) = 0"
    "List.find (\<lambda>e. se_used e \<and> se_session_id e = of_nat m) (numbered_sessions n) = None"
proof -
  have u: "unat (of_nat i :: u64) = i" if "i \<le> m" for i
  proof (rule unat_of_nat_small)
    show "i < 2 ^ LENGTH(64)" using that assms(3) by simp
  qed
  have inj: "i = j" if "i \<le> m" "j \<le> m" "(of_nat i :: u64) = of_nat j" for i j :: nat
    using u [OF that(1)] u [OF that(2)] that(3) by metis
  show "session_table.table_ok n (numbered_sessions n)"
    using assms by (auto simp: numbered_sessions_def session_table.table_ok_def intro: inj)
  show "count_slots se_used (numbered_sessions n) = n"
    by (simp add: numbered_sessions_def count_slots_def comp_def)
  show "se_session_id (numbered_sessions n ! 0) = 0"
    using assms(1) by (simp add: numbered_sessions_def)
  show "List.find (\<lambda>e. se_used e \<and> se_session_id e = of_nat m) (numbered_sessions n) = None"
    using assms(2) inj [of _ m] unfolding find_None_iff by (auto simp: numbered_sessions_def) (metis less_imp_le less_irrefl order_less_le_trans order_refl)
qed

definition full_tables :: trace_tables where
  "full_tables = initial_tables\<lparr>sessions := numbered_sessions MaxTrackedSessions\<rparr>"

theorem full_session_table_evicts_whole_session_witness:
  "fst (RememberSessionLocked ''nifm:u'' (of_nat 200) no_client full_tables) = 64
   \<and> FindSessionEntryLocked 0 (snd (RememberSessionLocked ''nifm:u'' (of_nat 200) no_client full_tables)) = None"
proof -
  note n = numbered_sessions [of MaxTrackedSessions 200]
  have "tables_ok full_tables"
    using initial_tables_ok n(1) by (simp add: tables_ok_def full_tables_def MaxTrackedSessions_def)
  moreover have "FindSessionEntryLocked (of_nat 200) full_tables = None"
    using n(4) by (simp add: FindSessionEntryLocked_def full_tables_def MaxTrackedSessions_def del: of_nat_numeral)
  moreover have "\<not> CountTrackedSessionsLocked full_tables < 64"
    using n(2) by (simp add: CountTrackedSessionsLocked_def full_tables_def MaxTrackedSessions_def)
  moreover have "(0 :: u64) = se_session_id (sessions full_tables ! 0)"
    using n(3) by (simp add: full_tables_def MaxTrackedSessions_def)
  ultimately show ?thesis
    using full_session_table_evicts_whole_session [OF _ _ _ prod.collapse [symmetric]] by metis
qed

subsection \<open>Clones\<close>

lemma count_update_first:
  assumes "\<And>e. p e \<Longrightarrow> q e" "\<And>e. p e \<Longrightarrow> \<not> q (f e)" "\<exists>e \<in> set t. p e"
  shows "Suc (count_slots q (snd (update_first p f t))) = count_slots q t"
  using assms(3)
proof (induction t)
  case (Cons e es)
  then show ?case
    using assms(1,2) by (auto simp: count_slots_def Let_def case_prod_beta)
qed simp

lemma NoteClone_lookup:
  assumes "tables_ok s" "NoteCloneRegisteredLocked now k h srv fwd has s = (r, n, s')"
  shows "\<exists>e. clones.lookup (clone_handles s') (k, h) = Some (register_clone (srv, fwd, has) e)
    \<and> ch_used e \<and> ch_key e = (k, h) \<and> r = Some (register_clone (srv, fwd, has) e)"
proof -
  let ?s1 = "if List.find (clones.hit (k, h)) (clone_handles s) = None
    then snd (RememberCloneHandleLocked now k h 0 s) else s"
  have ok: "clones.table_ok MaxTrackedCloneHandles (clone_handles s)" using assms(1) by (simp add: tables_ok_def)
  have "\<exists>e. clones.lookup (clone_handles ?s1) (k, h) = Some e"
    using clones.remember_found [OF ok, of "(k, h)" "(now, 0)"]
    by (auto simp: RememberClone_clones clones.lookup_def)
  then obtain e where e: "clones.lookup (clone_handles ?s1) (k, h) = Some e" by blast
  have s': "clone_handles s' = snd (update_first (clones.hit (k, h)) (register_clone (srv, fwd, has)) (clone_handles ?s1))"
    and r: "r = fst (update_first (clones.hit (k, h)) (register_clone (srv, fwd, has)) (clone_handles ?s1))"
    using assms(2) by (auto simp: NoteCloneRegisteredLocked_def Let_def case_prod_beta ch_hit)
  have "clones.lookup (clone_handles s') (k, h) = Some (register_clone (srv, fwd, has) e)"
    unfolding s' by (subst clones.update_first_lookup) (simp_all add: register_clone_def ch_key_def e)
  moreover have "r = Some (register_clone (srv, fwd, has) e)"
    using e unfolding r update_first_find clones.lookup_def by simp
  ultimately show ?thesis using clones.lookup_Some [OF e] by blast
qed

text \<open>
  A registered clone is always recorded, and the close of its server handle finds an
  active clone of the session with that handle and takes exactly one off the count.
\<close>

theorem registered_clone_can_be_closed:
  assumes "tables_ok s" "NoteCloneRegisteredLocked now k h srv fwd has s = (r, n, s1)"
    and "MarkCloneClosedByServerHandleLocked later k srv s1 = (c, m, s2)"
  shows "r \<noteq> None \<and> n = CountTrackedCloneHandlesForSessionLocked k s1
    \<and> (\<exists>e. c = Some e \<and> ch_session_id e = k \<and> ch_server_handle e = srv \<and> ch_close_observed e) \<and> Suc m = n"
proof -
  let ?p = "\<lambda>e. ch_used e \<and> ch_session_id e = k \<and> ch_server_handle e = srv \<and> \<not> ch_close_observed e"
  from NoteClone_lookup [OF assms(1,2)] obtain e where
    e: "clones.lookup (clone_handles s1) (k, h) = Some (register_clone (srv, fwd, has) e)" "ch_used e" "ch_key e = (k, h)"
      "r = Some (register_clone (srv, fwd, has) e)" by blast
  have mem: "register_clone (srv, fwd, has) e \<in> set (clone_handles s1)" using clones.lookup_Some [OF e(1)] by simp
  have ex: "\<exists>e \<in> set (clone_handles s1). ?p e"
    using mem e(2,3) by (intro bexI [OF _ mem]) (simp add: register_clone_def ch_key_def)
  have n: "n = CountTrackedCloneHandlesForSessionLocked k s1"
    using assms(2) by (auto simp: NoteCloneRegisteredLocked_def Let_def case_prod_beta)
  have c: "c = map_option (close_clone later) (List.find ?p (clone_handles s1))"
    and m: "m = count_slots (active_clone k) (snd (update_first ?p (close_clone later) (clone_handles s1)))"
    using assms(3) by (auto simp: MarkCloneClosedByServerHandleLocked_def Let_def case_prod_beta update_first_find
        CountTrackedCloneHandlesForSessionLocked_def)
  have "List.find ?p (clone_handles s1) \<noteq> None" using ex by (auto simp: find_None_iff)
  then obtain x where x: "List.find ?p (clone_handles s1) = Some x" "?p x"
    by (auto simp: find_Some_iff)
  have "Suc m = n"
    unfolding m n CountTrackedCloneHandlesForSessionLocked_def
    by (intro count_update_first ex) (auto simp: active_clone_def close_clone_def)
  with c x e(4) n show ?thesis by (auto simp: close_clone_def)
qed

theorem registered_clone_can_be_closed_witness:
  "Suc (fst (snd (MarkCloneClosedByServerHandleLocked 8 5 77
     (snd (snd (NoteCloneRegisteredLocked 7 5 40 77 (- 1) False initial_tables))))))
   = fst (snd (NoteCloneRegisteredLocked 7 5 40 77 (- 1) False initial_tables))"
  using registered_clone_can_be_closed [OF initial_tables_ok] prod.collapse by metis

subsection \<open>Identifiers used again after a close\<close>

text \<open>
  Closed marks and reuse. A session handle or clone handle remembered again after
  its close counts as open again. A domain object does not: when the object id of a
  closed object is handed out again, the entry takes the new path but keeps the closed
  mark and the close time of the object before it.
\<close>

theorem reused_ids_after_close:
  assumes "tables_ok s" "object_id \<noteq> 0" "path \<noteq> []" "GetTrackedDomainPath k object_id s \<noteq> None"
  shows "(\<exists>e. GetTrackedDomainPath k object_id
         (RememberDomainPath later k object_id (Some path) parent creator
            (snd (MarkDomainPathCloseObserved now k object_id s))) = Some e
       \<and> dp_relative_path e = take 95 path \<and> dp_close_observed e \<and> dp_close_seen_ts_ns e = now)
     \<and> (\<exists>e. handles.lookup (session_handles (snd (RememberSessionHandleLocked later k h peer fwd has cl s))) (k, h) = Some e
       \<and> \<not> sh_close_observed e \<and> sh_close_seen_ts_ns e = 0)
     \<and> (\<exists>e. clones.lookup (clone_handles (snd (RememberCloneHandleLocked later k h c s))) (k, h) = Some e
       \<and> \<not> ch_close_observed e \<and> ch_close_seen_ts_ns e = 0)"
proof (intro conjI)
  let ?s = "snd (MarkDomainPathCloseObserved now k object_id s)"
  obtain d where d: "paths.lookup (domain_paths s) (k, object_id) = Some d"
    using assms(4) by (auto simp: GetTracked_lookup)
  have p: "domain_paths ?s = snd (update_first (paths.hit (k, object_id)) (close_domain_path now) (domain_paths s))"
    using assms(2) by (simp add: MarkDomainPathCloseObserved_def case_prod_beta Let_def dp_hit)
  have l: "paths.lookup (domain_paths ?s) (k, object_id) = Some (close_domain_path now d)"
    unfolding p by (subst paths.update_first_lookup) (simp_all add: close_domain_path_def dp_key_def d)
  have ok: "paths.table_ok MaxTrackedDomainPaths (domain_paths ?s)"
    using MarkDomainPath_ok [OF assms(1)] by (simp add: tables_ok_def)
  from paths.remember_found [OF ok, of "(k, object_id)" "(later, path, parent, creator)"] l assms(2,3)
  show "\<exists>e. GetTrackedDomainPath k object_id
         (RememberDomainPath later k object_id (Some path) parent creator ?s) = Some e
       \<and> dp_relative_path e = take 95 path \<and> dp_close_observed e \<and> dp_close_seen_ts_ns e = now"
    by (simp add: GetTracked_lookup RememberDomainPath_paths dp_fields_remembered)
      (simp add: refresh_domain_path_def close_domain_path_def)
next
  have "handles.table_ok MaxTrackedSessionHandles (session_handles s)" using assms(1) by (simp add: tables_ok_def)
  from handles.remember_found [OF this, of "(k, h)" "(later, peer, fwd, has, cl)"]
  show "\<exists>e. handles.lookup (session_handles (snd (RememberSessionHandleLocked later k h peer fwd has cl s))) (k, h) = Some e
       \<and> \<not> sh_close_observed e \<and> sh_close_seen_ts_ns e = 0"
    by (auto simp: RememberHandle_handles refresh_session_handle_def fresh_session_handle_def split: option.splits)
next
  have "clones.table_ok MaxTrackedCloneHandles (clone_handles s)" using assms(1) by (simp add: tables_ok_def)
  from clones.remember_found [OF this, of "(k, h)" "(later, c)"]
  show "\<exists>e. clones.lookup (clone_handles (snd (RememberCloneHandleLocked later k h c s))) (k, h) = Some e
       \<and> \<not> ch_close_observed e \<and> ch_close_seen_ts_ns e = 0"
    by (auto simp: RememberClone_clones refresh_clone_def fresh_clone_def split: option.splits)
qed

theorem reused_ids_after_close_witness:
  "\<exists>e. GetTrackedDomainPath 5 3 (RememberDomainPath 20 5 3 (Some ''root.cmd9[0]'') 0 9
      (snd (MarkDomainPathCloseObserved 10 5 3 (RememberDomainPath 9 5 3 (Some ''root.cmd4[0]'') 0 4 initial_tables)))) = Some e
    \<and> dp_relative_path e = ''root.cmd9[0]'' \<and> dp_close_observed e \<and> dp_close_seen_ts_ns e = 10"
proof -
  let ?s = "RememberDomainPath 9 5 3 (Some ''root.cmd4[0]'') 0 4 initial_tables"
  have "paths.table_ok MaxTrackedDomainPaths (domain_paths initial_tables)"
    using initial_tables_ok by (simp add: tables_ok_def)
  from paths.remember_found [OF this, of "(5, 3)" "(9, ''root.cmd4[0]'', 0, 4)"]
  have "GetTrackedDomainPath 5 3 ?s \<noteq> None"
    by (auto simp: GetTracked_lookup RememberDomainPath_paths)
  from reused_ids_after_close [OF RememberDomainPath_ok [OF initial_tables_ok] _ _ this,
      where path = "''root.cmd9[0]''" and now = 10 and later = 20 and parent = 0 and creator = 9]
  show ?thesis by simp
qed

end
