(* ===== verification/TraceCmif.thy ===== *)
theory TraceCmif
  imports TraceDecode TraceTables
begin

text \<open>
  Decoding the messages of a call (\<^verbatim>\<open>net-probe/src/mitm_trace.cpp\<close>): where the raw data
  of a request and of a response lies, its root and domain headers, the payload, the
  identifiers of returned objects, and the paths those objects are remembered under.

  The parsers of the HIPC message and the layout of the CMIF headers belong to a library
  outside the repository. The parsers are arguments of the definitions that call them, and
  the record \<open>cmif_abi\<close> gives the sizes of the headers, how their fields are read from
  their bytes, and the constants the code compares them with.
\<close>

subsection \<open>The library's interface\<close>

text \<open>A pointer and size: the address with the bytes that lie there.\<close>

record PointerAndSize =
  msg_address :: nat
  msg_bytes :: "u8 list"

record hipc_request_head =
  hr_type :: u32
  hr_data_words :: nat \<comment> \<open>the address of the data words\<close>
  hr_num_data_words :: nat
  hr_num_copy_handles :: u32
  hr_num_move_handles :: u32
  hr_send_pid :: bool
  hr_request :: HipcParsedRequest

record hipc_response_head =
  hp_data_words :: nat
  hp_num_data_words :: nat
  hp_response :: HipcResponse

record cmif_abi =
  in_header_size :: nat
  in_header_magic :: "u8 list \<Rightarrow> u32"
  in_header_command_id :: "u8 list \<Rightarrow> u32"
  domain_in_header_size :: nat
  domain_in_type :: "u8 list \<Rightarrow> u8"
  domain_in_data_size :: "u8 list \<Rightarrow> u16"
  domain_in_object_id :: "u8 list \<Rightarrow> u32"
  out_header_size :: nat
  out_header_magic :: "u8 list \<Rightarrow> u32"
  out_header_result :: "u8 list \<Rightarrow> u32"
  domain_out_header_size :: nat
  domain_out_num_objects :: "u8 list \<Rightarrow> u32"
  InHeaderMagic :: u32
  OutHeaderMagic :: u32
  CmifCommandType_Close :: u32
  CmifDomainRequestType_SendMessage :: u8
  CmifDomainRequestType_Close :: u8

subsection \<open>Raw data\<close>

definition align_up :: "nat \<Rightarrow> nat \<Rightarrow> nat" where
  "align_up n a = (n + a - 1) div a * a"

definition memory_at :: "PointerAndSize \<Rightarrow> nat \<Rightarrow> nat \<Rightarrow> u8 list" where
  "memory_at message address n = take n (drop (address - msg_address message) (msg_bytes message))"

text \<open>The part the two functions share, from the address and the count of the data words.\<close>

definition raw_data :: "PointerAndSize \<Rightarrow> nat \<Rightarrow> nat \<Rightarrow> u8 list option" where
  "raw_data message raw_addr num_words =
     (let raw_size = num_words * 4; aligned_addr = align_up raw_addr 16
      in if raw_size < 16 then None
         else if msg_address message + length (msg_bytes message) < aligned_addr + (raw_size - 16) then None
         else Some (memory_at message aligned_addr (raw_size - 16)))"

definition GetRequestRawData ::
  "(PointerAndSize \<Rightarrow> hipc_request_head) \<Rightarrow> PointerAndSize \<Rightarrow> (hipc_request_head \<times> u8 list) option" where
  "GetRequestRawData parse message =
     (if msg_address message = 0 \<or> msg_bytes message = [] then None
      else let request = parse message
           in map_option (\<lambda>raw. (request, raw))
                (raw_data message (hr_data_words request) (hr_num_data_words request)))"

definition GetResponseRawData ::
  "(PointerAndSize \<Rightarrow> hipc_response_head) \<Rightarrow> PointerAndSize \<Rightarrow> (hipc_response_head \<times> u8 list) option" where
  "GetResponseRawData parse message =
     (if msg_address message = 0 \<or> msg_bytes message = [] then None
      else let response = parse message
           in map_option (\<lambda>raw. (response, raw))
                (raw_data message (hp_data_words response) (hp_num_data_words response)))"

subsection \<open>Requests\<close>

text \<open>\<^verbatim>\<open>memcpy\<close> over the front of a fixed array.\<close>

definition overlay :: "'a list \<Rightarrow> 'a list \<Rightarrow> 'a list" where
  "overlay xs array = xs @ drop (length xs) array"

text \<open>The first \<open>n\<close> whole words of a byte sequence.\<close>

definition first_words :: "nat \<Rightarrow> u8 list \<Rightarrow> u32 list" where
  "first_words n bytes = map (\<lambda>i. copy_word bytes (4 * i)) [0..<min (length bytes div 4) n]"

definition fill_request_payload :: "u8 list \<Rightarrow> RequestDecodeDetails \<Rightarrow> RequestDecodeDetails" where
  "fill_request_payload payload d = d\<lparr>
     rq_payload_size := length payload,
     rq_payload_preview_hex := hex_preview (min (length payload) HexPreviewBytes) payload,
     rq_payload_words := overlay (first_words 4 payload) (rq_payload_words d),
     rq_payload_bytes := overlay (take SemanticPayloadBytes payload) (rq_payload_bytes d)\<rparr>"

definition decode_root_request :: "cmif_abi \<Rightarrow> u8 list \<Rightarrow> RequestDecodeDetails \<Rightarrow> RequestDecodeDetails" where
  "decode_root_request abi raw d =
     (if length raw < in_header_size abi then d
      else let header = take (in_header_size abi) raw;
               is_valid = (in_header_magic abi header = InHeaderMagic abi);
               d = d\<lparr>rq_root_header := header, rq_root_cmif_valid := is_valid,
                     rq_root_close := \<not> is_valid \<and> in_header_magic abi header = CmifCommandType_Close abi
                       \<and> length raw = in_header_size abi\<rparr>
           in if is_valid then fill_request_payload (drop (in_header_size abi) raw) d else d)"

definition decode_domain_request :: "cmif_abi \<Rightarrow> u8 list \<Rightarrow> RequestDecodeDetails \<Rightarrow> RequestDecodeDetails" where
  "decode_domain_request abi raw d =
     (let offset = domain_in_header_size abi + in_header_size abi
      in if length raw < offset then d
      else let header = take (domain_in_header_size abi) raw;
               cmif_header = take (in_header_size abi) (drop (domain_in_header_size abi) raw);
               is_valid = (domain_in_type abi header = CmifDomainRequestType_SendMessage abi
                 \<and> in_header_magic abi cmif_header = InHeaderMagic abi);
               d = d\<lparr>rq_domain_header := header, rq_domain_cmif_header := cmif_header,
                     rq_domain_close := (domain_in_type abi header = CmifDomainRequestType_Close abi),
                     rq_domain_cmif_valid := is_valid\<rparr>;
               data_size = unat (domain_in_data_size abi header)
           in if is_valid \<and> in_header_size abi \<le> data_size then
                (let payload_size = data_size - in_header_size abi
                 in if offset + payload_size \<le> length raw
                    then fill_request_payload (take payload_size (drop offset raw)) d else d)
              else d)"

definition GetRequestDecodeDetails ::
  "cmif_abi \<Rightarrow> (PointerAndSize \<Rightarrow> hipc_request_head) \<Rightarrow> PointerAndSize \<Rightarrow> RequestDecodeDetails" where
  "GetRequestDecodeDetails abi parse message =
     (case GetRequestRawData parse message of
        None \<Rightarrow> empty_request_details
      | Some (request, raw) \<Rightarrow>
          decode_domain_request abi raw (decode_root_request abi raw
            (empty_request_details\<lparr>rq_have_raw := True, rq_command_type := hr_type request,
               rq_raw_size := length raw,
               rq_raw_preview_hex := hex_preview (min (length raw) HexPreviewBytes) raw,
               rq_raw_words := overlay (first_words 4 raw) (rq_raw_words empty_request_details)\<rparr>)))"

definition ParseRequestInfo ::
  "cmif_abi \<Rightarrow> (PointerAndSize \<Rightarrow> hipc_request_head) \<Rightarrow> PointerAndSize \<Rightarrow> ParsedRequestInfo" where
  "ParseRequestInfo abi parse message =
     (let d = GetRequestDecodeDetails abi parse message
      in if \<not> rq_have_raw d then empty_request_info
         else let info = empty_request_info\<lparr>info_command_type := rq_command_type d, info_raw_size := rq_raw_size d\<rparr>
         in if rq_root_cmif_valid d then
              info\<lparr>info_valid := True, info_command_id := in_header_command_id abi (rq_root_header d)\<rparr>
         else if rq_root_close d then info\<lparr>info_valid := True, info_is_close := True\<rparr>
         else if rq_domain_cmif_valid d then
              info\<lparr>info_valid := True, info_is_domain := True,
                   info_object_id := domain_in_object_id abi (rq_domain_header d),
                   info_command_id := in_header_command_id abi (rq_domain_cmif_header d)\<rparr>
         else if rq_domain_close d then
              info\<lparr>info_valid := True, info_is_domain := True, info_is_close := True,
                   info_object_id := domain_in_object_id abi (rq_domain_header d)\<rparr>
         else info)"

subsection \<open>Responses\<close>

definition fill_response_payload :: "u8 list \<Rightarrow> ResponseDecodeDetails \<Rightarrow> ResponseDecodeDetails" where
  "fill_response_payload payload d = d\<lparr>
     rs_payload_size := length payload,
     rs_payload_preview_hex := hex_preview (min (length payload) HexPreviewBytes) payload,
     rs_payload_words := overlay (first_words 4 payload) (rs_payload_words d),
     rs_payload_bytes := overlay (take SemanticPayloadBytes payload) (rs_payload_bytes d)\<rparr>"

definition decode_root_response :: "cmif_abi \<Rightarrow> u8 list \<Rightarrow> ResponseDecodeDetails \<Rightarrow> ResponseDecodeDetails" where
  "decode_root_response abi raw d =
     (if length raw < out_header_size abi then d
      else let header = take (out_header_size abi) raw;
               is_valid = (out_header_magic abi header = OutHeaderMagic abi);
               d = d\<lparr>rs_root_header := header, rs_root_cmif_valid := is_valid\<rparr>
           in if is_valid then fill_response_payload (drop (out_header_size abi) raw) d else d)"

text \<open>The identifiers of the returned objects are the last words of the raw data.\<close>

definition decode_object_ids :: "u8 list \<Rightarrow> nat \<Rightarrow> nat \<Rightarrow> ResponseDecodeDetails \<Rightarrow> ResponseDecodeDetails" where
  "decode_object_ids raw offset out_object_count d =
     (if rs_domain_cmif_valid d \<and> 0 < out_object_count \<and> out_object_count \<le> 8
         \<and> offset + out_object_count * 4 \<le> length raw
      then d\<lparr>rs_out_object_ids := overlay
                 (first_words out_object_count (drop (length raw - out_object_count * 4) raw)) (rs_out_object_ids d),
             rs_out_object_id_count := out_object_count, rs_out_object_ids_valid := True\<rparr>
      else d)"

definition decode_domain_response :: "cmif_abi \<Rightarrow> u8 list \<Rightarrow> ResponseDecodeDetails \<Rightarrow> ResponseDecodeDetails" where
  "decode_domain_response abi raw d =
     (let offset = domain_out_header_size abi + out_header_size abi
      in if length raw < offset then d
      else let header = take (domain_out_header_size abi) raw;
               cmif_header = take (out_header_size abi) (drop (domain_out_header_size abi) raw);
               d = d\<lparr>rs_domain_header := header, rs_domain_cmif_header := cmif_header,
                     rs_domain_cmif_valid := (out_header_magic abi cmif_header = OutHeaderMagic abi)\<rparr>;
               d = decode_object_ids raw offset (unat (domain_out_num_objects abi header)) d
           in if rs_domain_cmif_valid d then
                (let trailer_size = rs_out_object_id_count d * 4
                 in if offset + trailer_size \<le> length raw
                    then fill_response_payload (take (length raw - offset - trailer_size) (drop offset raw)) d
                    else d)
              else d)"

definition GetResponseDecodeDetails ::
  "cmif_abi \<Rightarrow> (PointerAndSize \<Rightarrow> hipc_response_head) \<Rightarrow> PointerAndSize \<Rightarrow> ResponseDecodeDetails" where
  "GetResponseDecodeDetails abi parse message =
     (case GetResponseRawData parse message of
        None \<Rightarrow> empty_response_details
      | Some (response, raw) \<Rightarrow>
          decode_domain_response abi raw (decode_root_response abi raw
            (empty_response_details\<lparr>rs_have_raw := True, rs_raw_size := length raw,
               rs_raw_preview_hex := hex_preview (min (length raw) HexPreviewBytes) raw,
               rs_raw_words := overlay (first_words 4 raw) (rs_raw_words empty_response_details)\<rparr>)))"

definition ParseResponseInfo ::
  "cmif_abi \<Rightarrow> (PointerAndSize \<Rightarrow> hipc_response_head) \<Rightarrow> PointerAndSize \<Rightarrow> ParsedResponseInfo" where
  "ParseResponseInfo abi parse message =
     (case GetResponseRawData parse message of
        None \<Rightarrow> empty_response_info
      | Some (response, raw) \<Rightarrow>
          (let d = GetResponseDecodeDetails abi parse message;
               info = empty_response_info\<lparr>ri_raw_size := length raw\<rparr>
           in if rs_root_cmif_valid d then
                info\<lparr>ri_valid := True, ri_result_value := out_header_result abi (rs_root_header d),
                     ri_out_object_count := of_nat (length (move_handles (hp_response response)))\<rparr>
              else if rs_domain_cmif_valid d then
                info\<lparr>ri_valid := True, ri_is_domain := True,
                     ri_result_value := out_header_result abi (rs_domain_cmif_header d),
                     ri_out_object_count := domain_out_num_objects abi (rs_domain_header d)\<rparr>
              else info))"

subsection \<open>Returned objects\<close>

fun remember_children ::
  "(nat \<Rightarrow> u64) \<Rightarrow> u64 \<Rightarrow> string \<Rightarrow> u32 \<Rightarrow> u32 \<Rightarrow> nat \<Rightarrow> u32 list \<Rightarrow> trace_tables \<Rightarrow> trace_tables" where
  "remember_children now session_id parent_path parent_id command_id i [] s = s"
| "remember_children now session_id parent_path parent_id command_id i (child_id # ids) s =
     remember_children now session_id parent_path parent_id command_id (i + 1) ids
       (if child_id = 0 then s
        else RememberDomainPath (now i) session_id child_id
               (Some (child_path parent_path command_id (of_nat i)))
               parent_id command_id s)"

definition RememberReturnedDomainObjects ::
  "(nat \<Rightarrow> u64) \<Rightarrow> u64 \<Rightarrow> u32 \<Rightarrow> u32 \<Rightarrow> ResponseDecodeDetails \<Rightarrow> trace_tables \<Rightarrow> trace_tables" where
  "RememberReturnedDomainObjects now session_id parent_id command_id d s =
     (if \<not> rs_out_object_ids_valid d \<or> rs_out_object_id_count d = 0 then s
      else remember_children now session_id
             (buf_text (GetRelativeDomainPath (fresh_buf MaxDomainPathLength) session_id parent_id s))
             parent_id command_id 0 (take (rs_out_object_id_count d) (rs_out_object_ids d)) s)"

subsection \<open>Raw data lies inside its message\<close>

lemma align_up_16: "n \<le> align_up n 16" "align_up n 16 mod 16 = 0"
  unfolding align_up_def by presburger (simp)

lemma raw_data_inside:
  assumes "raw_data message raw_addr num_words = Some raw" "msg_address message \<le> raw_addr"
  shows "length raw = num_words * 4 - 16"
    "\<exists>front back. msg_bytes message = front @ raw @ back \<and> msg_address message + length front = align_up raw_addr 16"
proof -
  let ?a = "align_up raw_addr 16" let ?n = "num_words * 4 - 16"
  let ?front = "take (?a - msg_address message) (msg_bytes message)"
  let ?rest = "drop (?a - msg_address message) (msg_bytes message)"
  have le: "msg_address message \<le> ?a" using assms(2) align_up_16(1) by (rule order_trans)
  have fit: "?a + ?n \<le> msg_address message + length (msg_bytes message)" and raw: "raw = take ?n ?rest"
    using assms(1) by (auto simp: raw_data_def Let_def memory_at_def split: if_splits)
  have len: "length ?front = ?a - msg_address message" using fit le by simp
  then show "length raw = ?n" using fit le raw by simp
  have "msg_bytes message = ?front @ raw @ drop ?n ?rest"
    unfolding raw by (simp only: append_take_drop_id)
  with len le show "\<exists>front back. msg_bytes message = front @ raw @ back \<and> msg_address message + length front = ?a"
    by (intro exI [of _ ?front] exI [of _ "drop ?n ?rest"]) simp
qed

text \<open>
  C38. The trace reads no byte outside a message: when the library reports data words
  inside the message, the raw data a request or a response yields is a contiguous part of
  it, starts at the next address that is a multiple of 16, and has the announced length
  less the alignment padding; a message too short for it yields nothing.
\<close>

theorem raw_data_lies_in_message:
  assumes "msg_address message \<le> hr_data_words (parse message)"
    and "msg_address message \<le> hp_data_words (parse_response message)"
  shows "(case GetRequestRawData parse message of
       None \<Rightarrow> True
     | Some (request, raw) \<Rightarrow> length raw = hr_num_data_words request * 4 - 16
         \<and> (\<exists>front back. msg_bytes message = front @ raw @ back
              \<and> msg_address message + length front = align_up (hr_data_words request) 16))
    \<and> (case GetResponseRawData parse_response message of
       None \<Rightarrow> True
     | Some (response, raw) \<Rightarrow> length raw = hp_num_data_words response * 4 - 16
         \<and> (\<exists>front back. msg_bytes message = front @ raw @ back
              \<and> msg_address message + length front = align_up (hp_data_words response) 16))"
  using raw_data_inside [OF _ assms(1)] raw_data_inside [OF _ assms(2)]
  by (auto simp: GetRequestRawData_def GetResponseRawData_def Let_def split: option.split)

theorem raw_data_lies_in_message_witness:
  "\<exists>request. GetRequestRawData (\<lambda>m. \<lparr>hr_type = 4, hr_data_words = 4104, hr_num_data_words = 8,
       hr_num_copy_handles = 0, hr_num_move_handles = 0, hr_send_pid = False,
     hr_request = \<lparr>send_statics = [], send_buffers = [], recv_buffers = [], exch_buffers = []\<rparr>\<rparr>)
     \<lparr>msg_address = 4096, msg_bytes = replicate 256 7\<rparr> = Some (request, replicate 16 7)"
proof -
  let ?parse = "\<lambda>m :: PointerAndSize. \<lparr>hr_type = 4, hr_data_words = 4104, hr_num_data_words = 8,
       hr_num_copy_handles = 0, hr_num_move_handles = 0, hr_send_pid = False,
     hr_request = \<lparr>send_statics = [], send_buffers = [], recv_buffers = [], exch_buffers = []\<rparr>\<rparr>"
  let ?m = "\<lparr>msg_address = 4096, msg_bytes = replicate 256 (7 :: u8)\<rparr>"
  have some: "GetRequestRawData ?parse ?m = Some (?parse ?m, replicate 16 7)"
    by (simp add: GetRequestRawData_def raw_data_def memory_at_def align_up_def)
  note raw_data_lies_in_message [of ?m ?parse "\<lambda>m. \<lparr>hp_data_words = 4104, hp_num_data_words = 0,
      hp_response = \<lparr>statics = [], copy_handles = [], move_handles = []\<rparr>\<rparr>"]
  with some show ?thesis by auto
qed

subsection \<open>An example layout\<close>

text \<open>
  Sixteen-byte headers with little-endian fields, as the library documents them, for the
  concrete instances of the theorems; no definition or theorem relies on it.
\<close>

definition example_abi :: cmif_abi where
  "example_abi = \<lparr>in_header_size = 16, in_header_magic = (\<lambda>h. copy_word h 0),
     in_header_command_id = (\<lambda>h. copy_word h 8), domain_in_header_size = 16,
     domain_in_type = (\<lambda>h. h ! 0), domain_in_data_size = (\<lambda>h. copy_word h 2),
     domain_in_object_id = (\<lambda>h. copy_word h 4), out_header_size = 16,
     out_header_magic = (\<lambda>h. copy_word h 0), out_header_result = (\<lambda>h. copy_word h 8),
     domain_out_header_size = 16, domain_out_num_objects = (\<lambda>h. copy_word h 0),
     InHeaderMagic = 0x49434653, OutHeaderMagic = 0x4F434653, CmifCommandType_Close = 2,
     CmifDomainRequestType_SendMessage = 1, CmifDomainRequestType_Close = 2\<rparr>"

definition in_header_bytes :: "u32 \<Rightarrow> u8 list" where
  "in_header_bytes command_id = [0x53, 0x46, 0x43, 0x49, 0, 0, 0, 0] @ le_bytes 4 (unat command_id) @ [0, 0, 0, 0]"

text \<open>A message at address 4096 whose data words start there.\<close>

definition example_message :: "u8 list \<Rightarrow> PointerAndSize" where
  "example_message raw = \<lparr>msg_address = 4096, msg_bytes = raw @ replicate 16 0\<rparr>"

definition example_request :: "PointerAndSize \<Rightarrow> hipc_request_head" where
  "example_request message = \<lparr>hr_type = 4, hr_data_words = msg_address message,
     hr_num_data_words = length (msg_bytes message) div 4,
     hr_num_copy_handles = 0, hr_num_move_handles = 0, hr_send_pid = False,
     hr_request = \<lparr>send_statics = [], send_buffers = [], recv_buffers = [], exch_buffers = []\<rparr>\<rparr>"

definition example_response :: "PointerAndSize \<Rightarrow> hipc_response_head" where
  "example_response message = \<lparr>hp_data_words = msg_address message,
     hp_num_data_words = length (msg_bytes message) div 4,
     hp_response = \<lparr>statics = [], copy_handles = [], move_handles = []\<rparr>\<rparr>"

lemma example_raw_data:
  assumes "length raw mod 4 = 0"
  shows "GetRequestRawData example_request (example_message raw) = Some (example_request (example_message raw), raw)"
    "GetResponseRawData example_response (example_message raw) = Some (example_response (example_message raw), raw)"
proof -
  have "(length raw + 16) div 4 * 4 = length raw + 16" using assms by presburger
  then show "GetRequestRawData example_request (example_message raw) = Some (example_request (example_message raw), raw)"
    "GetResponseRawData example_response (example_message raw) = Some (example_response (example_message raw), raw)"
    by (simp_all add: GetRequestRawData_def GetResponseRawData_def raw_data_def example_request_def
        example_response_def example_message_def align_up_def memory_at_def Let_def)
qed

lemma copy_word_at:
  "LENGTH('a) = 8 * k \<Longrightarrow> length front = offset \<Longrightarrow>
     copy_word (front @ le_bytes k (unat (w :: 'a::len word)) @ back) offset = w"
  by (simp add: copy_word_def le_word_le_bytes)

lemma copy_word_four:
  "copy_word (a # b # c # d # r) 0 =
     (of_nat (unat a + 256 * (unat b + 256 * (unat c + 256 * unat d))) :: u32)"
  by (simp add: copy_word_def le_word_def)

lemma example_sizes [simp]:
  "in_header_size example_abi = 16" "domain_in_header_size example_abi = 16"
  "out_header_size example_abi = 16" "domain_out_header_size example_abi = 16"
  "length (in_header_bytes c) = 16"
  by (simp_all add: example_abi_def in_header_bytes_def)

lemma example_in_header [simp]:
  "in_header_magic example_abi (in_header_bytes c @ r) = InHeaderMagic example_abi"
  "in_header_magic example_abi (in_header_bytes c) = InHeaderMagic example_abi"
  "in_header_command_id example_abi (in_header_bytes c) = c"
proof -
  have magic: "copy_word (0x53 # 0x46 # 0x43 # 0x49 # x) 0 = (0x49434653 :: u32)" for x
    unfolding copy_word_four by simp
  show "in_header_magic example_abi (in_header_bytes c @ r) = InHeaderMagic example_abi"
    "in_header_magic example_abi (in_header_bytes c) = InHeaderMagic example_abi"
    by (simp_all add: example_abi_def in_header_bytes_def magic)
  show "in_header_command_id example_abi (in_header_bytes c) = c"
    using copy_word_at [where 'a = 32, of 4 "[0x53, 0x46, 0x43, 0x49, 0, 0, 0, 0]" 8 c "[0, 0, 0, 0]"]
    by (simp add: example_abi_def in_header_bytes_def)
qed

lemma example_domain:
  "in_header_magic example_abi (a # b # c # d # r) =
     of_nat (unat a + 256 * (unat b + 256 * (unat c + 256 * unat d)))"
  "domain_in_type example_abi (a # r) = a"
  "domain_in_object_id example_abi (x # y # z # w # a # b # c # d # r) =
     of_nat (unat a + 256 * (unat b + 256 * (unat c + 256 * unat d)))"
  "domain_in_data_size example_abi (x # y # a # b # r) = of_nat (unat a + 256 * unat b)"
  "InHeaderMagic example_abi = 0x49434653" "CmifCommandType_Close example_abi = 2"
  "CmifDomainRequestType_SendMessage example_abi = 1" "CmifDomainRequestType_Close example_abi = 2"
  by (simp_all add: example_abi_def copy_word_def le_word_def)

lemma example_in_header_not_domain [simp]:
  "domain_in_type example_abi (in_header_bytes c) = 0x53"
  "domain_in_type example_abi (in_header_bytes c @ r) = 0x53"
  by (simp_all add: in_header_bytes_def example_domain)

subsection \<open>What a request decodes to\<close>

lemma overlay_zeros: "overlay (take n xs) (replicate n z) = take n (xs @ replicate n z)"
  by (cases "length xs \<le> n") (simp_all add: overlay_def)

lemma overlay_words:
  "overlay (first_words 4 bytes) (replicate 4 0) =
     map (\<lambda>i. if 4 * i + 4 \<le> length bytes then copy_word bytes (4 * i) else 0) [0..<4]"
proof (rule nth_equalityI)
  show "length (overlay (first_words 4 bytes) (replicate 4 0)) =
    length (map (\<lambda>i. if 4 * i + 4 \<le> length bytes then copy_word bytes (4 * i) else 0 :: u32) [0..<4])"
    by (simp add: overlay_def first_words_def)
next
  fix i assume "i < length (overlay (first_words 4 bytes) (replicate 4 0))"
  then have i: "i < 4" by (simp add: overlay_def first_words_def)
  have w: "4 * i + 4 \<le> length bytes \<longleftrightarrow> i < length bytes div 4"
    by presburger
  show "overlay (first_words 4 bytes) (replicate 4 0) ! i =
    map (\<lambda>i. if 4 * i + 4 \<le> length bytes then copy_word bytes (4 * i) else 0) [0..<4] ! i"
    using i w by (auto simp: overlay_def first_words_def nth_append)
qed

lemma decode_root_request_valid:
  assumes "length header = in_header_size abi" "in_header_magic abi header = InHeaderMagic abi"
  shows "decode_root_request abi (header @ payload) d =
    fill_request_payload payload (d\<lparr>rq_root_header := header, rq_root_cmif_valid := True, rq_root_close := False\<rparr>)"
  using assms by (simp add: decode_root_request_def Let_def)

lemma decode_domain_request_other:
  assumes "domain_in_type abi (take (domain_in_header_size abi) raw) \<noteq> CmifDomainRequestType_SendMessage abi"
  shows "\<exists>h c close. decode_domain_request abi raw d = d
    \<or> decode_domain_request abi raw d =
       d\<lparr>rq_domain_header := h, rq_domain_cmif_header := c, rq_domain_close := close, rq_domain_cmif_valid := False\<rparr>"
  using assms by (auto simp: decode_domain_request_def Let_def)

text \<open>The details of a message that carries the payload, whatever its headers.\<close>

definition carries_payload :: "RequestDecodeDetails \<Rightarrow> u8 list \<Rightarrow> bool" where
  "carries_payload d payload \<longleftrightarrow> rq_payload_size d = length payload
     \<and> rq_payload_bytes d = take 64 (payload @ replicate 64 0)
     \<and> rq_payload_words d = map (\<lambda>i. if 4 * i + 4 \<le> length payload then copy_word payload (4 * i) else 0) [0..<4]"

lemma carries_payload_fill:
  assumes "rq_payload_bytes d = replicate 64 0" "rq_payload_words d = replicate 4 0"
  shows "carries_payload (fill_request_payload payload d) payload"
  using assms overlay_zeros [of 64 payload 0] overlay_words [of payload]
  by (simp add: carries_payload_def fill_request_payload_def SemanticPayloadBytes_def)

lemma root_request_details:
  assumes "GetRequestRawData parse message = Some (request, header @ payload)"
    and "length header = in_header_size abi" "in_header_magic abi header = InHeaderMagic abi"
    and "domain_in_type abi (take (domain_in_header_size abi) (header @ payload)) \<noteq> CmifDomainRequestType_SendMessage abi"
  defines "d \<equiv> GetRequestDecodeDetails abi parse message"
  shows "carries_payload d payload" "rq_have_raw d" "rq_root_cmif_valid d" "rq_root_header d = header"
    "rq_command_type d = hr_type request" "rq_raw_size d = length (header @ payload)"
proof -
  let ?e = "empty_request_details\<lparr>rq_have_raw := True, rq_command_type := hr_type request,
       rq_raw_size := length (header @ payload),
       rq_raw_preview_hex := hex_preview (min (length (header @ payload)) HexPreviewBytes) (header @ payload),
       rq_raw_words := overlay (first_words 4 (header @ payload)) (rq_raw_words empty_request_details)\<rparr>"
  let ?f = "fill_request_payload payload (?e\<lparr>rq_root_header := header, rq_root_cmif_valid := True, rq_root_close := False\<rparr>)"
  have "d = decode_domain_request abi (header @ payload) ?f"
    unfolding d_def GetRequestDecodeDetails_def assms(1) option.case prod.case
    by (subst decode_root_request_valid [OF assms(2,3)]) (rule refl)
  moreover have "carries_payload ?f payload"
    by (rule carries_payload_fill) (simp_all add: empty_request_details_def SemanticPayloadBytes_def)
  moreover have "rq_have_raw ?f" "rq_root_cmif_valid ?f" "rq_root_header ?f = header"
    "rq_command_type ?f = hr_type request" "rq_raw_size ?f = length (header @ payload)"
    by (simp_all add: fill_request_payload_def)
  ultimately show "carries_payload d payload" "rq_have_raw d" "rq_root_cmif_valid d" "rq_root_header d = header"
    "rq_command_type d = hr_type request" "rq_raw_size d = length (header @ payload)"
    using decode_domain_request_other [OF assms(4), of ?f] by (auto simp: carries_payload_def)
qed

text \<open>
  A plain request decodes to what was sent: a message whose raw data is a CMIF header
  with the right magic and a payload is reported as a valid request of a root object with
  the header's command, and the details carry the payload: its size, its first 64 bytes
  and its first four words, zero where it is shorter.
\<close>

theorem root_request_decoded:
  assumes "GetRequestRawData parse message = Some (request, header @ payload)"
    and "length header = in_header_size abi" "in_header_magic abi header = InHeaderMagic abi"
    and "domain_in_type abi (take (domain_in_header_size abi) (header @ payload)) \<noteq> CmifDomainRequestType_SendMessage abi"
  shows "ParseRequestInfo abi parse message =
      \<lparr>info_valid = True, info_is_domain = False, info_is_close = False, info_command_type = hr_type request,
       info_command_id = in_header_command_id abi header, info_object_id = 0,
       info_raw_size = length header + length payload\<rparr>
    \<and> carries_payload (GetRequestDecodeDetails abi parse message) payload"
  using root_request_details [OF assms]
  by (simp add: ParseRequestInfo_def empty_request_info_def Let_def)

theorem root_request_decoded_witness:
  "info_command_id (ParseRequestInfo example_abi example_request (example_message (in_header_bytes 5 @ [1, 2, 3, 4]))) = 5"
  using root_request_decoded [OF example_raw_data(1), of "in_header_bytes 5" "[1, 2, 3, 4]" example_abi]
  by (simp add: example_domain)

lemma domain_request_details:
  assumes "GetRequestRawData parse message = Some (request, domain @ header @ payload @ trailer)"
    and "length domain = domain_in_header_size abi" "0 < domain_in_header_size abi"
    and "length header = in_header_size abi" "in_header_magic abi header = InHeaderMagic abi"
    and "domain_in_type abi domain = CmifDomainRequestType_SendMessage abi"
    and "unat (domain_in_data_size abi domain) = in_header_size abi + length payload"
    and "in_header_magic abi (take (in_header_size abi) (domain @ header)) \<noteq> InHeaderMagic abi"
  defines "d \<equiv> GetRequestDecodeDetails abi parse message"
  shows "carries_payload d payload" "rq_have_raw d" "\<not> rq_root_cmif_valid d" "\<not> rq_root_close d"
    "rq_domain_cmif_valid d" "rq_domain_header d = domain" "rq_domain_cmif_header d = header"
    "rq_command_type d = hr_type request" "rq_raw_size d = length (domain @ header @ payload @ trailer)"
proof -
  let ?raw = "domain @ header @ payload @ trailer"
  let ?e = "empty_request_details\<lparr>rq_have_raw := True, rq_command_type := hr_type request,
       rq_raw_size := length ?raw, rq_raw_preview_hex := hex_preview (min (length ?raw) HexPreviewBytes) ?raw,
       rq_raw_words := overlay (first_words 4 ?raw) (rq_raw_words empty_request_details)\<rparr>"
  let ?r = "?e\<lparr>rq_root_header := take (in_header_size abi) ?raw, rq_root_cmif_valid := False, rq_root_close := False\<rparr>"
  have t: "take (in_header_size abi) ?raw = take (in_header_size abi) (domain @ header)"
    using assms(2,4) by simp
  have root: "decode_root_request abi ?raw ?e = ?r"
    using assms(2,3,4,8) t by (simp add: decode_root_request_def Let_def)
  let ?f = "fill_request_payload payload (?r\<lparr>rq_domain_header := domain, rq_domain_cmif_header := header,
      rq_domain_close := (domain_in_type abi domain = CmifDomainRequestType_Close abi), rq_domain_cmif_valid := True\<rparr>)"
  have "d = decode_domain_request abi ?raw ?r"
    unfolding d_def GetRequestDecodeDetails_def assms(1) option.case prod.case root by (rule refl)
  also have "\<dots> = ?f"
    using assms(2,4-7) by (simp add: decode_domain_request_def Let_def)
  finally have d: "d = ?f" .
  show "carries_payload d payload"
    unfolding d by (rule carries_payload_fill) (simp_all add: empty_request_details_def SemanticPayloadBytes_def)
  show "rq_have_raw d" "\<not> rq_root_cmif_valid d" "\<not> rq_root_close d" "rq_domain_cmif_valid d"
    "rq_domain_header d = domain" "rq_domain_cmif_header d = header" "rq_command_type d = hr_type request"
    "rq_raw_size d = length ?raw"
    unfolding d by (simp_all add: fill_request_payload_def)
qed

text \<open>
  C35. A domain request decodes to what was sent: a message whose raw data is a domain
  header, a CMIF header, a payload of the announced size and any trailing objects is
  reported as a valid request of the addressed object with the inner header's command,
  and the details carry exactly the payload, without the trailer.
\<close>

theorem domain_request_decoded:
  assumes "GetRequestRawData parse message = Some (request, domain @ header @ payload @ trailer)"
    and "length domain = domain_in_header_size abi" "0 < domain_in_header_size abi"
    and "length header = in_header_size abi" "in_header_magic abi header = InHeaderMagic abi"
    and "domain_in_type abi domain = CmifDomainRequestType_SendMessage abi"
    and "unat (domain_in_data_size abi domain) = in_header_size abi + length payload"
    and "in_header_magic abi (take (in_header_size abi) (domain @ header)) \<noteq> InHeaderMagic abi"
  shows "ParseRequestInfo abi parse message =
      \<lparr>info_valid = True, info_is_domain = True, info_is_close = False, info_command_type = hr_type request,
       info_command_id = in_header_command_id abi header, info_object_id = domain_in_object_id abi domain,
       info_raw_size = length domain + length header + length payload + length trailer\<rparr>
    \<and> carries_payload (GetRequestDecodeDetails abi parse message) payload"
  using domain_request_details [OF assms]
  by (simp add: ParseRequestInfo_def empty_request_info_def Let_def)

theorem domain_request_decoded_witness:
  "info_object_id (ParseRequestInfo example_abi example_request (example_message
     ([1, 0, 20, 0, 7, 0, 0, 0, 0, 0, 0, 0, 0, 0, 0, 0] @ in_header_bytes 4 @ [1, 2, 3, 4] @ [9, 0, 0, 0]))) = 7"
  using domain_request_decoded [OF example_raw_data(1),
      of "[1, 0, 20, 0, 7, 0, 0, 0, 0, 0, 0, 0, 0, 0, 0, 0]" "in_header_bytes 4" "[1, 2, 3, 4]" "[9, 0, 0, 0]" example_abi]
  by (simp add: example_domain)

text \<open>
  C39. A close that carries only a domain header is reported as the close of the root: when
  the two headers have the same size, the raw data is one domain header, and its first
  word is the close code of a root session, the request counts as a close of the root with
  object 0, whatever object the domain header addresses, because the domain branch asks
  for a second header behind the first.
\<close>

theorem short_domain_close_seen_as_root_close:
  assumes "GetRequestRawData parse message = Some (request, domain)"
    and "length domain = domain_in_header_size abi" "in_header_size abi = domain_in_header_size abi"
    and "0 < in_header_size abi" "in_header_magic abi domain = CmifCommandType_Close abi"
    and "CmifCommandType_Close abi \<noteq> InHeaderMagic abi"
  shows "ParseRequestInfo abi parse message =
      \<lparr>info_valid = True, info_is_domain = False, info_is_close = True, info_command_type = hr_type request,
       info_command_id = 0, info_object_id = 0, info_raw_size = length domain\<rparr>
    \<and> \<not> rq_domain_close (GetRequestDecodeDetails abi parse message)"
  using assms
  by (simp add: ParseRequestInfo_def GetRequestDecodeDetails_def decode_domain_request_def
      decode_root_request_def empty_request_details_def empty_request_info_def Let_def)

theorem short_domain_close_seen_as_root_close_witness:
  "let domain = [2, 0, 0, 0, 7, 0, 0, 0, 0, 0, 0, 0, 0, 0, 0, 0] in
     domain_in_type example_abi domain = CmifDomainRequestType_Close example_abi
     \<and> domain_in_object_id example_abi domain = 7
     \<and> info_object_id (ParseRequestInfo example_abi example_request (example_message domain)) = 0
     \<and> \<not> info_is_domain (ParseRequestInfo example_abi example_request (example_message domain))"
  using short_domain_close_seen_as_root_close [OF example_raw_data(1),
      of "[2, 0, 0, 0, 7, 0, 0, 0, 0, 0, 0, 0, 0, 0, 0, 0]" example_abi]
  by (simp add: example_domain Let_def)

subsection \<open>What a response decodes to\<close>

lemma first_words_le:
  "first_words (length ids) (concat (map (\<lambda>w. le_bytes 4 (unat w)) ids)) = ids"
proof (rule nth_equalityI)
  let ?bytes = "\<lambda>xs :: u32 list. concat (map (\<lambda>w. le_bytes 4 (unat w)) xs)"
  have len: "length (?bytes xs) = 4 * length xs" for xs by (induction xs) simp_all
  show l: "length (first_words (length ids) (?bytes ids)) = length ids"
    by (simp add: first_words_def len del: length_concat)
  fix i assume "i < length (first_words (length ids) (?bytes ids))"
  then have i: "i < length ids" using l by simp
  have "?bytes ids = ?bytes (take i ids) @ le_bytes 4 (unat (ids ! i)) @ ?bytes (drop (Suc i) ids)"
    by (subst id_take_nth_drop [OF i]) simp
  moreover have "length (?bytes (take i ids)) = 4 * i" using i len [of "take i ids"] by simp
  ultimately have "copy_word (?bytes ids) (4 * i) = ids ! i"
    using copy_word_at [where 'a = 32, of 4 "?bytes (take i ids)" "4 * i" "ids ! i" "?bytes (drop (Suc i) ids)"]
    by simp
  then show "first_words (length ids) (?bytes ids) ! i = ids ! i"
    using i by (simp add: first_words_def len del: length_concat)
qed

text \<open>
  C36. The objects a domain call returns are found: when the raw data is a domain header
  announcing at most eight objects, a CMIF header with the right magic, a payload and the
  identifiers as little-endian words, the details list exactly these identifiers and
  carry the payload between header and identifiers: its size, its first 64 bytes, its
  first four words and the hexadecimal text of its first bytes. The rest of the byte
  buffer is zero unless the domain header itself begins like a CMIF response header.
\<close>

theorem returned_objects_decoded:
  assumes "GetResponseRawData parse message = Some (response,
      domain @ header @ payload @ concat (map (\<lambda>w. le_bytes 4 (unat w)) ids))"
    and "length domain = domain_out_header_size abi" "length header = out_header_size abi"
    and "out_header_magic abi header = OutHeaderMagic abi"
    and "unat (domain_out_num_objects abi domain) = length ids" "0 < length ids" "length ids \<le> 8"
  defines "d \<equiv> GetResponseDecodeDetails abi parse message"
  shows "rs_out_object_ids_valid d \<and> take (rs_out_object_id_count d) (rs_out_object_ids d) = ids
    \<and> rs_payload_size d = length payload \<and> rs_domain_cmif_valid d \<and> rs_domain_cmif_header d = header
    \<and> take (min (length payload) 64) (rs_payload_bytes d) = take 64 payload
    \<and> (\<forall>i < 4. 4 * i + 4 \<le> length payload \<longrightarrow> rs_payload_words d ! i = copy_word payload (4 * i))
    \<and> rs_payload_preview_hex d = hex_preview (min (length payload) HexPreviewBytes) payload
    \<and> (out_header_magic abi (take (out_header_size abi) (domain @ header)) \<noteq> OutHeaderMagic abi
        \<longrightarrow> rs_payload_bytes d = take 64 (payload @ replicate 64 0))"
proof -
  let ?ids = "concat (map (\<lambda>w. le_bytes 4 (unat w)) ids)"
  let ?raw = "domain @ header @ payload @ ?ids"
  have len: "length ?ids = 4 * length ids" by (induction ids) simp_all
  have t: "take (out_header_size abi) ?raw = take (out_header_size abi) (domain @ header)"
    using assms(2,3) by simp
  obtain e where d: "d = decode_domain_response abi ?raw e" and e: "rs_out_object_ids e = replicate 8 0"
    "rs_out_object_ids_valid e = False"
    and zeros: "out_header_magic abi (take (out_header_size abi) (domain @ header)) \<noteq> OutHeaderMagic abi
      \<longrightarrow> rs_payload_bytes e = replicate 64 0"
    unfolding d_def GetResponseDecodeDetails_def assms(1) t [symmetric]
    by (auto simp: decode_root_response_def fill_response_payload_def empty_response_details_def
        SemanticPayloadBytes_def Let_def)
  let ?e = "e\<lparr>rs_domain_header := domain, rs_domain_cmif_header := header, rs_domain_cmif_valid := True\<rparr>"
  let ?i = "?e\<lparr>rs_out_object_ids := overlay ids (replicate 8 0), rs_out_object_id_count := length ids,
      rs_out_object_ids_valid := True\<rparr>"
  have last_words: "drop (length ?raw - length ids * 4) ?raw = ?ids" using len by simp
  have ids: "decode_object_ids ?raw (domain_out_header_size abi + out_header_size abi) (length ids) ?e = ?i"
    using assms(2,3,6,7) len e last_words first_words_le [of ids]
    by (simp add: decode_object_ids_def del: length_concat)
  have "d = fill_response_payload payload ?i"
    unfolding d decode_domain_response_def Let_def
    using assms(2-5) len ids by (simp del: length_concat)
  moreover have "first_words 4 payload ! i = copy_word payload (4 * i)" "i < length (first_words 4 payload)"
    if "i < 4" "4 * i + 4 \<le> length payload" for i
  proof -
    have "i < length payload div 4" using that(2) by presburger
    with that(1) show "first_words 4 payload ! i = copy_word payload (4 * i)" "i < length (first_words 4 payload)"
      by (simp_all add: first_words_def)
  qed
  moreover have "take (min (length payload) 64) payload = take 64 payload" by (simp add: min_def)
  ultimately show ?thesis
    using zeros overlay_zeros [of 64 payload 0]
    by (auto simp: fill_response_payload_def overlay_def SemanticPayloadBytes_def nth_append min.commute)
qed

theorem returned_objects_decoded_witness:
  "take (length [5 :: u8, 6, 7, 8]) (rs_payload_bytes (GetResponseDecodeDetails example_abi example_response (example_message
     ([1, 0, 0, 0, 0, 0, 0, 0, 0, 0, 0, 0, 0, 0, 0, 0]
      @ [0x53, 0x46, 0x43, 0x4F, 0, 0, 0, 0, 0, 0, 0, 0, 0, 0, 0, 0] @ [5, 6, 7, 8]
      @ concat (map (\<lambda>w. le_bytes 4 (unat w)) [3 :: u32]))))) = [5, 6, 7, 8]"
proof -
  have magic: "out_header_magic example_abi [0x53, 0x46, 0x43, 0x4F, 0, 0, 0, 0, 0, 0, 0, 0, 0, 0, 0, 0] = OutHeaderMagic example_abi"
    by (simp add: example_abi_def copy_word_four)
  have count: "unat (domain_out_num_objects example_abi [1, 0, 0, 0, 0, 0, 0, 0, 0, 0, 0, 0, 0, 0, 0, 0]) = 1"
    by (simp add: example_abi_def copy_word_four)
  show ?thesis
    using returned_objects_decoded [OF example_raw_data(2),
        of "[1, 0, 0, 0, 0, 0, 0, 0, 0, 0, 0, 0, 0, 0, 0, 0]"
           "[0x53, 0x46, 0x43, 0x4F, 0, 0, 0, 0, 0, 0, 0, 0, 0, 0, 0, 0]" "[5, 6, 7, 8]" "[3]" example_abi] magic count
    by simp
qed

subsection \<open>Remembering the returned objects\<close>

lemma remember_children_lookup:
  assumes "tables_ok s" "distinct (filter (\<lambda>x. x \<noteq> 0) ids)" "length ids \<le> paths.free_slots (domain_paths s)"
  shows "(\<forall>j < length ids. ids ! j \<noteq> 0 \<longrightarrow> (\<exists>e.
      paths.lookup (domain_paths (remember_children now sid parent_path parent_id command_id i ids s)) (sid, ids ! j) = Some e
      \<and> dp_relative_path e = take 95 (child_text parent_path command_id (of_nat (i + j)))))
    \<and> (\<forall>k. k \<notin> Pair sid ` (set ids - {0}) \<longrightarrow>
      paths.lookup (domain_paths (remember_children now sid parent_path parent_id command_id i ids s)) k = paths.lookup (domain_paths s) k)"
  using assms
proof (induction ids arbitrary: i s)
  case (Cons x ids)
  let ?p = "child_text parent_path command_id (of_nat i)"
  let ?s = "if x = 0 then s else RememberDomainPath (now i) sid x (Some (take 95 ?p)) parent_id command_id s"
  let ?r = "remember_children now sid parent_path parent_id command_id (Suc i) ids ?s"
  have run: "remember_children now sid parent_path parent_id command_id i (x # ids) s = ?r"
    by (simp add: MaxDomainPathLength_def)
  have table: "paths.table_ok MaxTrackedDomainPaths (domain_paths s)" using Cons.prems(1) by (simp add: tables_ok_def)
  have nonempty: "take 95 ?p \<noteq> []" by (simp add: child_text_def)
  have step: "domain_paths ?s = (if x = 0 then domain_paths s
      else snd (paths.remember (sid, x) (now i, take 95 ?p, parent_id, command_id) (domain_paths s)))"
    using nonempty by (simp add: RememberDomainPath_paths)
  have ok: "tables_ok ?s" using Cons.prems(1) RememberDomainPath_ok by simp
  have room: "length ids \<le> paths.free_slots (domain_paths ?s)"
    using Cons.prems(3) paths.remember_free [OF table, of "(sid, x)" "(now i, take 95 ?p, parent_id, command_id)"]
    unfolding step by simp
  have dist: "distinct (filter (\<lambda>x. x \<noteq> 0) ids)" "x \<noteq> 0 \<Longrightarrow> x \<notin> set ids"
    using Cons.prems(2) by (auto split: if_splits)
  note ih = Cons.IH [OF ok dist(1) room, of "Suc i"]
  have found: "\<exists>e. paths.lookup (domain_paths ?r) (sid, x) = Some e \<and> dp_relative_path e = take 95 ?p" if "x \<noteq> 0"
  proof -
    have "\<exists>e. paths.lookup (domain_paths ?s) (sid, x) = Some e \<and> dp_relative_path e = take 95 ?p"
      using paths.remember_found [OF table, of "(sid, x)" "(now i, take 95 ?p, parent_id, command_id)"] that
      unfolding step by (auto simp: dp_fields_remembered split: option.splits)
    moreover have "(sid, x) \<notin> Pair sid ` (set ids - {0})" using dist(2) that by auto
    ultimately show ?thesis using ih by auto
  qed
  have other: "paths.lookup (domain_paths ?s) k = paths.lookup (domain_paths s) k" if "x = 0 \<or> k \<noteq> (sid, x)" for k
    using that paths.remember_keeps [OF table, of k "(sid, x)"] Cons.prems(3) unfolding step by auto
  have "\<exists>e. paths.lookup (domain_paths ?r) (sid, (x # ids) ! j) = Some e
      \<and> dp_relative_path e = take 95 (child_text parent_path command_id (of_nat (i + j)))"
    if j: "j < length (x # ids)" "(x # ids) ! j \<noteq> 0" for j
  proof (cases j)
    case 0
    with j found show ?thesis by simp
  next
    case (Suc m)
    with j ih show ?thesis by auto
  qed
  moreover have "paths.lookup (domain_paths ?r) k = paths.lookup (domain_paths s) k"
    if k: "k \<notin> Pair sid ` (set (x # ids) - {0})" for k
  proof -
    have k': "k \<notin> Pair sid ` (set ids - {0})" "x = 0 \<or> k \<noteq> (sid, x)" using k by auto
    then have same: "paths.lookup (domain_paths ?r) k = paths.lookup (domain_paths ?s) k" using ih by blast
    show ?thesis by (rule trans [OF same other [OF k'(2)]])
  qed
  ultimately show ?case unfolding run by blast
qed simp

lemma returned_children_printed:
  assumes "tables_ok s" "rs_out_object_ids_valid d" "0 < rs_out_object_id_count d"
    and "take (rs_out_object_id_count d) (rs_out_object_ids d) = ids" "rs_out_object_id_count d = length ids"
    and "distinct (filter (\<lambda>x. x \<noteq> 0) ids)" "length ids \<le> paths.free_slots (domain_paths s)"
    and "j < length ids" "ids ! j \<noteq> 0"
  shows "buf_text (GetRelativeDomainPath (fresh_buf 96) sid (ids ! j)
      (RememberReturnedDomainObjects now sid parent_id command_id d s)) =
    take 95 (child_text (buf_text (GetRelativeDomainPath (fresh_buf 96) sid parent_id s)) command_id (of_nat j))"
proof -
  let ?pp = "buf_text (GetRelativeDomainPath (fresh_buf MaxDomainPathLength) sid parent_id s)"
  have run: "RememberReturnedDomainObjects now sid parent_id command_id d s =
      remember_children now sid ?pp parent_id command_id 0 ids s"
    using assms(2-4) by (simp add: RememberReturnedDomainObjects_def)
  obtain e where "paths.lookup (domain_paths (remember_children now sid ?pp parent_id command_id 0 ids s)) (sid, ids ! j) = Some e"
    "dp_relative_path e = take 95 (child_text ?pp command_id (of_nat j))"
    using remember_children_lookup [OF assms(1,6,7), of now sid ?pp parent_id command_id 0] assms(8,9) by auto
  then show ?thesis
    unfolding run using assms(9) by (simp add: GetRelativeDomainPath_def GetTracked_lookup MaxDomainPathLength_def)
qed

text \<open>
  A returned object is traced under its creation: after a response that lists new
  objects, each object's path is its parent's path with the command and the index that
  returned it, cut at 95 characters, provided the identifiers differ and the table has
  room for them; so the trace name of an object a service's root returned is the service
  name followed by the root's child path, and the network interface manager's naming finds
  a general service behind its two creation commands.
\<close>

theorem returned_objects_are_traced:
  assumes "tables_ok s" "rs_out_object_ids_valid d" "0 < rs_out_object_id_count d"
    and "take (rs_out_object_id_count d) (rs_out_object_ids d) = ids" "rs_out_object_id_count d = length ids"
    and "distinct (filter (\<lambda>x. x \<noteq> 0) ids)" "length ids \<le> paths.free_slots (domain_paths s)"
    and "j < length ids" "ids ! j \<noteq> 0"
    and s'_def: "s' = RememberReturnedDomainObjects now sid parent_id command_id d s"
  shows "buf_text (GetRelativeDomainPath (fresh_buf 96) sid (ids ! j) s') =
      take 95 (child_text (buf_text (GetRelativeDomainPath (fresh_buf 96) sid parent_id s)) command_id (of_nat j))
    \<and> (parent_id = 0 \<and> length service \<le> 100 \<longrightarrow>
      buf_text (FormatObjectPath (fresh_buf 160) service sid (ids ! j) s') =
        child_text (service @ ''.root'') command_id (of_nat j)
      \<and> (CHR ''.'' \<notin> set service \<and> (command_id = 4 \<or> command_id = 5) \<longrightarrow>
          nifm_kind (Some (buf_text (FormatObjectPath (fresh_buf 160) service sid (ids ! j) s'))) = ''IGeneralService''))"
proof -
  note printed = returned_children_printed [OF assms(1-9), of sid now parent_id command_id, folded s'_def]
  have path: "buf_text (FormatObjectPath (fresh_buf 160) service sid (ids ! j) s') =
      child_text (service @ ''.root'') command_id (of_nat j)"
    if "parent_id = 0" "length service \<le> 100"
  proof -
    let ?c = "child_text ''root'' command_id (of_nat j)"
    have root: "buf_text (GetRelativeDomainPath (fresh_buf 96) sid 0 s) = ''root''"
      by (simp add: GetRelativeDomainPath_def)
    have len: "length ?c \<le> 40"
      using length_show_word [of 10 command_id] length_show_word [of 10 "of_nat j :: u32"]
      by (simp add: child_text_def)
    have rel: "buf_text (GetRelativeDomainPath (fresh_buf 96) sid (ids ! j) s') = ?c"
      using printed len unfolding that(1) root by simp
    have "child_text (service @ ''.root'') command_id (of_nat j) = service @ ''.'' @ ?c"
      by (simp add: child_text_def)
    with rel len that(2) show ?thesis by (simp add: FormatObjectPath_def MaxDomainPathLength_def)
  qed
  show ?thesis
    using printed path general_service_kind [of service command_id "of_nat j"] by simp
qed

theorem returned_objects_are_traced_witness:
  "buf_text (FormatObjectPath (fresh_buf 160) ''nifm:u'' 5 9
     (RememberReturnedDomainObjects (\<lambda>_. 1) 5 0 4
        (empty_response_details\<lparr>rs_out_object_ids_valid := True, rs_out_object_id_count := 1,
           rs_out_object_ids := [9, 0, 0, 0, 0, 0, 0, 0]\<rparr>) initial_tables)) = child_text ''nifm:u.root'' 4 0"
proof -
  have "1 \<le> paths.free_slots (domain_paths initial_tables)"
    by (simp add: paths.free_slots_def initial_tables_def MaxTrackedDomainPaths_def empty_domain_path_def)
  then show ?thesis
    using returned_objects_are_traced [OF initial_tables_ok, of
        "empty_response_details\<lparr>rs_out_object_ids_valid := True, rs_out_object_id_count := 1,
           rs_out_object_ids := [9, 0, 0, 0, 0, 0, 0, 0]\<rparr>" "[9]" 0 _ "\<lambda>_. 1" 5 0 4 "''nifm:u''", OF _ _ _ _ _ _ _ _ refl]
    by simp
qed

subsection \<open>A socket call from its message to its summary\<close>

lemma ReadPod_payload:
  "LENGTH('a) = 8 * k \<Longrightarrow> length front + k \<le> len \<Longrightarrow>
     ReadPod (front @ le_bytes k (unat (w :: 'a::len word)) @ back) len (length front) = Some w"
  by (simp add: ReadPod_def copy_word_at)

text \<open>
  C37. A socket call is traced with its arguments: when the message of a \<^verbatim>\<open>Socket\<close> request to
  the root carries the domain, the type and the protocol as three little-endian words, the
  summary lists exactly these three values with the names of the known ones, whatever
  follows in the payload.
\<close>

theorem socket_call_traced:
  assumes "GetRequestRawData parse message = Some (request, header @ payload)"
    and "length header = in_header_size abi" "in_header_magic abi header = InHeaderMagic abi"
    and "domain_in_type abi (take (domain_in_header_size abi) (header @ payload)) \<noteq> CmifDomainRequestType_SendMessage abi"
    and "payload = le_bytes 4 (unat family) @ le_bytes 4 (unat kind) @ le_bytes 4 (unat protocol) @ rest"
    and "command_id = 2 \<or> command_id = 3"
  shows "FormatBsdSemanticRequestSummary (fresh_buf n) (Some (service @ ''.root'')) command_id
      (GetRequestDecodeDetails abi parse message) =
    AppendNamedValue (AppendNamedValue (AppendNamedValue (fresh_buf n)
        ''domain'' family (GetBsdAddressFamilyName (ucast family)))
        ''type'' kind (GetBsdSocketTypeName kind))
        ''protocol'' protocol (GetBsdProtocolName protocol)"
proof -
  let ?d = "GetRequestDecodeDetails abi parse message"
  have carries: "carries_payload ?d payload" by (rule root_request_details(1) [OF assms(1-4)])
  let ?tail = "take 52 (rest @ replicate 64 0)"
  have bytes: "rq_payload_bytes ?d = le_bytes 4 (unat family) @ le_bytes 4 (unat kind) @ le_bytes 4 (unat protocol) @ ?tail"
    using carries by (simp add: carries_payload_def assms(5))
  have len: "12 \<le> rq_payload_size ?d" using carries by (simp add: carries_payload_def assms(5))
  have reads: "ReadPod (rq_payload_bytes ?d) (rq_payload_size ?d) 0 = Some family"
    "ReadPod (rq_payload_bytes ?d) (rq_payload_size ?d) 4 = Some kind"
    "ReadPod (rq_payload_bytes ?d) (rq_payload_size ?d) 8 = Some protocol"
    using len ReadPod_payload [where 'a = 32, of 4 "[]" "rq_payload_size ?d" family]
      ReadPod_payload [where 'a = 32, of 4 "le_bytes 4 (unat family)" "rq_payload_size ?d" kind]
      ReadPod_payload [where 'a = 32, of 4 "le_bytes 4 (unat family) @ le_bytes 4 (unat kind)" "rq_payload_size ?d" protocol]
    by (simp_all add: bytes)
  have clear: "snprintf (fresh_buf n) [] = fresh_buf n" by (simp add: snprintf_def fresh_buf_def)
  have known: "IsKnownBsdObjectPath (Some (service @ ''.root''))"
    by (simp add: IsKnownBsdObjectPath_def EndsWith_def)
  have summary: "bsd_socket_summary (fresh_buf n) (rq_payload_bytes ?d) (rq_payload_size ?d) =
      AppendNamedValue (AppendNamedValue (AppendNamedValue (fresh_buf n)
        ''domain'' family (GetBsdAddressFamilyName (ucast family)))
        ''type'' kind (GetBsdSocketTypeName kind))
        ''protocol'' protocol (GetBsdProtocolName protocol)"
    unfolding bsd_socket_summary_def reads option.case prod.case Let_def by (rule refl)
  show ?thesis
  proof (cases "n = 0")
    case True
    have "AppendNamedValue (fresh_buf 0) l v nm = fresh_buf 0" for l v nm
      by (simp add: AppendNamedValue_def AppendSummaryText_def fresh_buf_def split: option.split)
    then show ?thesis by (simp add: True FormatBsdSemanticRequestSummary_def)
  next
    case False
    then show ?thesis
      unfolding FormatBsdSemanticRequestSummary_def Let_def clear summary
      using known assms(6) by auto
  qed
qed

theorem socket_call_traced_witness:
  "FormatBsdSemanticRequestSummary (fresh_buf 128) (Some ''bsd:u.root'') 2
     (GetRequestDecodeDetails example_abi example_request (example_message
        (in_header_bytes 2 @ le_bytes 4 2 @ le_bytes 4 1 @ le_bytes 4 6 @ [0, 0, 0, 0]))) =
   Some \<lparr>cap = 128, content = ''domain=AF_INET(2) type=SOCK_STREAM(1) protocol=TCP(6)''\<rparr>"
proof -
  let ?payload = "le_bytes 4 (unat (2 :: s32)) @ le_bytes 4 (unat (1 :: s32)) @ le_bytes 4 (unat (6 :: s32)) @ [0, 0, 0, 0]"
  have line: "AppendNamedValue (AppendNamedValue (AppendNamedValue (fresh_buf 128)
        ''domain'' 2 (GetBsdAddressFamilyName (ucast (2 :: s32))))
        ''type'' 1 (GetBsdSocketTypeName 1)) ''protocol'' 6 (GetBsdProtocolName 6) =
      Some \<lparr>cap = 128, content = ''domain=AF_INET(2) type=SOCK_STREAM(1) protocol=TCP(6)''\<rparr>"
    by code_simp
  show ?thesis
    using socket_call_traced [OF example_raw_data(1), of "in_header_bytes 2" ?payload example_abi 2 1 6 "[0, 0, 0, 0]" 2
        128 "''bsd:u''"] line
    by (simp add: example_domain)
qed

end
