(* ===== verification/RingQueue.thy ===== *)
theory RingQueue
  imports Prelude
begin

text \<open>
  The bounded overwriting ring of the probe's logger
  (\<^verbatim>\<open>net-probe/src/logger.cpp\<close>): one array, a head, a tail, a count and a drop
  counter per queue. The index arithmetic is the one \<open>QueueLineLocked\<close>,
  \<open>PopLineLocked\<close>, \<open>QueueBlobLocked\<close> and \<open>PopBlobLocked\<close> share. The locale
  \<open>bounded_queue\<close> is the contract the flush loop relies on: a FIFO list of at most
  \<open>limit\<close> entries that loses its oldest entry, and counts the loss, when it is full.
\<close>

record 'a ring =
  slots :: "'a list"
  head :: nat
  tail :: nat
  ring_count :: nat
  dropped_count :: u64

definition empty_ring :: "nat \<Rightarrow> 'a \<Rightarrow> 'a ring" where
  "empty_ring lim blank = \<lparr>slots = replicate lim blank, head = 0, tail = 0, ring_count = 0, dropped_count = 0\<rparr>"

definition ring_push :: "nat \<Rightarrow> 'a \<Rightarrow> 'a ring \<Rightarrow> 'a ring" where
  "ring_push lim entry r =
     (let r1 = (if ring_count r = lim
                then r\<lparr>tail := (tail r + 1) mod lim, ring_count := ring_count r - 1,
                       dropped_count := dropped_count r + 1\<rparr>
                else r)
      in r1\<lparr>slots := (slots r1)[head r := entry], head := (head r1 + 1) mod lim,
            ring_count := ring_count r1 + 1\<rparr>)"

definition ring_pop :: "nat \<Rightarrow> 'a ring \<Rightarrow> ('a \<times> 'a ring) option" where
  "ring_pop lim r =
     (if ring_count r = 0 then None
      else Some (slots r ! tail r, r\<lparr>tail := (tail r + 1) mod lim, ring_count := ring_count r - 1\<rparr>))"

definition clear_drops :: "'a ring \<Rightarrow> 'a ring" where
  "clear_drops r = r\<lparr>dropped_count := 0\<rparr>"

definition ring_ok :: "nat \<Rightarrow> 'a ring \<Rightarrow> bool" where
  "ring_ok lim r \<longleftrightarrow> 0 < lim \<and> length (slots r) = lim \<and> tail r < lim \<and> ring_count r \<le> lim
     \<and> head r = (tail r + ring_count r) mod lim"

definition ring_list :: "nat \<Rightarrow> 'a ring \<Rightarrow> 'a list" where
  "ring_list lim r = map (\<lambda>i. slots r ! ((tail r + i) mod lim)) [0..<ring_count r]"

subsection \<open>The ring against its list\<close>

lemma ring_list_length [simp]: "length (ring_list lim r) = ring_count r"
  by (simp add: ring_list_def)

lemma empty_ring_ok: "0 < lim \<Longrightarrow> ring_ok lim (empty_ring lim b)"
  by (simp add: ring_ok_def empty_ring_def)

lemma empty_ring_list [simp]: "ring_list lim (empty_ring lim b) = []"
  by (simp add: ring_list_def empty_ring_def)

lemma mod_shift_inj:
  fixes t :: nat
  assumes "i < lim" "j < lim" "(t + i) mod lim = (t + j) mod lim"
  shows "i = j"
proof -
  have "(int t + int i) mod int lim = (int t + int j) mod int lim"
    using assms(3) by (metis of_nat_add of_nat_mod)
  then have "(int t + int i - int t) mod int lim = (int t + int j - int t) mod int lim"
    by (rule mod_diff_cong) simp
  with assms(1,2) show ?thesis by simp
qed

lemma ring_push_ok:
  assumes "ring_ok lim r"
  shows "ring_ok lim (ring_push lim e r)"
proof (cases "ring_count r = lim")
  case True
  with assms have "head r = tail r" by (simp add: ring_ok_def)
  with assms True show ?thesis
    by (auto simp: ring_ok_def ring_push_def Let_def mod_add_left_eq)
next
  case False
  with assms show ?thesis
    by (auto simp: ring_ok_def ring_push_def Let_def mod_Suc_eq)
qed

lemma ring_push_list:
  assumes "ring_ok lim r"
  shows "ring_list lim (ring_push lim e r) =
    (if ring_count r = lim then tl (ring_list lim r) else ring_list lim r) @ [e]"
proof (cases "ring_count r = lim")
  case True
  from assms have lim: "0 < lim" "length (slots r) = lim" "tail r < lim" by (simp_all add: ring_ok_def)
  from assms True have h: "head r = tail r" by (simp add: ring_ok_def)
  show ?thesis
  proof (rule nth_equalityI)
    show "length (ring_list lim (ring_push lim e r)) = length ((if ring_count r = lim
        then tl (ring_list lim r) else ring_list lim r) @ [e])"
      using True lim by (simp add: ring_push_def)
  next
    fix i assume i: "i < length (ring_list lim (ring_push lim e r))"
    with True lim have i': "i < lim" by (simp add: ring_push_def)
    have m: "((tail r + 1) mod lim + i) mod lim = (tail r + (i + 1)) mod lim"
      by (simp add: mod_add_left_eq mod_Suc_eq)
    show "ring_list lim (ring_push lim e r) ! i = ((if ring_count r = lim
        then tl (ring_list lim r) else ring_list lim r) @ [e]) ! i"
    proof (cases "i + 1 = lim")
      case last: True
      then have "(tail r + (i + 1)) mod lim = tail r" using lim by simp
      with True last lim h i' m show ?thesis
        by (auto simp: ring_push_def ring_list_def nth_append nth_tl)
    next
      case False
      with i' have lt: "i + 1 < lim" by simp
      have "(tail r + (i + 1)) mod lim \<noteq> tail r"
        using mod_shift_inj [of "i + 1" lim 0 "tail r"] lt lim by auto
      with True lt lim h m show ?thesis
        by (auto simp add: ring_push_def ring_list_def nth_append nth_tl)
    qed
  qed
next
  case False
  from assms False have lim: "0 < lim" "length (slots r) = lim" "ring_count r < lim"
    and h: "head r = (tail r + ring_count r) mod lim"
    by (simp_all add: ring_ok_def)
  have ne: "(tail r + i) mod lim \<noteq> head r" if "i < ring_count r" for i
    using mod_shift_inj [of i lim "ring_count r" "tail r"] that lim h by auto
  have hl: "head r < lim" using h lim by simp
  have "ring_list lim (ring_push lim e r) =
      map (\<lambda>i. (slots r)[head r := e] ! ((tail r + i) mod lim)) [0..<ring_count r + 1]"
    using False by (simp add: ring_list_def ring_push_def)
  also have "\<dots> = ring_list lim r @ [e]"
    using ne [THEN not_sym] hl lim h by (auto simp: ring_list_def)
  finally show ?thesis using False by simp
qed

lemma ring_pop_None [simp]: "ring_pop lim r = None \<longleftrightarrow> ring_list lim r = []"
  by (simp add: ring_pop_def ring_list_def)

lemma ring_pop_Some:
  assumes "ring_ok lim r" "ring_pop lim r = Some (e, r')"
  shows "ring_ok lim r'" "ring_list lim r = e # ring_list lim r'" "dropped_count r' = dropped_count r"
proof -
  from assms have c: "0 < lim" "tail r < lim" "0 < ring_count r"
    and e: "e = slots r ! tail r" and r': "r' = r\<lparr>tail := (tail r + 1) mod lim, ring_count := ring_count r - 1\<rparr>"
    by (auto simp: ring_ok_def ring_pop_def split: if_splits)
  show "dropped_count r' = dropped_count r" by (simp add: r')
  from c(3) obtain k where k: "ring_count r = Suc k" by (cases "ring_count r") auto
  have "((tail r + 1) mod lim + (ring_count r - 1)) mod lim = (tail r + ring_count r) mod lim"
    by (simp add: k mod_add_left_eq)
  with assms(1) c show "ring_ok lim r'" by (auto simp: ring_ok_def r')
  have "[0..<ring_count r] = 0 # map Suc [0..<ring_count r - 1]"
    unfolding k by (simp add: map_Suc_upt upt_conv_Cons del: upt_Suc)
  then show "ring_list lim r = e # ring_list lim r'"
    using c e by (simp add: ring_list_def r' comp_def mod_add_left_eq mod_Suc_eq)
qed

lemma ring_push_drops:
  "dropped_count (ring_push lim e r) = dropped_count r + (if ring_count r = lim then 1 else 0)"
  by (simp add: ring_push_def Let_def)

lemma clear_drops_ok [simp]: "ring_ok lim (clear_drops r) = ring_ok lim r"
  by (simp add: ring_ok_def clear_drops_def)

lemma clear_drops_list [simp]: "ring_list lim (clear_drops r) = ring_list lim r"
  by (simp add: ring_list_def clear_drops_def)

subsection \<open>The contract of a bounded overwriting queue\<close>

locale bounded_queue =
  fixes limit :: nat
    and invar :: "'q \<Rightarrow> bool"
    and contents :: "'q \<Rightarrow> 'e list"
    and push :: "'e \<Rightarrow> 'q \<Rightarrow> 'q"
    and pop :: "'q \<Rightarrow> ('e \<times> 'q) option"
    and drops :: "'q \<Rightarrow> u64"
  assumes limit_pos: "0 < limit"
    and bounded: "invar q \<Longrightarrow> length (contents q) \<le> limit"
    and push_invar: "invar q \<Longrightarrow> invar (push e q)"
    and push_contents: "invar q \<Longrightarrow>
      contents (push e q) = (if length (contents q) = limit then tl (contents q) else contents q) @ [e]"
    and push_drops: "invar q \<Longrightarrow>
      drops (push e q) = drops q + (if length (contents q) = limit then 1 else 0)"
    and pop_empty: "pop q = None \<longleftrightarrow> contents q = []"
    and pop_invar: "invar q \<Longrightarrow> pop q = Some (e, q') \<Longrightarrow> invar q'"
    and pop_contents: "invar q \<Longrightarrow> pop q = Some (e, q') \<Longrightarrow> contents q = e # contents q'"
    and pop_drops: "invar q \<Longrightarrow> pop q = Some (e, q') \<Longrightarrow> drops q' = drops q"
begin

text \<open>Pushing a list of entries keeps the newest \<open>limit\<close> ones, in order.\<close>

lemma push_all_invar: "invar q \<Longrightarrow> invar (fold push es q)"
  by (induction es arbitrary: q) (auto intro: push_invar)

lemma push_contents_drop:
  assumes "invar q"
  shows "contents (push e q) = drop (length (contents q) + 1 - limit) (contents q @ [e])"
proof -
  from bounded [OF assms] have "length (contents q) + 1 - limit = (if length (contents q) = limit then 1 else 0)"
    by auto
  then show ?thesis using push_contents [OF assms, of e] limit_pos by (auto simp: drop_Suc)
qed

lemma push_all_contents:
  assumes "invar q"
  shows "contents (fold push es q) =
    drop (length (contents q) + length es - limit) (contents q @ es)"
  using assms
proof (induction es rule: rev_induct)
  case Nil
  with bounded show ?case by simp
next
  case (snoc e es)
  let ?l = "contents q @ es"
  let ?c = "drop (length (contents q) + length es - limit) ?l"
  have i: "invar (fold push es q)" using snoc.prems by (rule push_all_invar)
  have "contents (fold push (es @ [e]) q) = drop (length ?c + 1 - limit) (?c @ [e])"
    using push_contents_drop [OF i, of e] snoc by simp
  also have "\<dots> = drop (length ?l + 1 - limit) (?l @ [e])"
  proof (cases "length ?l < limit")
    case False
    then have "length ?c = limit" by simp
    moreover have "length ?l + 1 - limit = 1 + (length ?l - limit)" using False by simp
    moreover have "drop (length ?l - limit) (?l @ [e]) = drop (length ?l - limit) ?l @ [e]" by simp
    ultimately show ?thesis by (metis (no_types) add_diff_cancel_left' drop_drop length_append)
  qed simp
  finally show ?case by simp
qed

lemma push_all_drops:
  assumes "invar q"
  shows "drops (fold push es q) + of_nat (length (contents (fold push es q))) =
    drops q + of_nat (length (contents q) + length es)"
  using assms
proof (induction es arbitrary: q)
  case (Cons e es)
  have "drops (push e q) + of_nat (length (contents (push e q))) = drops q + of_nat (length (contents q) + 1)"
    using push_drops [OF Cons.prems] push_contents [OF Cons.prems] limit_pos by auto
  with Cons.IH [OF push_invar [OF Cons.prems]] show ?case by (simp add: algebra_simps)
qed simp

text \<open>At most \<open>n\<close> pops, as the batch loops of the flush do.\<close>

fun take_batch :: "nat \<Rightarrow> 'q \<Rightarrow> 'e list \<times> 'q" where
  "take_batch 0 q = ([], q)"
| "take_batch (Suc n) q =
     (case pop q of
        None \<Rightarrow> ([], q)
      | Some (e, q') \<Rightarrow> (let (es, q'') = take_batch n q' in (e # es, q'')))"

lemma take_batch_invar: "invar q \<Longrightarrow> invar (snd (take_batch n q))"
  by (induction n arbitrary: q)
    (auto split: option.splits prod.splits, metis pop_invar snd_conv)

lemma take_batch_contents:
  "invar q \<Longrightarrow> fst (take_batch n q) = take n (contents q) \<and> contents (snd (take_batch n q)) = drop n (contents q)"
proof (induction n arbitrary: q)
  case (Suc n)
  show ?case
  proof (cases "pop q")
    case None
    then have "contents q = []" by (simp add: pop_empty)
    with None show ?thesis by simp
  next
    case (Some r)
    obtain e q' where r: "r = (e, q')" by (cases r)
    with Suc Some show ?thesis
      using pop_contents [OF Suc.prems, of e q'] pop_invar [OF Suc.prems, of e q']
        Suc.IH [of q']
      by (simp add: Let_def case_prod_beta)
  qed
qed simp

lemma take_batch_drops: "invar q \<Longrightarrow> drops (snd (take_batch n q)) = drops q"
  by (induction n arbitrary: q)
    (auto split: option.splits prod.splits, metis pop_invar pop_drops snd_conv)

lemma take_batch_length: "invar q \<Longrightarrow> length (fst (take_batch n q)) = min n (length (contents q))"
  by (simp add: take_batch_contents)

end

interpretation overwriting_ring:
  bounded_queue "Suc n" "ring_ok (Suc n)" "ring_list (Suc n)" "ring_push (Suc n)" "ring_pop (Suc n)" dropped_count
  for n
proof unfold_locales
  show "ring_ok (Suc n) q \<Longrightarrow> length (ring_list (Suc n) q) \<le> Suc n" for q :: "'a ring"
    by (simp add: ring_ok_def)
qed (auto simp: ring_push_ok ring_push_list ring_push_drops dest: ring_pop_Some)

end
