(* ===== verification/ProbeLogger.thy ===== *)
theory ProbeLogger
  imports RingQueue "HOL-Library.Sublist"
begin

text \<open>
  The probe's logger (\<^verbatim>\<open>net-probe/src/logger.cpp\<close>): producers queue lines and binary
  records under \<open>g_logger_lock\<close>, one flush thread takes bounded batches under the same
  lock and writes them to files outside it. The queues are the rings of \<open>RingQueue\<close>.
  The file system is a map from paths to contents with an environment that may
  refuse any call; the tick of the log lines is an argument.
\<close>

datatype FileBackendState = Uninitialized | Ready | Disabled

datatype BlobQueueKind = Generic | Nifm | Bsd | Ssl

record QueuedLine =
  line_path :: string
  line_text :: string

record QueuedBlob =
  blob_path :: string
  blob_data :: "u8 list"

definition LogRootDirectory :: string where "LogRootDirectory = ''sdmc:/nxrv''"
definition LogDirectory :: string where "LogDirectory = ''sdmc:/nxrv/probe''"
definition LogFilePath :: string where "LogFilePath = ''sdmc:/nxrv/probe/net-probe.log''"
definition QueueEntryCapacity :: nat where "QueueEntryCapacity = 896"
definition BinaryQueueEntryCapacity :: nat where "BinaryQueueEntryCapacity = 96"
definition MaxQueuedPathLength :: nat where "MaxQueuedPathLength = 96"
definition MaxQueuedLineLength :: nat where "MaxQueuedLineLength = 2048"
definition MaxQueuedBlobLength :: nat where "MaxQueuedBlobLength = 2048"
definition FlushLineBatchSize :: nat where "FlushLineBatchSize = 16"
definition FlushBlobBatchSizePerFamily :: nat where "FlushBlobBatchSizePerFamily = 8"

text \<open>The order of the enumeration is the index order of the queue arrays.\<close>

fun kind_index :: "BlobQueueKind \<Rightarrow> nat" where
  "kind_index Generic = 0"
| "kind_index Nifm = 1"
| "kind_index Bsd = 2"
| "kind_index Ssl = 3"

instantiation BlobQueueKind :: linorder
begin

definition less_eq_BlobQueueKind :: "BlobQueueKind \<Rightarrow> BlobQueueKind \<Rightarrow> bool" where
  "less_eq_BlobQueueKind a b \<longleftrightarrow> kind_index a \<le> kind_index b"

definition less_BlobQueueKind :: "BlobQueueKind \<Rightarrow> BlobQueueKind \<Rightarrow> bool" where
  "less_BlobQueueKind a b \<longleftrightarrow> kind_index a < kind_index b"

instance
proof
  fix a b :: BlobQueueKind
  show "a \<le> b \<Longrightarrow> b \<le> a \<Longrightarrow> a = b"
    by (cases a; cases b) (simp_all add: less_eq_BlobQueueKind_def)
qed (auto simp: less_eq_BlobQueueKind_def less_BlobQueueKind_def)

end

definition kinds :: "BlobQueueKind list" where "kinds = [Generic, Nifm, Bsd, Ssl]"

lemma kinds_enumerate: "set kinds = UNIV" "sorted kinds" "distinct kinds"
proof -
  show "set kinds = UNIV"
  proof (rule set_eqI)
    fix k :: BlobQueueKind
    show "k \<in> set kinds \<longleftrightarrow> k \<in> UNIV" by (cases k) (simp_all add: kinds_def)
  qed
qed (simp_all add: kinds_def less_eq_BlobQueueKind_def)

record logger =
  logger_initialized :: bool
  lines :: "QueuedLine ring"
  blobs :: "BlobQueueKind \<Rightarrow> QueuedBlob ring"
  flush_thread_started :: bool
  flush_thread_stop_requested :: bool
  flush_event_signaled :: bool

text \<open>The initialisers of the globals.\<close>

definition initial_logger :: logger where
  "initial_logger =
     \<lparr>logger_initialized = False, lines = empty_ring QueueEntryCapacity \<lparr>line_path = [], line_text = []\<rparr>,
      blobs = (\<lambda>_. empty_ring BinaryQueueEntryCapacity \<lparr>blob_path = [], blob_data = []\<rparr>),
      flush_thread_started = False, flush_thread_stop_requested = False, flush_event_signaled = False\<rparr>"

text \<open>\<open>GetBlobQueueKind\<close> and \<open>GetBlobQueueLabel\<close>.\<close>

definition GetBlobQueueKind :: "string option \<Rightarrow> BlobQueueKind" where
  "GetBlobQueueKind path =
     (case path of None \<Rightarrow> Generic
      | Some p \<Rightarrow>
          if str_find ''probe-mitm-nifm.bin'' p \<noteq> None then Nifm
          else if str_find ''probe-mitm-bsd.bin'' p \<noteq> None then Bsd
          else if str_find ''probe-mitm-ssl.bin'' p \<noteq> None then Ssl
          else Generic)"

fun GetBlobQueueLabel :: "BlobQueueKind \<Rightarrow> string" where
  "GetBlobQueueLabel Generic = ''binary''"
| "GetBlobQueueLabel Nifm = ''binary-nifm''"
| "GetBlobQueueLabel Bsd = ''binary-bsd''"
| "GetBlobQueueLabel Ssl = ''binary-ssl''"

subsection \<open>Queues\<close>

text \<open>
  \<open>QueueLineLocked\<close>: the strings are the first \<open>path_size\<close> and \<open>line_size\<close> bytes of the
  arguments; \<^term>\<open>None\<close> is the null pointer. The entry keeps the clamped bytes, the
  sizes of the C++ entry are their lengths.
\<close>

definition line_entry :: "string \<Rightarrow> string \<Rightarrow> QueuedLine" where
  "line_entry path line = \<lparr>line_path = take (min (length path) (MaxQueuedPathLength - 1)) path,
     line_text = take (min (length line) (MaxQueuedLineLength - 1)) line\<rparr>"

definition QueueLineLocked :: "string option \<Rightarrow> string option \<Rightarrow> logger \<Rightarrow> bool \<times> logger" where
  "QueueLineLocked path line lg =
     (case (path, line) of
        (Some p, Some l) \<Rightarrow>
          if p = [] \<or> l = [] then (False, lg)
          else (True, lg\<lparr>lines := ring_push QueueEntryCapacity (line_entry p l) (lines lg)\<rparr>)
      | _ \<Rightarrow> (False, lg))"

definition PopLineLocked :: "logger \<Rightarrow> (QueuedLine \<times> logger) option" where
  "PopLineLocked lg = map_option (\<lambda>(e, r). (e, lg\<lparr>lines := r\<rparr>)) (ring_pop QueueEntryCapacity (lines lg))"

definition blob_entry :: "string \<Rightarrow> u8 list \<Rightarrow> QueuedBlob" where
  "blob_entry path data = \<lparr>blob_path = take (min (length path) (MaxQueuedPathLength - 1)) path, blob_data = data\<rparr>"

definition drop_generic :: "logger \<Rightarrow> logger" where
  "drop_generic lg =
     (let r = blobs lg Generic in lg\<lparr>blobs := (blobs lg)(Generic := r\<lparr>dropped_count := dropped_count r + 1\<rparr>)\<rparr>)"

definition QueueBlobLocked :: "string option \<Rightarrow> u8 list option \<Rightarrow> logger \<Rightarrow> bool \<times> logger" where
  "QueueBlobLocked path data lg =
     (case (path, data) of
        (Some p, Some d) \<Rightarrow>
          if p = [] \<or> d = [] \<or> MaxQueuedBlobLength < length d then (False, drop_generic lg)
          else let kind = GetBlobQueueKind (Some p)
               in (True, lg\<lparr>blobs := (blobs lg)(kind :=
                     ring_push BinaryQueueEntryCapacity (blob_entry p d) (blobs lg kind))\<rparr>)
      | _ \<Rightarrow> (False, drop_generic lg))"

definition PopBlobLocked :: "BlobQueueKind \<Rightarrow> logger \<Rightarrow> (QueuedBlob \<times> logger) option" where
  "PopBlobLocked kind lg =
     map_option (\<lambda>(e, r). (e, lg\<lparr>blobs := (blobs lg)(kind := r)\<rparr>))
       (ring_pop BinaryQueueEntryCapacity (blobs lg kind))"

subsection \<open>The entry points\<close>

definition boot_banner :: string where
  "boot_banner = [CHR 0x0A] @ ''=== net-probe boot ==='' @ [CHR 0x0A]"

definition StartFlushThread :: "logger \<Rightarrow> logger" where
  "StartFlushThread lg = (if flush_thread_started lg then lg else lg\<lparr>flush_thread_started := True\<rparr>)"

definition Initialize :: "logger \<Rightarrow> logger" where
  "Initialize lg =
     (if logger_initialized lg then lg
      else let lg1 = StartFlushThread (lg\<lparr>flush_thread_stop_requested := False, logger_initialized := True\<rparr>)
           in (snd (QueueLineLocked (Some LogFilePath) (Some boot_banner) lg1))\<lparr>flush_event_signaled := True\<rparr>)"

text \<open>
  \<open>Shutdown\<close> and \<open>StopFlushThread\<close> up to the wait for the flush thread, and after it.
\<close>

definition request_stop :: "logger \<Rightarrow> logger" where
  "request_stop lg =
     (if \<not> logger_initialized lg \<or> \<not> flush_thread_started lg then lg
      else lg\<lparr>flush_thread_stop_requested := True, flush_event_signaled := True\<rparr>)"

definition thread_joined :: "logger \<Rightarrow> logger" where
  "thread_joined lg = lg\<lparr>flush_thread_started := False\<rparr>"

definition AppendLine :: "string option \<Rightarrow> string option \<Rightarrow> logger \<Rightarrow> logger" where
  "AppendLine path line lg =
     (case (path, line) of
        (Some p, Some l) \<Rightarrow>
          if c_str p = [] \<or> c_str l = [] then lg
          else if \<not> logger_initialized lg then lg
          else (snd (QueueLineLocked (Some (c_str p)) (Some (c_str l)) lg))\<lparr>flush_event_signaled := True\<rparr>
      | _ \<Rightarrow> lg)"

definition AppendBytes :: "string option \<Rightarrow> u8 list option \<Rightarrow> logger \<Rightarrow> logger" where
  "AppendBytes path data lg =
     (case (path, data) of
        (Some p, Some d) \<Rightarrow>
          if d = [] \<or> c_str p = [] then lg
          else if \<not> logger_initialized lg then lg
          else (snd (QueueBlobLocked (Some (c_str p)) (Some d) lg))\<lparr>flush_event_signaled := True\<rparr>
      | _ \<Rightarrow> lg)"

text \<open>\<open>Log\<close>, given the text the format and its arguments expand to and the tick.\<close>

definition log_line :: "u64 \<Rightarrow> string \<Rightarrow> string" where
  "log_line tick message =
     take 639 (CHR ''['' # show_dec (unat tick) @ ''] '' @ take 511 message @ [CHR 0x0A])"

definition Log :: "u64 \<Rightarrow> string \<Rightarrow> logger \<Rightarrow> logger" where
  "Log tick message lg =
     (if message = [] then lg
      else if \<not> logger_initialized lg then lg
      else (snd (QueueLineLocked (Some LogFilePath) (Some (log_line tick message)) lg))\<lparr>flush_event_signaled := True\<rparr>)"

subsection \<open>Files\<close>

text \<open>
  The answers of the file system during one \<open>WriteBytesToFile\<close>: whether each call
  would be granted. An open succeeds when it is granted and the file exists, a create
  reports an existing file and otherwise succeeds when granted.
\<close>

record fs_answers =
  fs_ready :: bool
  root_directory_ok :: bool
  log_directory_ok :: bool
  open_granted :: bool
  create_granted :: bool
  reopen_granted :: bool
  size_granted :: bool
  write_granted :: bool

record log_world =
  file_backend_state :: FileBackendState
  files :: "string \<rightharpoonup> u8 list"
  write_calls :: nat
  debug_output :: "string list"

definition EnsureFileBackendInitialized :: "fs_answers \<Rightarrow> log_world \<Rightarrow> log_world" where
  "EnsureFileBackendInitialized a w =
     (if file_backend_state w \<noteq> Uninitialized then w
      else if \<not> fs_ready a then w\<lparr>file_backend_state := Disabled\<rparr>
      else if \<not> root_directory_ok a then w\<lparr>file_backend_state := Disabled\<rparr>
      else if \<not> log_directory_ok a then w\<lparr>file_backend_state := Disabled\<rparr>
      else w\<lparr>file_backend_state := Ready\<rparr>)"

definition append_to_file :: "fs_answers \<Rightarrow> string \<Rightarrow> u8 list \<Rightarrow> (string \<rightharpoonup> u8 list) \<Rightarrow> (string \<rightharpoonup> u8 list)" where
  "append_to_file a path data fs =
     (if size_granted a \<and> write_granted a then fs(path := map_option (\<lambda>old. old @ data) (fs path)) else fs)"

definition WriteBytesToFile :: "(nat \<Rightarrow> fs_answers) \<Rightarrow> string \<Rightarrow> u8 list \<Rightarrow> log_world \<Rightarrow> log_world" where
  "WriteBytesToFile env path data w0 =
     (let a = env (write_calls w0);
          w = EnsureFileBackendInitialized a (w0\<lparr>write_calls := write_calls w0 + 1\<rparr>)
      in if file_backend_state w \<noteq> Ready \<or> data = [] then w
         else if open_granted a \<and> files w path \<noteq> None then w\<lparr>files := append_to_file a path data (files w)\<rparr>
         else if files w path = None \<and> \<not> create_granted a then w
         else let fs = (if files w path = None then (files w)(path \<mapsto> []) else files w)
              in if \<not> reopen_granted a then w\<lparr>files := fs\<rparr>
                 else w\<lparr>files := append_to_file a path data fs\<rparr>)"

definition bytes_of :: "string \<Rightarrow> u8 list" where "bytes_of s = map of_char s"

definition WriteLineToFile :: "(nat \<Rightarrow> fs_answers) \<Rightarrow> string \<Rightarrow> string \<Rightarrow> log_world \<Rightarrow> log_world" where
  "WriteLineToFile env path line w = WriteBytesToFile env path (bytes_of line) w"

definition EmitDebugString :: "string \<Rightarrow> log_world \<Rightarrow> log_world" where
  "EmitDebugString line w = (if line = [] then w else w\<lparr>debug_output := debug_output w @ [line]\<rparr>)"

definition drop_warning :: "u64 \<Rightarrow> string \<Rightarrow> u64 \<Rightarrow> string" where
  "drop_warning tick label n =
     take 159 (CHR ''['' # show_dec (unat tick) @ ''] logger dropped '' @ show_dec (unat n)
       @ '' queued '' @ label @ '' entries'' @ [CHR 0x0A])"

text \<open>
  Every warning reads the clock for itself. The clock is indexed by the file writes so far,
  and each warning makes one.
\<close>

definition EmitDropWarning :: "(nat \<Rightarrow> fs_answers) \<Rightarrow> (nat \<Rightarrow> u64) \<Rightarrow> string \<Rightarrow> u64 \<Rightarrow> log_world \<Rightarrow> log_world" where
  "EmitDropWarning env clock label n w =
     (if n = 0 then w
      else let warning = drop_warning (clock (write_calls w)) label n
           in WriteLineToFile env LogFilePath warning (EmitDebugString warning w))"

definition EmitPendingDropWarnings ::
  "(nat \<Rightarrow> fs_answers) \<Rightarrow> (nat \<Rightarrow> u64) \<Rightarrow> u64 \<Rightarrow> (BlobQueueKind \<Rightarrow> u64) \<Rightarrow> log_world \<Rightarrow> log_world" where
  "EmitPendingDropWarnings env clock dropped_lines dropped_blobs w =
     fold (\<lambda>kind. EmitDropWarning env clock (GetBlobQueueLabel kind) (dropped_blobs kind)) kinds
       (EmitDropWarning env clock ''text'' dropped_lines w)"

subsection \<open>The flush\<close>

fun pop_batch :: "nat \<Rightarrow> nat \<Rightarrow> 'a ring \<Rightarrow> 'a list \<times> 'a ring" where
  "pop_batch lim 0 r = ([], r)"
| "pop_batch lim (Suc n) r =
     (case ring_pop lim r of
        None \<Rightarrow> ([], r)
      | Some (e, r') \<Rightarrow> (let (es, r'') = pop_batch lim n r' in (e # es, r'')))"

record flush_batch =
  batch_dropped_lines :: u64
  batch_dropped_blobs :: "BlobQueueKind \<Rightarrow> u64"
  batch_lines :: "QueuedLine list"
  batch_blobs :: "BlobQueueKind \<Rightarrow> QueuedBlob list"

text \<open>The block of \<open>FlushPendingEntries\<close> that holds the lock.\<close>

definition take_flush_batch :: "logger \<Rightarrow> flush_batch \<times> logger" where
  "take_flush_batch lg =
     (let ls = pop_batch QueueEntryCapacity FlushLineBatchSize (clear_drops (lines lg));
          bs = (\<lambda>kind. pop_batch BinaryQueueEntryCapacity FlushBlobBatchSizePerFamily (clear_drops (blobs lg kind)))
      in (\<lparr>batch_dropped_lines = dropped_count (lines lg),
           batch_dropped_blobs = (\<lambda>kind. dropped_count (blobs lg kind)),
           batch_lines = fst ls, batch_blobs = (\<lambda>kind. fst (bs kind))\<rparr>,
          lg\<lparr>lines := snd ls, blobs := (\<lambda>kind. snd (bs kind))\<rparr>))"

definition batch_empty :: "flush_batch \<Rightarrow> bool" where
  "batch_empty b \<longleftrightarrow> batch_lines b = [] \<and> concat (map (batch_blobs b) kinds) = []"

definition write_batch :: "(nat \<Rightarrow> fs_answers) \<Rightarrow> flush_batch \<Rightarrow> log_world \<Rightarrow> log_world" where
  "write_batch env b w =
     fold (\<lambda>e. WriteBytesToFile env (blob_path e) (blob_data e)) (concat (map (batch_blobs b) kinds))
       (fold (\<lambda>e. WriteLineToFile env (line_path e) (line_text e)) (batch_lines b) w)"

definition emit_batch_drops :: "(nat \<Rightarrow> fs_answers) \<Rightarrow> (nat \<Rightarrow> u64) \<Rightarrow> flush_batch \<Rightarrow> log_world \<Rightarrow> log_world" where
  "emit_batch_drops env clock b w =
     EmitPendingDropWarnings env clock (batch_dropped_lines b) (batch_dropped_blobs b) w"

definition pending :: "logger \<Rightarrow> nat" where
  "pending lg = ring_count (lines lg) + sum_list (map (\<lambda>kind. ring_count (blobs lg kind)) kinds)"

lemma pop_batch_count: "ring_count (snd (pop_batch lim n r)) + length (fst (pop_batch lim n r)) = ring_count r"
  by (induction lim n r rule: pop_batch.induct)
    (auto simp: ring_pop_def Let_def case_prod_beta split: if_splits)

lemma pop_batch_le: "ring_count (snd (pop_batch lim n r)) \<le> ring_count r"
  using pop_batch_count [of lim n r] by simp

lemma take_flush_batch_pending:
  assumes "take_flush_batch lg = (b, lg')"
  shows "pending lg' + length (batch_lines b) + length (concat (map (batch_blobs b) kinds)) = pending lg"
proof -
  have c: "ring_count (snd (pop_batch m n (clear_drops r))) + length (fst (pop_batch m n (clear_drops r))) = ring_count r"
    for m n and r :: "'a ring"
    using pop_batch_count [of m n "clear_drops r"] by (simp add: clear_drops_def)
  note l = c [of QueueEntryCapacity FlushLineBatchSize "lines lg"]
  note k = c [of BinaryQueueEntryCapacity FlushBlobBatchSizePerFamily "blobs lg kind" for kind]
  show ?thesis
    using assms l k [of Generic] k [of Nifm] k [of Bsd] k [of Ssl]
    by (auto simp: take_flush_batch_def pending_def kinds_def Let_def)
qed

function FlushPendingEntries ::
  "(nat \<Rightarrow> fs_answers) \<Rightarrow> (nat \<Rightarrow> u64) \<Rightarrow> logger \<Rightarrow> log_world \<Rightarrow> logger \<times> log_world" where
  "FlushPendingEntries env clock lg w =
     (let (b, lg1) = take_flush_batch lg;
          w1 = emit_batch_drops env clock b w
      in if batch_empty b then (lg1, w1)
         else FlushPendingEntries env clock lg1 (write_batch env b w1))"
  by pat_completeness auto
termination
proof (relation "measure (\<lambda>(env, clock, lg, w). pending lg)")
  fix env clock lg w x b lg1 w1
  assume "x = take_flush_batch lg" "(b, lg1) = x" "\<not> batch_empty b"
  then have "pending lg1 + length (batch_lines b) + length (concat (map (batch_blobs b) kinds)) = pending lg"
    by (intro take_flush_batch_pending) simp
  moreover have "0 < length (batch_lines b) + length (concat (map (batch_blobs b) kinds))"
    using \<open>\<not> batch_empty b\<close> unfolding batch_empty_def by (metis add_gr_0 length_greater_0_conv)
  ultimately show "((env, clock, lg1, write_batch env b w1), env, clock, lg, w) \<in> measure (\<lambda>(env, clock, lg, w). pending lg)"
    by (simp del: length_concat add_is_0 add_gr_0)
qed simp

declare FlushPendingEntries.simps [simp del]

subsection \<open>The invariant of the queues\<close>

definition logger_ok :: "logger \<Rightarrow> bool" where
  "logger_ok lg \<longleftrightarrow> ring_ok QueueEntryCapacity (lines lg)
     \<and> (\<forall>kind \<in> set kinds. ring_ok BinaryQueueEntryCapacity (blobs lg kind))"

abbreviation queued_lines :: "logger \<Rightarrow> QueuedLine list" where
  "queued_lines lg \<equiv> ring_list QueueEntryCapacity (lines lg)"

abbreviation queued_blobs :: "BlobQueueKind \<Rightarrow> logger \<Rightarrow> QueuedBlob list" where
  "queued_blobs kind lg \<equiv> ring_list BinaryQueueEntryCapacity (blobs lg kind)"

interpretation line_queue:
  bounded_queue QueueEntryCapacity "ring_ok QueueEntryCapacity" "ring_list QueueEntryCapacity"
    "ring_push QueueEntryCapacity" "ring_pop QueueEntryCapacity" dropped_count
  using overwriting_ring.bounded_queue_axioms [of 895] by (simp add: QueueEntryCapacity_def)

interpretation blob_queue:
  bounded_queue BinaryQueueEntryCapacity "ring_ok BinaryQueueEntryCapacity" "ring_list BinaryQueueEntryCapacity"
    "ring_push BinaryQueueEntryCapacity" "ring_pop BinaryQueueEntryCapacity" dropped_count
  using overwriting_ring.bounded_queue_axioms [of 95] by (simp add: BinaryQueueEntryCapacity_def)

lemma pop_batch_lines: "pop_batch QueueEntryCapacity n r = line_queue.take_batch n r"
  by (induction n arbitrary: r) (simp_all cong: option.case_cong)

lemma pop_batch_blobs: "pop_batch BinaryQueueEntryCapacity n r = blob_queue.take_batch n r"
  by (induction n arbitrary: r) (simp_all cong: option.case_cong)

lemma logger_ok_lines: "logger_ok lg \<Longrightarrow> ring_ok QueueEntryCapacity (lines lg)"
  by (simp add: logger_ok_def)

lemma logger_ok_blobs: "logger_ok lg \<Longrightarrow> ring_ok BinaryQueueEntryCapacity (blobs lg kind)"
  by (simp add: logger_ok_def kinds_enumerate)

lemma logger_okI:
  "ring_ok QueueEntryCapacity (lines lg) \<Longrightarrow> (\<And>kind. ring_ok BinaryQueueEntryCapacity (blobs lg kind)) \<Longrightarrow> logger_ok lg"
  by (simp add: logger_ok_def)

lemma ring_ok_more_drops [simp]: "ring_ok n (r\<lparr>dropped_count := d\<rparr>) = ring_ok n r"
  by (simp add: ring_ok_def)

lemma ring_list_more_drops [simp]: "ring_list n (r\<lparr>dropped_count := d\<rparr>) = ring_list n r"
  by (simp add: ring_list_def)

lemma QueueLineLocked_ok: "logger_ok lg \<Longrightarrow> logger_ok (snd (QueueLineLocked p l lg))"
  by (auto simp: QueueLineLocked_def logger_ok_def intro: line_queue.push_invar split: option.splits)

lemma QueueBlobLocked_ok: "logger_ok lg \<Longrightarrow> logger_ok (snd (QueueBlobLocked p d lg))"
  by (auto simp: QueueBlobLocked_def logger_ok_def Let_def drop_generic_def kinds_enumerate
      intro: blob_queue.push_invar split: option.splits)

lemma logger_ok_flags [simp]:
  "logger_ok (lg\<lparr>flush_event_signaled := b\<rparr>) = logger_ok lg"
  "logger_ok (lg\<lparr>flush_thread_started := b\<rparr>) = logger_ok lg"
  "logger_ok (lg\<lparr>flush_thread_stop_requested := b\<rparr>) = logger_ok lg"
  "logger_ok (lg\<lparr>logger_initialized := b\<rparr>) = logger_ok lg"
  by (simp_all add: logger_ok_def)

lemma take_flush_batch_ok: "logger_ok lg \<Longrightarrow> logger_ok (snd (take_flush_batch lg))"
  by (simp add: take_flush_batch_def Let_def logger_ok_def pop_batch_lines pop_batch_blobs
      line_queue.take_batch_invar blob_queue.take_batch_invar)

lemma take_flush_batch_contents:
  assumes "logger_ok lg" "take_flush_batch lg = (b, lg')"
  shows "queued_lines lg = batch_lines b @ queued_lines lg'"
    "queued_blobs kind lg = batch_blobs b kind @ queued_blobs kind lg'"
    "batch_dropped_lines b = dropped_count (lines lg)" "dropped_count (lines lg') = 0"
    "batch_dropped_blobs b kind = dropped_count (blobs lg kind)" "dropped_count (blobs lg' kind) = 0"
  using assms
  by (auto simp: take_flush_batch_def Let_def pop_batch_lines pop_batch_blobs logger_ok_lines logger_ok_blobs
      line_queue.take_batch_contents blob_queue.take_batch_contents
      line_queue.take_batch_drops blob_queue.take_batch_drops)
    (simp_all add: clear_drops_def)

subsection \<open>Producers and the flush thread interleaved\<close>

text \<open>
  Every operation on the queues holds the lock, so a concurrent run is a sequence of
  locked steps: calls of the producers, and batches taken by the flush thread. A run
  returns the batches in the order the thread takes them.
\<close>

datatype logger_event =
  Append_line "string option" "string option"
| Append_bytes "string option" "u8 list option"
| Log_text u64 string
| Take_batch

fun producer_step :: "logger_event \<Rightarrow> logger \<Rightarrow> logger" where
  "producer_step (Append_line p l) lg = AppendLine p l lg"
| "producer_step (Append_bytes p d) lg = AppendBytes p d lg"
| "producer_step (Log_text t m) lg = Log t m lg"
| "producer_step Take_batch lg = lg"

fun logger_run :: "logger_event list \<Rightarrow> logger \<Rightarrow> flush_batch list \<times> logger" where
  "logger_run [] lg = ([], lg)"
| "logger_run (Take_batch # es) lg =
     (let (b, lg1) = take_flush_batch lg; (bs, lg2) = logger_run es lg1 in (b # bs, lg2))"
| "logger_run (e # es) lg = logger_run es (producer_step e lg)"

text \<open>The lines a call offers to the queue of an initialized logger.\<close>

fun offered_lines :: "logger_event \<Rightarrow> QueuedLine list" where
  "offered_lines (Append_line (Some p) (Some l)) =
     (if c_str p = [] \<or> c_str l = [] then [] else [line_entry (c_str p) (c_str l)])"
| "offered_lines (Log_text t m) = (if m = [] then [] else [line_entry LogFilePath (log_line t m)])"
| "offered_lines _ = []"

definition reported_lines :: "flush_batch list \<Rightarrow> u64" where
  "reported_lines bs = sum_list (map batch_dropped_lines bs)"

lemma log_line_nonempty [simp]: "log_line t m \<noteq> []"
  by (simp add: log_line_def)

lemma producer_step_lines:
  assumes "logger_initialized lg"
  shows "lines (producer_step e lg) = fold (ring_push QueueEntryCapacity) (offered_lines e) (lines lg)
    \<and> logger_initialized (producer_step e lg)"
proof (cases e)
  case (Append_line p l)
  with assms show ?thesis
    by (cases p; cases l) (auto simp: AppendLine_def QueueLineLocked_def)
next
  case (Append_bytes p d)
  with assms show ?thesis
    by (cases p; cases d) (auto simp: AppendBytes_def QueueBlobLocked_def drop_generic_def Let_def)
next
  case (Log_text t m)
  with assms show ?thesis
    by (auto simp: Log_def QueueLineLocked_def LogFilePath_def)
qed (use assms in simp)

lemma producer_step_ok: "logger_ok lg \<Longrightarrow> logger_ok (producer_step e lg)"
  by (cases e) (auto simp: AppendLine_def AppendBytes_def Log_def QueueLineLocked_ok QueueBlobLocked_ok
      split: option.splits)

lemma take_flush_batch_initialized: "logger_initialized (snd (take_flush_batch lg)) = logger_initialized lg"
  by (simp add: take_flush_batch_def Let_def)

lemma subseq_drop: "subseq (drop n xs) xs"
  by (metis append_take_drop_id list_emb_append2 subseq_order.refl)

lemma producer_step_accounting:
  assumes "logger_ok lg" "logger_initialized lg"
  shows "subseq (queued_lines (producer_step e lg)) (queued_lines lg @ offered_lines e)"
    and "dropped_count (lines (producer_step e lg)) + of_nat (length (queued_lines (producer_step e lg)))
      = dropped_count (lines lg) + of_nat (length (queued_lines lg) + length (offered_lines e))"
proof -
  note p = producer_step_lines [OF assms(2), of e, THEN conjunct1]
  show "subseq (queued_lines (producer_step e lg)) (queued_lines lg @ offered_lines e)"
    unfolding p line_queue.push_all_contents [OF logger_ok_lines [OF assms(1)]] by (rule subseq_drop)
  show "dropped_count (lines (producer_step e lg)) + of_nat (length (queued_lines (producer_step e lg)))
      = dropped_count (lines lg) + of_nat (length (queued_lines lg) + length (offered_lines e))"
    unfolding p by (rule line_queue.push_all_drops [OF logger_ok_lines [OF assms(1)]])
qed

lemma logger_run_producer: "e \<noteq> Take_batch \<Longrightarrow> logger_run (e # es) lg = logger_run es (producer_step e lg)"
  by (cases e) simp_all

lemma logger_run_accounting:
  assumes "logger_ok lg" "logger_initialized lg" "logger_run es lg = (bs, lg')"
  shows "subseq (concat (map batch_lines bs) @ queued_lines lg') (queued_lines lg @ concat (map offered_lines es))
    \<and> of_nat (length (concat (map batch_lines bs) @ queued_lines lg')) + reported_lines bs + dropped_count (lines lg')
      = of_nat (length (queued_lines lg @ concat (map offered_lines es))) + dropped_count (lines lg)"
  using assms
proof (induction es arbitrary: lg bs)
  case Nil
  then show ?case by (simp add: reported_lines_def)
next
  case (Cons e es)
  show ?case
  proof (cases "e = Take_batch")
    case True
    obtain b lg1 where t: "take_flush_batch lg = (b, lg1)" by fastforce
    obtain bs' where r: "logger_run es lg1 = (bs', lg')" and bs: "bs = b # bs'"
      using Cons.prems(3) t True by (auto simp: Let_def split: prod.splits)
    have ok: "logger_ok lg1" "logger_initialized lg1"
      using take_flush_batch_ok [OF Cons.prems(1)] take_flush_batch_initialized [of lg] Cons.prems(2) t by simp_all
    note c = take_flush_batch_contents [OF Cons.prems(1) t]
    from Cons.IH [OF ok r] show ?thesis
      unfolding bs True by (auto simp: c reported_lines_def algebra_simps subseq_append' simp del: ring_list_length)
  next
    case False
    let ?l = "producer_step e lg"
    have r: "logger_run es ?l = (bs, lg')" using Cons.prems(3) by (simp add: logger_run_producer [OF False])
    note a = producer_step_accounting [OF Cons.prems(1,2), of e]
    note ih = Cons.IH [OF producer_step_ok [OF Cons.prems(1)]
        producer_step_lines [OF Cons.prems(2), THEN conjunct2] r]
    have "subseq (queued_lines ?l @ concat (map offered_lines es)) (queued_lines lg @ concat (map offered_lines (e # es)))"
      using list_emb_append_mono [OF a(1), of "concat (map offered_lines es)" "concat (map offered_lines es)"] by simp
    moreover have "of_nat (length (queued_lines ?l @ concat (map offered_lines es))) + dropped_count (lines ?l)
        = of_nat (length (queued_lines lg @ concat (map offered_lines (e # es)))) + dropped_count (lines lg)"
      using a(2) by (simp add: algebra_simps del: ring_list_length)
    ultimately show ?thesis using ih by (auto intro: subseq_order.trans)
  qed
qed

text \<open>
  C25. Whatever the producers do while the flush thread takes batches, the lines it
  takes, followed by the lines still queued, are the offered lines in their order with
  some left out; and every line left out is counted by a reported or pending drop
  counter.
\<close>

theorem logger_lines_ordered_and_accounted:
  assumes "logger_ok lg" "logger_initialized lg" "logger_run es lg = (bs, lg')"
  shows "subseq (concat (map batch_lines bs) @ queued_lines lg') (queued_lines lg @ concat (map offered_lines es))
    \<and> of_nat (length (concat (map batch_lines bs) @ queued_lines lg')) + reported_lines bs + dropped_count (lines lg')
      = of_nat (length (queued_lines lg @ concat (map offered_lines es))) + dropped_count (lines lg)"
  by (rule logger_run_accounting [OF assms])

lemma initial_logger_ok: "logger_ok initial_logger"
  by (simp add: initial_logger_def logger_ok_def empty_ring_ok QueueEntryCapacity_def BinaryQueueEntryCapacity_def)

lemma Initialize_ok: "logger_ok lg \<Longrightarrow> logger_ok (Initialize lg)"
  by (auto simp: Initialize_def StartFlushThread_def Let_def intro!: QueueLineLocked_ok)

lemma Initialize_initial: "logger_initialized (Initialize initial_logger)"
  by (simp add: initial_logger_def Initialize_def StartFlushThread_def Let_def QueueLineLocked_def
      LogFilePath_def boot_banner_def)

text \<open>What is left out of a list is not in it.\<close>

lemma subseq_set: "subseq xs ys \<Longrightarrow> x \<in> set xs \<Longrightarrow> x \<in> set ys"
  by (induction rule: list_emb.induct) auto

text \<open>After the start the queue holds the banner of the main log.\<close>

lemma initial_lines:
  assumes "l \<in> set (queued_lines (Initialize initial_logger))"
  shows "line_path l = LogFilePath"
proof -
  have "queued_lines (Initialize initial_logger) = [line_entry LogFilePath boot_banner]"
    by (simp add: initial_logger_def Initialize_def StartFlushThread_def Let_def QueueLineLocked_def boot_banner_def
        LogFilePath_def line_entry_def ring_push_def ring_list_def empty_ring_def QueueEntryCapacity_def)
  with assms show ?thesis by (simp add: line_entry_def LogFilePath_def MaxQueuedPathLength_def)
qed

theorem logger_lines_ordered_and_accounted_witness:
  "case logger_run [Append_line (Some ''a'') (Some ''one''), Take_batch, Log_text 5 ''two''] (Initialize initial_logger) of
     (bs, lg') \<Rightarrow> subseq (concat (map batch_lines bs) @ queued_lines lg')
       (queued_lines (Initialize initial_logger) @ concat (map offered_lines
          [Append_line (Some ''a'') (Some ''one''), Take_batch, Log_text 5 ''two'']))"
  using logger_lines_ordered_and_accounted [OF Initialize_ok [OF initial_logger_ok] Initialize_initial]
  by (simp only: case_prod_beta prod.collapse)

subsection \<open>What a flush writes\<close>

text \<open>The writes of one batch, after its drop warnings.\<close>

definition deliver :: "(nat \<Rightarrow> fs_answers) \<Rightarrow> (nat \<Rightarrow> u64) \<Rightarrow> flush_batch \<Rightarrow> log_world \<Rightarrow> log_world" where
  "deliver env clock b w = write_batch env b (emit_batch_drops env clock b w)"

lemma batch_empty_iff: "batch_empty b \<longleftrightarrow> batch_lines b = [] \<and> (\<forall>kind. batch_blobs b kind = [])"
  using kinds_enumerate(1) by (auto simp: batch_empty_def)

lemma write_batch_empty: "batch_empty b \<Longrightarrow> write_batch env b w = w"
  by (simp add: write_batch_def batch_empty_def del: length_concat concat_eq_Nil_conv)

text \<open>An empty batch is taken only from empty queues.\<close>

lemma empty_batch_drained:
  assumes "logger_ok lg" "take_flush_batch lg = (b, lg')" "batch_empty b"
  shows "queued_lines lg = []" "queued_blobs kind lg = []"
proof -
  have l: "batch_lines b = take FlushLineBatchSize (queued_lines lg)"
    and k: "batch_blobs b kind = take FlushBlobBatchSizePerFamily (queued_blobs kind lg)"
    using assms(1,2)
    by (auto simp: take_flush_batch_def Let_def pop_batch_lines pop_batch_blobs logger_ok_lines
        logger_ok_blobs line_queue.take_batch_contents blob_queue.take_batch_contents)
  from l assms(3) show "queued_lines lg = []"
    by (simp add: batch_empty_iff FlushLineBatchSize_def)
  from k assms(3) show "queued_blobs kind lg = []"
    by (simp add: batch_empty_iff FlushBlobBatchSizePerFamily_def)
qed

lemma flush_drains:
  assumes "logger_ok lg"
  shows "\<exists>bs. snd (FlushPendingEntries env clock lg w) = fold (deliver env clock) bs w
      \<and> concat (map batch_lines bs) = queued_lines lg
      \<and> (\<forall>kind. concat (map (\<lambda>b. batch_blobs b kind) bs) = queued_blobs kind lg)
    \<and> logger_ok (fst (FlushPendingEntries env clock lg w))
    \<and> pending (fst (FlushPendingEntries env clock lg w)) = 0
    \<and> dropped_count (lines (fst (FlushPendingEntries env clock lg w))) = 0
    \<and> (\<forall>kind. dropped_count (blobs (fst (FlushPendingEntries env clock lg w)) kind) = 0)"
  using assms
proof (induction env clock lg w rule: FlushPendingEntries.induct)
  case (1 env clock lg w)
  obtain b lg1 where t: "take_flush_batch lg = (b, lg1)" by fastforce
  note c = take_flush_batch_contents [OF 1(2) t]
  have ok: "logger_ok lg1" using take_flush_batch_ok [OF 1(2)] t by simp
  show ?case
  proof (cases "batch_empty b")
    case True
    note d = empty_batch_drained [OF 1(2) t True]
    have r: "FlushPendingEntries env clock lg w = (lg1, deliver env clock b w)"
      using t True by (simp add: FlushPendingEntries.simps deliver_def write_batch_empty)
    have "pending lg1 = 0"
      using c(1,2) d by (simp add: pending_def flip: ring_list_length [of QueueEntryCapacity "lines lg1"]
          ring_list_length [of BinaryQueueEntryCapacity "blobs lg1 _"])
    with r ok c d show ?thesis by (intro exI [of _ "[b]"]) simp
  next
    case False
    have r: "FlushPendingEntries env clock lg w = FlushPendingEntries env clock lg1 (deliver env clock b w)"
      using t False by (subst FlushPendingEntries.simps) (simp add: deliver_def)
    from "1.IH" [OF refl t [symmetric] refl False ok] obtain bs where
      "snd (FlushPendingEntries env clock lg1 (deliver env clock b w)) = fold (deliver env clock) bs (deliver env clock b w)"
      "concat (map batch_lines bs) = queued_lines lg1"
      "\<forall>kind. concat (map (\<lambda>b. batch_blobs b kind) bs) = queued_blobs kind lg1"
      "logger_ok (fst (FlushPendingEntries env clock lg1 (deliver env clock b w)))
        \<and> pending (fst (FlushPendingEntries env clock lg1 (deliver env clock b w))) = 0
        \<and> dropped_count (lines (fst (FlushPendingEntries env clock lg1 (deliver env clock b w)))) = 0
        \<and> (\<forall>kind. dropped_count (blobs (fst (FlushPendingEntries env clock lg1 (deliver env clock b w))) kind) = 0)"
      unfolding deliver_def by blast
    then show ?thesis unfolding r using c by (intro exI [of _ "b # bs"]) simp
  qed
qed

text \<open>
  C32. A flush that no producer disturbs ends, empties every queue, clears every drop
  counter, and delivers batches that together are exactly the queued lines and, kind by
  kind, the queued records, each in its order.
\<close>

theorem flush_drains_in_order:
  assumes "logger_ok lg" "FlushPendingEntries env clock lg w = (lg', w')"
  shows "pending lg' = 0 \<and> dropped_count (lines lg') = 0 \<and> (\<forall>kind. dropped_count (blobs lg' kind) = 0)
    \<and> (\<exists>bs. w' = fold (deliver env clock) bs w \<and> concat (map batch_lines bs) = queued_lines lg
         \<and> (\<forall>kind. concat (map (\<lambda>b. batch_blobs b kind) bs) = queued_blobs kind lg))"
  using flush_drains [OF assms(1), of env clock w] unfolding assms(2) fst_conv snd_conv by blast

theorem flush_drains_in_order_witness:
  "case FlushPendingEntries (\<lambda>_. \<lparr>fs_ready = True, root_directory_ok = True, log_directory_ok = True,
        open_granted = True, create_granted = True, reopen_granted = True, size_granted = True,
        write_granted = False\<rparr>) (\<lambda>_. 7) (Initialize initial_logger)
      \<lparr>file_backend_state = Uninitialized, files = Map.empty, write_calls = 0, debug_output = []\<rparr> of
     (lg', w') \<Rightarrow> pending lg' = 0"
proof (rule case_prodI2)
  fix lg' w'
  assume "FlushPendingEntries (\<lambda>_. \<lparr>fs_ready = True, root_directory_ok = True, log_directory_ok = True,
        open_granted = True, create_granted = True, reopen_granted = True, size_granted = True,
        write_granted = False\<rparr>) (\<lambda>_. 7) (Initialize initial_logger)
      \<lparr>file_backend_state = Uninitialized, files = Map.empty, write_calls = 0, debug_output = []\<rparr> = (lg', w')"
  from flush_drains_in_order [OF Initialize_ok [OF initial_logger_ok] this] show "pending lg' = 0" by (rule conjunct1)
qed

subsection \<open>The files\<close>

lemma EnsureFileBackendInitialized_files [simp]:
  "files (EnsureFileBackendInitialized a w) = files w"
  by (simp add: EnsureFileBackendInitialized_def)

definition grows :: "string \<Rightarrow> log_world \<Rightarrow> log_world \<Rightarrow> bool" where
  "grows p w w' \<longleftrightarrow> (case files w p of None \<Rightarrow> True
     | Some old \<Rightarrow> (case files w' p of None \<Rightarrow> False | Some new \<Rightarrow> prefix old new))"

lemma grows_refl [simp]: "grows p w w"
  by (simp add: grows_def split: option.splits)

lemma grows_trans: "grows p u v \<Longrightarrow> grows p v w \<Longrightarrow> grows p u w"
  by (auto simp: grows_def split: option.splits intro: prefix_order.trans)

lemma grows_WriteBytesToFile: "grows p w (WriteBytesToFile env path data w)"
  by (auto simp: grows_def WriteBytesToFile_def append_to_file_def Let_def split: option.splits)

lemma grows_fold: "(\<And>x v. grows p v (f x v)) \<Longrightarrow> grows p w (fold f xs w)"
  by (induction xs arbitrary: w) (auto intro: grows_trans)

lemma grows_EmitDropWarning: "grows p w (EmitDropWarning env clock label n w)"
proof -
  have "grows p w (EmitDebugString l w)" for l by (simp add: grows_def EmitDebugString_def split: option.splits)
  then show ?thesis
    by (auto simp: EmitDropWarning_def WriteLineToFile_def Let_def intro: grows_trans grows_WriteBytesToFile)
qed

lemma grows_deliver: "grows p w (deliver env clock b w)"
  unfolding deliver_def write_batch_def emit_batch_drops_def EmitPendingDropWarnings_def WriteLineToFile_def
  by (intro grows_trans [OF grows_trans [OF grows_trans [OF grows_EmitDropWarning grows_fold] grows_fold] grows_fold]
      grows_WriteBytesToFile grows_EmitDropWarning)

text \<open>
  The logger only appends: whatever the file system refuses, the old content of
  every file stays a prefix of its new content through a flush.
\<close>

theorem flush_appends_only:
  "case files w p of None \<Rightarrow> True
     | Some old \<Rightarrow> (case files (snd (FlushPendingEntries env clock lg w)) p of None \<Rightarrow> False
                    | Some new \<Rightarrow> prefix old new)"
proof -
  have "grows p w (snd (FlushPendingEntries env clock lg w))"
  proof (induction env clock lg w rule: FlushPendingEntries.induct)
    case (1 env clock lg w)
    obtain b lg1 where t: "take_flush_batch lg = (b, lg1)" by fastforce
    note g = grows_deliver [of p w env clock b, unfolded deliver_def]
    show ?case
    proof (cases "batch_empty b")
      case True
      with t g show ?thesis by (simp add: FlushPendingEntries.simps write_batch_empty)
    next
      case False
      from "1.IH" [OF refl t [symmetric] refl False] g show ?thesis
        using t False by (subst FlushPendingEntries.simps) (simp add: grows_trans)
    qed
  qed
  then show ?thesis unfolding grows_def .
qed

subsection \<open>The flush thread and the shutdown\<close>

text \<open>
  One turn of the loop of \<open>FlushThreadMain\<close>; the first component is whether the loop
  is left after it.
\<close>

definition flush_thread_turn ::
  "(nat \<Rightarrow> fs_answers) \<Rightarrow> (nat \<Rightarrow> u64) \<Rightarrow> logger \<Rightarrow> log_world \<Rightarrow> bool \<times> logger \<times> log_world" where
  "flush_thread_turn env clock lg w =
     (let (lg1, w1) = FlushPendingEntries env clock (lg\<lparr>flush_event_signaled := False\<rparr>) w;
          have_pending_blobs = (\<exists>kind \<in> set kinds. ring_count (blobs lg1 kind) \<noteq> 0)
      in (flush_thread_stop_requested lg1 \<and> ring_count (lines lg1) = 0 \<and> \<not> have_pending_blobs, lg1, w1))"

text \<open>\<open>Shutdown\<close> when nobody else uses the logger: the thread takes one more turn and is joined.\<close>

definition Shutdown :: "(nat \<Rightarrow> fs_answers) \<Rightarrow> (nat \<Rightarrow> u64) \<Rightarrow> logger \<Rightarrow> log_world \<Rightarrow> logger \<times> log_world" where
  "Shutdown env clock lg w =
     (if \<not> logger_initialized lg \<or> \<not> flush_thread_started lg then (lg, w)
      else let (left, lg1, w1) = flush_thread_turn env clock (request_stop lg) w in (thread_joined lg1, w1))"

lemma flush_keeps_flags:
  "logger_initialized (fst (FlushPendingEntries env clock lg w)) = logger_initialized lg
   \<and> flush_thread_stop_requested (fst (FlushPendingEntries env clock lg w)) = flush_thread_stop_requested lg"
proof (induction env clock lg w rule: FlushPendingEntries.induct)
  case (1 env clock lg w)
  obtain b lg1 where t: "take_flush_batch lg = (b, lg1)" by fastforce
  then have f: "logger_initialized lg1 = logger_initialized lg"
    "flush_thread_stop_requested lg1 = flush_thread_stop_requested lg"
    by (auto simp: take_flush_batch_def Let_def)
  show ?case
  proof (cases "batch_empty b")
    case True
    with t f show ?thesis by (simp add: FlushPendingEntries.simps)
  next
    case False
    from "1.IH" [OF refl t [symmetric] refl False] f show ?thesis
      using t False by (subst (1 2) FlushPendingEntries.simps) simp
  qed
qed

text \<open>
  C33. Shutting down a running logger nobody else uses leaves the thread loop in one
  turn with every queue empty. The logger stays marked initialized without its thread,
  so a later \<open>Initialize\<close> does nothing and restarts no thread.
\<close>

theorem shutdown_drains_and_is_final:
  assumes "logger_ok lg" "logger_initialized lg" "flush_thread_started lg"
  shows "fst (flush_thread_turn env clock (request_stop lg) w)
    \<and> pending (fst (Shutdown env clock lg w)) = 0
    \<and> Initialize (fst (Shutdown env clock lg w)) = fst (Shutdown env clock lg w)
    \<and> \<not> flush_thread_started (Initialize (fst (Shutdown env clock lg w)))"
proof -
  let ?r = "request_stop lg\<lparr>flush_event_signaled := False\<rparr>"
  have r: "logger_ok ?r" "logger_initialized ?r" "flush_thread_stop_requested ?r"
    using assms by (simp_all add: request_stop_def)
  obtain lg1 w1 where f: "FlushPendingEntries env clock ?r w = (lg1, w1)" by fastforce
  have d: "pending lg1 = 0" using flush_drains [OF r(1), of env clock w] f by auto
  have i: "logger_initialized lg1" "flush_thread_stop_requested lg1"
    using flush_keeps_flags [of env clock ?r w] f r by simp_all
  have z: "ring_count (lines lg1) = 0" "\<forall>kind \<in> set kinds. ring_count (blobs lg1 kind) = 0"
    using d by (auto simp: pending_def)
  have t: "flush_thread_turn env clock (request_stop lg) w = (True, lg1, w1)"
    using f z i by (simp add: flush_thread_turn_def)
  then have "Shutdown env clock lg w = (thread_joined lg1, w1)"
    using assms by (simp add: Shutdown_def)
  with t d i show ?thesis by (simp add: thread_joined_def Initialize_def pending_def)
qed

theorem shutdown_drains_and_is_final_witness:
  "pending (fst (Shutdown (\<lambda>_. \<lparr>fs_ready = False, root_directory_ok = True, log_directory_ok = True,
        open_granted = True, create_granted = True, reopen_granted = True, size_granted = True,
        write_granted = True\<rparr>) (\<lambda>_. 0) (Initialize initial_logger)
      \<lparr>file_backend_state = Uninitialized, files = Map.empty, write_calls = 0, debug_output = []\<rparr>)) = 0"
proof -
  have "flush_thread_started (Initialize initial_logger)"
    by (simp add: initial_logger_def Initialize_def StartFlushThread_def Let_def QueueLineLocked_def
        LogFilePath_def boot_banner_def)
  from shutdown_drains_and_is_final [OF Initialize_ok [OF initial_logger_ok] Initialize_initial this]
  show ?thesis by blast
qed

end
