(* ===== verification/TraceBinary.thy ===== *)
theory TraceBinary
  imports TraceTables ProbeLogger
begin

text \<open>
  The binary payload records of \<^verbatim>\<open>net-probe/src/mitm_trace.cpp\<close>: a captured buffer is cut
  into chunks of 1536 bytes, each behind a packed little-endian header of 80 bytes, and
  handed to the logger's record queue. The magic number is the library's \<open>FourCC\<close> code of
  \<^verbatim>\<open>WGTB\<close>, an argument here.
\<close>

datatype BinaryCapturePhase = PhaseRequest | PhaseResponse

datatype BinaryBufferDirection = DirectionSend | DirectionRecv | DirectionExchange

fun phase_value :: "BinaryCapturePhase \<Rightarrow> u8" where
  "phase_value PhaseRequest = 1"
| "phase_value PhaseResponse = 2"

fun direction_value :: "BinaryBufferDirection \<Rightarrow> u8" where
  "direction_value DirectionSend = 1"
| "direction_value DirectionRecv = 2"
| "direction_value DirectionExchange = 3"

definition BinaryTraceFlag_FirstChunk :: u8 where "BinaryTraceFlag_FirstChunk = 1"
definition BinaryTraceFlag_LastChunk :: u8 where "BinaryTraceFlag_LastChunk = 2"
definition BinaryTraceFlag_PointerStatic :: u8 where "BinaryTraceFlag_PointerStatic = 4"

definition BinaryPayloadChunkBytes :: nat where "BinaryPayloadChunkBytes = 1536"

record BinaryTraceRecordHeader =
  hd_magic :: u32
  hd_version :: u16
  hd_header_size :: u16
  hd_run_tick :: u64
  hd_timestamp_ns :: u64
  hd_request_id :: u64
  hd_session_id :: u64
  hd_program_id :: u64
  hd_process_id :: u64
  hd_object_id :: u32
  hd_service_code :: u16
  hd_command_id :: u16
  hd_phase :: u8
  hd_buffer_direction :: u8
  hd_buffer_index :: u8
  hd_flags :: u8
  hd_payload_offset :: u32
  hd_payload_size :: u32
  hd_total_buffer_size :: u32

text \<open>The packed struct in memory, field by field, least significant byte first.\<close>

definition header_bytes :: "BinaryTraceRecordHeader \<Rightarrow> u8 list" where
  "header_bytes h =
     le_bytes 4 (unat (hd_magic h)) @ le_bytes 2 (unat (hd_version h)) @ le_bytes 2 (unat (hd_header_size h))
     @ le_bytes 8 (unat (hd_run_tick h)) @ le_bytes 8 (unat (hd_timestamp_ns h))
     @ le_bytes 8 (unat (hd_request_id h)) @ le_bytes 8 (unat (hd_session_id h))
     @ le_bytes 8 (unat (hd_program_id h)) @ le_bytes 8 (unat (hd_process_id h))
     @ le_bytes 4 (unat (hd_object_id h)) @ le_bytes 2 (unat (hd_service_code h))
     @ le_bytes 2 (unat (hd_command_id h)) @ [hd_phase h, hd_buffer_direction h, hd_buffer_index h, hd_flags h]
     @ le_bytes 4 (unat (hd_payload_offset h)) @ le_bytes 4 (unat (hd_payload_size h))
     @ le_bytes 4 (unat (hd_total_buffer_size h))"

lemma length_header_bytes [simp]: "length (header_bytes h) = 80"
  by (simp add: header_bytes_def)

subsection \<open>Emitting\<close>

record capture =
  cap_timestamp_ns :: u64
  cap_client_info :: MitmProcessInfo
  cap_session_id :: u64
  cap_object_id :: u32
  cap_request_id :: u64
  cap_command_id :: u32
  cap_phase :: BinaryCapturePhase
  cap_direction :: BinaryBufferDirection
  cap_buffer_index :: u8
  cap_is_pointer_static :: bool

definition chunk_header :: "u32 \<Rightarrow> u64 \<Rightarrow> string \<Rightarrow> capture \<Rightarrow> nat \<Rightarrow> nat \<Rightarrow> nat \<Rightarrow> BinaryTraceRecordHeader" where
  "chunk_header magic run_tick service_name c offset chunk_size buffer_size =
     \<lparr>hd_magic = magic, hd_version = 1, hd_header_size = 80, hd_run_tick = run_tick,
      hd_timestamp_ns = cap_timestamp_ns c, hd_request_id = cap_request_id c, hd_session_id = cap_session_id c,
      hd_program_id = program_id (cap_client_info c), hd_process_id = process_id (cap_client_info c),
      hd_object_id = cap_object_id c, hd_service_code = service_code_value (GetTraceServiceCode (Some service_name)),
      hd_command_id = ucast (cap_command_id c), hd_phase = phase_value (cap_phase c),
      hd_buffer_direction = direction_value (cap_direction c), hd_buffer_index = cap_buffer_index c,
      hd_flags = or (or (if offset = 0 then BinaryTraceFlag_FirstChunk else 0)
                        (if buffer_size \<le> offset + chunk_size then BinaryTraceFlag_LastChunk else 0))
                    (if cap_is_pointer_static c then BinaryTraceFlag_PointerStatic else 0),
      hd_payload_offset = of_nat offset, hd_payload_size = of_nat chunk_size, hd_total_buffer_size = of_nat buffer_size\<rparr>"

text \<open>The records of the loop of \<open>EmitBinaryPayloadRecords\<close> from an offset on.\<close>

function chunk_records :: "u32 \<Rightarrow> u64 \<Rightarrow> string \<Rightarrow> capture \<Rightarrow> u8 list \<Rightarrow> nat \<Rightarrow> u8 list list" where
  "chunk_records magic run_tick service_name c bytes offset =
     (if length bytes \<le> offset then []
      else let chunk_size = min BinaryPayloadChunkBytes (length bytes - offset)
           in (header_bytes (chunk_header magic run_tick service_name c offset chunk_size (length bytes))
                 @ take chunk_size (drop offset bytes))
              # chunk_records magic run_tick service_name c bytes (offset + BinaryPayloadChunkBytes))"
  by pat_completeness auto
termination
  by (relation "measure (\<lambda>(magic, run_tick, service_name, c, bytes, offset). length bytes - offset)")
    (auto simp: BinaryPayloadChunkBytes_def)

declare chunk_records.simps [simp del]

text \<open>
  \<open>EmitBinaryPayloadRecords\<close>: nothing for a null service name or an empty buffer (a null
  buffer is the empty list), nothing without a binary sink, otherwise every record goes
  to the sink's file through \<open>AppendBinaryRecord\<close>.
\<close>

definition AppendBinaryRecord :: "string option \<Rightarrow> u8 list \<Rightarrow> logger \<Rightarrow> logger" where
  "AppendBinaryRecord path data lg = (if path = None \<or> data = [] then lg else AppendBytes path (Some data) lg)"

definition EmitBinaryPayloadRecords ::
  "u32 \<Rightarrow> u64 \<Rightarrow> string option \<Rightarrow> capture \<Rightarrow> u8 list \<Rightarrow> logger \<Rightarrow> logger" where
  "EmitBinaryPayloadRecords magic run_tick service_name c bytes lg =
     (case service_name of None \<Rightarrow> lg
      | Some name \<Rightarrow>
          if bytes = [] then lg
          else case GetTraceSinkConfigForServiceName name of
              None \<Rightarrow> lg
            | Some sink \<Rightarrow> fold (AppendBinaryRecord (Some (binary_path sink)))
                             (chunk_records magic run_tick name c bytes 0) lg)"

subsection \<open>Reading records back\<close>

text \<open>A reader of the trace format: the header's fields from its 80 bytes.\<close>

definition field :: "nat \<Rightarrow> nat \<Rightarrow> u8 list \<Rightarrow> 'a::len word" where
  "field off n bs = le_word (take n (drop off bs))"

definition read_header :: "u8 list \<Rightarrow> BinaryTraceRecordHeader" where
  "read_header bs = \<lparr>hd_magic = field 0 4 bs, hd_version = field 4 2 bs, hd_header_size = field 6 2 bs,
     hd_run_tick = field 8 8 bs, hd_timestamp_ns = field 16 8 bs, hd_request_id = field 24 8 bs,
     hd_session_id = field 32 8 bs, hd_program_id = field 40 8 bs, hd_process_id = field 48 8 bs,
     hd_object_id = field 56 4 bs, hd_service_code = field 60 2 bs, hd_command_id = field 62 2 bs,
     hd_phase = bs ! 64, hd_buffer_direction = bs ! 65, hd_buffer_index = bs ! 66, hd_flags = bs ! 67,
     hd_payload_offset = field 68 4 bs, hd_payload_size = field 72 4 bs, hd_total_buffer_size = field 76 4 bs\<rparr>"

lemma field_skip [text_simps]: "k \<le> off \<Longrightarrow> field off n (le_bytes k x @ r) = field (off - k) n r"
  by (simp add: field_def)

lemma field_skip_byte [text_simps]: "0 < off \<Longrightarrow> field off n (b # r) = field (off - 1) n r"
  by (simp add: field_def drop_Cons')

lemma field_here [text_simps]:
  "k * 8 = LENGTH('a) \<Longrightarrow> field 0 k (le_bytes k (unat w) @ r) = (w :: 'a::len word)"
  by (simp add: field_def le_word_le_bytes)

lemma nth_skip [text_simps]: "k \<le> i \<Longrightarrow> (le_bytes k x @ r) ! i = r ! (i - k)"
  by (simp add: nth_append)

lemma read_header_bytes: "read_header (header_bytes h @ payload) = h"
  by (cases h) (simp add: read_header_def header_bytes_def text_simps del: le_bytes.simps)

subsection \<open>The record stream\<close>

definition record_at :: "u32 \<Rightarrow> u64 \<Rightarrow> string \<Rightarrow> capture \<Rightarrow> u8 list \<Rightarrow> nat \<Rightarrow> u8 list" where
  "record_at magic run_tick name c bytes offset =
     (let chunk_size = min BinaryPayloadChunkBytes (length bytes - offset)
      in header_bytes (chunk_header magic run_tick name c offset chunk_size (length bytes))
           @ take chunk_size (drop offset bytes))"

lemma chunk_records_step:
  "chunk_records magic run_tick name c bytes offset =
     (if length bytes \<le> offset then []
      else record_at magic run_tick name c bytes offset
             # chunk_records magic run_tick name c bytes (offset + 1536))"
  by (subst chunk_records.simps) (simp add: record_at_def Let_def BinaryPayloadChunkBytes_def)

lemma chunk_records_nth:
  "i < length (chunk_records magic run_tick name c bytes offset) \<Longrightarrow>
     chunk_records magic run_tick name c bytes offset ! i = record_at magic run_tick name c bytes (offset + 1536 * i)
     \<and> offset + 1536 * i < length bytes
     \<and> (Suc i = length (chunk_records magic run_tick name c bytes offset) \<longleftrightarrow> length bytes \<le> offset + 1536 * i + 1536)"
proof (induction magic run_tick name c bytes offset arbitrary: i rule: chunk_records.induct)
  case (1 magic run_tick name c bytes offset)
  let ?next = "chunk_records magic run_tick name c bytes (offset + 1536)"
  have lt: "\<not> length bytes \<le> offset"
    using "1.prems" by (subst (asm) chunk_records_step) (auto split: if_splits)
  then have step: "chunk_records magic run_tick name c bytes offset = record_at magic run_tick name c bytes offset # ?next"
    by (subst chunk_records_step) simp
  note IH = "1.IH" [OF lt refl, unfolded BinaryPayloadChunkBytes_def]
  show ?case
  proof (cases i)
    case 0
    have "?next = [] \<longleftrightarrow> length bytes \<le> offset + 1536"
      by (subst chunk_records_step) simp
    with 0 lt step show ?thesis by simp
  next
    case (Suc j)
    with "1.prems" step have "j < length ?next" by simp
    from IH [OF this] Suc step show ?thesis by (simp add: algebra_simps)
  qed
qed

lemma record_at_payload: "drop 80 (record_at magic run_tick name c bytes offset) = take 1536 (drop offset bytes)"
  by (simp add: record_at_def Let_def BinaryPayloadChunkBytes_def min_def)

lemma chunk_records_payload:
  "concat (map (drop 80) (chunk_records magic run_tick name c bytes offset)) = drop offset bytes"
proof (induction magic run_tick name c bytes offset rule: chunk_records.induct)
  case (1 magic run_tick name c bytes offset)
  show ?case
  proof (cases "length bytes \<le> offset")
    case True
    then show ?thesis by (subst chunk_records_step) simp
  next
    case False
    note IH = "1.IH" [OF False refl, unfolded BinaryPayloadChunkBytes_def]
    have "take 1536 (drop offset bytes) @ drop (offset + 1536) bytes = drop offset bytes"
      by (metis add.commute append_take_drop_id drop_drop)
    with False IH show ?thesis
      by (subst chunk_records_step) (simp add: record_at_payload)
  qed
qed

lemma record_at_length:
  "offset < length bytes \<Longrightarrow> 80 < length (record_at magic run_tick name c bytes offset)
     \<and> length (record_at magic run_tick name c bytes offset) \<le> 1616"
  by (simp add: record_at_def Let_def BinaryPayloadChunkBytes_def)

lemma chunk_record_size:
  assumes "data \<in> set (chunk_records magic run_tick name c bytes 0)"
  shows "data \<noteq> [] \<and> length data \<le> 2048"
proof -
  from assms obtain i where i: "i < length (chunk_records magic run_tick name c bytes 0)"
    "data = chunk_records magic run_tick name c bytes 0 ! i" by (metis in_set_conv_nth)
  from chunk_records_nth [OF i(1)] i(2) record_at_length [of "0 + 1536 * i" bytes magic run_tick name c]
  show ?thesis by auto
qed

lemma chunk_flags:
  fixes f l s :: bool
  defines "x \<equiv> or (or (if f then (1::u8) else 0) (if l then 2 else 0)) (if s then 4 else 0)"
  shows "(and x 1 \<noteq> 0 \<longleftrightarrow> f) \<and> (and x 2 \<noteq> 0 \<longleftrightarrow> l) \<and> (and x 4 \<noteq> 0 \<longleftrightarrow> s)"
  by (cases f; cases l; cases s) (simp_all add: x_def)

lemma chunk_header_flags:
  "and (hd_flags (chunk_header magic run_tick name c off n m)) BinaryTraceFlag_FirstChunk \<noteq> 0 \<longleftrightarrow> off = 0"
  "and (hd_flags (chunk_header magic run_tick name c off n m)) BinaryTraceFlag_LastChunk \<noteq> 0 \<longleftrightarrow> m \<le> off + n"
  "and (hd_flags (chunk_header magic run_tick name c off n m)) BinaryTraceFlag_PointerStatic \<noteq> 0
     \<longleftrightarrow> cap_is_pointer_static c"
  using chunk_flags [of "off = 0" "m \<le> off + n" "cap_is_pointer_static c"]
  unfolding chunk_header_def BinaryTraceFlag_FirstChunk_def BinaryTraceFlag_LastChunk_def
    BinaryTraceFlag_PointerStatic_def BinaryTraceRecordHeader.simps by blast+

lemma chunk_header_fields:
  "hd_payload_offset (chunk_header magic run_tick name c off n m) = of_nat off"
  "hd_payload_size (chunk_header magic run_tick name c off n m) = of_nat n"
  "hd_total_buffer_size (chunk_header magic run_tick name c off n m) = of_nat m"
  "hd_session_id (chunk_header magic run_tick name c off n m) = cap_session_id c"
  "hd_request_id (chunk_header magic run_tick name c off n m) = cap_request_id c"
  by (simp_all add: chunk_header_def)

text \<open>
  C26. A captured buffer survives the trace: the payloads of its records, in order, are
  the buffer; every record is a header of 80 bytes and 1 to 1536 payload bytes; and the
  header a reader decodes tells the record's place: its offset, its size, the size of the
  whole buffer, the first-chunk flag on the first record only and the last-chunk flag on
  the last record only.
\<close>

theorem binary_records_roundtrip:
  assumes "length bytes < 2 ^ 32"
  shows "let rs = chunk_records magic run_tick name c bytes 0 in
    concat (map (drop 80) rs) = bytes
    \<and> (\<forall>i < length rs. let h = read_header (rs ! i) in
        80 < length (rs ! i) \<and> length (rs ! i) \<le> 80 + 1536
        \<and> unat (hd_payload_offset h) = 1536 * i \<and> unat (hd_payload_size h) = length (rs ! i) - 80
        \<and> unat (hd_total_buffer_size h) = length bytes \<and> hd_session_id h = cap_session_id c
        \<and> hd_request_id h = cap_request_id c
        \<and> (and (hd_flags h) BinaryTraceFlag_FirstChunk \<noteq> 0 \<longleftrightarrow> i = 0)
        \<and> (and (hd_flags h) BinaryTraceFlag_LastChunk \<noteq> 0 \<longleftrightarrow> Suc i = length rs)
        \<and> (and (hd_flags h) BinaryTraceFlag_PointerStatic \<noteq> 0 \<longleftrightarrow> cap_is_pointer_static c))"
proof -
  define rs where "rs = chunk_records magic run_tick name c bytes 0"
  have u: "unat (of_nat n :: u32) = n" if "n \<le> length bytes" for n
  proof (rule unat_of_nat_small)
    show "n < 2 ^ LENGTH(32)" using that assms by simp
  qed
  have each: "80 < length (rs ! i) \<and> length (rs ! i) \<le> 80 + 1536
        \<and> unat (hd_payload_offset h) = 1536 * i \<and> unat (hd_payload_size h) = length (rs ! i) - 80
        \<and> unat (hd_total_buffer_size h) = length bytes \<and> hd_session_id h = cap_session_id c
        \<and> hd_request_id h = cap_request_id c
        \<and> (and (hd_flags h) BinaryTraceFlag_FirstChunk \<noteq> 0 \<longleftrightarrow> i = 0)
        \<and> (and (hd_flags h) BinaryTraceFlag_LastChunk \<noteq> 0 \<longleftrightarrow> Suc i = length rs)
        \<and> (and (hd_flags h) BinaryTraceFlag_PointerStatic \<noteq> 0 \<longleftrightarrow> cap_is_pointer_static c)"
    if i: "i < length rs" and h: "h = read_header (rs ! i)" for i h
  proof -
    note n = chunk_records_nth [OF i [unfolded rs_def], folded rs_def]
    let ?o = "1536 * i" let ?n = "min 1536 (length bytes - ?o)"
    have r: "rs ! i = record_at magic run_tick name c bytes ?o" "?o < length bytes"
      and last: "Suc i = length rs \<longleftrightarrow> length bytes \<le> ?o + 1536" using n by simp_all
    have hd: "h = chunk_header magic run_tick name c ?o ?n (length bytes)"
      by (simp add: h r(1) record_at_def Let_def read_header_bytes BinaryPayloadChunkBytes_def)
    have len: "length (rs ! i) = 80 + ?n"
      by (simp add: r(1) record_at_def Let_def BinaryPayloadChunkBytes_def)
    have l: "length bytes \<le> ?o + ?n \<longleftrightarrow> Suc i = length rs" using last r(2) by auto
    have "unat (of_nat ?o :: u32) = ?o" "unat (of_nat ?n :: u32) = ?n" "unat (of_nat (length bytes) :: u32) = length bytes"
      using r(2) by (intro u; simp)+
    note u' = this
    have "0 < ?n" "?n \<le> 1536" using r(2) by auto
    then have bounds: "80 < length (rs ! i)" "length (rs ! i) \<le> 80 + 1536" "?n = length (rs ! i) - 80"
      unfolding len by simp_all
    have a1: "unat (hd_payload_offset h) = ?o" unfolding hd chunk_header_fields by (rule u')
    have a2: "unat (hd_payload_size h) = ?n" unfolding hd chunk_header_fields by (rule u')
    have a3: "unat (hd_total_buffer_size h) = length bytes" unfolding hd chunk_header_fields by (rule u')
    have a4: "hd_session_id h = cap_session_id c" "hd_request_id h = cap_request_id c"
      unfolding hd chunk_header_fields by (rule refl)+
    have a5: "and (hd_flags h) BinaryTraceFlag_FirstChunk \<noteq> 0 \<longleftrightarrow> i = 0"
      unfolding hd chunk_header_flags by simp
    have a6: "and (hd_flags h) BinaryTraceFlag_LastChunk \<noteq> 0 \<longleftrightarrow> Suc i = length rs"
      unfolding hd chunk_header_flags by (rule l)
    have a7: "and (hd_flags h) BinaryTraceFlag_PointerStatic \<noteq> 0 \<longleftrightarrow> cap_is_pointer_static c"
      unfolding hd chunk_header_flags by (rule refl)
    show ?thesis by (intro conjI bounds a1 a3 a4 a5 a6 a7 trans [OF a2 bounds(3)])
  qed
  have payload: "concat (map (drop 80) rs) = bytes"
    using chunk_records_payload [of magic run_tick name c bytes 0] unfolding rs_def by (simp only: drop_0)
  show ?thesis
    unfolding Let_def rs_def [symmetric]
    by (rule conjI [OF payload], intro allI impI, rule each [OF _ refl])
qed

theorem binary_records_roundtrip_witness:
  "concat (map (drop 80) (chunk_records 0x42544757 7 ''bsd:u''
     \<lparr>cap_timestamp_ns = 1, cap_client_info = no_client, cap_session_id = 5, cap_object_id = 0, cap_request_id = 9,
      cap_command_id = 11, cap_phase = PhaseRequest, cap_direction = DirectionSend, cap_buffer_index = 0,
      cap_is_pointer_static = False\<rparr> [1, 2, 3] 0)) = [1, 2, 3]"
  using binary_records_roundtrip [of "[1, 2, 3]"] unfolding Let_def by simp

subsection \<open>The records reach the logger\<close>

text \<open>The file of a sink and the queue its records go to.\<close>

lemma sink_paths:
  assumes "GetTraceSinkConfigForServiceName name = Some sink"
  shows "binary_path sink \<in> {NifmBinaryPath, BsdBinaryPath, SslBinaryPath, NotifBinaryPath}"
  using assms
  by (auto simp: GetTraceSinkConfigForServiceName_def GetTraceSinkConfig_def g_trace_sinks_def split: if_splits)

lemma sink_path_text:
  assumes "p \<in> {NifmBinaryPath, BsdBinaryPath, SslBinaryPath, NotifBinaryPath}"
  shows "p \<noteq> []" "c_str p = p" "length p \<le> 95"
  using assms
  by (auto simp: NifmBinaryPath_def BsdBinaryPath_def SslBinaryPath_def NotifBinaryPath_def c_str_def)

lemma sink_kinds:
  "GetBlobQueueKind (Some NifmBinaryPath) = Nifm" "GetBlobQueueKind (Some BsdBinaryPath) = Bsd"
  "GetBlobQueueKind (Some SslBinaryPath) = Ssl" "GetBlobQueueKind (Some NotifBinaryPath) = Generic"
  by (simp_all add: GetBlobQueueKind_def NifmBinaryPath_def BsdBinaryPath_def SslBinaryPath_def NotifBinaryPath_def
      sv_starts_with_def)

definition push_blob :: "string \<Rightarrow> u8 list \<Rightarrow> logger \<Rightarrow> logger" where
  "push_blob p r lg = lg\<lparr>blobs := (blobs lg)(GetBlobQueueKind (Some p) :=
     ring_push BinaryQueueEntryCapacity (blob_entry p r) (blobs lg (GetBlobQueueKind (Some p)))),
     flush_event_signaled := True\<rparr>"

lemma AppendBinaryRecord_accepted:
  assumes "logger_initialized lg" "p \<noteq> []" "c_str p = p" "r \<noteq> []" "length r \<le> 2048"
  shows "AppendBinaryRecord (Some p) r lg = push_blob p r lg"
  using assms
  by (simp add: AppendBinaryRecord_def AppendBytes_def QueueBlobLocked_def push_blob_def MaxQueuedBlobLength_def Let_def)

lemma fold_AppendBinaryRecord:
  assumes "logger_initialized lg" "p \<noteq> []" "c_str p = p" "\<forall>r \<in> set rs. r \<noteq> [] \<and> length r \<le> 2048"
  shows "blobs (fold (AppendBinaryRecord (Some p)) rs lg) =
      (blobs lg)(GetBlobQueueKind (Some p) :=
        fold (ring_push BinaryQueueEntryCapacity) (map (blob_entry p) rs) (blobs lg (GetBlobQueueKind (Some p))))
    \<and> lines (fold (AppendBinaryRecord (Some p)) rs lg) = lines lg"
  using assms
proof (induction rs arbitrary: lg)
  case (Cons r rs)
  have a: "AppendBinaryRecord (Some p) r lg = push_blob p r lg"
    using Cons.prems by (intro AppendBinaryRecord_accepted) simp_all
  have "logger_initialized (push_blob p r lg)" using Cons.prems by (simp add: push_blob_def)
  note IH = Cons.IH [OF this Cons.prems(2,3)]
  have "blobs (push_blob p r lg) = (blobs lg)(GetBlobQueueKind (Some p) :=
      ring_push BinaryQueueEntryCapacity (blob_entry p r) (blobs lg (GetBlobQueueKind (Some p))))"
    "lines (push_blob p r lg) = lines lg"
    by (simp_all add: push_blob_def)
  with IH Cons.prems(4) show ?case by (simp add: a fun_eq_iff)
qed simp

text \<open>
  No record of a captured buffer is refused by the logger: each fits a queue entry
  whole, path included, and they are queued in order behind what their queue holds; the
  oldest entries of that queue give way when it is full, and the other queues are left
  alone. Records of \<^verbatim>\<open>notif:s\<close> share the generic queue.
\<close>

theorem binary_records_queued:
  assumes "logger_ok lg" "logger_initialized lg" "bytes \<noteq> []"
    and sink: "GetTraceSinkConfigForServiceName name = Some sink"
    and kind: "kind = GetBlobQueueKind (Some (binary_path sink))"
    and rs: "rs = chunk_records magic run_tick name c bytes 0"
    and lg': "lg' = EmitBinaryPayloadRecords magic run_tick (Some name) c bytes lg"
  shows "queued_blobs kind lg' = drop (length (queued_blobs kind lg) + length rs - 96)
      (queued_blobs kind lg @ map (\<lambda>r. \<lparr>blob_path = binary_path sink, blob_data = r\<rparr>) rs)
    \<and> (\<forall>k. k \<noteq> kind \<longrightarrow> blobs lg' k = blobs lg k) \<and> lines lg' = lines lg"
proof -
  let ?p = "binary_path sink"
  note p = sink_path_text [OF sink_paths [OF sink]]
  have ok: "\<forall>r \<in> set rs. r \<noteq> [] \<and> length r \<le> 2048"
    by (simp add: rs chunk_record_size)
  have e: "lg' = fold (AppendBinaryRecord (Some ?p)) rs lg"
    using assms(3) sink by (simp add: lg' rs EmitBinaryPayloadRecords_def)
  note f = fold_AppendBinaryRecord [OF assms(2) p(1,2) ok, folded e kind]
  have entries: "map (blob_entry ?p) rs = map (\<lambda>r. \<lparr>blob_path = ?p, blob_data = r\<rparr>) rs"
    using p(3) by (simp add: blob_entry_def MaxQueuedPathLength_def)
  have "queued_blobs kind lg' = drop (length (queued_blobs kind lg) + length (map (blob_entry ?p) rs) - BinaryQueueEntryCapacity)
      (queued_blobs kind lg @ map (blob_entry ?p) rs)"
    using blob_queue.push_all_contents [OF logger_ok_blobs [OF assms(1), of kind], of "map (blob_entry ?p) rs"] f
    by simp
  with f show ?thesis unfolding entries by (simp add: BinaryQueueEntryCapacity_def)
qed

theorem binary_records_queued_witness:
  "queued_blobs Bsd (EmitBinaryPayloadRecords 0x42544757 7 (Some ''bsd:u'')
     \<lparr>cap_timestamp_ns = 1, cap_client_info = no_client, cap_session_id = 5, cap_object_id = 0, cap_request_id = 9,
      cap_command_id = 11, cap_phase = PhaseRequest, cap_direction = DirectionSend, cap_buffer_index = 0,
      cap_is_pointer_static = False\<rparr> [1, 2, 3] (Initialize initial_logger)) \<noteq> []"
proof -
  let ?c = "\<lparr>cap_timestamp_ns = 1, cap_client_info = no_client, cap_session_id = 5, cap_object_id = 0, cap_request_id = 9,
      cap_command_id = 11, cap_phase = PhaseRequest, cap_direction = DirectionSend, cap_buffer_index = 0,
      cap_is_pointer_static = False\<rparr>"
  have sink: "GetTraceSinkConfigForServiceName ''bsd:u'' = Some \<lparr>sink_family = FamilyBsd, binary_path = BsdBinaryPath\<rparr>"
    by (simp add: GetTraceSinkConfigForServiceName_def GetTraceFamilyForServiceName_def GetTraceSinkConfig_def
        g_trace_sinks_def sv_starts_with_def)
  have len: "length (chunk_records 0x42544757 7 ''bsd:u'' ?c [1, 2, 3] 0) = 1"
    by (subst chunk_records_step, simp, subst chunk_records_step, simp)
  have none: "queued_blobs Bsd (Initialize initial_logger) = []"
    by (simp add: initial_logger_def Initialize_def StartFlushThread_def Let_def QueueLineLocked_def
        LogFilePath_def boot_banner_def)
  from binary_records_queued [OF Initialize_ok [OF initial_logger_ok] Initialize_initial _ sink refl refl refl,
      where bytes = "[1, 2, 3]" and magic = "0x42544757" and run_tick = 7 and c = ?c] len none
  show ?thesis by (simp add: sink_kinds) (metis length_0_conv length_map One_nat_def zero_neq_one)
qed

end
