(* ===== verification/TraceHooks.thy ===== *)
theory TraceHooks
  imports TraceJson TraceCmif TraceBinary "HOL-Library.State_Monad"
begin

text \<open>
  The state of the trace hooks (\<^verbatim>\<open>net-probe/src/mitm_trace.cpp\<close>) and what they share: the
  counters, the tracking tables, the calls they make of the logger, and the printing of a
  JSON line. A hook is a computation of the state monad; the system's clocks and constants
  are the record \<open>platform\<close>. The logger is called in order, so the calls are a list of the
  logger's events, which \<open>ProbeLogger\<close> runs.
\<close>

subsection \<open>The platform\<close>

text \<open>
  The clocks are sequences of readings. A name of a service is an array of at most
  \<open>pl_service_name_max\<close> characters.
\<close>

record platform =
  pl_monotonic_ns :: "nat \<Rightarrow> u64"
  pl_system_tick :: "nat \<Rightarrow> u64"
  pl_tick_ns :: "int \<Rightarrow> int"
  pl_service_name_max :: nat
  pl_invalid_handle :: s32
  pl_build_id :: string
  pl_binary_magic :: u32
  pl_abi :: cmif_abi
  pl_parse_request :: "PointerAndSize \<Rightarrow> hipc_request_head"
  pl_parse_response :: "PointerAndSize \<Rightarrow> hipc_response_head"

subsection \<open>The state\<close>

record hooks =
  ho_initialized :: bool
  ho_run_tick :: u64
  ho_next_session_id :: u64
  ho_next_request_id :: u64
  ho_tables :: trace_tables
  ho_meta :: "string list" \<comment> \<open>what was written to the meta file\<close>
  ho_events :: "logger_event list"
  ho_reads :: nat \<comment> \<open>readings of the clocks so far\<close>

definition initial_hooks :: hooks where
  "initial_hooks = \<lparr>ho_initialized = False, ho_run_tick = 0, ho_next_session_id = 1, ho_next_request_id = 1,
     ho_tables = initial_tables, ho_meta = [], ho_events = [], ho_reads = 0\<rparr>"

type_synonym 'a hook = "(hooks, 'a) state"

definition TracePath :: string where "TracePath = ''sdmc:/nxrv/probe/probe-mitm.jsonl''"

definition gets :: "(hooks \<Rightarrow> 'a) \<Rightarrow> 'a hook" where
  "gets f = State (\<lambda>s. (f s, s))"

definition modify :: "(hooks \<Rightarrow> hooks) \<Rightarrow> unit hook" where
  "modify f = State (\<lambda>s. ((), f s))"

definition done_hook :: "unit hook" where "done_hook = State_Monad.return ()"

definition when_hook :: "bool \<Rightarrow> unit hook \<Rightarrow> unit hook" where
  "when_hook b m = (if b then m else done_hook)"

text \<open>A loop over the elements of a list.\<close>

fun each :: "('a \<Rightarrow> unit hook) \<Rightarrow> 'a list \<Rightarrow> unit hook" where
  "each f [] = done_hook"
| "each f (x # xs) = do { f x; each f xs }"

text \<open>Readings of the two clocks.\<close>

definition GetMonotonicNs :: "platform \<Rightarrow> u64 hook" where
  "GetMonotonicNs pl = State (\<lambda>s. (pl_monotonic_ns pl (ho_reads s), s\<lparr>ho_reads := Suc (ho_reads s)\<rparr>))"

definition system_tick :: "platform \<Rightarrow> u64 hook" where
  "system_tick pl = State (\<lambda>s. (pl_system_tick pl (ho_reads s), s\<lparr>ho_reads := Suc (ho_reads s)\<rparr>))"

text \<open>An operation on the tracking tables.\<close>

definition on_tables :: "(trace_tables \<Rightarrow> 'a \<times> trace_tables) \<Rightarrow> 'a hook" where
  "on_tables f = State (\<lambda>s. let (x, t) = f (ho_tables s) in (x, s\<lparr>ho_tables := t\<rparr>))"

definition from_tables :: "(trace_tables \<Rightarrow> 'a) \<Rightarrow> 'a hook" where
  "from_tables f = gets (\<lambda>s. f (ho_tables s))"

subsection \<open>Output\<close>

definition emit :: "logger_event \<Rightarrow> unit hook" where
  "emit e = modify (\<lambda>s. s\<lparr>ho_events := ho_events s @ [e]\<rparr>)"

definition AppendLineToPath :: "string \<Rightarrow> string \<Rightarrow> unit hook" where
  "AppendLineToPath path line = when_hook (line \<noteq> []) (emit (Append_line (Some path) (Some line)))"

text \<open>\<open>AppendLine\<close>, \<open>AppendJsonLine\<close> and \<open>AppendJsonLineForService\<close>: one file for all families.\<close>

definition AppendTraceLine :: "TraceFamily \<Rightarrow> string \<Rightarrow> unit hook" where
  "AppendTraceLine family line = AppendLineToPath TracePath line"

definition AppendJsonLine :: "TraceFamily \<Rightarrow> string \<Rightarrow> unit hook" where
  "AppendJsonLine family json = AppendTraceLine family json"

definition AppendJsonLineForService :: "string \<Rightarrow> string \<Rightarrow> unit hook" where
  "AppendJsonLineForService service_name json = AppendJsonLine (GetTraceFamilyForServiceName service_name) json"

text \<open>\<open>snprintf\<close> into a local array of \<open>n\<close> characters, and the append when it wrote something.\<close>

definition printed :: "nat \<Rightarrow> string \<Rightarrow> string" where
  "printed n text = buf_text (snprintf (fresh_buf n) text)"

definition json_line :: "nat \<Rightarrow> string \<Rightarrow> members \<Rightarrow> string \<Rightarrow> unit hook" where
  "json_line n service_name ms extra =
     when_hook (json_text ms extra \<noteq> []) (AppendJsonLineForService service_name (printed n (json_text ms extra)))"

definition broadcast_line :: "nat \<Rightarrow> members \<Rightarrow> unit hook" where
  "broadcast_line n ms = when_hook (json_text ms [] \<noteq> []) (AppendJsonLine Broadcast (printed n (json_text ms [])))"

definition main_log :: "platform \<Rightarrow> string \<Rightarrow> unit hook" where
  "main_log pl message = do { tick \<leftarrow> system_tick pl; emit (Log_text tick message) }"

text \<open>
  The tail of a line, built by guarded \<^verbatim>\<open>snprintf\<close> calls at a cursor that \<open>ClampLength\<close>
  keeps inside the array. Each part is its guard with its members.
\<close>

definition extra_put :: "nat \<Rightarrow> members \<Rightarrow> layout \<Rightarrow> layout" where
  "extra_put n ms st =
     (case st of (extra, cursor) \<Rightarrow>
        (take (nat cursor) extra @ take (n - nat cursor - 1) (more_text ms),
         cursor + ClampLength (int (length (more_text ms))) (n - nat cursor)))"

definition extra_text :: "nat \<Rightarrow> (bool \<times> members) list \<Rightarrow> string" where
  "extra_text n parts =
     fst (foldl (\<lambda>st (guard, ms). if guard \<and> snd st < int n then extra_put n ms st else st) ([], 0) parts)"

text \<open>The members every line starts with, and those about the client.\<close>

definition run_id_text :: "u64 \<Rightarrow> string" where
  "run_id_text tick = ''tick-'' @ show_dec (unat tick)"

definition line_head :: "string \<Rightarrow> string \<Rightarrow> u64 \<Rightarrow> string \<Rightarrow> members" where
  "line_head run_id event ts service =
     [(''schema_version'', JUint 1), (''run_id'', JText run_id), (''scenario'', JText ''unknown''),
      (''event'', JText event), (''ts_monotonic_ns'', JUlong ts), (''ts_utc'', JText ''unknown''),
      (''service'', JText service)]"

definition client_members :: "MitmProcessInfo \<Rightarrow> string \<Rightarrow> members" where
  "client_members client_info client_program_id =
     [(''client_pid'', JUlong (process_id client_info)), (''client_program_id'', JText client_program_id),
      (''server_program_id'', JText ''0x010000000000EAD1''), (''thread_id'', JUint 0)]"

definition own_members :: members where
  "own_members =
     [(''client_program_id'', JText ''0x010000000000EAD1''), (''server_program_id'', JText ''0x010000000000EAD1''),
      (''thread_id'', JUint 0), (''session_id'', JUint 0), (''object_id'', JUint 0), (''request_id'', JUint 0)]"

text \<open>The texts the hooks print first: the service's name, the program's identifier.\<close>

definition service_text :: "platform \<Rightarrow> nat \<Rightarrow> string \<Rightarrow> string" where
  "service_text pl n service_name =
     buf_text (EncodeServiceName (fresh_buf (pl_service_name_max pl + n)) (pl_service_name_max pl) service_name)"

definition program_text :: "MitmProcessInfo \<Rightarrow> string" where
  "program_text client_info = buf_text (FormatProgramId (fresh_buf 32) (program_id client_info))"

definition object_path_text :: "string \<Rightarrow> u64 \<Rightarrow> u32 \<Rightarrow> trace_tables \<Rightarrow> string" where
  "object_path_text service_name session_id object_id t =
     buf_text (FormatObjectPath (fresh_buf 160) service_name session_id object_id t)"

definition phase_text :: "string option \<Rightarrow> string" where
  "phase_text phase = (case phase of Some p \<Rightarrow> p | None \<Rightarrow> ''unknown'')"

subsection \<open>Start\<close>

definition WriteMetaFile :: "platform \<Rightarrow> unit hook" where
  "WriteMetaFile pl = do {
     run_tick \<leftarrow> gets ho_run_tick;
     let nl = [CHR 0x0A];
     let text = ''{'' @ nl @ ''  '' @ quoted ''schema_version'' @ '':1,'' @ nl
       @ ''  '' @ quoted ''run_id'' @ '':'' @ quoted (run_id_text run_tick) @ '','' @ nl
       @ ''  '' @ quoted ''trace_family'' @ '':'' @ quoted ''all'' @ '','' @ nl
       @ ''  '' @ quoted ''firmware'' @ '':'' @ quoted ''unknown'' @ '','' @ nl
       @ ''  '' @ quoted ''scenario'' @ '':'' @ quoted ''unknown'' @ '','' @ nl
       @ ''  '' @ quoted ''build'' @ '':{'' @ quoted ''module'' @ '':'' @ quoted ''net-probe-mitm'' @ '',''
       @ quoted ''git_rev'' @ '':'' @ quoted (pl_build_id pl) @ ''}'' @ nl @ ''}'' @ nl;
     modify (\<lambda>s. s\<lparr>ho_meta := ho_meta s @ [take (nat (ClampLength (int (length text)) 512)) text]\<rparr>)
   }"

definition trace_start_members :: "u64 \<Rightarrow> u64 \<Rightarrow> members" where
  "trace_start_members run_tick now = line_head (run_id_text run_tick) ''trace_start'' now ''mitm'' @ own_members"

text \<open>\<open>Initialize\<close>; creating the directories is left to the platform and its result ignored.\<close>

definition Initialize_hooks :: "platform \<Rightarrow> unit hook" where
  "Initialize_hooks pl = do {
     initialized \<leftarrow> gets ho_initialized;
     if initialized then done_hook
     else do {
       tick \<leftarrow> system_tick pl;
       modify (\<lambda>s. s\<lparr>ho_initialized := True, ho_run_tick := tick\<rparr>);
       on_tables (\<lambda>t. ((), ResetDomainPathState t));
       on_tables (\<lambda>t. ((), ResetSessionHandleState t));
       on_tables (\<lambda>t. ((), ResetCloneHandleState t));
       on_tables (\<lambda>t. ((), ResetSessionState t));
       WriteMetaFile pl;
       now \<leftarrow> GetMonotonicNs pl;
       broadcast_line 512 (trace_start_members tick now)
     }
   }"

definition AllocateSessionId :: "u64 hook" where
  "AllocateSessionId = State (\<lambda>s. (ho_next_session_id s, s\<lparr>ho_next_session_id := ho_next_session_id s + 1\<rparr>))"

definition next_request_id :: "u64 hook" where
  "next_request_id = State (\<lambda>s. (ho_next_request_id s, s\<lparr>ho_next_request_id := ho_next_request_id s + 1\<rparr>))"

definition GetTrackedSessionCount :: "nat hook" where
  "GetTrackedSessionCount = from_tables CountTrackedSessionsLocked"

end
