(* ===== verification/TraceEvents.thy ===== *)
theory TraceEvents
  imports TraceHooks
begin

text \<open>
  The hooks about sessions, domains and the service manager
  (\<^verbatim>\<open>net-probe/src/mitm_trace.cpp\<close>): the lines about one table entry, the snapshots, and the
  callbacks the monitor library calls. A callback's context belongs to that library; the
  records here hold the fields the code reads.
\<close>

subsection \<open>Lines about one entry\<close>

definition domain_state_members ::
  "u64 \<Rightarrow> u64 \<Rightarrow> string \<Rightarrow> MitmProcessInfo \<Rightarrow> string \<Rightarrow> u64 \<Rightarrow> string \<Rightarrow> string option \<Rightarrow> DomainPathEntry \<Rightarrow> members" where
  "domain_state_members run_tick now service_name client_info program session_id object_path phase entry =
     line_head (run_id_text run_tick) ''domain_object_state'' now service_name @ client_members client_info program @
     [(''session_id'', JUlong session_id), (''object_id'', JUint (dp_object_id entry)),
      (''object_path'', JText object_path), (''request_id'', JUint 0), (''phase'', JText (phase_text phase)),
      (''relative_path'', JText (dp_relative_path entry)), (''parent_object_id'', JUint (dp_parent_object_id entry)),
      (''creator_command_id'', JUint (dp_creator_command_id entry)),
      (''created_ts_monotonic_ns'', JUlong (dp_created_ts_ns entry)),
      (''close_observed'', JFlag (dp_close_observed entry)),
      (''close_seen_ts_monotonic_ns'', JUlong (dp_close_seen_ts_ns entry))]"

definition LogDomainObjectState ::
  "platform \<Rightarrow> string \<Rightarrow> MitmProcessInfo \<Rightarrow> u64 \<Rightarrow> string option \<Rightarrow> DomainPathEntry \<Rightarrow> unit hook" where
  "LogDomainObjectState pl service_name client_info session_id phase entry = do {
     object_path \<leftarrow> from_tables (object_path_text service_name session_id (dp_object_id entry));
     run_tick \<leftarrow> gets ho_run_tick;
     now \<leftarrow> GetMonotonicNs pl;
     json_line 1408 service_name
       (domain_state_members run_tick now service_name client_info (program_text client_info) session_id object_path
          phase entry) []
   }"

definition clone_state_members ::
  "u64 \<Rightarrow> u64 \<Rightarrow> string \<Rightarrow> MitmProcessInfo \<Rightarrow> string \<Rightarrow> u64 \<Rightarrow> string option \<Rightarrow> CloneHandleEntry \<Rightarrow> nat \<Rightarrow> members" where
  "clone_state_members run_tick now service_name client_info program session_id phase entry clones =
     line_head (run_id_text run_tick) ''clone_handle_state'' now service_name @ client_members client_info program @
     [(''session_id'', JUlong session_id), (''object_id'', JUint 0), (''request_id'', JUint 0),
      (''phase'', JText (phase_text phase)), (''manager_command_id'', JUint (ch_manager_command_id entry)),
      (''cloned_handle'', JInt (ch_handle entry)), (''server_session_handle'', JInt (ch_server_handle entry)),
      (''forward_handle'', JInt (ch_forward_handle entry)),
      (''has_forward_handle'', JFlag (ch_has_forward_handle entry)),
      (''clone_registered'', JFlag (ch_clone_registered entry)),
      (''close_observed'', JFlag (ch_close_observed entry)),
      (''created_ts_monotonic_ns'', JUlong (ch_created_ts_ns entry)),
      (''close_seen_ts_monotonic_ns'', JUlong (ch_close_seen_ts_ns entry)),
      (''outstanding_clone_count'', JUlong (of_nat clones))]"

definition LogCloneHandleState ::
  "platform \<Rightarrow> string \<Rightarrow> MitmProcessInfo \<Rightarrow> u64 \<Rightarrow> string option \<Rightarrow> CloneHandleEntry \<Rightarrow> nat \<Rightarrow> unit hook" where
  "LogCloneHandleState pl service_name client_info session_id phase entry clones = do {
     run_tick \<leftarrow> gets ho_run_tick;
     now \<leftarrow> GetMonotonicNs pl;
     json_line 1024 service_name
       (clone_state_members run_tick now service_name client_info (program_text client_info) session_id phase entry
          clones) []
   }"

definition handle_state_members ::
  "u64 \<Rightarrow> u64 \<Rightarrow> string \<Rightarrow> MitmProcessInfo \<Rightarrow> string \<Rightarrow> u64 \<Rightarrow> string option \<Rightarrow> SessionHandleEntry \<Rightarrow> nat \<Rightarrow> nat \<Rightarrow> members" where
  "handle_state_members run_tick now service_name client_info program session_id phase entry active all_handles =
     line_head (run_id_text run_tick) ''session_handle_state'' now service_name @ client_members client_info program @
     [(''session_id'', JUlong session_id), (''object_id'', JUint 0), (''request_id'', JUint 0),
      (''phase'', JText (phase_text phase)), (''session_handle'', JInt (sh_session_handle entry)),
      (''peer_handle'', JInt (sh_peer_handle entry)), (''forward_handle'', JInt (sh_forward_handle entry)),
      (''has_forward_handle'', JFlag (sh_has_forward_handle entry)),
      (''role'', JText (if sh_is_clone entry then ''clone'' else ''root'')),
      (''close_observed'', JFlag (sh_close_observed entry)),
      (''created_ts_monotonic_ns'', JUlong (sh_created_ts_ns entry)),
      (''close_seen_ts_monotonic_ns'', JUlong (sh_close_seen_ts_ns entry)),
      (''active_handle_count'', JUlong (of_nat active)), (''total_handle_count'', JUlong (of_nat all_handles))]"

definition LogSessionHandleState ::
  "platform \<Rightarrow> string \<Rightarrow> MitmProcessInfo \<Rightarrow> u64 \<Rightarrow> string option \<Rightarrow> SessionHandleEntry \<Rightarrow> nat \<Rightarrow> nat \<Rightarrow> unit hook" where
  "LogSessionHandleState pl service_name client_info session_id phase entry active all_handles = do {
     run_tick \<leftarrow> gets ho_run_tick;
     now \<leftarrow> GetMonotonicNs pl;
     json_line 1280 service_name
       (handle_state_members run_tick now service_name client_info (program_text client_info) session_id phase entry
          active all_handles) []
   }"

subsection \<open>Sessions and the forward service\<close>

definition connected_members :: "u64 \<Rightarrow> u64 \<Rightarrow> string \<Rightarrow> MitmProcessInfo \<Rightarrow> string \<Rightarrow> u64 \<Rightarrow> nat \<Rightarrow> members" where
  "connected_members run_tick now service client_info program session_id active =
     line_head (run_id_text run_tick) ''client_connected'' now service @ client_members client_info program @
     [(''session_id'', JUlong session_id), (''object_id'', JUint 0), (''request_id'', JUint 0),
      (''active_session_count'', JUlong (of_nat active))]"

definition LogSessionConnected :: "platform \<Rightarrow> string \<Rightarrow> u64 \<Rightarrow> MitmProcessInfo \<Rightarrow> unit hook" where
  "LogSessionConnected pl service_name session_id client_info = do {
     Initialize_hooks pl;
     let service = service_text pl 8 service_name;
     active \<leftarrow> on_tables (RememberSessionLocked service_name session_id client_info);
     run_tick \<leftarrow> gets ho_run_tick;
     now \<leftarrow> GetMonotonicNs pl;
     json_line 1024 service
       (connected_members run_tick now service client_info (program_text client_info) session_id active) []
   }"

definition accept_failure_members :: "u64 \<Rightarrow> u64 \<Rightarrow> string \<Rightarrow> MitmProcessInfo \<Rightarrow> string \<Rightarrow> u32 \<Rightarrow> members" where
  "accept_failure_members run_tick now service client_info program result =
     line_head (run_id_text run_tick) ''error'' now service @ client_members client_info program @
     [(''session_id'', JUint 0), (''object_id'', JUint 0), (''request_id'', JUint 0),
      (''notes'', JText (''accept failed: 0x'' @ hex_upper 8 (unat result)))]"

definition LogSessionAcceptFailure :: "platform \<Rightarrow> string \<Rightarrow> MitmProcessInfo \<Rightarrow> u32 \<Rightarrow> unit hook" where
  "LogSessionAcceptFailure pl service_name client_info result = do {
     Initialize_hooks pl;
     let service = service_text pl 8 service_name;
     run_tick \<leftarrow> gets ho_run_tick;
     now \<leftarrow> GetMonotonicNs pl;
     json_line 1024 service (accept_failure_members run_tick now service client_info (program_text client_info) result) []
   }"

definition forward_state_members ::
  "u64 \<Rightarrow> u64 \<Rightarrow> string \<Rightarrow> MitmProcessInfo \<Rightarrow> string \<Rightarrow> u64 \<Rightarrow> string option \<Rightarrow> s32 \<Rightarrow> bool \<Rightarrow> u32 \<Rightarrow> u32 \<Rightarrow> members" where
  "forward_state_members run_tick now service client_info program session_id phase handle own_handle object_id
     pointer_buffer_size =
     line_head (run_id_text run_tick) ''forward_service_state'' now service @ client_members client_info program @
     [(''session_id'', JUlong session_id), (''object_id'', JUint 0), (''request_id'', JUint 0),
      (''phase'', JText (phase_text phase)), (''forward_handle'', JInt handle),
      (''forward_own_handle'', JFlag own_handle), (''forward_object_id'', JUint object_id),
      (''forward_pointer_buffer_size'', JUint pointer_buffer_size)]"

definition LogForwardServiceState ::
  "platform \<Rightarrow> string \<Rightarrow> MitmProcessInfo \<Rightarrow> u64 \<Rightarrow> string option \<Rightarrow> s32 \<Rightarrow> bool \<Rightarrow> u32 \<Rightarrow> u32 \<Rightarrow> unit hook" where
  "LogForwardServiceState pl service_name client_info session_id phase handle own_handle object_id pointer_buffer_size = do {
     Initialize_hooks pl;
     let service = service_text pl 8 service_name;
     let program = program_text client_info;
     run_tick \<leftarrow> gets ho_run_tick;
     now \<leftarrow> GetMonotonicNs pl;
     json_line 1280 service
       (forward_state_members run_tick now service client_info program session_id phase handle own_handle object_id
          pointer_buffer_size) [];
     when_hook (ShouldMirrorMonitorEventToMainLog (Some service))
       (main_log pl (''monitor.forward service='' @ service @ '' phase='' @ phase_text phase
          @ '' client_pid=0x'' @ hex_lower 16 (unat (process_id client_info)) @ '' client_program_id='' @ program
          @ '' tracked_session='' @ fmt_u session_id @ '' forward_handle='' @ fmt_d handle
          @ '' own='' @ (if own_handle then ''1'' else ''0'') @ '' object_id='' @ fmt_u object_id
          @ '' pointer_buffer='' @ fmt_u pointer_buffer_size))
   }"

subsection \<open>Snapshots\<close>

definition empty_snapshot_members :: "u64 \<Rightarrow> u64 \<Rightarrow> string \<Rightarrow> string \<Rightarrow> string option \<Rightarrow> members" where
  "empty_snapshot_members run_tick now event count phase =
     line_head (run_id_text run_tick) event now ''mitm'' @ own_members @
     [(''phase'', JText (phase_text phase)), (count, JUint 0), (''snapshot_size'', JUint 0), (''snapshot_index'', JUint 0)]"

definition session_snapshot_members ::
  "u64 \<Rightarrow> u64 \<Rightarrow> string \<Rightarrow> SessionEntry \<Rightarrow> string option \<Rightarrow> nat \<Rightarrow> nat \<Rightarrow> members" where
  "session_snapshot_members run_tick now service entry phase active i =
     line_head (run_id_text run_tick) ''session_snapshot'' now service
     @ client_members (se_client_info entry) (program_text (se_client_info entry)) @
     [(''session_id'', JUlong (se_session_id entry)), (''object_id'', JUint 0), (''request_id'', JUint 0),
      (''phase'', JText (phase_text phase)), (''active_session_count'', JUlong (of_nat active)),
      (''snapshot_size'', JUlong (of_nat active)), (''snapshot_index'', JUlong (of_nat i))]"

definition LogSessionSnapshot :: "platform \<Rightarrow> string option \<Rightarrow> unit hook" where
  "LogSessionSnapshot pl phase = do {
     Initialize_hooks pl;
     (entries, active) \<leftarrow> from_tables (CopyTrackedSessions MaxTrackedSessions);
     run_tick \<leftarrow> gets ho_run_tick;
     if active = 0 then do {
       now \<leftarrow> GetMonotonicNs pl;
       broadcast_line 768 (empty_snapshot_members run_tick now ''session_snapshot'' ''active_session_count'' phase)
     }
     else each (\<lambda>(i, entry). do {
       let service = service_text pl 8 (se_service_name entry);
       now \<leftarrow> GetMonotonicNs pl;
       json_line 1024 service (session_snapshot_members run_tick now service entry phase active i) []
     }) (enumerate 0 entries)
   }"

definition domain_snapshot_members ::
  "u64 \<Rightarrow> u64 \<Rightarrow> string \<Rightarrow> MitmProcessInfo \<Rightarrow> u64 \<Rightarrow> string \<Rightarrow> DomainPathEntry \<Rightarrow> string option \<Rightarrow> nat \<Rightarrow> nat \<Rightarrow> members" where
  "domain_snapshot_members run_tick now service client_info session_id object_path entry phase active i =
     line_head (run_id_text run_tick) ''domain_snapshot'' now service
     @ client_members client_info (program_text client_info) @
     [(''session_id'', JUlong session_id), (''object_id'', JUint (dp_object_id entry)),
      (''object_path'', JText object_path), (''request_id'', JUint 0), (''phase'', JText (phase_text phase)),
      (''relative_path'', JText (dp_relative_path entry)), (''parent_object_id'', JUint (dp_parent_object_id entry)),
      (''creator_command_id'', JUint (dp_creator_command_id entry)),
      (''created_ts_monotonic_ns'', JUlong (dp_created_ts_ns entry)),
      (''close_observed'', JFlag (dp_close_observed entry)),
      (''close_seen_ts_monotonic_ns'', JUlong (dp_close_seen_ts_ns entry)),
      (''active_domain_count'', JUlong (of_nat active)), (''snapshot_size'', JUlong (of_nat active)),
      (''snapshot_index'', JUlong (of_nat i))]"

text \<open>The line of one captured path, given the client of its session.\<close>

definition domain_snapshot_line ::
  "platform \<Rightarrow> string \<Rightarrow> MitmProcessInfo \<Rightarrow> u64 \<Rightarrow> string option \<Rightarrow> nat \<Rightarrow> nat \<Rightarrow> DomainPathEntry \<Rightarrow> unit hook" where
  "domain_snapshot_line pl service client_info session_id phase active i entry = do {
     object_path \<leftarrow> from_tables (object_path_text service session_id (dp_object_id entry));
     run_tick \<leftarrow> gets ho_run_tick;
     now \<leftarrow> GetMonotonicNs pl;
     json_line 1408 service
       (domain_snapshot_members run_tick now service client_info session_id object_path entry phase active i) []
   }"

definition LogDomainSnapshot :: "platform \<Rightarrow> string option \<Rightarrow> unit hook" where
  "LogDomainSnapshot pl phase = do {
     Initialize_hooks pl;
     (captured_sessions, session_count) \<leftarrow> from_tables (CopyTrackedSessionsLocked MaxTrackedSessions);
     (entries, active) \<leftarrow> from_tables (CopyTrackedDomainPathsLocked MaxTrackedDomainPaths);
     if active = 0 then do {
       run_tick \<leftarrow> gets ho_run_tick;
       now \<leftarrow> GetMonotonicNs pl;
       broadcast_line 768 (empty_snapshot_members run_tick now ''domain_snapshot'' ''active_domain_count'' phase)
     }
     else each (\<lambda>(i, entry).
       case FindCapturedSessionEntry (Some captured_sessions) session_count (dp_session_id entry) of
         None \<Rightarrow> done_hook
       | Some session_entry \<Rightarrow>
           domain_snapshot_line pl (service_text pl 8 (se_service_name session_entry)) (se_client_info session_entry)
             (dp_session_id entry) phase active i entry) (enumerate 0 entries)
   }"

definition LogDomainSnapshotForSession :: "platform \<Rightarrow> u64 \<Rightarrow> string option \<Rightarrow> unit hook" where
  "LogDomainSnapshotForSession pl session_id phase = do {
     Initialize_hooks pl;
     (entries, active, session_entry) \<leftarrow>
       from_tables (CopyTrackedDomainPathsForSessionLocked session_id MaxTrackedDomainPaths);
     if active = 0 \<or> \<not> se_used session_entry then done_hook
     else each (\<lambda>(i, entry).
       domain_snapshot_line pl (service_text pl 8 (se_service_name session_entry)) (se_client_info session_entry)
         session_id phase active i entry) (enumerate 0 entries)
   }"

subsection \<open>The service manager\<close>

text \<open>On a value outside the enumerations the code aborts; the empty text stands for that.\<close>

definition event_text :: "string option \<Rightarrow> string" where
  "event_text t = (case t of Some s \<Rightarrow> s | None \<Rightarrow> [])"

record SmLifecycleTraceContext =
  smc_event_type :: SmLifecycleEventType
  smc_service_name :: string
  smc_result :: "u32 option" \<comment> \<open>\<open>has_result\<close> with \<open>result\<close>\<close>
  smc_bool_out :: "bool option"
  smc_port_handle :: s32
  smc_query_handle :: s32
  smc_client_info :: "MitmProcessInfo option"

definition result_text :: "u32 option \<Rightarrow> string" where
  "result_text r = (case r of Some v \<Rightarrow> ''0x'' @ hex_upper 8 (unat v) | None \<Rightarrow> ''n/a'')"

definition client_log_text :: "MitmProcessInfo option \<Rightarrow> string" where
  "client_log_text c = '' client_pid=0x'' @ hex_lower 16 (case c of Some i \<Rightarrow> unat (process_id i) | None \<Rightarrow> 0)
     @ '' client_program_id='' @ (case c of Some i \<Rightarrow> program_text i | None \<Rightarrow> ''unknown'')"

definition MirrorSmLifecycleToMainLog :: "platform \<Rightarrow> string \<Rightarrow> SmLifecycleTraceContext \<Rightarrow> unit hook" where
  "MirrorSmLifecycleToMainLog pl service ctx =
     (if \<not> ShouldMirrorMonitorEventToMainLog (Some service) then done_hook
      else main_log pl (''monitor.sm service='' @ service
        @ '' op='' @ event_text (GetSmLifecycleOperation (smc_event_type ctx))
        @ '' phase='' @ event_text (GetSmLifecyclePhase (smc_event_type ctx))
        @ '' rc='' @ result_text (smc_result ctx)
        @ '' has_mitm='' @ (case smc_bool_out ctx of Some b \<Rightarrow> if b then ''1'' else ''0'' | None \<Rightarrow> ''-1'')
        @ client_log_text (smc_client_info ctx)
        @ '' port='' @ fmt_d (smc_port_handle ctx) @ '' query='' @ fmt_d (smc_query_handle ctx)))"

definition result_part :: "u32 option \<Rightarrow> bool \<times> members" where
  "result_part r = (r \<noteq> None, [(''rc'', JHex (the r))])"

definition client_part :: "MitmProcessInfo option \<Rightarrow> bool \<times> members" where
  "client_part c = (c \<noteq> None, [(''client_pid'', JUlong (process_id (the c))),
     (''client_program_id'', JText (program_text (the c)))])"

definition sm_parts :: "platform \<Rightarrow> SmLifecycleTraceContext \<Rightarrow> (bool \<times> members) list" where
  "sm_parts pl ctx =
     [result_part (smc_result ctx),
      (smc_bool_out ctx \<noteq> None, [(''has_mitm'', JFlag (the (smc_bool_out ctx)))]),
      (smc_port_handle ctx \<noteq> pl_invalid_handle pl, [(''port_handle'', JInt (smc_port_handle ctx))]),
      (smc_query_handle ctx \<noteq> pl_invalid_handle pl, [(''query_handle'', JInt (smc_query_handle ctx))]),
      client_part (smc_client_info ctx)]"

definition operation_members :: "u64 \<Rightarrow> u64 \<Rightarrow> string \<Rightarrow> string \<Rightarrow> string \<Rightarrow> string \<Rightarrow> members" where
  "operation_members run_tick now service event operation phase =
     line_head (run_id_text run_tick) event now service @
     [(''operation'', JText operation), (''phase'', JText phase)] @ own_members"

definition LogSmLifecycle :: "platform \<Rightarrow> SmLifecycleTraceContext \<Rightarrow> unit hook" where
  "LogSmLifecycle pl ctx = do {
     Initialize_hooks pl;
     let service = service_text pl 8 (smc_service_name ctx);
     MirrorSmLifecycleToMainLog pl service ctx;
     run_tick \<leftarrow> gets ho_run_tick;
     now \<leftarrow> GetMonotonicNs pl;
     json_line 1024 service
       (operation_members run_tick now service ''sm_mitm''
          (event_text (GetSmLifecycleOperation (smc_event_type ctx)))
          (event_text (GetSmLifecyclePhase (smc_event_type ctx))))
       (extra_text 320 (sm_parts pl ctx))
   }"

subsection \<open>Accepting\<close>

record trace_detail =
  td_code :: u32
  td_value0 :: u32
  td_value1 :: u32
  td_value2 :: u32
  td_value3 :: u32

record AcceptTraceContext =
  acc_event_type :: AcceptTraceEventType
  acc_service_name :: string
  acc_result :: "u32 option"
  acc_client_info :: "MitmProcessInfo option"
  acc_session_id :: "u64 option"
  acc_port_handle :: s32
  acc_session_handle :: s32
  acc_has_forward_handle :: bool
  acc_forward_handle :: s32
  acc_forward_own_handle :: bool
  acc_forward_pointer_buffer_size :: u32
  acc_has_detail :: bool
  acc_detail :: trace_detail

definition MirrorAcceptTraceToMainLog :: "platform \<Rightarrow> string \<Rightarrow> AcceptTraceContext \<Rightarrow> unit hook" where
  "MirrorAcceptTraceToMainLog pl service ctx =
     (if \<not> ShouldMirrorMonitorEventToMainLog (Some service) then done_hook
      else main_log pl (''monitor.accept service='' @ service
        @ '' op='' @ event_text (GetAcceptOperation (acc_event_type ctx))
        @ '' phase='' @ event_text (GetAcceptPhase (acc_event_type ctx))
        @ '' rc='' @ result_text (acc_result ctx) @ client_log_text (acc_client_info ctx)
        @ '' tracked_session='' @ show_dec (case acc_session_id ctx of Some i \<Rightarrow> unat i | None \<Rightarrow> 0)
        @ '' port='' @ fmt_d (acc_port_handle ctx) @ '' session='' @ fmt_d (acc_session_handle ctx)
        @ '' forward='' @ fmt_d (if acc_has_forward_handle ctx then acc_forward_handle ctx else - 1)
        @ '' detail=['' @ fmt_u (td_code (acc_detail ctx)) @ '','' @ fmt_u (td_value0 (acc_detail ctx))
        @ '','' @ fmt_u (td_value1 (acc_detail ctx)) @ '','' @ fmt_u (td_value2 (acc_detail ctx))
        @ '','' @ fmt_u (td_value3 (acc_detail ctx)) @ '']''))"

definition accept_parts :: "platform \<Rightarrow> AcceptTraceContext \<Rightarrow> (bool \<times> members) list" where
  "accept_parts pl ctx =
     [result_part (acc_result ctx), client_part (acc_client_info ctx),
      (acc_session_id ctx \<noteq> None, [(''tracked_session_id'', JUlong (the (acc_session_id ctx)))]),
      (acc_port_handle ctx \<noteq> pl_invalid_handle pl, [(''port_handle'', JInt (acc_port_handle ctx))]),
      (acc_session_handle ctx \<noteq> pl_invalid_handle pl, [(''session_handle'', JInt (acc_session_handle ctx))]),
      (acc_has_forward_handle ctx,
        [(''forward_handle'', JInt (acc_forward_handle ctx)),
         (''forward_own_handle'', JFlag (acc_forward_own_handle ctx)),
         (''forward_pointer_buffer_size'', JUint (acc_forward_pointer_buffer_size ctx))]),
      (acc_has_detail ctx,
        [(''detail_code'', JUint (td_code (acc_detail ctx))), (''detail_value0'', JUint (td_value0 (acc_detail ctx))),
         (''detail_value1'', JUint (td_value1 (acc_detail ctx))), (''detail_value2'', JUint (td_value2 (acc_detail ctx))),
         (''detail_value3'', JUint (td_value3 (acc_detail ctx)))])]"

definition LogAcceptTrace :: "platform \<Rightarrow> AcceptTraceContext \<Rightarrow> unit hook" where
  "LogAcceptTrace pl ctx = do {
     Initialize_hooks pl;
     let service = service_text pl 8 (acc_service_name ctx);
     MirrorAcceptTraceToMainLog pl service ctx;
     run_tick \<leftarrow> gets ho_run_tick;
     now \<leftarrow> GetMonotonicNs pl;
     json_line 1200 service
       (operation_members run_tick now service ''mitm_accept''
          (event_text (GetAcceptOperation (acc_event_type ctx))) (event_text (GetAcceptPhase (acc_event_type ctx))))
       (extra_text 512 (accept_parts pl ctx))
   }"

subsection \<open>Dispatching\<close>

text \<open>The fields about the response; the words and handles are fixed arrays of the library.\<close>

record response_snapshot =
  rp_data_words :: u32
  rp_raw_size :: u32
  rp_raw_word_count :: u32
  rp_raw_words :: "u32 list"
  rp_num_copy_handles :: u32
  rp_num_move_handles :: u32
  rp_copy_handles :: "s32 list"
  rp_move_handles :: "s32 list"

record DispatchTraceContext =
  dsp_event_type :: DispatchTraceEventType
  dsp_service_name :: string
  dsp_client_info :: MitmProcessInfo
  dsp_session_id :: u64
  dsp_object_id :: u32
  dsp_object_found :: bool
  dsp_has_command_id :: bool
  dsp_command_id :: u32
  dsp_hipc_command_type :: "u32 option"
  dsp_result :: "u32 option"
  dsp_has_detail :: bool
  dsp_detail :: trace_detail
  dsp_has_response_snapshot :: bool
  dsp_response :: response_snapshot

definition is_manager_request :: "DispatchTraceContext \<Rightarrow> bool" where
  "is_manager_request ctx \<longleftrightarrow> dsp_has_command_id ctx \<and>
     dsp_event_type ctx \<in> {ManagerRequestBegin, ManagerRequestEnd, ManagerRequestDomainOverride,
       ManagerRequestBaseFallback, ManagerRequestCmifParseFail, ManagerRequestCmifHandlerLookup,
       ManagerRequestCmifHandlerResult}"

definition is_clone_manager_request :: "DispatchTraceContext \<Rightarrow> bool" where
  "is_clone_manager_request ctx \<longleftrightarrow> is_manager_request ctx \<and> (dsp_command_id ctx = 2 \<or> dsp_command_id ctx = 4)"

text \<open>The kind and the name, from arrays of 48 and 64 characters that hold \<^verbatim>\<open>Unknown\<close> at first.\<close>

definition dispatch_names :: "string \<Rightarrow> DispatchTraceContext \<Rightarrow> trace_tables \<Rightarrow> string \<times> string" where
  "dispatch_names service ctx t =
     (let kind = snprintf (fresh_buf 48) ''Unknown''; name = snprintf (fresh_buf 64) ''Unknown''
      in if \<not> dsp_has_command_id ctx then (buf_text kind, buf_text name)
         else if is_manager_request ctx then
           (buf_text (snprintf kind ''IHipcManager''), buf_text (GetHipcManagerCommandName name (dsp_command_id ctx)))
         else let path = object_path_text service (dsp_session_id ctx) (dsp_object_id ctx) t;
                  (kind, name) = DescribeKnownObjectAndCommand (Some service) (Some path) (dsp_command_id ctx) kind name
              in (buf_text kind, buf_text name))"

definition dispatch_detail_name :: "DispatchTraceContext \<Rightarrow> string" where
  "dispatch_detail_name ctx =
     (case dsp_event_type ctx of
        ManagerRequestCmifParseFail \<Rightarrow>
          (if td_code (dsp_detail ctx) = 1 then ''header_too_small''
           else if td_code (dsp_detail ctx) = 2 then ''invalid_in_header'' else ''unknown'')
      | ManagerRequestCmifHandlerLookup \<Rightarrow> ''handler_lookup''
      | ManagerRequestCmifHandlerResult \<Rightarrow> ''handler_result''
      | _ \<Rightarrow> ''detail'')"

text \<open>The preview of the response's words in an array of 72 characters.\<close>

primrec preview_words :: "u32 list \<Rightarrow> bool \<Rightarrow> string \<Rightarrow> string" where
  "preview_words [] first acc = acc"
| "preview_words (w # ws) first acc =
     (let acc' = acc @ take (72 - length acc - 1) ((if first then [] else ''_'') @ hex_upper 8 (unat w))
      in if 71 \<le> length acc' then acc' else preview_words ws False acc')"

definition dispatch_preview :: "DispatchTraceContext \<Rightarrow> string" where
  "dispatch_preview ctx =
     preview_words (take (min 8 (unat (rp_raw_word_count (dsp_response ctx)))) (rp_raw_words (dsp_response ctx))) True []"

definition dispatch_parts :: "string \<Rightarrow> string \<Rightarrow> nat \<Rightarrow> DispatchTraceContext \<Rightarrow> (bool \<times> members) list" where
  "dispatch_parts kind name clones ctx =
     (let snapshot = dsp_has_response_snapshot ctx; words = rp_raw_words (dsp_response ctx);
          has_word4 = dsp_has_command_id ctx \<and> 5 \<le> rp_raw_word_count (dsp_response ctx) in
     [(dsp_has_command_id ctx,
        [(''command_id'', JUint (dsp_command_id ctx)), (''command_name'', JText name), (''object_kind'', JText kind)]),
      (is_clone_manager_request ctx, [(''outstanding_clone_count'', JUlong (of_nat clones))]),
      (dsp_hipc_command_type ctx \<noteq> None,
        [(''hipc_command_type'', JUint (the (dsp_hipc_command_type ctx))),
         (''hipc_command_type_name'', JText (GetHipcCommandTypeName (the (dsp_hipc_command_type ctx))))]),
      result_part (dsp_result ctx),
      (dsp_has_detail ctx,
        [(''detail_code'', JUint (td_code (dsp_detail ctx))), (''detail_name'', JText (dispatch_detail_name ctx)),
         (''detail_value0'', JUint (td_value0 (dsp_detail ctx))), (''detail_value1'', JUint (td_value1 (dsp_detail ctx))),
         (''detail_value2'', JUint (td_value2 (dsp_detail ctx))), (''detail_value3'', JUint (td_value3 (dsp_detail ctx)))]),
      (snapshot,
        [(''response_data_words'', JUint (rp_data_words (dsp_response ctx))),
         (''response_raw_size'', JUint (rp_raw_size (dsp_response ctx))),
         (''response_raw_word_count'', JUint (rp_raw_word_count (dsp_response ctx))),
         (''response_raw_preview'', JText (dispatch_preview ctx)),
         (''response_num_copy_handles'', JUint (rp_num_copy_handles (dsp_response ctx))),
         (''response_num_move_handles'', JUint (rp_num_move_handles (dsp_response ctx)))]),
      (snapshot \<and> 0 < rp_num_copy_handles (dsp_response ctx),
        [(''response_first_copy_handle'', JInt (rp_copy_handles (dsp_response ctx) ! 0))]),
      (snapshot \<and> 0 < rp_num_move_handles (dsp_response ctx),
        [(''response_first_move_handle'', JInt (rp_move_handles (dsp_response ctx) ! 0))]),
      (snapshot \<and> has_word4 \<and> dsp_command_id ctx = 0, [(''response_domain_object_id'', JUint (words ! 4))]),
      (snapshot \<and> has_word4 \<and> dsp_command_id ctx = 3,
        [(''response_pointer_buffer_size'', JUint (words ! 4 AND 0xFFFF))])])"

definition dispatch_members :: "u64 \<Rightarrow> u64 \<Rightarrow> string \<Rightarrow> string \<Rightarrow> DispatchTraceContext \<Rightarrow> members" where
  "dispatch_members run_tick now service program ctx =
     line_head (run_id_text run_tick) ''mitm_dispatch'' now service @ client_members (dsp_client_info ctx) program @
     [(''session_id'', JUlong (dsp_session_id ctx)), (''object_id'', JUint (dsp_object_id ctx)),
      (''request_id'', JUint 0), (''dispatch_event'', JText (event_text (GetDispatchEventName (dsp_event_type ctx)))),
      (''object_found'', JFlag (dsp_object_found ctx))]"

text \<open>A successful clone of a socket service announces the handle it returns.\<close>

definition announces_clone :: "string \<Rightarrow> DispatchTraceContext \<Rightarrow> bool" where
  "announces_clone service ctx \<longleftrightarrow> StartsWith (Some service) (Some ''bsd:'') \<and> is_clone_manager_request ctx
     \<and> dsp_event_type ctx = ManagerRequestEnd \<and> dsp_has_response_snapshot ctx
     \<and> 0 < rp_num_move_handles (dsp_response ctx)"

definition LogDispatchTrace :: "platform \<Rightarrow> DispatchTraceContext \<Rightarrow> unit hook" where
  "LogDispatchTrace pl ctx = do {
     Initialize_hooks pl;
     let service = service_text pl 8 (dsp_service_name ctx);
     let program = program_text (dsp_client_info ctx);
     if dsp_has_command_id ctx \<and> ShouldSuppressBsdTrace (Some service) (dsp_command_id ctx) then done_hook
     else do {
       (kind, name) \<leftarrow> from_tables (dispatch_names service ctx);
       clones \<leftarrow> from_tables (CountTrackedCloneHandlesForSessionLocked (dsp_session_id ctx));
       run_tick \<leftarrow> gets ho_run_tick;
       now \<leftarrow> GetMonotonicNs pl;
       json_line 1792 service (dispatch_members run_tick now service program ctx)
         (extra_text 768 (dispatch_parts kind name clones ctx));
       when_hook (announces_clone service ctx) (do {
         created \<leftarrow> GetMonotonicNs pl;
         entry \<leftarrow> on_tables (RememberCloneHandleLocked created (dsp_session_id ctx)
                    (rp_move_handles (dsp_response ctx) ! 0) (dsp_command_id ctx));
         outstanding \<leftarrow> from_tables (CountTrackedCloneHandlesForSessionLocked (dsp_session_id ctx));
         LogCloneHandleState pl service (dsp_client_info ctx) (dsp_session_id ctx) (Some ''manager_request_end'')
           entry outstanding
       })
     }
   }"

subsection \<open>The life of a session\<close>

datatype SessionTraceEventType =
  Accepted | CloneRegistered | WaitRegistered | WaitSelected | WaitFinalized | ForwardServiceDestroyBegin
| ForwardServiceDestroyEnd | DestroyBegin | DestroyEnd | NativeHandleClosed | ProcessForSessionBegin
| ProcessForSessionEnd | SessionClose

record SessionTraceContext =
  ses_event_type :: SessionTraceEventType
  ses_service_name :: string
  ses_client_info :: MitmProcessInfo
  ses_session_id :: u64
  ses_session_handle :: s32
  ses_peer_handle :: s32
  ses_forward_handle :: s32
  ses_has_forward_handle :: bool

text \<open>What the branches of the switch leave in the local variables.\<close>

record session_facts =
  sf_event_name :: string
  sf_remaining :: nat
  sf_clones :: nat
  sf_active :: nat
  sf_handles :: nat
  sf_handle_entry :: "SessionHandleEntry option"
  sf_clone_entry :: "CloneHandleEntry option"

fun session_event_name :: "SessionTraceEventType \<Rightarrow> string" where
  "session_event_name Accepted = ''accepted_session_registered''"
| "session_event_name CloneRegistered = ''clone_session_registered''"
| "session_event_name WaitRegistered = ''session_wait_registered''"
| "session_event_name WaitSelected = ''session_wait_selected''"
| "session_event_name WaitFinalized = ''session_wait_finalized''"
| "session_event_name ForwardServiceDestroyBegin = ''forward_service_destroy_begin''"
| "session_event_name ForwardServiceDestroyEnd = ''forward_service_destroy_end''"
| "session_event_name DestroyBegin = ''session_destroy_begin''"
| "session_event_name DestroyEnd = ''session_destroy_end''"
| "session_event_name NativeHandleClosed = ''session_native_handle_closed''"
| "session_event_name ProcessForSessionBegin = ''process_for_session_begin''"
| "session_event_name ProcessForSessionEnd = ''process_for_session_end''"
| "session_event_name SessionClose = ''client_session_event''"

text \<open>The four counts every branch but the close takes.\<close>

definition session_counts ::
  "SessionTraceContext \<Rightarrow> SessionHandleEntry option \<Rightarrow> CloneHandleEntry option \<Rightarrow> trace_tables \<Rightarrow> session_facts" where
  "session_counts ctx handle_entry clone_entry t =
     \<lparr>sf_event_name = session_event_name (ses_event_type ctx),
      sf_remaining = CountTrackedSessionsLocked t,
      sf_clones = CountTrackedCloneHandlesForSessionLocked (ses_session_id ctx) t,
      sf_active = CountTrackedSessionHandlesForSessionLocked (ses_session_id ctx) True t,
      sf_handles = CountTrackedSessionHandlesForSessionLocked (ses_session_id ctx) False t,
      sf_handle_entry = handle_entry, sf_clone_entry = clone_entry\<rparr>"

definition remember_handle :: "platform \<Rightarrow> SessionTraceContext \<Rightarrow> bool \<Rightarrow> SessionHandleEntry hook" where
  "remember_handle pl ctx is_clone = do {
     created \<leftarrow> GetMonotonicNs pl;
     on_tables (RememberSessionHandleLocked created (ses_session_id ctx) (ses_session_handle ctx)
       (ses_peer_handle ctx) (ses_forward_handle ctx) (ses_has_forward_handle ctx) is_clone)
   }"

definition accept_session :: "platform \<Rightarrow> SessionTraceContext \<Rightarrow> session_facts hook" where
  "accept_session pl ctx = do {
     entry \<leftarrow> remember_handle pl ctx False;
     from_tables (session_counts ctx (Some entry) None)
   }"

definition register_clone_session :: "platform \<Rightarrow> SessionTraceContext \<Rightarrow> session_facts hook" where
  "register_clone_session pl ctx = do {
     entry \<leftarrow> remember_handle pl ctx True;
     created \<leftarrow> GetMonotonicNs pl;
     clone_entry \<leftarrow> on_tables (\<lambda>t.
       let (r, _, t') = NoteCloneRegisteredLocked created (ses_session_id ctx) (ses_peer_handle ctx)
             (ses_session_handle ctx) (ses_forward_handle ctx) (ses_has_forward_handle ctx) t
       in (r, t'));
     from_tables (session_counts ctx (Some entry) clone_entry)
   }"

text \<open>The lines before a session goes: its domain paths, and its open clones or one line for none.\<close>

definition log_open_clones :: "platform \<Rightarrow> string \<Rightarrow> SessionTraceContext \<Rightarrow> SessionEntry \<Rightarrow> CloneHandleEntry list \<Rightarrow> nat \<Rightarrow> unit hook" where
  "log_open_clones pl service ctx session_entry entries open_clones =
     (if open_clones = 0 then
        LogCloneHandleState pl service (se_client_info session_entry) (ses_session_id ctx)
          (Some ''pre_disconnect_empty'') empty_clone_handle 0
      else each (\<lambda>entry. LogCloneHandleState pl service (se_client_info session_entry) (ses_session_id ctx)
             (Some ''pre_disconnect_final'') entry open_clones) entries)"

definition close_session :: "platform \<Rightarrow> string \<Rightarrow> SessionTraceContext \<Rightarrow> session_facts hook" where
  "close_session pl service ctx = do {
     tracked \<leftarrow> from_tables (FindSessionEntryLocked (ses_session_id ctx));
     closed \<leftarrow> GetMonotonicNs pl;
     (handle_entry, active, handles) \<leftarrow> on_tables (\<lambda>t.
       let (r, a, n, t') = MarkSessionHandleCloseObservedLocked closed (ses_session_id ctx) (ses_session_handle ctx) t
       in ((r, a, n), t'));
     closed \<leftarrow> GetMonotonicNs pl;
     (clone_entry, clones) \<leftarrow> on_tables (\<lambda>t.
       let (r, n, t') = MarkCloneClosedByServerHandleLocked closed (ses_session_id ctx) (ses_session_handle ctx) t
       in ((r, n), t'));
     (entries, open_clones) \<leftarrow>
       from_tables (CopyTrackedCloneHandlesForSessionLocked (ses_session_id ctx) MaxTrackedCloneHandles);
     let final_close = (active = 0);
     (case tracked of
        None \<Rightarrow> done_hook
      | Some session_entry \<Rightarrow> when_hook final_close (do {
          LogDomainSnapshotForSession pl (ses_session_id ctx) (Some ''pre_disconnect_final'');
          log_open_clones pl service ctx session_entry entries open_clones
        }));
     remaining \<leftarrow> (if final_close
       then on_tables (\<lambda>t. let (_, _, n, t') = ForgetSessionLocked (ses_session_id ctx) t in (n, t'))
       else from_tables CountTrackedSessionsLocked);
     State_Monad.return \<lparr>sf_event_name = (if final_close then ''client_disconnected'' else ''client_handle_closed''),
       sf_remaining = remaining, sf_clones = clones, sf_active = active, sf_handles = handles,
       sf_handle_entry = handle_entry, sf_clone_entry = clone_entry\<rparr>
   }"

definition session_change :: "platform \<Rightarrow> string \<Rightarrow> SessionTraceContext \<Rightarrow> session_facts hook" where
  "session_change pl service ctx =
     (case ses_event_type ctx of
        Accepted \<Rightarrow> accept_session pl ctx
      | CloneRegistered \<Rightarrow> register_clone_session pl ctx
      | SessionClose \<Rightarrow> close_session pl service ctx
      | _ \<Rightarrow> from_tables (session_counts ctx None None))"

definition session_extra :: "SessionTraceContext \<Rightarrow> session_facts \<Rightarrow> members" where
  "session_extra ctx facts =
     (if ses_event_type ctx = Accepted \<or> ses_event_type ctx = CloneRegistered then
        [(''peer_handle'', JInt (ses_peer_handle ctx)), (''has_forward_handle'', JFlag (ses_has_forward_handle ctx)),
         (''forward_handle'', JInt (ses_forward_handle ctx)),
         (''outstanding_clone_count'', JUlong (of_nat (sf_clones facts))),
         (''active_handle_count'', JUlong (of_nat (sf_active facts))),
         (''total_handle_count'', JUlong (of_nat (sf_handles facts)))]
      else
        [(''has_forward_handle'', JFlag (ses_has_forward_handle ctx)),
         (''forward_handle'', JInt (ses_forward_handle ctx)),
         (''active_handle_count'', JUlong (of_nat (sf_active facts))),
         (''total_handle_count'', JUlong (of_nat (sf_handles facts))),
         (''outstanding_clone_count'', JUlong (of_nat (sf_clones facts)))])"

definition session_members :: "u64 \<Rightarrow> u64 \<Rightarrow> string \<Rightarrow> string \<Rightarrow> SessionTraceContext \<Rightarrow> session_facts \<Rightarrow> members" where
  "session_members run_tick now service program ctx facts =
     line_head (run_id_text run_tick) (sf_event_name facts) now service
     @ client_members (ses_client_info ctx) program @
     [(''session_id'', JUlong (ses_session_id ctx)), (''object_id'', JUint 0), (''request_id'', JUint 0),
      (''session_handle'', JInt (ses_session_handle ctx)),
      (''active_session_count'', JUlong (of_nat (sf_remaining facts)))]"

definition session_log_text :: "string \<Rightarrow> string \<Rightarrow> SessionTraceContext \<Rightarrow> session_facts \<Rightarrow> string" where
  "session_log_text service program ctx facts =
     ''monitor.session service='' @ service @ '' event='' @ sf_event_name facts
     @ '' client_pid=0x'' @ hex_lower 16 (unat (process_id (ses_client_info ctx))) @ '' client_program_id='' @ program
     @ '' tracked_session='' @ fmt_u (ses_session_id ctx) @ '' session_handle='' @ fmt_d (ses_session_handle ctx)
     @ '' peer_handle='' @ fmt_d (ses_peer_handle ctx)
     @ '' has_forward='' @ (if ses_has_forward_handle ctx then ''1'' else ''0'')
     @ '' forward_handle='' @ fmt_d (ses_forward_handle ctx)
     @ '' active_sessions='' @ show_dec (sf_remaining facts) @ '' active_handles='' @ show_dec (sf_active facts)
     @ '' total_handles='' @ show_dec (sf_handles facts) @ '' outstanding_clones='' @ show_dec (sf_clones facts)"

definition LogSessionTrace :: "platform \<Rightarrow> SessionTraceContext \<Rightarrow> unit hook" where
  "LogSessionTrace pl ctx = do {
     Initialize_hooks pl;
     let service = service_text pl 8 (ses_service_name ctx);
     let program = program_text (ses_client_info ctx);
     facts \<leftarrow> session_change pl service ctx;
     (case sf_handle_entry facts of
        None \<Rightarrow> done_hook
      | Some entry \<Rightarrow> LogSessionHandleState pl service (ses_client_info ctx) (ses_session_id ctx)
          (Some (if ses_event_type ctx = Accepted then ''accepted''
                 else if ses_event_type ctx = CloneRegistered then ''clone_registered'' else ''close_observed''))
          entry (sf_active facts) (sf_handles facts));
     (case sf_clone_entry facts of
        None \<Rightarrow> done_hook
      | Some entry \<Rightarrow> LogCloneHandleState pl service (ses_client_info ctx) (ses_session_id ctx)
          (Some (if ses_event_type ctx = CloneRegistered then ''clone_registered'' else ''close_observed''))
          entry (sf_clones facts));
     run_tick \<leftarrow> gets ho_run_tick;
     now \<leftarrow> GetMonotonicNs pl;
     json_line 1408 service (session_members run_tick now service program ctx facts)
       (printed 256 (more_text (session_extra ctx facts)));
     when_hook (ShouldMirrorMonitorEventToMainLog (Some service)) (main_log pl (session_log_text service program ctx facts))
   }"

end
