(* ===== verification/TraceDomain.thy ===== *)
theory TraceDomain
  imports TraceEvents
begin

text \<open>
  The callback about domains, \<open>OnDomainTrace\<close> of \<^verbatim>\<open>net-probe/src/mitm_trace.cpp\<close>: it prints
  the event with the identifiers it names, remembers the root object of a session that
  became a domain, and marks closed objects.
\<close>

datatype DomainTraceEventType =
  ConvertCurrentObjectToDomain | DispatchSendMessage | DispatchClose | ForwardRequestForMissingObject
| SetOutObjects | MirrorForwardedOutObjects | OtherDomainEvent

record DomainTraceContext =
  dom_event_type :: DomainTraceEventType
  dom_service_name :: string
  dom_client_info :: MitmProcessInfo
  dom_session_id :: u64
  dom_request_object_id :: u32
  dom_data_size :: u32
  dom_num_in_objects :: u32
  dom_num_out_objects :: u32
  dom_object_ids :: "u32 list" \<comment> \<open>a fixed array of the library, of at least eight entries\<close>
  dom_object_found :: bool
  dom_detail_code :: u32
  dom_detail_value :: u32
  dom_detail_result :: u32
  dom_has_detail_result :: bool
  dom_forward_state :: "(s32 \<times> bool \<times> u32 \<times> u32) option" \<comment> \<open>handle, ownership, object, pointer buffer\<close>

fun domain_event_name :: "DomainTraceEventType \<Rightarrow> string" where
  "domain_event_name ConvertCurrentObjectToDomain = ''convert_current_object_to_domain''"
| "domain_event_name DispatchSendMessage = ''dispatch_send_message''"
| "domain_event_name DispatchClose = ''dispatch_close''"
| "domain_event_name ForwardRequestForMissingObject = ''forward_request_for_missing_object''"
| "domain_event_name SetOutObjects = ''set_out_objects''"
| "domain_event_name MirrorForwardedOutObjects = ''mirror_forwarded_out_objects''"
| "domain_event_name OtherDomainEvent = ''unknown''"

definition convert_details :: "(nat \<times> string) list" where
  "convert_details =
     [(0, ''none''), (1, ''forward_pre_convert''), (2, ''forward_convert_failed''), (3, ''forward_convert_succeeded'')]"

definition mirror_details :: "(nat \<times> string) list" where
  "mirror_details =
     [(1, ''raw_size_too_small''), (2, ''raw_buffer_out_of_bounds''), (3, ''raw_data_too_small''),
      (4, ''cmif_magic_invalid''), (5, ''no_out_objects''), (6, ''object_id_trailer_too_small''),
      (7, ''skip_invalid_object_id''), (8, ''skip_existing_object''), (9, ''copy_from_current_domain_failed''),
      (10, ''registered_object''), (11, ''complete''), (12, ''too_many_out_objects''), (13, ''passive_proxy_skipped'')]"

definition detail_in :: "(nat \<times> string) list \<Rightarrow> u32 \<Rightarrow> string" where
  "detail_in details code = (case map_of details (unat code) of Some t \<Rightarrow> t | None \<Rightarrow> ''unknown'')"

definition domain_detail_name :: "DomainTraceContext \<Rightarrow> string" where
  "domain_detail_name ctx =
     (if dom_event_type ctx = ConvertCurrentObjectToDomain then detail_in convert_details (dom_detail_code ctx)
      else if dom_event_type ctx = MirrorForwardedOutObjects then detail_in mirror_details (dom_detail_code ctx)
      else ''none'')"

subsection \<open>Identifiers\<close>

text \<open>
  The loops that print identifiers into an array of \<open>n\<close> characters, behind the opening
  bracket; \<open>first\<close> is \<^verbatim>\<open>i == 0\<close>. They stop when sixteen characters are not left, and clamp
  the cursor so that the closing bracket fits.
\<close>

primrec ids_loop :: "u32 list \<Rightarrow> nat \<Rightarrow> bool \<Rightarrow> string \<Rightarrow> string" where
  "ids_loop [] n first acc = acc"
| "ids_loop (i # is) n first acc =
     (if \<not> length acc + 16 < n then acc
      else let text = (if first then [] else '','') @ show_dec (unat i);
               cursor = length acc + length text; acc = acc @ take (n - length acc - 1) text
           in if n - 2 \<le> cursor then take (n - 2) acc else ids_loop is n False acc)"

definition ids_array :: "nat \<Rightarrow> u32 list \<Rightarrow> string" where
  "ids_array n is = ids_loop is n True ''['' @ '']''"

lemma ids_loop_text:
  "is \<noteq> [] \<Longrightarrow> length acc + 11 * length is + 16 < n \<Longrightarrow>
     ids_loop is n first acc = acc @ (if first then [] else '','') @ ids_text is"
proof (induction "is" arbitrary: acc first)
  case (Cons i "is")
  let ?t = "(if first then [] else '','') @ show_dec (unat i)"
  have l: "length ?t \<le> 11" using length_show_word [of 10 i] by simp
  with Cons.prems have s: "length acc + 16 < n" "\<not> n - 2 \<le> length acc + length ?t"
    "take (n - length acc - 1) ?t = ?t" by auto
  then have step: "ids_loop (i # is) n first acc = ids_loop is n False (acc @ ?t)"
    by (simp only: ids_loop.simps Let_def not_True_eq_False if_False)
  show ?case
  proof (cases "is")
    case Nil
    with step show ?thesis by simp
  next
    case (Cons j js)
    moreover have "length (acc @ ?t) + 11 * length is + 16 < n" using Cons.prems l by simp
    ultimately show ?thesis using Cons.IH [of "acc @ ?t" False] step by simp
  qed
qed simp

text \<open>Up to eight identifiers are printed whole, as the array of a JSON value.\<close>

lemma ids_array_text:
  assumes "length is \<le> 8" shows "ids_array 160 is = jval_text (JIds is)"
proof (cases "is = []")
  case False
  with ids_loop_text [of "is" "''[''" 160 True] assms show ?thesis by (simp add: ids_array_def)
qed (simp add: ids_array_def)

definition domain_ids :: "DomainTraceContext \<Rightarrow> u32 list" where
  "domain_ids ctx = take (min 8 (unat (dom_num_out_objects ctx))) (dom_object_ids ctx)"

subsection \<open>The callback\<close>

definition forward_members :: "s32 \<times> bool \<times> u32 \<times> u32 \<Rightarrow> members" where
  "forward_members = (\<lambda>(handle, own_handle, object_id, pointer_buffer_size).
     [(''forward_handle'', JInt handle), (''forward_own_handle'', JFlag own_handle),
      (''forward_object_id'', JUint object_id), (''forward_pointer_buffer_size'', JUint pointer_buffer_size)])"

text \<open>\<open>JIds\<close> stands for the text of \<open>ids_array 160\<close>, see \<open>ids_array_text\<close>.\<close>

definition domain_members :: "string \<Rightarrow> u64 \<Rightarrow> string \<Rightarrow> string \<Rightarrow> DomainTraceContext \<Rightarrow> members" where
  "domain_members run_id now service program ctx =
     line_head run_id ''domain_trace'' now service @ client_members (dom_client_info ctx) program @
     [(''session_id'', JUlong (dom_session_id ctx)),
      (''domain_event'', JText (printed 48 (domain_event_name (dom_event_type ctx)))),
      (''request_object_id'', JUint (dom_request_object_id ctx)), (''data_size'', JUint (dom_data_size ctx)),
      (''num_in_objects'', JUint (dom_num_in_objects ctx)), (''num_out_objects'', JUint (dom_num_out_objects ctx)),
      (''object_ids'', JIds (domain_ids ctx)), (''object_found'', JFlag (dom_object_found ctx)),
      (''detail_code'', JUint (dom_detail_code ctx)), (''detail_name'', JText (domain_detail_name ctx)),
      (''detail_value'', JUint (dom_detail_value ctx)), (''detail_result'', JHex (dom_detail_result ctx)),
      (''has_detail_result'', JFlag (dom_has_detail_result ctx))]"

text \<open>A tracked object's line, when the object is tracked.\<close>

definition log_tracked_object ::
  "platform \<Rightarrow> string \<Rightarrow> MitmProcessInfo \<Rightarrow> u64 \<Rightarrow> u32 \<Rightarrow> string \<Rightarrow> unit hook" where
  "log_tracked_object pl service client_info session_id object_id phase = do {
     tracked \<leftarrow> from_tables (GetTrackedDomainPath session_id object_id);
     (case tracked of
        None \<Rightarrow> done_hook
      | Some entry \<Rightarrow> LogDomainObjectState pl service client_info session_id (Some phase) entry)
   }"

definition OnDomainTrace :: "platform \<Rightarrow> DomainTraceContext \<Rightarrow> unit hook" where
  "OnDomainTrace pl ctx = do {
     let service = service_text pl 8 (dom_service_name ctx);
     let program = program_text (dom_client_info ctx);
     run_tick \<leftarrow> gets ho_run_tick;
     now \<leftarrow> GetMonotonicNs pl;
     json_line 1400 service (domain_members (printed 64 (run_id_text run_tick)) now service program ctx)
       (case dom_forward_state ctx of None \<Rightarrow> [] | Some f \<Rightarrow> printed 192 (more_text (forward_members f)));
     let root_id = dom_object_ids ctx ! 0;
     when_hook (dom_event_type ctx = ConvertCurrentObjectToDomain \<and> 0 < dom_num_out_objects ctx \<and> root_id \<noteq> 0) (do {
       created \<leftarrow> GetMonotonicNs pl;
       on_tables (\<lambda>t. ((), RememberDomainPath created (dom_session_id ctx) root_id (Some ''root'')
                            (dom_request_object_id ctx) 0 t));
       log_tracked_object pl service (dom_client_info ctx) (dom_session_id ctx) root_id ''convert_root''
     });
     when_hook (dom_event_type ctx = DispatchClose \<and> dom_request_object_id ctx \<noteq> 0) (do {
       closed \<leftarrow> GetMonotonicNs pl;
       entry \<leftarrow> on_tables (MarkDomainPathCloseObserved closed (dom_session_id ctx) (dom_request_object_id ctx));
       (case entry of
          None \<Rightarrow> done_hook
        | Some entry \<Rightarrow> LogDomainObjectState pl service (dom_client_info ctx) (dom_session_id ctx)
            (Some ''dispatch_close'') entry)
     })
   }"

end
