(* ===== verification/TraceForward.thy ===== *)
theory TraceForward
  imports TraceDomain
begin

text \<open>
  The hooks of a forwarded request (\<^verbatim>\<open>net-probe/src/mitm_trace.cpp\<close>): the replacement of a
  socket address before the request is forwarded, and afterwards the lines about the
  request, its buffers, its decoded fields, its response and the handles it returned, with
  the captured payloads as binary records.
\<close>

subsection \<open>Replacing the destination of a datagram\<close>

datatype BsdSendToMutationMode = MutationDisabled | ShadowCopy | RewritePort | RewriteIpv4

fun GetBsdSendToMutationModeName :: "BsdSendToMutationMode \<Rightarrow> string" where
  "GetBsdSendToMutationModeName MutationDisabled = ''disabled''"
| "GetBsdSendToMutationModeName ShadowCopy = ''shadow_copy''"
| "GetBsdSendToMutationModeName RewritePort = ''rewrite_port''"
| "GetBsdSendToMutationModeName RewriteIpv4 = ''rewrite_ipv4_and_port''"

datatype ForwardRequestBufferDirection = ReplaceSend | ReplaceExchange | ReplaceSendStatic | OtherDirection

fun GetBufferReplacementDirectionName :: "ForwardRequestBufferDirection \<Rightarrow> string" where
  "GetBufferReplacementDirectionName ReplaceSend = ''send_map_alias''"
| "GetBufferReplacementDirectionName ReplaceExchange = ''exchange_map_alias''"
| "GetBufferReplacementDirectionName ReplaceSendStatic = ''send_static''"
| "GetBufferReplacementDirectionName OtherDirection = ''unknown''"

text \<open>
  The compiled configuration. The mode and the program are build options of
  \<^verbatim>\<open>build_config.hpp\<close>, so they are a parameter; the end points are its constants.
\<close>

record mutation_config =
  mc_mode :: BsdSendToMutationMode
  mc_forwarder_program_id :: u64

definition ToolboxUdpEchoIpv4 :: "u8 list" where "ToolboxUdpEchoIpv4 = [10, 0, 0, 1]"
definition ToolboxUdpEchoPort :: u16 where "ToolboxUdpEchoPort = 29000"
definition ToolboxUdpEchoRewriteIpv4 :: "u8 list" where "ToolboxUdpEchoRewriteIpv4 = [10, 0, 0, 2]"
definition ToolboxUdpEchoRewritePort :: u16 where "ToolboxUdpEchoRewritePort = 29001"

record ForwardRequestPreprocessContext =
  pre_service_name :: string
  pre_client_info :: MitmProcessInfo
  pre_session_id :: u64
  pre_request_message :: PointerAndSize

text \<open>The replacement the hook may fill in; its data is a fixed array.\<close>

record buffer_replacement =
  br_requested :: bool
  br_direction :: ForwardRequestBufferDirection
  br_index :: nat
  br_size :: nat
  br_data :: "u8 list"

text \<open>The socket address of a \<open>SendTo\<close> the hook looks at: the second send static of exactly two.\<close>

definition sendto_address :: "HipcParsedRequest \<Rightarrow> nat \<Rightarrow> hipc_descriptor option" where
  "sendto_address request capacity =
     (if length (send_statics request) \<noteq> 2 \<or> length (send_buffers request) \<noteq> 2 \<or> exch_buffers request \<noteq> [] then None
      else let payload = send_statics request ! 0; sockaddr = send_statics request ! 1
      in if desc_size (send_buffers request ! 0) \<noteq> 0 \<or> desc_size (send_buffers request ! 1) \<noteq> 0 then None
      else if desc_address payload = 0 \<or> desc_size payload = 0 \<or> desc_address sockaddr = 0
           \<or> desc_size sockaddr < 16 \<or> capacity < desc_size sockaddr then None
      else Some sockaddr)"

definition endpoint_matches :: "u8 list \<Rightarrow> bool" where
  "endpoint_matches bytes \<longleftrightarrow> (bytes ! 1 = 2 \<or> ReadLe16 bytes = 2) \<and> ReadBe16 (drop 2 bytes) = ToolboxUdpEchoPort
     \<and> take 4 (drop 4 bytes) = ToolboxUdpEchoIpv4"

text \<open>The address with the rewritten parts, over the front of the array.\<close>

definition rewritten_data :: "BsdSendToMutationMode \<Rightarrow> u8 list \<Rightarrow> u8 list \<Rightarrow> u8 list" where
  "rewritten_data mode bytes array =
     (let copied = overlay bytes array;
          addressed = (if mode = RewriteIpv4 then take 4 copied @ ToolboxUdpEchoRewriteIpv4 @ drop 8 copied else copied)
      in if mode = RewritePort \<or> mode = RewriteIpv4
         then addressed[2 := ucast (drop_bit 8 ToolboxUdpEchoRewritePort), 3 := ucast (ToolboxUdpEchoRewritePort AND 0xFF)]
         else addressed)"

definition endpoint_text :: "u8 list \<Rightarrow> u16 \<Rightarrow> string" where
  "endpoint_text bytes port = printed 64 (show_byte (bytes ! 4) @ ''.'' @ show_byte (bytes ! 5) @ ''.''
     @ show_byte (bytes ! 6) @ ''.'' @ show_byte (bytes ! 7) @ '':'' @ fmt_u port)"

definition effective_port :: "BsdSendToMutationMode \<Rightarrow> u8 list \<Rightarrow> u16" where
  "effective_port mode bytes =
     (if mode = RewritePort \<or> mode = RewriteIpv4 then ToolboxUdpEchoRewritePort else ReadBe16 (drop 2 bytes))"

definition mutation_members ::
  "u64 \<Rightarrow> u64 \<Rightarrow> ForwardRequestPreprocessContext \<Rightarrow> BsdSendToMutationMode \<Rightarrow> string \<Rightarrow> string \<Rightarrow> hipc_descriptor \<Rightarrow> members" where
  "mutation_members run_tick now ctx mode original effective sockaddr =
     line_head (run_id_text run_tick) ''bsd_sendto_mutation'' now ''bsd:s'' @
     [(''client_pid'', JUlong (process_id (pre_client_info ctx))),
      (''client_program_id'', JHexLong (program_id (pre_client_info ctx))),
      (''server_program_id'', JText ''0x010000000000EAD1''), (''thread_id'', JUint 0),
      (''session_id'', JUlong (pre_session_id ctx)), (''request_id'', JUint 0), (''command_id'', JUint 11),
      (''mutation_mode'', JText (GetBsdSendToMutationModeName mode)), (''original_endpoint'', JText original),
      (''effective_endpoint'', JText effective), (''descriptor_kind'', JText ''send_static''),
      (''descriptor_index'', JUint 1), (''descriptor_static_index'', JUint (desc_index sockaddr)),
      (''descriptor_size'', JUlong (of_nat (desc_size sockaddr))), (''substitution_requested'', JFlag True)]"

text \<open>The guards, up to the address that is to be replaced.\<close>

definition replaced_address ::
  "platform \<Rightarrow> mutation_config \<Rightarrow> ForwardRequestPreprocessContext \<Rightarrow> buffer_replacement option \<Rightarrow> hipc_descriptor option" where
  "replaced_address pl mc ctx out =
     (case out of None \<Rightarrow> None
      | Some replacement \<Rightarrow>
          if mc_mode mc = MutationDisabled \<or> program_id (pre_client_info ctx) \<noteq> mc_forwarder_program_id mc then None
          else if service_text pl 1 (pre_service_name ctx) \<noteq> ''bsd:s'' then None
          else let info = ParseRequestInfo (pl_abi pl) (pl_parse_request pl) (pre_request_message ctx)
          in if \<not> info_valid info \<or> info_is_close info \<or> info_command_id info \<noteq> 11 then None
          else case sendto_address (hr_request (pl_parse_request pl (pre_request_message ctx)))
                     (length (br_data replacement)) of
                 None \<Rightarrow> None
               | Some sockaddr \<Rightarrow> if endpoint_matches (desc_bytes sockaddr) then Some sockaddr else None)"

definition filled_replacement :: "BsdSendToMutationMode \<Rightarrow> hipc_descriptor \<Rightarrow> buffer_replacement \<Rightarrow> buffer_replacement" where
  "filled_replacement mode sockaddr replacement = replacement\<lparr>
     br_direction := ReplaceSendStatic, br_index := 1, br_size := desc_size sockaddr,
     br_data := rewritten_data mode (desc_bytes sockaddr) (br_data replacement), br_requested := True\<rparr>"

definition OnForwardRequestPreprocess ::
  "platform \<Rightarrow> mutation_config \<Rightarrow> ForwardRequestPreprocessContext \<Rightarrow> buffer_replacement option \<Rightarrow> buffer_replacement option hook" where
  "OnForwardRequestPreprocess pl mc ctx out =
     (case (replaced_address pl mc ctx out, out) of
        (Some sockaddr, Some replacement) \<Rightarrow> do {
          let mode = mc_mode mc;
          let filled = filled_replacement mode sockaddr replacement;
          let original = endpoint_text (desc_bytes sockaddr) (ReadBe16 (drop 2 (desc_bytes sockaddr)));
          let effective = endpoint_text (br_data filled) (effective_port mode (desc_bytes sockaddr));
          run_tick \<leftarrow> gets ho_run_tick;
          now \<leftarrow> GetMonotonicNs pl;
          json_line 1024 (service_text pl 1 (pre_service_name ctx))
            (mutation_members run_tick now ctx mode original effective sockaddr) [];
          main_log pl (''monitor.bsd_sendto_mutation client_pid=0x'' @ hex_lower 16 (unat (process_id (pre_client_info ctx)))
            @ '' tracked_session='' @ fmt_u (pre_session_id ctx) @ '' mode='' @ GetBsdSendToMutationModeName mode
            @ '' original='' @ original @ '' effective='' @ effective
            @ '' descriptor_kind=send_static index=1 static_index='' @ fmt_u (desc_index sockaddr)
            @ '' descriptor_size='' @ show_dec (desc_size sockaddr) @ '' requested=1'');
          State_Monad.return (Some filled)
        }
      | _ \<Rightarrow> State_Monad.return out)"

subsection \<open>Buffers\<close>

text \<open>The events \<open>EmitBinaryPayloadRecords\<close> causes.\<close>

definition binary_events :: "u32 \<Rightarrow> u64 \<Rightarrow> string \<Rightarrow> capture \<Rightarrow> u8 list \<Rightarrow> logger_event list" where
  "binary_events magic run_tick service_name c bytes =
     (if bytes = [] then []
      else case GetTraceSinkConfigForServiceName service_name of
             None \<Rightarrow> []
           | Some sink \<Rightarrow> map (\<lambda>record. Append_bytes (Some (binary_path sink)) (Some record))
                            (chunk_records magic run_tick service_name c bytes 0))"

text \<open>What the lines and records of one call share.\<close>

record call_trace =
  ct_run_id :: string
  ct_service :: string
  ct_program :: string
  ct_client_info :: MitmProcessInfo
  ct_session_id :: u64
  ct_request_id :: u64
  ct_request_info :: ParsedRequestInfo
  ct_object_path :: string

fun direction_name :: "BinaryBufferDirection \<Rightarrow> string" where
  "direction_name DirectionSend = ''send''"
| "direction_name DirectionRecv = ''recv''"
| "direction_name DirectionExchange = ''exchange''"

fun capture_phase_name :: "BinaryCapturePhase \<Rightarrow> string" where
  "capture_phase_name PhaseRequest = ''request''"
| "capture_phase_name PhaseResponse = ''response''"

definition captured :: "bool \<Rightarrow> hipc_descriptor \<Rightarrow> bool" where
  "captured capture_payload d \<longleftrightarrow> capture_payload \<and> desc_address d \<noteq> 0 \<and> desc_size d \<noteq> 0"

definition buffer_members ::
  "call_trace \<Rightarrow> u64 \<Rightarrow> BinaryCapturePhase \<Rightarrow> BinaryBufferDirection \<Rightarrow> nat \<Rightarrow> bool \<Rightarrow> bool \<Rightarrow> hipc_descriptor \<Rightarrow> members" where
  "buffer_members ct ts phase direction i is_pointer_static capture_payload d =
     line_head (ct_run_id ct) ''ipc_buffer'' ts (ct_service ct) @
     [(''client_program_id'', JText (ct_program ct)), (''server_program_id'', JText ''0x010000000000EAD1''),
      (''session_id'', JUlong (ct_session_id ct)), (''object_id'', JUint (info_object_id (ct_request_info ct))),
      (''request_id'', JUlong (ct_request_id ct)), (''phase'', JText (capture_phase_name phase)),
      (''buffer_index'', JUint (of_nat i)), (''buffer_direction'', JText (direction_name direction)),
      (''descriptor_kind'', JText (if is_pointer_static then ''pointer_static'' else ''map_alias'')),
      (''declared_size'', JUlong (of_nat (desc_size d))), (''buffer_address'', JHexLong (desc_address d)),
      (''captured_binary'', JFlag (captured capture_payload d)),
      (''binary_path'', JText (case GetTraceSinkConfigForServiceName (ct_service ct) of
         Some sink \<Rightarrow> binary_path sink | None \<Rightarrow> []))]"

definition buffer_capture ::
  "call_trace \<Rightarrow> u64 \<Rightarrow> BinaryCapturePhase \<Rightarrow> BinaryBufferDirection \<Rightarrow> nat \<Rightarrow> bool \<Rightarrow> capture" where
  "buffer_capture ct ts phase direction i is_pointer_static =
     \<lparr>cap_timestamp_ns = ts, cap_client_info = ct_client_info ct, cap_session_id = ct_session_id ct,
      cap_object_id = info_object_id (ct_request_info ct), cap_request_id = ct_request_id ct,
      cap_command_id = info_command_id (ct_request_info ct), cap_phase = phase, cap_direction = direction,
      cap_buffer_index = of_nat i, cap_is_pointer_static = is_pointer_static\<rparr>"

definition EmitBufferRecord ::
  "platform \<Rightarrow> call_trace \<Rightarrow> u64 \<Rightarrow> BinaryCapturePhase \<Rightarrow> BinaryBufferDirection \<Rightarrow> bool \<Rightarrow> bool
     \<Rightarrow> nat \<times> hipc_descriptor \<Rightarrow> unit hook" where
  "EmitBufferRecord pl ct ts phase direction is_pointer_static capture_payload = (\<lambda>(i, d). do {
     json_line 1024 (ct_service ct) (buffer_members ct ts phase direction i is_pointer_static capture_payload d) [];
     run_tick \<leftarrow> gets ho_run_tick;
     when_hook (captured capture_payload d)
       (each emit (binary_events (pl_binary_magic pl) run_tick (ct_service ct)
          (buffer_capture ct ts phase direction i is_pointer_static) (desc_bytes d)))
   })"

definition EmitMapAliasBufferRecord ::
  "platform \<Rightarrow> call_trace \<Rightarrow> u64 \<Rightarrow> BinaryCapturePhase \<Rightarrow> BinaryBufferDirection \<Rightarrow> bool \<Rightarrow> nat \<times> hipc_descriptor \<Rightarrow> unit hook" where
  "EmitMapAliasBufferRecord pl ct ts phase direction capture_payload =
     EmitBufferRecord pl ct ts phase direction False capture_payload"

definition EmitPointerStaticRecord ::
  "platform \<Rightarrow> call_trace \<Rightarrow> u64 \<Rightarrow> BinaryCapturePhase \<Rightarrow> BinaryBufferDirection \<Rightarrow> bool \<Rightarrow> nat \<times> hipc_descriptor \<Rightarrow> unit hook" where
  "EmitPointerStaticRecord pl ct ts phase direction capture_payload =
     EmitBufferRecord pl ct ts phase direction True capture_payload"

definition LogRequestBufferRecords :: "platform \<Rightarrow> call_trace \<Rightarrow> HipcParsedRequest \<Rightarrow> u64 \<Rightarrow> unit hook" where
  "LogRequestBufferRecords pl ct request ts = do {
     each (EmitPointerStaticRecord pl ct ts PhaseRequest DirectionSend True) (enumerate 0 (send_statics request));
     each (EmitMapAliasBufferRecord pl ct ts PhaseRequest DirectionSend True) (enumerate 0 (send_buffers request));
     each (EmitMapAliasBufferRecord pl ct ts PhaseRequest DirectionRecv False) (enumerate 0 (recv_buffers request));
     each (EmitMapAliasBufferRecord pl ct ts PhaseRequest DirectionExchange True) (enumerate 0 (exch_buffers request))
   }"

definition LogResponseBufferRecords ::
  "platform \<Rightarrow> call_trace \<Rightarrow> HipcParsedRequest \<Rightarrow> HipcResponse \<Rightarrow> u64 \<Rightarrow> unit hook" where
  "LogResponseBufferRecords pl ct request response ts = do {
     each (EmitMapAliasBufferRecord pl ct ts PhaseResponse DirectionRecv True) (enumerate 0 (recv_buffers request));
     each (EmitMapAliasBufferRecord pl ct ts PhaseResponse DirectionExchange True) (enumerate 0 (exch_buffers request));
     each (EmitPointerStaticRecord pl ct ts PhaseResponse DirectionRecv True) (enumerate 0 (statics response))
   }"

subsection \<open>Handles\<close>

definition handle_members :: "call_trace \<Rightarrow> u64 \<Rightarrow> string \<Rightarrow> nat \<Rightarrow> u32 \<Rightarrow> members" where
  "handle_members ct now kind i handle =
     line_head (ct_run_id ct) ''ipc_handle'' now (ct_service ct) @
     [(''client_program_id'', JText (ct_program ct)), (''server_program_id'', JText ''0x010000000000EAD1''),
      (''session_id'', JUlong (ct_session_id ct)), (''object_id'', JUint (info_object_id (ct_request_info ct))),
      (''object_path'', JText (ct_object_path ct)), (''request_id'', JUlong (ct_request_id ct)),
      (''phase'', JText ''out''), (''handle_index'', JUint (of_nat i)), (''handle_type'', JText kind),
      (''handle_value'', JUint handle)]"

definition LogHandleRecords :: "platform \<Rightarrow> call_trace \<Rightarrow> HipcResponse \<Rightarrow> unit hook" where
  "LogHandleRecords pl ct response = do {
     each (\<lambda>(i, h). do {
       now \<leftarrow> GetMonotonicNs pl;
       json_line 768 (ct_service ct) (handle_members ct now ''copy'' i h) []
     }) (enumerate 0 (copy_handles response));
     each (\<lambda>(i, h). do {
       now \<leftarrow> GetMonotonicNs pl;
       json_line 768 (ct_service ct) (handle_members ct now ''move'' i h) []
     }) (enumerate 0 (move_handles response))
   }"

end
