(* ===== verification/TraceRequest.thy ===== *)
theory TraceRequest
  imports TraceForward
begin

text \<open>
  The lines about one forwarded request (\<^verbatim>\<open>net-probe/src/mitm_trace.cpp\<close>): its decoded
  headers, the summaries of network, socket and secure socket calls, and
  \<open>OnForwardRequestTrace\<close>, which prints them all in order and remembers the objects the
  response returned.
\<close>

text \<open>How the fields of a header that are only printed are read from its bytes.\<close>

record header_fields =
  hf_in_version :: "u8 list \<Rightarrow> u32"
  hf_in_token :: "u8 list \<Rightarrow> u32"
  hf_out_version :: "u8 list \<Rightarrow> u32"
  hf_out_token :: "u8 list \<Rightarrow> u32"
  hf_domain_in_num_in_objects :: "u8 list \<Rightarrow> u8"
  hf_domain_in_token :: "u8 list \<Rightarrow> u32"

text \<open>A header that was not copied is all zero.\<close>

definition header_field :: "(u8 list \<Rightarrow> 'a::len word) \<Rightarrow> u8 list \<Rightarrow> 'a word" where
  "header_field f header = (if header = [] then 0 else f header)"

text \<open>The context of the callback; the details the hook only prints are grouped.\<close>

record forward_details =
  fd_has_root_command_id :: bool
  fd_root_command_id :: u32
  fd_sent_pid :: bool
  fd_pid_rewrite_mode :: u32
  fd_pid_before_preprocess :: u64
  fd_pid_after_preprocess :: u64
  fd_num_copy_handles :: u32
  fd_num_move_handles :: u32
  fd_tracked_copy_handle_count :: u32
  fd_closed_copy_handle_count :: u32
  fd_copy_handles :: "u32 list" \<comment> \<open>a fixed array of the library, of at least four entries\<close>
  fd_target_handle :: u32

record register_details =
  rd_mode :: u32
  rd_blocked :: bool
  rd_spoofed :: bool
  rd_probe_attempted :: bool
  rd_probe_result :: u32
  rd_probe_cmif_result :: u32
  rd_probe_pid :: u64
  rd_probe_handle :: u32
  rd_forwarded_to_probe :: bool

record replacement_details =
  rb_requested :: bool
  rb_applied :: bool
  rb_direction :: ForwardRequestBufferDirection
  rb_direction_value :: u32
  rb_index :: u32
  rb_size :: nat
  rb_original_mode :: u32
  rb_original_static_index :: u32

record ForwardRequestTraceContext =
  fwd_service_name :: string
  fwd_client_info :: MitmProcessInfo
  fwd_session_id :: u64
  fwd_request_message :: PointerAndSize
  fwd_response_message :: "PointerAndSize option" \<comment> \<open>\<open>has_response\<close> with \<open>response_message\<close>\<close>
  fwd_start_tick :: int
  fwd_end_tick :: int
  fwd_forward_result :: u32
  fwd_details :: forward_details
  fwd_register :: register_details
  fwd_replacement :: replacement_details

definition request_ns :: "platform \<Rightarrow> ForwardRequestTraceContext \<Rightarrow> u64" where
  "request_ns pl ctx = of_int (pl_tick_ns pl (fwd_start_tick ctx))"

definition response_ns :: "platform \<Rightarrow> ForwardRequestTraceContext \<Rightarrow> u64" where
  "response_ns pl ctx = of_int (pl_tick_ns pl (fwd_end_tick ctx))"

text \<open>The result a line names: the response's, or the forward result when none was decoded.\<close>

definition selected_result :: "ForwardRequestTraceContext \<Rightarrow> ParsedResponseInfo \<Rightarrow> u32" where
  "selected_result ctx response_info =
     (if ri_valid response_info then ri_result_value response_info else fwd_forward_result ctx)"

definition known_names :: "cbuf option \<Rightarrow> cbuf option \<Rightarrow> string \<Rightarrow> string \<Rightarrow> u32 \<Rightarrow> string \<times> string" where
  "known_names kind name service object_path command_id =
     (case DescribeKnownObjectAndCommand (Some service) (Some object_path) command_id kind name of
        (k, n) \<Rightarrow> (buf_text k, buf_text n))"

text \<open>The members about the session, the object and the request that most lines share.\<close>

definition call_members :: "call_trace \<Rightarrow> string \<Rightarrow> u64 \<Rightarrow> members" where
  "call_members ct event ts =
     line_head (ct_run_id ct) event ts (ct_service ct) @ client_members (ct_client_info ct) (ct_program ct) @
     [(''session_id'', JUlong (ct_session_id ct)), (''object_id'', JUint (info_object_id (ct_request_info ct))),
      (''object_path'', JText (ct_object_path ct)), (''request_id'', JUlong (ct_request_id ct))]"

subsection \<open>Decoded headers\<close>

definition decode_request_members ::
  "cmif_abi \<Rightarrow> header_fields \<Rightarrow> call_trace \<Rightarrow> u64 \<Rightarrow> string \<times> string \<Rightarrow> RequestDecodeDetails \<Rightarrow> members" where
  "decode_request_members abi hf ct ts names d =
     (let root = rq_root_header d; domain = rq_domain_header d; inner = rq_domain_cmif_header d in
     call_members ct ''ipc_decode_request'' ts @
     [(''selected_kind'', JText (GetSelectedKindText (ct_request_info ct))), (''object_kind'', JText (fst names)),
      (''command_name'', JText (snd names)), (''selected_command_id'', JUint (info_command_id (ct_request_info ct))),
      (''hipc_command_type'', JUint (rq_command_type d)),
      (''hipc_command_type_name'', JText (GetHipcCommandTypeName (rq_command_type d))),
      (''raw_size'', JUlong (of_nat (rq_raw_size d))),
      (''raw_word0'', JHex (rq_raw_words d ! 0)), (''raw_word1'', JHex (rq_raw_words d ! 1)),
      (''raw_word2'', JHex (rq_raw_words d ! 2)), (''raw_word3'', JHex (rq_raw_words d ! 3)),
      (''root_magic'', JHex (header_field (in_header_magic abi) root)),
      (''root_version'', JHex (header_field (hf_in_version hf) root)),
      (''root_command_id'', JUint (header_field (in_header_command_id abi) root)),
      (''root_token'', JHex (header_field (hf_in_token hf) root)),
      (''root_valid'', JFlag (rq_root_cmif_valid d)), (''root_close'', JFlag (rq_root_close d)),
      (''domain_type'', JUint (ucast (header_field (domain_in_type abi) domain))),
      (''domain_num_in_objects'', JUint (ucast (header_field (hf_domain_in_num_in_objects hf) domain))),
      (''domain_data_size'', JUint (ucast (header_field (domain_in_data_size abi) domain))),
      (''domain_object_id'', JHex (header_field (domain_in_object_id abi) domain)),
      (''domain_token'', JHex (header_field (hf_domain_in_token hf) domain)),
      (''domain_cmif_magic'', JHex (header_field (in_header_magic abi) inner)),
      (''domain_cmif_version'', JHex (header_field (hf_in_version hf) inner)),
      (''domain_cmif_command_id'', JUint (header_field (in_header_command_id abi) inner)),
      (''domain_cmif_token'', JHex (header_field (hf_in_token hf) inner)),
      (''domain_valid'', JFlag (rq_domain_cmif_valid d)), (''domain_close'', JFlag (rq_domain_close d)),
      (''payload_size'', JUlong (of_nat (rq_payload_size d))),
      (''payload_word0'', JHex (rq_payload_words d ! 0)), (''payload_word1'', JHex (rq_payload_words d ! 1)),
      (''payload_word2'', JHex (rq_payload_words d ! 2)), (''payload_word3'', JHex (rq_payload_words d ! 3)),
      (''payload_preview_hex'', JText (rq_payload_preview_hex d)), (''raw_preview_hex'', JText (rq_raw_preview_hex d))])"

definition returned_ids :: "ResponseDecodeDetails \<Rightarrow> u32 list" where
  "returned_ids d = (if rs_out_object_ids_valid d then take (rs_out_object_id_count d) (rs_out_object_ids d) else [])"

definition decode_response_members ::
  "cmif_abi \<Rightarrow> header_fields \<Rightarrow> call_trace \<Rightarrow> u64 \<Rightarrow> string \<times> string \<Rightarrow> u32 \<Rightarrow> ResponseDecodeDetails \<Rightarrow> members" where
  "decode_response_members abi hf ct ts names result d =
     (let root = rs_root_header d; domain = rs_domain_header d; inner = rs_domain_cmif_header d in
     call_members ct ''ipc_decode_response'' ts @
     [(''selected_kind'', JText (GetSelectedKindText (ct_request_info ct))), (''object_kind'', JText (fst names)),
      (''command_name'', JText (snd names)), (''selected_result'', JHex result),
      (''raw_size'', JUlong (of_nat (rs_raw_size d))),
      (''raw_word0'', JHex (rs_raw_words d ! 0)), (''raw_word1'', JHex (rs_raw_words d ! 1)),
      (''raw_word2'', JHex (rs_raw_words d ! 2)), (''raw_word3'', JHex (rs_raw_words d ! 3)),
      (''root_magic'', JHex (header_field (out_header_magic abi) root)),
      (''root_version'', JHex (header_field (hf_out_version hf) root)),
      (''root_result'', JHex (header_field (out_header_result abi) root)),
      (''root_token'', JHex (header_field (hf_out_token hf) root)), (''root_valid'', JFlag (rs_root_cmif_valid d)),
      (''domain_num_out_objects'', JUint (header_field (domain_out_num_objects abi) domain)),
      (''returned_object_ids'', JIds (returned_ids d)),
      (''domain_cmif_magic'', JHex (header_field (out_header_magic abi) inner)),
      (''domain_cmif_version'', JHex (header_field (hf_out_version hf) inner)),
      (''domain_cmif_result'', JHex (header_field (out_header_result abi) inner)),
      (''domain_cmif_token'', JHex (header_field (hf_out_token hf) inner)),
      (''domain_valid'', JFlag (rs_domain_cmif_valid d)), (''payload_size'', JUlong (of_nat (rs_payload_size d))),
      (''payload_word0'', JHex (rs_payload_words d ! 0)), (''payload_word1'', JHex (rs_payload_words d ! 1)),
      (''payload_word2'', JHex (rs_payload_words d ! 2)), (''payload_word3'', JHex (rs_payload_words d ! 3)),
      (''payload_preview_hex'', JText (rs_payload_preview_hex d)), (''raw_preview_hex'', JText (rs_raw_preview_hex d))])"

definition LogDecodeRecords ::
  "platform \<Rightarrow> header_fields \<Rightarrow> call_trace \<Rightarrow> ForwardRequestTraceContext \<Rightarrow> ParsedResponseInfo
     \<Rightarrow> RequestDecodeDetails \<Rightarrow> ResponseDecodeDetails \<Rightarrow> unit hook" where
  "LogDecodeRecords pl hf ct ctx response_info request_decode response_decode =
     (let names = known_names (fresh_buf 48) (fresh_buf 64) (ct_service ct) (ct_object_path ct)
                    (info_command_id (ct_request_info ct))
      in do {
        when_hook (rq_have_raw request_decode)
          (json_line 2048 (ct_service ct)
             (decode_request_members (pl_abi pl) hf ct (request_ns pl ctx) names request_decode) []);
        when_hook (rs_have_raw response_decode)
          (json_line 1792 (ct_service ct)
             (decode_response_members (pl_abi pl) hf ct (response_ns pl ctx) names
                (selected_result ctx response_info) response_decode) [])
      })"

subsection \<open>Summaries\<close>

definition semantic_members ::
  "call_trace \<Rightarrow> string \<Rightarrow> u64 \<Rightarrow> string \<times> string \<Rightarrow> u32 \<Rightarrow> string \<Rightarrow> string \<Rightarrow> members" where
  "semantic_members ct event ts names result request_summary response_summary =
     call_members ct event ts @
     [(''object_kind'', JText (fst names)), (''command_id'', JUint (info_command_id (ct_request_info ct))),
      (''command_name'', JText (snd names)), (''result'', JHex result),
      (''request_summary'', JText request_summary), (''response_summary'', JText response_summary)]"

definition EmitNifmSemanticRecord ::
  "platform \<Rightarrow> call_trace \<Rightarrow> ForwardRequestTraceContext \<Rightarrow> ParsedResponseInfo
     \<Rightarrow> RequestDecodeDetails \<Rightarrow> ResponseDecodeDetails \<Rightarrow> unit hook" where
  "EmitNifmSemanticRecord pl ct ctx response_info request_decode response_decode =
     (let path = Some (ct_object_path ct); info = ct_request_info ct; command_id = info_command_id info
      in if \<not> StartsWith (Some (ct_service ct)) (Some ''nifm:'') \<or> info_is_close info \<or> \<not> IsKnownNifmObjectPath path
         then done_hook
         else let (kind, name) = GetNifmObjectKindAndCommandName path command_id (fresh_buf 48) (fresh_buf 64);
                  request = FormatNifmSemanticRequestSummary (fresh_buf 192) path command_id request_decode;
                  response = FormatNifmSemanticResponseSummary (fresh_buf 256) path command_id response_info response_decode
              in json_line 1024 (ct_service ct)
                   (semantic_members ct ''nifm_semantic'' (response_ns pl ctx) (buf_text kind, buf_text name)
                      (selected_result ctx response_info) (buf_text request) (buf_text response)) [])"

text \<open>The fields the socket summaries gain when the request was parsed.\<close>

definition bsd_request_text :: "string \<Rightarrow> u32 \<Rightarrow> RequestDecodeDetails \<Rightarrow> HipcParsedRequest option \<Rightarrow> cbuf option" where
  "bsd_request_text path command_id request_decode request =
     (let out = FormatBsdSemanticRequestSummary (fresh_buf 768) (Some path) command_id request_decode
      in case request of None \<Rightarrow> out
         | Some r \<Rightarrow>
             let out = AppendRequestBufferLayoutSummary out r;
                 out = snd (TryAppendBsdPayloadRequestSummary out command_id r);
                 out = snd (TryAppendBsdSockaddrRequestSummary out command_id r)
             in snd (TryAppendBsdSockOptRequestSummary out command_id r))"

definition bsd_response_text ::
  "string \<Rightarrow> u32 \<Rightarrow> ResponseDecodeDetails \<Rightarrow> HipcParsedRequest option \<Rightarrow> HipcResponse option \<Rightarrow> cbuf option" where
  "bsd_response_text path command_id response_decode request response =
     (let out = FormatBsdSemanticResponseSummary (fresh_buf 512) (Some path) command_id response_decode;
          have_response = (response \<noteq> None);
          reply = (case response of Some r \<Rightarrow> r | None \<Rightarrow> \<lparr>statics = [], copy_handles = [], move_handles = []\<rparr>)
      in case request of None \<Rightarrow> out
         | Some r \<Rightarrow>
             let out = snd (TryAppendBsdSockaddrResponseSummary out command_id r reply have_response response_decode);
                 out = snd (TryAppendBsdSockOptResponseSummary out command_id r reply have_response)
             in AppendResponseBufferLayoutSummary out r reply have_response)"

definition EmitBsdSemanticRecord ::
  "platform \<Rightarrow> call_trace \<Rightarrow> ForwardRequestTraceContext \<Rightarrow> RequestDecodeDetails \<Rightarrow> ResponseDecodeDetails
     \<Rightarrow> HipcParsedRequest option \<Rightarrow> HipcResponse option \<Rightarrow> unit hook" where
  "EmitBsdSemanticRecord pl ct ctx request_decode response_decode request response =
     (let path = Some (ct_object_path ct); info = ct_request_info ct; command_id = info_command_id info
      in if \<not> StartsWith (Some (ct_service ct)) (Some ''bsd:'') \<or> info_is_close info \<or> \<not> IsKnownBsdObjectPath path
         then done_hook
         else let (kind, name) = GetBsdObjectKindAndCommandName path command_id (fresh_buf 48) (fresh_buf 64)
              in json_line 2304 (ct_service ct)
                   (semantic_members ct ''bsd_semantic'' (response_ns pl ctx) (buf_text kind, buf_text name)
                      (fwd_forward_result ctx)
                      (buf_text (bsd_request_text (ct_object_path ct) command_id request_decode request))
                      (buf_text (bsd_response_text (ct_object_path ct) command_id response_decode request response))) [])"

definition EmitSslSemanticRecord ::
  "platform \<Rightarrow> call_trace \<Rightarrow> ForwardRequestTraceContext \<Rightarrow> ParsedResponseInfo \<Rightarrow> RequestDecodeDetails
     \<Rightarrow> ResponseDecodeDetails \<Rightarrow> HipcParsedRequest option \<Rightarrow> HipcResponse option \<Rightarrow> unit hook" where
  "EmitSslSemanticRecord pl ct ctx response_info request_decode response_decode request response =
     (let path = Some (ct_object_path ct); info = ct_request_info ct; command_id = info_command_id info
      in if \<not> StartsWith (Some (ct_service ct)) (Some ''ssl'') \<or> info_is_close info \<or> \<not> IsKnownSslObjectPath path
         then done_hook
         else let (kind, name) = GetSslObjectKindAndCommandName (ct_service ct) path command_id (fresh_buf 48) (fresh_buf 64);
                  request_summary = FormatSslSemanticRequestSummary (fresh_buf 256) path command_id request_decode request;
                  response_summary = FormatSslSemanticResponseSummary (fresh_buf 256) path command_id response_info
                    response_decode request response (response \<noteq> None)
              in json_line 1280 (ct_service ct)
                   (semantic_members ct ''ssl_semantic'' (response_ns pl ctx) (buf_text kind, buf_text name)
                      (selected_result ctx response_info) (buf_text request_summary) (buf_text response_summary)) [])"

subsection \<open>The callback\<close>

definition notif_members ::
  "string \<Rightarrow> u64 \<Rightarrow> u64 \<Rightarrow> ForwardRequestTraceContext \<Rightarrow> string \<Rightarrow> u32 \<Rightarrow> u64 \<Rightarrow> u64 \<Rightarrow> members" where
  "notif_members run_id request_ts response_ts ctx program object_id request_id duration =
     [(''schema_version'', JUint 1), (''run_id'', JText run_id), (''scenario'', JText ''unknown''),
      (''event'', JText ''notif_registration''), (''ts_monotonic_ns'', JUlong request_ts),
      (''response_ts_monotonic_ns'', JUlong response_ts), (''ts_utc'', JText ''unknown''),
      (''service'', JText ''notif:s'')] @ client_members (fwd_client_info ctx) program @
     [(''session_id'', JUlong (fwd_session_id ctx)), (''object_id'', JUint object_id),
      (''request_id'', JUlong request_id), (''command_id'', JUint 8000),
      (''command_name'', JText ''RegisterAppletResourceUserId''), (''result'', JHex (fwd_forward_result ctx)),
      (''duration_ns'', JUlong duration)]"

definition duration_ns :: "platform \<Rightarrow> ForwardRequestTraceContext \<Rightarrow> u64" where
  "duration_ns pl ctx = GetDurationNs (pl_tick_ns pl) (fwd_start_tick ctx) (fwd_end_tick ctx)"

definition trace_notif :: "platform \<Rightarrow> ForwardRequestTraceContext \<Rightarrow> string \<Rightarrow> string \<Rightarrow> unit hook" where
  "trace_notif pl ctx run_id program =
     (let info = ParseRequestInfo (pl_abi pl) (pl_parse_request pl) (fwd_request_message ctx)
      in if \<not> info_valid info \<or> info_is_close info \<or> info_command_id info \<noteq> 8000 then done_hook
         else do {
           request_id \<leftarrow> next_request_id;
           json_line 1024 ''notif:s''
             (notif_members run_id (request_ns pl ctx) (response_ns pl ctx) ctx program (info_object_id info)
                request_id (duration_ns pl ctx)) []
         })"

definition replacement_members :: "mutation_config \<Rightarrow> call_trace \<Rightarrow> u64 \<Rightarrow> replacement_details \<Rightarrow> members" where
  "replacement_members mc ct ts rb =
     call_members ct ''ipc_buffer_replacement'' ts @
     [(''command_id'', JUint (info_command_id (ct_request_info ct))),
      (''mutation_mode'', JText (GetBsdSendToMutationModeName (mc_mode mc))),
      (''descriptor_kind'', JText (GetBufferReplacementDirectionName (rb_direction rb))),
      (''descriptor_direction'', JUint (rb_direction_value rb)), (''descriptor_index'', JUint (rb_index rb)),
      (''descriptor_size'', JUlong (of_nat (rb_size rb))),
      (if rb_direction rb = ReplaceSendStatic
       then (''descriptor_static_index'', JUint (rb_original_static_index rb))
       else (''descriptor_mode'', JUint (rb_original_mode rb))),
      (''substitution_requested'', JFlag (rb_requested rb)), (''substitution_applied'', JFlag (rb_applied rb))]"

definition show_flag :: "bool \<Rightarrow> string" where "show_flag b = (if b then ''1'' else ''0'')"

definition forward_pid_text :: "call_trace \<Rightarrow> forward_details \<Rightarrow> register_details \<Rightarrow> string" where
  "forward_pid_text ct fd rd =
     ''monitor.forward_pid service='' @ ct_service ct
     @ '' client_pid=0x'' @ hex_lower 16 (unat (process_id (ct_client_info ct))) @ '' client_program_id='' @ ct_program ct
     @ '' tracked_session='' @ fmt_u (ct_session_id ct) @ '' command_id='' @ fmt_u (fd_root_command_id fd)
     @ '' has_root_cmd='' @ show_flag (fd_has_root_command_id fd) @ '' sent_pid='' @ show_flag (fd_sent_pid fd)
     @ '' rewrite_mode='' @ fmt_u (fd_pid_rewrite_mode fd)
     @ '' pid_before=0x'' @ hex_lower 16 (unat (fd_pid_before_preprocess fd))
     @ '' pid_after=0x'' @ hex_lower 16 (unat (fd_pid_after_preprocess fd))
     @ '' bsd_register_mode='' @ fmt_u (rd_mode rd) @ '' bsd_register_blocked='' @ show_flag (rd_blocked rd)
     @ '' bsd_register_spoofed='' @ show_flag (rd_spoofed rd)
     @ '' bsd_probe_upstream_attempted='' @ show_flag (rd_probe_attempted rd)
     @ '' bsd_probe_upstream_rc=0x'' @ hex_upper 8 (unat (rd_probe_result rd))
     @ '' bsd_probe_upstream_cmif=0x'' @ hex_upper 8 (unat (rd_probe_cmif_result rd))
     @ '' bsd_probe_upstream_pid=0x'' @ hex_lower 16 (unat (rd_probe_pid rd))
     @ '' bsd_probe_upstream_handle=0x'' @ hex_upper 8 (unat (rd_probe_handle rd))
     @ '' forwarded_to_bsd_probe_upstream='' @ show_flag (rd_forwarded_to_probe rd)
     @ '' forward_target_handle=0x'' @ hex_upper 8 (unat (fd_target_handle fd))
     @ '' request_copy_handles='' @ fmt_u (fd_num_copy_handles fd)
     @ '' tracked_copy_handles='' @ fmt_u (fd_tracked_copy_handle_count fd)
     @ '' closed_copy_handles='' @ fmt_u (fd_closed_copy_handle_count fd)
     @ '' request_move_handles='' @ fmt_u (fd_num_move_handles fd)"

definition replacement_text :: "call_trace \<Rightarrow> replacement_details \<Rightarrow> string" where
  "replacement_text ct rb =
     ''monitor.forward_buffer_replacement service='' @ ct_service ct
     @ '' client_pid=0x'' @ hex_lower 16 (unat (process_id (ct_client_info ct)))
     @ '' tracked_session='' @ fmt_u (ct_session_id ct) @ '' command_id='' @ fmt_u (info_command_id (ct_request_info ct))
     @ '' requested='' @ show_flag (rb_requested rb) @ '' applied='' @ show_flag (rb_applied rb)
     @ '' descriptor_kind='' @ GetBufferReplacementDirectionName (rb_direction rb)
     @ '' direction='' @ fmt_u (rb_direction_value rb) @ '' index='' @ fmt_u (rb_index rb)
     @ '' size='' @ show_dec (rb_size rb) @ '' original_mode='' @ fmt_u (rb_original_mode rb)
     @ '' original_static_index='' @ fmt_u (rb_original_static_index rb)"

definition log_replacement ::
  "platform \<Rightarrow> mutation_config \<Rightarrow> call_trace \<Rightarrow> ForwardRequestTraceContext \<Rightarrow> unit hook" where
  "log_replacement pl mc ct ctx =
     (let rb = fwd_replacement ctx in
      when_hook (rb_requested rb \<or> rb_applied rb) (do {
        main_log pl (replacement_text ct rb);
        json_line 1024 (ct_service ct) (replacement_members mc ct (response_ns pl ctx) rb) []
      }))"

definition request_members ::
  "call_trace \<Rightarrow> u64 \<Rightarrow> string \<times> string \<Rightarrow> hipc_request_head option \<Rightarrow> forward_details \<Rightarrow> register_details \<Rightarrow> members" where
  "request_members ct ts names req_head fd rd =
     line_head (ct_run_id ct) ''ipc_request'' ts (ct_service ct) @ client_members (ct_client_info ct) (ct_program ct) @
     [(''session_id'', JUlong (ct_session_id ct)), (''object_id'', JUint (info_object_id (ct_request_info ct))),
      (''request_id'', JUlong (ct_request_id ct)), (''command_id'', JUint (info_command_id (ct_request_info ct))),
      (''command_name'', JText (snd names)), (''object_kind'', JText (GetSelectedKindText (ct_request_info ct))),
      (''known_object_kind'', JText (fst names)), (''object_path'', JText (ct_object_path ct)),
      (''in_raw_size'', JUlong (of_nat (info_raw_size (ct_request_info ct)))),
      (''buffer_count'', JUint (case req_head of None \<Rightarrow> 0 | Some h \<Rightarrow>
         of_nat (length (send_statics (hr_request h)) + length (send_buffers (hr_request h))
           + length (recv_buffers (hr_request h)) + length (exch_buffers (hr_request h))))),
      (''in_interface_count'', JUint 0), (''out_interface_expected'', JUint 0),
      (''copy_handle_count'', JUint (case req_head of None \<Rightarrow> 0 | Some h \<Rightarrow> hr_num_copy_handles h)),
      (''move_handle_count'', JUint (case req_head of None \<Rightarrow> 0 | Some h \<Rightarrow> hr_num_move_handles h)),
      (''send_pid'', JFlag (case req_head of None \<Rightarrow> False | Some h \<Rightarrow> hr_send_pid h)),
      (''forward_sent_pid'', JFlag (fd_sent_pid fd)),
      (''forward_has_root_command_id'', JFlag (fd_has_root_command_id fd)),
      (''forward_root_command_id'', JUint (fd_root_command_id fd)),
      (''forward_pid_rewrite_mode'', JUint (fd_pid_rewrite_mode fd)),
      (''forward_pid_before_preprocess'', JHexLong (fd_pid_before_preprocess fd)),
      (''forward_pid_after_preprocess'', JHexLong (fd_pid_after_preprocess fd)),
      (''forward_bsd_register_client_mode'', JUint (rd_mode rd)),
      (''forward_bsd_register_client_blocked'', JFlag (rd_blocked rd)),
      (''forward_bsd_register_client_spoofed'', JFlag (rd_spoofed rd)),
      (''forward_bsd_probe_upstream_register_attempted'', JFlag (rd_probe_attempted rd)),
      (''forward_bsd_probe_upstream_register_result'', JHex (rd_probe_result rd)),
      (''forward_bsd_probe_upstream_register_cmif_result'', JHex (rd_probe_cmif_result rd)),
      (''forward_bsd_probe_upstream_register_pid'', JHexLong (rd_probe_pid rd)),
      (''forward_bsd_probe_upstream_handle'', JHex (rd_probe_handle rd)),
      (''forwarded_to_bsd_probe_upstream'', JFlag (rd_forwarded_to_probe rd)),
      (''forward_target_handle'', JHex (fd_target_handle fd)),
      (''forward_request_copy_handle_count'', JUint (fd_num_copy_handles fd)),
      (''forward_request_move_handle_count'', JUint (fd_num_move_handles fd)),
      (''forward_tracked_copy_handle_count'', JUint (fd_tracked_copy_handle_count fd)),
      (''forward_closed_copy_handle_count'', JUint (fd_closed_copy_handle_count fd)),
      (''forward_copy_handle0'', JHex (fd_copy_handles fd ! 0)), (''forward_copy_handle1'', JHex (fd_copy_handles fd ! 1)),
      (''forward_copy_handle2'', JHex (fd_copy_handles fd ! 2)), (''forward_copy_handle3'', JHex (fd_copy_handles fd ! 3))]"

definition response_members ::
  "platform \<Rightarrow> call_trace \<Rightarrow> ForwardRequestTraceContext \<Rightarrow> string \<times> string \<Rightarrow> ParsedResponseInfo \<Rightarrow> HipcResponse option \<Rightarrow> members" where
  "response_members pl ct ctx names info response =
     call_members ct ''ipc_response'' (response_ns pl ctx) @
     [(''command_id'', JUint (info_command_id (ct_request_info ct))), (''command_name'', JText (snd names)),
      (''object_kind'', JText (fst names)), (''result'', JHex (selected_result ctx info)),
      (''duration_ns'', JUlong (duration_ns pl ctx)), (''out_raw_size'', JUlong (of_nat (ri_raw_size info))),
      (''out_interface_count'', JUint (ri_out_object_count info)),
      (''copy_handle_count'', JUint (case response of None \<Rightarrow> 0 | Some r \<Rightarrow> of_nat (length (copy_handles r)))),
      (''move_handle_count'', JUint (case response of None \<Rightarrow> 0 | Some r \<Rightarrow> of_nat (length (move_handles r)))),
      (''server_closed_session'', JFlag False)]"

text \<open>The clock is read once for each remembered child.\<close>

definition remember_returned :: "platform \<Rightarrow> u64 \<Rightarrow> ParsedRequestInfo \<Rightarrow> ResponseDecodeDetails \<Rightarrow> unit hook" where
  "remember_returned pl session_id info d = State (\<lambda>s. ((), s\<lparr>
     ho_tables := RememberReturnedDomainObjects (\<lambda>i. pl_monotonic_ns pl (ho_reads s + i)) session_id
       (info_object_id info) (info_command_id info) d (ho_tables s),
     ho_reads := ho_reads s + rs_out_object_id_count d\<rparr>))"

definition log_returned_objects ::
  "platform \<Rightarrow> call_trace \<Rightarrow> ResponseDecodeDetails \<Rightarrow> unit hook" where
  "log_returned_objects pl ct d =
     when_hook (rs_out_object_ids_valid d \<and> 0 < rs_out_object_id_count d)
       (each (\<lambda>child. when_hook (child \<noteq> 0)
           (log_tracked_object pl (ct_service ct) (ct_client_info ct) (ct_session_id ct) child ''response_out_object''))
         (take (rs_out_object_id_count d) (rs_out_object_ids d)))"

text \<open>Everything after the checks that may end the callback early.\<close>

definition trace_call ::
  "platform \<Rightarrow> mutation_config \<Rightarrow> header_fields \<Rightarrow> ForwardRequestTraceContext \<Rightarrow> call_trace \<Rightarrow> string \<times> string \<Rightarrow> unit hook" where
  "trace_call pl mc hf ctx ct names =
     (let request_decode = GetRequestDecodeDetails (pl_abi pl) (pl_parse_request pl) (fwd_request_message ctx);
          response_decode = (case fwd_response_message ctx of
            Some m \<Rightarrow> GetResponseDecodeDetails (pl_abi pl) (pl_parse_response pl) m | None \<Rightarrow> empty_response_details);
          response_info = (case fwd_response_message ctx of
            Some m \<Rightarrow> ParseResponseInfo (pl_abi pl) (pl_parse_response pl) m | None \<Rightarrow> empty_response_info);
          req_head = map_option fst (GetRequestRawData (pl_parse_request pl) (fwd_request_message ctx));
          request = map_option hr_request req_head;
          response = map_option (\<lambda>m. hp_response (pl_parse_response pl m)) (fwd_response_message ctx)
      in do {
        when_hook (ShouldMirrorMonitorEventToMainLog (Some (ct_service ct)))
          (main_log pl (forward_pid_text ct (fwd_details ctx) (fwd_register ctx)));
        log_replacement pl mc ct ctx;
        json_line 2304 (ct_service ct)
          (request_members ct (request_ns pl ctx) names req_head (fwd_details ctx) (fwd_register ctx)) [];
        (case request of None \<Rightarrow> done_hook | Some r \<Rightarrow> LogRequestBufferRecords pl ct r (request_ns pl ctx));
        LogDecodeRecords pl hf ct ctx response_info request_decode response_decode;
        json_line 1024 (ct_service ct) (response_members pl ct ctx names response_info response) [];
        EmitNifmSemanticRecord pl ct ctx response_info request_decode response_decode;
        EmitBsdSemanticRecord pl ct ctx request_decode response_decode request response;
        EmitSslSemanticRecord pl ct ctx response_info request_decode response_decode request response;
        remember_returned pl (ct_session_id ct) (ct_request_info ct) response_decode;
        log_returned_objects pl ct response_decode;
        (case response of None \<Rightarrow> done_hook
         | Some r \<Rightarrow> do {
             (case request of None \<Rightarrow> done_hook | Some q \<Rightarrow> LogResponseBufferRecords pl ct q r (response_ns pl ctx));
             LogHandleRecords pl ct r
           })
      })"

definition OnForwardRequestTrace ::
  "platform \<Rightarrow> mutation_config \<Rightarrow> header_fields \<Rightarrow> ForwardRequestTraceContext \<Rightarrow> unit hook" where
  "OnForwardRequestTrace pl mc hf ctx = do {
     let service = service_text pl 8 (fwd_service_name ctx);
     let program = program_text (fwd_client_info ctx);
     run_tick \<leftarrow> gets ho_run_tick;
     let run_id = printed 64 (run_id_text run_tick);
     if service = ''notif:s'' then trace_notif pl ctx run_id program
     else do {
       request_id \<leftarrow> next_request_id;
       let info = ParseRequestInfo (pl_abi pl) (pl_parse_request pl) (fwd_request_message ctx);
       object_path \<leftarrow> from_tables (object_path_text service (fwd_session_id ctx) (info_object_id info));
       let names = known_names (fresh_buf 48) (fresh_buf 64) service object_path (info_command_id info);
       if ShouldSuppressBsdTrace (Some service) (info_command_id info) then done_hook
       else trace_call pl mc hf ctx
         \<lparr>ct_run_id = run_id, ct_service = service, ct_program = program, ct_client_info = fwd_client_info ctx,
          ct_session_id = fwd_session_id ctx, ct_request_id = request_id, ct_request_info = info,
          ct_object_path = object_path\<rparr> names
     }
   }"

subsection \<open>The calls of the monitor\<close>

text \<open>Every entry point of the module, as \<open>RegisterMonitorHooks\<close> and the service use them.\<close>

datatype hook_call =
  Initialize_call
| Allocate_session
| Sm_lifecycle SmLifecycleTraceContext
| Accept_trace AcceptTraceContext
| Dispatch_trace DispatchTraceContext
| Session_trace SessionTraceContext
| Preprocess ForwardRequestPreprocessContext "buffer_replacement option"
| Forward_trace ForwardRequestTraceContext
| Domain_trace DomainTraceContext
| Session_connected string u64 MitmProcessInfo
| Accept_failure string MitmProcessInfo u32
| Forward_service string MitmProcessInfo u64 "string option" s32 bool u32 u32
| Session_snapshot "string option"
| Domain_snapshot "string option"
| Session_domain_snapshot u64 "string option"

fun run_hook :: "platform \<Rightarrow> mutation_config \<Rightarrow> header_fields \<Rightarrow> hook_call \<Rightarrow> unit hook" where
  "run_hook pl mc hf Initialize_call = Initialize_hooks pl"
| "run_hook pl mc hf Allocate_session = do { AllocateSessionId; done_hook }"
| "run_hook pl mc hf (Sm_lifecycle ctx) = LogSmLifecycle pl ctx"
| "run_hook pl mc hf (Accept_trace ctx) = LogAcceptTrace pl ctx"
| "run_hook pl mc hf (Dispatch_trace ctx) = LogDispatchTrace pl ctx"
| "run_hook pl mc hf (Session_trace ctx) = LogSessionTrace pl ctx"
| "run_hook pl mc hf (Preprocess ctx out) = do { OnForwardRequestPreprocess pl mc ctx out; done_hook }"
| "run_hook pl mc hf (Forward_trace ctx) = OnForwardRequestTrace pl mc hf ctx"
| "run_hook pl mc hf (Domain_trace ctx) = OnDomainTrace pl ctx"
| "run_hook pl mc hf (Session_connected name session_id client) = LogSessionConnected pl name session_id client"
| "run_hook pl mc hf (Accept_failure name client result) = LogSessionAcceptFailure pl name client result"
| "run_hook pl mc hf (Forward_service name client session_id phase handle own object_id pointer_size) =
     LogForwardServiceState pl name client session_id phase handle own object_id pointer_size"
| "run_hook pl mc hf (Session_snapshot phase) = LogSessionSnapshot pl phase"
| "run_hook pl mc hf (Domain_snapshot phase) = LogDomainSnapshot pl phase"
| "run_hook pl mc hf (Session_domain_snapshot session_id phase) = LogDomainSnapshotForSession pl session_id phase"

text \<open>A run of the module: the calls in the order they were made.\<close>

fun run_hooks :: "platform \<Rightarrow> mutation_config \<Rightarrow> header_fields \<Rightarrow> hook_call list \<Rightarrow> hooks \<Rightarrow> hooks" where
  "run_hooks pl mc hf [] s = s"
| "run_hooks pl mc hf (c # cs) s = run_hooks pl mc hf cs (snd (run_state (run_hook pl mc hf c) s))"

end
