(* ===== verification/TraceLines.thy ===== *)
theory TraceLines
  imports TraceRequest
begin

text \<open>
  The lines the hooks print (\<^verbatim>\<open>net-probe/src/mitm_trace.cpp\<close>) are complete: their texts
  need no escape and they fit the arrays they are printed into. One lemma for each
  kind of line bounds its width; a line within its bound reads back as its members.
\<close>

named_theorems line_fits \<open>the width of each kind of line\<close>
named_theorems short_texts \<open>texts without escapes and their lengths\<close>

subsection \<open>Short texts\<close>

definition short :: "nat \<Rightarrow> string \<Rightarrow> bool" where
  "short k s \<longleftrightarrow> plain_text s \<and> length s \<le> k"

lemma printable_chars:
  "list_all plain ''ABCDEFGHIJKLMNOPQRSTUVWYZabcdefghijklmnopqrstuvwyz123456789_.:/<>-[]=, #+*''"
  by (simp add: plain_def)

lemmas plain_chars [simp] = printable_chars [unfolded append.simps list.pred_inject] plain_0x
  
lemma plain_X [simp]: "plain CHR ''X''"
  by (simp add: plain_def)

lemma short_mono: "short k s \<Longrightarrow> k \<le> l \<Longrightarrow> short l s"
  by (simp add: short_def)

lemma plain_take: "plain_text s \<Longrightarrow> plain_text (take n s)"
  by (meson plain_text_def in_set_takeD)

lemma short_take [short_texts]: "plain_text s \<Longrightarrow> short n (take n s)"
  by (simp add: short_def plain_take)

lemma plain_show_dec [simp]: "plain_text (show_dec n)"
proof -
  have "plain c" if "is_digit c" for c
    using that by (auto simp: plain_def is_digit_def)
  then show ?thesis by (auto simp: plain_text_def dest: show_dec_digits)
qed

lemma plain_hex_lower [simp]: "plain_text (hex_lower w n)"
  using show_hex_plain [of False n] by (auto simp: hex_lower_def pad_zero_def plain_text_def)

lemma short_run_id [short_texts]: "short 25 (run_id_text tick)"
  using length_show_word [of 20 tick] by (simp add: short_def run_id_text_def)

lemma short_program [short_texts]: "short 18 (program_text client)"
  using length_hex_upper [of 16 "program_id client"]
  by (simp add: short_def program_text_def FormatProgramId_def)

lemma short_snprintf: "short k s \<Longrightarrow> short k (buf_text (snprintf (fresh_buf n) s))"
  by (simp add: short_def plain_take min_le_iff_disj)

lemma short_service [short_texts]:
  assumes "plain_text name" "pl_service_name_max pl \<le> 8"
  shows "short 9 (service_text pl n name)"
proof -
  let ?t = "takeWhile (\<lambda>c. c \<noteq> CHR 0x00) (take (pl_service_name_max pl) name)"
  have "plain_text ?t"
    using plain_take [OF assms(1)] by (auto simp: plain_text_def dest: set_takeWhileD)
  moreover have "length ?t \<le> 9"
    using length_takeWhile_le [of _ "take (pl_service_name_max pl) name"] assms(2)
    by (intro le_trans [OF length_takeWhile_le]) simp
  ultimately have t: "short 9 ?t" by (simp add: short_def)
  have i: "short 9 ''<invalid>''" by (simp add: short_def)
  show ?thesis
  proof (cases "writable (fresh_buf (pl_service_name_max pl + n))")
    case True
    then show ?thesis
      using short_snprintf [OF t] short_snprintf [OF i] by (simp add: service_text_def EncodeServiceName_def Let_def del: buf_text_snprintf_fresh)
  next
    case False
    then show ?thesis by (simp add: service_text_def EncodeServiceName_def fresh_buf_def buf_text_def short_def)
  qed
qed

lemma short_printed [short_texts]: "short k s \<Longrightarrow> short k (printed n s)"
  using short_snprintf by (simp add: printed_def)

subsection \<open>Widths\<close>

definition fit :: "nat \<Rightarrow> members \<Rightarrow> bool" where
  "fit w ms \<longleftrightarrow> plain_members ms \<and> members_width ms \<le> w"

lemma members_width_append [simp]: "members_width (ms @ ns) = members_width ms + members_width ns"
  by (induction ms rule: members_width.induct) auto

lemma plain_members_simps [simp]:
  "plain_members []"
  "plain_members ((k, v) # ms) \<longleftrightarrow> plain_text k \<and> plain_value v \<and> plain_members ms"
  "plain_members (ms @ ns) \<longleftrightarrow> plain_members ms \<and> plain_members ns"
  by (auto simp: plain_members_def)

lemma fit_mono: "fit v ms \<Longrightarrow> v \<le> w \<Longrightarrow> fit w ms"
  by (simp add: fit_def)

lemma fit_append: "fit a ms \<Longrightarrow> fit b ns \<Longrightarrow> a + b \<le> w \<Longrightarrow> fit w (ms @ ns)"
  by (simp add: fit_def)

lemmas fit_simps = fit_def short_def

text \<open>The shared beginnings of a line.\<close>

lemma fit_line_head:
  "short 25 run_id \<Longrightarrow> short 9 service \<Longrightarrow> plain_text event \<Longrightarrow>
     fit (224 + length event) (line_head run_id event ts service)"
  by (simp add: fit_simps line_head_def)

lemma fit_client: "short 18 program \<Longrightarrow> fit 149 (client_members client program)"
  by (simp add: fit_simps client_members_def)

lemma fit_own: "fit 180 own_members"
  by (simp add: fit_simps own_members_def)

lemma short_phase:
  "(\<And>p. phase = Some p \<Longrightarrow> short 32 p) \<Longrightarrow> short 32 (phase_text phase)"
  by (cases phase) (simp_all add: phase_text_def short_def)

text \<open>Event, operation and detail names are short.\<close>

lemma short_names [short_texts]:
  "short 32 (event_text (GetSmLifecycleOperation e))" "short 32 (event_text (GetSmLifecyclePhase e))"
  by (cases e; simp add: short_def event_text_def GetSmLifecyclePhase_def)+

lemma short_accept_names [short_texts]:
  "short 32 (event_text (GetAcceptOperation a))" "short 32 (event_text (GetAcceptPhase a))"
  by (simp_all add: short_def event_text_def GetAcceptOperation_def GetAcceptPhase_def)

lemma short_dispatch_name [short_texts]: "short 40 (event_text (GetDispatchEventName e))"
  by (cases e; simp add: short_def event_text_def)

lemma short_session_name [short_texts]: "short 32 (session_event_name e)"
  by (cases e; simp add: short_def)

subsection \<open>Session and domain events\<close>

lemma fit_trace_start [line_fits]: "fit 509 (trace_start_members tick now)"
  using short_run_id [of tick] by (simp add: fit_simps trace_start_members_def line_head_def own_members_def)

lemma fit_domain_state [line_fits]:
  assumes "short 9 service" "short 18 program" "short 105 path" "short 32 (phase_text phase)"
    "short 95 (dp_relative_path entry)"
  shows "fit 1405 (domain_state_members tick now service client program session_id path phase entry)"
  using assms short_run_id [of tick]
  by (simp add: fit_simps domain_state_members_def line_head_def client_members_def)

lemma fit_clone_state [line_fits]:
  assumes "short 9 service" "short 18 program" "short 32 (phase_text phase)"
  shows "fit 1021 (clone_state_members tick now service client program session_id phase entry clones)"
  using assms short_run_id [of tick]
  by (simp add: fit_simps clone_state_members_def line_head_def client_members_def)

lemma fit_handle_state [line_fits]:
  assumes "short 9 service" "short 18 program" "short 32 (phase_text phase)"
  shows "fit 1277 (handle_state_members tick now service client program session_id phase entry active handles)"
  using assms short_run_id [of tick]
  by (simp add: fit_simps handle_state_members_def line_head_def client_members_def)

lemma fit_connected [line_fits]:
  assumes "short 9 service" "short 18 program"
  shows "fit 1021 (connected_members tick now service client program session_id active)"
  using assms short_run_id [of tick]
  by (simp add: fit_simps connected_members_def line_head_def client_members_def)

lemma fit_accept_failure [line_fits]:
  assumes "short 9 service" "short 18 program"
  shows "fit 1021 (accept_failure_members tick now service client program result)"
  using assms short_run_id [of tick] length_hex_upper [of 8 result]
  by (simp add: fit_simps accept_failure_members_def line_head_def client_members_def)

lemma fit_forward_state [line_fits]:
  assumes "short 9 service" "short 18 program" "short 32 (phase_text phase)"
  shows "fit 1277 (forward_state_members tick now service client program session_id phase handle own object_id pointer_size)"
  using assms short_run_id [of tick]
  by (simp add: fit_simps forward_state_members_def line_head_def client_members_def)

lemma fit_empty_snapshot [line_fits]:
  assumes "short 16 event" "short 20 count" "short 32 (phase_text phase)"
  shows "fit 765 (empty_snapshot_members tick now event count phase)"
  using assms short_run_id [of tick]
  by (simp add: fit_simps empty_snapshot_members_def line_head_def own_members_def)

lemma fit_session_snapshot [line_fits]:
  assumes "short 9 service" "short 32 (phase_text phase)"
  shows "fit 1021 (session_snapshot_members tick now service entry phase active i)"
  using assms short_run_id [of tick] short_program [of "se_client_info entry"]
  by (simp add: fit_simps session_snapshot_members_def line_head_def client_members_def)

lemma fit_domain_snapshot [line_fits]:
  assumes "short 9 service" "short 105 path" "short 32 (phase_text phase)" "short 95 (dp_relative_path entry)"
  shows "fit 1405 (domain_snapshot_members tick now service client session_id path entry phase active i)"
  using assms short_run_id [of tick] short_program [of client]
  by (simp add: fit_simps domain_snapshot_members_def line_head_def client_members_def)

lemma fit_session [line_fits]:
  assumes "short 9 service" "short 18 program" "short 32 (sf_event_name facts)"
  shows "fit 1149 (session_members tick now service program ctx facts)"
  using assms short_run_id [of tick]
  by (simp add: fit_simps session_members_def line_head_def client_members_def)

lemma fit_session_extra [line_fits]: "fit 255 (session_extra ctx facts)"
  by (simp add: fit_simps session_extra_def)

lemma fit_operation [line_fits]:
  assumes "short 9 service" "short 16 event" "short 32 operation" "short 32 phase"
  shows "fit 600 (operation_members tick now service event operation phase)"
  using assms short_run_id [of tick]
  by (simp add: fit_simps operation_members_def line_head_def own_members_def)

subsection \<open>The tail of a line\<close>

text \<open>The members a list of guarded parts enables; within the array the tail is their text.\<close>

definition enabled :: "(bool \<times> members) list \<Rightarrow> members" where
  "enabled parts = concat (map snd (filter fst parts))"

lemma extra_put_room:
  "length extra + members_width ms < n \<Longrightarrow>
     extra_put n ms (extra, int (length extra)) = (extra @ more_text ms, int (length (extra @ more_text ms)))"
  using length_more_text [of ms] by (auto simp: extra_put_def ClampLength_def)

lemma enabled_simps [simp]:
  "enabled [] = []" "enabled (p # parts) = (if fst p then snd p else []) @ enabled parts"
  by (simp_all add: enabled_def)

lemma extra_text_room:
  assumes "members_width (enabled parts) < n"
  shows "extra_text n parts = more_text (enabled parts)"
proof -
  let ?step = "\<lambda>st (guard, ms). if guard \<and> snd st < int n then extra_put n ms st else st"
  have "foldl ?step (extra, int (length extra)) parts =
      (extra @ more_text (enabled parts), int (length (extra @ more_text (enabled parts))))"
    if "length extra + members_width (enabled parts) < n" for extra
    using that
  proof (induction parts arbitrary: extra)
    case (Cons p parts)
    obtain guard ms where p: "p = (guard, ms)" by (cases p)
    show ?case
    proof (cases guard)
      case True
      have room: "length (extra @ more_text ms) + members_width (enabled parts) < n"
        using Cons.prems length_more_text [of ms] p True by simp
      have "foldl ?step (extra, int (length extra)) (p # parts) =
          foldl ?step (extra @ more_text ms, int (length (extra @ more_text ms))) parts"
        using True Cons.prems p by (simp add: extra_put_room)
      then show ?thesis using Cons.IH [OF room] True p by simp
    next
      case False
      then show ?thesis using Cons p by simp
    qed
  qed simp
  from this [of "[]"] assms show ?thesis by (simp add: extra_text_def)
qed

lemma fit_if: "fit w ms \<Longrightarrow> fit w (if b then ms else [])"
  by (simp add: fit_def)

lemma fit_enabled: "fit w (concat (map snd parts)) \<Longrightarrow> fit w (enabled parts)"
proof -
  have "plain_members (concat (map snd parts)) \<Longrightarrow> plain_members (enabled parts)"
    by (induction parts) auto
  moreover have "members_width (enabled parts) \<le> members_width (concat (map snd parts))"
    by (induction parts) auto
  ultimately show "fit w (concat (map snd parts)) \<Longrightarrow> fit w (enabled parts)" by (simp add: fit_def)
qed

lemma printed_room:
  assumes "fit w ms" "w < n" shows "printed n (more_text ms) = more_text ms"
proof -
  have "length (more_text ms) \<le> n - 1"
    using assms length_more_text [of ms] unfolding fit_def by (elim conjE) linarith
  then show ?thesis by (simp add: printed_def)
qed

lemma fit_sm_parts [line_fits]: "fit 319 (concat (map snd (sm_parts pl ctx)))"
  using short_program [of "the (smc_client_info ctx)"]
  by (simp add: fit_simps sm_parts_def result_part_def client_part_def)

lemma fit_accept_parts [line_fits]: "fit 511 (concat (map snd (accept_parts pl ctx)))"
  using short_program [of "the (acc_client_info ctx)"]
  by (simp add: fit_simps accept_parts_def result_part_def client_part_def)

lemma preview_words_plain: "plain_text acc \<Longrightarrow> plain_text (preview_words ws first acc)"
proof (induction ws arbitrary: first acc)
  case (Cons w ws)
  have "plain_text (acc @ take (72 - length acc - 1) ((if first then [] else ''_'') @ hex_upper 8 (unat w)))"
    using Cons.prems by (simp add: plain_take)
  with Cons.IH show ?case by (auto simp: Let_def)
qed simp

lemma preview_words_length: "length acc \<le> 71 \<Longrightarrow> length (preview_words ws first acc) \<le> 71"
proof (induction ws arbitrary: first acc)
  case (Cons w ws)
  have "length (acc @ take (72 - length acc - 1) ((if first then [] else ''_'') @ hex_upper 8 (unat w))) \<le> 71"
    using Cons.prems by simp
  with Cons.IH show ?case by (auto simp: Let_def)
qed simp

lemma short_preview [short_texts]: "short 71 (dispatch_preview ctx)"
  by (simp add: short_def dispatch_preview_def preview_words_plain preview_words_length)

lemma short_detail_name [short_texts]: "short 17 (dispatch_detail_name ctx)"
  by (simp add: short_def dispatch_detail_name_def split: DispatchTraceEventType.split)

lemma short_command_type [short_texts]: "short 20 (GetHipcCommandTypeName c)"
  by (simp add: short_def GetHipcCommandTypeName_def)

lemma fit_dispatch [line_fits]:
  assumes "short 9 service" "short 18 program"
  shows "fit 1022 (dispatch_members tick now service program ctx)"
  using assms short_run_id [of tick] short_dispatch_name [of "dsp_event_type ctx"]
  by (simp add: fit_simps dispatch_members_def line_head_def client_members_def)

lemma short_put_command:
  assumes "short k (buf_text name)" "list_all (short k) (map snd commands)"
  shows "short k (buf_text (put_command commands command_id name))"
proof (cases "map_of commands (unat command_id)")
  case (Some t)
  then have "short k t" using assms(2) by (auto simp: list_all_iff dest!: map_of_SomeD)
  with Some assms(1) show ?thesis
    by (cases name) (auto simp: put_command_def snprintf_def buf_text_def short_def plain_take min_le_iff_disj)
qed (simp add: put_command_def assms)

lemma command_names_short:
  "list_all (short 30) (map snd nifm_static_commands)" "list_all (short 30) (map snd nifm_general_commands)"
  "list_all (short 30) (map snd nifm_request_commands)" "list_all (short 30) (map snd bsd_commands)"
  "list_all (short 30) (map snd ssl_service_commands)" "list_all (short 30) (map snd ssl_context_commands)"
  "list_all (short 30) (map snd ssl_connection_commands)"
  by (simp_all add: short_def nifm_static_commands_def nifm_general_commands_def nifm_request_commands_def
      bsd_commands_def ssl_service_commands_def ssl_context_commands_def ssl_connection_commands_def)

lemma short_known_names:
  assumes "(k, n) = DescribeKnownObjectAndCommand (Some service) (Some path) command_id (snprintf (fresh_buf 48) x)
     (snprintf (fresh_buf 64) y)"
  shows "short 20 (buf_text k) \<and> short 30 (buf_text n)"
proof -
  have u: "short 30 (take 63 ''Unknown'')" "short 20 (take 47 ''Unknown'')" by (simp_all add: short_def)
  show ?thesis
    using assms
    by (auto simp: DescribeKnownObjectAndCommand_def GetNifmObjectKindAndCommandName_def
        GetBsdObjectKindAndCommandName_def GetSslObjectKindAndCommandName_def Let_def u command_names_short
        intro!: short_put_command split: if_splits) (simp_all add: short_def)
qed

lemma dispatch_names_cases:
  assumes "(kind, name) = dispatch_names service ctx t" "dsp_has_command_id ctx"
  shows "if is_manager_request ctx
    then short 12 kind \<and> short 28 name \<and> (is_clone_manager_request ctx \<longrightarrow> short 20 name)
    else short 20 kind \<and> short 30 name"
proof (cases "is_manager_request ctx")
  case True
  have "short 28 (buf_text (GetHipcManagerCommandName (snprintf (fresh_buf 64) ''Unknown'') c)) \<and>
    (c = 2 \<or> c = 4 \<longrightarrow> short 20 (buf_text (GetHipcManagerCommandName (snprintf (fresh_buf 64) ''Unknown'') c)))" for c
    by (simp add: GetHipcManagerCommandName_def put_command_def hipc_manager_commands_def short_def)
  with True assms show ?thesis
    by (simp add: dispatch_names_def is_clone_manager_request_def) (simp add: short_def)
next
  case False
  with assms show ?thesis
    by (auto simp: dispatch_names_def split: prod.splits dest!: short_known_names [OF sym])
qed

lemma dispatch_detail_manager:
  "dsp_has_command_id ctx \<Longrightarrow> \<not> is_manager_request ctx \<Longrightarrow> short 6 (dispatch_detail_name ctx)"
  by (cases "dsp_event_type ctx") (simp_all add: is_manager_request_def dispatch_detail_name_def short_def)

lemma fit_dispatch_parts [line_fits]:
  assumes "(kind, name) = dispatch_names service ctx t"
  shows "fit 767 (enabled (dispatch_parts kind name clones ctx))"
proof -
  let ?ps = "dispatch_parts kind name clones ctx"
  let ?mid = "take 6 (drop 2 ?ps)"
  have e: "enabled ?ps = enabled (take 2 ?ps) @ enabled ?mid @ enabled (drop 8 ?ps)"
    by (simp add: dispatch_parts_def Let_def)
  have mid: "fit (605 + length (dispatch_detail_name ctx)) (enabled ?mid)"
    using short_preview [of ctx] short_detail_name [of ctx] short_command_type [of "the (dsp_hipc_command_type ctx)"]
    by (intro fit_enabled) (simp add: fit_simps dispatch_parts_def result_part_def Let_def)
  have detail: "length (dispatch_detail_name ctx) \<le> 17"
    "dsp_has_command_id ctx \<Longrightarrow> \<not> is_manager_request ctx \<Longrightarrow> length (dispatch_detail_name ctx) \<le> 6"
    using short_detail_name [of ctx] dispatch_detail_manager [of ctx] by (simp_all add: short_def)
  have last: "fit (if dsp_has_command_id ctx \<and> \<not> is_clone_manager_request ctx then 42 else 0) (enabled (drop 8 ?ps))"
    by (auto simp: fit_simps dispatch_parts_def Let_def is_clone_manager_request_def)
  show ?thesis
  proof (cases "dsp_has_command_id ctx")
    case True
    note names = dispatch_names_cases [OF assms True]
    have "fit (59 + length kind + length name + (if is_clone_manager_request ctx then 47 else 0)) (enabled (take 2 ?ps))"
      using names True
      by (auto simp: fit_simps dispatch_parts_def Let_def is_clone_manager_request_def split: if_splits)
    note rest = fit_append [OF this fit_append [OF mid last order_refl]]
    show ?thesis
      unfolding e using names detail True
      by (intro rest) (auto simp: short_def is_clone_manager_request_def split: if_splits)
  next
    case False
    then have "fit 0 (enabled (take 2 ?ps))"
      by (simp add: fit_simps dispatch_parts_def Let_def is_clone_manager_request_def is_manager_request_def)
    from fit_append [OF this fit_append [OF mid last order_refl]] show ?thesis
      unfolding e using detail(1) False by simp
  qed
qed

subsection \<open>Domain events, buffers and handles\<close>

lemma short_domain_event [short_texts]: "short 36 (domain_event_name e)"
  by (cases e; simp add: short_def)

lemma short_domain_detail [short_texts]: "short 32 (domain_detail_name ctx)"
proof -
  have "list_all (short 32) (map snd convert_details)" "list_all (short 32) (map snd mirror_details)"
    by (simp_all add: convert_details_def mirror_details_def short_def)
  then have "short 32 (detail_in ds c)" if "ds = convert_details \<or> ds = mirror_details" for ds c
    using that by (auto simp: detail_in_def list_all_iff dest!: map_of_SomeD split: option.splits)
      (simp_all add: short_def)
  then show ?thesis by (simp add: domain_detail_name_def) (simp add: short_def)
qed

lemma length_domain_ids: "length (domain_ids ctx) \<le> 8"
  by (simp add: domain_ids_def min_le_iff_disj)

lemma fit_domain [line_fits]:
  assumes "short 25 run_id" "short 9 service" "short 18 program"
  shows "fit 1200 (domain_members run_id now service program ctx)"
  using assms short_printed [OF short_domain_event, of 48 "dom_event_type ctx"] short_domain_detail [of ctx]
    length_domain_ids [of ctx]
  by (simp add: fit_simps domain_members_def line_head_def client_members_def)

lemma fit_forward [line_fits]: "fit 191 (forward_members f)"
  by (cases f) (simp add: fit_simps forward_members_def)

lemma short_mode [short_texts]: "short 21 (GetBsdSendToMutationModeName m)"
  by (cases m; simp add: short_def)

lemma short_replacement_direction [short_texts]: "short 18 (GetBufferReplacementDirectionName d)"
  by (cases d; simp add: short_def)

lemma short_endpoint [short_texts]: "short 63 (endpoint_text bytes port)"
  by (simp add: short_def endpoint_text_def printed_def plain_take show_byte_def fmt_u_def)

lemma fit_mutation [line_fits]:
  assumes "short 63 original" "short 63 effective"
  shows "fit 1021 (mutation_members tick now ctx mode original effective sockaddr)"
  using assms short_run_id [of tick] short_mode [of mode]
  by (simp add: fit_simps mutation_members_def line_head_def)

definition clean_call :: "call_trace \<Rightarrow> bool" where
  "clean_call ct \<longleftrightarrow> short 25 (ct_run_id ct) \<and> short 9 (ct_service ct) \<and> short 18 (ct_program ct)
     \<and> short 105 (ct_object_path ct)"

lemma short_binary_path: "short 40 (case GetTraceSinkConfigForServiceName s of Some sink \<Rightarrow> binary_path sink | None \<Rightarrow> [])"
  by (auto simp: GetTraceSinkConfigForServiceName_def GetTraceSinkConfig_def g_trace_sinks_def short_def
      NotifBinaryPath_def SslBinaryPath_def BsdBinaryPath_def NifmBinaryPath_def)

lemma fit_buffer [line_fits]:
  assumes "clean_call ct"
  shows "fit 1021 (buffer_members ct ts phase direction i is_static capture d)"
  using assms short_binary_path [of "ct_service ct"]
  by (cases phase; cases direction)
    (simp_all add: clean_call_def fit_simps buffer_members_def line_head_def)

lemma fit_handle [line_fits]:
  assumes "clean_call ct" "short 4 kind"
  shows "fit 765 (handle_members ct now kind i handle)"
  using assms by (simp add: clean_call_def fit_simps handle_members_def line_head_def)

subsection \<open>Forwarded requests\<close>

lemma short_selected_kind [short_texts]: "short 12 (GetSelectedKindText info)"
  by (simp add: short_def GetSelectedKindText_def)

lemma fit_call [line_fits]:
  assumes "clean_call ct" "short 32 event"
  shows "fit 602 (call_members ct event ts)"
  using assms by (simp add: clean_call_def fit_simps call_members_def line_head_def client_members_def)

lemma fit_notif [line_fits]:
  assumes "short 25 run_id" "short 18 program"
  shows "fit 1021 (notif_members run_id request_ts response_ts ctx program object_id request_id duration)"
  using assms by (simp add: fit_simps notif_members_def client_members_def)

lemma fit_replacement [line_fits]:
  assumes "clean_call ct"
  shows "fit 1021 (replacement_members mc ct ts rb)"
  using fit_call [OF assms, of "''ipc_buffer_replacement''" ts] short_mode [of "mc_mode mc"]
    short_replacement_direction [of "rb_direction rb"]
  by (simp add: fit_simps replacement_members_def)

lemma fit_response [line_fits]:
  assumes "clean_call ct" "short 20 (fst names)" "short 30 (snd names)"
  shows "fit 1021 (response_members pl ct ctx names info response)"
  using fit_call [OF assms(1), of "''ipc_response''" "response_ns pl ctx"] assms
  by (simp add: fit_simps response_members_def)

lemma fit_request [line_fits]:
  assumes "clean_call ct" "short 20 (fst names)" "short 30 (snd names)"
  shows "fit 2045 (request_members ct ts names rh fd rd)"
  using assms short_selected_kind [of "ct_request_info ct"]
  by (simp add: clean_call_def fit_simps request_members_def line_head_def client_members_def)

end
