(* ===== verification/TraceSummaries.thy ===== *)
theory TraceSummaries
  imports TraceLines
begin

text \<open>
  The summaries of decoded calls hold no character a JSON string would have to escape:
  the formatters print numbers, fixed names, addresses, hexadecimal previews and texts of
  the client from which quotes and backslashes were removed.
\<close>

subsection \<open>Plain texts\<close>

lemma plain_show_int [simp]: "plain_text (show_int i)"
  by (simp add: show_int_def)

lemma plain_show_hex [simp]: "plain_text (show_hex up n)"
  by (rule show_hex_plain)

lemma plain_formats [simp]:
  "plain_text (fmt_u (w :: 'a::len word))" "plain_text (fmt_d i)" "plain_text (fmt_x (v :: 'b::len word))"
  "plain_text (fmt_x64 l)" "plain_text (fmt_bool b)" "plain_text (show_byte c)" "plain_text (show_upper_hex x)"
  by (simp_all add: fmt_u_def fmt_d_def fmt_x_def fmt_x64_def fmt_bool_def show_byte_def show_upper_hex_def)

lemma plain_braces [simp]: "plain CHR ''{''" "plain CHR ''}''" "plain CHR ''(''" "plain CHR '')''"
  by (simp_all add: plain_def)

lemma plain_hex_pair [simp]: "plain_text (hex_pair b)"
proof -
  have "unat (w AND 0xF) \<le> unat (0xF :: u8)" for w :: u8
    unfolding word_le_nat_alt [symmetric] by (rule word_and_le1)
  then have "unat (w AND 0xF) < 16" for w :: u8
    by (rule le_less_trans) simp
  then show ?thesis by (simp add: hex_pair_def hex_digit_plain)
qed

lemma plain_hex_pairs [simp]: "plain_text (concat (map hex_pair bs))"
  by (induction bs) simp_all

lemma plain_hex_preview [simp]: "plain_text (hex_preview n bytes)"
  by (simp add: hex_preview_def HexEncode_def fresh_buf_def buf_text_def hex_loop_take)

lemma plain_hex_groups [simp]: "plain_text (hex_groups bs)"
  by (induction bs rule: hex_groups.induct) simp_all

lemma plain_join: "plain_text s \<Longrightarrow> plain_text t \<Longrightarrow> plain_text (s @ t)"
  by simp

subsection \<open>Clean buffers\<close>

definition clean :: "cbuf option \<Rightarrow> bool" where
  "clean b \<longleftrightarrow> plain_text (buf_text b)"

lemma clean_fresh [simp]: "clean (fresh_buf n)"
  by (simp add: clean_def buf_text_def fresh_buf_def)

lemma clean_text: "clean b \<Longrightarrow> plain_text (buf_text b)"
  by (simp add: clean_def)

lemma clean_snprintf [simp]: "clean b \<Longrightarrow> plain_text s \<Longrightarrow> clean (snprintf b s)"
  by (auto simp: clean_def buf_text_def snprintf_def plain_take split: option.splits)

lemma clean_append [simp]: "clean b \<Longrightarrow> plain_text s \<Longrightarrow> clean (AppendSummaryText b s)"
  by (auto simp: clean_def buf_text_def AppendSummaryText_def Let_def plain_take split: option.splits)

lemma clean_named [simp]:
  assumes "clean b" "plain_text label" "pred_option plain_text name"
  shows "clean (AppendNamedValue b label v name)" "clean (AppendNamedHexValue b label w name)"
  using assms by (cases name; simp add: AppendNamedValue_def AppendNamedHexValue_def)+

lemma clean_print_if [simp]: "clean b \<Longrightarrow> pred_option plain_text t \<Longrightarrow> clean (print_if b t)"
  by (cases t) (simp_all add: print_if_def)

lemma plain_names [simp]:
  "pred_option plain_text (GetBsdAddressFamilyName family)" "pred_option plain_text (GetBsdSocketTypeName t)"
  "pred_option plain_text (GetBsdProtocolName p)" "pred_option plain_text (GetBsdSocketLevelName level)"
  "pred_option plain_text (GetBsdSocketOptionName level optname)" "pred_option plain_text (GetBsdFcntlCommandName cmd)"
  "pred_option plain_text (GetBsdShutdownHowName how)"
  by (simp_all add: GetBsdAddressFamilyName_def GetBsdSocketTypeName_def GetBsdProtocolName_def
      GetBsdSocketLevelName_def GetBsdSocketOptionName_def GetBsdFcntlCommandName_def GetBsdShutdownHowName_def)

lemma clean_ip [simp]:
  "clean b \<Longrightarrow> clean (FormatIpv4 b bytes)" "clean b \<Longrightarrow> clean (FormatIpv6 b bytes)"
  by (simp_all add: FormatIpv4_def FormatIpv6_def)

lemma plain_addresses [simp]: "plain_text (ipv4_at bytes offset)" "plain_text (ip_config_text bytes)"
    "plain_text (inet_text bytes)" "plain_text (inet6_text bytes)"
proof -
  have a: "plain_text (buf_text (FormatIpv4 (fresh_buf n) bytes))" "plain_text (buf_text (FormatIpv6 (fresh_buf n) bytes))"
    for n bytes by (simp_all add: clean_text)
  show i: "plain_text (ipv4_at bytes offset)" for bytes offset by (simp add: ipv4_at_def a)
  show "plain_text (ip_config_text bytes)" by (simp add: ip_config_text_def i)
  show "plain_text (inet_text bytes)" "plain_text (inet6_text bytes)" by (simp_all add: inet_text_def inet6_text_def a)
qed

lemma plain_sockaddr [simp]: "plain_text (sockaddr_text bytes)"
proof -
  have "plain_text n" if "GetBsdAddressFamilyName f = Some n" for f n
    using plain_names(1) [of f] that by simp
  then show ?thesis by (auto simp: sockaddr_text_def Let_def split: option.split)
qed

lemma clean_sockaddr [simp]: "clean b \<Longrightarrow> clean (snd (TryFormatSockaddr b bytes))"
  by (simp add: TryFormatSockaddr_def)

lemma plain_sockaddr_result: "TryFormatSockaddr (fresh_buf n) bytes = (r, text) \<Longrightarrow> plain_text (buf_text text)"
  using clean_sockaddr [OF clean_fresh, of n bytes] by (simp add: clean_def)

lemma plain_preview_char [simp]: "plain (preview_char ch)"
proof -
  have "of_char c = (of_char d :: nat) \<longleftrightarrow> c = d" for c d :: char by (rule of_char_eq_iff)
  from this [of "preview_char ch" "CHR 0x22"] this [of "preview_char ch" "CHR 0x5C"]
    preview_char_printable [of ch] show ?thesis
    by (simp add: plain_def Let_def)
qed

lemma plain_preview [simp]: "plain_text (preview_loop bytes n cursor)"
  by (induction bytes n cursor rule: preview_loop.induct) simp_all

lemma plain_hostname: "CopyTextPreview (fresh_buf n) bytes = (r, text) \<Longrightarrow> plain_text (buf_text text)"
  by (auto simp: CopyTextPreview_def fresh_buf_def buf_text_def Let_def split: if_splits)

subsection \<open>The summaries\<close>

lemma clean_nifm [simp]:
  "clean b \<Longrightarrow> clean (FormatNifmSemanticRequestSummary b path c rq)"
  "clean b \<Longrightarrow> clean (FormatNifmSemanticResponseSummary b path c info rs)"
  by (simp_all add: FormatNifmSemanticRequestSummary_def FormatNifmSemanticResponseSummary_def Let_def)

lemma plain_register [simp]: "pred_option plain_text (register_client_text bytes len)"
  by (simp add: register_client_text_def split: bind_splits)

lemma plain_bsd_texts: "bsd_plain_text c bytes len = Some t \<Longrightarrow> pred_option plain_text t"
  by (auto simp: bsd_plain_text_def split: if_splits bind_splits)

lemma clean_bsd_parts [simp]:
  "clean b \<Longrightarrow> clean (bsd_socket_summary b bytes len)"
  "clean b \<Longrightarrow> clean (bsd_option_summary b c bytes len)"
  "clean b \<Longrightarrow> clean (bsd_fcntl_summary b bytes len)"
  "clean b \<Longrightarrow> clean (bsd_shutdown_summary b bytes len)"
  by (simp_all add: bsd_socket_summary_def bsd_option_summary_def bsd_fcntl_summary_def
      bsd_shutdown_summary_def Let_def split: option.split)

lemma clean_bsd [simp]:
  "clean b \<Longrightarrow> clean (FormatBsdSemanticRequestSummary b path c rq)"
  "clean b \<Longrightarrow> clean (FormatBsdSemanticResponseSummary b path c rs)"
  by (auto simp: FormatBsdSemanticRequestSummary_def FormatBsdSemanticResponseSummary_def Let_def plain_bsd_texts
      split: option.split bind_splits)

lemma clean_bsd_buffers [simp]:
  "clean b \<Longrightarrow> clean (snd (TryAppendBsdSockaddrRequestSummary b c request))"
  "clean b \<Longrightarrow> clean (snd (TryAppendBsdPayloadRequestSummary b c request))"
  "clean b \<Longrightarrow> clean (snd (TryAppendBsdSockOptRequestSummary b c request))"
  "clean b \<Longrightarrow> clean (snd (TryAppendBsdSockaddrResponseSummary b c request response have rs))"
  "clean b \<Longrightarrow> clean (snd (TryAppendBsdSockOptResponseSummary b c request response have))"
  by (auto simp: TryAppendBsdSockaddrRequestSummary_def TryAppendBsdPayloadRequestSummary_def
      TryAppendBsdSockOptRequestSummary_def TryAppendBsdSockaddrResponseSummary_def
      TryAppendBsdSockOptResponseSummary_def Let_def
      split: option.split prod.split bool.split dest: plain_sockaddr_result)

lemma plain_layout:
  "plain_text (fst st) \<Longrightarrow> plain_text t \<Longrightarrow> plain_text (fst (layout_put n t st))"
  by (cases st) (simp add: layout_put_def plain_take)

lemma plain_layout_sizes:
  "plain_text (fst st) \<Longrightarrow> plain_text (fst (layout_sizes n first zs st))"
  by (induction n first zs st rule: layout_sizes.induct) (simp_all add: plain_layout)

lemma clean_layouts [simp]:
  "clean b \<Longrightarrow> clean (AppendRequestBufferLayoutSummary b request)"
  "clean b \<Longrightarrow> clean (AppendResponseBufferLayoutSummary b request response have)"
  unfolding AppendRequestBufferLayoutSummary_def AppendResponseBufferLayoutSummary_def Let_def
  by (simp_all add: plain_take plain_layout plain_layout_sizes)

lemma clean_ssl_parts [simp]:
  "clean b \<Longrightarrow> clean (print_value b d)"
  "clean b \<Longrightarrow> clean (fst (ssl_root_request b c d))"
  "clean b \<Longrightarrow> clean (ssl_context_request b c d)"
  "clean b \<Longrightarrow> clean (append_peer b bytes)"
  "clean b \<Longrightarrow> clean (append_hostname b bytes)"
  by (auto simp add: print_value_def ssl_root_request_def ssl_context_request_def append_peer_def
      append_hostname_def Let_def dest: plain_sockaddr_result plain_hostname split: prod.split bool.split)

lemma clean_ssl_connections [simp]:
  "clean b \<Longrightarrow> clean (ssl_connection_request b c d r)"
  "clean b \<Longrightarrow> clean (ssl_connection_response b c d' r rp h)"
  by (simp_all add: ssl_connection_request_def ssl_connection_response_def Let_def split: option.split)

lemma clean_ssl [simp]:
  "clean b \<Longrightarrow> clean (FormatSslSemanticRequestSummary b path c rq request)"
  "clean b \<Longrightarrow> clean (FormatSslSemanticResponseSummary b path c info rs request response have)"
  by (simp_all add: FormatSslSemanticRequestSummary_def FormatSslSemanticResponseSummary_def Let_def case_prod_beta)

subsection \<open>Decoded messages\<close>

definition clean_request :: "RequestDecodeDetails \<Rightarrow> bool" where
  "clean_request d \<longleftrightarrow> short 128 (rq_raw_preview_hex d) \<and> short 128 (rq_payload_preview_hex d)"

definition clean_response :: "ResponseDecodeDetails \<Rightarrow> bool" where
  "clean_response d \<longleftrightarrow> short 128 (rs_raw_preview_hex d) \<and> short 128 (rs_payload_preview_hex d)
     \<and> rs_out_object_id_count d \<le> 8"

lemma short_hex_preview: "short 128 (hex_preview (min n HexPreviewBytes) bytes)"
  using length_hex_preview [of "min n HexPreviewBytes" bytes] by (simp add: short_def HexPreviewBytes_def)

lemma short_Nil: "short n []"
  by (simp add: short_def)

lemma decoded_request_clean: "clean_request (GetRequestDecodeDetails abi parse message)"
  by (auto simp: clean_request_def GetRequestDecodeDetails_def decode_domain_request_def decode_root_request_def
      fill_request_payload_def empty_request_details_def Let_def short_hex_preview short_Nil split: option.split)

lemma decoded_response_clean: "clean_response (GetResponseDecodeDetails abi parse message)"
  by (auto simp: clean_response_def GetResponseDecodeDetails_def decode_domain_response_def decode_root_response_def
      decode_object_ids_def fill_response_payload_def empty_response_details_def Let_def short_hex_preview short_Nil
      split: option.split)

lemma empty_response_clean: "clean_response empty_response_details"
  by (simp add: clean_response_def empty_response_details_def short_Nil)

lemma fit_decode_request [line_fits]:
  assumes "clean_call ct" "short 20 (fst names)" "short 30 (snd names)" "clean_request d"
  shows "fit 2045 (decode_request_members abi hf ct ts names d)"
  using fit_call [OF assms(1), of "''ipc_decode_request''" ts] assms(2-) short_selected_kind [of "ct_request_info ct"]
    short_command_type [of "rq_command_type d"]
  by (simp add: fit_simps decode_request_members_def clean_request_def Let_def)

lemma fit_decode_response [line_fits]:
  assumes "clean_call ct" "short 20 (fst names)" "short 30 (snd names)" "clean_response d"
  shows "fit 1789 (decode_response_members abi hf ct ts names result d)"
proof -
  have "length (returned_ids d) \<le> 8"
    using assms(4) by (simp add: returned_ids_def clean_response_def min_le_iff_disj)
  then show ?thesis
    using fit_call [OF assms(1), of "''ipc_decode_response''" ts] assms(2-) short_selected_kind [of "ct_request_info ct"]
    by (simp add: fit_simps decode_response_members_def clean_response_def Let_def)
qed

subsection \<open>Summary lines\<close>

text \<open>A text printed into a fresh array of \<open>n\<close> characters.\<close>

lemma short_in_buffer: "fits (fresh_buf n) b \<Longrightarrow> clean b \<Longrightarrow> 0 < n \<Longrightarrow> short (n - 1) (buf_text b)"
  by (cases b) (auto simp: fits_fresh short_def clean_def buf_ok_def buf_cap_def buf_text_def)

lemma fit_semantic [line_fits]:
  assumes "clean_call ct" "short 13 event" "short 20 (fst names)" "short 30 (snd names)" "short a request" "short b response"
  shows "fit (745 + a + b) (semantic_members ct event ts names result request response)"
  using assms by (simp add: clean_call_def fit_simps semantic_members_def call_members_def line_head_def client_members_def)

lemma fits_layouts [simp]:
  "fits out b \<Longrightarrow> fits out (AppendRequestBufferLayoutSummary b request)"
  "fits out b \<Longrightarrow> fits out (AppendResponseBufferLayoutSummary b request response have)"
  by (simp_all add: AppendRequestBufferLayoutSummary_def AppendResponseBufferLayoutSummary_def Let_def)

lemma fits_bsd_buffers [simp]:
  "fits out b \<Longrightarrow> fits out (snd (TryAppendBsdSockaddrRequestSummary b c request))"
  "fits out b \<Longrightarrow> fits out (snd (TryAppendBsdPayloadRequestSummary b c request))"
  "fits out b \<Longrightarrow> fits out (snd (TryAppendBsdSockOptRequestSummary b c request))"
  "fits out b \<Longrightarrow> fits out (snd (TryAppendBsdSockaddrResponseSummary b c request response have rs))"
  "fits out b \<Longrightarrow> fits out (snd (TryAppendBsdSockOptResponseSummary b c request response have))"
  by (auto simp: TryAppendBsdSockaddrRequestSummary_def TryAppendBsdPayloadRequestSummary_def
      TryAppendBsdSockOptRequestSummary_def TryAppendBsdSockaddrResponseSummary_def
      TryAppendBsdSockOptResponseSummary_def Let_def split: option.split prod.split bool.split)

lemma short_bsd_texts:
  "short 767 (buf_text (bsd_request_text path c rq request))"
  "short 511 (buf_text (bsd_response_text path c rs request response))"
proof -
  have "fits (fresh_buf 768) (bsd_request_text path c rq request)" "clean (bsd_request_text path c rq request)"
    by (simp_all add: bsd_request_text_def Let_def fits_formats split: option.split)
  then show "short 767 (buf_text (bsd_request_text path c rq request))"
    using short_in_buffer [of 768] by simp
  have "fits (fresh_buf 512) (bsd_response_text path c rs request response)" "clean (bsd_response_text path c rs request response)"
    by (simp_all add: bsd_response_text_def Let_def fits_formats split: option.split)
  then show "short 511 (buf_text (bsd_response_text path c rs request response))"
    using short_in_buffer [of 512] by simp
qed

lemma short_ssl_texts:
  "short 255 (buf_text (FormatSslSemanticRequestSummary (fresh_buf 256) path c rq request))"
  "short 255 (buf_text (FormatSslSemanticResponseSummary (fresh_buf 256) path c info rs request response have))"
  using short_in_buffer [of 256] by (simp_all add: fits_formats)

lemma length_formats:
  "length (fmt_u (w :: u32)) \<le> 10" "length (fmt_u (b :: u8)) \<le> 3" "length (fmt_x64 l) \<le> 18"
  "length (fmt_bool p) \<le> 5" "length (fmt_d i) \<le> 11" "length (ipv4_at bytes n) \<le> 15"
  using length_show_word [of 10 w] length_show_word [of 3 b] length_hex_upper [of 16 l] length_FormatIpv4
  by (simp_all add: fmt_u_def fmt_x64_def fmt_bool_def fmt_d_def ipv4_at_def length_show_int)

lemma length_ip_config: "length (ip_config_text bytes) \<le> 150"
  using length_formats(2) [of "bytes ! 0"] length_formats(2) [of "bytes ! 13"] length_formats(6) [of bytes 1]
    length_formats(6) [of bytes 5] length_formats(6) [of bytes 9] length_formats(6) [of bytes 14]
    length_formats(6) [of bytes 18]
  by (simp add: ip_config_text_def)

lemma short_nifm_texts:
  "short 60 (buf_text (FormatNifmSemanticRequestSummary (fresh_buf 192) path c rq))"
  "short 150 (buf_text (FormatNifmSemanticResponseSummary (fresh_buf 256) path c info rs))"
proof -
  have "length (fmt_u (rq_payload_words rq ! 0)) \<le> 10" "length (fmt_x64 (copy_word (rq_payload_bytes rq) 0)) \<le> 18"
    "length (fmt_bool (rq_payload_bytes rq ! 0 \<noteq> 0)) \<le> 5" "length (fmt_d (copy_word (rq_payload_bytes rq) 0)) \<le> 11"
    by (rule length_formats)+
  then have "length (buf_text (FormatNifmSemanticRequestSummary (fresh_buf 192) path c rq)) \<le> 60"
    by (simp add: FormatNifmSemanticRequestSummary_def Let_def)
  then show "short 60 (buf_text (FormatNifmSemanticRequestSummary (fresh_buf 192) path c rq))"
    by (simp add: short_def clean_text)
  have "length (ipv4_at (rs_payload_bytes rs) 0) \<le> 15" "length (fmt_bool (rs_payload_bytes rs ! 0 \<noteq> 0)) \<le> 5"
    "length (fmt_u (rs_payload_bytes rs ! 0)) \<le> 3" "length (fmt_u (rs_payload_bytes rs ! 1)) \<le> 3"
    "length (fmt_u (rs_payload_bytes rs ! 2)) \<le> 3" "length (fmt_u (rs_payload_words rs ! 0)) \<le> 10"
    "length (fmt_u (ri_out_object_count info)) \<le> 10" "length (hex_upper 8 (unat (ri_result_value info))) = 8"
    by (rule length_formats length_hex_upper | simp)+
  with length_ip_config [of "rs_payload_bytes rs"]
  have "length (buf_text (FormatNifmSemanticResponseSummary (fresh_buf 256) path c info rs)) \<le> 150"
    by (simp add: FormatNifmSemanticResponseSummary_def Let_def min_le_iff_disj)
  then show "short 150 (buf_text (FormatNifmSemanticResponseSummary (fresh_buf 256) path c info rs))"
    by (simp add: short_def clean_text)
qed

text \<open>The names a line gives for an object and a command.\<close>

lemma known_names_short [short_texts]:
  "short 20 (fst (known_names (fresh_buf 48) (fresh_buf 64) service path c))"
  "short 30 (snd (known_names (fresh_buf 48) (fresh_buf 64) service path c))"
proof -
  have eq: "DescribeKnownObjectAndCommand (Some service) (Some path) c (fresh_buf 48) (fresh_buf 64) =
      DescribeKnownObjectAndCommand (Some service) (Some path) c (snprintf (fresh_buf 48) []) (snprintf (fresh_buf 64) [])"
    by (simp add: DescribeKnownObjectAndCommand_def)
  obtain k n where kn: "(k, n) =
      DescribeKnownObjectAndCommand (Some service) (Some path) c (snprintf (fresh_buf 48) []) (snprintf (fresh_buf 64) [])"
    by (metis surj_pair)
  from short_known_names [OF kn]
  show "short 20 (fst (known_names (fresh_buf 48) (fresh_buf 64) service path c))"
    "short 30 (snd (known_names (fresh_buf 48) (fresh_buf 64) service path c))"
    by (simp_all add: known_names_def eq flip: kn)
qed

lemma service_names_short:
  "short 20 (buf_text (fst (GetNifmObjectKindAndCommandName path c (fresh_buf 48) (fresh_buf 64))))"
  "short 30 (buf_text (snd (GetNifmObjectKindAndCommandName path c (fresh_buf 48) (fresh_buf 64))))"
  "short 20 (buf_text (fst (GetBsdObjectKindAndCommandName path c (fresh_buf 48) (fresh_buf 64))))"
  "short 30 (buf_text (snd (GetBsdObjectKindAndCommandName path c (fresh_buf 48) (fresh_buf 64))))"
  "short 20 (buf_text (fst (GetSslObjectKindAndCommandName service path c (fresh_buf 48) (fresh_buf 64))))"
  "short 30 (buf_text (snd (GetSslObjectKindAndCommandName service path c (fresh_buf 48) (fresh_buf 64))))"
proof -
  have u: "short 30 (buf_text (snprintf (fresh_buf 64) ''Unknown''))" by (simp add: short_def)
  note names = command_names_short short_put_command [OF u]
  show "short 20 (buf_text (fst (GetNifmObjectKindAndCommandName path c (fresh_buf 48) (fresh_buf 64))))"
    "short 20 (buf_text (fst (GetBsdObjectKindAndCommandName path c (fresh_buf 48) (fresh_buf 64))))"
    "short 20 (buf_text (fst (GetSslObjectKindAndCommandName service path c (fresh_buf 48) (fresh_buf 64))))"
    by (simp_all add: GetNifmObjectKindAndCommandName_def GetBsdObjectKindAndCommandName_def
        GetSslObjectKindAndCommandName_def Let_def) (simp_all add: short_def)
  show "short 30 (buf_text (snd (GetNifmObjectKindAndCommandName path c (fresh_buf 48) (fresh_buf 64))))"
    "short 30 (buf_text (snd (GetBsdObjectKindAndCommandName path c (fresh_buf 48) (fresh_buf 64))))"
    "short 30 (buf_text (snd (GetSslObjectKindAndCommandName service path c (fresh_buf 48) (fresh_buf 64))))"
    by (simp_all add: GetNifmObjectKindAndCommandName_def GetBsdObjectKindAndCommandName_def
        GetSslObjectKindAndCommandName_def Let_def names u del: buf_text_snprintf_fresh)
qed

end
