(* ===== verification/TraceInvariant.thy ===== *)
theory TraceInvariant
  imports TraceSummaries
begin

text \<open>
  What every hook keeps. The contract of a hook is stated once, as a locale over an
  invariant of the module's state: the tables are reachable and hold plain texts, and
  whatever is recorded for the logger is a complete line, a record that fits its queue,
  or a message of the main log. The lemmas about the hooks are proved inside it.
\<close>

named_theorems keeps_rules \<open>rules of the invariant, applied by introduction\<close>

subsection \<open>Events a hook may cause\<close>

text \<open>
  A line must reach the logger's queue whole, path included, and read as one JSON object;
  a record must fit an entry of the binary queues.
\<close>

definition complete_event :: "logger_event \<Rightarrow> bool" where
  "complete_event e =
     (case e of
        Append_line path line \<Rightarrow>
          path = Some TracePath \<and>
          (case line of None \<Rightarrow> False
           | Some text \<Rightarrow> read_line text \<noteq> None
               \<and> offered_lines e = [\<lparr>line_path = TracePath, line_text = text\<rparr>])
      | Append_bytes path data \<Rightarrow>
          path \<noteq> None \<and> (case data of None \<Rightarrow> False | Some bytes \<Rightarrow> bytes \<noteq> [] \<and> length bytes \<le> MaxQueuedBlobLength)
      | Log_text tick message \<Rightarrow> True
      | Take_batch \<Rightarrow> False)"

lemma plain_not_NUL: "plain c \<Longrightarrow> c \<noteq> CHR 0x00"
  by (auto simp: plain_def)

lemma plain_no_NUL: "plain_text s \<Longrightarrow> CHR 0x00 \<notin> set s"
  by (auto simp: plain_text_def dest: plain_not_NUL)

lemma ids_no_NUL: "CHR 0x00 \<notin> set (ids_text is)"
  by (induction "is" rule: ids_text.induct) (auto dest: show_dec_digits simp: is_digit_def)

lemma jval_no_NUL: "plain_value v \<Longrightarrow> CHR 0x00 \<notin> set (jval_text v)"
  using plain_no_NUL [OF plain_show_dec] plain_no_NUL [OF plain_show_int] plain_no_NUL [OF hex_upper_plain]
  by (cases v) (simp_all add: quoted_def plain_no_NUL ids_no_NUL)

lemma more_no_NUL: "plain_members ms \<Longrightarrow> CHR 0x00 \<notin> set (more_text ms)"
proof (induction ms)
  case (Cons m ms)
  then show ?case
    by (cases m) (simp add: member_text_def quoted_def plain_no_NUL jval_no_NUL)
qed simp

lemma json_no_NUL: "plain_members ms \<Longrightarrow> CHR 0x00 \<notin> set (json_text ms [])"
  using more_no_NUL [of ms] by (cases ms) (simp_all add: json_text_def)

lemma c_str_id: "CHR 0x00 \<notin> set s \<Longrightarrow> c_str s = s"
  by (simp add: c_str_def takeWhile_eq_all_conv) auto

text \<open>A line of plain members that fits its array and the queue is complete.\<close>

lemma line_complete:
  assumes "fit w ms" "w + 3 \<le> n" "w + 3 \<le> MaxQueuedLineLength" "ms \<noteq> []"
  shows "complete_event (Append_line (Some TracePath) (Some (printed n (json_text ms []))))"
proof -
  let ?t = "json_text ms []"
  have plain: "plain_members ms" and len: "length ?t \<le> w + 2"
    using assms(1,4) length_json_text [of ms] by (auto simp: fit_def)
  have whole: "printed n ?t = ?t" using len assms(2) by (simp add: printed_def)
  have path: "c_str TracePath = TracePath" "TracePath \<noteq> []" "length TracePath < MaxQueuedPathLength"
    by (simp_all add: TracePath_def c_str_def MaxQueuedPathLength_def)
  have "c_str ?t = ?t" by (rule c_str_id [OF json_no_NUL [OF plain]])
  moreover have "?t \<noteq> []" by (simp add: json_text_def)
  moreover have "length ?t < MaxQueuedLineLength" using len assms(3) by simp
  ultimately have "offered_lines (Append_line (Some TracePath) (Some ?t)) = [\<lparr>line_path = TracePath, line_text = ?t\<rparr>]"
    using path by (simp add: line_entry_def)
  then show ?thesis
    using read_json_text [OF assms(4) plain] by (simp add: complete_event_def whole)
qed

lemma json_text_nonempty [simp]: "json_text ms extra \<noteq> []"
  by (simp add: json_text_def)

subsection \<open>Reachable tables with plain texts\<close>

definition traced :: "trace_tables \<Rightarrow> bool" where
  "traced t \<longleftrightarrow> tracked t \<and> (\<forall>e \<in> set (sessions t). plain_text (se_service_name e))
     \<and> (\<forall>e \<in> set (domain_paths t). short 95 (dp_relative_path e))"

lemma remember_slot_all:
  assumes "\<forall>e \<in> set t. P e" "\<And>e. P e \<Longrightarrow> P (refresh e)" "\<And>e. P e \<Longrightarrow> P (fresh e)"
  shows "\<forall>e \<in> set (snd (remember_slot hit used refresh fresh t)). P e"
proof -
  have upd: "\<forall>e \<in> set (t[i := f (t ! i)]). P e" if "\<And>e. P e \<Longrightarrow> P (f e)" for i f
    using assms(1) that set_update_subset_insert [of t i "f (t ! i)"]
    by (cases "i < length t") (auto simp: list_update_beyond)
  from upd [of refresh] upd [of fresh] assms(2,3) show ?thesis
    by (simp add: remember_slot_def split: sum.split option.split)
qed

lemma update_first_all:
  "\<forall>e \<in> set t. P e \<Longrightarrow> (\<And>e. P e \<Longrightarrow> P (f e)) \<Longrightarrow> \<forall>e \<in> set (snd (update_first hit f t)). P e"
  by (induction t) (auto simp: Let_def case_prod_beta)

lemma wipe_slots_all:
  "\<forall>e \<in> set t. P e \<Longrightarrow> (\<And>e. P e \<Longrightarrow> P (f e)) \<Longrightarrow> \<forall>e \<in> set (wipe_slots hit f t). P e"
  by (auto simp: wipe_slots_def)

lemma traced_tracked: "traced t \<Longrightarrow> tracked t"
  by (simp add: traced_def)

lemma traced_initial: "traced initial_tables"
  using tracked_initial by (auto simp: traced_def initial_tables_def empty_session_def empty_domain_path_def short_Nil)

lemma empty_entries [simp]: "short 95 (dp_relative_path empty_domain_path)" "plain_text (se_service_name empty_session)"
  by (simp_all add: empty_domain_path_def empty_session_def short_Nil)

lemma forget_entries_traced:
  "\<forall>e \<in> set (domain_paths t). short 95 (dp_relative_path e) \<Longrightarrow>
     \<forall>e \<in> set (domain_paths (forget_session_entries k t)). short 95 (dp_relative_path e)"
  by (simp only: forget_session_entries_tables) (intro wipe_slots_all; simp)

lemma traced_resets:
  assumes "traced t"
  shows "traced (ResetDomainPathState t)" "traced (ResetCloneHandleState t)"
    "traced (ResetSessionHandleState t)" "traced (ResetSessionState t)"
  using assms tracked_reset_paths tracked_reset_clones tracked_reset_handles tracked_reset_sessions
  unfolding traced_def
  by (simp_all add: ResetDomainPathState_def ResetCloneHandleState_def
      ResetSessionHandleState_def ResetSessionState_def reset_domain_path_def short_Nil)

lemma traced_RememberSession:
  assumes "traced t" "plain_text name"
  shows "traced (snd (RememberSessionLocked name k client t))"
proof -
  have "\<forall>e \<in> set (sessions (snd (RememberSessionLocked name k client t))). plain_text (se_service_name e)"
    unfolding RememberSession_sessions session_table.remember_def using assms
    by (intro remember_slot_all) (auto simp: traced_def refresh_session_def open_session_def fresh_session_def)
  moreover have "\<forall>e \<in> set (domain_paths (snd (RememberSessionLocked name k client t))). short 95 (dp_relative_path e)"
    using assms(1) forget_entries_traced [of t]
    by (auto simp: RememberSessionLocked_def Let_def traced_def split: sum.splits option.splits)
  ultimately show ?thesis using assms(1) tracked_session by (simp add: traced_def)
qed

lemma traced_ForgetSession:
  assumes "traced t" shows "traced (snd (snd (snd (ForgetSessionLocked k t))))"
proof -
  have "\<forall>e \<in> set (sessions (snd (snd (snd (ForgetSessionLocked k t))))). plain_text (se_service_name e)"
    using assms update_first_all [of "sessions t" "\<lambda>e. plain_text (se_service_name e)" "\<lambda>_. empty_session"]
    by (auto simp: traced_def ForgetSessionLocked_def Let_def case_prod_beta forget_session_entries_tables)
  moreover have "\<forall>e \<in> set (domain_paths (snd (snd (snd (ForgetSessionLocked k t))))). short 95 (dp_relative_path e)"
    using assms forget_entries_traced [of "t\<lparr>sessions := ss\<rparr>" for ss]
    by (auto simp: traced_def ForgetSessionLocked_def Let_def case_prod_beta)
  ultimately show ?thesis using assms tracked_forget by (simp add: traced_def)
qed

lemma traced_RememberDomainPath:
  assumes "traced t" "pred_option plain_text path"
  shows "traced (RememberDomainPath now a b path parent creator t)"
proof -
  have slots: "\<forall>e \<in> set (snd (remember_slot hit used (refresh_domain_path (now, p, parent, creator))
      (fresh_domain_path (a, b) (now, p, parent, creator)) (domain_paths t))). short 95 (dp_relative_path e)"
    if "plain_text p" for hit used p
    by (rule remember_slot_all) (use assms(1) that in \<open>simp_all add: traced_def dp_fields_remembered short_take\<close>)
  then have "\<forall>e \<in> set (domain_paths (RememberDomainPath now a b path parent creator t)). short 95 (dp_relative_path e)"
    using assms by (cases path) (simp_all add: traced_def RememberDomainPath_def)
  then show ?thesis using assms(1) tracked_path by (simp add: traced_def)
qed

lemma traced_MarkDomainPath:
  assumes "traced t" shows "traced (snd (MarkDomainPathCloseObserved now a b t))"
proof -
  have "\<forall>e \<in> set (snd (update_first hit (close_domain_path now) (domain_paths t))). short 95 (dp_relative_path e)" for hit
    by (rule update_first_all) (use assms in \<open>simp_all add: traced_def close_domain_path_def\<close>)
  then show ?thesis
    using assms tracked_path_closed [of t now a b]
    by (simp add: traced_def MarkDomainPathCloseObserved_def case_prod_beta Let_def)
qed

text \<open>The other operations leave sessions and paths alone.\<close>

lemma traced_handles:
  assumes "traced t"
  shows "traced (snd (RememberCloneHandleLocked now a h c t))"
    "traced (snd (snd (NoteCloneRegisteredLocked now a h srv fwd has t)))"
    "traced (snd (snd (MarkCloneClosedByServerHandleLocked now a h t)))"
    "traced (snd (RememberSessionHandleLocked now a h peer fwd has cl t))"
    "traced (snd (snd (snd (MarkSessionHandleCloseObservedLocked now a h t))))"
proof -
  note t = traced_tracked [OF assms]
  from assms show "traced (snd (RememberCloneHandleLocked now a h c t))"
    using tracked_clone [OF t, of now a h c] by (simp add: traced_def RememberCloneHandleLocked_def case_prod_beta)
  from assms show "traced (snd (snd (NoteCloneRegisteredLocked now a h srv fwd has t)))"
    using tracked_registered [OF t, of now a h srv fwd has]
    by (simp add: traced_def NoteCloneRegisteredLocked_def RememberCloneHandleLocked_def case_prod_beta Let_def split: if_splits)
  from assms show "traced (snd (snd (MarkCloneClosedByServerHandleLocked now a h t)))"
    using tracked_clone_closed [OF t, of now a h] by (simp add: traced_def MarkCloneClosedByServerHandleLocked_def case_prod_beta Let_def)
  from assms show "traced (snd (RememberSessionHandleLocked now a h peer fwd has cl t))"
    using tracked_handle [OF t, of now a h peer fwd has cl] by (simp add: traced_def RememberSessionHandleLocked_def case_prod_beta)
  from assms show "traced (snd (snd (snd (MarkSessionHandleCloseObservedLocked now a h t))))"
    using tracked_handle_closed [OF t, of now a h]
    by (simp add: traced_def MarkSessionHandleCloseObservedLocked_def case_prod_beta Let_def)
qed

lemma find_all: "\<forall>e \<in> set t. P e \<Longrightarrow> List.find hit t = Some e \<Longrightarrow> P e"
  by (auto simp: find_Some_iff)

lemma traced_path:
  assumes "traced t" "GetTrackedDomainPath a b t = Some e" shows "short 95 (dp_relative_path e)"
  using assms unfolding traced_def GetTrackedDomainPath_def by (auto dest: find_all)

lemma relative_path_short:
  assumes "traced t" "0 < n"
  shows "short 95 (buf_text (GetRelativeDomainPath (fresh_buf n) a b t))"
proof -
  have r: "short 95 ''root''" by (simp add: short_def)
  have o: "short 95 (''obj'' @ show_dec (unat b))"
    using length_show_word [of 10 b] by (simp add: short_def)
  show ?thesis
    using assms(2) short_snprintf [OF r] short_snprintf [OF o] traced_path [OF assms(1)]
    by (auto simp: GetRelativeDomainPath_def simp del: buf_text_snprintf_fresh intro: short_snprintf split: option.split)
qed

lemma object_path_short:
  assumes "traced t" "short 9 service"
  shows "short 105 (object_path_text service session_id object_id t)"
proof -
  have "short 105 (service @ ''.'' @ buf_text (GetRelativeDomainPath (fresh_buf MaxDomainPathLength) session_id object_id t))"
    using relative_path_short [OF assms(1), of MaxDomainPathLength session_id object_id] assms(2)
    by (simp add: short_def MaxDomainPathLength_def)
  from short_snprintf [OF this, of 160] show ?thesis
    by (simp add: object_path_text_def FormatObjectPath_def del: buf_text_snprintf_fresh)
qed

lemma remember_children_traced:
  "traced t \<Longrightarrow> plain_text parent \<Longrightarrow> traced (remember_children now k parent parent_id c i ids t)"
proof (induction ids arbitrary: i t)
  case (Cons x ids)
  have "plain_text (child_path parent c (of_nat i))" using Cons.prems(2) by (simp add: child_text_def plain_take)
  then have "traced (RememberDomainPath (now i) k x
      (Some (child_path parent c (of_nat i))) parent_id c t)"
    using Cons.prems(1) by (intro traced_RememberDomainPath) (simp_all add: plain_take)
  with Cons show ?case by (simp del: buf_text_snprintf_fresh)
qed simp

lemma RememberReturned_traced: "traced t \<Longrightarrow> traced (RememberReturnedDomainObjects now k parent_id c d t)"
  using relative_path_short [of t MaxDomainPathLength k parent_id]
  by (simp add: RememberReturnedDomainObjects_def remember_children_traced short_def MaxDomainPathLength_def)

end
