(* ===== verification/TraceKeeps.thy ===== *)
theory TraceKeeps
  imports TraceInvariant
begin

text \<open>
  Every hook keeps every invariant of the module's state that its primitive steps keep:
  the locale \<open>hook_invariant\<close> states the steps, and one lemma per hook follows the hook's
  definition with the rules of the state monad.
\<close>

subsection \<open>Rules of the state monad\<close>

text \<open>From a state of the invariant: the computation ends in one, and its result satisfies \<open>R\<close>.\<close>

definition keeps :: "(hooks \<Rightarrow> bool) \<Rightarrow> 'a hook \<Rightarrow> ('a \<Rightarrow> bool) \<Rightarrow> bool" where
  "keeps I m R \<longleftrightarrow> (\<forall>s. I s \<longrightarrow> I (snd (run_state m s)) \<and> R (fst (run_state m s)))"

abbreviation any :: "'a \<Rightarrow> bool" where "any \<equiv> \<lambda>_. True"

lemma keeps_bind:
  "keeps I m R \<Longrightarrow> (\<And>x. R x \<Longrightarrow> keeps I (f x) Q) \<Longrightarrow> keeps I (State_Monad.bind m f) Q"
  by (cases m) (simp add: keeps_def split_beta)

lemma keeps_seq: "keeps I m any \<Longrightarrow> (\<And>x. keeps I (f x) Q) \<Longrightarrow> keeps I (State_Monad.bind m f) Q"
  by (rule keeps_bind)

text \<open>The same for results that are tuples.\<close>

lemma keeps_bind_pair:
  "keeps I m (\<lambda>(a, b). R a b) \<Longrightarrow> (\<And>a b. R a b \<Longrightarrow> keeps I (f a b) Q) \<Longrightarrow>
     keeps I (State_Monad.bind m (\<lambda>(a, b). f a b)) Q"
  by (rule keeps_bind, assumption) auto

lemma keeps_bind_triple:
  "keeps I m (\<lambda>(a, b, c). R a b c) \<Longrightarrow> (\<And>a b c. R a b c \<Longrightarrow> keeps I (f a b c) Q) \<Longrightarrow>
     keeps I (State_Monad.bind m (\<lambda>(a, b, c). f a b c)) Q"
  by (rule keeps_bind, assumption) auto

lemma keeps_return: "R x \<Longrightarrow> keeps I (State_Monad.return x) R"
  by (simp add: keeps_def State_Monad.return_def)

lemma keeps_weaken: "keeps I m R \<Longrightarrow> keeps I m any"
  by (simp add: keeps_def)

lemma keeps_done [keeps_rules]: "keeps I done_hook any"
  by (simp add: done_hook_def keeps_return)

lemma keeps_when [keeps_rules]: "(b \<Longrightarrow> keeps I m any) \<Longrightarrow> keeps I (when_hook b m) any"
  by (simp add: when_hook_def keeps_done)

lemma keeps_if [keeps_rules]: "(b \<Longrightarrow> keeps I m R) \<Longrightarrow> (\<not> b \<Longrightarrow> keeps I n R) \<Longrightarrow> keeps I (if b then m else n) R"
  by simp

lemma keeps_option [keeps_rules]:
  "(x = None \<Longrightarrow> keeps I m R) \<Longrightarrow> (\<And>y. x = Some y \<Longrightarrow> keeps I (f y) R) \<Longrightarrow>
     keeps I (case x of None \<Rightarrow> m | Some y \<Rightarrow> f y) R"
  by (cases x) simp_all

lemma keeps_case_prod [keeps_rules]:
  "(\<And>a b. x = (a, b) \<Longrightarrow> keeps I (f a b) R) \<Longrightarrow> keeps I (case x of (a, b) \<Rightarrow> f a b) R"
  by (cases x) simp

lemma keeps_each: "(\<And>x. x \<in> set xs \<Longrightarrow> keeps I (f x) any) \<Longrightarrow> keeps I (each f xs) any"
  by (induction xs) (auto intro: keeps_done keeps_bind)

text \<open>A loop over numbered elements.\<close>

lemma keeps_enumerate:
  "(\<And>i x. x \<in> set xs \<Longrightarrow> keeps I (f i x) any) \<Longrightarrow> keeps I (each (\<lambda>(i, x). f i x) (enumerate n xs)) any"
  by (rule keeps_each) (auto simp: enumerate_eq_zip dest: set_zip_rightD)

lemma keeps_gets: "(\<And>s. I s \<Longrightarrow> R (f s)) \<Longrightarrow> keeps I (gets f) R"
  by (simp add: keeps_def gets_def)

lemma keeps_modify: "(\<And>s. I s \<Longrightarrow> I (f s)) \<Longrightarrow> keeps I (modify f) any"
  by (simp add: keeps_def modify_def)

text \<open>No line is empty.\<close>

lemma line_members_nonempty [simp]:
  "line_head run_id event ts service @ ms \<noteq> []" "trace_start_members tick now \<noteq> []"
  "domain_state_members tick now service client program session_id path phase dp \<noteq> []"
  "clone_state_members tick now service client program session_id phase ch clones \<noteq> []"
  "handle_state_members tick now service client program session_id phase sh active handles \<noteq> []"
  "connected_members tick now service client program session_id active \<noteq> []"
  "accept_failure_members tick now service client program result \<noteq> []"
  "forward_state_members tick now service client program session_id phase handle own object_id pointer_size \<noteq> []"
  "empty_snapshot_members tick now event count phase \<noteq> []"
  "session_snapshot_members tick now service se phase active i \<noteq> []"
  "domain_snapshot_members tick now service client session_id path dp phase active i \<noteq> []"
  "session_members tick now service program ses facts \<noteq> []"
  "operation_members tick now service event operation stage \<noteq> []"
  "dispatch_members tick now service program dsp \<noteq> []"
  "domain_members run_id now service program dctx \<noteq> []"
  "mutation_members tick now pre mode original effective sockaddr \<noteq> []"
  "buffer_members ct ts cphase direction i is_static capture d \<noteq> []"
  "handle_members ct now kind i hv \<noteq> []"
  "decode_request_members abi hf ct ts names rq \<noteq> []"
  "decode_response_members abi hf ct ts names result rs \<noteq> []"
  "semantic_members ct event ts names result request response \<noteq> []"
  "notif_members run_id ts ts' fwd program object_id request_id duration \<noteq> []"
  "replacement_members mc ct ts rb \<noteq> []"
  "response_members pl ct fwd names info reply \<noteq> []"
  "request_members ct ts names rh fd rd \<noteq> []"
  by (simp_all add: line_head_def trace_start_members_def domain_state_members_def clone_state_members_def
      handle_state_members_def connected_members_def accept_failure_members_def forward_state_members_def
      empty_snapshot_members_def session_snapshot_members_def domain_snapshot_members_def session_members_def
      operation_members_def dispatch_members_def domain_members_def mutation_members_def buffer_members_def
      handle_members_def decode_request_members_def decode_response_members_def semantic_members_def
      notif_members_def replacement_members_def response_members_def request_members_def call_members_def Let_def)

subsection \<open>The contract\<close>

locale hook_invariant =
  fixes pl :: platform and I :: "hooks \<Rightarrow> bool"
  assumes name_max: "pl_service_name_max pl \<le> 8"
    and tables: "I s \<Longrightarrow> traced (ho_tables s)"
    and set_tables: "I s \<Longrightarrow> traced t \<Longrightarrow> I (s\<lparr>ho_tables := t\<rparr>)"
    and recorded: "I s \<Longrightarrow> complete_event e \<Longrightarrow> I (s\<lparr>ho_events := ho_events s @ [e]\<rparr>)"
    and clock: "I s \<Longrightarrow> I (s\<lparr>ho_reads := n\<rparr>)"
    and start: "I s \<Longrightarrow> I (s\<lparr>ho_initialized := True, ho_run_tick := tick\<rparr>)"
    and meta: "I s \<Longrightarrow> I (s\<lparr>ho_meta := texts\<rparr>)"
    and session_id: "I s \<Longrightarrow> I (s\<lparr>ho_next_session_id := ho_next_session_id s + 1\<rparr>)"
    and request_id: "I s \<Longrightarrow> I (s\<lparr>ho_next_request_id := ho_next_request_id s + 1\<rparr>)"
begin

lemma service_short [simp]: "plain_text name \<Longrightarrow> short 9 (service_text pl n name)"
  by (rule short_service [OF _ name_max])

lemma keeps_tick: "keeps I (gets ho_run_tick) any" "keeps I (gets ho_initialized) any"
  by (simp_all add: keeps_gets)

lemma keeps_clock: "keeps I (GetMonotonicNs pl) any" "keeps I (system_tick pl) any"
  by (simp_all add: keeps_def GetMonotonicNs_def system_tick_def clock)

lemma keeps_ids: "keeps I AllocateSessionId any" "keeps I next_request_id any"
  by (simp_all add: keeps_def AllocateSessionId_def next_request_id_def session_id request_id)

lemma keeps_from_tables: "(\<And>t. traced t \<Longrightarrow> R (f t)) \<Longrightarrow> keeps I (from_tables f) R"
  by (simp add: from_tables_def keeps_gets tables)

lemma keeps_read_tables: "keeps I (from_tables f) any"
  by (simp add: keeps_from_tables)

lemma keeps_on_tables: "(\<And>t. traced t \<Longrightarrow> traced (snd (f t)) \<and> R (fst (f t))) \<Longrightarrow> keeps I (on_tables f) R"
  by (auto simp: keeps_def on_tables_def split_beta intro: set_tables dest: tables)

lemma keeps_emit: "complete_event e \<Longrightarrow> keeps I (emit e) any"
  by (simp add: emit_def keeps_modify recorded)

lemma keeps_main_log: "keeps I (main_log pl message) any"
  unfolding main_log_def
  by (rule keeps_bind [OF keeps_clock(2)]) (simp add: keeps_emit complete_event_def)

text \<open>A line is kept when its members fit its array and the queue.\<close>

lemma keeps_append:
  assumes "fit (min n 2048 - 3) ms" "ms \<noteq> []" "3 \<le> n"
  shows "keeps I (AppendLineToPath TracePath (printed n (json_text ms []))) any"
proof -
  have "complete_event (Append_line (Some TracePath) (Some (printed n (json_text ms []))))"
    using assms(3) by (intro line_complete [OF assms(1) _ _ assms(2)]) (simp_all add: MaxQueuedLineLength_def)
  then show ?thesis unfolding AppendLineToPath_def by (intro keeps_when keeps_emit)
qed

lemmas append_defs = AppendJsonLineForService_def AppendJsonLine_def AppendTraceLine_def

lemma keeps_line:
  assumes "fit (min n 2048 - 3) ms" "ms \<noteq> []" "3 \<le> n"
  shows "keeps I (json_line n service ms []) any"
  using keeps_append [OF assms] by (simp add: json_line_def append_defs keeps_when)

lemma keeps_broadcast:
  assumes "fit (min n 2048 - 3) ms" "ms \<noteq> []" "3 \<le> n"
  shows "keeps I (broadcast_line n ms) any"
  using keeps_append [OF assms] by (simp add: broadcast_line_def append_defs keeps_when)

lemma keeps_line_extra:
  assumes "fit v ms" "fit w ns" "v + w + 3 \<le> min n 2048" "ms \<noteq> []"
  shows "keeps I (json_line n service ms (more_text ns)) any"
proof -
  have "keeps I (json_line n service (ms @ ns) []) any"
    using fit_append [OF assms(1,2), of "min n 2048 - 3"] assms(3,4) by (intro keeps_line) auto
  then show ?thesis using assms(4) by (simp add: json_line_def json_text_more)
qed

lemma keeps_object_path:
  "short 9 service \<Longrightarrow> keeps I (from_tables (object_path_text service session_id object_id)) (short 105)"
  by (rule keeps_from_tables) (rule object_path_short)


lemmas hook_rules = keeps_seq keeps_done keeps_when keeps_if keeps_tick keeps_clock keeps_ids keeps_main_log
  keeps_line keeps_broadcast keeps_read_tables

subsection \<open>Sessions, domains, the service manager\<close>

lemma keeps_reset:
  "keeps I (on_tables (\<lambda>t. ((), ResetDomainPathState t))) any"
  "keeps I (on_tables (\<lambda>t. ((), ResetSessionHandleState t))) any"
  "keeps I (on_tables (\<lambda>t. ((), ResetCloneHandleState t))) any"
  "keeps I (on_tables (\<lambda>t. ((), ResetSessionState t))) any"
  by (auto intro!: keeps_on_tables traced_resets)

lemma keeps_Initialize: "keeps I (Initialize_hooks pl) any"
  unfolding Initialize_hooks_def WriteMetaFile_def Let_def
  by (intro hook_rules keeps_reset keeps_modify start meta) (simp_all add: line_fits)

lemma keeps_LogDomainObjectState:
  assumes "short 9 service" "short 32 (phase_text phase)" "short 95 (dp_relative_path entry)"
  shows "keeps I (LogDomainObjectState pl service client session_id phase entry) any"
  unfolding LogDomainObjectState_def
  by (rule keeps_bind [OF keeps_object_path [OF assms(1)]], intro hook_rules)
    (use assms in \<open>simp_all add: line_fits short_program\<close>)

lemma keeps_LogCloneHandleState:
  assumes "short 9 service" "short 32 (phase_text phase)"
  shows "keeps I (LogCloneHandleState pl service client session_id phase entry clones) any"
  unfolding LogCloneHandleState_def using assms
  by (intro hook_rules) (simp_all add: line_fits short_program)

lemma keeps_LogSessionHandleState:
  assumes "short 9 service" "short 32 (phase_text phase)"
  shows "keeps I (LogSessionHandleState pl service client session_id phase entry active handles) any"
  unfolding LogSessionHandleState_def using assms
  by (intro hook_rules) (simp_all add: line_fits short_program)

lemma keeps_RememberSession:
  "plain_text name \<Longrightarrow> keeps I (on_tables (RememberSessionLocked name session_id client)) any"
  by (rule keeps_on_tables) (simp add: traced_RememberSession)

lemma keeps_LogSessionConnected:
  assumes "plain_text name" shows "keeps I (LogSessionConnected pl name session_id client) any"
  unfolding LogSessionConnected_def Let_def using assms
  by (intro hook_rules keeps_Initialize keeps_RememberSession) (simp_all add: line_fits short_program)

lemma keeps_LogSessionAcceptFailure:
  assumes "plain_text name" shows "keeps I (LogSessionAcceptFailure pl name client result) any"
  unfolding LogSessionAcceptFailure_def Let_def using assms
  by (intro hook_rules keeps_Initialize) (simp_all add: line_fits short_program)

lemma keeps_LogForwardServiceState:
  assumes "plain_text name" "short 32 (phase_text phase)"
  shows "keeps I (LogForwardServiceState pl name client session_id phase handle own object_id pointer_size) any"
  unfolding LogForwardServiceState_def Let_def using assms
  by (intro hook_rules keeps_Initialize) (simp_all add: line_fits short_program)

lemma copy_slots_in: "copy_slots p n t = (es, k) \<Longrightarrow> e \<in> set es \<Longrightarrow> e \<in> set t"
  by (auto simp: copy_slots_def dest: in_set_takeD)

lemma session_name_plain: "traced t \<Longrightarrow> e \<in> set (sessions t) \<Longrightarrow> plain_text (se_service_name e)"
  by (simp add: traced_def)

lemma found_session_plain: "traced t \<Longrightarrow> FindSessionEntryLocked k t = Some e \<Longrightarrow> plain_text (se_service_name e)"
  unfolding traced_def FindSessionEntryLocked_def by (auto dest: find_all)

lemma keeps_LogSessionSnapshot:
  assumes "short 32 (phase_text phase)" shows "keeps I (LogSessionSnapshot pl phase) any"
proof -
  have copy: "keeps I (from_tables (CopyTrackedSessions MaxTrackedSessions))
      (\<lambda>(es, k). \<forall>e \<in> set es. plain_text (se_service_name e))"
    by (rule keeps_from_tables)
      (auto simp: CopyTrackedSessions_def CopyTrackedSessionsLocked_def dest: session_name_plain copy_slots_in)
  have line: "keeps I (do {
      let service = service_text pl 8 (se_service_name entry);
      now \<leftarrow> GetMonotonicNs pl;
      json_line 1024 service (session_snapshot_members tick now service entry phase active i) [] }) any"
    if "plain_text (se_service_name entry)" for entry tick active i
    unfolding Let_def using that assms by (intro hook_rules) (simp_all add: line_fits)
  have empty: "keeps I (do {
      now \<leftarrow> GetMonotonicNs pl;
      broadcast_line 768 (empty_snapshot_members tick now ''session_snapshot'' ''active_session_count'' phase) }) any" for tick
    using assms by (intro hook_rules) (simp_all add: line_fits short_def)
  show ?thesis
    unfolding LogSessionSnapshot_def
    by (rule keeps_seq [OF keeps_Initialize], rule keeps_bind_pair [OF copy], rule keeps_seq [OF keeps_tick(1)],
        rule keeps_if [OF empty], rule keeps_enumerate, rule line) blast
qed

lemma keeps_domain_snapshot_line:
  assumes "plain_text name" "short 32 (phase_text phase)" "short 95 (dp_relative_path entry)"
  shows "keeps I (domain_snapshot_line pl (service_text pl 8 name) client session_id phase active i entry) any"
  unfolding domain_snapshot_line_def
  by (rule keeps_bind [OF keeps_object_path [OF service_short [OF assms(1)]]], intro hook_rules)
    (use assms in \<open>simp_all add: line_fits\<close>)

lemma path_entry_short: "traced t \<Longrightarrow> e \<in> set (domain_paths t) \<Longrightarrow> short 95 (dp_relative_path e)"
  by (simp add: traced_def)

lemma keeps_LogDomainSnapshot:
  assumes "short 32 (phase_text phase)" shows "keeps I (LogDomainSnapshot pl phase) any"
proof -
  have sessions: "keeps I (from_tables (CopyTrackedSessionsLocked MaxTrackedSessions))
      (\<lambda>(es, k). \<forall>e \<in> set es. plain_text (se_service_name e))"
    by (rule keeps_from_tables)
      (auto simp: CopyTrackedSessionsLocked_def dest: session_name_plain copy_slots_in)
  have paths: "keeps I (from_tables (CopyTrackedDomainPathsLocked MaxTrackedDomainPaths))
      (\<lambda>(es, k). \<forall>e \<in> set es. short 95 (dp_relative_path e))"
    by (rule keeps_from_tables) (auto simp: CopyTrackedDomainPathsLocked_def dest: path_entry_short copy_slots_in)
  have empty: "keeps I (do {
      run_tick \<leftarrow> gets ho_run_tick;
      now \<leftarrow> GetMonotonicNs pl;
      broadcast_line 768 (empty_snapshot_members run_tick now ''domain_snapshot'' ''active_domain_count'' phase) }) any"
    using assms by (intro hook_rules) (simp_all add: line_fits short_def)
  have found: "plain_text (se_service_name e)"
    if "\<forall>e \<in> set es. plain_text (se_service_name e)" "FindCapturedSessionEntry (Some es) k j = Some e" for es k j e
    using that unfolding FindCapturedSessionEntry_def by (auto dest: find_all [rotated] dest!: in_set_takeD simp: find_Some_iff)
  show ?thesis
    unfolding LogDomainSnapshot_def
    by (rule keeps_seq [OF keeps_Initialize], rule keeps_bind_pair [OF sessions], rule keeps_bind_pair [OF paths],
        rule keeps_if [OF empty], rule keeps_enumerate, rule keeps_option [OF keeps_done],
        rule keeps_domain_snapshot_line) (auto simp: assms dest: found)
qed

lemma keeps_LogDomainSnapshotForSession:
  assumes "short 32 (phase_text phase)" shows "keeps I (LogDomainSnapshotForSession pl session_id phase) any"
proof -
  have paths: "keeps I (from_tables (CopyTrackedDomainPathsForSessionLocked session_id MaxTrackedDomainPaths))
      (\<lambda>(es, k, e). (\<forall>e \<in> set es. short 95 (dp_relative_path e)) \<and> plain_text (se_service_name e))"
    by (rule keeps_from_tables)
      (auto simp: CopyTrackedDomainPathsForSessionLocked_def
        dest: path_entry_short copy_slots_in found_session_plain split: prod.split option.split)
  show ?thesis
    unfolding LogDomainSnapshotForSession_def
    by (rule keeps_seq [OF keeps_Initialize], rule keeps_bind_triple [OF paths], rule keeps_if [OF keeps_done],
        rule keeps_enumerate, rule keeps_domain_snapshot_line) (auto simp: assms)
qed

lemma extra_text_fit: "fit w (enabled parts) \<Longrightarrow> w < n \<Longrightarrow> extra_text n parts = more_text (enabled parts)"
  by (rule extra_text_room) (simp add: fit_def)

lemma keeps_LogSmLifecycle:
  assumes "plain_text (smc_service_name ctx)" shows "keeps I (LogSmLifecycle pl ctx) any"
proof -
  note extra = extra_text_fit [OF fit_enabled [OF fit_sm_parts [of pl ctx]], of 320]
  have line: "keeps I (json_line 1024 service (operation_members tick now (service_text pl 8 (smc_service_name ctx)) ''sm_mitm''
      (event_text (GetSmLifecycleOperation (smc_event_type ctx))) (event_text (GetSmLifecyclePhase (smc_event_type ctx))))
      (extra_text 320 (sm_parts pl ctx))) any" for service tick now
    unfolding extra [simplified]
    by (rule keeps_line_extra [OF fit_operation fit_enabled [OF fit_sm_parts]])
      (use assms in \<open>simp_all add: short_names, simp_all add: short_def\<close>)
  show ?thesis
    unfolding LogSmLifecycle_def MirrorSmLifecycleToMainLog_def Let_def
    by (intro hook_rules keeps_Initialize line)
qed

lemma keeps_LogAcceptTrace:
  assumes "plain_text (acc_service_name ctx)" shows "keeps I (LogAcceptTrace pl ctx) any"
proof -
  note extra = extra_text_fit [OF fit_enabled [OF fit_accept_parts [of pl ctx]], of 512]
  have line: "keeps I (json_line 1200 service (operation_members tick now (service_text pl 8 (acc_service_name ctx)) ''mitm_accept''
      (event_text (GetAcceptOperation (acc_event_type ctx))) (event_text (GetAcceptPhase (acc_event_type ctx))))
      (extra_text 512 (accept_parts pl ctx))) any" for service tick now
    unfolding extra [simplified]
    by (rule keeps_line_extra [OF fit_operation fit_enabled [OF fit_accept_parts]])
      (use assms in \<open>simp_all add: short_accept_names, simp_all add: short_def\<close>)
  show ?thesis
    unfolding LogAcceptTrace_def MirrorAcceptTraceToMainLog_def Let_def
    by (intro hook_rules keeps_Initialize line)
qed

subsection \<open>Dispatches and the life of a session\<close>

lemma keeps_RememberClone: "keeps I (on_tables (RememberCloneHandleLocked now k h c)) any"
  by (rule keeps_on_tables) (simp add: traced_handles)

lemma keeps_LogDispatchTrace:
  assumes "plain_text (dsp_service_name ctx)" shows "keeps I (LogDispatchTrace pl ctx) any"
proof -
  let ?service = "service_text pl 8 (dsp_service_name ctx)"
  have names: "keeps I (from_tables (dispatch_names ?service ctx))
      (\<lambda>(kind, name). \<exists>t. (kind, name) = dispatch_names ?service ctx t)"
    by (rule keeps_from_tables) (metis (mono_tags, lifting) case_prod_beta' prod.collapse)
  have line: "keeps I (json_line 1792 ?service
      (dispatch_members tick now ?service (program_text (dsp_client_info ctx)) ctx)
      (extra_text 768 (dispatch_parts kind name clones ctx))) any"
    if "(kind, name) = dispatch_names ?service ctx t" for tick now kind name clones t
    using keeps_line_extra [OF fit_dispatch fit_dispatch_parts [OF that], of ?service, where n = 1792]
      extra_text_fit [OF fit_dispatch_parts [OF that], of 768] assms
    by (simp add: short_program)
  show ?thesis
    unfolding LogDispatchTrace_def Let_def
    apply (rule keeps_seq [OF keeps_Initialize], rule keeps_if [OF keeps_done], rule keeps_bind_pair [OF names])
    by (elim exE, intro hook_rules keeps_RememberClone keeps_LogCloneHandleState)
      (auto intro: line simp: assms phase_text_def, simp_all add: short_def)
qed

lemma keeps_remember_handle: "keeps I (remember_handle pl ctx is_clone) any"
  unfolding remember_handle_def
  by (intro hook_rules keeps_on_tables) (simp add: traced_handles)

lemma keeps_session_counts:
  "keeps I (from_tables (session_counts ctx h c)) (\<lambda>facts. short 32 (sf_event_name facts))"
  by (rule keeps_from_tables) (simp add: session_counts_def short_session_name)

lemma keeps_accept_session: "keeps I (accept_session pl ctx) (\<lambda>facts. short 32 (sf_event_name facts))"
  unfolding accept_session_def by (intro keeps_seq [OF keeps_remember_handle] keeps_session_counts)

lemma keeps_register_clone: "keeps I (register_clone_session pl ctx) (\<lambda>facts. short 32 (sf_event_name facts))"
proof -
  have note_clone: "keeps I (on_tables (\<lambda>t.
      let (r, _, t') = NoteCloneRegisteredLocked now k h srv fwd has t in (r, t'))) any" for now k h srv fwd has
    by (rule keeps_on_tables) (simp add: case_prod_beta Let_def traced_handles)
  show ?thesis
    unfolding register_clone_session_def
    by (intro keeps_seq [OF keeps_remember_handle] keeps_seq [OF keeps_clock(1)] keeps_seq [OF note_clone]
        keeps_session_counts)
qed

lemma keeps_log_open_clones:
  assumes "short 9 service" shows "keeps I (log_open_clones pl service ctx session_entry entries n) any"
  unfolding log_open_clones_def
  by (intro keeps_if keeps_each keeps_LogCloneHandleState assms) (simp_all add: phase_text_def short_def)

lemma keeps_close_session:
  assumes "short 9 service"
  shows "keeps I (close_session pl service ctx) (\<lambda>facts. short 32 (sf_event_name facts))"
proof -
  have handle: "keeps I (on_tables (\<lambda>t. let (r, a, n, t') = MarkSessionHandleCloseObservedLocked now k h t
      in ((r, a, n), t'))) any" for now k h
    by (rule keeps_on_tables) (simp add: case_prod_beta Let_def traced_handles)
  have clone: "keeps I (on_tables (\<lambda>t. let (r, n, t') = MarkCloneClosedByServerHandleLocked now k h t
      in ((r, n), t'))) any" for now k h
    by (rule keeps_on_tables) (simp add: case_prod_beta Let_def traced_handles)
  have forget: "keeps I (on_tables (\<lambda>t. let (_, _, n, t') = ForgetSessionLocked k t in (n, t'))) any" for k
    by (rule keeps_on_tables) (simp add: case_prod_beta Let_def traced_ForgetSession)
  have phase: "short 32 (phase_text (Some ''pre_disconnect_final''))" by (simp add: phase_text_def short_def)
  show ?thesis
    unfolding close_session_def Let_def [of "_ = 0"]
    by (intro keeps_case_prod keeps_seq [OF keeps_read_tables] keeps_seq [OF keeps_clock(1)] keeps_seq [OF handle] keeps_seq [OF clone]
        keeps_seq [OF keeps_option] keeps_done keeps_when keeps_seq [OF keeps_LogDomainSnapshotForSession]
        keeps_seq [OF keeps_if] keeps_log_open_clones forget keeps_read_tables keeps_return phase assms)
      (simp add: short_def)
qed

lemma keeps_session_change:
  assumes "short 9 service"
  shows "keeps I (session_change pl service ctx) (\<lambda>facts. short 32 (sf_event_name facts))"
  by (cases "ses_event_type ctx")
    (simp_all add: session_change_def keeps_accept_session keeps_register_clone keeps_close_session [OF assms]
      keeps_session_counts)

lemma keeps_LogSessionTrace:
  assumes "plain_text (ses_service_name ctx)" shows "keeps I (LogSessionTrace pl ctx) any"
proof -
  let ?service = "service_text pl 8 (ses_service_name ctx)"
  have service: "short 9 ?service" by (simp add: assms)
  have line: "keeps I (json_line 1408 ?service
      (session_members tick now ?service (program_text (ses_client_info ctx)) ctx facts)
      (printed 256 (more_text (session_extra ctx facts)))) any"
    if "short 32 (sf_event_name facts)" for tick now facts
    using keeps_line_extra [OF fit_session [OF service short_program that] fit_session_extra, where n = 1408]
    by (simp add: printed_room [OF fit_session_extra])
  show ?thesis
    unfolding LogSessionTrace_def Let_def
    by (rule keeps_seq [OF keeps_Initialize], rule keeps_bind [OF keeps_session_change [OF service]],
        intro hook_rules keeps_seq [OF keeps_option] keeps_LogSessionHandleState keeps_LogCloneHandleState service line)
      (simp_all add: phase_text_def, simp_all add: short_def)
qed

subsection \<open>Domain events\<close>

lemma keeps_log_tracked_object:
  assumes "short 9 service" "short 32 phase"
  shows "keeps I (log_tracked_object pl service client session_id object_id phase) any"
proof -
  have path: "keeps I (from_tables (GetTrackedDomainPath session_id object_id))
      (\<lambda>r. \<forall>e. r = Some e \<longrightarrow> short 95 (dp_relative_path e))"
    by (rule keeps_from_tables) (auto dest: traced_path)
  show ?thesis
    unfolding log_tracked_object_def
    by (rule keeps_bind [OF path], rule keeps_option [OF keeps_done], rule keeps_LogDomainObjectState)
      (auto simp: assms phase_text_def)
qed

lemma keeps_RememberDomainPath:
  "pred_option plain_text path \<Longrightarrow>
     keeps I (on_tables (\<lambda>t. ((), RememberDomainPath now k i path parent creator t))) any"
  by (rule keeps_on_tables) (simp add: traced_RememberDomainPath)

lemma keeps_MarkDomainPath:
  "keeps I (on_tables (MarkDomainPathCloseObserved now k i)) (\<lambda>r. \<forall>e. r = Some e \<longrightarrow> short 95 (dp_relative_path e))"
proof (rule keeps_on_tables)
  fix t assume t: "traced t"
  have "short 95 (dp_relative_path e)" if "fst (MarkDomainPathCloseObserved now k i t) = Some e" for e
    using that t find_all [of "domain_paths t" "\<lambda>e. short 95 (dp_relative_path e)"]
    by (auto simp: MarkDomainPathCloseObserved_def traced_def case_prod_beta Let_def update_first_find close_domain_path_def
        split: if_splits)
  with traced_MarkDomainPath [OF t] show "traced (snd (MarkDomainPathCloseObserved now k i t)) \<and>
      (\<forall>e. fst (MarkDomainPathCloseObserved now k i t) = Some e \<longrightarrow> short 95 (dp_relative_path e))"
    by blast
qed

lemma keeps_OnDomainTrace:
  assumes "plain_text (dom_service_name ctx)" shows "keeps I (OnDomainTrace pl ctx) any"
proof -
  let ?service = "service_text pl 8 (dom_service_name ctx)"
  have service: "short 9 ?service" by (simp add: assms)
  have line: "keeps I (json_line 1400 ?service
      (domain_members (printed 64 (run_id_text tick)) now ?service (program_text (dom_client_info ctx)) ctx)
      (case dom_forward_state ctx of None \<Rightarrow> [] | Some f \<Rightarrow> printed 192 (more_text (forward_members f)))) any" for tick now
    using keeps_line_extra [OF fit_domain [OF short_printed [OF short_run_id] service short_program] fit_forward, where n = 1400]
      keeps_line [OF fit_mono [OF fit_domain [OF short_printed [OF short_run_id] service short_program]], where n = 1400]
    by (auto simp: printed_room [OF fit_forward] split: option.split)
  show ?thesis
    unfolding OnDomainTrace_def Let_def
    by (intro keeps_seq [OF keeps_tick(1)] keeps_seq [OF keeps_clock(1)] keeps_seq [OF line] keeps_seq [OF keeps_when]
        keeps_when keeps_seq [OF keeps_RememberDomainPath] keeps_log_tracked_object service keeps_bind [OF keeps_MarkDomainPath]
        keeps_option keeps_done keeps_LogDomainObjectState)
      (simp_all add: phase_text_def, simp_all add: short_def)
qed

subsection \<open>Forwarded requests\<close>

lemma keeps_Preprocess: "keeps I (OnForwardRequestPreprocess pl mc ctx out) any"
proof (cases "replaced_address pl mc ctx out")
  case None
  then show ?thesis by (simp add: OnForwardRequestPreprocess_def keeps_return)
next
  case (Some sockaddr)
  show ?thesis
  proof (cases out)
    case None
    then show ?thesis by (simp add: OnForwardRequestPreprocess_def replaced_address_def keeps_return)
  next
    case (Some replacement)
    show ?thesis
      unfolding OnForwardRequestPreprocess_def Let_def \<open>out = Some replacement\<close>
        \<open>replaced_address pl mc ctx out = Some sockaddr\<close> [unfolded \<open>out = Some replacement\<close>] prod.case option.case
      by (intro hook_rules keeps_return) (simp_all add: line_fits short_endpoint)
  qed
qed

lemma record_complete: "e \<in> set (binary_events magic tick service c bytes) \<Longrightarrow> complete_event e"
proof -
  assume e: "e \<in> set (binary_events magic tick service c bytes)"
  then obtain path rc where r: "e = Append_bytes (Some path) (Some rc)"
    "rc \<in> set (chunk_records magic tick service c bytes 0)"
    by (auto simp: binary_events_def split: if_splits option.splits)
  with chunk_record_size [OF r(2)] show ?thesis by (simp add: complete_event_def r(1) MaxQueuedBlobLength_def)
qed

lemma keeps_EmitBufferRecord:
  assumes "clean_call ct" shows "keeps I (EmitBufferRecord pl ct ts phase direction is_static capture (i, d)) any"
  unfolding EmitBufferRecord_def
  using assms by (auto intro!: hook_rules keeps_each keeps_emit record_complete simp: line_fits)

lemma keeps_request_buffers: "clean_call ct \<Longrightarrow> keeps I (LogRequestBufferRecords pl ct request ts) any"
  unfolding LogRequestBufferRecords_def EmitPointerStaticRecord_def EmitMapAliasBufferRecord_def
  by (intro keeps_seq keeps_each) (auto intro: keeps_EmitBufferRecord)

lemma keeps_response_buffers: "clean_call ct \<Longrightarrow> keeps I (LogResponseBufferRecords pl ct request response ts) any"
  unfolding LogResponseBufferRecords_def EmitPointerStaticRecord_def EmitMapAliasBufferRecord_def
  by (intro keeps_seq keeps_each) (auto intro: keeps_EmitBufferRecord)

lemma keeps_handles:
  assumes "clean_call ct" shows "keeps I (LogHandleRecords pl ct response) any"
proof -
  have line: "keeps I (do { now \<leftarrow> GetMonotonicNs pl; json_line 768 (ct_service ct) (handle_members ct now kind i h) [] }) any"
    if "short 4 kind" for kind i h
    using assms that by (intro hook_rules) (simp_all add: line_fits)
  show ?thesis
    unfolding LogHandleRecords_def by (intro keeps_seq keeps_enumerate line) (simp_all add: short_def)
qed

lemma keeps_decode_records:
  assumes "clean_call ct" "clean_request rq" "clean_response rs"
  shows "keeps I (LogDecodeRecords pl hf ct ctx info rq rs) any"
  unfolding LogDecodeRecords_def Let_def
  using assms by (intro hook_rules) (simp_all add: line_fits known_names_short)

lemma keeps_semantic:
  assumes "clean_call ct" "short 13 event" "short 20 kind" "short 30 name" "short a request" "short b response"
    and "748 + a + b \<le> min n 2048"
  shows "keeps I (json_line n service (semantic_members ct event ts (kind, name) result request response) []) any"
proof (rule keeps_line)
  show "fit (min n 2048 - 3) (semantic_members ct event ts (kind, name) result request response)"
    using fit_semantic [OF assms(1,2) _ _ assms(5,6), of "(kind, name)" ts result] assms(3,4,7)
    by (auto elim!: fit_mono)
qed (use assms(7) in simp_all)

lemma keeps_nifm:
  assumes "clean_call ct" shows "keeps I (EmitNifmSemanticRecord pl ct ctx info rq rs) any"
  unfolding EmitNifmSemanticRecord_def Let_def case_prod_beta
  by (intro keeps_if keeps_done keeps_semantic [OF assms _ service_names_short(1,2) short_nifm_texts])
    (simp_all add: short_def)

lemma keeps_bsd:
  assumes "clean_call ct" shows "keeps I (EmitBsdSemanticRecord pl ct ctx rq rs request response) any"
  unfolding EmitBsdSemanticRecord_def Let_def case_prod_beta
  by (intro keeps_if keeps_done keeps_semantic [OF assms _ service_names_short(3,4) short_bsd_texts])
    (simp_all add: short_def)

lemma keeps_ssl:
  assumes "clean_call ct" shows "keeps I (EmitSslSemanticRecord pl ct ctx info rq rs request response) any"
  unfolding EmitSslSemanticRecord_def Let_def case_prod_beta
  by (intro keeps_if keeps_done keeps_semantic [OF assms _ service_names_short(5,6) short_ssl_texts])
    (simp_all add: short_def)

lemma keeps_notif:
  assumes "short 25 run_id" "short 18 program" shows "keeps I (trace_notif pl ctx run_id program) any"
  unfolding trace_notif_def Let_def using assms
  by (intro hook_rules) (simp_all add: line_fits)

lemma keeps_log_replacement:
  assumes "clean_call ct" shows "keeps I (log_replacement pl mc ct ctx) any"
  unfolding log_replacement_def Let_def using assms
  by (intro hook_rules) (simp_all add: line_fits)

lemma keeps_remember_returned: "keeps I (remember_returned pl k info d) any"
proof -
  have "I (s\<lparr>ho_tables := t, ho_reads := n\<rparr>)" if "I s" "traced t" for s t n
    using clock [OF set_tables [OF that]] by simp
  then show ?thesis
    by (simp add: keeps_def remember_returned_def RememberReturned_traced tables)
qed

lemma keeps_log_returned:
  assumes "clean_call ct" shows "keeps I (log_returned_objects pl ct d) any"
  unfolding log_returned_objects_def using assms
  by (intro keeps_when keeps_each keeps_log_tracked_object) (simp_all add: clean_call_def, simp add: short_def)

lemma keeps_trace_call:
  assumes "clean_call ct" "short 20 (fst names)" "short 30 (snd names)"
  shows "keeps I (trace_call pl mc hf ctx ct names) any"
proof -
  note decoded = decoded_request_clean [of "pl_abi pl" "pl_parse_request pl" "fwd_request_message ctx"]
  have reply: "clean_response (case fwd_response_message ctx of
      Some m \<Rightarrow> GetResponseDecodeDetails (pl_abi pl) (pl_parse_response pl) m | None \<Rightarrow> empty_response_details)"
    by (simp add: decoded_response_clean empty_response_clean split: option.split)
  note lines = keeps_line [OF fit_mono [OF fit_request [OF assms]]] keeps_line [OF fit_mono [OF fit_response [OF assms]]]
  show ?thesis
    unfolding trace_call_def Let_def
    by (intro keeps_seq [OF keeps_when] keeps_main_log keeps_seq [OF keeps_log_replacement] keeps_seq [OF keeps_option]
        keeps_option keeps_done keeps_request_buffers keeps_seq [OF keeps_decode_records] keeps_seq [OF keeps_nifm]
        keeps_seq [OF keeps_bsd] keeps_seq [OF keeps_ssl] keeps_seq [OF keeps_remember_returned]
        keeps_seq [OF keeps_log_returned] keeps_seq [OF keeps_response_buffers] keeps_handles
        keeps_seq [OF lines(1)] keeps_seq [OF lines(2)] keeps_response_buffers assms decoded reply) simp_all
qed

lemma keeps_OnForwardRequestTrace:
  assumes "plain_text (fwd_service_name ctx)" shows "keeps I (OnForwardRequestTrace pl mc hf ctx) any"
proof -
  have service: "short 9 (service_text pl 8 (fwd_service_name ctx))" by (simp add: assms)
  have run_id: "short 25 (printed 64 (run_id_text tick))" for tick by (rule short_printed [OF short_run_id])
  show ?thesis
    unfolding OnForwardRequestTrace_def Let_def
    by (intro keeps_seq [OF keeps_tick(1)] keeps_if keeps_notif run_id short_program keeps_seq [OF keeps_ids(2)]
        keeps_bind [OF keeps_object_path [OF service]] keeps_done keeps_trace_call known_names_short)
      (simp add: clean_call_def run_id service short_program)
qed
end

end
