(* ===== verification/TraceProperties.thy ===== *)
theory TraceProperties
  imports TraceKeeps
begin

text \<open>
  The properties of a whole run of the trace module (\<^verbatim>\<open>net-probe/src/mitm_trace.cpp\<close>), and of the
  module composed with the logger that takes its events.
\<close>

subsection \<open>Runs\<close>

text \<open>
  The service names a run is given are plain text (they are the names of the services
  the probe registers, eight printable characters at most), the phases are short.
\<close>

fun clean_hook_call :: "hook_call \<Rightarrow> bool" where
  "clean_hook_call (Sm_lifecycle ctx) = plain_text (smc_service_name ctx)"
| "clean_hook_call (Accept_trace ctx) = plain_text (acc_service_name ctx)"
| "clean_hook_call (Dispatch_trace ctx) = plain_text (dsp_service_name ctx)"
| "clean_hook_call (Session_trace ctx) = plain_text (ses_service_name ctx)"
| "clean_hook_call (Forward_trace ctx) = plain_text (fwd_service_name ctx)"
| "clean_hook_call (Domain_trace ctx) = plain_text (dom_service_name ctx)"
| "clean_hook_call (Session_connected name session_id client) = plain_text name"
| "clean_hook_call (Accept_failure name client result) = plain_text name"
| "clean_hook_call (Forward_service name client session_id phase handle own object_id pointer_size) =
     (plain_text name \<and> short 32 (phase_text phase))"
| "clean_hook_call (Session_snapshot phase) = short 32 (phase_text phase)"
| "clean_hook_call (Domain_snapshot phase) = short 32 (phase_text phase)"
| "clean_hook_call (Session_domain_snapshot session_id phase) = short 32 (phase_text phase)"
| "clean_hook_call _ = True"

context hook_invariant
begin

lemma keeps_run_hook: "clean_hook_call c \<Longrightarrow> keeps I (run_hook pl mc hf c) any"
  by (cases c) (auto intro: keeps_done keeps_ids keeps_Initialize keeps_LogSmLifecycle keeps_LogAcceptTrace
      keeps_LogDispatchTrace keeps_LogSessionTrace keeps_OnForwardRequestTrace keeps_OnDomainTrace
      keeps_LogSessionConnected keeps_LogSessionAcceptFailure keeps_LogForwardServiceState keeps_LogSessionSnapshot
      keeps_LogDomainSnapshot keeps_LogDomainSnapshotForSession keeps_bind [OF keeps_Preprocess]
      keeps_bind [OF keeps_ids(1)])

lemma run_keeps: "\<forall>c \<in> set cs. clean_hook_call c \<Longrightarrow> I s \<Longrightarrow> I (run_hooks pl mc hf cs s)"
proof (induction cs arbitrary: s)
  case (Cons c cs)
  then have "I (snd (run_state (run_hook pl mc hf c) s))"
    using keeps_run_hook [of c mc hf] by (simp add: keeps_def)
  with Cons show ?case by simp
qed simp
end

text \<open>
  The invariant of a run from a state with the events \<open>old\<close>: the tables are reachable
  and plain, the events only grow, every new event is complete.
\<close>

definition recording :: "logger_event list \<Rightarrow> hooks \<Rightarrow> bool" where
  "recording old s \<longleftrightarrow> traced (ho_tables s)
     \<and> take (length old) (ho_events s) = old \<and> list_all complete_event (drop (length old) (ho_events s))"

text \<open>The platform of the model with at most eight characters in a service name.\<close>

definition eight_chars :: "platform \<Rightarrow> platform" where
  "eight_chars pl = pl\<lparr>pl_service_name_max := min 8 (pl_service_name_max pl)\<rparr>"

interpretation run: hook_invariant "eight_chars pl" "recording old" for pl old
proof
  fix s e
  assume "recording old s" "complete_event e"
  then show "recording old (s\<lparr>ho_events := ho_events s @ [e]\<rparr>)"
    by (auto simp: recording_def dest: arg_cong [of _ _ length])
qed (simp_all add: recording_def eight_chars_def)

lemma eight_chars_id: "pl_service_name_max pl \<le> 8 \<Longrightarrow> eight_chars pl = pl"
  by (simp add: eight_chars_def)

lemma run_recording:
  assumes "pl_service_name_max pl \<le> 8" "\<forall>c \<in> set cs. clean_hook_call c" "traced (ho_tables s)"
  shows "recording (ho_events s) (run_hooks pl mc hf cs s)"
  using run.run_keeps [of cs "ho_events s" s pl mc hf] assms by (simp add: eight_chars_id recording_def)

text \<open>
  C1. Whatever the monitor calls in whatever order, every line the module hands to the
  logger is one complete JSON object that its array, the logger's queue entry and the
  path all hold whole, every record fits a queue entry, and the tables stay reachable.
\<close>

theorem run_records_complete_events:
  assumes "pl_service_name_max pl \<le> 8" "\<forall>c \<in> set cs. clean_hook_call c"
  shows "(\<forall>e \<in> set (ho_events (run_hooks pl mc hf cs initial_hooks)). complete_event e)
    \<and> tracked (ho_tables (run_hooks pl mc hf cs initial_hooks))"
proof -
  have "traced (ho_tables initial_hooks)" by (simp add: initial_hooks_def traced_initial)
  from run_recording [OF assms this] show ?thesis
    by (simp add: recording_def traced_tracked initial_hooks_def list_all_iff)
qed

text \<open>A platform whose clocks count the readings, for the instances.\<close>

definition example_platform :: platform where
  "example_platform = \<lparr>pl_monotonic_ns = (\<lambda>n. of_nat n), pl_system_tick = (\<lambda>n. 100 + of_nat n),
     pl_tick_ns = (\<lambda>t. 52 * t), pl_service_name_max = 8, pl_invalid_handle = 0, pl_build_id = ''build'',
     pl_binary_magic = 0x4E585242, pl_abi = example_abi, pl_parse_request = example_request,
     pl_parse_response = example_response\<rparr>"

definition example_fields :: header_fields where
  "example_fields = \<lparr>hf_in_version = (\<lambda>h. copy_word h 4), hf_in_token = (\<lambda>h. copy_word h 12),
     hf_out_version = (\<lambda>h. copy_word h 4), hf_out_token = (\<lambda>h. copy_word h 12),
     hf_domain_in_num_in_objects = (\<lambda>h. h ! 1), hf_domain_in_token = (\<lambda>h. copy_word h 12)\<rparr>"

definition example_run :: "hook_call list" where
  "example_run = [Initialize_call, Session_connected ''nifm:u'' 1 \<lparr>process_id = 80, program_id = 0x0100000000001000\<rparr>,
     Forward_service ''bsd:s'' \<lparr>process_id = 80, program_id = 0x0100000000001000\<rparr> 2 (Some ''created'') 7 True 0 4096,
     Session_snapshot None, Domain_snapshot (Some ''end'')]"

lemma example_run_clean: "pl_service_name_max example_platform \<le> 8" "\<forall>c \<in> set example_run. clean_hook_call c"
  by (simp_all add: example_platform_def example_run_def plain_text_def plain_def short_def phase_text_def)

theorem run_records_complete_events_witness:
  "list_all complete_event (ho_events (run_hooks example_platform
      \<lparr>mc_mode = ShadowCopy, mc_forwarder_program_id = 5\<rparr> example_fields example_run initial_hooks))"
  unfolding list_all_iff using run_records_complete_events [OF example_run_clean] by blast

subsection \<open>The module and the logger\<close>

text \<open>
  C13. Between the module and the file: when the logger takes the calls of a run, with the
  flush thread taking batches at any moment, every queued or delivered line of the trace
  file is, byte for byte, a line the module printed, and reads as one JSON object.
\<close>

theorem delivered_trace_lines_read:
  assumes "pl_service_name_max pl \<le> 8" "\<forall>c \<in> set cs. clean_hook_call c"
    and "filter (\<lambda>e. e \<noteq> Take_batch) es = ho_events (run_hooks pl mc hf cs initial_hooks)"
    and "logger_run es (Initialize initial_logger) = (bs, lg)"
    and "l \<in> set (concat (map batch_lines bs) @ queued_lines lg)" "line_path l = TracePath"
  shows "read_line (line_text l) \<noteq> None
    \<and> Append_line (Some TracePath) (Some (line_text l)) \<in> set (ho_events (run_hooks pl mc hf cs initial_hooks))"
proof -
  let ?run = "run_hooks pl mc hf cs initial_hooks"
  have "recording [] ?run"
    using run_recording [OF assms(1,2), of initial_hooks] by (simp add: initial_hooks_def traced_initial)
  then have complete: "complete_event e" if "e \<in> set (ho_events ?run)" for e
    using that by (simp add: recording_def list_all_iff)
  have banner: "line_path b = LogFilePath" if "b \<in> set (queued_lines (Initialize initial_logger))" for b
    using that by (rule initial_lines)
  from logger_run_accounting [OF Initialize_ok [OF initial_logger_ok] Initialize_initial assms(4)] assms(5)
  have "l \<in> set (queued_lines (Initialize initial_logger) @ concat (map offered_lines es))"
    by (blast dest: subseq_set)
  with banner assms(6) obtain e where e: "e \<in> set es" "l \<in> set (offered_lines e)"
    by (auto simp: TracePath_def LogFilePath_def)
  then have event: "e \<in> set (ho_events ?run)"
    unfolding assms(3) [symmetric] by (cases e) auto
  from complete [OF event] e(2) assms(6) event show ?thesis
    by (cases e) (auto simp: complete_event_def line_entry_def TracePath_def LogFilePath_def MaxQueuedPathLength_def
        split: option.splits if_splits)
qed

theorem delivered_trace_lines_read_witness:
  "let s = run_hooks example_platform \<lparr>mc_mode = ShadowCopy, mc_forwarder_program_id = 5\<rparr>
      example_fields example_run initial_hooks;
    (bs, lg) = logger_run (Take_batch # ho_events s @ [Take_batch]) (Initialize initial_logger)
   in \<forall>l \<in> set (concat (map batch_lines bs) @ queued_lines lg). line_path l = TracePath \<longrightarrow> read_line (line_text l) \<noteq> None"
proof -
  let ?mc = "\<lparr>mc_mode = ShadowCopy, mc_forwarder_program_id = 5\<rparr>"
  let ?s = "run_hooks example_platform ?mc example_fields example_run initial_hooks"
  let ?es = "Take_batch # ho_events ?s @ [Take_batch]"
  have "\<forall>e \<in> set (ho_events ?s). e \<noteq> Take_batch"
    using run_recording [OF example_run_clean, of initial_hooks ?mc example_fields]
    by (auto simp: initial_hooks_def traced_initial recording_def list_all_iff complete_event_def)
  then have "filter (\<lambda>e. e \<noteq> Take_batch) ?es = ho_events ?s" by simp
  note reads = delivered_trace_lines_read [OF example_run_clean this]
  show ?thesis unfolding Let_def by (rule case_prodI2) (use reads in blast)
qed

subsection \<open>Lines leave the tables alone\<close>

text \<open>In a started module.\<close>

named_theorems silent_rules \<open>computations that leave the tables as they are\<close>

definition silent :: "'a hook \<Rightarrow> bool" where
  "silent m \<longleftrightarrow> (\<forall>s. ho_initialized s \<longrightarrow>
     ho_initialized (snd (run_state m s)) \<and> ho_tables (snd (run_state m s)) = ho_tables s)"

lemma silent_tables: "silent m \<Longrightarrow> ho_initialized s \<Longrightarrow>
     ho_initialized (snd (run_state m s)) \<and> ho_tables (snd (run_state m s)) = ho_tables s"
  by (simp add: silent_def)

lemma run_bind: "run_state (State_Monad.bind m f) s = run_state (f (fst (run_state m s))) (snd (run_state m s))"
  by (cases m) (simp add: case_prod_beta)

lemma silent_start [silent_rules]: "silent (Initialize_hooks pl)"
  by (simp add: silent_def Initialize_hooks_def gets_def done_hook_def State_Monad.return_def run_bind)

lemma silent_bind [silent_rules]: "silent m \<Longrightarrow> (\<And>x. silent (f x)) \<Longrightarrow> silent (State_Monad.bind m f)"
  by (simp add: silent_def run_bind case_prod_beta)

lemma silent_cases [silent_rules]:
  "silent m \<Longrightarrow> silent (when_hook b m)" "silent m \<Longrightarrow> silent n \<Longrightarrow> silent (if b then m else n)"
  "silent m \<Longrightarrow> (\<And>y. silent (f y)) \<Longrightarrow> silent (case x of None \<Rightarrow> m | Some y \<Rightarrow> f y)"
  "(\<And>a c. silent (g a c)) \<Longrightarrow> silent (case p of (a, c) \<Rightarrow> g a c)"
  by (simp_all add: when_hook_def done_hook_def silent_def State_Monad.return_def split: option.split prod.split)

lemma silent_each [silent_rules]: "(\<And>x. silent (f x)) \<Longrightarrow> silent (each f xs)"
  by (induction xs) (simp_all add: done_hook_def silent_def State_Monad.return_def run_bind case_prod_beta)

lemma silent_steps [silent_rules]:
  "silent done_hook" "silent (GetMonotonicNs pl)" "silent (system_tick pl)" "silent (emit e)" "silent (gets f)"
  "silent (from_tables g)" "silent (State_Monad.return x)"
  by (simp_all add: silent_def done_hook_def GetMonotonicNs_def system_tick_def emit_def modify_def gets_def
      from_tables_def State_Monad.return_def)

lemma silent_lines [silent_rules]:
  "silent (json_line n service ms extra)" "silent (main_log pl message)"
  unfolding json_line_def AppendJsonLineForService_def AppendJsonLine_def AppendTraceLine_def AppendLineToPath_def main_log_def
  by (intro silent_rules)+

lemma silent_states [silent_rules]:
  "silent (LogDomainObjectState pl service client k phase dp)"
  "silent (LogCloneHandleState pl service client k phase ch n)"
  "silent (LogSessionHandleState pl service client k phase sh a n)"
  unfolding LogDomainObjectState_def LogCloneHandleState_def LogSessionHandleState_def Let_def by (intro silent_rules)+

lemma silent_snapshot [silent_rules]: "silent (LogDomainSnapshotForSession pl k phase)"
  unfolding LogDomainSnapshotForSession_def domain_snapshot_line_def Let_def by (intro silent_rules)

lemma silent_open_clones [silent_rules]: "silent (log_open_clones pl service ctx e es n)"
  unfolding log_open_clones_def by (intro silent_rules)

subsection \<open>The end of a session\<close>

text \<open>The tables after the two close marks, at the times \<open>c\<close> and \<open>d\<close>.\<close>

definition close_marks :: "u64 \<Rightarrow> u64 \<Rightarrow> SessionTraceContext \<Rightarrow> trace_tables \<Rightarrow> trace_tables" where
  "close_marks c d ctx t =
     snd (snd (MarkCloneClosedByServerHandleLocked d (ses_session_id ctx) (ses_session_handle ctx)
       (snd (snd (snd (MarkSessionHandleCloseObservedLocked c (ses_session_id ctx) (ses_session_handle ctx) t))))))"

lemma close_marks_tracked: "tracked t \<Longrightarrow> tracked (close_marks c d ctx t)"
  by (simp add: close_marks_def tracked_clone_closed tracked_handle_closed)

lemma close_marks_others:
  "sessions (close_marks c d ctx t) = sessions t" "domain_paths (close_marks c d ctx t) = domain_paths t"
  "CountTrackedSessionHandlesForSessionLocked k b (close_marks c d ctx t)
     = CountTrackedSessionHandlesForSessionLocked k b
         (snd (snd (snd (MarkSessionHandleCloseObservedLocked c (ses_session_id ctx) (ses_session_handle ctx) t))))"
  by (simp_all add: close_marks_def MarkCloneClosedByServerHandleLocked_def MarkSessionHandleCloseObservedLocked_def
      CountTrackedSessionHandlesForSessionLocked_def Let_def split: prod.split)

lemma marked_count:
  "MarkSessionHandleCloseObservedLocked c k h t = (r, a, n, t') \<Longrightarrow>
     a = CountTrackedSessionHandlesForSessionLocked k True t'"
  by (auto simp: MarkSessionHandleCloseObservedLocked_def Let_def split: prod.splits)

lemma close_session_tables:
  assumes "ho_initialized s"
  shows "\<exists>c d. let t = close_marks c d ctx (ho_tables s); u = snd (run_state (close_session pl service ctx) s)
    in ho_initialized u \<and> ho_tables u = (if CountTrackedSessionHandlesForSessionLocked (ses_session_id ctx) True t = 0
         then snd (snd (snd (ForgetSessionLocked (ses_session_id ctx) t))) else t)"
proof -
  have silent: "ho_initialized u \<Longrightarrow> ho_initialized (snd (run_state (case x of None \<Rightarrow> done_hook
        | Some e \<Rightarrow> when_hook b (do { LogDomainSnapshotForSession pl (ses_session_id ctx) ph;
            log_open_clones pl service ctx e es n })) u))
      \<and> ho_tables (snd (run_state (case x of None \<Rightarrow> done_hook
        | Some e \<Rightarrow> when_hook b (do { LogDomainSnapshotForSession pl (ses_session_id ctx) ph;
            log_open_clones pl service ctx e es n })) u)) = ho_tables u" for u x b ph es n
    by (rule silent_tables) (intro silent_rules)
  let ?c = "pl_monotonic_ns pl (ho_reads s)" and ?d = "pl_monotonic_ns pl (Suc (ho_reads s))"
  obtain r a n t1 where m: "MarkSessionHandleCloseObservedLocked ?c (ses_session_id ctx) (ses_session_handle ctx)
      (ho_tables s) = (r, a, n, t1)" by (rule prod_cases4)
  obtain r' n' t2 where m': "MarkCloneClosedByServerHandleLocked ?d (ses_session_id ctx) (ses_session_handle ctx) t1
      = (r', n', t2)" by (rule prod_cases3)
  have t: "close_marks ?c ?d ctx (ho_tables s) = t2" by (simp add: close_marks_def m m')
  have a: "CountTrackedSessionHandlesForSessionLocked (ses_session_id ctx) True t2 = a"
    using close_marks_others(3) [of "ses_session_id ctx" True ?c ?d ctx "ho_tables s"] marked_count [OF m]
    by (simp add: t m)
  show ?thesis
    by (rule exI [of _ ?c], rule exI [of _ ?d])
      (simp add: close_session_def t a Let_def run_bind from_tables_def gets_def GetMonotonicNs_def on_tables_def m m'
        State_Monad.return_def silent assms case_prod_beta)
qed

lemma session_trace_tables:
  assumes "ho_initialized s" "ses_event_type ctx = SessionClose"
  shows "\<exists>c d. let t = close_marks c d ctx (ho_tables s) in ho_tables (snd (run_state (LogSessionTrace pl ctx) s))
    = (if CountTrackedSessionHandlesForSessionLocked (ses_session_id ctx) True t = 0
       then snd (snd (snd (ForgetSessionLocked (ses_session_id ctx) t))) else t)"
proof -
  let ?service = "service_text pl 8 (ses_service_name ctx)"
  let ?u = "snd (run_state (Initialize_hooks pl) s)"
  have u: "ho_initialized ?u" "ho_tables ?u = ho_tables s" using silent_tables [OF silent_start assms(1)] by simp_all
  let ?v = "snd (run_state (close_session pl ?service ctx) ?u)"
  obtain rest where rest: "LogSessionTrace pl ctx
      = State_Monad.bind (Initialize_hooks pl) (\<lambda>_. State_Monad.bind (close_session pl ?service ctx) rest)"
    and silent: "\<And>facts. silent (rest facts)"
    by (rule that, unfold LogSessionTrace_def session_change_def assms(2) Let_def SessionTraceEventType.case,
        rule refl, (intro silent_rules)+)
  have "ho_initialized ?v \<Longrightarrow> ho_tables (snd (run_state (LogSessionTrace pl ctx) s)) = ho_tables ?v"
    unfolding rest run_bind using silent_tables [OF silent] by blast
  with close_session_tables [OF u(1), of ctx pl ?service] u(2) show ?thesis by (fastforce simp: Let_def)
qed

text \<open>
  C14. When a session handle closes, the module either still tracks an open handle of
  that session, or nothing of the session is left: no entry, no domain path, no session
  handle and no clone. Whichever it is, other sessions keep their entries and their paths.
\<close>

theorem closed_session_leaves_nothing:
  assumes "tracked (ho_tables s)" "ho_initialized s" "ses_event_type ctx = SessionClose"
    and "t = ho_tables (snd (run_state (LogSessionTrace pl ctx) s))" "k = ses_session_id ctx"
  shows "(0 < CountTrackedSessionHandlesForSessionLocked k True t
      \<or> FindSessionEntryLocked k t = None \<and> \<not> session_entries k t)
    \<and> (\<forall>j b. j \<noteq> k \<longrightarrow> FindSessionEntryLocked j t = FindSessionEntryLocked j (ho_tables s)
         \<and> GetTrackedDomainPath j b t = GetTrackedDomainPath j b (ho_tables s))"
proof -
  obtain c d where t: "t = (let t = close_marks c d ctx (ho_tables s) in
      if CountTrackedSessionHandlesForSessionLocked k True t = 0 then snd (snd (snd (ForgetSessionLocked k t))) else t)"
    using session_trace_tables [OF assms(2,3), of pl] unfolding assms(4,5) Let_def by blast
  let ?m = "close_marks c d ctx (ho_tables s)"
  have same: "FindSessionEntryLocked j ?m = FindSessionEntryLocked j (ho_tables s)"
    "GetTrackedDomainPath j b ?m = GetTrackedDomainPath j b (ho_tables s)" for j b
    by (simp_all add: FindSessionEntryLocked_def GetTrackedDomainPath_def close_marks_others)
  obtain found e n t' where f: "ForgetSessionLocked k ?m = (found, e, n, t')" by (rule prod_cases4)
  from forget_session_facts [OF close_marks_tracked [OF assms(1)] f] same show ?thesis
    by (cases "CountTrackedSessionHandlesForSessionLocked k True ?m = 0") (simp_all add: t f)
qed

definition example_close :: SessionTraceContext where
  "example_close = \<lparr>ses_event_type = SessionClose, ses_service_name = ''nifm:u'',
     ses_client_info = \<lparr>process_id = 80, program_id = 0x0100000000001000\<rparr>, ses_session_id = 5,
     ses_session_handle = 7, ses_peer_handle = 8, ses_forward_handle = 0, ses_has_forward_handle = False\<rparr>"

theorem closed_session_leaves_nothing_witness:
  "let s = initial_hooks\<lparr>ho_initialized := True, ho_tables := RememberDomainPath 9 5 3 (Some ''root.cmd4[0]'') 0 4
      (snd (RememberSessionLocked ''nifm:u'' 5 no_client initial_tables))\<rparr>;
    t = ho_tables (snd (run_state (LogSessionTrace example_platform example_close) s))
   in 0 < CountTrackedSessionHandlesForSessionLocked 5 True t \<or> FindSessionEntryLocked 5 t = None \<and> \<not> session_entries 5 t"
proof -
  let ?t = "RememberDomainPath 9 5 3 (Some ''root.cmd4[0]'') 0 4
      (snd (RememberSessionLocked ''nifm:u'' 5 no_client initial_tables))"
  let ?s = "initial_hooks\<lparr>ho_initialized := True, ho_tables := ?t\<rparr>"
  have "tracked (ho_tables ?s)" "ho_initialized ?s" "ses_event_type example_close = SessionClose"
    "5 = ses_session_id example_close"
    using tracked_example by (simp_all add: example_close_def)
  from closed_session_leaves_nothing [OF this(1-3) refl this(4)] show ?thesis unfolding Let_def by blast
qed

subsection \<open>The replaced address\<close>















end
