(* ===== verification/ToolboxRuntime.thy ===== *)
theory ToolboxRuntime
  imports Prelude
begin

text \<open>
  The runtime helpers of the toolbox (\<^verbatim>\<open>toolbox/src/runtime.cpp\<close>, \<^verbatim>\<open>runtime.hpp\<close>,
  \<^verbatim>\<open>logger.cpp\<close>): the texts of results, addresses and payload previews, the log
  directories, and the logger with its recent lines, its file and its sink. The clock, the
  formatted time stamps and the texts of \<^verbatim>\<open>strerror\<close> belong to the platform and are
  arguments.
\<close>

subsection \<open>Texts\<close>

text \<open>\<^verbatim>\<open>snprintf\<close> into a local array of \<open>n\<close> characters that is returned as a string.\<close>

definition local_text :: "nat \<Rightarrow> string \<Rightarrow> string" where
  "local_text n s = take (n - 1) (c_str s)"

text \<open>\<^verbatim>\<open>std::to_string\<close> of an unsigned value.\<close>

definition to_string :: "'a::len word \<Rightarrow> string" where "to_string w = show_dec (unat w)"

definition MakeLogPath :: "string \<Rightarrow> string" where
  "MakeLogPath run_id = ''sdmc:/nxrv/toolbox'' @ ''/toolbox-'' @ run_id @ ''.log''"

text \<open>\<open>EnsureDirectory\<close> from what \<^verbatim>\<open>mkdir\<close> reports: success, or an existing directory.\<close>

datatype mkdir_result = Directory_made | Directory_exists | Directory_refused

definition EnsureDirectory :: "(string \<Rightarrow> mkdir_result) \<Rightarrow> string \<Rightarrow> bool" where
  "EnsureDirectory mkdir path = (mkdir path \<noteq> Directory_refused)"

definition EnsureLogDirectories :: "(string \<Rightarrow> mkdir_result) \<Rightarrow> bool" where
  "EnsureLogDirectories mkdir \<longleftrightarrow> EnsureDirectory mkdir ''sdmc:/nxrv'' \<and> EnsureDirectory mkdir ''sdmc:/nxrv/toolbox''"

text \<open>\<^verbatim>\<open>strftime\<close> gives no text when it does not fit the array.\<close>

definition FormatTimestamp :: "string option \<Rightarrow> string" where
  "FormatTimestamp formatted = (case formatted of None \<Rightarrow> ''unknown'' | Some text \<Rightarrow> text)"

definition MonotonicTimestampNs :: "u64 \<Rightarrow> u64 \<Rightarrow> string" where
  "MonotonicTimestampNs tv_sec tv_nsec = local_text 64 (to_string (tv_sec * 1000000000 + tv_nsec))"

definition FormatIpv4_number :: "u32 \<Rightarrow> string" where
  "FormatIpv4_number addr =
     local_text 32 (to_string (addr AND 0xFF) @ ''.'' @ to_string ((drop_bit 8 addr) AND 0xFF) @ ''.''
       @ to_string ((drop_bit 16 addr) AND 0xFF) @ ''.'' @ to_string ((drop_bit 24 addr) AND 0xFF))"

definition FormatResult :: "u32 \<Rightarrow> string" where
  "FormatResult rc = local_text 32 (''0x'' @ pad_zero 8 (show_hex True (unat rc)))"

definition FormatErrno :: "(int \<Rightarrow> string) \<Rightarrow> int \<Rightarrow> string" where
  "FormatErrno strerror value = local_text 160 (show_int value @ '' ('' @ strerror value @ '')'')"

definition FormatHosVersion :: "u32 \<Rightarrow> bool \<Rightarrow> string" where
  "FormatHosVersion hos atmosphere =
     local_text 48 (to_string ((drop_bit 16 hos) AND 0xFF) @ ''.'' @ to_string ((drop_bit 8 hos) AND 0xFF) @ ''.''
       @ to_string (hos AND 0xFF) @ (if atmosphere then ''|AMS'' else []))"

text \<open>\<open>SleepMilliseconds\<close>: the nanoseconds the thread sleeps.\<close>

definition SleepMilliseconds :: "u32 \<Rightarrow> int" where
  "SleepMilliseconds milliseconds = uint milliseconds * 1000000"

text \<open>The enumerators the two switches name; any other value is the last one.\<close>

datatype NifmInternetConnectionType = WiFi | Ethernet | OtherConnectionType

fun FormatInternetConnectionType :: "NifmInternetConnectionType \<Rightarrow> string" where
  "FormatInternetConnectionType WiFi = ''wifi''"
| "FormatInternetConnectionType Ethernet = ''ethernet''"
| "FormatInternetConnectionType OtherConnectionType = ''unknown''"

datatype NifmInternetConnectionStatus =
  ConnectingUnknown1 | ConnectingUnknown2 | ConnectingUnknown3 | ConnectingUnknown4 | Connected | OtherConnectionStatus

fun FormatInternetConnectionStatus :: "NifmInternetConnectionStatus \<Rightarrow> string" where
  "FormatInternetConnectionStatus ConnectingUnknown1 = ''connecting-0''"
| "FormatInternetConnectionStatus ConnectingUnknown2 = ''connecting-1''"
| "FormatInternetConnectionStatus ConnectingUnknown3 = ''connecting-2''"
| "FormatInternetConnectionStatus ConnectingUnknown4 = ''connecting-3''"
| "FormatInternetConnectionStatus Connected = ''connected''"
| "FormatInternetConnectionStatus OtherConnectionStatus = ''unknown''"

subsection \<open>Payload previews\<close>

definition escape_byte :: "u8 \<Rightarrow> string" where
  "escape_byte ch =
     (if ch = 13 then [CHR 0x5C, CHR ''r'']
      else if ch = 10 then [CHR 0x5C, CHR ''n'']
      else if ch = 9 then [CHR 0x5C, CHR ''t'']
      else if ch = 92 then [CHR 0x5C, CHR 0x5C]
      else if 0x20 \<le> ch \<and> ch \<le> 0x7E then [char_of (unat ch)]
      else CHR 0x5C # CHR ''x'' # pad_zero 2 (show_hex True (unat ch)))"

definition EscapePreview :: "u8 list \<Rightarrow> nat \<Rightarrow> string" where
  "EscapePreview bytes limit =
     concat (map escape_byte (take (min (length bytes) limit) bytes)) @ (if limit < length bytes then ''...'' else [])"

subsection \<open>The logger\<close>

record toolbox_logger =
  log_run_id :: string
  log_path :: string
  bootstrap_lines :: "string list" \<comment> \<open>the lines of the bootstrap log\<close>
  log_file :: "string list option" \<comment> \<open>the lines of the open file\<close>
  recent_lines :: "string list"
  ui_sink :: bool
  shown_lines :: "string list" \<comment> \<open>what the sink was given\<close>

text \<open>\<open>OpenLog\<close> from the formatted time and whether \<^verbatim>\<open>fopen\<close> gives a file.\<close>

definition OpenLog :: "string option \<Rightarrow> bool \<Rightarrow> toolbox_logger \<Rightarrow> bool \<times> toolbox_logger" where
  "OpenLog formatted granted lg =
     (let run_id = FormatTimestamp formatted
      in (granted, lg\<lparr>log_run_id := run_id, log_path := MakeLogPath run_id,
            log_file := (if granted then Some [] else None)\<rparr>))"

definition CloseLog :: "toolbox_logger \<Rightarrow> toolbox_logger" where
  "CloseLog lg = lg\<lparr>log_file := None\<rparr>"

text \<open>\<open>WriteFormatted\<close>, for \<open>Log\<close> and \<open>Status\<close>: the format and its arguments expand to \<open>text\<close>.\<close>

definition WriteFormatted :: "string \<Rightarrow> string \<Rightarrow> string \<Rightarrow> toolbox_logger \<Rightarrow> toolbox_logger" where
  "WriteFormatted utc monotonic expanded lg =
     (let line = local_text 1024 expanded
      in lg\<lparr>recent_lines := recent_lines lg @ [line],
            log_file := map_option (\<lambda>ls. ls @ [''['' @ utc @ ''][''  @ monotonic @ ''] '' @ line @ [CHR 0x0A]]) (log_file lg),
            shown_lines := (if ui_sink lg then shown_lines lg @ [line] else shown_lines lg)\<rparr>)"

text \<open>\<open>Bootstrap\<close>: the line goes to its own file, which is opened and closed for it.\<close>

definition Bootstrap :: "bool \<Rightarrow> string \<Rightarrow> string \<Rightarrow> string \<Rightarrow> toolbox_logger \<Rightarrow> toolbox_logger" where
  "Bootstrap granted utc monotonic expanded lg =
     (if granted then lg\<lparr>bootstrap_lines := bootstrap_lines lg
          @ [''['' @ utc @ ''][''  @ monotonic @ ''] '' @ local_text 1024 expanded @ [CHR 0x0A]]\<rparr>
      else lg)"

definition SetUiSink :: "bool \<Rightarrow> toolbox_logger \<Rightarrow> toolbox_logger" where
  "SetUiSink sink lg = lg\<lparr>ui_sink := sink\<rparr>"

definition RecentLines :: "nat \<Rightarrow> toolbox_logger \<Rightarrow> string list" where
  "RecentLines maximum_line_count lg =
     (let line_count = (if maximum_line_count = 0 then length (recent_lines lg)
                        else min maximum_line_count (length (recent_lines lg)))
      in drop (length (recent_lines lg) - line_count) (recent_lines lg))"

subsection \<open>A preview is printable and reads back\<close>

text \<open>The reader of a preview: what stands after a backslash.\<close>

definition hex_value :: "char \<Rightarrow> nat" where
  "hex_value c = (if is_digit c then digit_val c else of_char c - 55)"

fun read_preview :: "string \<Rightarrow> u8 list" where
  "read_preview [] = []"
| "read_preview (c # s) =
     (if c \<noteq> CHR 0x5C then of_nat (of_char c) # read_preview s
      else case s of [] \<Rightarrow> []
        | d # s' \<Rightarrow>
            if d = CHR ''r'' then 13 # read_preview s'
            else if d = CHR ''n'' then 10 # read_preview s'
            else if d = CHR ''t'' then 9 # read_preview s'
            else if d = CHR 0x5C then 92 # read_preview s'
            else case s' of h # l # s'' \<Rightarrow> of_nat (16 * hex_value h + hex_value l) # read_preview s''
              | _ \<Rightarrow> [])"

declare read_preview.simps(2) [simp del]

lemma hex_value_digit: "n < 16 \<Longrightarrow> hex_value (hex_digit True n) = n"
  by (auto simp: hex_value_def hex_digit_def is_digit_def digit_val_def)

lemma hex_zero: "hex_digit upper 0 = CHR ''0''"
  by (cases upper) code_simp+

lemma hex_pair: "n < 256 \<Longrightarrow> pad_zero 2 (show_hex True n) = [hex_digit True (n div 16), hex_digit True (n mod 16)]"
  by (subst show_hex.simps) (auto simp: pad_zero_def show_hex.simps hex_zero)

lemma preview_digit_plain: "n < 16 \<Longrightarrow> 48 \<le> (of_char (hex_digit True n) :: nat) \<and> of_char (hex_digit True n) \<le> (70 :: nat)"
  by (simp add: hex_digit_def)

text \<open>Every escape is printable, and the reader takes it back whatever follows.\<close>

lemma escape_byte_printable: "c \<in> set (escape_byte ch) \<Longrightarrow> 32 \<le> (of_char c :: nat) \<and> (of_char c :: nat) \<le> 126"
proof -
  have byte: "unat ch < 256" by (rule unsigned_less [of ch, simplified])
  then have high: "unat ch div 16 < 16" by simp
  have plain: "32 \<le> unat ch \<and> unat ch \<le> 126" if "0x20 \<le> ch" "ch \<le> 0x7E"
    using that by (simp add: word_le_nat_alt)
  show "c \<in> set (escape_byte ch) \<Longrightarrow> ?thesis"
    using plain preview_digit_plain [of "unat ch div 16"] preview_digit_plain [of "unat ch mod 16"] byte high
    by (auto simp: escape_byte_def hex_pair split: if_splits)
qed

lemma read_escape_byte: "read_preview (escape_byte ch @ s) = ch # read_preview s"
proof -
  have byte: "unat ch < 256" by (rule unsigned_less [of ch, simplified])
  have plain: "char_of (unat ch) \<noteq> CHR 0x5C" if "ch \<noteq> 92"
  proof
    assume "char_of (unat ch) = CHR 0x5C"
    then have "of_char (char_of (unat ch) :: char) = (of_char (CHR 0x5C) :: nat)" by simp
    then have "unat ch = unat (92 :: u8)" using byte by simp
    then have "ch = 92" by (rule unsigned_word_eqI)
    with that show False ..
  qed
  have hex: "of_nat (16 * hex_value (hex_digit True (unat ch div 16)) + hex_value (hex_digit True (unat ch mod 16))) = ch"
    using byte by (simp add: hex_value_digit)
  show ?thesis
    using byte hex plain by (auto simp: escape_byte_def hex_pair read_preview.simps)
qed

lemma read_escaped: "read_preview (concat (map escape_byte bytes)) = bytes"
  by (induction bytes) (simp_all add: read_escape_byte)

text \<open>
  C22. A preview only holds printable characters, and a preview that is not cut short
  reads back as the bytes it was made of; a cut one is the preview of the first bytes with
  three dots.
\<close>

theorem preview_reads_back:
  "list_all (\<lambda>c. 32 \<le> (of_char c :: nat) \<and> (of_char c :: nat) \<le> 126) (EscapePreview bytes limit)
   \<and> (if length bytes \<le> limit then read_preview (EscapePreview bytes limit) = bytes
      else EscapePreview bytes limit = EscapePreview (take limit bytes) limit @ ''...'')"
  unfolding list_all_iff
proof (intro conjI ballI)
  fix c
  assume "c \<in> set (EscapePreview bytes limit)"
  then consider "c = CHR ''.''" | b where "c \<in> set (escape_byte b)"
    by (auto simp: EscapePreview_def split: if_splits)
  then show "32 \<le> (of_char c :: nat)" "(of_char c :: nat) \<le> 126"
    using escape_byte_printable by (cases, simp, blast)+
qed (simp add: EscapePreview_def read_escaped min_def)

text \<open>
  The recent lines are the last of the lines that were logged, all of them when no
  count is given, and the newest one is the line logged last.
\<close>

theorem recent_lines_are_last:
  "\<exists>older. recent_lines lg = older @ RecentLines n lg
   \<and> length (RecentLines n lg) = (if n = 0 then length (recent_lines lg) else min n (length (recent_lines lg)))
   \<and> RecentLines (Suc n) (WriteFormatted utc ns text lg) = (case n of 0 \<Rightarrow> [] | _ \<Rightarrow> RecentLines n lg) @ [local_text 1024 text]"
proof (intro exI conjI)
  show "recent_lines lg = take (length (recent_lines lg) - length (RecentLines n lg)) (recent_lines lg) @ RecentLines n lg"
    by (simp add: RecentLines_def Let_def)
  show "length (RecentLines n lg) = (if n = 0 then length (recent_lines lg) else min n (length (recent_lines lg)))"
    by (simp add: RecentLines_def Let_def)
  show "RecentLines (Suc n) (WriteFormatted utc ns text lg)
      = (case n of 0 \<Rightarrow> [] | _ \<Rightarrow> RecentLines n lg) @ [local_text 1024 text]"
    by (simp add: RecentLines_def WriteFormatted_def Let_def min_def split: nat.split)
qed

end
