(* ===== verification/UdpPacket.thy ===== *)
theory UdpPacket
  imports ToolboxRuntime
begin

text \<open>
  The packets of the direct tunnel test (\<^verbatim>\<open>toolbox/src/wgnx_packet_scenario.cpp\<close>): big endian
  fields, the Internet checksum on 32-bit words, the IPv4 and UDP headers the scenario
  builds, and the validation of a reply. A packet in a larger array is the array with the
  packet's size, as the code reads it through pointers into the array.
\<close>

unbundle bit_operations_syntax

definition Ipv4HeaderSize :: nat where "Ipv4HeaderSize = 20"
definition UdpHeaderSize :: nat where "UdpHeaderSize = 8"
definition TokenSize :: nat where "TokenSize = 16"
definition UdpProtocol :: u8 where "UdpProtocol = 17"

record ExpectedReply =
  local_address :: "u8 list"
  remote_address :: "u8 list"
  local_port :: u16
  remote_port :: u16
  reply_payload :: "u8 list"

subsection \<open>Big endian fields\<close>

definition StoreBigEndian16 :: "nat \<Rightarrow> u16 \<Rightarrow> u8 list \<Rightarrow> u8 list" where
  "StoreBigEndian16 at value out = out[at := ucast (drop_bit 8 value), at + 1 := ucast (value AND 0xFF)]"

definition LoadBigEndian16 :: "u8 list \<Rightarrow> nat \<Rightarrow> u16" where
  "LoadBigEndian16 bytes at = (push_bit 8 (ucast (bytes ! at))) OR (ucast (bytes ! (at + 1)))"

subsection \<open>The checksum\<close>

fun AddChecksumBytes :: "u32 \<Rightarrow> u8 list \<Rightarrow> u32" where
  "AddChecksumBytes acc (a # b # rest) =
     AddChecksumBytes (acc + ((push_bit 8 (ucast a)) OR (ucast b))) rest"
| "AddChecksumBytes acc [a] = acc + push_bit 8 (ucast a)"
| "AddChecksumBytes acc [] = acc"

text \<open>The loop that folds the carries back.\<close>

lemma halves:
  "(acc :: u32) AND 0xFFFF = take_bit 16 acc" "unat (take_bit 16 acc) = unat acc mod 65536"
  "unat (drop_bit 16 acc) = unat acc div 65536" "unat acc div 65536 < 65536"
proof -
  show "acc AND 0xFFFF = take_bit 16 acc" by (simp add: take_bit_eq_mask mask_eq_exp_minus_1)
  show "unat (take_bit 16 acc) = unat acc mod 65536" "unat (drop_bit 16 acc) = unat acc div 65536"
    by (simp_all add: unsigned_take_bit_eq unsigned_drop_bit_eq take_bit_eq_mod drop_bit_eq_div
        unat_mod unat_div)
  have "unat acc < 2 ^ LENGTH(32)" by (rule unsigned_less)
  then show "unat acc div 65536 < 65536" by (simp add: less_mult_imp_div_less)
qed

lemma unat_fold_step: "unat (((acc :: u32) AND 0xFFFF) + drop_bit 16 acc) = unat acc mod 65536 + unat acc div 65536"
proof -
  have "unat acc mod 65536 < 65536" by simp
  then have "unat (take_bit 16 acc) + unat (drop_bit 16 acc) < 2 ^ LENGTH(32)" using halves(2-4) [of acc] by simp
  then show ?thesis unfolding halves(1) by (simp add: unat_plus_if' halves(2,3))
qed

lemma carry_iff: "drop_bit 16 (acc :: u32) \<noteq> 0 \<longleftrightarrow> 65536 \<le> unat acc"
proof -
  have "drop_bit 16 acc = 0 \<longleftrightarrow> unat acc div 65536 = 0" by (simp flip: halves(3) add: unat_eq_zero)
  then show ?thesis by auto
qed

lemma fold_decreases: "65536 \<le> unat (acc :: u32) \<Longrightarrow> unat ((acc AND 0xFFFF) + drop_bit 16 acc) < unat acc"
proof -
  assume "65536 \<le> unat acc"
  then have "0 < unat acc div 65536" by simp
  moreover have "unat acc = unat acc div 65536 * 65536 + unat acc mod 65536" by simp
  ultimately show ?thesis unfolding unat_fold_step by linarith
qed

function fold_carries :: "u32 \<Rightarrow> u32" where
  "fold_carries acc = (if drop_bit 16 acc \<noteq> 0 then fold_carries ((acc AND 0xFFFF) + drop_bit 16 acc) else acc)"
  by auto

termination
  by (relation "measure unat") (simp_all add: carry_iff fold_decreases)

declare fold_carries.simps [simp del]

definition FinishChecksum :: "u32 \<Rightarrow> u16" where
  "FinishChecksum acc = ucast (NOT (fold_carries acc) AND 0xFFFF)"

definition ComputeChecksum :: "u8 list \<Rightarrow> u16" where
  "ComputeChecksum bytes = FinishChecksum (AddChecksumBytes 0 bytes)"

definition pseudo_tail :: "nat \<Rightarrow> u8 list" where
  "pseudo_tail udp_size = [0, UdpProtocol, of_nat (udp_size div 256), of_nat (udp_size mod 256)]"

definition ComputeUdpChecksum :: "u8 list \<Rightarrow> u8 list \<Rightarrow> u8 list \<Rightarrow> u16" where
  "ComputeUdpChecksum source destination udp =
     FinishChecksum (AddChecksumBytes (AddChecksumBytes (AddChecksumBytes (AddChecksumBytes 0 source) destination)
       (pseudo_tail (length udp))) udp)"

subsection \<open>Building a packet\<close>

text \<open>\<^verbatim>\<open>memcpy\<close> to an offset of an array.\<close>

definition copy_at :: "nat \<Rightarrow> u8 list \<Rightarrow> u8 list \<Rightarrow> u8 list" where
  "copy_at i bytes out = take i out @ bytes @ drop (i + length bytes) out"

text \<open>The size of the packet and the array after the call; \<open>max_inner\<close> is the library's limit.\<close>

definition BuildUdpPacket ::
  "nat \<Rightarrow> u8 list \<Rightarrow> u8 list \<Rightarrow> u8 list \<Rightarrow> u16 \<Rightarrow> u16 \<Rightarrow> u8 list \<Rightarrow> u16 \<Rightarrow> nat \<times> u8 list" where
  "BuildUdpPacket max_inner out source destination source_port destination_port payload ident =
     (let udp_size = UdpHeaderSize + length payload;
          packet_size = Ipv4HeaderSize + udp_size
      in if length out < packet_size \<or> max_inner < packet_size \<or> 0xFFFF < packet_size then (0, out)
         else let p = (replicate packet_size 0)[0 := 0x45];
                  p = StoreBigEndian16 2 (of_nat packet_size) p;
                  p = StoreBigEndian16 4 ident p;
                  p = StoreBigEndian16 6 0x4000 p;
                  p = p[8 := 64, 9 := UdpProtocol];
                  p = copy_at 12 source p;
                  p = copy_at 16 destination p;
                  p = StoreBigEndian16 10 (ComputeChecksum (take Ipv4HeaderSize p)) p;
                  p = StoreBigEndian16 Ipv4HeaderSize source_port p;
                  p = StoreBigEndian16 (Ipv4HeaderSize + 2) destination_port p;
                  p = StoreBigEndian16 (Ipv4HeaderSize + 4) (of_nat udp_size) p;
                  p = copy_at (Ipv4HeaderSize + UdpHeaderSize) payload p;
                  c = ComputeUdpChecksum source destination (take udp_size (drop Ipv4HeaderSize p));
                  p = StoreBigEndian16 (Ipv4HeaderSize + 6) (if c = 0 then 0xFFFF else c) p
              in (packet_size, p @ drop packet_size out))"

subsection \<open>Validating a reply\<close>

text \<open>\<^verbatim>\<open>inet_ntop\<close> of four bytes into sixteen characters always succeeds.\<close>

definition FormatIpv4_bytes :: "u8 list \<Rightarrow> string" where
  "FormatIpv4_bytes address =
     to_string (address ! 0) @ ''.'' @ to_string (address ! 1) @ ''.'' @ to_string (address ! 2) @ ''.'' @ to_string (address ! 3)"

definition ValidateUdpReply :: "u8 list \<Rightarrow> nat \<Rightarrow> ExpectedReply \<Rightarrow> bool \<times> string" where
  "ValidateUdpReply packet packet_size expected =
     (if packet_size < Ipv4HeaderSize + UdpHeaderSize then (False, ''packet too short'')
      else let version = drop_bit 4 (packet ! 0);
               ipv4_header_size = unat (packet ! 0 AND 0x0F) * 4
      in if version \<noteq> 4 \<or> ipv4_header_size < Ipv4HeaderSize \<or> packet_size < ipv4_header_size
         then (False, ''invalid IPv4 version or header length'')
      else let total_size = unat (LoadBigEndian16 packet 2)
      in if total_size \<noteq> packet_size \<or> total_size < ipv4_header_size + UdpHeaderSize
         then (False, ''invalid IPv4 total length'')
      else if ComputeChecksum (take ipv4_header_size packet) \<noteq> 0 then (False, ''invalid IPv4 checksum'')
      else if LoadBigEndian16 packet 6 AND 0x3FFF \<noteq> 0 then (False, ''fragmented IPv4 reply unsupported'')
      else if packet ! 9 \<noteq> UdpProtocol then (False, ''not UDP protocol='' @ to_string (packet ! 9))
      else let source = take 4 (drop 12 packet); destination = take 4 (drop 16 packet)
      in if source \<noteq> remote_address expected \<or> destination \<noteq> local_address expected
         then (False, ''address mismatch source='' @ FormatIpv4_bytes source @ '' destination='' @ FormatIpv4_bytes destination)
      else let udp = drop ipv4_header_size packet; udp_size = unat (LoadBigEndian16 udp 4)
      in if udp_size \<noteq> total_size - ipv4_header_size \<or> udp_size < UdpHeaderSize then (False, ''invalid UDP length'')
      else let source_port = LoadBigEndian16 udp 0; destination_port = LoadBigEndian16 udp 2
      in if source_port \<noteq> remote_port expected \<or> destination_port \<noteq> local_port expected
         then (False, ''port mismatch source='' @ to_string source_port @ '' destination='' @ to_string destination_port)
      else if LoadBigEndian16 udp 6 = 0 then (False, ''missing UDP checksum'')
      else if ComputeUdpChecksum source destination (take udp_size udp) \<noteq> 0 then (False, ''invalid UDP checksum'')
      else let payload = take (udp_size - UdpHeaderSize) (drop UdpHeaderSize udp)
      in if payload \<noteq> reply_payload expected
         then (False, ''payload mismatch preview='' @ EscapePreview payload 96)
      else (True, ''validated UDP echo''))"

subsection \<open>What the checksum computes\<close>

text \<open>The reference: the sum of the big endian words of the bytes, an odd last byte padded with a zero.\<close>

fun word_sum :: "u8 list \<Rightarrow> nat" where
  "word_sum (a # b # rest) = 256 * unat a + unat b + word_sum rest"
| "word_sum [a] = 256 * unat a"
| "word_sum [] = 0"

text \<open>The residue of a sum in ones' complement, where only zero itself has the residue zero.\<close>

definition ones_residue :: "nat \<Rightarrow> nat" where
  "ones_residue n = (if n = 0 then 0 else (n - 1) mod 65535 + 1)"

lemma ones_residue_step: "65536 \<le> n \<Longrightarrow> ones_residue (n mod 65536 + n div 65536) = ones_residue n"
proof -
  assume n: "65536 \<le> n"
  let ?m = "n mod 65536 + n div 65536"
  have "n = n div 65536 * 65536 + n mod 65536" by simp
  then have "n = ?m + 65535 * (n div 65536)" by linarith
  moreover have "0 < n div 65536" using n by (simp add: div_greater_zero_iff)
  then have "0 < ?m" by (rule trans_less_add2)
  ultimately obtain k where "n - 1 = (?m - 1) + 65535 * k" by (metis Nat.add_diff_assoc2 Suc_leI One_nat_def)
  then have "(n - 1) mod 65535 = (?m - 1) mod 65535" by simp
  with \<open>0 < ?m\<close> n show ?thesis by (simp add: ones_residue_def)
qed

lemma ones_residue_small: "n < 65536 \<Longrightarrow> ones_residue n = n"
  by (auto simp: ones_residue_def)

lemma ones_residue_bound: "ones_residue n \<le> 65535"
proof -
  have "(n - 1) mod 65535 < 65535" by simp
  then have "(n - 1) mod 65535 + 1 \<le> 65535" by linarith
  then show ?thesis unfolding ones_residue_def by simp
qed

lemma ones_residue_full: "ones_residue n = 65535 \<longleftrightarrow> 0 < n \<and> 65535 dvd n"
proof (cases n)
  case (Suc m)
  have "65535 dvd Suc m \<longleftrightarrow> m mod 65535 = 65534" by (simp add: dvd_eq_mod_eq_0 mod_Suc)
  with Suc show ?thesis by (simp add: ones_residue_def)
qed (simp add: ones_residue_def)

lemma fold_carries_residue: "unat (fold_carries acc) = ones_residue (unat acc)"
proof (induction acc rule: fold_carries.induct)
  case (1 acc)
  show ?case
  proof (cases "65536 \<le> unat acc")
    case True
    then show ?thesis
      using 1 by (subst fold_carries.simps) (simp add: carry_iff unat_fold_step ones_residue_step)
  next
    case False
    then show ?thesis by (subst fold_carries.simps) (simp add: carry_iff ones_residue_small)
  qed
qed

lemma unat_FinishChecksum: "unat (FinishChecksum acc) = 65535 - ones_residue (unat acc)"
proof -
  let ?f = "fold_carries acc"
  have small: "unat ?f < 65536" using ones_residue_bound [of "unat acc"] by (simp add: fold_carries_residue)
  have "NOT ?f AND 0xFFFF = take_bit 16 (NOT ?f)" by (rule halves(1))
  moreover have "unat (take_bit 16 (NOT ?f)) = (2 ^ 32 - 1 - unat ?f) mod 65536"
  proof -
    have "NOT ?f = - 1 - ?f" by (simp add: not_eq_complement)
    moreover have "unat (- 1 :: u32) = 2 ^ 32 - 1" by (simp add: unsigned_minus_1_eq_mask mask_eq_exp_minus_1)
    ultimately have "unat (NOT ?f) = 2 ^ 32 - 1 - unat ?f" by (simp add: unat_sub)
    then show ?thesis by (simp only: halves(2))
  qed
  moreover have "(2 ^ 32 - 1 - unat ?f) mod 65536 = 65535 - unat ?f"
  proof -
    have "2 ^ 32 - 1 - unat ?f = 65535 * 65536 + (65535 - unat ?f)" using small by simp
    then show ?thesis by (simp only: mod_mult_self3) simp
  qed
  ultimately have "unat (NOT ?f AND 0xFFFF) = 65535 - unat ?f" by simp
  then show ?thesis by (simp add: FinishChecksum_def unsigned_ucast_eq fold_carries_residue take_bit_nat_eq_self_iff)
qed

subsection \<open>Words of two bytes\<close>

lemma unat_pair:
  assumes "16 \<le> LENGTH('a::len)"
  shows "unat ((push_bit 8 (ucast (a :: u8)) OR ucast (b :: u8)) :: 'a word) = 256 * unat a + unat b"
proof -
  have b: "unat a < 2 ^ LENGTH(8)" "unat b < 2 ^ LENGTH(8)" by (rule unsigned_less)+
  have size: "2 ^ 16 \<le> (2 :: nat) ^ LENGTH('a)" using assms by (intro power_increasing) simp_all
  have "(push_bit 8 (unat a)) OR (unat b) = push_bit 8 (unat a) + unat b"
  proof (intro disjunctive_add [symmetric])
    fix n
    have "unat b = take_bit 8 (unat b)" using b(2) by (simp add: take_bit_nat_eq_self)
    then have "bit (unat b) n \<Longrightarrow> n < 8" by (metis bit_take_bit_iff)
    then show "\<not> bit (push_bit 8 (unat a)) n \<or> \<not> bit (unat b) n" by (auto simp: bit_simps)
  qed
  moreover have "take_bit LENGTH('a) (unat a) = unat a" "take_bit LENGTH('a) (unat b) = unat b"
    "take_bit LENGTH('a) (push_bit 8 (unat a)) = push_bit 8 (unat a)"
    using b size by (simp_all add: take_bit_nat_eq_self_iff push_bit_eq_mult)
  ultimately show ?thesis
    unfolding unsigned_or_eq unsigned_push_bit_eq unsigned_ucast_eq by (simp add: push_bit_eq_mult)
qed

lemma unat_high: "unat (push_bit 8 (ucast (a :: u8)) :: u32) = 256 * unat a"
  using unat_pair [where 'a = 32, of a 0] by simp

lemma pair_small: "256 * unat (a :: u8) + unat (b :: u8) < 65536"
proof -
  have "unat a < 2 ^ LENGTH(8)" "unat b < 2 ^ LENGTH(8)" by (rule unsigned_less)+
  then show ?thesis by simp
qed

lemma AddChecksumBytes_sum:
  "unat acc + word_sum bytes < 2 ^ 32 \<Longrightarrow> unat (AddChecksumBytes acc bytes) = unat acc + word_sum bytes"
proof (induction acc bytes rule: AddChecksumBytes.induct)
  case (1 acc a b rest)
  have "unat acc + unat ((push_bit 8 (ucast a) OR ucast b) :: u32) < 2 ^ LENGTH(32)"
    using 1 by (simp add: unat_pair)
  then have "unat (acc + (push_bit 8 (ucast a) OR ucast b)) = unat acc + (256 * unat a + unat b)"
    by (simp add: unat_plus_if' unat_pair)
  with 1 show ?case by simp
next
  case (2 acc a)
  then have "unat acc + unat (push_bit 8 (ucast a) :: u32) < 2 ^ LENGTH(32)" by (simp add: unat_high)
  then show ?case by (simp add: unat_plus_if' unat_high)
qed simp

lemma word_sum_bound: "word_sum bytes \<le> 32768 * (length bytes + 1)"
proof (induction bytes rule: word_sum.induct)
  case (1 a b rest)
  with pair_small [of a b] show ?case by simp
next
  case (2 a)
  from pair_small [of a 0] show ?case by simp
qed simp

lemma word_sum_append: "even (length xs) \<Longrightarrow> word_sum (xs @ ys) = word_sum xs + word_sum ys"
  by (induction xs rule: word_sum.induct) simp_all

text \<open>
  On packets the 32-bit accumulator never wraps, so the checksum is the complement of the
  residue of the sum.
\<close>

lemma unat_ComputeChecksum:
  "length bytes \<le> 65535 \<Longrightarrow> unat (ComputeChecksum bytes) = 65535 - ones_residue (word_sum bytes)"
  using word_sum_bound [of bytes] by (simp add: ComputeChecksum_def unat_FinishChecksum AddChecksumBytes_sum)

lemma unat_ComputeUdpChecksum:
  assumes "length source = 4" "length destination = 4" "length udp \<le> 65535"
  shows "unat (ComputeUdpChecksum source destination udp)
    = 65535 - ones_residue (word_sum (source @ destination @ pseudo_tail (length udp) @ udp))"
proof -
  have len: "length (pseudo_tail (length udp)) = 4" by (simp add: pseudo_tail_def)
  have "word_sum source + word_sum destination + word_sum (pseudo_tail (length udp)) + word_sum udp < 2 ^ 32"
    using word_sum_bound [of source] word_sum_bound [of destination] word_sum_bound [of "pseudo_tail (length udp)"]
      word_sum_bound [of udp] assms len by simp
  then show ?thesis
    using assms len by (simp add: ComputeUdpChecksum_def unat_FinishChecksum AddChecksumBytes_sum word_sum_append
        add.assoc)
qed

subsection \<open>The built packet\<close>

definition be_bytes :: "u16 \<Rightarrow> u8 list" where
  "be_bytes w = [ucast (drop_bit 8 w), ucast (w AND 0xFF)]"

lemma be_byte_values:
  "unat (ucast (drop_bit 8 (w :: u16)) :: u8) = unat w div 256" "unat (ucast (w AND 0xFF) :: u8) = unat w mod 256"
proof -
  have "unat w < 2 ^ LENGTH(16)" by (rule unsigned_less)
  then show "unat (ucast (drop_bit 8 w) :: u8) = unat w div 256"
    by (simp add: unsigned_ucast_eq unsigned_drop_bit_eq drop_bit_eq_div take_bit_nat_eq_self_iff unat_div
        less_mult_imp_div_less)
  have "w AND 0xFF = take_bit 8 w" by (simp add: take_bit_eq_mask mask_eq_exp_minus_1)
  then show "unat (ucast (w AND 0xFF) :: u8) = unat w mod 256"
    by (simp add: unsigned_ucast_eq unsigned_take_bit_eq take_bit_eq_mod unat_mod)
qed

lemma load_be_bytes:
  "bytes ! i = ucast (drop_bit 8 w) \<Longrightarrow> bytes ! Suc i = ucast (w AND 0xFF) \<Longrightarrow> LoadBigEndian16 bytes i = w"
  by (simp add: word_unat_eq_iff LoadBigEndian16_def unat_pair be_byte_values)

lemma word_sum_be: "word_sum (ucast (drop_bit 8 w) # ucast ((w :: u16) AND 0xFF) # rest) = unat w + word_sum rest"
  by (simp add: be_byte_values)

definition ip_header :: "nat \<Rightarrow> u16 \<Rightarrow> u16 \<Rightarrow> u8 list \<Rightarrow> u8 list \<Rightarrow> u8 list" where
  "ip_header packet_size ident checksum source destination =
     [0x45, 0] @ be_bytes (of_nat packet_size) @ be_bytes ident @ [0x40, 0, 64, UdpProtocol] @ be_bytes checksum
     @ source @ destination"

definition udp_header :: "u16 \<Rightarrow> u16 \<Rightarrow> nat \<Rightarrow> u16 \<Rightarrow> u8 list" where
  "udp_header source_port destination_port udp_size checksum =
     be_bytes source_port @ be_bytes destination_port @ be_bytes (of_nat udp_size) @ be_bytes checksum"

lemma four_bytes: "length xs = 4 \<Longrightarrow> \<exists>a b c d. xs = [a, b, c, d]"
  by (auto simp: length_Suc_conv numeral_eq_Suc)

text \<open>A store and a copy over the array split at their offset.\<close>

lemma store_split: "length xs = i \<Longrightarrow> StoreBigEndian16 i w (xs @ a # b # ys) = xs @ be_bytes w @ ys"
  by (simp add: StoreBigEndian16_def be_bytes_def list_update_append)

lemma copy_split: "length xs = i \<Longrightarrow> length zs = length bs \<Longrightarrow> copy_at i bs (xs @ zs @ ys) = xs @ bs @ ys"
  by (simp add: copy_at_def)

lemma length_be [simp]: "length (be_bytes w) = 2"
  by (simp add: be_bytes_def)

lemma be_zero: "be_bytes 0 = [0, 0]" "be_bytes 0x4000 = [0x40, 0]"
  by (simp_all add: be_bytes_def)

lemma packet_zeros:
  "replicate (28 + n) (0 :: u8) = [0, 0, 0, 0, 0, 0, 0, 0, 0, 0, 0, 0] @ [0, 0, 0, 0] @ [0, 0, 0, 0]
     @ [0, 0, 0, 0, 0, 0, 0, 0] @ replicate n 0"
  by (simp add: numeral_eq_Suc)

lemma ip_header_stores:
  "StoreBigEndian16 6 0x4000 (StoreBigEndian16 4 ident (StoreBigEndian16 2 len
     (([0, 0, 0, 0, 0, 0, 0, 0, 0, 0, 0, 0] @ rest)[0 := 0x45])))
   = [0x45, 0] @ be_bytes len @ be_bytes ident @ [0x40, 0, 0, 0, 0, 0] @ rest"
  by (simp add: StoreBigEndian16_def be_bytes_def)

lemma protocol_stores:
  "([0x45, 0] @ be_bytes len @ be_bytes ident @ [0x40, 0, 0, 0, 0, 0] @ rest)[8 := 64, 9 := UdpProtocol]
   = ([0x45, 0] @ be_bytes len @ be_bytes ident @ [0x40, 0, 64, UdpProtocol, 0, 0]) @ rest"
  by (simp add: be_bytes_def)

lemma copy_header: "length (ip_header n ident c source destination) = 12 + length source + length destination"
  by (simp add: ip_header_def)

lemma BuildUdpPacket_form:
  assumes "length source = 4" "length destination = 4"
    and "28 + length payload \<le> length out" "28 + length payload \<le> max_inner" "28 + length payload \<le> 65535"
  shows "let c = ComputeChecksum (ip_header (28 + length payload) ident 0 source destination);
      k = ComputeUdpChecksum source destination (udp_header sp dp (8 + length payload) 0 @ payload)
    in BuildUdpPacket max_inner out source destination sp dp payload ident =
    (28 + length payload, ip_header (28 + length payload) ident c source destination
       @ udp_header sp dp (8 + length payload) (if k = 0 then 0xFFFF else k) @ payload @ drop (28 + length payload) out)"
proof -
  let ?n = "28 + length payload" and ?m = "8 + length payload"
  let ?front = "[0x45, 0] @ be_bytes (of_nat ?n) @ be_bytes ident @ [0x40, 0, 64, UdpProtocol]"
  let ?start = "[0x45, 0] @ be_bytes (of_nat ?n) @ be_bytes ident @ [0x40, 0, 64, UdpProtocol, 0, 0]"
  let ?zeros = "[0, 0, 0, 0, 0, 0, 0, 0] @ replicate (length payload) 0 :: u8 list"
  let ?c = "ComputeChecksum (ip_header ?n ident 0 source destination)"
  let ?k = "ComputeUdpChecksum source destination (udp_header sp dp ?m 0 @ payload)"
  let ?head = "ip_header ?n ident ?c source destination"
  have copies: "copy_at 16 destination (copy_at 12 source (?start @ [0, 0, 0, 0] @ [0, 0, 0, 0] @ ?zeros))
      = ip_header ?n ident 0 source destination @ ?zeros"
    using copy_split [of "?front @ [0, 0]" 12 "[0, 0, 0, 0]" source "[0, 0, 0, 0] @ ?zeros"]
      copy_split [of "(?front @ [0, 0]) @ source" 16 "[0, 0, 0, 0]" destination ?zeros] assms(1,2)
    by (simp add: ip_header_def be_zero)
  have checksum: "StoreBigEndian16 10 ?c (ip_header ?n ident 0 source destination @ ?zeros) = ?head @ ?zeros"
    using store_split [of ?front 10 ?c 0 0 "source @ destination @ ?zeros"] by (simp add: ip_header_def be_zero)
  have len: "length ?head = 20" using assms(1,2) by (simp add: copy_header)
  have ports: "StoreBigEndian16 24 (of_nat ?m) (StoreBigEndian16 22 dp (StoreBigEndian16 20 sp (?head @ ?zeros)))
      = ?head @ udp_header sp dp ?m 0 @ replicate (length payload) 0"
    using store_split [of ?head 20 sp 0 0 "[0, 0, 0, 0, 0, 0] @ replicate (length payload) 0"]
      store_split [of "?head @ be_bytes sp" 22 dp 0 0 "[0, 0, 0, 0] @ replicate (length payload) 0"]
      store_split [of "?head @ be_bytes sp @ be_bytes dp" 24 "of_nat ?m" 0 0 "[0, 0] @ replicate (length payload) 0"] len
    by (simp add: udp_header_def be_zero)
  have body: "copy_at 28 payload (?head @ udp_header sp dp ?m 0 @ replicate (length payload) 0)
      = ?head @ udp_header sp dp ?m 0 @ payload"
    using copy_split [of "?head @ udp_header sp dp ?m 0" 28 "replicate (length payload) 0" payload "[]"] len
    by (simp add: udp_header_def)
  have final: "StoreBigEndian16 26 k (?head @ udp_header sp dp ?m 0 @ payload) = ?head @ udp_header sp dp ?m k @ payload" for k
    using store_split [of "?head @ be_bytes sp @ be_bytes dp @ be_bytes (of_nat ?m)" 26 k 0 0 payload] len
    by (simp add: udp_header_def be_zero)
  have tails: "take ?m (drop 20 (?head @ udp_header sp dp ?m 0 @ payload)) = udp_header sp dp ?m 0 @ payload"
    "take 20 (ip_header ?n ident 0 source destination @ ?zeros) = ip_header ?n ident 0 source destination"
    using assms(1,2) len by (simp_all add: udp_header_def copy_header)
  have offsets: "20 + (8 + length payload) = ?n" "20 + 2 = (22 :: nat)" "20 + 4 = (24 :: nat)" "20 + 6 = (26 :: nat)"
    "20 + 8 = (28 :: nat)" by simp_all
  have fits: "\<not> (length out < ?n \<or> max_inner < ?n \<or> 0xFFFF < ?n)" using assms(3-5) by simp
  show ?thesis
    unfolding BuildUdpPacket_def Ipv4HeaderSize_def UdpHeaderSize_def offsets Let_def packet_zeros ip_header_stores
      protocol_stores if_not_P [OF fits] copies tails checksum ports body final
    by simp
qed

subsection \<open>A built packet is a valid reply\<close>

lemma residue_complement: "0 < n \<Longrightarrow> ones_residue (n + (65535 - ones_residue n)) = 65535"
proof -
  assume n: "0 < n"
  have "n = 65535 * ((n - 1) div 65535) + ones_residue n" using n by (simp add: ones_residue_def)
  moreover note ones_residue_bound [of n]
  ultimately have "n + (65535 - ones_residue n) = 65535 * ((n - 1) div 65535 + 1)" by simp
  then have "65535 dvd n + (65535 - ones_residue n)" by (rule dvdI)
  with n show ?thesis by (simp add: ones_residue_full)
qed

lemma checksum_zero_iff:
  "length bytes \<le> 65535 \<Longrightarrow> ComputeChecksum bytes = 0 \<longleftrightarrow> ones_residue (word_sum bytes) = 65535"
  using unat_ComputeChecksum [of bytes] ones_residue_bound [of "word_sum bytes"]
  by (metis diff_is_0_eq' diff_self_eq_0 le_antisym unat_0_iff diff_is_0_eq)

lemma word_sum_four: "length xs = 4 \<Longrightarrow> even (length xs)" by simp

lemma ip_header_sum:
  assumes "length source = 4" "length destination = 4"
  shows "word_sum (ip_header n ident c source destination)
    = word_sum (ip_header n ident 0 source destination) + unat c"
    "0 < word_sum (ip_header n ident 0 source destination)"
  using assms by (simp_all add: ip_header_def be_bytes_def be_byte_values word_sum_append)

lemma header_checksum_zero:
  assumes "length source = 4" "length destination = 4"
  shows "ComputeChecksum (ip_header n ident (ComputeChecksum (ip_header n ident 0 source destination)) source destination) = 0"
proof -
  have len: "length (ip_header n ident c source destination) \<le> 65535" for c
    using assms by (simp add: copy_header)
  show ?thesis
    unfolding checksum_zero_iff [OF len] ip_header_sum(1) [OF assms, of n ident "ComputeChecksum _"]
      unat_ComputeChecksum [OF len]
    by (rule residue_complement [OF ip_header_sum(2) [OF assms]])
qed

definition pseudo_packet :: "u8 list \<Rightarrow> u8 list \<Rightarrow> u16 \<Rightarrow> u16 \<Rightarrow> u16 \<Rightarrow> u8 list \<Rightarrow> u8 list" where
  "pseudo_packet source destination sp dp k payload =
     source @ destination @ pseudo_tail (8 + length payload) @ udp_header sp dp (8 + length payload) k @ payload"

lemma length_udp [simp]: "length (udp_header sp dp n k) = 8"
  by (simp add: udp_header_def)

lemma pseudo_packet_sum:
  assumes "length source = 4" "length destination = 4"
  shows "word_sum (pseudo_packet source destination sp dp k payload)
    = word_sum (pseudo_packet source destination sp dp 0 payload) + unat k"
    "0 < word_sum (pseudo_packet source destination sp dp 0 payload)"
  using assms by (simp_all add: pseudo_packet_def udp_header_def be_bytes_def be_byte_values word_sum_append
      pseudo_tail_def UdpProtocol_def)

lemma udp_checksum_pseudo:
  assumes "length source = 4" "length destination = 4" "8 + length payload \<le> 65535"
  shows "unat (ComputeUdpChecksum source destination (udp_header sp dp (8 + length payload) k @ payload))
    = 65535 - ones_residue (word_sum (pseudo_packet source destination sp dp k payload))"
  using unat_ComputeUdpChecksum [OF assms(1,2), of "udp_header sp dp (8 + length payload) k @ payload"] assms(3)
  by (simp add: pseudo_packet_def)

lemma udp_checksum_zero:
  fixes sp dp :: u16
  assumes "length source = 4" "length destination = 4" "8 + length payload \<le> 65535"
  defines "k \<equiv> ComputeUdpChecksum source destination (udp_header sp dp (8 + length payload) 0 @ payload)"
  shows "ComputeUdpChecksum source destination
    (udp_header sp dp (8 + length payload) (if k = 0 then 0xFFFF else k) @ payload) = 0"
proof -
  let ?s = "word_sum (pseudo_packet source destination sp dp 0 payload)"
  have k: "unat k = 65535 - ones_residue ?s" unfolding k_def by (rule udp_checksum_pseudo [OF assms(1-3)])
  have "ones_residue (?s + unat (if k = 0 then 0xFFFF else k)) = 65535"
  proof (cases "k = 0")
    case True
    then have "ones_residue ?s = 65535" using k ones_residue_bound [of ?s] by simp
    with True show ?thesis by (simp add: ones_residue_full)
  next
    case False
    then show ?thesis using residue_complement [OF pseudo_packet_sum(2) [OF assms(1,2)]] k by simp
  qed
  then have "unat (ComputeUdpChecksum source destination
      (udp_header sp dp (8 + length payload) (if k = 0 then 0xFFFF else k) @ payload)) = 0"
    by (simp only: udp_checksum_pseudo [OF assms(1-3)] pseudo_packet_sum(1) [OF assms(1,2), of sp dp "if k = 0 then _ else k"])
  then show ?thesis by (simp only: unat_eq_zero)
qed

text \<open>What the fields of a built packet are, by position.\<close>

lemma built_shape:
  assumes "length source = 4" "length destination = 4"
    and "BuildUdpPacket max_inner out source destination sp dp payload ident = (n, out')" "n \<noteq> 0"
  shows "\<exists>c k. n = 28 + length payload \<and> n \<le> length out \<and> n \<le> max_inner \<and> n \<le> 65535 \<and> k \<noteq> 0
    \<and> out' = ip_header n ident c source destination @ udp_header sp dp (8 + length payload) k @ payload @ drop n out
    \<and> ComputeChecksum (ip_header n ident c source destination) = 0
    \<and> ComputeUdpChecksum source destination (udp_header sp dp (8 + length payload) k @ payload) = 0"
proof -
  let ?n = "28 + length payload"
  have fits: "?n \<le> length out" "?n \<le> max_inner" "?n \<le> 65535"
    using assms(3,4) by (auto simp: BuildUdpPacket_def Ipv4HeaderSize_def UdpHeaderSize_def Let_def split: if_splits)
  have m: "8 + length payload \<le> 65535" using fits by simp
  let ?c = "ComputeChecksum (ip_header ?n ident 0 source destination)"
  let ?k = "ComputeUdpChecksum source destination (udp_header sp dp (8 + length payload) 0 @ payload)"
  let ?k' = "if ?k = 0 then 0xFFFF else ?k"
  note form = BuildUdpPacket_form [OF assms(1,2) fits, unfolded Let_def, where ident = ident and sp = sp and dp = dp]
  have "?k' \<noteq> 0" by simp
  with form assms(3) fits header_checksum_zero [OF assms(1,2), of ?n ident] udp_checksum_zero [OF assms(1,2) m, of sp dp]
  show ?thesis by - (rule exI [of _ ?c], rule exI [of _ ?k'], simp)
qed

lemma shape_fields:
  assumes "length source = 4" "length destination = 4"
    and "out' = ip_header n ident c source destination @ udp_header sp dp m k @ rest"
  shows "out' ! 0 = 0x45" "LoadBigEndian16 out' 2 = of_nat n" "LoadBigEndian16 out' 6 = 0x4000" "out' ! 9 = UdpProtocol"
    "take 4 (drop 12 out') = source" "take 4 (drop 16 out') = destination"
    "take 20 out' = ip_header n ident c source destination" "drop 20 out' = udp_header sp dp m k @ rest"
proof -
  obtain a b c' d where s: "source = [a, b, c', d]" using four_bytes [OF assms(1)] by blast
  obtain e f g h where d': "destination = [e, f, g, h]" using four_bytes [OF assms(2)] by blast
  have "LoadBigEndian16 out' 6 = 0x4000"
    by (rule load_be_bytes) (simp_all add: assms(3) ip_header_def be_bytes_def)
  moreover have "LoadBigEndian16 out' 2 = of_nat n"
    by (rule load_be_bytes) (simp_all add: assms(3) ip_header_def be_bytes_def)
  ultimately show "out' ! 0 = 0x45" "LoadBigEndian16 out' 2 = of_nat n" "LoadBigEndian16 out' 6 = 0x4000" "out' ! 9 = UdpProtocol"
    "take 4 (drop 12 out') = source" "take 4 (drop 16 out') = destination"
    "take 20 out' = ip_header n ident c source destination" "drop 20 out' = udp_header sp dp m k @ rest"
    by (simp_all add: assms(3) ip_header_def be_bytes_def s d')
qed

lemma udp_fields:
  "LoadBigEndian16 (udp_header sp dp m k @ rest) 0 = sp" "LoadBigEndian16 (udp_header sp dp m k @ rest) 2 = dp"
  "LoadBigEndian16 (udp_header sp dp m k @ rest) 4 = of_nat m" "LoadBigEndian16 (udp_header sp dp m k @ rest) 6 = k"
  by (rule load_be_bytes; simp add: udp_header_def be_bytes_def)+

lemma built_validates:
  assumes "length source = 4" "length destination = 4"
    and "BuildUdpPacket max_inner out source destination sp dp payload ident = (n, out')" "n \<noteq> 0"
  shows "ValidateUdpReply out' n \<lparr>local_address = destination, remote_address = source, local_port = dp,
      remote_port = sp, reply_payload = payload\<rparr> = (True, ''validated UDP echo'')
    \<and> n = 28 + length payload \<and> n \<le> max_inner \<and> length out' = length out \<and> drop n out' = drop n out"
proof -
  obtain c k where n: "n = 28 + length payload" "n \<le> length out" "n \<le> max_inner" "n \<le> 65535" "k \<noteq> 0"
    and out': "out' = ip_header n ident c source destination @ udp_header sp dp (8 + length payload) k @ payload @ drop n out"
    and sums: "ComputeChecksum (ip_header n ident c source destination) = 0"
      "ComputeUdpChecksum source destination (udp_header sp dp (8 + length payload) k @ payload) = 0"
    using built_shape [OF assms] by blast
  note f = shape_fields [OF assms(1,2) out'] udp_fields
  have words: "unat (of_nat n :: u16) = n" "unat (of_nat (8 + length payload) :: u16) = 8 + length payload"
    using n by (simp_all add: unat_of_nat_small del: of_nat_add)
  have udp: "take (8 + length payload) (udp_header sp dp (8 + length payload) k @ payload @ drop n out)
      = udp_header sp dp (8 + length payload) k @ payload" by simp
  have size: "n - 20 = 8 + length payload" using n by simp
  have "ValidateUdpReply out' n \<lparr>local_address = destination, remote_address = source, local_port = dp,
      remote_port = sp, reply_payload = payload\<rparr> = (True, ''validated UDP echo'')"
    unfolding ValidateUdpReply_def Ipv4HeaderSize_def UdpHeaderSize_def Let_def f words
    using n sums udp size by (simp add: f words del: of_nat_add)
  with n out' assms(1,2) show ?thesis by (simp add: copy_header)
qed

text \<open>
  C3. Every packet the scenario builds passes the scenario's own validation at the other
  end, with the addresses and the ports exchanged: both checksums verify, for every payload
  that fits, and the array behind the packet is untouched.
\<close>

theorem built_packet_validates:
  assumes "length source = 4" "length destination = 4"
    and "BuildUdpPacket max_inner out source destination sp dp payload ident = (n, out')" "n \<noteq> 0"
  shows "ValidateUdpReply out' n \<lparr>local_address = destination, remote_address = source, local_port = dp,
      remote_port = sp, reply_payload = payload\<rparr> = (True, ''validated UDP echo'')
    \<and> n = 28 + length payload \<and> n \<le> max_inner \<and> length out' = length out \<and> drop n out' = drop n out"
  by (rule built_validates [OF assms])

theorem built_packet_validates_witness:
  "case BuildUdpPacket 1420 (replicate 40 0xAA) [10, 0, 0, 2] [10, 1, 0, 2] 39000 29000 [1, 2, 3] 7 of (n, out') \<Rightarrow>
     ValidateUdpReply out' n \<lparr>local_address = [10, 1, 0, 2], remote_address = [10, 0, 0, 2], local_port = 29000,
       remote_port = 39000, reply_payload = [1, 2, 3]\<rparr> = (True, ''validated UDP echo'')"
proof (rule case_prodI2)
  fix n out'
  assume b: "BuildUdpPacket 1420 (replicate 40 0xAA) [10, 0, 0, 2] [10, 1, 0, 2] 39000 29000 [1, 2, 3] 7 = (n, out')"
  then have "n \<noteq> 0" by (auto simp: BuildUdpPacket_def Ipv4HeaderSize_def UdpHeaderSize_def Let_def)
  from built_packet_validates [OF _ _ b this, THEN conjunct1] show "ValidateUdpReply out' n \<lparr>local_address = [10, 1, 0, 2],
      remote_address = [10, 0, 0, 2], local_port = 29000, remote_port = 39000, reply_payload = [1, 2, 3]\<rparr>
    = (True, ''validated UDP echo'')" by simp
qed

subsection \<open>Damaged packets\<close>

text \<open>Changing the high byte of the checksum to its complement changes the sum by a multiple of 256 that no 65535 divides.\<close>

lemma flipped_sum:
  assumes "ones_residue (n + 256 * a) = 65535" "a < 256"
  shows "ones_residue (n + 256 * (255 - a)) \<noteq> 65535"
proof
  assume "ones_residue (n + 256 * (255 - a)) = 65535"
  then have "int 65535 dvd int (n + 256 * (255 - a)) - int (n + 256 * a)"
    using assms(1) unfolding ones_residue_full by (simp only: dvd_diff int_dvd_int_iff)
  moreover have "int (n + 256 * (255 - a)) - int (n + 256 * a) = 256 * (255 - 2 * int a)" using assms(2) by simp
  ultimately obtain q where "256 * (255 - 2 * int a) = 65535 * q" by auto
  then have "255 - 2 * int a = 65535 * (256 * q - (255 - 2 * int a))" by (simp add: algebra_simps)
  then have "(65535 :: int) dvd 255 - 2 * int a" by (rule dvdI)
  moreover have "255 - 2 * int a \<noteq> 0" by presburger
  ultimately have "65535 \<le> \<bar>255 - 2 * int a\<bar>" by (metis dvd_imp_le_int abs_numeral)
  with assms(2) show False by simp
qed

lemma bad_header_checksum:
  "packet ! 0 = 0x45 \<Longrightarrow> unat (LoadBigEndian16 packet 2) = n \<Longrightarrow> 28 \<le> n \<Longrightarrow> ComputeChecksum (take 20 packet) \<noteq> 0 \<Longrightarrow>
     ValidateUdpReply packet n expected = (False, ''invalid IPv4 checksum'')"
  by (simp add: ValidateUdpReply_def Ipv4HeaderSize_def UdpHeaderSize_def Let_def)

lemma flipped_rejected:
  assumes "length source = 4" "length destination = 4"
    and "BuildUdpPacket max_inner out source destination sp dp payload ident = (n, out')" "n \<noteq> 0"
  shows "ValidateUdpReply (out'[10 := out' ! 10 XOR 0xFF]) n expected = (False, ''invalid IPv4 checksum'')"
proof -
  obtain c k where n: "n = 28 + length payload" "n \<le> 65535"
    and out': "out' = ip_header n ident c source destination @ udp_header sp dp (8 + length payload) k @ payload @ drop n out"
    and sums: "ComputeChecksum (ip_header n ident c source destination) = 0"
    using built_shape [OF assms] by blast
  let ?h = "ip_header n ident c source destination"
  let ?f = "?h[10 := ?h ! 10 XOR 0xFF]"
  have len: "length ?h = 20" using assms(1,2) by (simp add: copy_header)
  have flipped: "out'[10 := out' ! 10 XOR 0xFF]
      = ?f @ udp_header sp dp (8 + length payload) k @ payload @ drop n out"
    by (simp add: out' nth_append list_update_append len)
  let ?a = "unat (?h ! 10)"
  have x: "unat (w XOR 0xFF) = 255 - unat w" for w :: u8
  proof -
    have "w XOR 0xFF = NOT w" by (rule bit_word_eqI) (auto simp: bit_simps less_Suc_eq numeral_eq_Suc)
    also have "\<dots> = - 1 - w" by (simp add: not_eq_complement)
    finally show ?thesis by (simp add: unat_sub unsigned_minus_1_eq_mask mask_eq_exp_minus_1)
  qed
  have "word_sum ?h = word_sum (?h[10 := 0]) + 256 * ?a" "word_sum ?f = word_sum (?h[10 := 0]) + 256 * (255 - ?a)"
    by (simp_all add: ip_header_def be_bytes_def x)
  moreover have "?a < 256" using unsigned_less [of "?h ! 10"] by simp
  ultimately have "ComputeChecksum ?f \<noteq> 0"
    using sums flipped_sum [of "word_sum (?h[10 := 0])" ?a] len by (simp add: checksum_zero_iff)
  moreover have "(?f @ r) ! 0 = 0x45" "take 20 (?f @ r) = ?f" for r
    using len by (simp_all add: ip_header_def)
  moreover have "LoadBigEndian16 (?f @ r) 2 = of_nat n" for r
    by (rule load_be_bytes) (simp_all add: ip_header_def be_bytes_def)
  moreover have "unat (of_nat n :: u16) = n" using n by (simp add: unat_of_nat_small del: of_nat_add)
  ultimately show ?thesis
    unfolding flipped using n(1) by (intro bad_header_checksum) (simp_all only:, simp)
qed

text \<open>
  C18. The scenario's malformed packet is malformed: with the first byte of the header checksum
  complemented, a built packet fails every validation at the header checksum.
\<close>

theorem flipped_checksum_rejected:
  assumes "length source = 4" "length destination = 4"
    and "BuildUdpPacket max_inner out source destination sp dp payload ident = (n, out')" "n \<noteq> 0"
  shows "ValidateUdpReply (out'[10 := out' ! 10 XOR 0xFF]) n expected = (False, ''invalid IPv4 checksum'')"
  by (rule flipped_rejected [OF assms])

theorem flipped_checksum_rejected_witness:
  "case BuildUdpPacket 1420 (replicate 40 0xAA) [10, 0, 0, 2] [10, 1, 0, 2] 39000 29000 [1, 2, 3] 7 of (n, out') \<Rightarrow>
     \<not> fst (ValidateUdpReply (out'[10 := out' ! 10 XOR 0xFF]) n
       \<lparr>local_address = [10, 1, 0, 2], remote_address = [10, 0, 0, 2], local_port = 29000,
         remote_port = 39000, reply_payload = [1, 2, 3]\<rparr>)"
proof (rule case_prodI2)
  fix n out'
  assume b: "BuildUdpPacket 1420 (replicate 40 0xAA) [10, 0, 0, 2] [10, 1, 0, 2] 39000 29000 [1, 2, 3] 7 = (n, out')"
  then have "n \<noteq> 0" by (auto simp: BuildUdpPacket_def Ipv4HeaderSize_def UdpHeaderSize_def Let_def)
  from flipped_checksum_rejected [OF _ _ b this] show "\<not> fst (ValidateUdpReply (out'[10 := out' ! 10 XOR 0xFF]) n
      \<lparr>local_address = [10, 1, 0, 2], remote_address = [10, 0, 0, 2], local_port = 29000,
        remote_port = 39000, reply_payload = [1, 2, 3]\<rparr>)"
    by simp
qed

subsection \<open>What a validation reads and what it shows\<close>

lemma load_take: "Suc i < n \<Longrightarrow> LoadBigEndian16 (take n b) i = LoadBigEndian16 b i"
  by (simp add: LoadBigEndian16_def)

lemma load_drop_take:
  "n \<le> length b \<Longrightarrow> k + Suc i < n \<Longrightarrow> LoadBigEndian16 (drop k (take n b)) i = LoadBigEndian16 (drop k b) i"
  by (simp add: LoadBigEndian16_def)

lemma validate_take:
  assumes "n \<le> length b" shows "ValidateUdpReply (take n b) n e = ValidateUdpReply b n e"
proof (cases "28 \<le> n")
  case True
  let ?i = "unat (b ! 0 AND 0x0F) * 4"
  have first: "take n b ! 0 = b ! 0" "take n b ! 9 = b ! 9" using True by simp_all
  show ?thesis
  proof (cases "?i + 8 \<le> n")
    case fits: True
    have "take ?i (take n b) = take ?i b" using fits by simp
    moreover have "take (n - ?i) (drop ?i (take n b)) = take (n - ?i) (drop ?i b)" by (simp add: drop_take)
    moreover have "take (n - ?i - 8) (drop 8 (drop ?i (take n b))) = take (n - ?i - 8) (drop 8 (drop ?i b))"
      by (simp add: drop_take)
    moreover have "take 4 (drop 12 (take n b)) = take 4 (drop 12 b)" "take 4 (drop 16 (take n b)) = take 4 (drop 16 b)"
      using True by (simp_all add: drop_take)
    ultimately show ?thesis
      using True fits assms
      unfolding ValidateUdpReply_def Let_def first Ipv4HeaderSize_def UdpHeaderSize_def
      by (simp add: load_take load_drop_take cong: if_cong)
  next
    case False
    then show ?thesis
      using True unfolding ValidateUdpReply_def Let_def first Ipv4HeaderSize_def UdpHeaderSize_def
      by (simp add: load_take)
  qed
qed (simp add: ValidateUdpReply_def Ipv4HeaderSize_def UdpHeaderSize_def)

text \<open>
  C17. A validation depends on the packet alone: whatever an earlier reply left in the array
  behind it, verdict and detail are the same, so no branch reads past the packet's size.
\<close>

theorem validation_reads_packet_only:
  assumes "take n earlier = take n later" "n \<le> length earlier" "n \<le> length later"
  shows "ValidateUdpReply earlier n expected = ValidateUdpReply later n expected"
  using validate_take [OF assms(2)] validate_take [OF assms(3)] assms(1) by metis

theorem validation_reads_packet_only_witness:
  "ValidateUdpReply [0x4F, 0, 0, 28, 0, 0, 0, 0, 64, 17, 0, 0, 1, 1, 1, 1, 2, 2, 2, 2, 0, 1, 0, 2, 0, 8, 0, 0, 9, 9] 28
     \<lparr>local_address = [2, 2, 2, 2], remote_address = [1, 1, 1, 1], local_port = 2, remote_port = 1, reply_payload = []\<rparr>
   = ValidateUdpReply [0x4F, 0, 0, 28, 0, 0, 0, 0, 64, 17, 0, 0, 1, 1, 1, 1, 2, 2, 2, 2, 0, 1, 0, 2, 0, 8, 0, 0, 7] 28
     \<lparr>local_address = [2, 2, 2, 2], remote_address = [1, 1, 1, 1], local_port = 2, remote_port = 1, reply_payload = []\<rparr>"
  by (rule validation_reads_packet_only) simp_all

text \<open>
  A reply that validates is the expected one: it fills the packet exactly, behind a header
  of 20 to 60 bytes, comes from the remote end point to the local one, carries the expected
  payload, and both checksums verify as sums in ones' complement.
\<close>

theorem validated_reply_is_expected:
  assumes "ValidateUdpReply packet n expected = (True, detail)" "n \<le> length packet"
  shows "\<exists>i. 20 \<le> i \<and> i \<le> 60 \<and> n = i + 8 + length (reply_payload expected)
    \<and> take (n - i - 8) (drop (i + 8) packet) = reply_payload expected
    \<and> take 4 (drop 12 packet) = remote_address expected \<and> take 4 (drop 16 packet) = local_address expected
    \<and> LoadBigEndian16 packet i = remote_port expected \<and> LoadBigEndian16 packet (i + 2) = local_port expected
    \<and> ones_residue (word_sum (take i packet)) = 65535
    \<and> ones_residue (word_sum (remote_address expected @ local_address expected @ pseudo_tail (n - i)
        @ take (n - i) (drop i packet))) = 65535"
proof -
  let ?i = "unat (packet ! 0 AND 0x0F) * 4"
  have "packet ! 0 AND 0x0F \<le> 0x0F" by (rule word_and_le1)
  then have i: "?i \<le> 60" by (simp add: word_le_nat_alt)
  have "unat (LoadBigEndian16 packet 2) < 2 ^ LENGTH(16)" by (rule unsigned_less)
  with assms have n: "n \<le> 65535" and facts: "20 \<le> ?i" "?i + 8 \<le> n" "ComputeChecksum (take ?i packet) = 0"
    "take 4 (drop 12 packet) = remote_address expected" "take 4 (drop 16 packet) = local_address expected"
    "LoadBigEndian16 (drop ?i packet) 0 = remote_port expected" "LoadBigEndian16 (drop ?i packet) 2 = local_port expected"
    "ComputeUdpChecksum (remote_address expected) (local_address expected) (take (n - ?i) (drop ?i packet)) = 0"
    "take (n - ?i - 8) (drop 8 (drop ?i packet)) = reply_payload expected"
    by (auto simp: ValidateUdpReply_def Let_def Ipv4HeaderSize_def UdpHeaderSize_def split: if_splits)
  have payload: "length (reply_payload expected) = n - ?i - 8"
    unfolding facts(9) [symmetric] using facts(2) assms(2) by simp
  have addresses: "length (remote_address expected) = 4" "length (local_address expected) = 4"
    unfolding facts(4,5) [symmetric] using facts(1,2) assms(2) by simp_all
  have udp: "length (take (n - ?i) (drop ?i packet)) = n - ?i" using assms(2) by simp
  have "ones_residue (word_sum (take ?i packet)) = 65535" using facts(3) i by (simp add: checksum_zero_iff)
  moreover have "ones_residue (word_sum (remote_address expected @ local_address expected @ pseudo_tail (n - ?i)
      @ take (n - ?i) (drop ?i packet))) = 65535"
    using unat_ComputeUdpChecksum [OF addresses, of "take (n - ?i) (drop ?i packet)"] facts(8) udp n
      ones_residue_bound [of "word_sum (remote_address expected @ local_address expected @ pseudo_tail (n - ?i)
        @ take (n - ?i) (drop ?i packet))"] by simp
  moreover have "LoadBigEndian16 packet (?i + j) = LoadBigEndian16 (drop ?i packet) j" for j
    using facts(2) assms(2) by (simp add: LoadBigEndian16_def)
  from this [of 0] this [of 2] have "LoadBigEndian16 packet ?i = remote_port expected"
    "LoadBigEndian16 packet (?i + 2) = local_port expected" using facts(6,7) by simp_all
  ultimately show ?thesis
    using i facts payload by (intro exI [of _ ?i] conjI) (simp_all add: add.commute)
qed

lemma sample_reply:
  "ValidateUdpReply [0x45, 0, 0, 29, 0, 0, 0, 0, 64, 17, 0x74, 0xCB, 1, 1, 1, 1, 2, 2, 2, 2, 0, 1, 0, 2, 0, 9, 0xF3, 0xD3, 6] 29
    \<lparr>local_address = [2, 2, 2, 2], remote_address = [1, 1, 1, 1], local_port = 2, remote_port = 1, reply_payload = [6]\<rparr>
   = (True, ''validated UDP echo'')"
  by code_simp

theorem validated_reply_is_expected_witness:
  "\<exists>i. 20 \<le> i \<and> i \<le> 60 \<and> (29 :: nat) = i + 8 + length [6 :: u8] \<and> (LoadBigEndian16
     [0x45, 0, 0, 29, 0, 0, 0, 0, 64, 17, 0x74, 0xCB, 1, 1, 1, 1, 2, 2, 2, 2, 0, 1, 0, 2, 0, 9, 0xF3, 0xD3, 6] i = 1)"
  using validated_reply_is_expected [OF sample_reply] by auto

end
