(* ===== verification/ScenarioBase.thy ===== *)
theory ScenarioBase
  imports ToolboxRuntime
begin

text \<open>
  What the scenarios of the toolbox share: the result record of
  \<^verbatim>\<open>toolbox/src/scenarios.hpp\<close>, and loops that call the platform. The platform answers as a
  function of the history of a run, the list of everything that happened before; a loop that
  waits for the platform may never end, so it is a partial function from a history to a result
  with the longer history.
\<close>

record ScenarioResult =
  sr_name :: string
  sr_success :: bool
  sr_skipped :: bool
  sr_rc :: u32
  sr_err :: int
  sr_bytes_sent :: nat
  sr_bytes_received :: nat
  sr_detail :: string

definition new_result :: "string \<Rightarrow> ScenarioResult" where
  "new_result name = \<lparr>sr_name = name, sr_success = False, sr_skipped = False, sr_rc = 0, sr_err = 0,
     sr_bytes_sent = 0, sr_bytes_received = 0, sr_detail = []\<rparr>"

lemma new_result_fields [simp]:
  "\<not> sr_success (new_result name)" "\<not> sr_skipped (new_result name)" "sr_rc (new_result name) = 0"
  "sr_err (new_result name) = 0" "sr_bytes_sent (new_result name) = 0" "sr_bytes_received (new_result name) = 0"
  "sr_detail (new_result name) = []" "sr_name (new_result name) = name"
  by (simp_all add: new_result_def)

text \<open>\<^verbatim>\<open>R_FAILED\<close>.\<close>

definition failed :: "u32 \<Rightarrow> bool" where "failed rc \<longleftrightarrow> rc \<noteq> 0"

subsection \<open>Loops\<close>

text \<open>A turn either leaves the loop with a value or gives the variables of the next turn.\<close>

partial_function (option) loop ::
  "('x \<Rightarrow> 'h \<Rightarrow> ('r + 'x) \<times> 'h) \<Rightarrow> 'x \<Rightarrow> 'h \<Rightarrow> ('r \<times> 'h) option" where
  "loop body x h =
     (case body x h of (turn, h') \<Rightarrow>
        (case turn of Inl r \<Rightarrow> Some (r, h') | Inr x' \<Rightarrow> loop body x' h'))"

text \<open>What a loop that ended shows, by an invariant of its turns.\<close>

lemma loop_invariant:
  assumes "\<And>x h x' h'. I x h \<Longrightarrow> body x h = (Inr x', h') \<Longrightarrow> I x' h'"
    and "\<And>x h r h'. I x h \<Longrightarrow> body x h = (Inl r, h') \<Longrightarrow> Q r h'"
    and "loop body x h = Some (r, h')" "I x h"
  shows "Q r h'"
proof -
  let ?P = "\<lambda>b x h y. \<forall>r h'. b = body \<longrightarrow> y = (r, h') \<longrightarrow> I x h \<longrightarrow> Q r h'"
  have "?P b x h y" if "loop b x h = Some y" for b x h y
  proof (rule loop.raw_induct [where P = ?P and xa = "((b, x), h)", unfolded prod.case, OF _ that])
    fix f :: "('a \<Rightarrow> 'b \<Rightarrow> ('c + 'a) \<times> 'b) \<Rightarrow> 'a \<Rightarrow> 'b \<Rightarrow> ('c \<times> 'b) option" and b x h y
    assume 1: "\<And>b x h y. f b x h = Some y \<Longrightarrow> ?P b x h y"
      "(case b x h of (turn, h') \<Rightarrow> (case turn of Inl r \<Rightarrow> Some (r, h') | Inr x' \<Rightarrow> f b x' h')) = Some y"
    obtain turn k where turn: "body x h = (turn, k)" by (rule prod.exhaust)
    show "?P b x h y"
    proof (cases turn)
      case (Inl r)
      with 1(2) turn assms(2) show ?thesis by auto
    next
      case (Inr x')
      with 1(1) [of body x' k y] 1(2) turn assms(1) show ?thesis by auto
    qed
  qed
  from this [OF assms(3)] assms(4) show ?thesis by blast
qed

text \<open>A loop whose turns decrease a measure ends.\<close>

lemma loop_terminates:
  assumes "\<And>x h x' h'. I x h \<Longrightarrow> body x h = (Inr x', h') \<Longrightarrow> I x' h' \<and> (m x' h' :: nat) < m x h"
    and "I x h"
  shows "\<exists>r h'. loop body x h = Some (r, h')"
  using assms(2)
proof (induction "m x h" arbitrary: x h rule: less_induct)
  case less
  obtain turn k where turn: "body x h = (turn, k)" by (rule prod.exhaust)
  show ?case
  proof (cases turn)
    case (Inl r)
    with turn show ?thesis by (subst loop.simps) simp
  next
    case (Inr x')
    then have "I x' k \<and> m x' k < m x h" using turn assms(1) less.prems by blast
    with less.hyps obtain r h' where "loop body x' k = Some (r, h')" by blast
    with Inr turn show ?thesis by (subst loop.simps) simp
  qed
qed

end
