(* ===== verification/PacketScenario.thy ===== *)
theory PacketScenario
  imports UdpPacket ScenarioBase
begin

text \<open>
  The direct tunnel test (\<^verbatim>\<open>RunWgnxPacketUdpEcho\<close> of \<^verbatim>\<open>toolbox/src/wgnx_packet_scenario.cpp\<close>):
  submit one built packet through the service of a sibling repository and poll for its echo
  until a deadline. The service, the clock and the random source answer as functions of
  everything that happened before, recorded as a list of events; the loop over the clock may
  run for ever when the clock stands still, so the scenario is a partial function.
\<close>

subsection \<open>The service and the platform\<close>

record PacketSubmissionResult =
  sub_status :: u32
  sub_packet_id :: u64
  sub_packet_size :: u32
  sub_peer_index :: s32
  sub_activation_generation :: u32

record PacketReceiveResult =
  rec_status :: u32
  rec_packet_id :: u64
  rec_packet_size :: u32
  rec_peer_index :: s32
  rec_activation_generation :: u32

datatype packet_event =
  Pk_log string | Pk_running bool | Pk_open u32 | Pk_version u32 u32 | Pk_random "u8 list" | Pk_random64 u64
| Pk_submit "u8 list" u32 PacketSubmissionResult | Pk_receive u32 PacketReceiveResult "u8 list" | Pk_tick u64 | Pk_sleep u32

type_synonym packet_history = "packet_event list"

text \<open>
  What the sibling repository's headers fix: the largest packet, the version, the status
  values and their names. \<open>diagnostics\<close> is the build option of the packet log lines.
\<close>

record packet_api =
  api_max_packet :: nat
  api_version :: u32
  api_queued :: u32
  api_queue_empty :: u32
  api_success :: u32
  api_malformed :: u32
  api_status_name :: "u32 \<Rightarrow> string"
  api_diagnostics :: bool

text \<open>The answers; the receive call returns the array it was given, filled anew.\<close>

record packet_env =
  pe_running :: "packet_history \<Rightarrow> bool"
  pe_open :: "packet_history \<Rightarrow> u32"
  pe_version :: "packet_history \<Rightarrow> u32 \<times> u32"
  pe_random :: "packet_history \<Rightarrow> nat \<Rightarrow> u8 list"
  pe_random64 :: "packet_history \<Rightarrow> u64"
  pe_submit :: "packet_history \<Rightarrow> u8 list \<Rightarrow> u32 \<times> PacketSubmissionResult"
  pe_receive :: "packet_history \<Rightarrow> u8 list \<Rightarrow> u32 \<times> PacketReceiveResult \<times> u8 list"
  pe_tick :: "packet_history \<Rightarrow> u64"
  pe_tick_frequency :: u64
  pe_inet_pton :: "string \<Rightarrow> u8 list option"

definition read_tick :: "packet_env \<Rightarrow> packet_history \<Rightarrow> u64 \<times> packet_history" where
  "read_tick env h = (let now = pe_tick env h in (now, h @ [Pk_tick now]))"

definition log_text :: "string \<Rightarrow> packet_history \<Rightarrow> packet_history" where
  "log_text text h = h @ [Pk_log text]"

definition log_packet :: "packet_api \<Rightarrow> string \<Rightarrow> packet_history \<Rightarrow> packet_history" where
  "log_packet api text h = (if api_diagnostics api then h @ [Pk_log text] else h)"

subsection \<open>Configuration\<close>

record packet_config =
  pc_source_ipv4 :: string
  pc_destination_ipv4 :: string
  pc_source_port :: u16
  pc_destination_port :: u16
  pc_payload_prefix :: string
  pc_timeout_ms :: u32
  pc_poll_interval_ms :: u32
  pc_submit_malformed :: bool

text \<open>The compiled values of \<^verbatim>\<open>toolbox/src/config.hpp\<close>.\<close>

definition compiled_packet_config :: packet_config where
  "compiled_packet_config = \<lparr>pc_source_ipv4 = ''10.0.0.2'', pc_destination_ipv4 = ''10.1.0.2'',
     pc_source_port = 39000, pc_destination_port = 29000, pc_payload_prefix = ''nxrv-wgnx-udp:'',
     pc_timeout_ms = 5000, pc_poll_interval_ms = 25, pc_submit_malformed = False\<rparr>"

text \<open>\<open>DeadlineAfterMilliseconds\<close>: the products and the sum wrap at 64 bits.\<close>

definition DeadlineAfterMilliseconds :: "packet_env \<Rightarrow> u32 \<Rightarrow> packet_history \<Rightarrow> u64 \<times> packet_history" where
  "DeadlineAfterMilliseconds env timeout_ms h =
     (let ticks = (pe_tick_frequency env * ucast timeout_ms) div 1000;
          (now, h) = read_tick env h
      in (now + ticks, h))"

subsection \<open>The receive loop\<close>

record receive_state =
  rs_incoming :: "u8 list"
  rs_empty_polls :: u32
  rs_rejected_packets :: u32
  rs_last_rejection :: string

definition submission_text :: "packet_api \<Rightarrow> u32 \<Rightarrow> PacketSubmissionResult \<Rightarrow> u8 list \<Rightarrow> string" where
  "submission_text api rc submission token =
     ''scenario=wgnx_packet_udp_echo submit rc='' @ FormatResult rc @ '' status='' @ api_status_name api (sub_status submission)
     @ ''('' @ to_string (sub_status submission) @ '') id='' @ to_string (sub_packet_id submission)
     @ '' bytes='' @ to_string (sub_packet_size submission) @ '' peer='' @ show_int (sint (sub_peer_index submission))
     @ '' activation='' @ to_string (sub_activation_generation submission) @ '' token='' @ EscapePreview token TokenSize"

definition receive_text :: "packet_api \<Rightarrow> PacketReceiveResult \<Rightarrow> string" where
  "receive_text api received =
     ''scenario=wgnx_packet_udp_echo receive status='' @ api_status_name api (rec_status received)
     @ ''('' @ to_string (rec_status received) @ '') id='' @ to_string (rec_packet_id received)
     @ '' bytes='' @ to_string (rec_packet_size received) @ '' peer='' @ show_int (sint (rec_peer_index received))
     @ '' activation='' @ to_string (rec_activation_generation received)"

definition echo_detail ::
  "u32 \<Rightarrow> PacketSubmissionResult \<Rightarrow> PacketReceiveResult \<Rightarrow> receive_state \<Rightarrow> u8 list \<Rightarrow> string" where
  "echo_detail version submission received st payload =
     ''api='' @ to_string version @ '' submit_id='' @ to_string (sub_packet_id submission)
     @ '' receive_id='' @ to_string (rec_packet_id received) @ '' peer='' @ show_int (sint (rec_peer_index received))
     @ '' activation='' @ to_string (rec_activation_generation received)
     @ '' empty_polls='' @ to_string (rs_empty_polls st) @ '' ignored_packets='' @ to_string (rs_rejected_packets st)
     @ '' payload='' @ EscapePreview payload (length payload)"

definition timeout_detail :: "packet_config \<Rightarrow> receive_state \<Rightarrow> string" where
  "timeout_detail cfg st =
     ''timeout_ms='' @ to_string (pc_timeout_ms cfg) @ '' empty_polls='' @ to_string (rs_empty_polls st)
     @ '' ignored_packets='' @ to_string (rs_rejected_packets st)
     @ (if rs_last_rejection st \<noteq> [] then '' last_rejection='' @ rs_last_rejection st else [])"

text \<open>One turn of the loop: the result when it returns, or the state of the next turn.\<close>

definition poll_once ::
  "packet_env \<Rightarrow> packet_api \<Rightarrow> packet_config \<Rightarrow> ExpectedReply \<Rightarrow> u32 \<Rightarrow> PacketSubmissionResult
     \<Rightarrow> ScenarioResult \<Rightarrow> receive_state \<Rightarrow> packet_history \<Rightarrow> (ScenarioResult + receive_state) \<times> packet_history" where
  "poll_once env api cfg expected version submission result st h =
     (let (rc, received, incoming) = pe_receive env h (rs_incoming st);
          h = h @ [Pk_receive rc received incoming];
          st = st\<lparr>rs_incoming := incoming\<rparr>;
          result = result\<lparr>sr_rc := rc\<rparr>
      in if failed rc then
           (Inl (result\<lparr>sr_detail := ''ReceiveInnerIpv4Packet CMIF failure after empty_polls='' @ to_string (rs_empty_polls st)\<rparr>), h)
         else if rec_status received = api_queue_empty api then
           (Inr (st\<lparr>rs_empty_polls := rs_empty_polls st + 1\<rparr>), h @ [Pk_sleep (pc_poll_interval_ms cfg)])
         else let h = log_packet api (receive_text api received) h
         in if rec_status received \<noteq> api_success api then
           (Inl (result\<lparr>sr_detail := ''receive rejected status='' @ api_status_name api (rec_status received)
              @ '' empty_polls='' @ to_string (rs_empty_polls st)\<rparr>), h)
         else if length incoming < unat (rec_packet_size received) then
           (Inl (result\<lparr>sr_detail := ''receive reported oversized packet='' @ to_string (rec_packet_size received)\<rparr>), h)
         else let (valid, detail) = ValidateUdpReply incoming (unat (rec_packet_size received)) expected
         in if valid then
           (Inl (result\<lparr>sr_success := True, sr_bytes_received := unat (rec_packet_size received),
              sr_detail := echo_detail version submission received st (reply_payload expected)\<rparr>), h)
         else (Inr (st\<lparr>rs_rejected_packets := rs_rejected_packets st + 1, rs_last_rejection := detail\<rparr>),
              log_packet api (''scenario=wgnx_packet_udp_echo ignored_receive reason='' @ detail @ '' preview=''
                @ EscapePreview (take (unat (rec_packet_size received)) incoming) 96) h))"

text \<open>
  The condition of the loop reads the clock; \<open>result.rc\<close> keeps the code of the last receive
  call, which succeeded when the loop goes on.
\<close>

definition receive_turn ::
  "packet_env \<Rightarrow> packet_api \<Rightarrow> packet_config \<Rightarrow> ExpectedReply \<Rightarrow> u32 \<Rightarrow> PacketSubmissionResult \<Rightarrow> u64
     \<Rightarrow> ScenarioResult \<times> receive_state \<Rightarrow> packet_history
     \<Rightarrow> (ScenarioResult + ScenarioResult \<times> receive_state) \<times> packet_history" where
  "receive_turn env api cfg expected version submission deadline = (\<lambda>(result, st) h.
     let (now, h) = read_tick env h
     in if deadline \<le> now then (Inl (result\<lparr>sr_detail := timeout_detail cfg st\<rparr>), h)
        else case poll_once env api cfg expected version submission result st h of
            (Inl r, h) \<Rightarrow> (Inl r, h)
          | (Inr st', h) \<Rightarrow> (Inr (result\<lparr>sr_rc := 0\<rparr>, st'), h))"

definition receive_loop ::
  "packet_env \<Rightarrow> packet_api \<Rightarrow> packet_config \<Rightarrow> ExpectedReply \<Rightarrow> u32 \<Rightarrow> PacketSubmissionResult \<Rightarrow> u64
     \<Rightarrow> ScenarioResult \<Rightarrow> receive_state \<Rightarrow> packet_history \<Rightarrow> (ScenarioResult \<times> packet_history) option" where
  "receive_loop env api cfg expected version submission deadline result st h =
     loop (receive_turn env api cfg expected version submission deadline) (result, st) h"

subsection \<open>The scenario\<close>

definition echo_payload :: "packet_config \<Rightarrow> u8 list \<Rightarrow> u8 list" where
  "echo_payload cfg token = map of_char (pc_payload_prefix cfg) @ token"

text \<open>From the moment the packet is queued: the deadline and the loop.\<close>

definition await_echo ::
  "packet_env \<Rightarrow> packet_api \<Rightarrow> packet_config \<Rightarrow> ExpectedReply \<Rightarrow> u32 \<Rightarrow> PacketSubmissionResult
     \<Rightarrow> ScenarioResult \<Rightarrow> packet_history \<Rightarrow> (ScenarioResult \<times> packet_history) option" where
  "await_echo env api cfg expected version submission result h =
     (let (deadline, h) = DeadlineAfterMilliseconds env (pc_timeout_ms cfg) h
      in receive_loop env api cfg expected version submission deadline result
           \<lparr>rs_incoming = replicate (api_max_packet api) 0, rs_empty_polls = 0, rs_rejected_packets = 0,
            rs_last_rejection = []\<rparr> h)"

text \<open>The submission of the packet and what its status means.\<close>

definition submit_echo ::
  "packet_env \<Rightarrow> packet_api \<Rightarrow> packet_config \<Rightarrow> u32 \<Rightarrow> u8 list \<Rightarrow> u8 list \<Rightarrow> u8 list \<Rightarrow> u8 list
     \<Rightarrow> ScenarioResult \<Rightarrow> packet_history \<Rightarrow> (ScenarioResult \<times> packet_history) option" where
  "submit_echo env api cfg version local remote token packet result h =
     (let payload = echo_payload cfg token;
          (rc, submission) = pe_submit env h packet;
          h = h @ [Pk_submit packet rc submission];
          result = result\<lparr>sr_rc := rc\<rparr>;
          h = log_packet api (submission_text api rc submission token) h
      in if failed rc then Some (result\<lparr>sr_detail := ''SubmitInnerIpv4Packet CMIF failure''\<rparr>, h)
         else if pc_submit_malformed cfg then
           Some (result\<lparr>sr_success := (sub_status submission = api_malformed api),
             sr_detail := ''malformed IPv4 checksum submission status='' @ api_status_name api (sub_status submission)\<rparr>, h)
         else if sub_status submission \<noteq> api_queued api then
           Some (result\<lparr>sr_detail := ''submission rejected status='' @ api_status_name api (sub_status submission)
             @ '' peer='' @ show_int (sint (sub_peer_index submission))
             @ '' activation='' @ to_string (sub_activation_generation submission)\<rparr>, h)
         else await_echo env api cfg
           \<lparr>local_address = local, remote_address = remote, local_port = pc_source_port cfg,
            remote_port = pc_destination_port cfg, reply_payload = payload\<rparr>
           version submission (result\<lparr>sr_bytes_sent := length packet\<rparr>) h)"

definition start_text :: "packet_config \<Rightarrow> string" where
  "start_text cfg = ''Running wgnx:ctl UDP echo '' @ pc_source_ipv4 cfg @ '':'' @ to_string (pc_source_port cfg)
     @ '' -> '' @ pc_destination_ipv4 cfg @ '':'' @ to_string (pc_destination_port cfg)"

text \<open>The checks before anything is built: the service runs, opens, and has the compiled version.\<close>

definition check_service ::
  "packet_env \<Rightarrow> packet_api \<Rightarrow> packet_config \<Rightarrow> ScenarioResult \<Rightarrow> packet_history \<Rightarrow> ScenarioResult option \<times> packet_history" where
  "check_service env api cfg result h =
     (let h = log_text (start_text cfg) h;
          running = pe_running env h;
          h = h @ [Pk_running running]
      in if \<not> running then (Some (result\<lparr>sr_detail := ''wgnx:ctl is not running''\<rparr>), h)
      else let rc = pe_open env h;
               h = log_text (''scenario=wgnx_packet_udp_echo service_open rc='' @ FormatResult rc) (h @ [Pk_open rc])
      in if failed rc then (Some (result\<lparr>sr_rc := rc, sr_detail := ''wgnx:ctl open failure''\<rparr>), h)
      else let (rc, version) = pe_version env h;
               h = h @ [Pk_version rc version]
      in if failed rc then (Some (result\<lparr>sr_rc := rc, sr_detail := ''GetApiVersion CMIF failure''\<rparr>), h)
      else if version \<noteq> api_version api then
        (Some (result\<lparr>sr_detail := ''API version mismatch compiled='' @ to_string (api_version api)
          @ '' actual='' @ to_string version\<rparr>), h)
      else (None, h))"

definition build_and_submit ::
  "packet_env \<Rightarrow> packet_api \<Rightarrow> packet_config \<Rightarrow> u8 list \<Rightarrow> u8 list \<Rightarrow> ScenarioResult \<Rightarrow> packet_history
     \<Rightarrow> (ScenarioResult \<times> packet_history) option" where
  "build_and_submit env api cfg local remote result h =
     (let token = pe_random env h TokenSize;
          h = h @ [Pk_random token];
          random_value = pe_random64 env h;
          h = h @ [Pk_random64 random_value];
          (outgoing_size, outgoing) = BuildUdpPacket (api_max_packet api) (replicate (api_max_packet api) 0)
            local remote (pc_source_port cfg) (pc_destination_port cfg) (echo_payload cfg token) (ucast random_value)
      in if outgoing_size = 0 then Some (result\<lparr>sr_detail := ''failed to build inner IPv4/UDP packet''\<rparr>, h)
         else let outgoing = (if pc_submit_malformed cfg then outgoing[10 := outgoing ! 10 XOR 0xFF] else outgoing)
         in submit_echo env api cfg (api_version api) local remote token (take outgoing_size outgoing) result h)"

definition RunWgnxPacketUdpEcho ::
  "packet_env \<Rightarrow> packet_api \<Rightarrow> packet_config \<Rightarrow> packet_history \<Rightarrow> (ScenarioResult \<times> packet_history) option" where
  "RunWgnxPacketUdpEcho env api cfg h =
     (let result = new_result ''wgnx_packet_udp_echo''
      in case check_service env api cfg result h of
           (Some r, h) \<Rightarrow> Some (r, h)
         | (None, h) \<Rightarrow>
             (case (pe_inet_pton env (pc_source_ipv4 cfg), pe_inet_pton env (pc_destination_ipv4 cfg)) of
                (Some local, Some remote) \<Rightarrow> build_and_submit env api cfg local remote result h
              | _ \<Rightarrow> Some (result\<lparr>sr_detail := ''invalid configured IPv4 address''\<rparr>, h)))"

subsection \<open>What success means\<close>

text \<open>The exchange a successful result reports, in a history.\<close>

definition echoed_in :: "packet_history \<Rightarrow> packet_api \<Rightarrow> ExpectedReply \<Rightarrow> nat \<Rightarrow> bool" where
  "echoed_in h api expected n \<longleftrightarrow> (\<exists>received incoming detail.
     Pk_receive 0 received incoming \<in> set h \<and> rec_status received = api_success api
     \<and> n = unat (rec_packet_size received) \<and> n \<le> length incoming
     \<and> ValidateUdpReply incoming n expected = (True, detail))"

lemma echoed_in_more: "echoed_in es api expected n \<Longrightarrow> echoed_in (k @ es) api expected n"
  unfolding echoed_in_def by auto

lemma poll_once_result:
  assumes "poll_once env api cfg expected version submission result st h = (Inl r, h')"
  shows "\<exists>es. h' = h @ es \<and> sr_bytes_sent r = sr_bytes_sent result
    \<and> (sr_success r \<longrightarrow> sr_success result \<or> echoed_in es api expected (sr_bytes_received r) \<and> sr_rc r = 0)"
  using assms
  by (auto simp: poll_once_def Let_def echoed_in_def failed_def log_packet_def split: prod.splits if_splits)

lemma poll_once_continues:
  assumes "poll_once env api cfg expected version submission result st h = (Inr st', h')"
  shows "set h \<subseteq> set h'" "\<exists>more. h' = h @ more \<and> (\<forall>now. Pk_tick now \<notin> set more)"
  using assms by (auto simp: poll_once_def Let_def log_packet_def split: prod.splits if_splits)

lemma receive_turn_result:
  assumes "receive_turn env api cfg expected version submission deadline x k = (y, k')" "\<not> sr_success (fst x)"
  shows "\<exists>es. k' = k @ es \<and> (case y of
      Inl r \<Rightarrow> sr_bytes_sent r = sr_bytes_sent (fst x)
        \<and> (sr_success r \<longrightarrow> echoed_in es api expected (sr_bytes_received r) \<and> sr_rc r = 0)
    | Inr x' \<Rightarrow> \<not> sr_success (fst x') \<and> sr_bytes_sent (fst x') = sr_bytes_sent (fst x))"
proof -
  obtain result st where x: "x = (result, st)" by (rule prod.exhaust)
  obtain now k1 where t: "read_tick env k = (now, k1)" by (rule prod.exhaust)
  then have k1: "k1 = k @ [Pk_tick now]" by (auto simp: read_tick_def Let_def)
  show ?thesis
  proof (cases "deadline \<le> now")
    case True
    with assms t x k1 show ?thesis by (auto simp: receive_turn_def)
  next
    case False
    obtain z k2 where p: "poll_once env api cfg expected version submission result st k1 = (z, k2)" by (rule prod.exhaust)
    show ?thesis
    proof (cases z)
      case (Inl r)
      with poll_once_result [of env api cfg expected version submission result st k1 r k2] p
      obtain es where "k2 = k1 @ es" "sr_bytes_sent r = sr_bytes_sent result"
        "sr_success r \<longrightarrow> sr_success result \<or> echoed_in es api expected (sr_bytes_received r) \<and> sr_rc r = 0" by blast
      with Inl assms t x k1 p False echoed_in_more [of es api expected _ "[Pk_tick now]"] show ?thesis
        by (intro exI [of _ "Pk_tick now # es"]) (auto simp: receive_turn_def)
    next
      case (Inr st')
      with poll_once_continues(2) [of env api cfg expected version submission result st k1 st' k2] p
      obtain es where "k2 = k1 @ es" by blast
      with Inr assms t x k1 p False show ?thesis by (auto simp: receive_turn_def)
    qed
  qed
qed

lemma receive_loop_result:
  assumes "receive_loop env api cfg expected version submission deadline result st h = Some (r, h')"
    and "\<not> sr_success result"
  shows "\<exists>es. h' = h @ es \<and> sr_bytes_sent r = sr_bytes_sent result
    \<and> (sr_success r \<longrightarrow> echoed_in es api expected (sr_bytes_received r) \<and> sr_rc r = 0)"
proof (rule loop_invariant [OF _ _ assms(1) [unfolded receive_loop_def], where
      I = "\<lambda>x k. \<not> sr_success (fst x) \<and> sr_bytes_sent (fst x) = sr_bytes_sent result \<and> (\<exists>es. k = h @ es)"])
  fix x k x' k'
  assume I: "\<not> sr_success (fst x) \<and> sr_bytes_sent (fst x) = sr_bytes_sent result \<and> (\<exists>es. k = h @ es)"
    and turn: "receive_turn env api cfg expected version submission deadline x k = (Inr x', k')"
  with receive_turn_result [OF turn] show "\<not> sr_success (fst x') \<and> sr_bytes_sent (fst x') = sr_bytes_sent result \<and> (\<exists>es. k' = h @ es)"
    by auto
next
  fix x k r k'
  assume I: "\<not> sr_success (fst x) \<and> sr_bytes_sent (fst x) = sr_bytes_sent result \<and> (\<exists>es. k = h @ es)"
    and turn: "receive_turn env api cfg expected version submission deadline x k = (Inl r, k')"
  then obtain es es' where "k = h @ es" "k' = k @ es'" "sr_bytes_sent r = sr_bytes_sent result"
    "sr_success r \<longrightarrow> echoed_in es' api expected (sr_bytes_received r) \<and> sr_rc r = 0"
    using receive_turn_result [OF turn] by auto
  with echoed_in_more [of es' api expected _ es] show "\<exists>es. k' = h @ es \<and> sr_bytes_sent r = sr_bytes_sent result
      \<and> (sr_success r \<longrightarrow> echoed_in es api expected (sr_bytes_received r) \<and> sr_rc r = 0)"
    by (intro exI [of _ "es @ es'"]) auto
qed (use assms(2) in simp)

lemma await_echo_result:
  assumes "await_echo env api cfg expected version submission result h = Some (r, h')" "\<not> sr_success result"
  shows "\<exists>es. h' = h @ es \<and> sr_bytes_sent r = sr_bytes_sent result
    \<and> (sr_success r \<longrightarrow> echoed_in es api expected (sr_bytes_received r) \<and> sr_rc r = 0)"
  using receive_loop_result [OF assms(1) [unfolded await_echo_def DeadlineAfterMilliseconds_def read_tick_def
      Let_def prod.case] assms(2)] echoed_in_more by (metis append.assoc)

text \<open>A run that succeeds got to the submission.\<close>

lemma check_service_result:
  assumes "check_service env api cfg result h = (x, h')"
  shows "case x of Some r \<Rightarrow> sr_success r = sr_success result
    | None \<Rightarrow> \<exists>es. h' = h @ es \<and> Pk_running True \<in> set es \<and> Pk_open 0 \<in> set es \<and> Pk_version 0 (api_version api) \<in> set es"
  using assms by (auto simp: check_service_def Let_def failed_def log_text_def split: prod.splits if_splits)

lemma run_builds:
  assumes "RunWgnxPacketUdpEcho env api cfg h = Some (r, h')" "sr_success r"
  shows "\<exists>local remote es. pe_inet_pton env (pc_source_ipv4 cfg) = Some local
    \<and> pe_inet_pton env (pc_destination_ipv4 cfg) = Some remote
    \<and> Pk_running True \<in> set es \<and> Pk_open 0 \<in> set es \<and> Pk_version 0 (api_version api) \<in> set es
    \<and> build_and_submit env api cfg local remote (new_result ''wgnx_packet_udp_echo'') (h @ es) = Some (r, h')"
proof -
  obtain x k where c: "check_service env api cfg (new_result ''wgnx_packet_udp_echo'') h = (x, k)" by (rule prod.exhaust)
  from check_service_result [OF c] assms c show ?thesis
    by (auto simp: RunWgnxPacketUdpEcho_def Let_def split: option.splits)
qed

lemma build_submits:
  assumes "build_and_submit env api cfg local remote result h = Some (r, h')" "sr_success r" "\<not> sr_success result"
  shows "\<exists>token number n out. token = pe_random env h TokenSize \<and> n \<noteq> 0
    \<and> BuildUdpPacket (api_max_packet api) (replicate (api_max_packet api) 0) local remote (pc_source_port cfg)
        (pc_destination_port cfg) (echo_payload cfg token) (ucast number) = (n, out)
    \<and> submit_echo env api cfg (api_version api) local remote token
        (take n (if pc_submit_malformed cfg then out[10 := out ! 10 XOR 0xFF] else out)) result
        (h @ [Pk_random token, Pk_random64 number]) = Some (r, h')"
proof -
  let ?token = "pe_random env h TokenSize"
  let ?number = "pe_random64 env (h @ [Pk_random ?token])"
  obtain n out where b: "BuildUdpPacket (api_max_packet api) (replicate (api_max_packet api) 0) local remote
      (pc_source_port cfg) (pc_destination_port cfg) (echo_payload cfg ?token) (ucast ?number) = (n, out)"
    by (rule prod.exhaust)
  with assms have "n \<noteq> 0" by (cases "n = 0") (auto simp: build_and_submit_def Let_def)
  with assms(1) b show ?thesis
    by (intro exI [of _ ?token] exI [of _ ?number] exI [of _ n] exI [of _ out]) (auto simp: build_and_submit_def Let_def)
qed

lemma submit_result:
  assumes "submit_echo env api cfg version local remote token packet result h = Some (r, h')"
    and "sr_success r" "\<not> sr_success result"
  shows "\<exists>submission es. h' = h @ Pk_submit packet 0 submission # es \<and>
    (if pc_submit_malformed cfg then sub_status submission = api_malformed api
     else sub_status submission = api_queued api \<and> sr_bytes_sent r = length packet \<and> sr_rc r = 0
       \<and> echoed_in es api \<lparr>local_address = local, remote_address = remote, local_port = pc_source_port cfg,
            remote_port = pc_destination_port cfg, reply_payload = echo_payload cfg token\<rparr> (sr_bytes_received r))"
proof -
  obtain rc submission where p: "pe_submit env h packet = (rc, submission)" by (rule prod.exhaust)
  let ?line = "submission_text api rc submission token"
  have rc: "rc = 0" using assms p by (auto simp: submit_echo_def Let_def failed_def split: if_splits)
  obtain line where h1: "log_packet api ?line (h @ [Pk_submit packet rc submission]) = h @ Pk_submit packet 0 submission # line"
    using rc by (cases "api_diagnostics api") (simp_all add: log_packet_def)
  show ?thesis
  proof (cases "pc_submit_malformed cfg")
    case True
    with assms p rc h1 show ?thesis by (auto simp: submit_echo_def Let_def failed_def)
  next
    case False
    let ?expected = "\<lparr>local_address = local, remote_address = remote, local_port = pc_source_port cfg,
            remote_port = pc_destination_port cfg, reply_payload = echo_payload cfg token\<rparr>"
    have q: "sub_status submission = api_queued api"
      using assms p rc False by (auto simp: submit_echo_def Let_def failed_def split: if_splits)
    with assms(1) p rc h1 False have a: "await_echo env api cfg ?expected version submission
        (result\<lparr>sr_rc := 0, sr_bytes_sent := length packet\<rparr>) (h @ Pk_submit packet 0 submission # line) = Some (r, h')"
      by (simp add: submit_echo_def Let_def failed_def)
    from await_echo_result [OF a] assms(2,3) obtain es where "h' = (h @ Pk_submit packet 0 submission # line) @ es"
      "sr_bytes_sent r = length packet" "echoed_in es api ?expected (sr_bytes_received r)" "sr_rc r = 0" by auto
    with q False echoed_in_more [of es api ?expected _ line] show ?thesis
      by (intro exI [of _ submission] exI [of _ "line @ es"]) auto
  qed
qed

text \<open>
  C2. Success is an echo: the service ran with the compiled version; then the run drew its token
  and the packet's identification from the random source, submitted the packet that the
  configuration and these two numbers build, and the service queued it; and a reply received
  afterwards with success validates as its echo. The byte counts are those of the two packets.
\<close>

theorem packet_success_is_echo:
  assumes "RunWgnxPacketUdpEcho env api cfg h = Some (r, h')" "sr_success r" "\<not> pc_submit_malformed cfg"
  shows "\<exists>before token number n out submission after local remote.
    h' = h @ before @ Pk_random token # Pk_random64 number # Pk_submit (take n out) 0 submission # after
    \<and> Pk_running True \<in> set before \<and> Pk_open 0 \<in> set before \<and> Pk_version 0 (api_version api) \<in> set before
    \<and> token = pe_random env (h @ before) TokenSize
    \<and> pe_inet_pton env (pc_source_ipv4 cfg) = Some local \<and> pe_inet_pton env (pc_destination_ipv4 cfg) = Some remote
    \<and> BuildUdpPacket (api_max_packet api) (replicate (api_max_packet api) 0) local remote (pc_source_port cfg)
        (pc_destination_port cfg) (echo_payload cfg token) (ucast number) = (n, out)
    \<and> sub_status submission = api_queued api \<and> sr_rc r = 0 \<and> sr_bytes_sent r = length (take n out)
    \<and> echoed_in after api \<lparr>local_address = local, remote_address = remote, local_port = pc_source_port cfg,
         remote_port = pc_destination_port cfg, reply_payload = echo_payload cfg token\<rparr> (sr_bytes_received r)"
proof -
  obtain local remote k where a: "pe_inet_pton env (pc_source_ipv4 cfg) = Some local"
      "pe_inet_pton env (pc_destination_ipv4 cfg) = Some remote" "Pk_running True \<in> set k" "Pk_open 0 \<in> set k"
      "Pk_version 0 (api_version api) \<in> set k"
    and b: "build_and_submit env api cfg local remote (new_result ''wgnx_packet_udp_echo'') (h @ k) = Some (r, h')"
    using run_builds [OF assms(1,2)] by blast
  have n: "\<not> sr_success (new_result ''wgnx_packet_udp_echo'')" by simp
  from build_submits [OF b assms(2) n] assms(3) obtain token number n' out where c: "token = pe_random env (h @ k) TokenSize"
      "BuildUdpPacket (api_max_packet api) (replicate (api_max_packet api) 0) local remote (pc_source_port cfg)
        (pc_destination_port cfg) (echo_payload cfg token) (ucast number) = (n', out)"
      "submit_echo env api cfg (api_version api) local remote token (take n' out)
        (new_result ''wgnx_packet_udp_echo'') ((h @ k) @ [Pk_random token, Pk_random64 number]) = Some (r, h')" by auto
  from submit_result [OF c(3) assms(2) n] assms(3) obtain submission es where
    d: "h' = h @ k @ Pk_random token # Pk_random64 number # Pk_submit (take n' out) 0 submission # es"
      "sub_status submission = api_queued api" "sr_bytes_sent r = length (take n' out)" "sr_rc r = 0"
      "echoed_in es api \<lparr>local_address = local, remote_address = remote, local_port = pc_source_port cfg,
         remote_port = pc_destination_port cfg, reply_payload = echo_payload cfg token\<rparr> (sr_bytes_received r)" by auto
  show ?thesis
    by (rule exI [of _ k], rule exI [of _ token], rule exI [of _ number], rule exI [of _ n'], rule exI [of _ out],
        rule exI [of _ submission], rule exI [of _ es], rule exI [of _ local], rule exI [of _ remote]) (use a c(1,2) d in simp)
qed

subsection \<open>The deadline ends the loop\<close>

definition tick_count :: "packet_history \<Rightarrow> nat" where
  "tick_count h = length (filter (\<lambda>e. case e of Pk_tick now \<Rightarrow> True | _ \<Rightarrow> False) h)"

text \<open>A clock that moves on from reading to reading, until its largest value.\<close>

definition clock_advances :: "packet_env \<Rightarrow> bool" where
  "clock_advances env \<longleftrightarrow> (\<forall>h. min (tick_count h) (2 ^ 64 - 1) \<le> unat (pe_tick env h))"

lemma tick_count_simps [simp]:
  "tick_count (h @ k) = tick_count h + tick_count k" "tick_count (Pk_tick now # h) = Suc (tick_count h)" "tick_count [] = 0"
  "tick_count (Pk_log line # h) = tick_count h" "tick_count (Pk_running running # h) = tick_count h"
  "tick_count (Pk_open rc # h) = tick_count h" "tick_count (Pk_version rc version # h) = tick_count h"
  "tick_count (Pk_random token # h) = tick_count h" "tick_count (Pk_random64 number # h) = tick_count h"
  "tick_count (Pk_submit packet rc submission # h) = tick_count h"
  by (simp_all add: tick_count_def)

lemma receive_loop_ends:
  assumes "clock_advances env"
  shows "\<exists>r h'. receive_loop env api cfg expected version submission deadline result st h = Some (r, h')"
  unfolding receive_loop_def
proof (rule loop_terminates [where I = "\<lambda>_ _. True" and m = "\<lambda>_ h. unat deadline - tick_count h"])
  fix x h x' h'
  assume "receive_turn env api cfg expected version submission deadline x h = (Inr x', h')"
  then obtain st' where running: "pe_tick env h < deadline"
    and poll: "poll_once env api cfg expected version submission (fst x) (snd x) (h @ [Pk_tick (pe_tick env h)]) = (Inr st', h')"
    by (auto simp: receive_turn_def read_tick_def Let_def not_le split: prod.splits sum.splits if_splits)
  from poll_once_continues(2) [OF poll] have "tick_count h < tick_count h'" by auto
  moreover have "min (tick_count h) (2 ^ 64 - 1) \<le> unat (pe_tick env h)"
    using assms by (simp add: clock_advances_def)
  moreover have "unat (pe_tick env h) < unat deadline" using running by (simp add: word_less_nat_alt)
  moreover have "unat deadline < 2 ^ LENGTH(64)" by (rule unsigned_less)
  ultimately show "True \<and> unat deadline - tick_count h' < unat deadline - tick_count h" by simp
qed simp

text \<open>
  C16. The scenario returns, whatever the service answers, when the clock moves on from
  reading to reading.
\<close>

theorem packet_scenario_returns:
  assumes "clock_advances env"
  shows "\<exists>r h'. RunWgnxPacketUdpEcho env api cfg h = Some (r, h')"
proof -
  have await: "\<exists>r h'. await_echo env api cfg expected version submission result k = Some (r, h')"
    for expected version submission result k
    by (simp add: await_echo_def DeadlineAfterMilliseconds_def read_tick_def Let_def receive_loop_ends [OF assms])
  have submit: "\<exists>r h'. submit_echo env api cfg version local remote token packet result k = Some (r, h')"
    for version local remote token packet result k
    by (simp add: submit_echo_def Let_def await split: prod.split)
  have build: "\<exists>r h'. build_and_submit env api cfg local remote result k = Some (r, h')" for local remote result k
    by (simp add: build_and_submit_def Let_def submit split: prod.split)
  show ?thesis by (simp add: RunWgnxPacketUdpEcho_def Let_def build split: prod.split option.split)
qed

subsection \<open>The malformed submission\<close>

text \<open>
  C19. The build that tests a malformed packet really submits one: the submitted bytes fail
  every validation, whatever reply is expected, and the run succeeds only on the service's
  status for malformed packets.
\<close>

theorem malformed_run_submits_invalid_packet:
  assumes "RunWgnxPacketUdpEcho env api cfg h = Some (r, h')" "sr_success r" "pc_submit_malformed cfg"
    and "\<forall>text address. pe_inet_pton env text = Some address \<longrightarrow> length address = 4"
  shows "\<exists>packet submission. Pk_submit packet 0 submission \<in> set h' \<and> sub_status submission = api_malformed api
    \<and> (\<forall>expected. ValidateUdpReply packet (length packet) expected = (False, ''invalid IPv4 checksum''))"
proof -
  obtain local remote k where a: "pe_inet_pton env (pc_source_ipv4 cfg) = Some local"
      "pe_inet_pton env (pc_destination_ipv4 cfg) = Some remote"
    and b: "build_and_submit env api cfg local remote (new_result ''wgnx_packet_udp_echo'') (h @ k) = Some (r, h')"
    using run_builds [OF assms(1,2)] by blast
  have n: "\<not> sr_success (new_result ''wgnx_packet_udp_echo'')" by simp
  from build_submits [OF b assms(2) n] assms(3) obtain token ident n' out k' where c: "n' \<noteq> 0"
      "BuildUdpPacket (api_max_packet api) (replicate (api_max_packet api) 0) local remote (pc_source_port cfg)
        (pc_destination_port cfg) (echo_payload cfg token) (ucast (ident :: u64)) = (n', out)"
      "submit_echo env api cfg (api_version api) local remote token (take n' (out[10 := out ! 10 XOR 0xFF]))
        (new_result ''wgnx_packet_udp_echo'') k' = Some (r, h')" by auto
  let ?packet = "take n' (out[10 := out ! 10 XOR 0xFF])"
  have four: "length local = 4" "length remote = 4" using a assms(4) by blast+
  from built_shape [OF four c(2,1)] built_validates [OF four c(2,1)] have len: "n' \<le> length out" by auto
  have "ValidateUdpReply ?packet n' expected = (False, ''invalid IPv4 checksum'')" for expected
    using flipped_rejected [OF four c(2,1), of expected] validate_take [of n' "out[10 := out ! 10 XOR 0xFF]" expected] len
    by simp
  moreover have "length ?packet = n'" using len by simp
  ultimately have "\<forall>expected. ValidateUdpReply ?packet (length ?packet) expected = (False, ''invalid IPv4 checksum'')"
    by simp
  moreover obtain submission where "Pk_submit ?packet 0 submission \<in> set h'" "sub_status submission = api_malformed api"
    using submit_result [OF c(3) assms(2) n] assms(3) by (metis in_set_conv_decomp)
  ultimately show ?thesis by blast
qed

subsection \<open>An echo\<close>

text \<open>A service that queues the packet and answers the first poll with its echo.\<close>

definition example_packet_api :: packet_api where
  "example_packet_api = \<lparr>api_max_packet = 48, api_version = 5, api_queued = 1, api_queue_empty = 2, api_success = 0,
     api_malformed = 3, api_status_name = (\<lambda>s. ''status''), api_diagnostics = True\<rparr>"

definition example_packet_config :: "bool \<Rightarrow> packet_config" where
  "example_packet_config malformed = \<lparr>pc_source_ipv4 = ''10.0.0.2'', pc_destination_ipv4 = ''10.1.0.2'',
     pc_source_port = 39000, pc_destination_port = 29000, pc_payload_prefix = ''p'',
     pc_timeout_ms = 5, pc_poll_interval_ms = 25, pc_submit_malformed = malformed\<rparr>"

definition example_packet_env :: "u32 \<Rightarrow> packet_env" where
  "example_packet_env status = \<lparr>pe_running = (\<lambda>_. True), pe_open = (\<lambda>_. 0), pe_version = (\<lambda>_. (0, 5)),
     pe_random = (\<lambda>_ n. replicate n 7), pe_random64 = (\<lambda>_. 9),
     pe_submit = (\<lambda>_ packet. (0, \<lparr>sub_status = status, sub_packet_id = 1, sub_packet_size = of_nat (length packet),
       sub_peer_index = 0, sub_activation_generation = 1\<rparr>)),
     pe_receive = (\<lambda>h incoming.
       (0, \<lparr>rec_status = 0, rec_packet_id = 2, rec_packet_size = 45,
           rec_peer_index = 0, rec_activation_generation = 1\<rparr>,
        snd (BuildUdpPacket 48 incoming [10, 1, 0, 2] [10, 0, 0, 2] 29000 39000
          (map of_char ''p'' @ replicate 16 7) 1))),
     pe_tick = (\<lambda>h. of_nat (min (tick_count h) (2 ^ 64 - 1))), pe_tick_frequency = 19200000,
     pe_inet_pton = (\<lambda>text. if text = ''10.0.0.2'' then Some [10, 0, 0, 2]
       else if text = ''10.1.0.2'' then Some [10, 1, 0, 2] else None)\<rparr>"

lemma example_addresses:
  "pe_inet_pton (example_packet_env status) (pc_source_ipv4 (example_packet_config malformed)) = Some [10, 0, 0, 2]"
  "pe_inet_pton (example_packet_env status) (pc_destination_ipv4 (example_packet_config malformed)) = Some [10, 1, 0, 2]"
  by (simp_all add: example_packet_env_def example_packet_config_def)

lemma example_check:
  "\<exists>h. check_service (example_packet_env status) example_packet_api (example_packet_config malformed) result k = (None, h)
     \<and> tick_count h = tick_count k"
  by (simp add: check_service_def example_packet_env_def example_packet_api_def Let_def failed_def log_text_def)

lemma example_build:
  "\<exists>out. BuildUdpPacket 48 (replicate 48 0) [10, 0, 0, 2] [10, 1, 0, 2] 39000 29000 (map of_char ''p'' @ replicate 16 7) 9
     = (45, out) \<and> length out = 48"
proof -
  obtain n out where b: "BuildUdpPacket 48 (replicate 48 0) [10, 0, 0, 2] [10, 1, 0, 2] 39000 29000
      (map of_char ''p'' @ replicate 16 7) 9 = (n, out)" by (rule prod.exhaust)
  moreover from b have "n = 45" by (simp add: BuildUdpPacket_def Ipv4HeaderSize_def UdpHeaderSize_def Let_def)
  moreover from built_validates [OF _ _ b] \<open>n = 45\<close> have "length out = 48" by simp
  ultimately show ?thesis by auto
qed

definition example_expected :: ExpectedReply where
  "example_expected = \<lparr>local_address = [10, 0, 0, 2], remote_address = [10, 1, 0, 2], local_port = 39000,
     remote_port = 29000, reply_payload = map of_char ''p'' @ replicate 16 7\<rparr>"

lemma example_reply:
  assumes "length incoming = 48"
  shows "\<exists>out. BuildUdpPacket 48 incoming [10, 1, 0, 2] [10, 0, 0, 2] 29000 39000 (map of_char ''p'' @ replicate 16 7) 1
     = (45, out) \<and> length out = 48 \<and> ValidateUdpReply out 45 example_expected = (True, ''validated UDP echo'')"
proof -
  obtain n out where b: "BuildUdpPacket 48 incoming [10, 1, 0, 2] [10, 0, 0, 2] 29000 39000
      (map of_char ''p'' @ replicate 16 7) 1 = (n, out)" by (rule prod.exhaust)
  moreover from b assms have "n = 45" by (simp add: BuildUdpPacket_def Ipv4HeaderSize_def UdpHeaderSize_def Let_def)
  moreover from built_validates [OF _ _ b] \<open>n = 45\<close> assms
  have "length out = 48" "ValidateUdpReply out 45 example_expected = (True, ''validated UDP echo'')"
    by (simp_all add: example_expected_def)
  ultimately show ?thesis by auto
qed

lemma example_poll:
  assumes "length (rs_incoming st) = 48"
  shows "\<exists>r h'. poll_once (example_packet_env status) example_packet_api cfg example_expected version submission result st h
     = (Inl r, h') \<and> sr_success r"
proof -
  obtain out where b: "BuildUdpPacket 48 (rs_incoming st) [10, 1, 0, 2] [10, 0, 0, 2] 29000 39000
      (map of_char ''p'' @ replicate 16 7) 1 = (45, out)" "length out = 48"
      "ValidateUdpReply out 45 example_expected = (True, ''validated UDP echo'')"
    using example_reply [OF assms] by blast
  from b(1) have receive: "pe_receive (example_packet_env status) h (rs_incoming st)
      = (0, \<lparr>rec_status = 0, rec_packet_id = 2, rec_packet_size = 45, rec_peer_index = 0,
             rec_activation_generation = 1\<rparr>, out)"
    by (simp add: example_packet_env_def)
  show ?thesis
    unfolding poll_once_def receive prod.case Let_def using b(2,3) by (simp add: failed_def example_packet_api_def)
qed

lemma example_await:
  assumes "tick_count h = 0"
  shows "\<exists>r h'. await_echo (example_packet_env status) example_packet_api (example_packet_config malformed) example_expected
      version submission result h = Some (r, h') \<and> sr_success r"
proof -
  let ?st = "\<lparr>rs_incoming = replicate 48 0, rs_empty_polls = 0, rs_rejected_packets = 0, rs_last_rejection = []\<rparr>"
  have ticks: "pe_tick (example_packet_env status) h = 0"
    "pe_tick (example_packet_env status) (h @ [Pk_tick 0]) = 1"
    using assms by (simp_all add: example_packet_env_def)
  have deadline: "DeadlineAfterMilliseconds (example_packet_env status) (pc_timeout_ms (example_packet_config malformed)) h
      = (96000, h @ [Pk_tick 0])"
    unfolding DeadlineAfterMilliseconds_def read_tick_def Let_def ticks
    by (simp add: example_packet_env_def example_packet_config_def)
  have "length (rs_incoming ?st) = 48" by simp
  from example_poll [OF this] obtain r h' where p: "poll_once (example_packet_env status) example_packet_api (example_packet_config malformed)
      example_expected version submission result ?st ((h @ [Pk_tick 0]) @ [Pk_tick 1]) = (Inl r, h')" "sr_success r"
    by blast
  have "receive_turn (example_packet_env status) example_packet_api (example_packet_config malformed) example_expected
      version submission 96000 (result, ?st) (h @ [Pk_tick 0]) = (Inl r, h')"
    unfolding receive_turn_def read_tick_def Let_def ticks prod.case p(1) by (simp add: word_le_nat_alt)
  then show ?thesis
    unfolding await_echo_def deadline Let_def prod.case receive_loop_def using p(2)
    by (subst loop.simps) (simp add: example_packet_api_def)
qed

lemma example_submits:
  assumes "tick_count h = 0"
  shows "\<exists>r h'. submit_echo (example_packet_env (if malformed then 3 else 1)) example_packet_api
      (example_packet_config malformed) version [10, 0, 0, 2] [10, 1, 0, 2] (replicate 16 7) packet result h
      = Some (r, h') \<and> sr_success r"
proof (cases malformed)
  case True
  then show ?thesis
    by (simp add: submit_echo_def Let_def failed_def example_packet_env_def example_packet_api_def example_packet_config_def)
next
  case False
  have expected: "\<lparr>local_address = [10, 0, 0, 2], remote_address = [10, 1, 0, 2],
      local_port = pc_source_port (example_packet_config False), remote_port = pc_destination_port (example_packet_config False),
      reply_payload = echo_payload (example_packet_config False) (replicate 16 7)\<rparr> = example_expected"
    by (simp add: example_expected_def example_packet_config_def echo_payload_def)
  obtain submission where s: "pe_submit (example_packet_env 1) h packet = (0, submission)" "sub_status submission = 1"
    by (simp add: example_packet_env_def)
  have ok: "\<not> failed 0" "\<not> pc_submit_malformed (example_packet_config False)" "api_queued example_packet_api = 1"
    by (simp_all add: failed_def example_packet_config_def example_packet_api_def)
  have "tick_count (log_packet example_packet_api line (h @ [Pk_submit packet 0 submission])) = 0" for line
    using assms by (simp add: log_packet_def)
  from example_await [OF this]
  have "\<exists>r h'. submit_echo (example_packet_env 1) example_packet_api (example_packet_config False) version
      [10, 0, 0, 2] [10, 1, 0, 2] (replicate 16 7) packet result h = Some (r, h') \<and> sr_success r"
    unfolding submit_echo_def Let_def s prod.case expected using s(2) ok by simp
  with False show ?thesis by simp
qed

lemma example_run_succeeds:
  "\<exists>r h'. RunWgnxPacketUdpEcho (example_packet_env (if malformed then 3 else 1)) example_packet_api
      (example_packet_config malformed) [] = Some (r, h') \<and> sr_success r"
proof -
  let ?env = "example_packet_env (if malformed then 3 else 1)" and ?cfg = "example_packet_config malformed"
  obtain k where k: "check_service ?env example_packet_api ?cfg (new_result ''wgnx_packet_udp_echo'') [] = (None, k)"
      "tick_count k = 0" using example_check [of "if malformed then 3 else 1" malformed _ "[]"] by fastforce
  obtain out where b: "BuildUdpPacket 48 (replicate 48 0) [10, 0, 0, 2] [10, 1, 0, 2] 39000 29000
      (map of_char ''p'' @ replicate 16 7) 9 = (45, out)" using example_build by blast
  have cfg: "pc_source_port ?cfg = 39000" "pc_destination_port ?cfg = 29000" "api_max_packet example_packet_api = 48"
      "echo_payload ?cfg (replicate 16 7) = map of_char ''p'' @ replicate 16 7"
    by (simp_all add: example_packet_config_def example_packet_api_def echo_payload_def)
  have random: "pe_random ?env h TokenSize = replicate 16 7" "ucast (pe_random64 ?env h) = (9 :: u16)" for h
    by (simp_all add: example_packet_env_def TokenSize_def)
  have "tick_count ((k @ [Pk_random (replicate 16 7)]) @ [Pk_random64 (pe_random64 ?env (k @ [Pk_random (replicate 16 7)]))]) = 0"
    using k(2) by simp
  from example_submits [OF this] show ?thesis
    unfolding RunWgnxPacketUdpEcho_def Let_def k(1) prod.case option.case example_addresses build_and_submit_def random cfg b
    by auto
qed

lemma example_clock: "clock_advances (example_packet_env status)"
proof -
  have "unat (of_nat (min n (2 ^ 64 - 1)) :: u64) = min n (2 ^ 64 - 1)" for n
    by (rule of_nat_inverse [OF refl]) (simp add: min_less_iff_disj)
  then show ?thesis by (simp add: clock_advances_def example_packet_env_def)
qed

theorem packet_success_is_echo_witness:
  "\<exists>r h' number packet submission. RunWgnxPacketUdpEcho (example_packet_env 1) example_packet_api (example_packet_config False) []
      = Some (r, h') \<and> Pk_random (replicate 16 7) \<in> set h' \<and> Pk_random64 number \<in> set h'
    \<and> Pk_submit packet 0 submission \<in> set h' \<and> sub_status submission = 1"
proof -
  obtain r h' where run: "RunWgnxPacketUdpEcho (example_packet_env 1) example_packet_api (example_packet_config False) []
      = Some (r, h')" "sr_success r" using example_run_succeeds [of False] by auto
  have m: "\<not> pc_submit_malformed (example_packet_config False)" "api_queued example_packet_api = 1"
    "\<And>h. pe_random (example_packet_env 1) h TokenSize = replicate 16 7"
    by (simp_all add: example_packet_config_def example_packet_api_def example_packet_env_def TokenSize_def)
  obtain before number packet submission after where
    h': "h' = before @ Pk_random (replicate 16 7) # Pk_random64 number # Pk_submit packet 0 submission # after"
      "sub_status submission = 1"
    using packet_success_is_echo [OF run m(1)] unfolding m(2,3) by auto
  then have "Pk_random (replicate 16 7) \<in> set h'" "Pk_random64 number \<in> set h'" "Pk_submit packet 0 submission \<in> set h'" by simp_all
  with run(1) h'(2) show ?thesis by blast
qed

theorem packet_scenario_returns_witness:
  "\<exists>r h'. RunWgnxPacketUdpEcho (example_packet_env 2) example_packet_api (example_packet_config False) [] = Some (r, h')"
  by (rule packet_scenario_returns [OF example_clock])

theorem malformed_run_submits_invalid_packet_witness:
  "\<exists>r h' packet submission. RunWgnxPacketUdpEcho (example_packet_env 3) example_packet_api (example_packet_config True) []
      = Some (r, h') \<and> Pk_submit packet 0 submission \<in> set h' \<and> sub_status submission = 3"
proof -
  obtain r h' where run: "RunWgnxPacketUdpEcho (example_packet_env 3) example_packet_api (example_packet_config True) []
      = Some (r, h')" "sr_success r" using example_run_succeeds [of True] by auto
  have "pc_submit_malformed (example_packet_config True)" "api_malformed example_packet_api = 3"
    "\<forall>text address. pe_inet_pton (example_packet_env 3) text = Some address \<longrightarrow> length address = 4"
    by (auto simp: example_packet_config_def example_packet_api_def example_packet_env_def)
  with malformed_run_submits_invalid_packet [OF run] run(1) show ?thesis by metis
qed

end
