(* ===== verification/HistoryMonad.thy ===== *)
theory HistoryMonad
  imports ScenarioBase "HOL-Library.State_Monad"
begin

text \<open>
  Computations over the history of the calls made so far with their results, shared by the
  models of the network scenarios: a call answers as a function of the history and is added
  to it. This theory has the loops of such computations, bounded and unbounded, the
  combinator for computations that may not end, and a calculus of the events a computation
  adds.
\<close>

subsection \<open>Calls\<close>

definition call :: "('e list \<Rightarrow> 'a) \<Rightarrow> ('a \<Rightarrow> 'e) \<Rightarrow> ('e list, 'a) state" where
  "call answer event = State (\<lambda>h. let a = answer h in (a, h @ [event a]))"

subsection \<open>The events of a computation\<close>

text \<open>Everything the computation adds to the history satisfies \<open>P\<close>.\<close>

definition emits :: "('e \<Rightarrow> bool) \<Rightarrow> ('e list, 'a) state \<Rightarrow> bool" where
  "emits P m \<longleftrightarrow> (\<forall>h. \<exists>es. snd (run_state m h) = h @ es \<and> list_all P es)"

named_theorems emit_rules \<open>introduction rules for \<^const>\<open>emits\<close>\<close>

lemma emitsD: "emits P m \<Longrightarrow> run_state m h = (a, h') \<Longrightarrow> \<exists>es. h' = h @ es \<and> list_all P es"
  unfolding emits_def by (metis snd_conv)

lemma emitsI: "(\<And>h a h'. run_state m h = (a, h') \<Longrightarrow> \<exists>es. h' = h @ es \<and> list_all P es) \<Longrightarrow> emits P m"
  unfolding emits_def by (metis prod.collapse)

lemma emits_bind [emit_rules]:
  assumes "emits P m" "\<And>a. emits P (f a)" shows "emits P (State_Monad.bind m f)"
proof (rule emitsI)
  fix h b h2
  assume run: "run_state (State_Monad.bind m f) h = (b, h2)"
  obtain a h1 where a: "run_state m h = (a, h1)" by (rule prod.exhaust)
  with run have b: "run_state (f a) h1 = (b, h2)" by simp
  from emitsD [OF assms(1) a] emitsD [OF assms(2) b] show "\<exists>es. h2 = h @ es \<and> list_all P es"
    by (metis append.assoc list_all_append)
qed

lemma emits_return [emit_rules]: "emits P (State_Monad.return a)"
  by (simp add: emits_def State_Monad.return_def)

lemma emits_call: "(\<And>a. P (event a)) \<Longrightarrow> emits P (call answer event)"
  by (simp add: emits_def call_def Let_def)

lemma emits_if [emit_rules]: "(b \<Longrightarrow> emits P m) \<Longrightarrow> (\<not> b \<Longrightarrow> emits P n) \<Longrightarrow> emits P (if b then m else n)"
  by simp

lemma emits_let [emit_rules]: "(\<And>x. emits P (f x)) \<Longrightarrow> emits P (let x = v in f x)"
  by simp

lemma emits_cases [emit_rules]:
  "(\<And>a b. emits P (f a b)) \<Longrightarrow> emits P (case x of (a, b) \<Rightarrow> f a b)"
  "emits P m \<Longrightarrow> (\<And>y. emits P (g y)) \<Longrightarrow> emits P (case o' of None \<Rightarrow> m | Some y \<Rightarrow> g y)"
  "(\<And>y. emits P (k y)) \<Longrightarrow> (\<And>y. emits P (g' y)) \<Longrightarrow> emits P (case s of Inl y \<Rightarrow> k y | Inr y \<Rightarrow> g' y)"
  by (simp_all split: prod.split option.split sum.split)

lemma emits_mono: "emits P m \<Longrightarrow> (\<And>e. P e \<Longrightarrow> Q e) \<Longrightarrow> emits Q m"
  unfolding emits_def by (metis list.pred_mono_strong)

text \<open>Nothing is taken back from a history.\<close>

lemma emits_grows: "emits P m \<Longrightarrow> run_state m h = (a, h') \<Longrightarrow> set h \<subseteq> set h'"
  by (auto dest: emitsD)

subsection \<open>Accounts\<close>

text \<open>
  What a scenario keeps count of over its history, event by event; the silent events leave the
  account alone, and so does a computation that adds only silent ones.
\<close>

locale account =
  fixes step :: "'e \<Rightarrow> 'acc \<Rightarrow> 'acc" and silent :: "'e \<Rightarrow> bool"
  assumes silent_step: "silent e \<Longrightarrow> step e acc = acc"
begin

lemma silent_fold: "list_all silent es \<Longrightarrow> fold step es acc = acc"
  by (induction es) (simp_all add: silent_step)

lemma silent_run:
  assumes "emits silent m" "run_state m h = (a, h')" shows "fold step h' acc = fold step h acc"
  using emitsD [OF assms] by (auto simp: silent_fold)

end

subsection \<open>Bounded loops\<close>

text \<open>
  A loop of a bounded number of turns; \<open>None\<close> when it would need more.
\<close>

fun turns :: "nat \<Rightarrow> ('x \<Rightarrow> ('h, 'r + 'x) state) \<Rightarrow> 'x \<Rightarrow> ('h, 'r option) state" where
  "turns n body x = do {
     turn \<leftarrow> body x;
     (case turn of
        Inl r \<Rightarrow> State_Monad.return (Some r)
      | Inr x \<Rightarrow> (case n of 0 \<Rightarrow> State_Monad.return None | Suc n \<Rightarrow> turns n body x))
   }"

declare turns.simps [simp del]

lemma turns_end:
  assumes "\<And>x h x' h'. run_state (body x) h = (Inr x', h') \<Longrightarrow> (m x' :: nat) < m x" "m x \<le> n"
  shows "\<exists>r h'. run_state (turns n body x) h = (Some r, h')"
  using assms(2)
proof (induction n arbitrary: x h)
  have step: "\<exists>r. t = Inl r \<or> (\<exists>x'. t = Inr x' \<and> m x' < m x)" if "run_state (body x) h = (t, h')" for x h t h'
    using that assms(1) by (cases t) auto
  {
    case 0
    obtain t h1 where t: "run_state (body x) h = (t, h1)" by (rule prod.exhaust)
    with step [OF t] 0 show ?case by (subst turns.simps) (auto simp: State_Monad.return_def)
  next
    case (Suc n)
    obtain t h1 where t: "run_state (body x) h = (t, h1)" by (rule prod.exhaust)
    show ?case
    proof (cases t)
      case (Inl r)
      with t show ?thesis by (subst turns.simps) (simp add: State_Monad.return_def)
    next
      case (Inr x')
      with step [OF t] Suc.prems have "m x' \<le> n" by auto
      from Suc.IH [OF this, of h1] t Inr show ?thesis by (subst turns.simps) simp
    qed
  }
qed

text \<open>What holds when a bounded loop ends, by an invariant of its turns.\<close>

lemma turns_run:
  "run_state (body x) h = (Inl r', h1) \<Longrightarrow> run_state (turns n body x) h = (Some r', h1)"
  "run_state (body x) h = (Inr x', h1) \<Longrightarrow> run_state (turns (Suc n) body x) h = run_state (turns n body x') h1"
  "run_state (body x) h = (Inr x', h1) \<Longrightarrow> run_state (turns 0 body x) h = (None, h1)"
  by (subst turns.simps; simp add: State_Monad.return_def)+

lemma turns_result:
  assumes "\<And>x h x' h'. I x h \<Longrightarrow> run_state (body x) h = (Inr x', h') \<Longrightarrow> I x' h'"
    and "\<And>x h r h'. I x h \<Longrightarrow> run_state (body x) h = (Inl r, h') \<Longrightarrow> Q r h'"
    and "run_state (turns n body x) h = (Some r, h')" "I x h"
  shows "Q r h'"
  using assms(3,4)
proof (induction n arbitrary: x h)
  case 0
  obtain t h1 where t: "run_state (body x) h = (t, h1)" by (rule prod.exhaust)
  with 0 show ?case using assms(2) by (cases t) (auto simp: turns_run)
next
  case (Suc n)
  obtain t h1 where t: "run_state (body x) h = (t, h1)" by (rule prod.exhaust)
  show ?case
  proof (cases t)
    case (Inl r')
    with t Suc.prems assms(2) show ?thesis by (auto simp: turns_run)
  next
    case (Inr x')
    with t Suc.prems(1) have "run_state (turns n body x') h1 = (Some r, h')" by (simp add: turns_run)
    with Suc.IH assms(1) [OF Suc.prems(2)] t Inr show ?thesis by blast
  qed
qed

lemma emits_turns [emit_rules]: "(\<And>x. emits P (body x)) \<Longrightarrow> emits P (turns n body x)"
proof (induction n arbitrary: x)
  case 0
  then show ?case by (subst turns.simps) (auto intro!: emit_rules)
next
  case (Suc n)
  then show ?case by (subst turns.simps) (auto intro!: emit_rules)
qed

subsection \<open>Loops that may not end\<close>

text \<open>The loop of a computation; \<open>None\<close> when it does not end.\<close>

definition repeat_turns :: "('x \<Rightarrow> ('h, 'r + 'x) state) \<Rightarrow> 'x \<Rightarrow> ('h, 'r option) state" where
  "repeat_turns body x = State (\<lambda>h. case loop (\<lambda>x. run_state (body x)) x h of
     Some (r, h') \<Rightarrow> (Some r, h')
   | None \<Rightarrow> (None, h))"

text \<open>Goes on when the first computation ended.\<close>

definition when_done :: "('h, 'a option) state \<Rightarrow> ('a \<Rightarrow> ('h, 'b option) state) \<Rightarrow> ('h, 'b option) state" where
  "when_done m f = do {
     r \<leftarrow> m;
     (case r of None \<Rightarrow> State_Monad.return None | Some a \<Rightarrow> f a)
   }"

lemma repeat_turns_result:
  assumes "\<And>x h x' h'. I x h \<Longrightarrow> run_state (body x) h = (Inr x', h') \<Longrightarrow> I x' h'"
    and "\<And>x h r h'. I x h \<Longrightarrow> run_state (body x) h = (Inl r, h') \<Longrightarrow> Q r h'"
    and "run_state (repeat_turns body x) h = (Some r, h')" "I x h"
  shows "Q r h'"
  by (rule loop_invariant [where I = I and Q = Q and body = "\<lambda>x. run_state (body x)"])
    (use assms in \<open>auto simp: repeat_turns_def split: option.splits prod.splits\<close>)

lemma repeat_turns_ends:
  assumes "\<And>x h x' h'. I x h \<Longrightarrow> run_state (body x) h = (Inr x', h') \<Longrightarrow> I x' h' \<and> (m x' h' :: nat) < m x h" "I x h"
  shows "\<exists>r h'. run_state (repeat_turns body x) h = (Some r, h')"
  using loop_terminates [where I = I and m = m and body = "\<lambda>x. run_state (body x)", OF assms]
  by (auto simp: repeat_turns_def)

lemma repeat_turns_unfold:
  "run_state (body x) h = (Inl r, h1) \<Longrightarrow> run_state (repeat_turns body x) h = (Some r, h1)"
  "run_state (body x) h = (Inr x', h1) \<Longrightarrow> run_state (repeat_turns body x') h1 = (Some r, h2)
     \<Longrightarrow> run_state (repeat_turns body x) h = (Some r, h2)"
  by (auto simp: repeat_turns_def loop.simps [of _ x] split: option.splits prod.splits)

lemma emits_repeat_turns [emit_rules]:
  assumes "\<And>x. emits P (body x)" shows "emits P (repeat_turns body x)"
proof (rule emitsI)
  fix h r h'
  assume run: "run_state (repeat_turns body x) h = (r, h')"
  show "\<exists>es. h' = h @ es \<and> list_all P es"
  proof (cases r)
    case None
    with run show ?thesis by (auto simp: repeat_turns_def split: option.splits)
  next
    case (Some a)
    from emitsD [OF assms] have step: "\<exists>es. k' = h @ es \<and> list_all P es"
      if "\<exists>es. k = h @ es \<and> list_all P es" "run_state (body x) k = (t, k')" for x k t k'
      using that by (metis append.assoc list_all_append)
    from Some run have run: "run_state (repeat_turns body x) h = (Some a, h')" by simp
    show ?thesis
      by (rule repeat_turns_result [where I = "\<lambda>x k. \<exists>es. k = h @ es \<and> list_all P es", OF _ _ run])
        (use step in blast, use step in blast, intro exI [of _ "[]"], simp)
  qed
qed

lemma emits_when_done [emit_rules]: "emits P m \<Longrightarrow> (\<And>a. emits P (f a)) \<Longrightarrow> emits P (when_done m f)"
  by (auto simp: when_done_def intro!: emit_rules)

lemma when_done_run:
  "run_state m h = (Some a, h1) \<Longrightarrow> run_state (when_done m f) h = run_state (f a) h1"
  by (simp add: when_done_def)

lemma when_done_cases:
  assumes "run_state (when_done m f) h = (Some b, h')"
  obtains a h1 where "run_state m h = (Some a, h1)" "run_state (f a) h1 = (Some b, h')"
  using assms by (auto simp: when_done_def State_Monad.return_def split: prod.splits option.splits)

end
