(* ===== verification/SocketWorld.thy ===== *)
theory SocketWorld
  imports HistoryMonad UdpPacket RuntimeConfig
begin

text \<open>
  The socket calls of the toolbox scenarios. A computation runs over the history of the
  calls made so far with their results; the platform answers each call as a function of that
  history, so it may fail, refuse or delay anything at any time. Beside the calls, this
  theory holds the two accounts the scenarios keep, the descriptors that are still open and
  the state of the socket service, and a calculus of the events a computation adds.
\<close>

subsection \<open>Calls and their results\<close>

text \<open>The fields the scenarios read of \<^verbatim>\<open>sockaddr_in\<close>; the port is in host order.\<close>

record sockaddr_in =
  sin_family :: int
  sin_addr :: "u8 list"
  sin_port :: u16

datatype recv_answer =
  Recv_failed int \<comment> \<open>with \<^verbatim>\<open>errno\<close>\<close>
| Recv_bytes "u8 list" nat sockaddr_in \<comment> \<open>the bytes that fit, the length of the address, the address\<close>

datatype socket_option = So_reuseaddr | So_rcvtimeo | So_sndtimeo

datatype os_event =
  Os_initialize u32
| Os_exit
| Os_socket int
| Os_connect int sockaddr_in int
| Os_getsockname int int nat sockaddr_in
| Os_get_flags int int
| Os_set_flags int int int
| Os_setsockopt int socket_option "int \<times> int" int
| Os_send int "u8 list" int
| Os_poll int u16 int int u16
| Os_recv int nat recv_answer
| Os_close int int
| Os_tick u64
| Os_sleep u32
| Os_log string

type_synonym os_history = "os_event list"
type_synonym 'a os = "(os_history, 'a) state"

text \<open>The values of the platform's headers.\<close>

record os_codes =
  c_AF_INET :: int
  c_EAGAIN :: int
  c_EWOULDBLOCK :: int
  c_EOPNOTSUPP :: int
  c_ECONNABORTED :: int
  c_ECONNRESET :: int
  c_EPIPE :: int
  c_ETIMEDOUT :: int
  c_O_NONBLOCK :: int
  c_POLLIN :: u16
  c_POLLOUT :: u16
  c_POLLHUP :: u16
  c_POLLERR :: u16
  c_POLLNVAL :: u16
  c_sockaddr_size :: nat

text \<open>The answers: a result with the value of \<^verbatim>\<open>errno\<close> after the call, where it has one.\<close>

record os_env =
  codes :: os_codes
  env_initialize :: "os_history \<Rightarrow> u32"
  env_socket :: "os_history \<Rightarrow> int \<times> int"
  env_connect :: "os_history \<Rightarrow> int \<Rightarrow> sockaddr_in \<Rightarrow> int \<times> int"
  env_getsockname :: "os_history \<Rightarrow> int \<Rightarrow> int \<times> int \<times> nat \<times> sockaddr_in"
  env_get_flags :: "os_history \<Rightarrow> int \<Rightarrow> int \<times> int"
  env_set_flags :: "os_history \<Rightarrow> int \<Rightarrow> int \<Rightarrow> int \<times> int"
  env_setsockopt :: "os_history \<Rightarrow> int \<Rightarrow> socket_option \<Rightarrow> int \<times> int \<Rightarrow> int \<times> int"
  env_send :: "os_history \<Rightarrow> int \<Rightarrow> u8 list \<Rightarrow> int \<times> int"
  env_poll :: "os_history \<Rightarrow> int \<Rightarrow> u16 \<Rightarrow> int \<Rightarrow> int \<times> int \<times> u16"
  env_recv :: "os_history \<Rightarrow> int \<Rightarrow> nat \<Rightarrow> recv_answer"
  env_close :: "os_history \<Rightarrow> int \<Rightarrow> int \<times> int"
  env_tick :: "os_history \<Rightarrow> u64"
  env_tick_frequency :: u64
  env_packet_log :: bool \<comment> \<open>the build option of the packet log lines\<close>
  env_inet_pton :: "string \<Rightarrow> u8 list option"
  env_strerror :: "int \<Rightarrow> string"
  env_ms_text :: "u64 \<Rightarrow> string" \<comment> \<open>\<^verbatim>\<open>std::to_string\<close> of nanoseconds as a double of milliseconds\<close>

definition os_initialize :: "os_env \<Rightarrow> u32 os" where
  "os_initialize env = call (env_initialize env) Os_initialize"

definition os_exit :: "unit os" where
  "os_exit = call (\<lambda>_. ()) (\<lambda>_. Os_exit)"

definition os_socket :: "os_env \<Rightarrow> (int \<times> int) os" where
  "os_socket env = call (env_socket env) (\<lambda>(fd, e). Os_socket fd)"

definition os_connect :: "os_env \<Rightarrow> int \<Rightarrow> sockaddr_in \<Rightarrow> (int \<times> int) os" where
  "os_connect env fd remote = call (\<lambda>h. env_connect env h fd remote) (\<lambda>(r, e). Os_connect fd remote r)"

definition os_getsockname :: "os_env \<Rightarrow> int \<Rightarrow> (int \<times> int \<times> nat \<times> sockaddr_in) os" where
  "os_getsockname env fd = call (\<lambda>h. env_getsockname env h fd) (\<lambda>(r, e, n, a). Os_getsockname fd r n a)"

definition os_get_flags :: "os_env \<Rightarrow> int \<Rightarrow> (int \<times> int) os" where
  "os_get_flags env fd = call (\<lambda>h. env_get_flags env h fd) (\<lambda>(r, e). Os_get_flags fd r)"

definition os_set_flags :: "os_env \<Rightarrow> int \<Rightarrow> int \<Rightarrow> (int \<times> int) os" where
  "os_set_flags env fd flags = call (\<lambda>h. env_set_flags env h fd flags) (\<lambda>(r, e). Os_set_flags fd flags r)"

definition os_setsockopt :: "os_env \<Rightarrow> int \<Rightarrow> socket_option \<Rightarrow> int \<times> int \<Rightarrow> (int \<times> int) os" where
  "os_setsockopt env fd option value =
     call (\<lambda>h. env_setsockopt env h fd option value) (\<lambda>(r, e). Os_setsockopt fd option value r)"

definition os_send :: "os_env \<Rightarrow> int \<Rightarrow> u8 list \<Rightarrow> (int \<times> int) os" where
  "os_send env fd bytes = call (\<lambda>h. env_send env h fd bytes) (\<lambda>(r, e). Os_send fd bytes r)"

definition os_poll :: "os_env \<Rightarrow> int \<Rightarrow> u16 \<Rightarrow> int \<Rightarrow> (int \<times> int \<times> u16) os" where
  "os_poll env fd events timeout =
     call (\<lambda>h. env_poll env h fd events timeout) (\<lambda>(r, e, revents). Os_poll fd events timeout r revents)"

text \<open>What does not fit the caller's array is cut off.\<close>

definition os_recv :: "os_env \<Rightarrow> int \<Rightarrow> nat \<Rightarrow> recv_answer os" where
  "os_recv env fd capacity =
     call (\<lambda>h. case env_recv env h fd capacity of
              Recv_bytes bytes n source \<Rightarrow> Recv_bytes (take capacity bytes) n source
            | answer \<Rightarrow> answer)
       (Os_recv fd capacity)"

definition os_close :: "os_env \<Rightarrow> int \<Rightarrow> (int \<times> int) os" where
  "os_close env fd = call (\<lambda>h. env_close env h fd) (\<lambda>(r, e). Os_close fd r)"

definition os_tick :: "os_env \<Rightarrow> u64 os" where
  "os_tick env = call (env_tick env) Os_tick"

definition os_sleep :: "u32 \<Rightarrow> unit os" where
  "os_sleep ms = call (\<lambda>_. ()) (\<lambda>_. Os_sleep ms)"

definition os_log :: "string \<Rightarrow> unit os" where
  "os_log line = call (\<lambda>_. ()) (\<lambda>_. Os_log line)"

definition os_log_packet :: "os_env \<Rightarrow> string \<Rightarrow> unit os" where
  "os_log_packet env line = (if env_packet_log env then os_log line else State_Monad.return ())"

text \<open>\<^verbatim>\<open>FormatEndpoint\<close>; \<^verbatim>\<open>inet_ntop\<close> into an array of \<^verbatim>\<open>INET_ADDRSTRLEN\<close> succeeds.\<close>

definition FormatEndpoint :: "sockaddr_in \<Rightarrow> string" where
  "FormatEndpoint endpoint = FormatIpv4_bytes (sin_addr endpoint) @ '':'' @ to_string (sin_port endpoint)"

definition errno_text :: "os_env \<Rightarrow> int \<Rightarrow> string" where
  "errno_text env e = FormatErrno (env_strerror env) e"

subsection \<open>Descriptors and the socket service\<close>

text \<open>The descriptors a history leaves open: \<^verbatim>\<open>close\<close> gives a descriptor up, whatever it returns.\<close>

fun descriptor_step :: "os_event \<Rightarrow> int set \<Rightarrow> int set" where
  "descriptor_step (Os_socket fd) fds = (if 0 \<le> fd then insert fd fds else fds)"
| "descriptor_step (Os_close fd r) fds = fds - {fd}"
| "descriptor_step _ fds = fds"

definition open_descriptors :: "os_history \<Rightarrow> int set" where
  "open_descriptors h = fold descriptor_step h {}"

lemma open_descriptors_simps [simp]:
  "open_descriptors [] = {}" "open_descriptors (h @ es) = fold descriptor_step es (open_descriptors h)"
  by (simp_all add: open_descriptors_def)

text \<open>How often the service was initialised with success and not exited since.\<close>

fun service_step :: "os_event \<Rightarrow> int \<Rightarrow> int" where
  "service_step (Os_initialize rc) n = (if rc = 0 then n + 1 else n)"
| "service_step Os_exit n = n - 1"
| "service_step _ n = n"

definition service_users :: "os_history \<Rightarrow> int" where
  "service_users h = fold service_step h 0"

lemma service_users_simps [simp]:
  "service_users [] = 0" "service_users (h @ es) = fold service_step es (service_users h)"
  by (simp_all add: service_users_def)

subsection \<open>The events of the calls\<close>

lemma emits_calls [emit_rules]:
  "(\<And>a. P (Os_connect fd remote a)) \<Longrightarrow> emits P (os_connect env fd remote)"
  "(\<And>a b c. P (Os_getsockname fd a b c)) \<Longrightarrow> emits P (os_getsockname env fd)"
  "(\<And>a. P (Os_get_flags fd a)) \<Longrightarrow> emits P (os_get_flags env fd)"
  "(\<And>a. P (Os_set_flags fd flags a)) \<Longrightarrow> emits P (os_set_flags env fd flags)"
  "(\<And>a. P (Os_setsockopt fd option value a)) \<Longrightarrow> emits P (os_setsockopt env fd option value)"
  "(\<And>a. P (Os_send fd bytes a)) \<Longrightarrow> emits P (os_send env fd bytes)"
  "(\<And>a b. P (Os_poll fd events timeout a b)) \<Longrightarrow> emits P (os_poll env fd events timeout)"
  "(\<And>a. P (Os_recv fd capacity a)) \<Longrightarrow> emits P (os_recv env fd capacity)"
  "(\<And>a. P (Os_socket a)) \<Longrightarrow> emits P (os_socket env)"
  "(\<And>a. P (Os_close fd a)) \<Longrightarrow> emits P (os_close env fd)"
  "(\<And>a. P (Os_tick a)) \<Longrightarrow> emits P (os_tick env)"
  "P (Os_sleep ms) \<Longrightarrow> emits P (os_sleep ms)"
  "P (Os_log line) \<Longrightarrow> emits P (os_log line)"
  "P (Os_log line) \<Longrightarrow> emits P (os_log_packet env line)"
  "(\<And>a. P (Os_initialize a)) \<Longrightarrow> emits P (os_initialize env)"
  "P Os_exit \<Longrightarrow> emits P os_exit"
  unfolding os_connect_def os_getsockname_def os_get_flags_def os_set_flags_def os_setsockopt_def os_send_def os_poll_def
    os_recv_def os_socket_def os_close_def os_tick_def os_sleep_def os_log_def os_log_packet_def os_initialize_def os_exit_def
  by (auto intro!: emits_call emits_if emits_return split: prod.splits)

text \<open>Events that leave both accounts alone.\<close>

fun neutral :: "os_event \<Rightarrow> bool" where
  "neutral (Os_socket fd) = False"
| "neutral (Os_close fd r) = False"
| "neutral (Os_initialize rc) = False"
| "neutral Os_exit = False"
| "neutral _ = True"

lemma neutral_steps: "neutral e \<Longrightarrow> descriptor_step e fds = fds" "neutral e \<Longrightarrow> service_step e n = n"
  by (cases e; simp)+

interpretation descriptors: account descriptor_step neutral
  by unfold_locales (rule neutral_steps)

interpretation service: account service_step neutral
  by unfold_locales (rule neutral_steps)

lemma neutral_run:
  assumes "emits neutral m" "run_state m h = (a, h')"
  shows "open_descriptors h' = open_descriptors h \<and> service_users h' = service_users h"
  unfolding open_descriptors_def service_users_def
  using descriptors.silent_run [OF assms] service.silent_run [OF assms] by blast

text \<open>The histories of the calls that change an account.\<close>

lemma close_call: "run_state (os_close env fd) h = ((r, e), h') \<Longrightarrow> h' = h @ [Os_close fd r]"
  by (auto simp: os_close_def call_def Let_def split: prod.splits)

lemma initialize_call: "run_state (os_initialize env) h = (rc, h') \<Longrightarrow> h' = h @ [Os_initialize rc]"
  by (auto simp: os_initialize_def call_def Let_def)

lemma exit_call: "run_state os_exit h = (u, h') \<Longrightarrow> h' = h @ [Os_exit]"
  by (auto simp: os_exit_def call_def Let_def)

lemma log_call: "run_state (os_log line) h = (u, h') \<Longrightarrow> h' = h @ [Os_log line]"
  by (auto simp: os_log_def call_def Let_def)


end
