(* ===== verification/BsdTcp.thy ===== *)
theory BsdTcp
  imports SocketWorld
begin

text \<open>
  The TCP exchange over the system's socket service
  (\<^verbatim>\<open>toolbox/src/bsd_system_tcp_scenario.cpp\<close>): one connection, one request line, one reply
  that has to be the expected one, byte for byte.
\<close>

definition ExpectedReplyText :: string where
  "ExpectedReplyText = ''NXRV TCP ACK'' @ [CHR 0x0D, CHR 0x0A]"

definition ElapsedMilliseconds :: "os_env \<Rightarrow> u64 \<Rightarrow> u64 \<Rightarrow> u64" where
  "ElapsedMilliseconds env started completed = (completed - started) * 1000 div env_tick_frequency env"

definition SetTimeouts :: "os_env \<Rightarrow> int \<Rightarrow> u32 \<Rightarrow> ScenarioResult \<Rightarrow> (bool \<times> ScenarioResult) os" where
  "SetTimeouts env descriptor deadline_ms result = do {
     let timeout = (uint (deadline_ms div 1000), uint ((deadline_ms mod 1000) * 1000));
     (r, e) \<leftarrow> os_setsockopt env descriptor So_rcvtimeo timeout;
     (r, e) \<leftarrow> (if r \<noteq> 0 then State_Monad.return (r, e) else os_setsockopt env descriptor So_sndtimeo timeout);
     State_Monad.return
       (if r \<noteq> 0 then (False, result\<lparr>sr_err := e, sr_detail := ''setsockopt timeout failed: '' @ errno_text env e\<rparr>)
        else (True, result))
   }"

subsection \<open>The two loops\<close>

text \<open>Both loops move on by at least one byte each turn, so the number of bytes bounds their turns.\<close>

definition send_all_turn ::
  "os_env \<Rightarrow> int \<Rightarrow> u8 list \<Rightarrow> ScenarioResult \<Rightarrow> nat \<Rightarrow> ((bool \<times> ScenarioResult) + nat) os" where
  "send_all_turn env descriptor data result offset =
     (if length data \<le> offset then State_Monad.return (Inl (True, result\<lparr>sr_bytes_sent := offset\<rparr>))
      else do {
        (sent, e) \<leftarrow> os_send env descriptor (drop offset data);
        State_Monad.return
          (if sent \<le> 0 then
             let err = (if sent = 0 then c_EPIPE (codes env) else e)
             in Inl (False, result\<lparr>sr_err := err, sr_detail := ''send failed: '' @ errno_text env err\<rparr>)
           else Inr (offset + nat sent))
      })"

definition SendAll :: "os_env \<Rightarrow> int \<Rightarrow> u8 list \<Rightarrow> ScenarioResult \<Rightarrow> (bool \<times> ScenarioResult) option os" where
  "SendAll env descriptor data result = turns (length data) (send_all_turn env descriptor data result) 0"

text \<open>The bytes received so far stand for the array and its offset.\<close>

definition receive_turn ::
  "os_env \<Rightarrow> int \<Rightarrow> nat \<Rightarrow> ScenarioResult \<Rightarrow> u8 list \<Rightarrow> ((u8 list + ScenarioResult) + u8 list) os" where
  "receive_turn env descriptor wanted result reply =
     (if wanted \<le> length reply then State_Monad.return (Inl (Inl reply))
      else do {
        answer \<leftarrow> os_recv env descriptor (wanted - length reply);
        State_Monad.return
          (case answer of
             Recv_failed e \<Rightarrow>
               Inl (Inr (result\<lparr>sr_err := e, sr_detail := ''recv failed: '' @ errno_text env e\<rparr>))
           | Recv_bytes bytes n source \<Rightarrow>
               if bytes = [] then
                 Inl (Inr (result\<lparr>sr_err := c_ECONNRESET (codes env),
                   sr_detail := ''recv failed: '' @ errno_text env (c_ECONNRESET (codes env))\<rparr>))
               else Inr (reply @ bytes))
      })"

definition poll_reply :: "os_env \<Rightarrow> int \<Rightarrow> u32 \<Rightarrow> ScenarioResult \<Rightarrow> (bool \<times> ScenarioResult) os" where
  "poll_reply env descriptor deadline_ms result = do {
     (r, e, revents) \<leftarrow> os_poll env descriptor (c_POLLIN (codes env)) (sint deadline_ms);
     State_Monad.return
       (if r \<le> 0 then
          (False, result\<lparr>sr_err := (if r = 0 then c_ETIMEDOUT (codes env) else e),
             sr_detail := (if r = 0 then ''receive poll timed out'' else ''receive poll failed: '' @ errno_text env e)\<rparr>)
        else if revents AND (c_POLLERR (codes env) OR c_POLLNVAL (codes env)) \<noteq> 0 \<or> revents AND c_POLLIN (codes env) = 0 then
          (False, result\<lparr>sr_detail := ''receive poll unexpected revents='' @ show_int (sint revents)\<rparr>)
        else (True, result))
   }"

definition reply_verdict :: "u8 list \<Rightarrow> ScenarioResult \<Rightarrow> bool \<times> ScenarioResult" where
  "reply_verdict reply result =
     (let result = result\<lparr>sr_bytes_received := length reply\<rparr>
      in if reply \<noteq> map of_char ExpectedReplyText
         then (False, result\<lparr>sr_detail := ''unexpected reply: '' @ EscapePreview reply (length reply)\<rparr>)
         else (True, result))"

definition ReceiveExpectedReply :: "os_env \<Rightarrow> int \<Rightarrow> u32 \<Rightarrow> ScenarioResult \<Rightarrow> (bool \<times> ScenarioResult) option os" where
  "ReceiveExpectedReply env descriptor deadline_ms result = do {
     (ready, result) \<leftarrow> poll_reply env descriptor deadline_ms result;
     if \<not> ready then State_Monad.return (Some (False, result))
     else do {
       received \<leftarrow> turns (length ExpectedReplyText) (receive_turn env descriptor (length ExpectedReplyText) result) [];
       State_Monad.return (case received of
           None \<Rightarrow> None
         | Some (Inr result) \<Rightarrow> Some (False, result)
         | Some (Inl reply) \<Rightarrow> Some (reply_verdict reply result))
     }
   }"

subsection \<open>The exchange\<close>

definition request_line :: "u32 \<Rightarrow> string" where
  "request_line workload_id = ''NXRV TCP '' @ to_string workload_id @ [CHR 0x0D, CHR 0x0A]"

definition exchange_detail :: "os_env \<Rightarrow> sockaddr_in \<Rightarrow> sockaddr_in \<Rightarrow> u32 \<Rightarrow> u64 list \<Rightarrow> string" where
  "exchange_detail env remote local workload_id ticks =
     ''remote='' @ FormatEndpoint remote @ '' local='' @ FormatEndpoint local @ '' workload='' @ to_string workload_id
     @ '' connect_ms='' @ to_string (ElapsedMilliseconds env (ticks ! 0) (ticks ! 1))
     @ '' send_ms='' @ to_string (ElapsedMilliseconds env (ticks ! 2) (ticks ! 3))
     @ '' receive_ms='' @ to_string (ElapsedMilliseconds env (ticks ! 4) (ticks ! 5)) @ '' reply=validated close=ok''"

text \<open>The request and its reply on an open connection, up to the last \<^verbatim>\<open>close\<close>.\<close>

definition close_with :: "os_env \<Rightarrow> int \<Rightarrow> ScenarioResult \<Rightarrow> ScenarioResult option os" where
  "close_with env descriptor result = do { os_close env descriptor; State_Monad.return (Some result) }"

definition finish_exchange ::
  "os_env \<Rightarrow> int \<Rightarrow> string \<Rightarrow> ScenarioResult \<Rightarrow> ScenarioResult option os" where
  "finish_exchange env descriptor detail result = do {
     (r, e) \<leftarrow> os_close env descriptor;
     State_Monad.return (Some
       (if r \<noteq> 0 then result\<lparr>sr_err := e, sr_detail := ''close failed: '' @ errno_text env e\<rparr>
        else result\<lparr>sr_success := True, sr_detail := detail\<rparr>))
   }"

definition exchange_request ::
  "os_env \<Rightarrow> int \<Rightarrow> sockaddr_in \<Rightarrow> sockaddr_in \<Rightarrow> u32 \<Rightarrow> u32 \<Rightarrow> u64 \<Rightarrow> u64 \<Rightarrow> ScenarioResult \<Rightarrow> ScenarioResult option os" where
  "exchange_request env descriptor remote local workload_id deadline_ms t0 t1 result = do {
     let request = request_line workload_id;
     if 32 \<le> length request then close_with env descriptor (result\<lparr>sr_detail := ''failed to format request''\<rparr>)
     else do {
       t2 \<leftarrow> os_tick env;
       sent \<leftarrow> SendAll env descriptor (map of_char request) result;
       (case sent of
          None \<Rightarrow> State_Monad.return None
        | Some (False, result) \<Rightarrow> close_with env descriptor result
        | Some (True, result) \<Rightarrow> do {
            t3 \<leftarrow> os_tick env;
            t4 \<leftarrow> os_tick env;
            received \<leftarrow> ReceiveExpectedReply env descriptor deadline_ms result;
            (case received of
               None \<Rightarrow> State_Monad.return None
             | Some (False, result) \<Rightarrow> close_with env descriptor result
             | Some (True, result) \<Rightarrow> do {
                 t5 \<leftarrow> os_tick env;
                 finish_exchange env descriptor (exchange_detail env remote local workload_id [t0, t1, t2, t3, t4, t5]) result
               })
          })
     }
   }"

definition run_connection ::
  "os_env \<Rightarrow> sockaddr_in \<Rightarrow> u32 \<Rightarrow> u32 \<Rightarrow> int \<Rightarrow> ScenarioResult \<Rightarrow> ScenarioResult option os" where
  "run_connection env remote workload_id deadline_ms descriptor result = do {
     (configured, result) \<leftarrow> SetTimeouts env descriptor deadline_ms result;
     if \<not> configured then close_with env descriptor result
     else do {
       t0 \<leftarrow> os_tick env;
       (r, e) \<leftarrow> os_connect env descriptor remote;
       if r \<noteq> 0 then
         close_with env descriptor (result\<lparr>sr_err := e, sr_detail := ''connect failed: '' @ errno_text env e\<rparr>)
       else do {
         t1 \<leftarrow> os_tick env;
         (r, e, local_length, local) \<leftarrow> os_getsockname env descriptor;
         if r \<noteq> 0 then
           close_with env descriptor (result\<lparr>sr_err := e, sr_detail := ''getsockname failed: '' @ errno_text env e\<rparr>)
         else if local_length < c_sockaddr_size (codes env) \<or> sin_family local \<noteq> c_AF_INET (codes env)
             \<or> sin_addr local = [0, 0, 0, 0] \<or> sin_port local = 0 then
           close_with env descriptor (result\<lparr>sr_detail := ''getsockname returned an invalid local endpoint''\<rparr>)
         else exchange_request env descriptor remote local workload_id deadline_ms t0 t1 result
       }
     }
   }"

definition RunBsdSystemTcpExchange ::
  "os_env \<Rightarrow> RuntimeProfile \<Rightarrow> u32 \<Rightarrow> TcpScenarioConfig \<Rightarrow> ScenarioResult option os" where
  "RunBsdSystemTcpExchange env profile workload_id config = do {
     let result = new_result ''bsd_system_tcp_exchange'';
     socket_rc \<leftarrow> os_initialize env;
     if failed socket_rc then
       State_Monad.return (Some (result\<lparr>sr_rc := socket_rc, sr_detail := ''socketInitialize failed: '' @ FormatResult socket_rc\<rparr>))
     else do {
       result \<leftarrow> (case env_inet_pton env (bsd_destination_ipv4 profile) of
          None \<Rightarrow> State_Monad.return (Some (result\<lparr>sr_detail := ''invalid configured TCP destination''\<rparr>))
        | Some address \<Rightarrow> do {
            let remote = \<lparr>sin_family = c_AF_INET (codes env), sin_addr = address, sin_port = tcp_destination_port profile\<rparr>;
            os_log (''Running bsd:s TCP exchange to '' @ FormatEndpoint remote);
            (descriptor, e) \<leftarrow> os_socket env;
            if descriptor < 0 then
              State_Monad.return (Some (result\<lparr>sr_err := e, sr_detail := ''socket failed: '' @ errno_text env e\<rparr>))
            else run_connection env remote workload_id (tcp_receive_deadline_ms config) descriptor result
          });
       os_exit;
       State_Monad.return result
     }
   }"

end
