(* ===== verification/UdpPayload.thy ===== *)
theory UdpPayload
  imports UdpPacket RuntimeConfig
begin

text \<open>
  The payloads of the UDP workloads: \<open>BuildPayload\<close> of
  \<^verbatim>\<open>toolbox/src/bsd_system_udp_scenario.cpp\<close> and of \<^verbatim>\<open>toolbox/src/wgnx_tunnel_scenario.cpp\<close>,
  which differ in the seven characters they begin with. The payload is a prefix of an array;
  the stores of the header go to the array, which is longer.
\<close>

definition PayloadHeaderBytes :: nat where "PayloadHeaderBytes = 24"

definition StoreBigEndian32 :: "nat \<Rightarrow> u32 \<Rightarrow> u8 list \<Rightarrow> u8 list" where
  "StoreBigEndian32 at value out =
     out[at := ucast (drop_bit 24 value), at + 1 := ucast (drop_bit 16 value), at + 2 := ucast (drop_bit 8 value),
         at + 3 := ucast value]"

definition NextPayloadByte :: "u32 \<Rightarrow> u32" where
  "NextPayloadByte state =
     (let state = state XOR push_bit 13 state;
          state = state XOR drop_bit 17 state
      in state XOR push_bit 5 state)"

function payload_loop :: "nat \<Rightarrow> nat \<Rightarrow> u32 \<Rightarrow> u8 list \<Rightarrow> u8 list" where
  "payload_loop index n state p =
     (if index < n
      then let state = NextPayloadByte state in payload_loop (index + 1) n state (p[index := ucast state])
      else p)"
  by pat_completeness auto
termination by (relation "measure (\<lambda>(index, n, _, _). n - index)") auto

declare payload_loop.simps [simp del]

definition BuildPayload :: "string \<Rightarrow> nat \<Rightarrow> u32 \<Rightarrow> u32 \<Rightarrow> TunnelUdpWorkloadConfig \<Rightarrow> u8 list \<Rightarrow> u8 list" where
  "BuildPayload magic n seq flow_index config storage =
     (let p = replicate n 0 @ drop n storage;
          p = copy_at 0 (map of_char magic) p;
          p = StoreBigEndian32 8 (tw_workload_id config) p;
          p = StoreBigEndian32 12 flow_index p;
          p = StoreBigEndian32 16 seq p;
          p = StoreBigEndian32 20 (tw_payload_seed config) p
      in payload_loop PayloadHeaderBytes n (tw_payload_seed config XOR seq XOR (flow_index * 0x9E3779B9)) p)"

definition BsdPayloadMagic :: string where "BsdPayloadMagic = ''NXRVBS1''"
definition TunnelPayloadMagic :: string where "TunnelPayloadMagic = ''NXRVWG1''"

subsection \<open>The header reads back\<close>

definition load_be32 :: "u8 list \<Rightarrow> nat \<Rightarrow> u32" where
  "load_be32 p i = (push_bit 24 (ucast (p ! i)) OR push_bit 16 (ucast (p ! (i + 1))) OR push_bit 8 (ucast (p ! (i + 2)))
     OR ucast (p ! (i + 3)))"

lemma join_bytes:
  "push_bit 24 (ucast (ucast (drop_bit 24 v) :: u8)) OR push_bit 16 (ucast (ucast (drop_bit 16 v) :: u8))
     OR push_bit 8 (ucast (ucast (drop_bit 8 v) :: u8)) OR ucast (ucast v :: u8) = (v :: u32)"
proof (rule bit_word_eqI)
  fix n
  assume "n < LENGTH(32)"
  then consider "n < 8" | "8 \<le> n" "n < 16" | "16 \<le> n" "n < 24" | "24 \<le> n" "n < 32" by fastforce
  then show "bit (push_bit 24 (ucast (ucast (drop_bit 24 v) :: u8)) OR push_bit 16 (ucast (ucast (drop_bit 16 v) :: u8))
     OR push_bit 8 (ucast (ucast (drop_bit 8 v) :: u8)) OR ucast (ucast v :: u8) :: u32) n = bit v n"
    by cases (auto simp: bit_simps)
qed

lemma length_payload_loop [simp]: "length (payload_loop index n state p) = length p"
  by (induction index n state p rule: payload_loop.induct) (subst payload_loop.simps, simp add: Let_def)

lemma payload_loop_below: "i < index \<Longrightarrow> payload_loop index n state p ! i = p ! i"
  by (induction index n state p rule: payload_loop.induct) (subst payload_loop.simps, simp add: Let_def)

lemma store_load: "at + 3 < length p \<Longrightarrow> load_be32 (StoreBigEndian32 at v p) at = v"
  by (simp add: load_be32_def StoreBigEndian32_def join_bytes)

lemma store_length [simp]: "length (StoreBigEndian32 at v p) = length p"
  by (simp add: StoreBigEndian32_def)

lemma store_other: "i < at \<or> at + 3 < i \<Longrightarrow> StoreBigEndian32 at v p ! i = p ! i"
  by (auto simp: StoreBigEndian32_def)

lemma load_store_other: "i + 3 < at \<Longrightarrow> load_be32 (StoreBigEndian32 at v p) i = load_be32 p i"
  by (simp add: load_be32_def store_other)

lemma load_loop: "i + 3 < index \<Longrightarrow> load_be32 (payload_loop index n state p) i = load_be32 p i"
  by (simp add: load_be32_def payload_loop_below)

lemma load_take32: "i + 3 < n \<Longrightarrow> load_be32 (take n p) i = load_be32 p i"
  by (simp add: load_be32_def)

lemma payload_reads:
  assumes "length magic \<le> 8" "24 \<le> n" "n \<le> length storage"
    and "p = take n (BuildPayload magic n seq flow config storage)"
  shows "length p = n \<and> load_be32 p 8 = tw_workload_id config \<and> load_be32 p 12 = flow \<and> load_be32 p 16 = seq
    \<and> load_be32 p 20 = tw_payload_seed config \<and> take (length magic) p = map of_char magic"
proof -
  have "take (length magic) p = map of_char magic"
    by (rule nth_equalityI) (use assms in \<open>simp_all add: BuildPayload_def Let_def PayloadHeaderBytes_def
      payload_loop_below store_other copy_at_def nth_append\<close>)
  with assms show ?thesis
    by (simp add: BuildPayload_def Let_def PayloadHeaderBytes_def load_take32 load_loop load_store_other store_load copy_at_def)
qed

text \<open>The payload does not depend on what the array held.\<close>

lemma take_payload_loop: "take n (payload_loop index n state p) = payload_loop index n state (take n p)"
  by (induction index n state p rule: payload_loop.induct)
    (subst (1 2) payload_loop.simps, simp add: Let_def take_update_swap)

lemma take_store: "take n (StoreBigEndian32 at v p) = StoreBigEndian32 at v (take n p)"
  by (simp add: StoreBigEndian32_def take_update_swap)

lemma payload_fresh:
  assumes "length magic \<le> n"
  shows "take n (BuildPayload magic n seq flow config storage) = BuildPayload magic n seq flow config []"
  using assms by (simp add: BuildPayload_def Let_def take_payload_loop take_store copy_at_def)

text \<open>
  C21. A payload of a valid size carries its datagram: it has that size, begins with the
  characters of its scenario, its header reads back as the workload, the flow, the sequence
  number and the seed, whatever the array held before, so two datagrams of a workload
  never have the same payload.
\<close>

theorem payload_identifies_datagram:
  assumes "magic \<in> {BsdPayloadMagic, TunnelPayloadMagic}" "24 \<le> n" "n \<le> length storage" "n \<le> length storage'"
    and "(seq, flow) \<noteq> (seq', flow')"
  shows "let p = take n (BuildPayload magic n seq flow config storage) in
    length p = n \<and> take 7 p = map of_char magic \<and> load_be32 p 8 = tw_workload_id config \<and> load_be32 p 12 = flow
    \<and> load_be32 p 16 = seq \<and> load_be32 p 20 = tw_payload_seed config
    \<and> take n (BuildPayload magic n seq' flow' config storage') \<noteq> p"
proof -
  have m: "length magic = 7" using assms(1) by (auto simp: BsdPayloadMagic_def TunnelPayloadMagic_def)
  from payload_reads [OF _ assms(2,3) refl, of magic seq flow config]
    payload_reads [OF _ assms(2,4) refl, of magic seq' flow' config] m assms(5)
  show ?thesis unfolding Let_def by auto
qed

definition example_workload :: TunnelUdpWorkloadConfig where
  "example_workload = \<lparr>tw_destination_ipv4 = ''10.1.0.2'', tw_destination_port = 29000, tw_workload_id = 7,
     tw_payload_bytes = 26, tw_datagram_count = 2, tw_pacing_ms = 0, tw_concurrent_flows = 1,
     tw_receive_deadline_ms = 5000, tw_payload_seed = 9, tw_echo_replies = True\<rparr>"

theorem payload_identifies_datagram_witness:
  "load_be32 (take 26 (BuildPayload BsdPayloadMagic 26 1 0 example_workload (replicate 30 0xEE))) 8 = 7
   \<and> take 26 (BuildPayload BsdPayloadMagic 26 0 0 example_workload (replicate 30 0))
     \<noteq> take 26 (BuildPayload BsdPayloadMagic 26 1 0 example_workload (replicate 30 0xEE))"
  using payload_identifies_datagram [of BsdPayloadMagic 26 "replicate 30 0xEE" "replicate 30 0" 1 0 0 0 example_workload]
  by (simp add: Let_def example_workload_def)

end
