(* ===== verification/BsdUdp.thy ===== *)
theory BsdUdp
  imports SocketWorld UdpPayload UdpMetrics
begin

text \<open>
  The UDP workload over the system's socket service
  (\<^verbatim>\<open>toolbox/src/bsd_system_udp_scenario.cpp\<close>): it opens one connected socket per flow, sends
  numbered payloads, retries a send at most sixteen times while the queue is full, and checks
  every echo. Two more outcomes expect silence, or the closure of the flow.
\<close>

definition MaximumQueueFullRetriesPerDatagram :: u32 where "MaximumQueueFullRetriesPerDatagram = 16"

subsection \<open>Descriptors\<close>

fun CloseDescriptors :: "os_env \<Rightarrow> int list \<Rightarrow> int list os" where
  "CloseDescriptors env [] = State_Monad.return []"
| "CloseDescriptors env (descriptor # descriptors) = do {
     descriptor \<leftarrow> (if 0 \<le> descriptor then do { os_close env descriptor; State_Monad.return (- 1) }
                   else State_Monad.return descriptor);
     descriptors \<leftarrow> CloseDescriptors env descriptors;
     State_Monad.return (descriptor # descriptors)
   }"

definition ConfigureNonBlocking :: "os_env \<Rightarrow> int \<Rightarrow> nat \<Rightarrow> ScenarioResult \<Rightarrow> (bool \<times> ScenarioResult) os" where
  "ConfigureNonBlocking env descriptor flow_index result = do {
     (current_flags, e) \<leftarrow> os_get_flags env descriptor;
     if current_flags < 0 then
       State_Monad.return (False, result\<lparr>sr_err := e,
         sr_detail := ''fcntl(F_GETFL) failed flow='' @ show_dec flow_index @ '': '' @ errno_text env e\<rparr>)
     else do {
       (r, e) \<leftarrow> os_set_flags env descriptor (current_flags OR c_O_NONBLOCK (codes env));
       if r \<noteq> 0 then
         State_Monad.return (False, result\<lparr>sr_err := e,
           sr_detail := ''fcntl(F_SETFL, O_NONBLOCK) failed flow='' @ show_dec flow_index @ '': '' @ errno_text env e\<rparr>)
       else State_Monad.return (True, result)
     }
   }"

definition VerifyPostRouteRejection :: "os_env \<Rightarrow> int \<Rightarrow> ScenarioResult \<Rightarrow> (bool \<times> ScenarioResult) os" where
  "VerifyPostRouteRejection env descriptor result = do {
     (r, e) \<leftarrow> os_setsockopt env descriptor So_reuseaddr (1, 0);
     State_Monad.return
       (if r = 0 then (False, result\<lparr>sr_detail := ''setsockopt unexpectedly succeeded on a tunneled socket''\<rparr>)
        else if e \<noteq> c_EOPNOTSUPP (codes env) then
          (False, result\<lparr>sr_err := e, sr_detail := ''setsockopt returned an unexpected error: '' @ errno_text env e\<rparr>)
        else (True, result))
   }"

definition VerifyVisibleLocalEndpoint :: "os_env \<Rightarrow> int \<Rightarrow> nat \<Rightarrow> ScenarioResult \<Rightarrow> (bool \<times> ScenarioResult) os" where
  "VerifyVisibleLocalEndpoint env descriptor flow_index result = do {
     (r, e, local_length, local) \<leftarrow> os_getsockname env descriptor;
     if r \<noteq> 0 then
       State_Monad.return (False, result\<lparr>sr_err := e,
         sr_detail := ''getsockname failed flow='' @ show_dec flow_index @ '': '' @ errno_text env e\<rparr>)
     else if local_length < c_sockaddr_size (codes env) \<or> sin_family local \<noteq> c_AF_INET (codes env)
         \<or> sin_addr local = [0, 0, 0, 0] \<or> sin_port local = 0 then
       State_Monad.return (False, result\<lparr>
         sr_detail := ''getsockname returned an invalid local endpoint flow='' @ show_dec flow_index\<rparr>)
     else do {
       os_log (''bsd_system_udp local flow='' @ show_dec flow_index @ '' endpoint='' @ FormatEndpoint local);
       State_Monad.return (True, result)
     }
   }"

subsection \<open>Sending with retries\<close>

record BsdSendResult =
  bs_sent :: bool
  bs_writable_after_queue_full :: bool
  bs_queue_full_retries :: u32
  bs_error :: int
  bs_detail :: string

definition new_send_result :: BsdSendResult where
  "new_send_result = \<lparr>bs_sent = False, bs_writable_after_queue_full = False, bs_queue_full_retries = 0,
     bs_error = 0, bs_detail = []\<rparr>"

text \<open>The poll after a full queue: the result when the loop ends there.\<close>

definition await_writable :: "os_env \<Rightarrow> int \<Rightarrow> u32 \<Rightarrow> BsdSendResult \<Rightarrow> (BsdSendResult + BsdSendResult) os" where
  "await_writable env descriptor deadline_ms result = do {
     (r, e, revents) \<leftarrow> os_poll env descriptor (c_POLLOUT (codes env)) (sint deadline_ms);
     State_Monad.return
       (if r < 0 then Inl (result\<lparr>bs_error := e, bs_detail := ''writable poll failed: '' @ errno_text env e\<rparr>)
        else if r = 0 then Inl (result\<lparr>bs_error := c_ETIMEDOUT (codes env), bs_detail := ''writable poll timed out''\<rparr>)
        else if revents AND c_POLLHUP (codes env) \<noteq> 0 then
          Inl (result\<lparr>bs_error := c_ECONNABORTED (codes env), bs_detail := ''writable poll reported closed flow''\<rparr>)
        else if revents AND c_POLLOUT (codes env) = 0 then
          Inl (result\<lparr>bs_detail := ''writable poll missing POLLOUT revents='' @ show_int (sint revents)\<rparr>)
        else Inr (result\<lparr>bs_writable_after_queue_full := True\<rparr>))
   }"

definition send_turn :: "os_env \<Rightarrow> int \<Rightarrow> u8 list \<Rightarrow> u32 \<Rightarrow> BsdSendResult \<Rightarrow> (BsdSendResult + BsdSendResult) os" where
  "send_turn env descriptor payload deadline_ms result = do {
     (sent, e) \<leftarrow> os_send env descriptor payload;
     if 0 \<le> sent then
       State_Monad.return (Inl (if nat sent = length payload then result\<lparr>bs_sent := True\<rparr>
                                else result\<lparr>bs_detail := ''short UDP send''\<rparr>))
     else let result = result\<lparr>bs_error := e\<rparr>
     in if e \<noteq> c_EAGAIN (codes env) \<and> e \<noteq> c_EWOULDBLOCK (codes env)
           \<or> bs_queue_full_retries result = MaximumQueueFullRetriesPerDatagram then
       State_Monad.return (Inl (result\<lparr>bs_detail := ''send failed: '' @ errno_text env e\<rparr>))
     else await_writable env descriptor deadline_ms
       (result\<lparr>bs_queue_full_retries := bs_queue_full_retries result + 1\<rparr>)
   }"

text \<open>
  The endless loop, with the number of further turns it may take: after as many retries as are allowed
  the turn returns, so sixteen further turns are enough.
\<close>

fun send_loop :: "os_env \<Rightarrow> int \<Rightarrow> u8 list \<Rightarrow> u32 \<Rightarrow> nat \<Rightarrow> BsdSendResult \<Rightarrow> BsdSendResult option os" where
  "send_loop env descriptor payload deadline_ms further result = do {
     turn \<leftarrow> send_turn env descriptor payload deadline_ms result;
     (case turn of
        Inl result \<Rightarrow> State_Monad.return (Some result)
      | Inr result \<Rightarrow> (case further of
          0 \<Rightarrow> State_Monad.return None
        | Suc further \<Rightarrow> send_loop env descriptor payload deadline_ms further result))
   }"

declare send_loop.simps [simp del]

definition SendWithWritableRetry :: "os_env \<Rightarrow> int \<Rightarrow> u8 list \<Rightarrow> u32 \<Rightarrow> BsdSendResult os" where
  "SendWithWritableRetry env descriptor payload deadline_ms = do {
     result \<leftarrow> send_loop env descriptor payload deadline_ms (unat MaximumQueueFullRetriesPerDatagram) new_send_result;
     State_Monad.return (case result of Some result \<Rightarrow> result | None \<Rightarrow> new_send_result)
   }"

subsection \<open>Receiving an echo\<close>

record BsdPollResult =
  bp_observation :: BsdPollObservation
  bp_error :: int
  bp_revents :: u16

definition WaitForInput :: "os_env \<Rightarrow> int \<Rightarrow> u32 \<Rightarrow> BsdPollResult os" where
  "WaitForInput env descriptor deadline_ms = do {
     (r, e, revents) \<leftarrow> os_poll env descriptor (c_POLLIN (codes env)) (sint deadline_ms);
     State_Monad.return \<lparr>bp_observation = ClassifyBsdPollObservation (c_POLLIN (codes env)) (c_POLLHUP (codes env)) r revents,
       bp_error = (if r < 0 then e else 0), bp_revents = revents\<rparr>
   }"

definition poll_failure :: "os_env \<Rightarrow> u32 \<Rightarrow> BsdPollResult \<Rightarrow> ScenarioResult \<Rightarrow> ScenarioResult" where
  "poll_failure env seq poll_result result =
     (let result = result\<lparr>sr_err := bp_error poll_result, sr_detail := ''poll did not report echo sequence='' @ to_string seq
            @ '' revents='' @ show_int (sint (bp_revents poll_result))\<rparr>
      in if bp_observation poll_result = Timeout then
           result\<lparr>sr_err := c_ETIMEDOUT (codes env), sr_detail := ''poll timed out sequence='' @ to_string seq\<rparr>
         else if bp_observation poll_result = Error then
           result\<lparr>sr_detail := ''poll failed sequence='' @ to_string seq @ '': '' @ errno_text env (bp_error poll_result)\<rparr>
         else result)"

definition ReceiveExpectedEcho ::
  "os_env \<Rightarrow> int \<Rightarrow> u8 list \<Rightarrow> nat \<Rightarrow> sockaddr_in \<Rightarrow> u32 \<Rightarrow> u32 \<Rightarrow> ScenarioResult \<Rightarrow> (bool \<times> ScenarioResult) os" where
  "ReceiveExpectedEcho env descriptor payload capacity remote deadline_ms seq result = do {
     poll_result \<leftarrow> WaitForInput env descriptor deadline_ms;
     if \<not> IsExpectedBsdPollObservation EchoReply (bp_observation poll_result) then
       State_Monad.return (False, poll_failure env seq poll_result result)
     else do {
       answer \<leftarrow> os_recv env descriptor capacity;
       State_Monad.return
         (case answer of
            Recv_failed e \<Rightarrow>
              (False, result\<lparr>sr_err := e,
                 sr_detail := ''recvfrom failed sequence='' @ to_string seq @ '': '' @ errno_text env e\<rparr>)
          | Recv_bytes reply source_length source \<Rightarrow>
              let result = result\<lparr>sr_bytes_received := sr_bytes_received result + length reply\<rparr>
              in if reply \<noteq> payload then
                   (False, result\<lparr>sr_detail := ''unexpected echo sequence='' @ to_string seq @ '' source='' @ FormatEndpoint source\<rparr>)
                 else if source_length < c_sockaddr_size (codes env) \<or> sin_family source \<noteq> c_AF_INET (codes env)
                     \<or> sin_addr source \<noteq> sin_addr remote \<or> sin_port source \<noteq> sin_port remote then
                   (False, result\<lparr>sr_detail := ''unexpected reply endpoint sequence='' @ to_string seq
                      @ '' source='' @ FormatEndpoint source\<rparr>)
                 else (True, result))
     }
   }"

definition VerifyTerminalSend :: "os_env \<Rightarrow> int \<Rightarrow> u8 list \<Rightarrow> ScenarioResult \<Rightarrow> (bool \<times> ScenarioResult) os" where
  "VerifyTerminalSend env descriptor payload result = do {
     (sent, e) \<leftarrow> os_send env descriptor payload;
     State_Monad.return
       (if sent < 0 \<and> e = c_ECONNABORTED (codes env) then (True, result)
        else let err = (if sent < 0 then e else 0)
             in (False, result\<lparr>sr_err := err, sr_detail := ''post-closure send did not return ECONNABORTED''
                   @ (if err \<noteq> 0 then '': '' @ errno_text env err else [])\<rparr>))
   }"

subsection \<open>The workload\<close>

record udp_workload =
  uw_result :: ScenarioResult
  uw_metrics :: UdpWorkloadMetrics
  uw_echoed :: u32
  uw_retries :: u32
  uw_recovery :: bool
  uw_storage :: "u8 list"

definition new_workload :: "nat \<Rightarrow> ScenarioResult \<Rightarrow> udp_workload" where
  "new_workload storage_size result = \<lparr>uw_result = result, uw_metrics = new_metrics, uw_echoed = 0, uw_retries = 0,
     uw_recovery = False, uw_storage = replicate storage_size 0\<rparr>"

text \<open>The summary line; the two workloads differ in \<open>kind\<close> and the name of the last counter.\<close>

definition metrics_line :: "string \<Rightarrow> string \<Rightarrow> u64 \<Rightarrow> TunnelUdpWorkloadConfig \<Rightarrow> UdpWorkloadMetrics \<Rightarrow> u32 \<Rightarrow> string" where
  "metrics_line kind counter tick_frequency config m full_events =
     ''[udp-workload-summary] kind='' @ kind @ '' workload='' @ to_string (tw_workload_id config)
     @ '' scope=workload flow=all attempted='' @ to_string (attempted_datagrams m)
     @ '' accepted='' @ to_string (submitted_datagrams m) @ '' submitted_bytes='' @ to_string (submitted_bytes m)
     @ '' submission_elapsed_ns='' @ to_string (SubmissionElapsedNanoseconds tick_frequency m)
     @ '' echoed='' @ to_string (echoed_datagrams m) @ '' received_bytes='' @ to_string (echoed_bytes m)
     @ '' rtt_samples='' @ to_string (echoed_datagrams m) @ '' rtt_min_ns='' @ to_string (rtt_min_ns m)
     @ '' rtt_mean_ns='' @ to_string (RttMeanNanoseconds m)
     @ '' rtt_p50_upper_ns='' @ to_string (RttPercentileUpperNanoseconds 50 m)
     @ '' rtt_p95_upper_ns='' @ to_string (RttPercentileUpperNanoseconds 95 m)
     @ '' rtt_p99_upper_ns='' @ to_string (RttPercentileUpperNanoseconds 99 m)
     @ '' rtt_max_ns='' @ to_string (rtt_max_ns m) @ '' '' @ counter @ ''='' @ to_string full_events"

definition log_metrics :: "os_env \<Rightarrow> TunnelUdpWorkloadConfig \<Rightarrow> udp_workload \<Rightarrow> unit os" where
  "log_metrics env config w =
     os_log (metrics_line ''bsd-system'' ''queue_full_retries'' (env_tick_frequency env) config (uw_metrics w) (uw_retries w))"

definition latency_text :: "os_env \<Rightarrow> UdpWorkloadMetrics \<Rightarrow> string" where
  "latency_text env m = '' avg_echo_latency_ms='' @ env_ms_text env (RttMeanNanoseconds m)"

definition set_payload :: "TunnelUdpWorkloadConfig \<Rightarrow> u32 \<Rightarrow> u32 \<Rightarrow> udp_workload \<Rightarrow> udp_workload" where
  "set_payload config seq flow_index w =
     w\<lparr>uw_storage := BuildPayload BsdPayloadMagic (unat (tw_payload_bytes config)) seq flow_index config (uw_storage w)\<rparr>"

definition payload_of :: "TunnelUdpWorkloadConfig \<Rightarrow> udp_workload \<Rightarrow> u8 list" where
  "payload_of config w = take (unat (tw_payload_bytes config)) (uw_storage w)"

text \<open>An accepted send: the bytes and the time it was accepted.\<close>

definition record_accepted :: "os_env \<Rightarrow> TunnelUdpWorkloadConfig \<Rightarrow> udp_workload \<Rightarrow> udp_workload os" where
  "record_accepted env config w = do {
     accepted_tick \<leftarrow> os_tick env;
     State_Monad.return (w\<lparr>uw_result := (uw_result w)\<lparr>sr_bytes_sent := sr_bytes_sent (uw_result w) + unat (tw_payload_bytes config)\<rparr>,
       uw_metrics := RecordSubmission accepted_tick (tw_payload_bytes config) (uw_metrics w)\<rparr>)
   }"

definition record_echoed :: "os_env \<Rightarrow> TunnelUdpWorkloadConfig \<Rightarrow> u64 \<Rightarrow> udp_workload \<Rightarrow> udp_workload os" where
  "record_echoed env config send_start_tick w = do {
     received_tick \<leftarrow> os_tick env;
     State_Monad.return (w\<lparr>uw_echoed := uw_echoed w + 1,
       uw_metrics := RecordEcho send_start_tick received_tick (env_tick_frequency env) (tw_payload_bytes config) (uw_metrics w)\<rparr>)
   }"

definition attempt_send :: "os_env \<Rightarrow> int \<Rightarrow> TunnelUdpWorkloadConfig \<Rightarrow> udp_workload \<Rightarrow> (BsdSendResult \<times> udp_workload) os" where
  "attempt_send env descriptor config w = do {
     send_result \<leftarrow> SendWithWritableRetry env descriptor (payload_of config w) (tw_receive_deadline_ms config);
     State_Monad.return (send_result, w\<lparr>uw_metrics := RecordAttempt (uw_metrics w),
       uw_retries := uw_retries w + bs_queue_full_retries send_result\<rparr>)
   }"

definition fail_with :: "int \<Rightarrow> string \<Rightarrow> udp_workload \<Rightarrow> udp_workload" where
  "fail_with e detail w = w\<lparr>uw_result := (uw_result w)\<lparr>sr_err := e, sr_detail := detail\<rparr>\<rparr>"

definition succeed_with :: "string \<Rightarrow> udp_workload \<Rightarrow> udp_workload" where
  "succeed_with detail w = w\<lparr>uw_result := (uw_result w)\<lparr>sr_success := True, sr_detail := detail\<rparr>\<rparr>"

text \<open>The outcome that expects silence.\<close>

definition no_reply_outcome :: "os_env \<Rightarrow> TunnelUdpWorkloadConfig \<Rightarrow> int \<Rightarrow> udp_workload \<Rightarrow> udp_workload os" where
  "no_reply_outcome env config descriptor w = do {
     (send_result, w) \<leftarrow> attempt_send env descriptor config (set_payload config 0 0 w);
     if \<not> bs_sent send_result then State_Monad.return (fail_with (bs_error send_result) (bs_detail send_result) w)
     else do {
       w \<leftarrow> record_accepted env config w;
       poll_result \<leftarrow> WaitForInput env descriptor (tw_receive_deadline_ms config);
       State_Monad.return
         (if IsExpectedBsdPollObservation NoReplyTimeout (bp_observation poll_result) then
            succeed_with (''bsd:s no-reply timeout confirmed workload='' @ to_string (tw_workload_id config)
              @ '' deadline_ms='' @ to_string (tw_receive_deadline_ms config)) w
          else fail_with (bp_error poll_result)
            (''no-reply poll unexpected revents='' @ show_int (sint (bp_revents poll_result))) w)
     }
   }"

text \<open>
  The outcome that expects the flow to close after one echo: the state of the workload and
  the first descriptor, which is \<open>-1\<close> once it is closed.
\<close>

definition terminal_closed :: "os_env \<Rightarrow> TunnelUdpWorkloadConfig \<Rightarrow> int \<Rightarrow> udp_workload \<Rightarrow> (udp_workload \<times> int) os" where
  "terminal_closed env config descriptor w = do {
     poll_result \<leftarrow> WaitForInput env descriptor (tw_receive_deadline_ms config);
     if \<not> IsExpectedBsdPollObservation TerminalClosure (bp_observation poll_result) then
       State_Monad.return (fail_with (bp_error poll_result)
         (''terminal poll unexpected revents='' @ show_int (sint (bp_revents poll_result))) w, descriptor)
     else do {
       (verified, result) \<leftarrow> VerifyTerminalSend env descriptor (payload_of config w) (uw_result w);
       let w = w\<lparr>uw_result := result\<rparr>;
       if \<not> verified then State_Monad.return (w, descriptor)
       else do {
         (r, e) \<leftarrow> os_close env descriptor;
         State_Monad.return
           (if r \<noteq> 0 then (fail_with e (''terminal close failed: '' @ errno_text env e) w, descriptor)
            else (succeed_with (''bsd:s terminal closure confirmed workload='' @ to_string (tw_workload_id config)
                @ '' echoed='' @ to_string (uw_echoed w) @ '' post_send=ECONNABORTED'' @ latency_text env (uw_metrics w)) w, - 1))
       }
     }
   }"

definition terminal_outcome ::
  "os_env \<Rightarrow> TunnelUdpWorkloadConfig \<Rightarrow> sockaddr_in \<Rightarrow> int \<Rightarrow> udp_workload \<Rightarrow> (udp_workload \<times> int) os" where
  "terminal_outcome env config remote descriptor w = do {
     let w = set_payload config 0 0 w;
     send_start_tick \<leftarrow> os_tick env;
     (send_result, w) \<leftarrow> attempt_send env descriptor config w;
     if \<not> bs_sent send_result then
       State_Monad.return (fail_with (bs_error send_result) (bs_detail send_result) w, descriptor)
     else do {
       w \<leftarrow> record_accepted env config w;
       (received, result) \<leftarrow> ReceiveExpectedEcho env descriptor (payload_of config w) (length (uw_storage w)) remote
         (tw_receive_deadline_ms config) 0 (uw_result w);
       let w = w\<lparr>uw_result := result\<rparr>;
       if \<not> received then State_Monad.return (w, descriptor)
       else do {
         w \<leftarrow> record_echoed env config send_start_tick w;
         os_log (''bsd_system_udp terminal flow waiting deadline_ms='' @ to_string (tw_receive_deadline_ms config));
         terminal_closed env config descriptor w
       }
     }
   }"

text \<open>One turn of the echo loop; the flag says whether the loop goes on.\<close>

definition echo_received ::
  "os_env \<Rightarrow> TunnelUdpWorkloadConfig \<Rightarrow> sockaddr_in \<Rightarrow> int \<Rightarrow> nat \<Rightarrow> nat \<Rightarrow> u64 \<Rightarrow> udp_workload \<Rightarrow> (bool \<times> udp_workload) os" where
  "echo_received env config remote descriptor seq flow_index send_start_tick w =
     (if \<not> tw_echo_replies config then State_Monad.return (True, w)
      else do {
        (received, result) \<leftarrow> ReceiveExpectedEcho env descriptor (payload_of config w) (length (uw_storage w)) remote
          (tw_receive_deadline_ms config) (of_nat seq) (uw_result w);
        let w = w\<lparr>uw_result := result\<rparr>;
        if \<not> received then State_Monad.return (False, w)
        else do {
          w \<leftarrow> record_echoed env config send_start_tick w;
          (if seq = 0 \<or> seq + 1 = unat (tw_datagram_count config)
           then os_log_packet env (''bsd_system_udp echo flow='' @ show_dec flow_index @ '' sequence='' @ show_dec seq @ '' reply_received'')
           else State_Monad.return ());
          State_Monad.return (True, w)
        }
      })"

definition echo_turn ::
  "os_env \<Rightarrow> TunnelUdpWorkloadConfig \<Rightarrow> sockaddr_in \<Rightarrow> int list \<Rightarrow> nat \<Rightarrow> udp_workload \<Rightarrow> (bool \<times> udp_workload) os" where
  "echo_turn env config remote descriptors seq w = do {
     let flow_index = seq mod unat (tw_concurrent_flows config);
     let descriptor = descriptors ! flow_index;
     let w = set_payload config (of_nat seq) (of_nat flow_index) w;
     send_start_tick \<leftarrow> os_tick env;
     (send_result, w) \<leftarrow> attempt_send env descriptor config w;
     let w = w\<lparr>uw_recovery := uw_recovery w \<or> bs_writable_after_queue_full send_result\<rparr>;
     if \<not> bs_sent send_result then
       State_Monad.return (False, fail_with (bs_error send_result) (bs_detail send_result @ '' sequence='' @ show_dec seq
         @ '' queue_full_retries='' @ to_string (uw_retries w)) w)
     else do {
       w \<leftarrow> record_accepted env config w;
       (continues, w) \<leftarrow> echo_received env config remote descriptor seq flow_index send_start_tick w;
       if \<not> continues then State_Monad.return (False, w)
       else do {
         (if tw_pacing_ms config \<noteq> 0 then os_sleep (tw_pacing_ms config) else State_Monad.return ());
         State_Monad.return (True, w)
       }
     }
   }"

fun echo_loop ::
  "os_env \<Rightarrow> TunnelUdpWorkloadConfig \<Rightarrow> sockaddr_in \<Rightarrow> int list \<Rightarrow> nat list \<Rightarrow> udp_workload \<Rightarrow> udp_workload os" where
  "echo_loop env config remote descriptors [] w = State_Monad.return w"
| "echo_loop env config remote descriptors (seq # seqs) w = do {
     (continues, w) \<leftarrow> echo_turn env config remote descriptors seq w;
     if continues then echo_loop env config remote descriptors seqs w else State_Monad.return w
   }"

text \<open>The verdict after the loop.\<close>

definition echo_detail :: "os_env \<Rightarrow> TunnelUdpWorkloadConfig \<Rightarrow> udp_workload \<Rightarrow> string" where
  "echo_detail env config w =
     ''bsd_service=system destination='' @ tw_destination_ipv4 config @ '':'' @ to_string (tw_destination_port config)
     @ '' workload='' @ to_string (tw_workload_id config) @ '' flows='' @ to_string (tw_concurrent_flows config)
     @ '' sent='' @ to_string (tw_datagram_count config) @ '' echoed='' @ to_string (uw_echoed w)
     @ '' queue_full_retries='' @ to_string (uw_retries w)
     @ '' writable_recovery='' @ (if uw_recovery w then ''true'' else ''false'')
     @ (if tw_echo_replies config then latency_text env (uw_metrics w) else [])"

definition echo_verdict :: "os_env \<Rightarrow> TunnelUdpWorkloadConfig \<Rightarrow> BsdSystemUdpWorkloadConfig \<Rightarrow> udp_workload \<Rightarrow> ScenarioResult" where
  "echo_verdict env config bsd_config w =
     (let result = uw_result w;
          result = (if sr_detail result = [] \<and> require_writable_recovery bsd_config
                       \<and> \<not> HasWritableRecovery (uw_retries w) (uw_recovery w)
                    then result\<lparr>sr_detail := ''writable recovery was not observed''\<rparr> else result)
      in if sr_detail result = [] \<and> (\<not> tw_echo_replies config \<or> uw_echoed w = tw_datagram_count config)
         then result\<lparr>sr_success := True, sr_detail := echo_detail env config w\<rparr> else result)"

text \<open>Opening the flows: the descriptors, and the result when a call failed.\<close>

definition open_flow ::
  "os_env \<Rightarrow> sockaddr_in \<Rightarrow> nat \<Rightarrow> int list \<Rightarrow> ScenarioResult \<Rightarrow> (bool \<times> ScenarioResult \<times> int list) os" where
  "open_flow env remote flow_index descriptors result = do {
     (descriptor, e) \<leftarrow> os_socket env;
     if descriptor < 0 then
       State_Monad.return (False, result\<lparr>sr_err := e,
         sr_detail := ''socket failed flow='' @ show_dec flow_index @ '': '' @ errno_text env e\<rparr>, descriptors)
     else do {
       let descriptors = descriptors[flow_index := descriptor];
       (r, e) \<leftarrow> os_connect env descriptor remote;
       if r \<noteq> 0 then
         State_Monad.return (False, result\<lparr>sr_err := e,
           sr_detail := ''connect failed flow='' @ show_dec flow_index @ '': '' @ errno_text env e\<rparr>, descriptors)
       else do {
         (visible, result) \<leftarrow> VerifyVisibleLocalEndpoint env descriptor flow_index result;
         if \<not> visible then State_Monad.return (False, result, descriptors)
         else do {
           (configured, result) \<leftarrow> ConfigureNonBlocking env descriptor flow_index result;
           State_Monad.return (configured, result, descriptors)
         }
       }
     }
   }"

fun open_flows ::
  "os_env \<Rightarrow> sockaddr_in \<Rightarrow> nat list \<Rightarrow> int list \<Rightarrow> ScenarioResult \<Rightarrow> (bool \<times> ScenarioResult \<times> int list) os" where
  "open_flows env remote [] descriptors result = State_Monad.return (True, result, descriptors)"
| "open_flows env remote (flow_index # flows) descriptors result = do {
     (opened, result, descriptors) \<leftarrow> open_flow env remote flow_index descriptors result;
     if opened then open_flows env remote flows descriptors result
     else State_Monad.return (False, result, descriptors)
   }"

definition post_route_check ::
  "os_env \<Rightarrow> BsdSystemUdpWorkloadConfig \<Rightarrow> int \<Rightarrow> ScenarioResult \<Rightarrow> (bool \<times> ScenarioResult) os" where
  "post_route_check env bsd_config descriptor result =
     (if \<not> verify_post_route_rejection bsd_config then State_Monad.return (True, result)
      else do {
        (rejected, result) \<leftarrow> VerifyPostRouteRejection env descriptor result;
        (if rejected then os_log ''bsd_system_udp verified post-route setsockopt rejection'' else State_Monad.return ());
        State_Monad.return (rejected, result)
      })"

definition run_outcome ::
  "os_env \<Rightarrow> tunnel_limits \<Rightarrow> TunnelUdpWorkloadConfig \<Rightarrow> BsdSystemUdpWorkloadConfig \<Rightarrow> sockaddr_in \<Rightarrow> int list
     \<Rightarrow> ScenarioResult \<Rightarrow> ScenarioResult os" where
  "run_outcome env lim config bsd_config remote descriptors result =
     (let w = new_workload (unat (MaximumUdpPayloadStorageBytes lim)) result
      in case expected_outcome bsd_config of
           NoReplyTimeout \<Rightarrow> do {
             w \<leftarrow> no_reply_outcome env config (descriptors ! 0) w;
             log_metrics env config w;
             CloseDescriptors env descriptors;
             State_Monad.return (uw_result w)
           }
         | TerminalClosure \<Rightarrow> do {
             (w, descriptor) \<leftarrow> terminal_outcome env config remote (descriptors ! 0) w;
             log_metrics env config w;
             CloseDescriptors env (descriptors[0 := descriptor]);
             State_Monad.return (uw_result w)
           }
         | EchoReply \<Rightarrow> do {
             w \<leftarrow> echo_loop env config remote descriptors [0..<unat (tw_datagram_count config)] w;
             CloseDescriptors env descriptors;
             log_metrics env config w;
             State_Monad.return (echo_verdict env config bsd_config w)
           })"

text \<open>Between the initialisation of the socket service and the end of its scope.\<close>

definition run_flows ::
  "os_env \<Rightarrow> tunnel_limits \<Rightarrow> TunnelUdpWorkloadConfig \<Rightarrow> BsdSystemUdpWorkloadConfig \<Rightarrow> sockaddr_in
     \<Rightarrow> ScenarioResult \<Rightarrow> ScenarioResult os" where
  "run_flows env lim config bsd_config remote result = do {
     (opened, result, descriptors) \<leftarrow> open_flows env remote [0..<unat (tw_concurrent_flows config)]
       (replicate (unat (MaximumFlowsPerClient lim)) (- 1)) result;
     if \<not> opened then do { CloseDescriptors env descriptors; State_Monad.return result }
     else do {
       (checked, result) \<leftarrow> post_route_check env bsd_config (descriptors ! 0) result;
       if \<not> checked then do { CloseDescriptors env descriptors; State_Monad.return result }
       else do {
         os_log (''bsd_system_udp opened flows='' @ to_string (tw_concurrent_flows config) @ '' destination='' @ FormatEndpoint remote);
         run_outcome env lim config bsd_config remote descriptors result
       }
     }
   }"

definition RunBsdSystemUdpWorkload ::
  "os_env \<Rightarrow> tunnel_limits \<Rightarrow> TunnelUdpWorkloadConfig \<Rightarrow> BsdSystemUdpWorkloadConfig \<Rightarrow> ScenarioResult os" where
  "RunBsdSystemUdpWorkload env lim config bsd_config = do {
     let result = new_result ''bsd_system_udp_workload'';
     os_log (''Running normal bsd:s UDP workload to '' @ tw_destination_ipv4 config @ '':'' @ to_string (tw_destination_port config));
     (case env_inet_pton env (tw_destination_ipv4 config) of
        None \<Rightarrow> State_Monad.return (result\<lparr>sr_detail := ''invalid configured BSD workload destination''\<rparr>)
      | Some address \<Rightarrow>
          if tw_concurrent_flows config = 0 \<or> MaximumFlowsPerClient lim < tw_concurrent_flows config then
            State_Monad.return (result\<lparr>sr_detail := ''configured BSD workload flow count is unsupported''\<rparr>)
          else do {
            initialize_rc \<leftarrow> os_initialize env;
            if failed initialize_rc then
              State_Monad.return (result\<lparr>sr_rc := initialize_rc, sr_detail := ''socketInitialize(bsd:s) failed''\<rparr>)
            else do {
              result \<leftarrow> run_flows env lim config bsd_config
                \<lparr>sin_family = c_AF_INET (codes env), sin_addr = address, sin_port = tw_destination_port config\<rparr> result;
              os_exit;
              State_Monad.return result
            }
          })
   }"

end
