(* ===== verification/BsdUdpProperties.thy ===== *)
theory BsdUdpProperties
  imports BsdUdp
begin

text \<open>
  What a run of the UDP workload guarantees: it gives back every descriptor and the socket
  service on every path, a send is tried at most seventeen times, and a successful run
  exchanged every datagram with the configured endpoint.
\<close>

subsection \<open>The computations between opening and closing are neutral\<close>

lemma neutral_send_turn [emit_rules]: "emits neutral (send_turn env descriptor payload deadline_ms result)"
  by (auto simp: send_turn_def await_writable_def Let_def intro!: emit_rules)

lemma neutral_send_loop: "emits neutral (send_loop env descriptor payload deadline_ms further result)"
proof (induction further arbitrary: result)
  case 0
  show ?case by (subst send_loop.simps) (auto intro!: emit_rules)
next
  case (Suc further)
  then show ?case by (subst send_loop.simps) (auto intro!: emit_rules)
qed

lemma neutral_ops [emit_rules]:
  "emits neutral (ConfigureNonBlocking env descriptor flow_index result)"
  "emits neutral (VerifyPostRouteRejection env descriptor result)"
  "emits neutral (VerifyVisibleLocalEndpoint env descriptor flow_index result)"
  "emits neutral (SendWithWritableRetry env descriptor payload deadline_ms)"
  "emits neutral (WaitForInput env descriptor deadline_ms)"
  "emits neutral (VerifyTerminalSend env descriptor payload result)"
  "emits neutral (record_accepted env config w)"
  "emits neutral (record_echoed env config tick w)"
  "emits neutral (log_metrics env config w)"
  by (auto simp: ConfigureNonBlocking_def VerifyPostRouteRejection_def VerifyVisibleLocalEndpoint_def
      SendWithWritableRetry_def WaitForInput_def VerifyTerminalSend_def record_accepted_def record_echoed_def
      log_metrics_def Let_def intro!: emit_rules neutral_send_loop)

lemma neutral_exchanges [emit_rules]:
  "emits neutral (ReceiveExpectedEcho env descriptor payload capacity remote deadline_ms seq result)"
  "emits neutral (attempt_send env descriptor config w)"
  by (auto simp: ReceiveExpectedEcho_def attempt_send_def intro!: emit_rules)

lemma neutral_outcomes [emit_rules]:
  "emits neutral (no_reply_outcome env config descriptor w)"
  "emits neutral (echo_received env config remote descriptor seq flow_index tick w)"
  "emits neutral (post_route_check env bsd_config descriptor result)"
  by (auto simp: no_reply_outcome_def echo_received_def post_route_check_def Let_def intro!: emit_rules)

lemma neutral_echo_turn [emit_rules]: "emits neutral (echo_turn env config remote descriptors seq w)"
  by (auto simp: echo_turn_def Let_def intro!: emit_rules)

lemma neutral_echo_loop [emit_rules]: "emits neutral (echo_loop env config remote descriptors seqs w)"
  by (induction seqs arbitrary: w) (auto intro!: emit_rules)

subsection \<open>Descriptors are owned\<close>

definition owned :: "int list \<Rightarrow> os_history \<Rightarrow> bool" where
  "owned descriptors h \<longleftrightarrow> open_descriptors h \<subseteq> set descriptors"

lemma open_nonnegative: "d \<in> open_descriptors h \<Longrightarrow> 0 \<le> d"
proof (induction h rule: rev_induct)
  case (snoc e h)
  then show ?case by (cases e) (auto split: if_splits)
qed simp

lemma CloseDescriptors_run:
  assumes "run_state (CloseDescriptors env descriptors) h = (ds, h')"
  shows "open_descriptors h' = open_descriptors h - {d \<in> set descriptors. 0 \<le> d}" "service_users h' = service_users h"
proof -
  have "open_descriptors h' = open_descriptors h - {d \<in> set descriptors. 0 \<le> d} \<and> service_users h' = service_users h"
    using assms
  proof (induction descriptors arbitrary: ds h h')
    case (Cons d descriptors)
    show ?case
    proof (cases "0 \<le> d")
      case True
      with Cons(2) obtain ds' r where
        "run_state (CloseDescriptors env descriptors) (h @ [Os_close d r]) = (ds', h')"
        by (auto simp: os_close_def call_def Let_def State_Monad.return_def split: prod.splits)
      from Cons(1) [OF this] True show ?thesis by auto
    next
      case False
      with Cons(2) obtain ds' where "run_state (CloseDescriptors env descriptors) h = (ds', h')"
        by (auto simp: State_Monad.return_def split: prod.splits)
      from Cons(1) [OF this] False show ?thesis by auto
    qed
  qed (simp add: State_Monad.return_def)
  then show "open_descriptors h' = open_descriptors h - {d \<in> set descriptors. 0 \<le> d}" "service_users h' = service_users h"
    by simp_all
qed

lemma CloseDescriptors_grows:
  assumes "run_state (CloseDescriptors env descriptors) h = (ds, h')" shows "set h \<subseteq> set h'"
proof -
  have "emits (\<lambda>_. True) (CloseDescriptors env descriptors)"
    by (induction descriptors) (auto intro!: emit_rules)
  from emits_grows [OF this assms] show ?thesis .
qed

lemma CloseDescriptors_owned:
  assumes "run_state (CloseDescriptors env descriptors) h = (ds, h')" "owned descriptors h"
  shows "open_descriptors h' = {} \<and> service_users h' = service_users h"
  using CloseDescriptors_run [OF assms(1)] assms(2) open_nonnegative by (auto simp: owned_def)

text \<open>A computation after which the descriptors \<open>f a\<close> own what is open.\<close>

lemma open_flow_owned:
  assumes "run_state (open_flow env remote i ds result) h = ((b, r, ds'), h')"
    and "owned ds h" "i < length ds" "ds ! i < 0"
  shows "owned ds' h' \<and> service_users h' = service_users h \<and> length ds' = length ds \<and> (\<forall>j. j \<noteq> i \<longrightarrow> ds' ! j = ds ! j)"
proof -
  obtain fd e where fd: "env_socket env h = (fd, e)" by (rule prod.exhaust)
  show ?thesis
  proof (cases "fd < 0")
    case True
    with assms fd show ?thesis
      by (auto simp: open_flow_def os_socket_def call_def State_Monad.return_def owned_def)
  next
    case False
    let ?rest = "do {
       (r, e) \<leftarrow> os_connect env fd remote;
       if r \<noteq> 0 then State_Monad.return (False, result\<lparr>sr_err := e,
           sr_detail := ''connect failed flow='' @ show_dec i @ '': '' @ errno_text env e\<rparr>, ds[i := fd])
       else do {
         (visible, result) \<leftarrow> VerifyVisibleLocalEndpoint env fd i result;
         if \<not> visible then State_Monad.return (False, result, ds[i := fd])
         else do {
           (configured, result) \<leftarrow> ConfigureNonBlocking env fd i result;
           State_Monad.return (configured, result, ds[i := fd])
         }
       }}"
    have run: "run_state ?rest (h @ [Os_socket fd]) = ((b, r, ds'), h')"
      using assms(1) fd False by (simp add: open_flow_def os_socket_def call_def Let_def)
    have "emits neutral ?rest" by (intro emit_rules) simp_all
    from neutral_run [OF this run]
    have acc: "open_descriptors h' = insert fd (open_descriptors h)" "service_users h' = service_users h"
      using False by simp_all
    have ds': "ds' = ds[i := fd]"
      using run by (auto simp: State_Monad.return_def split: prod.splits if_splits)
    have "set ds \<subseteq> insert (ds ! i) (set (ds[i := fd]))"
    proof
      fix d
      assume "d \<in> set ds"
      then obtain j where "j < length ds" "ds ! j = d" by (auto simp: in_set_conv_nth)
      then show "d \<in> insert (ds ! i) (set (ds[i := fd]))"
        by (cases "j = i") (auto simp: in_set_conv_nth intro!: exI [of _ j])
    qed
    moreover have "fd \<in> set (ds[i := fd])" using assms(3) by (simp add: set_update_memI)
    ultimately have "owned ds' h'" unfolding owned_def ds' acc(1)
      using assms(2,4) open_nonnegative unfolding owned_def by fastforce
    with acc(2) ds' show ?thesis by simp
  qed
qed

lemma open_flows_owned:
  assumes "run_state (open_flows env remote flows ds result) h = ((b, r, ds'), h')"
    and "owned ds h" "distinct flows" "\<forall>i \<in> set flows. i < length ds \<and> ds ! i < 0"
  shows "owned ds' h' \<and> service_users h' = service_users h \<and> length ds' = length ds"
  using assms
proof (induction flows arbitrary: ds result h)
  case Nil
  then show ?case by (simp add: State_Monad.return_def)
next
  case (Cons i flows)
  obtain b1 r1 ds1 h1 where one: "run_state (open_flow env remote i ds result) h = ((b1, r1, ds1), h1)"
    by (metis prod_cases3 prod.exhaust)
  have first: "owned ds1 h1 \<and> service_users h1 = service_users h \<and> length ds1 = length ds
      \<and> (\<forall>j. j \<noteq> i \<longrightarrow> ds1 ! j = ds ! j)"
    by (rule open_flow_owned [OF one]) (use Cons.prems in auto)
  show ?case
  proof (cases b1)
    case True
    with Cons.prems(1) one have "run_state (open_flows env remote flows ds1 r1) h1 = ((b, r, ds'), h')" by simp
    from Cons.IH [OF this] first Cons.prems(3,4) show ?thesis by fastforce
  next
    case False
    with Cons.prems(1) one first show ?thesis by (simp add: State_Monad.return_def)
  qed
qed

lemma terminal_closed_owned:
  assumes "run_state (terminal_closed env config (ds ! 0) w) h = ((w', d), h')" "owned ds h"
  shows "owned (ds[0 := d]) h' \<and> service_users h' = service_users h"
proof -
  note states = neutral_run [OF neutral_ops(5)] neutral_run [OF neutral_ops(6)]
  have kept: "x \<in> set (ds[0 := - 1])" if "open_descriptors h \<subseteq> set ds" "x \<in> open_descriptors h" "x \<noteq> ds ! 0" for x
    using that by (cases ds) auto
  show ?thesis
    using assms
    by (auto simp: terminal_closed_def State_Monad.return_def owned_def Let_def dest!: states close_call intro: kept
        split: prod.splits if_splits)
qed

lemma terminal_outcome_owned:
  assumes "run_state (terminal_outcome env config remote (ds ! 0) w) h = ((w', d), h')" "owned ds h"
  shows "owned (ds[0 := d]) h' \<and> service_users h' = service_users h"
proof -
  have "emits neutral (os_tick env)" "emits neutral (os_log line)" for line by (auto intro!: emit_rules)
  note states = this [THEN neutral_run] neutral_exchanges [THEN neutral_run] neutral_ops(7,8) [THEN neutral_run]
  show ?thesis
    using assms
    by (auto simp: terminal_outcome_def State_Monad.return_def owned_def Let_def
        dest!: states terminal_closed_owned split: prod.splits if_splits)
qed

lemma run_outcome_releases:
  assumes "run_state (run_outcome env lim config bsd_config remote ds result) h = (r, h')" "owned ds h"
  shows "open_descriptors h' = {} \<and> service_users h' = service_users h"
proof -
  note states = neutral_echo_loop [THEN neutral_run] neutral_outcomes(1) [THEN neutral_run] neutral_ops(9) [THEN neutral_run]
  show ?thesis
  proof (cases "expected_outcome bsd_config")
    case EchoReply
    with assms show ?thesis
      by (auto simp: run_outcome_def State_Monad.return_def Let_def owned_def dest!: states CloseDescriptors_owned
          split: prod.splits)
  next
    case NoReplyTimeout
    with assms show ?thesis
      by (auto simp: run_outcome_def State_Monad.return_def Let_def owned_def dest!: states CloseDescriptors_owned
          split: prod.splits)
  next
    case TerminalClosure
    with assms show ?thesis
      by (auto simp: run_outcome_def State_Monad.return_def Let_def dest!: neutral_ops(9) [THEN neutral_run]
          terminal_outcome_owned CloseDescriptors_owned split: prod.splits) (auto simp: owned_def)
  qed
qed

lemma run_flows_releases:
  assumes "run_state (run_flows env lim config bsd_config remote result) h = (r, h')" "open_descriptors h = {}"
    and "tw_concurrent_flows config \<le> MaximumFlowsPerClient lim"
  shows "open_descriptors h' = {} \<and> service_users h' = service_users h"
proof -
  let ?ds = "replicate (unat (MaximumFlowsPerClient lim)) (- 1) :: int list"
  obtain b r1 ds1 h1 where opened:
    "run_state (open_flows env remote [0..<unat (tw_concurrent_flows config)] ?ds result) h = ((b, r1, ds1), h1)"
    by (metis prod_cases3 prod.exhaust)
  have "unat (tw_concurrent_flows config) \<le> unat (MaximumFlowsPerClient lim)"
    using assms(3) by (simp add: word_le_nat_alt)
  then have o: "owned ds1 h1" "service_users h1 = service_users h"
    using open_flows_owned [OF opened] assms(2) by (auto simp: owned_def)
  have "emits neutral (os_log line)" for line by (auto intro!: emit_rules)
  note states = this [THEN neutral_run] neutral_outcomes(3) [THEN neutral_run]
  show ?thesis
    using assms(1) opened o
    by (auto simp: run_flows_def State_Monad.return_def Let_def owned_def
        dest!: states CloseDescriptors_owned run_outcome_releases split: prod.splits if_splits)
qed

text \<open>
  C4. Whatever the platform answers, a run that starts with no descriptor open leaves none
  open, and exits the socket service exactly as often as it initialised it: every error path
  releases what was acquired before it.
\<close>

theorem udp_run_releases_everything:
  assumes "run_state (RunBsdSystemUdpWorkload env lim config bsd_config) h = (r, h')" "open_descriptors h = {}"
  shows "open_descriptors h' = {} \<and> service_users h' = service_users h"
proof -
  have flows: "tw_concurrent_flows config \<le> MaximumFlowsPerClient lim"
    if "\<not> MaximumFlowsPerClient lim < tw_concurrent_flows config" using that by simp
  show ?thesis
    using assms
    by (auto simp: RunBsdSystemUdpWorkload_def State_Monad.return_def Let_def failed_def
        dest!: log_call initialize_call exit_call run_flows_releases [OF _ _ flows]
        split: prod.splits if_splits option.splits)
qed

subsection \<open>The sends of one datagram\<close>

definition sends :: "os_history \<Rightarrow> nat" where
  "sends h = length (filter (\<lambda>e. case e of Os_send fd bytes r \<Rightarrow> True | _ \<Rightarrow> False) h)"

lemma sends_append [simp]: "sends (h @ k) = sends h + sends k"
  by (simp add: sends_def)

lemma send_turn_run:
  assumes "run_state (send_turn env fd payload deadline_ms result) h = (x, h')"
  shows "case x of
      Inl r \<Rightarrow> sends h' = Suc (sends h)
        \<and> (bs_queue_full_retries r = bs_queue_full_retries result
           \<or> bs_queue_full_retries result \<noteq> MaximumQueueFullRetriesPerDatagram
             \<and> bs_queue_full_retries r = bs_queue_full_retries result + 1)
        \<and> (\<exists>es. h' = h @ es \<and> (bs_sent r \<longleftrightarrow> bs_sent result \<or> Os_send fd payload (int (length payload)) \<in> set es))
        \<and> (\<not> bs_sent r \<longrightarrow> bs_detail r \<noteq> [])
    | Inr r \<Rightarrow> sends h' = Suc (sends h) \<and> (\<exists>es. h' = h @ es \<and> Os_send fd payload (int (length payload)) \<notin> set es) \<and> bs_queue_full_retries result \<noteq> MaximumQueueFullRetriesPerDatagram
        \<and> bs_queue_full_retries r = bs_queue_full_retries result + 1 \<and> bs_sent r = bs_sent result"
proof -
  have whole: "int n = k" if "nat k = n" "0 \<le> k" for k n using that by auto
  show ?thesis
    using assms
    by (auto simp: send_turn_def await_writable_def os_send_def os_poll_def call_def State_Monad.return_def Let_def sends_def
        dest: whole split: prod.splits if_splits)
qed

lemma send_loop_run:
  assumes "run_state (send_loop env fd payload deadline_ms further result) h = (x, h')"
    and "unat (bs_queue_full_retries result) + further = 16" "\<not> bs_sent result"
  shows "\<exists>r es. x = Some r \<and> h' = h @ es \<and> sends h' \<le> sends h + further + 1 \<and> unat (bs_queue_full_retries r) \<le> 16
    \<and> (bs_sent r \<longleftrightarrow> Os_send fd payload (int (length payload)) \<in> set es) \<and> (\<not> bs_sent r \<longrightarrow> bs_detail r \<noteq> [])"
  using assms
proof (induction further arbitrary: result h)
  have sixteen: "MaximumQueueFullRetriesPerDatagram = (16 :: u32)" by (simp add: MaximumQueueFullRetriesPerDatagram_def)
  have next_retry: "unat (w + 1) = unat w + 1" if "unat w < 16" for w :: u32
    using that unat_add_lem [of w 1] by (simp add: unat_word_ariths)
  {
    case 0
    then have full: "bs_queue_full_retries result = 16" by (simp add: word_unat_eq_iff)
    obtain y h1 where turn: "run_state (send_turn env fd payload deadline_ms result) h = (y, h1)" by (rule prod.exhaust)
    from send_turn_run [OF turn] full obtain r where y: "y = Inl r" by (cases y) (auto simp: sixteen)
    with 0 turn have "x = Some r" "h' = h1" by (auto simp: send_loop.simps State_Monad.return_def)
    with send_turn_run [OF turn] y 0(3) full show ?case by (auto simp: sixteen)
  next
    case (Suc further)
    then have room: "unat (bs_queue_full_retries result) < 16" by simp
    obtain y h1 where turn: "run_state (send_turn env fd payload deadline_ms result) h = (y, h1)" by (rule prod.exhaust)
    show ?case
    proof (cases y)
      case (Inl r)
      with Suc.prems(1) turn have "x = Some r" "h' = h1" by (auto simp: send_loop.simps State_Monad.return_def)
      with send_turn_run [OF turn] Inl Suc.prems(2,3) show ?thesis
        by (auto simp: sixteen next_retry [OF room])
    next
      case (Inr r)
      with Suc.prems(1) turn have "run_state (send_loop env fd payload deadline_ms further r) h1 = (x, h')"
        by (subst (asm) send_loop.simps) simp
      moreover have "unat (bs_queue_full_retries r) + further = 16" "\<not> bs_sent r" "sends h1 = Suc (sends h)"
        using send_turn_run [OF turn] Inr Suc.prems(2,3) by (auto simp: sixteen next_retry [OF room])
      ultimately have turn2: "sends h1 = Suc (sends h)" and more: "\<exists>r es. x = Some r \<and> h' = h1 @ es \<and> sends h' \<le> sends h1 + further + 1
          \<and> unat (bs_queue_full_retries r) \<le> 16 \<and> (bs_sent r \<longleftrightarrow> Os_send fd payload (int (length payload)) \<in> set es)
          \<and> (\<not> bs_sent r \<longrightarrow> bs_detail r \<noteq> [])"
        using Suc.IH by blast+
      then obtain r' es where r': "x = Some r'" "h' = h1 @ es" "sends h' \<le> sends h1 + further + 1"
        "unat (bs_queue_full_retries r') \<le> 16" "bs_sent r' \<longleftrightarrow> Os_send fd payload (int (length payload)) \<in> set es"
        "\<not> bs_sent r' \<longrightarrow> bs_detail r' \<noteq> []" by blast
      moreover obtain es1 where "h1 = h @ es1" "Os_send fd payload (int (length payload)) \<notin> set es1"
        using send_turn_run [OF turn] Inr by auto
      ultimately show ?thesis using turn2 by (intro exI [of _ r'] exI [of _ "es1 @ es"]) auto
    qed
  }
qed

lemma send_loop_whole:
  assumes "run_state (SendWithWritableRetry env fd payload deadline_ms) h = (r, h')"
  shows "\<exists>es. h' = h @ es \<and> sends h' \<le> sends h + 17 \<and> unat (bs_queue_full_retries r) \<le> 16
    \<and> (bs_sent r \<longleftrightarrow> Os_send fd payload (int (length payload)) \<in> set es) \<and> (\<not> bs_sent r \<longrightarrow> bs_detail r \<noteq> [])"
proof -
  obtain x where "run_state (send_loop env fd payload deadline_ms 16 new_send_result) h = (x, h')"
    "r = (case x of Some r \<Rightarrow> r | None \<Rightarrow> new_send_result)"
    using assms by (auto simp: SendWithWritableRetry_def MaximumQueueFullRetriesPerDatagram_def State_Monad.return_def
        split: prod.splits)
  with send_loop_run [of env fd payload deadline_ms 16 new_send_result h x h'] show ?thesis
    by (auto simp: new_send_result_def)
qed

text \<open>
  C20. One datagram is handed to the socket at most seventeen times, and the result tells what
  happened: it is reported sent exactly when the socket took the whole payload in one of these
  calls, and a result that is not sent carries a reason.
\<close>

theorem send_attempts_bounded:
  assumes "run_state (SendWithWritableRetry env fd payload deadline_ms) h = (r, h')"
  shows "\<exists>es. h' = h @ es \<and> sends es \<le> 17 \<and> unat (bs_queue_full_retries r) \<le> 16
    \<and> (bs_sent r \<longleftrightarrow> Os_send fd payload (int (length payload)) \<in> set es) \<and> (\<not> bs_sent r \<longrightarrow> bs_detail r \<noteq> [])"
  using send_loop_whole [OF assms] by auto

subsection \<open>A successful run exchanged every datagram\<close>

definition datagram :: "TunnelUdpWorkloadConfig \<Rightarrow> nat \<Rightarrow> u8 list" where
  "datagram config seq = BuildPayload BsdPayloadMagic (unat (tw_payload_bytes config)) (of_nat seq)
     (of_nat (seq mod unat (tw_concurrent_flows config))) config []"

definition exchanged :: "sockaddr_in \<Rightarrow> TunnelUdpWorkloadConfig \<Rightarrow> os_history \<Rightarrow> nat \<Rightarrow> bool" where
  "exchanged remote config h seq \<longleftrightarrow> (\<exists>fd capacity n source.
     Os_send fd (datagram config seq) (int (length (datagram config seq))) \<in> set h
     \<and> Os_recv fd capacity (Recv_bytes (datagram config seq) n source) \<in> set h
     \<and> sin_addr source = sin_addr remote \<and> sin_port source = sin_port remote)"

text \<open>The socket took the whole datagram, whether or not an echo is asked for.\<close>

definition taken :: "TunnelUdpWorkloadConfig \<Rightarrow> os_history \<Rightarrow> nat \<Rightarrow> bool" where
  "taken config h seq \<longleftrightarrow> (\<exists>fd. Os_send fd (datagram config seq) (int (length (datagram config seq))) \<in> set h)"

lemma taken_mono: "taken config h seq \<Longrightarrow> set h \<subseteq> set h' \<Longrightarrow> taken config h' seq"
  unfolding taken_def by blast

lemma exchanged_mono: "exchanged remote config h seq \<Longrightarrow> set h \<subseteq> set h' \<Longrightarrow> exchanged remote config h' seq"
  unfolding exchanged_def by blast

lemma attempt_send_run:
  assumes "run_state (attempt_send env fd config w) h = ((send_result, w'), h')"
  shows "set h \<subseteq> set h' \<and> uw_storage w' = uw_storage w \<and> uw_result w' = uw_result w \<and> uw_echoed w' = uw_echoed w
    \<and> (if bs_sent send_result then Os_send fd (payload_of config w) (int (length (payload_of config w))) \<in> set h'
       else bs_detail send_result \<noteq> [])"
proof -
  obtain r k where s: "run_state (SendWithWritableRetry env fd (payload_of config w) (tw_receive_deadline_ms config)) h = (r, k)"
    by (rule prod.exhaust)
  with assms send_loop_whole [OF s] show ?thesis by (auto simp: attempt_send_def State_Monad.return_def)
qed

lemma ReceiveExpectedEcho_run:
  assumes "run_state (ReceiveExpectedEcho env fd payload capacity remote deadline_ms seq result) h = ((received, result'), h')"
  shows "set h \<subseteq> set h' \<and> sr_bytes_sent result' = sr_bytes_sent result
    \<and> (if received then sr_detail result' = sr_detail result
         \<and> sr_bytes_received result' = sr_bytes_received result + length payload
         \<and> (\<exists>n source. Os_recv fd capacity (Recv_bytes payload n source) \<in> set h'
              \<and> sin_addr source = sin_addr remote \<and> sin_port source = sin_port remote)
       else sr_detail result' \<noteq> [])"
  using assms
  by (auto simp: ReceiveExpectedEcho_def WaitForInput_def os_poll_def os_recv_def call_def State_Monad.return_def Let_def
      poll_failure_def split: prod.splits if_splits recv_answer.splits) blast+

lemma payload_of_datagram:
  assumes "7 \<le> unat (tw_payload_bytes config)"
  shows "payload_of config (set_payload config (of_nat seq) (of_nat (seq mod unat (tw_concurrent_flows config))) w)
    = datagram config seq"
  using assms by (simp add: payload_of_def set_payload_def datagram_def payload_fresh BsdPayloadMagic_def)

lemma record_accepted_run:
  "run_state (record_accepted env config w) h = (w', h') \<Longrightarrow>
     set h \<subseteq> set h' \<and> uw_storage w' = uw_storage w \<and> uw_echoed w' = uw_echoed w
     \<and> sr_detail (uw_result w') = sr_detail (uw_result w) \<and> sr_bytes_received (uw_result w') = sr_bytes_received (uw_result w)
     \<and> sr_bytes_sent (uw_result w') = sr_bytes_sent (uw_result w) + unat (tw_payload_bytes config)"
  by (auto simp: record_accepted_def os_tick_def call_def State_Monad.return_def Let_def)

lemma record_echoed_run:
  "run_state (record_echoed env config tick w) h = (w', h') \<Longrightarrow>
     set h \<subseteq> set h' \<and> uw_storage w' = uw_storage w \<and> uw_result w' = uw_result w \<and> uw_echoed w' = uw_echoed w + 1"
  by (auto simp: record_echoed_def os_tick_def call_def State_Monad.return_def Let_def)

text \<open>What a turn that went on did; a turn that stops the loop leaves a reason.\<close>

lemma echo_received_run:
  assumes "run_state (echo_received env config remote fd seq flow_index tick w) h = ((continues, w'), h')"
  shows "set h \<subseteq> set h' \<and> uw_storage w' = uw_storage w
    \<and> (if continues then sr_detail (uw_result w') = sr_detail (uw_result w)
         \<and> sr_bytes_received (uw_result w') = sr_bytes_received (uw_result w)
             + (if tw_echo_replies config then length (payload_of config w) else 0)
         \<and> sr_bytes_sent (uw_result w') = sr_bytes_sent (uw_result w)
         \<and> (tw_echo_replies config \<longrightarrow> (\<exists>capacity n source. Os_recv fd capacity (Recv_bytes (payload_of config w) n source) \<in> set h'
              \<and> sin_addr source = sin_addr remote \<and> sin_port source = sin_port remote))
       else sr_detail (uw_result w') \<noteq> [])"
proof (cases "tw_echo_replies config")
  case False
  with assms show ?thesis by (auto simp: echo_received_def State_Monad.return_def)
next
  case replies: True
  obtain received result h1 where r: "run_state (ReceiveExpectedEcho env fd (payload_of config w) (length (uw_storage w)) remote
      (tw_receive_deadline_ms config) (of_nat seq) (uw_result w)) h = ((received, result), h1)"
    by (metis prod.exhaust)
  note echo = ReceiveExpectedEcho_run [OF r]
  show ?thesis
  proof (cases received)
    case False
    with assms replies r echo show ?thesis by (auto simp: echo_received_def State_Monad.return_def Let_def)
  next
    case True
    obtain w2 h2 where e: "run_state (record_echoed env config tick (w\<lparr>uw_result := result\<rparr>)) h1 = (w2, h2)" by (rule prod.exhaust)
    have "w' = w2" "continues" "set h2 \<subseteq> set h'"
      using assms replies r e True
      by (auto simp: echo_received_def State_Monad.return_def Let_def os_log_packet_def os_log_def call_def split: if_splits)
    with record_echoed_run [OF e] echo True replies show ?thesis by auto blast
  qed
qed

lemma echo_turn_run:
  assumes "run_state (echo_turn env config remote descriptors seq w) h = ((continues, w'), h')"
    and "7 \<le> unat (tw_payload_bytes config)"
  shows "set h \<subseteq> set h' \<and> (if continues then taken config h' seq \<and> (tw_echo_replies config \<longrightarrow> exchanged remote config h' seq)
        \<and> sr_detail (uw_result w') = sr_detail (uw_result w)
        \<and> sr_bytes_sent (uw_result w') = sr_bytes_sent (uw_result w) + unat (tw_payload_bytes config)
        \<and> sr_bytes_received (uw_result w') = sr_bytes_received (uw_result w)
            + (if tw_echo_replies config then length (datagram config seq) else 0)
      else sr_detail (uw_result w') \<noteq> [])"
proof -
  let ?flow = "seq mod unat (tw_concurrent_flows config)" and ?fd = "descriptors ! (seq mod unat (tw_concurrent_flows config))"
  let ?w = "set_payload config (of_nat seq) (of_nat ?flow) w"
  note payload = payload_of_datagram [OF assms(2), of seq w]
  obtain tick h0 where t: "run_state (os_tick env) h = (tick, h0)" by (rule prod.exhaust)
  then have h0: "set h \<subseteq> set h0" by (auto simp: os_tick_def call_def Let_def)
  obtain sr w1 h1 where s: "run_state (attempt_send env ?fd config ?w) h0 = ((sr, w1), h1)" by (metis prod.exhaust)
  note send = attempt_send_run [OF s, unfolded payload]
  let ?w1 = "w1\<lparr>uw_recovery := uw_recovery w1 \<or> bs_writable_after_queue_full sr\<rparr>"
  show ?thesis
  proof (cases "bs_sent sr")
    case False
    with assms(1) t s have "continues = False" "h' = h1" "sr_detail (uw_result w') \<noteq> []"
      by (auto simp: echo_turn_def Let_def State_Monad.return_def fail_with_def)
    with send h0 show ?thesis by auto
  next
    case True
    obtain w2 h2 where a: "run_state (record_accepted env config ?w1) h1 = (w2, h2)" by (rule prod.exhaust)
    obtain c w3 h3 where e: "run_state (echo_received env config remote ?fd seq ?flow tick w2) h2 = ((c, w3), h3)"
      by (metis prod.exhaust)
    have last: "continues = c" "w' = w3" "set h3 \<subseteq> set h'"
      using assms(1) t s True a e
      by (auto simp: echo_turn_def Let_def State_Monad.return_def os_sleep_def call_def split: if_splits)
    have w2: "payload_of config w2 = datagram config seq"
      using record_accepted_run [OF a] send payload by (simp add: payload_of_def)
    note facts = echo_received_run [OF e, unfolded w2] record_accepted_run [OF a] send
    have grows: "set h1 \<subseteq> set h'" "set h \<subseteq> set h'" using facts last(3) h0 by blast+
    show ?thesis
    proof (cases c)
      case False
      with facts last(1,2) grows show ?thesis by simp
    next
      case True
      have sent: "Os_send ?fd (datagram config seq) (int (length (datagram config seq))) \<in> set h'"
        using send \<open>bs_sent sr\<close> grows(1) by auto
      then have "taken config h' seq" unfolding taken_def by blast
      moreover have "exchanged remote config h' seq" if "tw_echo_replies config"
        using facts True that sent last(3) unfolding exchanged_def by auto blast
      ultimately show ?thesis using facts last(1,2) True grows(2) by (simp add: set_payload_def)
    qed
  qed
qed

lemma length_datagram: "24 \<le> unat (tw_payload_bytes config) \<Longrightarrow> length (datagram config seq) = unat (tw_payload_bytes config)"
  by (simp add: datagram_def BuildPayload_def Let_def copy_at_def BsdPayloadMagic_def)

lemma echo_loop_run:
  assumes "run_state (echo_loop env config remote descriptors seqs w) h = (w', h')"
    and "24 \<le> unat (tw_payload_bytes config)" "sr_detail (uw_result w') = []"
  shows "set h \<subseteq> set h' \<and> (\<forall>seq \<in> set seqs. taken config h' seq \<and> (tw_echo_replies config \<longrightarrow> exchanged remote config h' seq))
    \<and> sr_bytes_sent (uw_result w') = sr_bytes_sent (uw_result w) + length seqs * unat (tw_payload_bytes config)
    \<and> sr_bytes_received (uw_result w') = sr_bytes_received (uw_result w)
        + (if tw_echo_replies config then length seqs * unat (tw_payload_bytes config) else 0)"
  using assms(1)
proof (induction seqs arbitrary: w h)
  case Nil
  then show ?case by (simp add: State_Monad.return_def)
next
  case (Cons seq seqs)
  obtain c w1 h1 where turn: "run_state (echo_turn env config remote descriptors seq w) h = ((c, w1), h1)"
    by (metis prod.exhaust)
  have one: "set h \<subseteq> set h1 \<and> (if c then taken config h1 seq \<and> (tw_echo_replies config \<longrightarrow> exchanged remote config h1 seq)
        \<and> sr_detail (uw_result w1) = sr_detail (uw_result w)
        \<and> sr_bytes_sent (uw_result w1) = sr_bytes_sent (uw_result w) + unat (tw_payload_bytes config)
        \<and> sr_bytes_received (uw_result w1) = sr_bytes_received (uw_result w)
            + (if tw_echo_replies config then unat (tw_payload_bytes config) else 0)
      else sr_detail (uw_result w1) \<noteq> [])"
    using echo_turn_run [OF turn] assms(2) length_datagram by auto
  show ?case
  proof (cases c)
    case True
    with Cons.prems turn have "run_state (echo_loop env config remote descriptors seqs w1) h1 = (w', h')" by simp
    from Cons.IH [OF this] one True show ?thesis by (auto simp: algebra_simps intro: exchanged_mono taken_mono)
  next
    case False
    with Cons.prems turn have "w' = w1" by (simp add: State_Monad.return_def)
    with one False assms(3) show ?thesis by simp
  qed
qed

lemma echo_verdict_success:
  assumes "sr_success (echo_verdict env config bsd_config w)" "\<not> sr_success (uw_result w)"
  shows "sr_detail (uw_result w) = [] \<and> (\<not> tw_echo_replies config \<or> uw_echoed w = tw_datagram_count config)
    \<and> sr_bytes_sent (echo_verdict env config bsd_config w) = sr_bytes_sent (uw_result w)
    \<and> sr_bytes_received (echo_verdict env config bsd_config w) = sr_bytes_received (uw_result w)"
  using assms by (auto simp: echo_verdict_def Let_def split: if_splits)

text \<open>The result of a run that is not finished has no success in it.\<close>

lemma opening_fails_unsuccessful:
  "run_state (open_flow env remote i ds result) h = ((b, r, ds'), h') \<Longrightarrow> \<not> sr_success result \<Longrightarrow>
     \<not> sr_success r \<and> (b \<longrightarrow> r = result) \<and> set h \<subseteq> set h'"
  by (auto simp: open_flow_def VerifyVisibleLocalEndpoint_def ConfigureNonBlocking_def os_socket_def os_connect_def
      os_getsockname_def os_log_def os_get_flags_def os_set_flags_def call_def State_Monad.return_def Let_def
      split: prod.splits if_splits)

lemma open_flows_unsuccessful:
  "run_state (open_flows env remote flows ds result) h = ((b, r, ds'), h') \<Longrightarrow> \<not> sr_success result \<Longrightarrow>
     \<not> sr_success r \<and> (b \<longrightarrow> r = result)"
proof (induction flows arbitrary: ds result h)
  case (Cons i flows)
  obtain b1 r1 ds1 h1 where one: "run_state (open_flow env remote i ds result) h = ((b1, r1, ds1), h1)"
    by (metis prod_cases3 prod.exhaust)
  from opening_fails_unsuccessful [OF this Cons.prems(2)] Cons.IH [of ds1 r1 h1] Cons.prems one show ?case
    by (cases b1) (auto simp: State_Monad.return_def)
qed (simp add: State_Monad.return_def)

lemma loop_keeps_success:
  "run_state (ReceiveExpectedEcho env fd payload capacity remote deadline_ms n result) h = ((received, result'), h') \<Longrightarrow>
     sr_success result' = sr_success result"
  "run_state (record_accepted env config w) h = (w', h') \<Longrightarrow> sr_success (uw_result w') = sr_success (uw_result w)"
  "run_state (echo_received env config remote fd seq flow_index tick w) h = ((continues, w'), h') \<Longrightarrow>
     sr_success (uw_result w') = sr_success (uw_result w)"
proof -
  show receive: "sr_success result' = sr_success result"
    if "run_state (ReceiveExpectedEcho env fd payload capacity remote deadline_ms n result) h = ((received, result'), h')"
    for env fd payload capacity remote deadline_ms n result h received result' h'
    using that by (auto simp: ReceiveExpectedEcho_def State_Monad.return_def Let_def poll_failure_def
        split: prod.splits if_splits recv_answer.splits)
  show "sr_success (uw_result w') = sr_success (uw_result w)" if "run_state (record_accepted env config w) h = (w', h')"
    using that by (auto simp: record_accepted_def State_Monad.return_def split: prod.splits)
  show "sr_success (uw_result w') = sr_success (uw_result w)"
    if "run_state (echo_received env config remote fd seq flow_index tick w) h = ((continues, w'), h')"
    using that by (auto simp: echo_received_def State_Monad.return_def Let_def dest!: receive record_echoed_run
        split: prod.splits if_splits)
qed

lemma echo_turn_success:
  "run_state (echo_turn env config remote descriptors seq w) h = ((continues, w'), h') \<Longrightarrow>
     sr_success (uw_result w') = sr_success (uw_result w)"
  by (auto simp: echo_turn_def State_Monad.return_def Let_def set_payload_def fail_with_def
      dest!: attempt_send_run loop_keeps_success(2,3) split: prod.splits if_splits)

lemma echo_loop_success:
  "run_state (echo_loop env config remote descriptors seqs w) h = (w', h') \<Longrightarrow>
     sr_success (uw_result w') = sr_success (uw_result w)"
proof (induction seqs arbitrary: w h)
  case (Cons seq seqs)
  then show ?case
    by (auto simp: State_Monad.return_def dest: echo_turn_success split: prod.splits if_splits)
qed (simp add: State_Monad.return_def)

text \<open>A successful run got to the outcome, from a fresh result.\<close>

lemma run_reaches_outcome:
  assumes "run_state (RunBsdSystemUdpWorkload env lim config bsd_config) h = (r, h')" "sr_success r"
  shows "\<exists>address ds k k'. env_inet_pton env (tw_destination_ipv4 config) = Some address
    \<and> run_state (run_outcome env lim config bsd_config \<lparr>sin_family = c_AF_INET (codes env), sin_addr = address,
        sin_port = tw_destination_port config\<rparr> ds (new_result ''bsd_system_udp_workload'')) k = (r, k')
    \<and> set k' \<subseteq> set h'"
proof -
  let ?remote = "\<lambda>address. \<lparr>sin_family = c_AF_INET (codes env), sin_addr = address, sin_port = tw_destination_port config\<rparr>"
  obtain address k k' where a: "env_inet_pton env (tw_destination_ipv4 config) = Some address"
    and flows: "run_state (run_flows env lim config bsd_config (?remote address) (new_result ''bsd_system_udp_workload'')) k = (r, k')"
    and grows: "set k' \<subseteq> set h'"
    using assms by (auto simp: RunBsdSystemUdpWorkload_def State_Monad.return_def Let_def dest!: exit_call
        split: prod.splits option.splits if_splits) blast
  obtain b r1 ds h1 where o: "run_state (open_flows env (?remote address) [0..<unat (tw_concurrent_flows config)]
      (replicate (unat (MaximumFlowsPerClient lim)) (- 1)) (new_result ''bsd_system_udp_workload'')) k = ((b, r1, ds), h1)"
    by (metis prod_cases3 prod.exhaust)
  have opened: "\<not> sr_success r1 \<and> (b \<longrightarrow> r1 = new_result ''bsd_system_udp_workload'')"
    using open_flows_unsuccessful [OF o] by simp
  with flows o assms(2) have b: "b" by (auto simp: run_flows_def State_Monad.return_def split: prod.splits if_splits)
  obtain c r2 h2 where p: "run_state (post_route_check env bsd_config (ds ! 0) (new_result ''bsd_system_udp_workload'')) h1
      = ((c, r2), h2)" by (metis prod.exhaust)
  then have "\<not> sr_success r2 \<and> (c \<longrightarrow> r2 = new_result ''bsd_system_udp_workload'')"
    by (auto simp: post_route_check_def VerifyPostRouteRejection_def State_Monad.return_def split: prod.splits if_splits)
  with flows o opened b p assms(2) a grows show ?thesis
    by (auto simp: run_flows_def State_Monad.return_def split: prod.splits if_splits)
qed

text \<open>
  C5. Success of the echo outcome, for payloads of a size that the configuration check accepts:
  every datagram of the workload was taken whole by a socket, and, when replies are asked for,
  every one of them came back, byte for byte, from the configured endpoint. The bytes sent are
  those of all the datagrams, and so are the bytes received when replies are asked for; without
  replies nothing is received.
\<close>

theorem udp_success_means_every_echo:
  assumes "run_state (RunBsdSystemUdpWorkload env lim config bsd_config) h = (r, h')" "sr_success r"
    and "expected_outcome bsd_config = EchoReply" "MinimumPayloadBytes \<le> tw_payload_bytes config"
  shows "\<exists>remote. env_inet_pton env (tw_destination_ipv4 config) = Some (sin_addr remote)
    \<and> sin_port remote = tw_destination_port config
    \<and> (\<forall>seq < unat (tw_datagram_count config). taken config h' seq \<and> (tw_echo_replies config \<longrightarrow> exchanged remote config h' seq))
    \<and> sr_bytes_sent r = unat (tw_datagram_count config) * unat (tw_payload_bytes config)
    \<and> sr_bytes_received r = (if tw_echo_replies config then unat (tw_datagram_count config) * unat (tw_payload_bytes config) else 0)"
proof -
  obtain address ds k k' where a: "env_inet_pton env (tw_destination_ipv4 config) = Some address"
    and o: "run_state (run_outcome env lim config bsd_config \<lparr>sin_family = c_AF_INET (codes env), sin_addr = address,
        sin_port = tw_destination_port config\<rparr> ds (new_result ''bsd_system_udp_workload'')) k = (r, k')"
    and grows: "set k' \<subseteq> set h'"
    using run_reaches_outcome [OF assms(1,2)] by blast
  let ?remote = "\<lparr>sin_family = c_AF_INET (codes env), sin_addr = address, sin_port = tw_destination_port config\<rparr>"
  let ?w = "new_workload (unat (MaximumUdpPayloadStorageBytes lim)) (new_result ''bsd_system_udp_workload'')"
  obtain w1 h1 where l: "run_state (echo_loop env config ?remote ds [0..<unat (tw_datagram_count config)] ?w) k = (w1, h1)"
    by (rule prod.exhaust)
  have r: "r = echo_verdict env config bsd_config w1" and h1: "set h1 \<subseteq> set k'"
    using o l assms(3)
    by (auto simp: run_outcome_def State_Monad.return_def Let_def log_metrics_def dest!: log_call
        dest: CloseDescriptors_grows [THEN subsetD] split: prod.splits)
  have "\<not> sr_success (uw_result w1)" using echo_loop_success [OF l] by (simp add: new_workload_def)
  note verdict = echo_verdict_success [OF assms(2) [unfolded r] this]
  have "24 \<le> unat (tw_payload_bytes config)" using assms(4) by (simp add: MinimumPayloadBytes_def word_le_nat_alt)
  note loop = echo_loop_run [OF l this]
  have "set h1 \<subseteq> set h'" using h1 grows by blast
  then have all: "taken config h' seq \<and> (tw_echo_replies config \<longrightarrow> exchanged ?remote config h' seq)"
    if "seq < unat (tw_datagram_count config)" for seq
    using loop verdict that exchanged_mono [of ?remote config h1 seq h'] taken_mono [of config h1 seq h'] by auto
  show ?thesis
    by (rule exI [of _ ?remote]) (use a verdict loop r all in \<open>auto simp: new_workload_def\<close>)
qed

subsection \<open>An echoing platform\<close>

text \<open>
  Every call succeeds; the socket is \<open>3\<close>, and a receive gives the bytes of the last send
  from the configured endpoint.
\<close>

fun last_sent :: "os_history \<Rightarrow> u8 list" where
  "last_sent [] = []"
| "last_sent (e # h) = (case e of Os_send fd bytes r \<Rightarrow> bytes | _ \<Rightarrow> last_sent h)"

definition example_codes :: os_codes where
  "example_codes = \<lparr>c_AF_INET = 2, c_EAGAIN = 11, c_EWOULDBLOCK = 11, c_EOPNOTSUPP = 95, c_ECONNABORTED = 113,
     c_ECONNRESET = 104, c_EPIPE = 32, c_ETIMEDOUT = 116, c_O_NONBLOCK = 2048, c_POLLIN = 1, c_POLLOUT = 4,
     c_POLLHUP = 16, c_POLLERR = 8, c_POLLNVAL = 32, c_sockaddr_size = 16\<rparr>"

definition example_endpoint :: "u8 list \<Rightarrow> u16 \<Rightarrow> sockaddr_in" where
  "example_endpoint address port = \<lparr>sin_family = 2, sin_addr = address, sin_port = port\<rparr>"

definition example_sockets :: os_env where
  "example_sockets = \<lparr>codes = example_codes, env_initialize = (\<lambda>_. 0), env_socket = (\<lambda>_. (3, 0)),
     env_connect = (\<lambda>_ _ _. (0, 0)), env_getsockname = (\<lambda>_ _. (0, 0, 16, example_endpoint [10, 0, 0, 2] 4000)),
     env_get_flags = (\<lambda>_ _. (0, 0)), env_set_flags = (\<lambda>_ _ _. (0, 0)), env_setsockopt = (\<lambda>_ _ _ _. (0, 0)),
     env_send = (\<lambda>_ _ bytes. (int (length bytes), 0)), env_poll = (\<lambda>_ _ events _. (1, 0, events)),
     env_recv = (\<lambda>h _ _. Recv_bytes (last_sent (rev h)) 16 (example_endpoint [10, 1, 0, 2] 29000)),
     env_close = (\<lambda>_ _. (0, 0)), env_tick = (\<lambda>h. of_nat (length h)), env_tick_frequency = 19200000,
     env_packet_log = False, env_inet_pton = (\<lambda>text. if text = ''10.1.0.2'' then Some [10, 1, 0, 2] else None),
     env_strerror = (\<lambda>_. ''error''), env_ms_text = (\<lambda>_. ''0.1'')\<rparr>"

definition example_bsd_config :: BsdSystemUdpWorkloadConfig where
  "example_bsd_config = \<lparr>verify_post_route_rejection = False, expected_outcome = EchoReply, require_writable_recovery = False\<rparr>"

definition example_udp_limits :: tunnel_limits where
  "example_udp_limits = \<lparr>MaximumUdpPayloadStorageBytes = 40, MaximumFlowsPerClient = 2\<rparr>"

lemma example_calls:
  "run_state (os_initialize example_sockets) h = (0, h @ [Os_initialize 0])"
  "run_state (os_socket example_sockets) h = ((3, 0), h @ [Os_socket 3])"
  "run_state (os_connect example_sockets fd remote) h = ((0, 0), h @ [Os_connect fd remote 0])"
  "run_state (os_getsockname example_sockets fd) h
     = ((0, 0, 16, example_endpoint [10, 0, 0, 2] 4000), h @ [Os_getsockname fd 0 16 (example_endpoint [10, 0, 0, 2] 4000)])"
  "run_state (os_get_flags example_sockets fd) h = ((0, 0), h @ [Os_get_flags fd 0])"
  "run_state (os_set_flags example_sockets fd flags) h = ((0, 0), h @ [Os_set_flags fd flags 0])"
  "run_state (os_send example_sockets fd bytes) h = ((int (length bytes), 0), h @ [Os_send fd bytes (int (length bytes))])"
  "run_state (os_poll example_sockets fd events timeout) h = ((1, 0, events), h @ [Os_poll fd events timeout 1 events])"
  "run_state (os_tick example_sockets) h = (of_nat (length h), h @ [Os_tick (of_nat (length h))])"
  "run_state (os_close example_sockets fd) h = ((0, 0), h @ [Os_close fd 0])"
  "run_state (os_recv example_sockets fd capacity) h =
     (Recv_bytes (take capacity (last_sent (rev h))) 16 (example_endpoint [10, 1, 0, 2] 29000),
      h @ [Os_recv fd capacity (Recv_bytes (take capacity (last_sent (rev h))) 16 (example_endpoint [10, 1, 0, 2] 29000))])"
  by (simp_all add: example_sockets_def os_initialize_def os_socket_def os_connect_def os_getsockname_def os_get_flags_def
      os_set_flags_def os_send_def os_poll_def os_tick_def os_close_def os_recv_def call_def Let_def)

lemma example_send:
  "run_state (SendWithWritableRetry example_sockets fd payload deadline_ms) h
     = (new_send_result\<lparr>bs_sent := True\<rparr>, h @ [Os_send fd payload (int (length payload))])"
  by (simp add: SendWithWritableRetry_def send_loop.simps send_turn_def example_calls State_Monad.return_def Let_def)

lemma example_codes_of [simp]:
  "codes example_sockets = example_codes" "\<not> env_packet_log example_sockets"
  "env_inet_pton example_sockets ''10.1.0.2'' = Some [10, 1, 0, 2]"
  by (simp_all add: example_sockets_def)

lemma example_echo_turn:
  "\<exists>w' h'. run_state (echo_turn example_sockets (example_workload\<lparr>tw_datagram_count := 1\<rparr>)
      (example_endpoint [10, 1, 0, 2] 29000) [3, - 1] 0
      (new_workload 40 (new_result ''bsd_system_udp_workload''))) h = ((True, w'), h')
    \<and> sr_detail (uw_result w') = [] \<and> uw_echoed w' = 1"
proof -
  let ?config = "example_workload\<lparr>tw_datagram_count := 1\<rparr>"
  let ?w = "new_workload 40 (new_result ''bsd_system_udp_workload'')"
  let ?p = "payload_of ?config (set_payload ?config 0 0 ?w)"
  have "length ?p = 26" "unat (tw_payload_bytes ?config) = 26"
    by (simp_all add: payload_of_def set_payload_def new_workload_def example_workload_def BuildPayload_def Let_def
        copy_at_def BsdPayloadMagic_def)
  then show ?thesis
    by (simp add: echo_turn_def attempt_send_def example_send record_accepted_def example_calls echo_received_def
        ReceiveExpectedEcho_def WaitForInput_def ClassifyBsdPollObservation_def example_codes_def record_echoed_def
        State_Monad.return_def Let_def example_endpoint_def set_payload_def new_workload_def payload_of_def
        example_workload_def new_send_result_def os_log_packet_def)
qed

lemma example_udp_run:
  "\<exists>r h'. run_state (RunBsdSystemUdpWorkload example_sockets example_udp_limits (example_workload\<lparr>tw_datagram_count := 1\<rparr>)
      example_bsd_config) [] = (r, h') \<and> sr_success r"
proof -
  let ?config = "example_workload\<lparr>tw_datagram_count := 1\<rparr>" and ?remote = "example_endpoint [10, 1, 0, 2] 29000"
  have two: "replicate 2 (- 1 :: int) = [- 1, - 1]" by (simp add: numeral_2_eq_2)
  have config: "tw_concurrent_flows ?config = 1" "tw_datagram_count ?config = 1" "tw_destination_ipv4 ?config = ''10.1.0.2''"
    "tw_destination_port ?config = 29000" "tw_echo_replies ?config"
    "unat (MaximumUdpPayloadStorageBytes example_udp_limits) = 40" "MaximumFlowsPerClient example_udp_limits = 2"
    "replicate (unat (MaximumFlowsPerClient example_udp_limits)) (- 1 :: int) = [- 1, - 1]"
    "expected_outcome example_bsd_config = EchoReply" "\<not> require_writable_recovery example_bsd_config"
    "\<not> verify_post_route_rejection example_bsd_config" "c_AF_INET example_codes = 2"
    by (simp_all add: example_workload_def example_udp_limits_def example_bsd_config_def example_codes_def two)
  have remote: "\<lparr>sin_family = 2, sin_addr = [10, 1, 0, 2], sin_port = 29000\<rparr> = ?remote" by (simp add: example_endpoint_def)
  have outcome: "\<exists>r h'. run_state (run_outcome example_sockets example_udp_limits ?config example_bsd_config ?remote [3, - 1]
      (new_result ''bsd_system_udp_workload'')) h = (r, h') \<and> sr_success r" for h
  proof -
    obtain w' h1 where turn: "run_state (echo_turn example_sockets ?config ?remote [3, - 1] 0
        (new_workload 40 (new_result ''bsd_system_udp_workload''))) h = ((True, w'), h1)" "sr_detail (uw_result w') = []"
        "uw_echoed w' = 1" using example_echo_turn by blast
    then show ?thesis
      by (simp add: run_outcome_def config Let_def echo_verdict_def log_metrics_def os_log_def call_def State_Monad.return_def
          split: prod.split)
  qed
  have "\<exists>r h'. run_state (run_flows example_sockets example_udp_limits ?config example_bsd_config ?remote
      (new_result ''bsd_system_udp_workload'')) h = (r, h') \<and> sr_success r" for h
    using outcome
    by (simp add: run_flows_def config two open_flow_def example_calls VerifyVisibleLocalEndpoint_def ConfigureNonBlocking_def
        post_route_check_def State_Monad.return_def Let_def example_codes_def example_endpoint_def os_log_def call_def)
  then have "sr_success (fst (run_state (run_flows example_sockets example_udp_limits ?config example_bsd_config ?remote
      (new_result ''bsd_system_udp_workload'')) h))" for h by (metis fst_conv)
  then have "sr_success (fst (run_state (RunBsdSystemUdpWorkload example_sockets example_udp_limits ?config example_bsd_config) []))"
    by (simp add: RunBsdSystemUdpWorkload_def config remote example_calls failed_def State_Monad.return_def Let_def
        os_log_def os_exit_def call_def case_prod_beta)
  then show ?thesis by (metis prod.collapse)
qed

theorem udp_success_means_every_echo_witness:
  "\<exists>h' remote. exchanged remote (example_workload\<lparr>tw_datagram_count := 1\<rparr>) h' 0 \<and> sin_addr remote = [10, 1, 0, 2]"
proof -
  let ?config = "example_workload\<lparr>tw_datagram_count := 1\<rparr>"
  obtain r h' where run: "run_state (RunBsdSystemUdpWorkload example_sockets example_udp_limits ?config example_bsd_config) []
      = (r, h')" "sr_success r" using example_udp_run by blast
  have "expected_outcome example_bsd_config = EchoReply" "tw_echo_replies ?config" "MinimumPayloadBytes \<le> tw_payload_bytes ?config"
    "tw_datagram_count ?config = 1" "tw_destination_ipv4 ?config = ''10.1.0.2''"
    by (simp_all add: example_bsd_config_def example_workload_def MinimumPayloadBytes_def)
  with udp_success_means_every_echo [OF run this(1,3)] show ?thesis by (metis option.inject unat_1 example_codes_of(3) zero_less_one)
qed

theorem udp_run_releases_everything_witness:
  "\<exists>r h'. run_state (RunBsdSystemUdpWorkload example_sockets example_udp_limits (example_workload\<lparr>tw_datagram_count := 1\<rparr>)
      example_bsd_config) [] = (r, h') \<and> sr_success r \<and> open_descriptors h' = {} \<and> service_users h' = 0"
proof -
  obtain r h' where run: "run_state (RunBsdSystemUdpWorkload example_sockets example_udp_limits
      (example_workload\<lparr>tw_datagram_count := 1\<rparr>) example_bsd_config) [] = (r, h')" "sr_success r"
    using example_udp_run by blast
  with udp_run_releases_everything [OF run(1)] show ?thesis by auto
qed

theorem send_attempts_bounded_witness:
  "sends (snd (run_state (SendWithWritableRetry example_sockets 3 [1, 2] 5) [])) \<le> 17
   \<and> Os_send 3 [1, 2] 2 \<in> set (snd (run_state (SendWithWritableRetry example_sockets 3 [1, 2] 5) []))"
  using send_attempts_bounded [OF example_send [of 3 "[1, 2]" 5 "[]"]]
  by (simp add: example_send sends_def new_send_result_def)

end
