(* ===== verification/BsdTcpProperties.thy ===== *)
theory BsdTcpProperties
  imports BsdTcp BsdUdpProperties
begin

text \<open>
  What the TCP exchange guarantees: it always ends, it gives back its descriptor and the
  socket service on every path, and success means that the socket took exactly the request
  and gave exactly the expected reply.
\<close>

subsection \<open>The loops end\<close>

lemma SendAll_ends: "\<exists>r h'. run_state (SendAll env fd data result) h = (Some r, h')"
  unfolding SendAll_def
  by (rule turns_end [where m = "\<lambda>offset. length data - offset"])
    (auto simp: send_all_turn_def State_Monad.return_def Let_def split: prod.splits if_splits)

lemma receive_turn_grows:
  assumes "run_state (receive_turn env fd wanted result reply) h = (Inr reply', h')"
  shows "wanted - length reply' < wanted - length reply"
proof -
  from assms obtain bytes where "reply' = reply @ bytes" "bytes \<noteq> []" "\<not> wanted \<le> length reply"
    by (auto simp: receive_turn_def State_Monad.return_def Let_def split: prod.splits if_splits recv_answer.splits)
  then show ?thesis by (cases bytes) simp_all
qed

lemma receive_ends:
  "\<exists>r h'. run_state (turns (length ExpectedReplyText) (receive_turn env fd (length ExpectedReplyText) result) []) h = (Some r, h')"
  by (rule turns_end [where m = "\<lambda>reply. length ExpectedReplyText - length reply"]) (simp_all add: receive_turn_grows)

lemma ReceiveExpectedReply_ends: "\<exists>r h'. run_state (ReceiveExpectedReply env fd deadline_ms result) h = (Some r, h')"
proof -
  obtain ready result' h1 where p: "run_state (poll_reply env fd deadline_ms result) h = ((ready, result'), h1)"
    by (metis prod.exhaust)
  obtain r h2 where "run_state (turns (length ExpectedReplyText)
      (receive_turn env fd (length ExpectedReplyText) result') []) h1 = (Some r, h2)" using receive_ends by blast
  with p show ?thesis by (cases r) (auto simp: ReceiveExpectedReply_def State_Monad.return_def)
qed

lemma close_ends:
  "\<exists>r h'. run_state (close_with env fd result) h = (Some r, h')"
  "\<exists>r h'. run_state (finish_exchange env fd detail result) h = (Some r, h')"
  by (auto simp: close_with_def finish_exchange_def State_Monad.return_def split: prod.split)

text \<open>
  C8. The TCP exchange always comes to an end, whatever the platform answers: the loops that
  send the request and read the reply move on by at least a byte each turn.
\<close>

theorem tcp_run_completes:
  "\<exists>r h'. run_state (RunBsdSystemTcpExchange env profile workload_id config) h = (Some r, h')"
proof -
  have request: "\<exists>r h'. run_state (exchange_request env fd remote local workload_id ms t0 t1 result) h = (Some r, h')"
    for fd remote local ms t0 t1 result h
  proof (cases "32 \<le> length (request_line workload_id)")
    case True
    then show ?thesis by (simp add: exchange_request_def close_ends)
  next
    case False
    obtain t2 h1 where t2: "run_state (os_tick env) h = (t2, h1)" by (rule prod.exhaust)
    obtain b result' h2 where s: "run_state (SendAll env fd (map of_char (request_line workload_id)) result) h1
        = (Some (b, result'), h2)" using SendAll_ends by (metis prod.exhaust)
    obtain t3 h3 where t3: "run_state (os_tick env) h2 = (t3, h3)" by (rule prod.exhaust)
    obtain t4 h4 where t4: "run_state (os_tick env) h3 = (t4, h4)" by (rule prod.exhaust)
    obtain c result'' h5 where g: "run_state (ReceiveExpectedReply env fd ms result') h4 = (Some (c, result''), h5)"
      using ReceiveExpectedReply_ends by (metis prod.exhaust)
    from False t2 s t3 t4 g show ?thesis
      by (cases b; cases c) (simp_all add: exchange_request_def close_ends Let_def split: prod.split)
  qed
  have "\<exists>r h'. run_state (run_connection env remote workload_id ms fd result) h = (Some r, h')" for remote ms fd result h
    by (auto simp: run_connection_def close_ends request split: prod.split)
  then have "\<exists>r. x = Some r"
    if "run_state (run_connection env remote workload_id ms fd result) h = (x, h')" for remote ms fd result h x h'
    using that by (metis prod.inject)
  then show ?thesis
    by (auto simp: RunBsdSystemTcpExchange_def State_Monad.return_def Let_def split: prod.split option.split)
qed

subsection \<open>The descriptor is closed\<close>

text \<open>A computation that leaves the service alone and gives up the descriptor when it ends.\<close>

definition closes :: "int \<Rightarrow> 'a option os \<Rightarrow> bool" where
  "closes fd m \<longleftrightarrow> (\<forall>h a h'. run_state m h = (Some a, h') \<longrightarrow>
     open_descriptors h' = open_descriptors h - {fd} \<and> service_users h' = service_users h)"

named_theorems close_rules \<open>introduction rules for \<^const>\<open>closes\<close>\<close>

lemma closesD:
  "closes fd m \<Longrightarrow> run_state m h = (Some a, h') \<Longrightarrow>
   open_descriptors h' = open_descriptors h - {fd} \<and> service_users h' = service_users h"
  by (simp add: closes_def)

lemma closes_bind [close_rules]:
  assumes "emits neutral m" "\<And>a. closes fd (f a)" shows "closes fd (State_Monad.bind m f)"
  unfolding closes_def
proof (intro allI impI)
  fix h b h'
  assume run: "run_state (State_Monad.bind m f) h = (Some b, h')"
  obtain a h1 where a: "run_state m h = (a, h1)" by (rule prod.exhaust)
  with run have b: "run_state (f a) h1 = (Some b, h')" by simp
  from neutral_run [OF assms(1) a] closesD [OF assms(2) b]
  show "open_descriptors h' = open_descriptors h - {fd} \<and> service_users h' = service_users h" by simp
qed

lemma closes_cases [close_rules]:
  "closes fd (State_Monad.return None)"
  "(b \<Longrightarrow> closes fd m) \<Longrightarrow> (\<not> b \<Longrightarrow> closes fd n) \<Longrightarrow> closes fd (if b then m else n)"
  "(\<And>x. closes fd (f x)) \<Longrightarrow> closes fd (let x = v in f x)"
  "(\<And>a c. closes fd (g a c)) \<Longrightarrow> closes fd (case p of (a, c) \<Rightarrow> g a c)"
  "closes fd m \<Longrightarrow> (\<And>y. closes fd (k y)) \<Longrightarrow> closes fd (case o' of None \<Rightarrow> m | Some y \<Rightarrow> k y)"
  by (simp_all add: closes_def State_Monad.return_def split: prod.split option.split)

lemma closes_ends [close_rules]: "closes fd (close_with env fd result)" "closes fd (finish_exchange env fd detail result)"
  by (auto simp: closes_def close_with_def finish_exchange_def State_Monad.return_def dest!: close_call split: prod.splits)

lemma neutral_tcp_ops [emit_rules]:
  "emits neutral (SetTimeouts env fd deadline_ms result)"
  "emits neutral (SendAll env fd data result)"
  "emits neutral (ReceiveExpectedReply env fd deadline_ms result)"
  by (auto simp: SetTimeouts_def SendAll_def send_all_turn_def ReceiveExpectedReply_def poll_reply_def receive_turn_def
      Let_def intro!: emit_rules)

lemma connection_closes: "closes fd (run_connection env remote workload_id deadline_ms fd result)"
  unfolding run_connection_def exchange_request_def
  by (auto intro!: close_rules emit_rules split: bool.split)

text \<open>
  C7. The TCP exchange gives back its descriptor and the socket service on every path: a run
  that starts with no open descriptor ends with none, and with as many users of the service
  as before.
\<close>

theorem tcp_run_releases_everything:
  assumes "run_state (RunBsdSystemTcpExchange env profile workload_id config) h = (r, h')" "open_descriptors h = {}"
  shows "open_descriptors h' = {} \<and> service_users h' = service_users h"
proof -
  have closed: "open_descriptors k' = open_descriptors k - {fd} \<and> service_users k' = service_users k"
    if "run_state (run_connection env remote workload_id ms fd result) k = (Some x, k')" for remote ms fd result k x k'
    using closesD [OF connection_closes that] .
  obtain r' where r: "r = Some r'" using tcp_run_completes [of env profile workload_id config h] assms(1) by auto
  show ?thesis
    using assms unfolding r
    by (auto simp: RunBsdSystemTcpExchange_def State_Monad.return_def Let_def failed_def os_socket_def os_log_def call_def
        dest!: initialize_call exit_call closed split: prod.splits option.splits if_splits)
qed

subsection \<open>The bytes of the exchange\<close>

text \<open>What a history sends and receives on a descriptor.\<close>

fun sent_on :: "int \<Rightarrow> os_event \<Rightarrow> u8 list" where
  "sent_on fd (Os_send d bytes r) = (if d = fd then take (nat r) bytes else [])"
| "sent_on fd _ = []"

fun received_on :: "int \<Rightarrow> os_event \<Rightarrow> u8 list" where
  "received_on fd (Os_recv d capacity (Recv_bytes bytes n source)) = (if d = fd then bytes else [])"
| "received_on fd _ = []"

definition sent_stream :: "int \<Rightarrow> os_history \<Rightarrow> u8 list" where
  "sent_stream fd h = concat (map (sent_on fd) h)"

definition received_stream :: "int \<Rightarrow> os_history \<Rightarrow> u8 list" where
  "received_stream fd h = concat (map (received_on fd) h)"

lemma stream_simps [simp]:
  "sent_stream fd [] = []" "sent_stream fd (h @ es) = sent_stream fd h @ sent_stream fd es"
  "sent_stream fd (e # es) = sent_on fd e @ sent_stream fd es"
  "received_stream fd [] = []" "received_stream fd (h @ es) = received_stream fd h @ received_stream fd es"
  "received_stream fd (e # es) = received_on fd e @ received_stream fd es"
  by (simp_all add: sent_stream_def received_stream_def)

text \<open>Events that carry no bytes.\<close>

fun quiet :: "os_event \<Rightarrow> bool" where
  "quiet (Os_send fd bytes r) = False"
| "quiet (Os_recv fd capacity answer) = False"
| "quiet _ = True"

lemma quiet_streams: "list_all quiet es \<Longrightarrow> sent_stream fd es = [] \<and> received_stream fd es = []"
proof (induction es)
  case (Cons e es)
  then show ?case by (cases e) (simp_all add: sent_stream_def received_stream_def)
qed simp

lemma quiet_run:
  assumes "emits quiet m" "run_state m h = (a, h')"
  shows "\<exists>es. h' = h @ es \<and> sent_stream fd es = [] \<and> received_stream fd es = []"
  using emitsD [OF assms] quiet_streams by blast

text \<open>What is added to a history between two points of a run, by its bytes.\<close>

definition carries :: "int \<Rightarrow> u8 list \<Rightarrow> u8 list \<Rightarrow> os_history \<Rightarrow> os_history \<Rightarrow> bool" where
  "carries fd out inp h h' \<longleftrightarrow> (\<exists>es. h' = h @ es \<and> sent_stream fd es = out \<and> received_stream fd es = inp)"

lemma carries_none: "carries fd [] [] h h"
  by (simp add: carries_def)

lemma carries_trans:
  assumes "carries fd out inp h h1" "carries fd out' inp' h1 h2" shows "carries fd (out @ out') (inp @ inp') h h2"
proof -
  from assms obtain es es' where "h1 = h @ es" "sent_stream fd es = out" "received_stream fd es = inp"
    "h2 = h1 @ es'" "sent_stream fd es' = out'" "received_stream fd es' = inp'" by (auto simp: carries_def)
  then show ?thesis unfolding carries_def by (intro exI [of _ "es @ es'"]) simp
qed

lemma carries_quiet: "emits quiet m \<Longrightarrow> run_state m h = (a, h') \<Longrightarrow> carries fd [] [] h h'"
  using quiet_run by (fastforce simp: carries_def)

lemma carries_tick: "run_state (os_tick env) h = (t, h') \<Longrightarrow> carries fd [] [] h h'"
  by (rule carries_quiet) (auto intro!: emit_rules)

lemma carries_send: "run_state (os_send env fd bytes) h = ((r, e), h') \<Longrightarrow> carries fd (take (nat r) bytes) [] h h'"
  by (auto simp: os_send_def call_def Let_def carries_def split: prod.splits)

lemma carries_recv:
  "run_state (os_recv env fd capacity) h = (Recv_bytes bytes n source, h') \<Longrightarrow> carries fd [] bytes h h'"
  by (auto simp: os_recv_def call_def Let_def carries_def)

lemma take_further: "take n data @ take m (drop n data) = take (n + m) data"
  by (simp add: take_add)

lemma SendAll_carries:
  assumes "run_state (SendAll env fd data result) h = (Some (b, result'), h')" "\<not> sr_success result"
  shows "\<not> sr_success result' \<and> (b \<longrightarrow> carries fd data [] h h')"
proof -
  let ?I = "\<lambda>offset k. carries fd (take offset data) [] h k"
  let ?Q = "\<lambda>(b, r) k. \<not> sr_success r \<and> (b \<longrightarrow> carries fd data [] h k)"
  have "?Q (b, result') h'"
  proof (rule turns_result [where I = ?I and Q = ?Q, OF _ _ assms(1) [unfolded SendAll_def]])
    fix offset k offset' k'
    assume "?I offset k" "run_state (send_all_turn env fd data result offset) k = (Inr offset', k')"
    then show "?I offset' k'"
      using carries_trans [of fd "take offset data" "[]" h k]
      by (auto simp: send_all_turn_def State_Monad.return_def Let_def take_further dest!: carries_send
          split: prod.splits if_splits) (metis append.left_neutral take_further)
  next
    fix offset k t k'
    assume "?I offset k" "run_state (send_all_turn env fd data result offset) k = (Inl t, k')"
    then show "?Q t k'"
      using assms(2) by (auto simp: send_all_turn_def State_Monad.return_def Let_def split: prod.splits if_splits)
  qed (simp add: carries_none)
  then show ?thesis by simp
qed

lemma receive_carries:
  assumes "run_state (turns n (receive_turn env fd wanted result) []) h = (Some t, h')" "\<not> sr_success result"
  shows "case t of Inl reply \<Rightarrow> carries fd [] reply h h' | Inr result' \<Rightarrow> \<not> sr_success result'"
proof (rule turns_result [where I = "\<lambda>reply k. carries fd [] reply h k"
      and Q = "\<lambda>t k. case t of Inl reply \<Rightarrow> carries fd [] reply h k | Inr result' \<Rightarrow> \<not> sr_success result'",
      OF _ _ assms(1)])
  fix reply k reply' k'
  assume "carries fd [] reply h k" "run_state (receive_turn env fd wanted result reply) k = (Inr reply', k')"
  then show "carries fd [] reply' h k'"
    using carries_trans [of fd "[]" reply h k]
    by (auto simp: receive_turn_def State_Monad.return_def dest!: carries_recv
        split: prod.splits if_splits recv_answer.splits)
next
  fix reply k t k'
  assume "carries fd [] reply h k" "run_state (receive_turn env fd wanted result reply) k = (Inl t, k')"
  then show "case t of Inl reply \<Rightarrow> carries fd [] reply h k' | Inr result' \<Rightarrow> \<not> sr_success result'"
    using assms(2) by (auto simp: receive_turn_def State_Monad.return_def split: prod.splits if_splits recv_answer.splits)
qed (simp add: carries_none)

lemma ReceiveExpectedReply_carries:
  assumes "run_state (ReceiveExpectedReply env fd ms result) h = (Some (b, result'), h')" "\<not> sr_success result"
  shows "\<not> sr_success result' \<and> (b \<longrightarrow> carries fd [] (map of_char ExpectedReplyText) h h'
    \<and> sr_bytes_received result' = length ExpectedReplyText)"
proof -
  obtain ready r1 h1 where p: "run_state (poll_reply env fd ms result) h = ((ready, r1), h1)" by (metis prod.exhaust)
  then have r1: "\<not> sr_success r1"
    using assms(2) by (auto simp: poll_reply_def State_Monad.return_def split: prod.splits if_splits)
  have "emits quiet (poll_reply env fd ms result)" unfolding poll_reply_def by (auto intro!: emit_rules)
  note poll = carries_quiet [OF this p, of fd]
  show ?thesis
  proof (cases ready)
    case False
    with assms(1) p r1 show ?thesis by (simp add: ReceiveExpectedReply_def State_Monad.return_def)
  next
    case True
    obtain t h2 where t: "run_state (turns (length ExpectedReplyText) (receive_turn env fd (length ExpectedReplyText) r1) []) h1
        = (Some t, h2)" using receive_ends by blast
    note got = receive_carries [OF t r1]
    show ?thesis
    proof (cases t)
      case (Inl reply)
      with got have "carries fd [] reply h1 h2" by simp
      from carries_trans [OF poll this] have "carries fd [] reply h h2" by simp
      with assms(1) p True t Inl r1 show ?thesis
        by (auto simp: ReceiveExpectedReply_def State_Monad.return_def reply_verdict_def Let_def split: if_splits)
    next
      case (Inr r2)
      with assms(1) p True t got show ?thesis by (simp add: ReceiveExpectedReply_def State_Monad.return_def)
    qed
  qed
qed

lemma close_unsuccessful:
  "run_state (close_with env fd result) h = (Some r, h') \<Longrightarrow> sr_success r = sr_success result"
  by (auto simp: close_with_def State_Monad.return_def split: prod.splits)

lemma finish_success:
  assumes "run_state (finish_exchange env fd detail result) h = (Some r, h')"
  shows "carries fd' [] [] h h' \<and> sr_bytes_received r = sr_bytes_received result"
  using assms
  by (auto simp: finish_exchange_def State_Monad.return_def carries_def dest!: close_call split: prod.splits)

lemma exchange_request_carries:
  assumes "run_state (exchange_request env fd remote local workload_id ms t0 t1 result) h = (Some r, h')"
    and "\<not> sr_success result" "sr_success r"
  shows "carries fd (map of_char (request_line workload_id)) (map of_char ExpectedReplyText) h h'
    \<and> sr_bytes_received r = length ExpectedReplyText"
proof -
  let ?request = "request_line workload_id"
  have short: "length ?request < 32"
    using assms by (auto simp: exchange_request_def not_le [symmetric] dest!: close_unsuccessful)
  obtain t2 h1 where t2: "run_state (os_tick env) h = (t2, h1)" by (rule prod.exhaust)
  obtain b r1 h2 where s: "run_state (SendAll env fd (map of_char ?request) result) h1 = (Some (b, r1), h2)"
    using SendAll_ends by (metis prod.exhaust)
  note sent = SendAll_carries [OF s assms(2)]
  have b using assms t2 s sent short
    by (auto simp: exchange_request_def Let_def dest!: close_unsuccessful split: bool.splits)
  obtain t3 h3 where t3: "run_state (os_tick env) h2 = (t3, h3)" by (rule prod.exhaust)
  obtain t4 h4 where t4: "run_state (os_tick env) h3 = (t4, h4)" by (rule prod.exhaust)
  obtain c r2 h5 where g: "run_state (ReceiveExpectedReply env fd ms r1) h4 = (Some (c, r2), h5)"
    using ReceiveExpectedReply_ends by (metis prod.exhaust)
  note got = ReceiveExpectedReply_carries [OF g]
  have c using assms t2 s sent short \<open>b\<close> t3 t4 g got
    by (auto simp: exchange_request_def Let_def dest!: close_unsuccessful split: bool.splits)
  obtain t5 h6 where t5: "run_state (os_tick env) h5 = (t5, h6)" by (rule prod.exhaust)
  obtain detail where f: "run_state (finish_exchange env fd detail r2) h6 = (Some r, h')"
    using assms(1) t2 s short \<open>b\<close> t3 t4 g \<open>c\<close> t5 by (auto simp: exchange_request_def Let_def)
  have out: "carries fd (map of_char ?request) [] h1 h2" and inp: "carries fd [] (map of_char ExpectedReplyText) h4 h5"
    and n: "sr_bytes_received r2 = length ExpectedReplyText"
    using sent got \<open>b\<close> \<open>c\<close> by simp_all
  note steps = carries_trans [OF carries_trans [OF carries_trans [OF carries_tick [OF t2] out] carries_tick [OF t3]]
      carries_tick [OF t4]]
  from finish_success [OF f, of fd] have "carries fd [] [] h6 h'" by simp
  from carries_trans [OF carries_trans [OF carries_trans [OF steps inp] carries_tick [OF t5]] this]
    finish_success [OF f] n
  show ?thesis by simp
qed

lemma run_connection_carries:
  assumes "run_state (run_connection env remote workload_id ms fd result) h = (Some r, h')"
    and "\<not> sr_success result" "sr_success r"
  shows "(\<exists>es. h' = h @ es \<and> Os_connect fd remote 0 \<in> set es \<and> sent_stream fd es = map of_char (request_line workload_id)
      \<and> received_stream fd es = map of_char ExpectedReplyText) \<and> sr_bytes_received r = length ExpectedReplyText"
proof -
  obtain b r1 h1 where c: "run_state (SetTimeouts env fd ms result) h = ((b, r1), h1)" by (metis prod.exhaust)
  then have r1: "\<not> sr_success r1"
    using assms(2) by (auto simp: SetTimeouts_def Let_def State_Monad.return_def split: prod.splits if_splits)
  have b using assms(1,3) c r1 by (auto simp: run_connection_def dest!: close_unsuccessful split: if_splits)
  have "emits quiet (SetTimeouts env fd ms result)" by (auto simp: SetTimeouts_def Let_def intro!: emit_rules)
  note options = carries_quiet [OF this c, of fd]
  obtain t0 h2 where t0: "run_state (os_tick env) h1 = (t0, h2)" by (rule prod.exhaust)
  obtain x e h3 where k: "run_state (os_connect env fd remote) h2 = ((x, e), h3)" by (metis prod.exhaust)
  have x: "x = 0" using assms(1,3) c r1 \<open>b\<close> t0 k
    by (auto simp: run_connection_def dest!: close_unsuccessful split: if_splits)
  have h3: "h3 = h2 @ [Os_connect fd remote 0]"
    using k x by (auto simp: os_connect_def call_def Let_def split: prod.splits)
  obtain t1 h4 where t1: "run_state (os_tick env) h3 = (t1, h4)" by (rule prod.exhaust)
  obtain y f n a h5 where g: "run_state (os_getsockname env fd) h4 = ((y, f, n, a), h5)" by (metis prod.exhaust)
  have "emits quiet (os_getsockname env fd)" by (auto intro!: emit_rules)
  note name = carries_quiet [OF this g, of fd]
  have q: "run_state (exchange_request env fd remote a workload_id ms t0 t1 r1) h5 = (Some r, h')"
    using assms(1,3) c r1 \<open>b\<close> t0 k x t1 g
    by (auto simp: run_connection_def dest!: close_unsuccessful split: if_splits)
  note rest = exchange_request_carries [OF q r1 assms(3)]
  from carries_trans [OF options carries_tick [OF t0]] obtain es1 where es1: "h2 = h @ es1" "sent_stream fd es1 = []"
    "received_stream fd es1 = []" by (auto simp: carries_def)
  from carries_trans [OF carries_trans [OF carries_tick [OF t1] name]] rest
  have "carries fd (map of_char (request_line workload_id)) (map of_char ExpectedReplyText) h3 h'" by fastforce
  then obtain es2 where "h' = h3 @ es2" "sent_stream fd es2 = map of_char (request_line workload_id)"
    "received_stream fd es2 = map of_char ExpectedReplyText" by (auto simp: carries_def)
  with es1 h3 rest show ?thesis by (intro conjI exI [of _ "es1 @ [Os_connect fd remote 0] @ es2"]) simp_all
qed

text \<open>
  C6. Success of the TCP exchange means what it says: the run connected a descriptor to the
  configured endpoint, the socket took the request line and nothing else on it, and what it
  gave was the expected reply, byte for byte, over however many partial sends and receives.
\<close>

theorem tcp_success_is_exchange:
  assumes "run_state (RunBsdSystemTcpExchange env profile workload_id config) h = (Some r, h')" "sr_success r"
  shows "\<exists>fd remote es. h' = h @ es \<and> env_inet_pton env (bsd_destination_ipv4 profile) = Some (sin_addr remote)
    \<and> sin_port remote = tcp_destination_port profile \<and> Os_connect fd remote 0 \<in> set es
    \<and> sent_stream fd es = map of_char (request_line workload_id)
    \<and> received_stream fd es = map of_char ExpectedReplyText \<and> sr_bytes_received r = length ExpectedReplyText"
proof -
  let ?remote = "\<lambda>address. \<lparr>sin_family = c_AF_INET (codes env), sin_addr = address, sin_port = tcp_destination_port profile\<rparr>"
  let ?result = "new_result ''bsd_system_tcp_exchange''"
  obtain address rc line fd h1 where a: "env_inet_pton env (bsd_destination_ipv4 profile) = Some address"
    and run: "run_state (run_connection env (?remote address) workload_id (tcp_receive_deadline_ms config) fd ?result)
      (h @ [Os_initialize rc, Os_log line, Os_socket fd]) = (Some r, h1)" and h': "h' = h1 @ [Os_exit]"
    using assms
    by (auto simp: RunBsdSystemTcpExchange_def State_Monad.return_def Let_def os_socket_def os_log_def call_def new_result_def
        dest!: initialize_call exit_call split: prod.splits option.splits if_splits)
  have "\<not> sr_success ?result" by (simp add: new_result_def)
  from run_connection_carries [OF run this assms(2)] obtain es where
    es: "h1 = h @ [Os_initialize rc, Os_log line, Os_socket fd] @ es" "Os_connect fd (?remote address) 0 \<in> set es"
    "sent_stream fd es = map of_char (request_line workload_id)" "received_stream fd es = map of_char ExpectedReplyText"
    "sr_bytes_received r = length ExpectedReplyText" by auto
  show ?thesis
    by (intro exI [of _ fd] exI [of _ "?remote address"] exI [of _ "[Os_initialize rc, Os_log line, Os_socket fd] @ es @ [Os_exit]"])
      (simp add: a es h')
qed

subsection \<open>A replying platform\<close>

definition replying_sockets :: os_env where
  "replying_sockets = example_sockets\<lparr>env_recv := (\<lambda>_ _ _. Recv_bytes (map of_char ExpectedReplyText) 16
     (example_endpoint [10, 1, 0, 2] 29001))\<rparr>"

definition example_tcp_profile :: RuntimeProfile where
  "example_tcp_profile = \<lparr>pr_name = ''lab'', tunnel_destination_ipv4 = ''10.13.0.1'', bsd_destination_ipv4 = ''10.1.0.2'',
     udp_destination_port = 29000, tcp_destination_port = 29001\<rparr>"

lemma replying_calls:
  "run_state (os_recv replying_sockets fd capacity) h =
     (Recv_bytes (take capacity (map of_char ExpectedReplyText)) 16 (example_endpoint [10, 1, 0, 2] 29001),
      h @ [Os_recv fd capacity (Recv_bytes (take capacity (map of_char ExpectedReplyText)) 16 (example_endpoint [10, 1, 0, 2] 29001))])"
  "run_state (os_initialize replying_sockets) h = (0, h @ [Os_initialize 0])"
  "run_state (os_socket replying_sockets) h = ((3, 0), h @ [Os_socket 3])"
  "run_state (os_connect replying_sockets fd remote) h = ((0, 0), h @ [Os_connect fd remote 0])"
  "run_state (os_getsockname replying_sockets fd) h
     = ((0, 0, 16, example_endpoint [10, 0, 0, 2] 4000), h @ [Os_getsockname fd 0 16 (example_endpoint [10, 0, 0, 2] 4000)])"
  "run_state (os_setsockopt replying_sockets fd option value) h = ((0, 0), h @ [Os_setsockopt fd option value 0])"
  "run_state (os_send replying_sockets fd bytes) h = ((int (length bytes), 0), h @ [Os_send fd bytes (int (length bytes))])"
  "run_state (os_poll replying_sockets fd events timeout) h = ((1, 0, events), h @ [Os_poll fd events timeout 1 events])"
  "run_state (os_tick replying_sockets) h = (of_nat (length h), h @ [Os_tick (of_nat (length h))])"
  "run_state (os_close replying_sockets fd) h = ((0, 0), h @ [Os_close fd 0])"
  "codes replying_sockets = example_codes" "env_inet_pton replying_sockets ''10.1.0.2'' = Some [10, 1, 0, 2]"
  by (simp_all add: replying_sockets_def example_sockets_def os_initialize_def os_socket_def os_connect_def os_getsockname_def
      os_setsockopt_def os_send_def os_poll_def os_tick_def os_close_def os_recv_def call_def Let_def)

lemma replying_send:
  assumes "data \<noteq> []"
  shows "run_state (SendAll replying_sockets fd data result) h
    = (Some (True, result\<lparr>sr_bytes_sent := length data\<rparr>), h @ [Os_send fd data (int (length data))])"
proof -
  from assms obtain n where n: "length data = Suc n" by (cases data) auto
  have "run_state (send_all_turn replying_sockets fd data result 0) h = (Inr (length data), h @ [Os_send fd data (int (length data))])"
    using assms by (simp add: send_all_turn_def replying_calls State_Monad.return_def)
  from turns_run(2) [of "send_all_turn replying_sockets fd data result", OF this, of n] n show ?thesis
    by (simp add: SendAll_def turns_run(1) send_all_turn_def State_Monad.return_def)
qed

lemma replying_receive:
  "\<exists>h'. run_state (ReceiveExpectedReply replying_sockets fd ms result) h
    = (Some (True, result\<lparr>sr_bytes_received := length ExpectedReplyText\<rparr>), h')"
proof -
  let ?body = "receive_turn replying_sockets fd (length ExpectedReplyText) result"
  have n: "length ExpectedReplyText = Suc 13" by (simp add: ExpectedReplyText_def)
  have "\<exists>h'. run_state (?body []) h = (Inr (map of_char ExpectedReplyText), h')" for h
    by (simp add: receive_turn_def replying_calls State_Monad.return_def ExpectedReplyText_def)
  moreover have "run_state (turns k ?body (map of_char ExpectedReplyText)) h = (Some (Inl (map of_char ExpectedReplyText)), h)" for k h
    by (rule turns_run(1)) (simp add: receive_turn_def State_Monad.return_def)
  ultimately have "\<exists>h'. run_state (turns (Suc 13) ?body []) h = (Some (Inl (map of_char ExpectedReplyText)), h')" for h
    by (metis turns_run(2))
  then have "\<exists>h'. run_state (turns (length ExpectedReplyText) ?body []) h = (Some (Inl (map of_char ExpectedReplyText)), h')" for h
    by (simp only: n)
  then obtain h' where "run_state (turns (length ExpectedReplyText) ?body []) (h @ [Os_poll fd 1 (sint ms) 1 1])
    = (Some (Inl (map of_char ExpectedReplyText)), h')" by blast
  then show ?thesis
    by (simp add: ReceiveExpectedReply_def poll_reply_def replying_calls State_Monad.return_def example_codes_def reply_verdict_def)
qed

lemma replying_run:
  "\<exists>r h'. run_state (RunBsdSystemTcpExchange replying_sockets example_tcp_profile 7 \<lparr>tcp_receive_deadline_ms = 5000\<rparr>) []
    = (Some r, h') \<and> sr_success r"
proof -
  have request: "\<exists>r h'. run_state (exchange_request replying_sockets fd remote local 7 ms t0 t1 result) h = (Some r, h')
      \<and> sr_success r" for fd remote local ms t0 t1 result h
  proof -
    have line: "request_line 7 = ''NXRV TCP 7'' @ [CHR 0x0D, CHR 0x0A]" by (simp add: request_line_def to_string_def show_dec.simps digit_char_def char_of_def bit_0)
    let ?data = "map of_char (request_line 7)" and ?s = "replying_sockets"
    obtain t2 h1 where t2: "run_state (os_tick ?s) h = (t2, h1)" by (rule prod.exhaust)
    obtain r1 h2 where s: "run_state (SendAll ?s fd ?data result) h1 = (Some (True, r1), h2)"
      using replying_send [of ?data] line by auto
    obtain t3 h3 where t3: "run_state (os_tick ?s) h2 = (t3, h3)" by (rule prod.exhaust)
    obtain t4 h4 where t4: "run_state (os_tick ?s) h3 = (t4, h4)" by (rule prod.exhaust)
    obtain r2 h5 where g: "run_state (ReceiveExpectedReply ?s fd ms r1) h4 = (Some (True, r2), h5)"
      using replying_receive by blast
    obtain t5 h6 where t5: "run_state (os_tick ?s) h5 = (t5, h6)" by (rule prod.exhaust)
    have "length (request_line 7) < 32" by (simp add: line)
    then show ?thesis
      by (simp add: exchange_request_def t2 s t3 t4 g t5 finish_exchange_def replying_calls(10) State_Monad.return_def Let_def)
  qed
  have "\<exists>r h'. run_state (run_connection replying_sockets remote 7 ms fd result) h = (Some r, h') \<and> sr_success r" for remote ms fd result h
    using request by (simp add: run_connection_def SetTimeouts_def replying_calls State_Monad.return_def Let_def example_codes_def
        example_endpoint_def)
  then have "sr_success (the (fst (run_state (run_connection replying_sockets remote 7 ms fd result) h)))" for remote ms fd result h
    by (metis fst_conv option.sel)
  then have "sr_success (the (fst (run_state (RunBsdSystemTcpExchange replying_sockets example_tcp_profile 7
      \<lparr>tcp_receive_deadline_ms = 5000\<rparr>) [])))"
    by (simp add: RunBsdSystemTcpExchange_def replying_calls failed_def example_tcp_profile_def State_Monad.return_def Let_def
        os_log_def os_exit_def call_def case_prod_beta)
  with tcp_run_completes show ?thesis by (metis fst_conv option.sel)
qed

theorem tcp_success_is_exchange_witness:
  "\<exists>fd es. sent_stream fd es = map of_char (request_line 7) \<and> received_stream fd es = map of_char ExpectedReplyText"
proof -
  obtain r h' where "run_state (RunBsdSystemTcpExchange replying_sockets example_tcp_profile 7 \<lparr>tcp_receive_deadline_ms = 5000\<rparr>) []
    = (Some r, h')" "sr_success r" using replying_run by blast
  from tcp_success_is_exchange [OF this] show ?thesis by blast
qed

theorem tcp_run_releases_everything_witness:
  "\<exists>r h'. run_state (RunBsdSystemTcpExchange replying_sockets example_tcp_profile 7 \<lparr>tcp_receive_deadline_ms = 5000\<rparr>) []
    = (Some r, h') \<and> sr_success r \<and> open_descriptors h' = {} \<and> service_users h' = 0"
proof -
  obtain r h' where run: "run_state (RunBsdSystemTcpExchange replying_sockets example_tcp_profile 7
      \<lparr>tcp_receive_deadline_ms = 5000\<rparr>) [] = (Some r, h')" "sr_success r" using replying_run by blast
  from tcp_run_releases_everything [OF run(1)] have "open_descriptors h' = {} \<and> service_users h' = 0" by simp
  with run show ?thesis by blast
qed

end
