(* ===== verification/TunnelWorld.thy ===== *)
theory TunnelWorld
  imports HistoryMonad UdpPayload
begin

text \<open>
  The calls of the tunnel scenarios (\<^verbatim>\<open>toolbox/src/wgnx_tunnel_scenario.cpp\<close>) to the
  \<^verbatim>\<open>wgnx:tun\<close> service. The client library is another repository: its types appear with the
  constructors and fields the scenarios name, its constants are the record \<open>tun_api\<close>, and the
  service answers every call as a function of the history. Sessions that go out of scope are
  released by the library and are no events here; the flows and the completion events, which
  the scenarios release themselves, are accounted for below.
\<close>

subsection \<open>Names\<close>

text \<open>A value the scenarios do not name is \<^verbatim>\<open>unknown\<close>.\<close>

datatype ProtocolStatus =
  Success | MalformedInput | UnsupportedOperation | IncompatibleApiVersion | RouteNotCovered
  | PeerUnavailable | TransportUnavailable | FlowQuotaExhausted | PayloadTooLarge | QueueFull
  | StaleHandle | FlowClosed | QueueEmpty | OutputBufferTooSmall | ReverseTupleExhausted
  | TunnelBlockedByPolicy | WrongFlowKind | NotConnected | LocalWriteClosed | OtherStatus u32

fun StatusName :: "ProtocolStatus \<Rightarrow> string" where
  "StatusName Success = ''success''"
| "StatusName MalformedInput = ''malformed_input''"
| "StatusName UnsupportedOperation = ''unsupported_operation''"
| "StatusName IncompatibleApiVersion = ''incompatible_api_version''"
| "StatusName RouteNotCovered = ''route_not_covered''"
| "StatusName PeerUnavailable = ''peer_unavailable''"
| "StatusName TransportUnavailable = ''transport_unavailable''"
| "StatusName FlowQuotaExhausted = ''flow_quota_exhausted''"
| "StatusName PayloadTooLarge = ''payload_too_large''"
| "StatusName QueueFull = ''queue_full''"
| "StatusName StaleHandle = ''stale_handle''"
| "StatusName FlowClosed = ''flow_closed''"
| "StatusName QueueEmpty = ''queue_empty''"
| "StatusName OutputBufferTooSmall = ''output_buffer_too_small''"
| "StatusName ReverseTupleExhausted = ''reverse_tuple_exhausted''"
| "StatusName TunnelBlockedByPolicy = ''tunnel_blocked_by_policy''"
| "StatusName WrongFlowKind = ''wrong_flow_kind''"
| "StatusName NotConnected = ''not_connected''"
| "StatusName LocalWriteClosed = ''local_write_closed''"
| "StatusName (OtherStatus n) = ''unknown''"

datatype FlowTerminalReason =
  NoReason | ClientClosed | PeerDeactivated | PeerActivationChanged | PolicyInvalidated
  | SysmoduleShutdown | RemoteClosed | ResetDuringConnect | ResetAfterConnect | ConnectTimedOut
  | RouteLost | LocalResourceFailure | OtherReason u32

fun TerminalReasonName :: "FlowTerminalReason \<Rightarrow> string" where
  "TerminalReasonName NoReason = ''none''"
| "TerminalReasonName ClientClosed = ''client_closed''"
| "TerminalReasonName PeerDeactivated = ''peer_deactivated''"
| "TerminalReasonName PeerActivationChanged = ''peer_activation_changed''"
| "TerminalReasonName PolicyInvalidated = ''policy_invalidated''"
| "TerminalReasonName SysmoduleShutdown = ''sysmodule_shutdown''"
| "TerminalReasonName RemoteClosed = ''remote_closed''"
| "TerminalReasonName ResetDuringConnect = ''reset_during_connect''"
| "TerminalReasonName ResetAfterConnect = ''reset_after_connect''"
| "TerminalReasonName ConnectTimedOut = ''connect_timed_out''"
| "TerminalReasonName RouteLost = ''route_lost''"
| "TerminalReasonName LocalResourceFailure = ''local_resource_failure''"
| "TerminalReasonName (OtherReason n) = ''unknown''"

datatype FlowKind = UdpFlow | TcpFlow | OtherKind
datatype FlowState = FlowOpen | FlowEnded | OtherState
datatype CompletionType = FlowStateChanged | InboundUdpDatagram | WritableAgain | InboundTcpStream | OtherCompletion

subsection \<open>Records\<close>

text \<open>Flow handles are their values; the value \<open>0\<close> is the handle of no flow.\<close>

type_synonym flow = u64

record Capabilities =
  api_version :: u32
  capability_mask :: u64
  maximum_udp_payload_bytes :: u32
  maximum_tcp_write_bytes :: u32

record RoutingPolicySnapshot =
  policy_generation :: u64
  route_count :: u32

record OpenConnectedFlowRequest =
  rq_address :: "u8 list"
  rq_port :: u16
  rq_kind :: FlowKind
  rq_diagnostic_tag :: u64

record OpenConnectedFlowResult =
  op_status :: ProtocolStatus
  op_flow :: flow
  op_local_port :: u16

record FlowStateResult =
  fs_status :: ProtocolStatus
  fs_state :: FlowState
  fs_kind :: FlowKind
  fs_local_port :: u16
  fs_stream_flags :: u32

record PayloadRange =
  rg_flow :: flow
  rg_offset :: u32
  rg_size :: u32
  rg_client_tag :: u64

record PayloadResult =
  pr_status :: ProtocolStatus
  pr_accepted_bytes :: u32
  pr_client_tag :: u64

record CompletionRecord =
  co_type :: CompletionType
  co_flow :: flow
  co_flow_kind :: FlowKind
  co_flow_state :: FlowState
  co_terminal_reason :: FlowTerminalReason
  co_payload_offset :: u32
  co_payload_size :: u32

text \<open>A receive: the code, the status, the records, and the bytes written to the caller's array.\<close>

record receive_answer =
  ra_rc :: u32
  ra_status :: ProtocolStatus
  ra_records :: "CompletionRecord list"
  ra_bytes :: "u8 list"

record tun_api =
  TunApiVersion :: u32
  ConnectedIpv4Tcp :: u64 \<comment> \<open>its mask\<close>
  FlowStreamFlagRemoteWriteOpen :: u32
  FlowStreamFlagNone :: u32
  MaximumBatchEntries :: nat
  MaximumTcpWriteStorageBytes :: nat
  MaximumClientContexts :: nat
  TimedOut_rc :: u32 \<comment> \<open>\<^verbatim>\<open>KERNELRESULT(TimedOut)\<close>\<close>
  reason_number :: "FlowTerminalReason \<Rightarrow> u32"

subsection \<open>Calls and their results\<close>

type_synonym tun_session = nat

datatype tun_event =
  Tn_present u32 bool
| Tn_root_open u32
| Tn_root_capabilities u32 Capabilities
| Tn_open_client u32 tun_session
| Tn_clone_client tun_session u32 tun_session
| Tn_close_client tun_session
| Tn_capabilities tun_session u32 Capabilities
| Tn_routing tun_session u32 RoutingPolicySnapshot
| Tn_get_event tun_session u32 u32
| Tn_load_event u32
| Tn_close_event u32
| Tn_wait u32 u64 u32
| Tn_receive tun_session receive_answer
| Tn_open_flow tun_session OpenConnectedFlowRequest u32 OpenConnectedFlowResult
| Tn_flow_state tun_session flow u32 FlowStateResult
| Tn_close_flow tun_session flow u32 ProtocolStatus
| Tn_send tun_session PayloadRange "u8 list" u32 PayloadResult
| Tn_send_batch tun_session "PayloadRange list" "u8 list" u32 "PayloadResult list"
| Tn_write tun_session PayloadRange "u8 list" u32 PayloadResult
| Tn_shutdown_write tun_session flow u32 ProtocolStatus
| Tn_tick u64
| Tn_sleep u32
| Tn_log string

type_synonym tun_history = "tun_event list"
type_synonym 'a tun = "(tun_history, 'a) state"

record tun_env =
  te_present :: "tun_history \<Rightarrow> u32 \<times> u8"
  te_root_open :: "tun_history \<Rightarrow> u32"
  te_root_capabilities :: "tun_history \<Rightarrow> u32 \<times> Capabilities"
  te_open_client :: "tun_history \<Rightarrow> u32 \<times> tun_session"
  te_clone_client :: "tun_history \<Rightarrow> tun_session \<Rightarrow> u32 \<times> tun_session"
  te_capabilities :: "tun_history \<Rightarrow> tun_session \<Rightarrow> u32 \<times> Capabilities"
  te_routing :: "tun_history \<Rightarrow> tun_session \<Rightarrow> u32 \<times> RoutingPolicySnapshot"
  te_get_event :: "tun_history \<Rightarrow> tun_session \<Rightarrow> u32 \<times> u32"
  te_wait :: "tun_history \<Rightarrow> u32 \<Rightarrow> u64 \<Rightarrow> u32"
  te_receive :: "tun_history \<Rightarrow> tun_session \<Rightarrow> nat \<Rightarrow> receive_answer"
  te_open_flow :: "tun_history \<Rightarrow> tun_session \<Rightarrow> OpenConnectedFlowRequest \<Rightarrow> u32 \<times> OpenConnectedFlowResult"
  te_flow_state :: "tun_history \<Rightarrow> tun_session \<Rightarrow> flow \<Rightarrow> u32 \<times> FlowStateResult"
  te_close_flow :: "tun_history \<Rightarrow> tun_session \<Rightarrow> flow \<Rightarrow> u32 \<times> ProtocolStatus"
  te_send :: "tun_history \<Rightarrow> tun_session \<Rightarrow> PayloadRange \<Rightarrow> u8 list \<Rightarrow> u32 \<times> PayloadResult"
  te_send_batch :: "tun_history \<Rightarrow> tun_session \<Rightarrow> PayloadRange list \<Rightarrow> u8 list \<Rightarrow> u32 \<times> (nat \<Rightarrow> PayloadResult)"
  te_write :: "tun_history \<Rightarrow> tun_session \<Rightarrow> PayloadRange \<Rightarrow> u8 list \<Rightarrow> u32 \<times> PayloadResult"
  te_shutdown_write :: "tun_history \<Rightarrow> tun_session \<Rightarrow> flow \<Rightarrow> u32 \<times> ProtocolStatus"
  te_tick :: "tun_history \<Rightarrow> u64"
  te_tick_frequency :: u64
  te_inet_pton :: "string \<Rightarrow> u8 list option"
  te_ms_text :: "u64 \<Rightarrow> string"
  te_api :: tun_api

definition tn_present :: "tun_env \<Rightarrow> (u32 \<times> bool) tun" where
  "tn_present env = call (\<lambda>h. let (rc, present) = te_present env h in (rc, rc = 0 \<and> present \<noteq> 0)) (\<lambda>(rc, b). Tn_present rc b)"

definition tn_root_open :: "tun_env \<Rightarrow> u32 tun" where
  "tn_root_open env = call (te_root_open env) Tn_root_open"

definition tn_root_capabilities :: "tun_env \<Rightarrow> (u32 \<times> Capabilities) tun" where
  "tn_root_capabilities env = call (te_root_capabilities env) (\<lambda>(rc, c). Tn_root_capabilities rc c)"

definition tn_open_client :: "tun_env \<Rightarrow> (u32 \<times> tun_session) tun" where
  "tn_open_client env = call (te_open_client env) (\<lambda>(rc, s). Tn_open_client rc s)"

definition tn_clone_client :: "tun_env \<Rightarrow> tun_session \<Rightarrow> (u32 \<times> tun_session) tun" where
  "tn_clone_client env s = call (\<lambda>h. te_clone_client env h s) (\<lambda>(rc, c). Tn_clone_client s rc c)"

definition tn_close_client :: "tun_session \<Rightarrow> unit tun" where
  "tn_close_client s = call (\<lambda>_. ()) (\<lambda>_. Tn_close_client s)"

definition tn_capabilities :: "tun_env \<Rightarrow> tun_session \<Rightarrow> (u32 \<times> Capabilities) tun" where
  "tn_capabilities env s = call (\<lambda>h. te_capabilities env h s) (\<lambda>(rc, c). Tn_capabilities s rc c)"

definition tn_routing :: "tun_env \<Rightarrow> tun_session \<Rightarrow> (u32 \<times> RoutingPolicySnapshot) tun" where
  "tn_routing env s = call (\<lambda>h. te_routing env h s) (\<lambda>(rc, p). Tn_routing s rc p)"

definition tn_get_event :: "tun_env \<Rightarrow> tun_session \<Rightarrow> (u32 \<times> u32) tun" where
  "tn_get_event env s = call (\<lambda>h. te_get_event env h s) (\<lambda>(rc, e). Tn_get_event s rc e)"

definition tn_load_event :: "u32 \<Rightarrow> unit tun" where
  "tn_load_event e = call (\<lambda>_. ()) (\<lambda>_. Tn_load_event e)"

definition tn_close_event :: "u32 \<Rightarrow> unit tun" where
  "tn_close_event e = call (\<lambda>_. ()) (\<lambda>_. Tn_close_event e)"

definition tn_wait :: "tun_env \<Rightarrow> u32 \<Rightarrow> u64 \<Rightarrow> u32 tun" where
  "tn_wait env e ns = call (\<lambda>h. te_wait env h e ns) (Tn_wait e ns)"

text \<open>The service writes no more records and bytes than the caller has room for.\<close>

definition tn_receive :: "tun_env \<Rightarrow> tun_session \<Rightarrow> nat \<Rightarrow> receive_answer tun" where
  "tn_receive env s capacity = call (\<lambda>h. let a = te_receive env h s capacity
       in a\<lparr>ra_records := take (MaximumBatchEntries (te_api env)) (ra_records a), ra_bytes := take capacity (ra_bytes a)\<rparr>)
     (Tn_receive s)"

definition tn_open_flow :: "tun_env \<Rightarrow> tun_session \<Rightarrow> OpenConnectedFlowRequest \<Rightarrow> (u32 \<times> OpenConnectedFlowResult) tun" where
  "tn_open_flow env s request = call (\<lambda>h. te_open_flow env h s request) (\<lambda>(rc, r). Tn_open_flow s request rc r)"

definition tn_flow_state :: "tun_env \<Rightarrow> tun_session \<Rightarrow> flow \<Rightarrow> (u32 \<times> FlowStateResult) tun" where
  "tn_flow_state env s f = call (\<lambda>h. te_flow_state env h s f) (\<lambda>(rc, r). Tn_flow_state s f rc r)"

definition tn_close_flow :: "tun_env \<Rightarrow> tun_session \<Rightarrow> flow \<Rightarrow> (u32 \<times> ProtocolStatus) tun" where
  "tn_close_flow env s f = call (\<lambda>h. te_close_flow env h s f) (\<lambda>(rc, st). Tn_close_flow s f rc st)"

definition tn_send :: "tun_env \<Rightarrow> tun_session \<Rightarrow> PayloadRange \<Rightarrow> u8 list \<Rightarrow> (u32 \<times> PayloadResult) tun" where
  "tn_send env s rng bytes = call (\<lambda>h. te_send env h s rng bytes) (\<lambda>(rc, r). Tn_send s rng bytes rc r)"

definition tn_send_batch ::
  "tun_env \<Rightarrow> tun_session \<Rightarrow> PayloadRange list \<Rightarrow> u8 list \<Rightarrow> (u32 \<times> PayloadResult list) tun" where
  "tn_send_batch env s ranges bytes =
     call (\<lambda>h. let (rc, r) = te_send_batch env h s ranges bytes in (rc, map r [0..<length ranges]))
       (\<lambda>(rc, rs). Tn_send_batch s ranges bytes rc rs)"

definition tn_write :: "tun_env \<Rightarrow> tun_session \<Rightarrow> PayloadRange \<Rightarrow> u8 list \<Rightarrow> (u32 \<times> PayloadResult) tun" where
  "tn_write env s rng bytes = call (\<lambda>h. te_write env h s rng bytes) (\<lambda>(rc, r). Tn_write s rng bytes rc r)"

definition tn_shutdown_write :: "tun_env \<Rightarrow> tun_session \<Rightarrow> flow \<Rightarrow> (u32 \<times> ProtocolStatus) tun" where
  "tn_shutdown_write env s f = call (\<lambda>h. te_shutdown_write env h s f) (\<lambda>(rc, st). Tn_shutdown_write s f rc st)"

definition tn_tick :: "tun_env \<Rightarrow> u64 tun" where
  "tn_tick env = call (te_tick env) Tn_tick"

definition tn_sleep :: "u32 \<Rightarrow> unit tun" where
  "tn_sleep ms = call (\<lambda>_. ()) (\<lambda>_. Tn_sleep ms)"

definition tn_log :: "string \<Rightarrow> unit tun" where
  "tn_log line = call (\<lambda>_. ()) (\<lambda>_. Tn_log line)"

lemmas tn_call_defs = tn_present_def tn_root_open_def tn_root_capabilities_def tn_open_client_def tn_clone_client_def
  tn_close_client_def tn_capabilities_def tn_routing_def tn_get_event_def tn_load_event_def tn_close_event_def tn_wait_def
  tn_receive_def tn_open_flow_def tn_flow_state_def tn_close_flow_def tn_send_def tn_send_batch_def tn_write_def
  tn_shutdown_write_def tn_tick_def tn_sleep_def tn_log_def

lemma tn_emits [emit_rules]:
  "(\<And>a b. P (Tn_present a b)) \<Longrightarrow> emits P (tn_present env)"
  "(\<And>a. P (Tn_root_open a)) \<Longrightarrow> emits P (tn_root_open env)"
  "(\<And>a b. P (Tn_root_capabilities a b)) \<Longrightarrow> emits P (tn_root_capabilities env)"
  "(\<And>a b. P (Tn_open_client a b)) \<Longrightarrow> emits P (tn_open_client env)"
  "(\<And>a b. P (Tn_clone_client s a b)) \<Longrightarrow> emits P (tn_clone_client env s)"
  "P (Tn_close_client s) \<Longrightarrow> emits P (tn_close_client s)"
  "(\<And>a b. P (Tn_capabilities s a b)) \<Longrightarrow> emits P (tn_capabilities env s)"
  "(\<And>a b. P (Tn_routing s a b)) \<Longrightarrow> emits P (tn_routing env s)"
  "(\<And>a b. P (Tn_get_event s a b)) \<Longrightarrow> emits P (tn_get_event env s)"
  "P (Tn_load_event e) \<Longrightarrow> emits P (tn_load_event e)"
  "P (Tn_close_event e) \<Longrightarrow> emits P (tn_close_event e)"
  "(\<And>a. P (Tn_wait e ns a)) \<Longrightarrow> emits P (tn_wait env e ns)"
  "(\<And>a. P (Tn_receive s a)) \<Longrightarrow> emits P (tn_receive env s capacity)"
  "(\<And>a b. P (Tn_open_flow s request a b)) \<Longrightarrow> emits P (tn_open_flow env s request)"
  "(\<And>a b. P (Tn_flow_state s f a b)) \<Longrightarrow> emits P (tn_flow_state env s f)"
  "(\<And>a b. P (Tn_close_flow s f a b)) \<Longrightarrow> emits P (tn_close_flow env s f)"
  "(\<And>a b. P (Tn_send s rng bytes a b)) \<Longrightarrow> emits P (tn_send env s rng bytes)"
  "(\<And>a b. P (Tn_send_batch s ranges bytes a b)) \<Longrightarrow> emits P (tn_send_batch env s ranges bytes)"
  "(\<And>a b. P (Tn_write s rng bytes a b)) \<Longrightarrow> emits P (tn_write env s rng bytes)"
  "(\<And>a b. P (Tn_shutdown_write s f a b)) \<Longrightarrow> emits P (tn_shutdown_write env s f)"
  "(\<And>a. P (Tn_tick a)) \<Longrightarrow> emits P (tn_tick env)"
  "P (Tn_sleep ms) \<Longrightarrow> emits P (tn_sleep ms)"
  "P (Tn_log line) \<Longrightarrow> emits P (tn_log line)"
  unfolding tn_call_defs by (auto intro!: emits_call split: prod.splits)

subsection \<open>Flows and completion events\<close>

text \<open>
  The flows a history leaves open: the service opens one when it reports success, and it is
  given up by \<^verbatim>\<open>CloseFlow\<close>, whatever that answers. The scenarios take a flow for their own
  when it was also published with a local endpoint; the accounts of the published flows and of
  those without an endpoint add up to that of all the flows.
\<close>

definition opened_flow :: "u32 \<Rightarrow> OpenConnectedFlowResult \<Rightarrow> bool" where
  "opened_flow rc opened \<longleftrightarrow> \<not> failed rc \<and> op_status opened = Success"

definition published :: "u32 \<Rightarrow> OpenConnectedFlowResult \<Rightarrow> bool" where
  "published rc opened \<longleftrightarrow> \<not> failed rc \<and> op_status opened = Success \<and> op_local_port opened \<noteq> 0"

fun flow_step :: "tun_event \<Rightarrow> flow set \<Rightarrow> flow set" where
  "flow_step (Tn_open_flow s request rc opened) fs =
     (if opened_flow rc opened \<and> op_flow opened \<noteq> 0 then insert (op_flow opened) fs else fs)"
| "flow_step (Tn_close_flow s f rc st) fs = fs - {f}"
| "flow_step _ fs = fs"

definition open_flow_handles :: "tun_history \<Rightarrow> flow set" where
  "open_flow_handles h = fold flow_step h {}"

fun published_step :: "tun_event \<Rightarrow> flow set \<Rightarrow> flow set" where
  "published_step (Tn_open_flow s request rc opened) fs =
     (if published rc opened \<and> op_flow opened \<noteq> 0 then insert (op_flow opened) fs else fs)"
| "published_step (Tn_close_flow s f rc st) fs = fs - {f}"
| "published_step _ fs = fs"

definition published_handles :: "tun_history \<Rightarrow> flow set" where
  "published_handles h = fold published_step h {}"

fun endpointless_step :: "tun_event \<Rightarrow> flow set \<Rightarrow> flow set" where
  "endpointless_step (Tn_open_flow s request rc opened) fs =
     (if opened_flow rc opened \<and> op_local_port opened = 0 \<and> op_flow opened \<noteq> 0 then insert (op_flow opened) fs else fs)"
| "endpointless_step (Tn_close_flow s f rc st) fs = fs - {f}"
| "endpointless_step _ fs = fs"

definition endpointless_handles :: "tun_history \<Rightarrow> flow set" where
  "endpointless_handles h = fold endpointless_step h {}"

fun event_step :: "tun_event \<Rightarrow> u32 set \<Rightarrow> u32 set" where
  "event_step (Tn_load_event e) es = insert e es"
| "event_step (Tn_close_event e) es = es - {e}"
| "event_step _ es = es"

definition loaded_events :: "tun_history \<Rightarrow> u32 set" where
  "loaded_events h = fold event_step h {}"

lemma account_simps [simp]:
  "open_flow_handles [] = {}" "open_flow_handles (h @ es) = fold flow_step es (open_flow_handles h)"
  "published_handles [] = {}" "published_handles (h @ es) = fold published_step es (published_handles h)"
  "endpointless_handles [] = {}" "endpointless_handles (h @ es) = fold endpointless_step es (endpointless_handles h)"
  "loaded_events [] = {}" "loaded_events (h @ es) = fold event_step es (loaded_events h)"
  by (simp_all add: open_flow_handles_def published_handles_def endpointless_handles_def loaded_events_def)

lemma open_flow_handles_split: "open_flow_handles h = published_handles h \<union> endpointless_handles h"
proof (induction h rule: rev_induct)
  case (snoc e h)
  then show ?case by (cases e) (auto simp: opened_flow_def published_def)
qed simp

text \<open>Events that leave both accounts alone.\<close>

fun plain :: "tun_event \<Rightarrow> bool" where
  "plain (Tn_open_flow s request rc opened) = False"
| "plain (Tn_close_flow s f rc st) = False"
| "plain (Tn_load_event e) = False"
| "plain (Tn_close_event e) = False"
| "plain _ = True"

lemma plain_steps: "plain e \<Longrightarrow> published_step e fs = fs" "plain e \<Longrightarrow> event_step e es = es"
  by (cases e; simp)+

interpretation published: account published_step plain
  by unfold_locales (rule plain_steps)

interpretation loaded: account event_step plain
  by unfold_locales (rule plain_steps)

lemma plain_run:
  assumes "emits plain m" "run_state m h = (a, h')"
  shows "published_handles h' = published_handles h \<and> loaded_events h' = loaded_events h"
  unfolding published_handles_def loaded_events_def
  using published.silent_run [OF assms] loaded.silent_run [OF assms] by blast

text \<open>The service went away: a call on a session of this scenario failed.\<close>

definition service_gone :: "tun_history \<Rightarrow> bool" where
  "service_gone h \<longleftrightarrow> (\<exists>e \<in> set h. case e of
     Tn_receive s a \<Rightarrow> failed (ra_rc a)
   | Tn_send s r bytes rc result \<Rightarrow> failed rc
   | _ \<Rightarrow> False)"

lemma service_gone_simps [simp]: "service_gone (h @ es) \<longleftrightarrow> service_gone h \<or> service_gone es" "\<not> service_gone []"
  by (auto simp: service_gone_def)

end
