(* ===== verification/TunnelWaits.thy ===== *)
theory TunnelWaits
  imports TunnelWorld
begin

text \<open>
  Waiting for completions (\<^verbatim>\<open>WaitForEcho\<close>, \<^verbatim>\<open>WaitForWritable\<close> and \<^verbatim>\<open>WaitForTcpProgress\<close> of
  \<^verbatim>\<open>toolbox/src/wgnx_tunnel_scenario.cpp\<close>): wait for the event until a deadline, then receive
  batches of records until the queue is empty, and look for the record that is due.
\<close>

definition TcpExpectedReply :: "u8 list" where
  "TcpExpectedReply = map of_char (''NXRV TCP ACK'' @ [CHR 0x0D, CHR 0x0A])"

record CompletionWaitResult =
  cw_rc :: u32
  cw_received_expected :: bool
  cw_writable :: bool
  cw_terminal :: bool
  cw_service_lost :: bool
  cw_open :: bool
  cw_remote_write_closed :: bool
  cw_deadline_expired :: bool
  cw_malformed_reply :: bool
  cw_premature_eof :: bool
  cw_terminal_reason :: FlowTerminalReason
  cw_ignored :: u32
  cw_wake_count :: u32
  cw_detail :: string

definition new_wait :: CompletionWaitResult where
  "new_wait = \<lparr>cw_rc = 0, cw_received_expected = False, cw_writable = False, cw_terminal = False, cw_service_lost = False,
     cw_open = False, cw_remote_write_closed = False, cw_deadline_expired = False, cw_malformed_reply = False,
     cw_premature_eof = False, cw_terminal_reason = NoReason, cw_ignored = 0, cw_wake_count = 0, cw_detail = []\<rparr>"

definition DeadlineAfterMilliseconds :: "tun_env \<Rightarrow> u32 \<Rightarrow> u64 tun" where
  "DeadlineAfterMilliseconds env timeout_ms = do {
     now \<leftarrow> tn_tick env;
     State_Monad.return (now + te_tick_frequency env * ucast timeout_ms div 1000)
   }"

definition remaining_ns :: "u64 \<Rightarrow> u64 \<Rightarrow> u64 \<Rightarrow> u64" where
  "remaining_ns frequency deadline now = (deadline - now) * 1000000000 div frequency"

definition IsMatchingPayload :: "u8 list \<Rightarrow> u8 list \<Rightarrow> bool" where
  "IsMatchingPayload actual expected \<longleftrightarrow> length actual = length expected \<and> actual = expected"

subsection \<open>The loop the waits share\<close>

text \<open>
  The variables of a wait; the two nested loops of the code are one loop here, and
  \<open>ws_draining\<close> says that the inner one is running. \<open>ws_reply\<close> are the bytes of the reply
  array that are filled.
\<close>

record wait_state =
  ws_draining :: bool
  ws_result :: CompletionWaitResult
  ws_storage :: "u8 list"
  ws_reply :: "u8 list"

definition new_wait_state :: "nat \<Rightarrow> wait_state" where
  "new_wait_state storage_size = \<lparr>ws_draining = False, ws_result = new_wait, ws_storage = replicate storage_size 0, ws_reply = []\<rparr>"

text \<open>Where the three waits differ.\<close>

record wait_style =
  wt_wait_failed :: "u32 \<Rightarrow> CompletionWaitResult \<Rightarrow> CompletionWaitResult"
  wt_lost_text :: string
  wt_status_text :: string
  wt_expired :: "CompletionWaitResult \<Rightarrow> CompletionWaitResult"
  wt_records :: "CompletionRecord list \<Rightarrow> wait_state \<Rightarrow> (CompletionWaitResult + wait_state) tun"

text \<open>The outer loop: the deadline, then the event.\<close>

definition await_event :: "tun_env \<Rightarrow> wait_style \<Rightarrow> u32 \<Rightarrow> u64 \<Rightarrow> wait_state \<Rightarrow> (CompletionWaitResult + wait_state) tun" where
  "await_event env style event deadline st = do {
     now \<leftarrow> tn_tick env;
     if deadline \<le> now then State_Monad.return (Inl (wt_expired style (ws_result st)))
     else do {
       later \<leftarrow> tn_tick env;
       rc \<leftarrow> tn_wait env event (remaining_ns (te_tick_frequency env) deadline later);
       State_Monad.return
         (if failed rc then Inl (wt_wait_failed style rc (ws_result st))
          else Inr (st\<lparr>ws_draining := True, ws_result := (ws_result st)\<lparr>cw_wake_count := cw_wake_count (ws_result st) + 1\<rparr>\<rparr>))
     }
   }"

text \<open>The inner loop: one receive and its records.\<close>

definition overwrite :: "u8 list \<Rightarrow> u8 list \<Rightarrow> u8 list" where
  "overwrite bytes storage = bytes @ drop (length bytes) storage"

definition receive_batch :: "tun_env \<Rightarrow> wait_style \<Rightarrow> tun_session \<Rightarrow> wait_state \<Rightarrow> (CompletionWaitResult + wait_state) tun" where
  "receive_batch env style s st = do {
     answer \<leftarrow> tn_receive env s (length (ws_storage st));
     let st = st\<lparr>ws_storage := overwrite (ra_bytes answer) (ws_storage st)\<rparr>;
     let result = ws_result st;
     if failed (ra_rc answer) then
       State_Monad.return (Inl (result\<lparr>cw_terminal := True, cw_service_lost := True, cw_rc := ra_rc answer,
         cw_detail := wt_lost_text style @ FormatResult (ra_rc answer)\<rparr>))
     else if ra_status answer = QueueEmpty then State_Monad.return (Inr (st\<lparr>ws_draining := False\<rparr>))
     else if ra_status answer \<noteq> Success then
       State_Monad.return (Inl (result\<lparr>cw_detail := wt_status_text style @ StatusName (ra_status answer)\<rparr>))
     else wt_records style (ra_records answer) st
   }"

definition wait_turn ::
  "tun_env \<Rightarrow> wait_style \<Rightarrow> tun_session \<Rightarrow> u32 \<Rightarrow> u64 \<Rightarrow> wait_state \<Rightarrow> (CompletionWaitResult + wait_state) tun" where
  "wait_turn env style s event deadline st =
     (if ws_draining st then receive_batch env style s st else await_event env style event deadline st)"

definition wait_loop ::
  "tun_env \<Rightarrow> wait_style \<Rightarrow> tun_session \<Rightarrow> u32 \<Rightarrow> nat \<Rightarrow> u32 \<Rightarrow> CompletionWaitResult option tun" where
  "wait_loop env style s event storage_size timeout_ms = do {
     deadline \<leftarrow> DeadlineAfterMilliseconds env timeout_ms;
     repeat_turns (wait_turn env style s event deadline) (new_wait_state storage_size)
   }"

definition count_ignored :: "wait_state \<Rightarrow> wait_state" where
  "count_ignored st = st\<lparr>ws_result := (ws_result st)\<lparr>cw_ignored := cw_ignored (ws_result st) + 1\<rparr>\<rparr>"

definition event_wait_failed :: "string \<Rightarrow> u32 \<Rightarrow> CompletionWaitResult \<Rightarrow> CompletionWaitResult" where
  "event_wait_failed text rc result = result\<lparr>cw_rc := rc, cw_detail := text @ FormatResult rc\<rparr>"

text \<open>The record is in bounds of the array the bytes were received in.\<close>

definition in_storage :: "CompletionRecord \<Rightarrow> u8 list \<Rightarrow> bool" where
  "in_storage c storage \<longleftrightarrow> unat (co_payload_offset c) \<le> length storage
     \<and> unat (co_payload_size c) \<le> length storage - unat (co_payload_offset c)"

definition payload_at :: "CompletionRecord \<Rightarrow> u8 list \<Rightarrow> u8 list" where
  "payload_at c storage = take (unat (co_payload_size c)) (drop (unat (co_payload_offset c)) storage)"

definition flow_terminal :: "tun_env \<Rightarrow> CompletionRecord \<Rightarrow> CompletionWaitResult \<Rightarrow> CompletionWaitResult" where
  "flow_terminal env c result = result\<lparr>cw_terminal := True,
     cw_detail := ''flow terminal='' @ to_string (reason_number (te_api env) (co_terminal_reason c))\<rparr>"

subsection \<open>The echo of a datagram\<close>

fun echo_records ::
  "tun_env \<Rightarrow> flow \<Rightarrow> u8 list \<Rightarrow> CompletionRecord list \<Rightarrow> wait_state \<Rightarrow> CompletionWaitResult + wait_state" where
  "echo_records env f expected [] st = Inr st"
| "echo_records env f expected (c # cs) st =
     (if co_type c = FlowStateChanged \<and> co_flow c = f then Inl (flow_terminal env c (ws_result st))
      else if co_type c \<noteq> InboundUdpDatagram \<or> co_flow c \<noteq> f \<or> \<not> in_storage c (ws_storage st) then
        echo_records env f expected cs (count_ignored st)
      else if IsMatchingPayload (payload_at c (ws_storage st)) expected then
        Inl ((ws_result st)\<lparr>cw_received_expected := True\<rparr>)
      else echo_records env f expected cs (count_ignored st))"

definition lost_text :: string where
  "lost_text = ''wgnx:tun service closed after completion wake ReceiveCompletions CMIF rc=''"

definition echo_style :: "tun_env \<Rightarrow> flow \<Rightarrow> u8 list \<Rightarrow> wait_style" where
  "echo_style env f expected = \<lparr>wt_wait_failed = event_wait_failed ''completion event wait rc='', wt_lost_text = lost_text,
     wt_status_text = ''ReceiveCompletions status='',
     wt_expired = (\<lambda>result. result\<lparr>cw_detail := ''completion deadline expired''\<rparr>),
     wt_records = (\<lambda>cs st. State_Monad.return (echo_records env f expected cs st))\<rparr>"

definition WaitForEcho ::
  "tun_env \<Rightarrow> tunnel_limits \<Rightarrow> tun_session \<Rightarrow> u32 \<Rightarrow> flow \<Rightarrow> u8 list \<Rightarrow> u32 \<Rightarrow> CompletionWaitResult option tun" where
  "WaitForEcho env lim s event f expected timeout_ms =
     wait_loop env (echo_style env f expected) s event (unat (MaximumUdpPayloadStorageBytes lim)) timeout_ms"

subsection \<open>Room in the queue\<close>

fun writable_records :: "tun_env \<Rightarrow> flow \<Rightarrow> CompletionRecord list \<Rightarrow> wait_state \<Rightarrow> CompletionWaitResult + wait_state" where
  "writable_records env f [] st = Inr st"
| "writable_records env f (c # cs) st =
     (if co_type c = FlowStateChanged \<and> co_flow c = f then Inl (flow_terminal env c (ws_result st))
      else if co_type c = WritableAgain \<and> co_flow c = f then Inl ((ws_result st)\<lparr>cw_writable := True\<rparr>)
      else writable_records env f cs (count_ignored st))"

definition writable_style :: "tun_env \<Rightarrow> flow \<Rightarrow> wait_style" where
  "writable_style env f = \<lparr>wt_wait_failed = event_wait_failed ''completion event wait rc='', wt_lost_text = lost_text,
     wt_status_text = ''ReceiveCompletions status='',
     wt_expired = (\<lambda>result. result\<lparr>cw_detail := ''writable completion deadline expired''\<rparr>),
     wt_records = (\<lambda>cs st. State_Monad.return (writable_records env f cs st))\<rparr>"

definition WaitForWritable ::
  "tun_env \<Rightarrow> tunnel_limits \<Rightarrow> tun_session \<Rightarrow> u32 \<Rightarrow> flow \<Rightarrow> u32 \<Rightarrow> CompletionWaitResult option tun" where
  "WaitForWritable env lim s event f timeout_ms =
     wait_loop env (writable_style env f) s event (unat (MaximumUdpPayloadStorageBytes lim)) timeout_ms"

subsection \<open>Progress of a TCP flow\<close>

text \<open>A change of the flow's state: closed ends the wait, any other state is asked for.\<close>

definition tcp_state_changed ::
  "tun_env \<Rightarrow> tun_session \<Rightarrow> flow \<Rightarrow> CompletionRecord \<Rightarrow> CompletionWaitResult
     \<Rightarrow> (CompletionWaitResult + CompletionWaitResult) tun" where
  "tcp_state_changed env s f c result =
     (if co_flow_state c = FlowEnded then
        State_Monad.return (Inl (result\<lparr>cw_terminal := True, cw_terminal_reason := co_terminal_reason c,
          cw_detail := ''TCP flow terminal='' @ TerminalReasonName (co_terminal_reason c)\<rparr>))
      else do {
        let result = result\<lparr>cw_open := (co_flow_state c = FlowOpen)\<rparr>;
        (state_rc, state) \<leftarrow> tn_flow_state env s f;
        State_Monad.return
          (if failed state_rc \<or> fs_status state \<noteq> Success then
             Inl (result\<lparr>cw_rc := state_rc,
               cw_detail := (if failed state_rc then ''GetFlowState CMIF failure''
                             else ''GetFlowState status='' @ StatusName (fs_status state))\<rparr>)
           else Inr (result\<lparr>cw_remote_write_closed :=
             (fs_stream_flags state AND FlowStreamFlagRemoteWriteOpen (te_api env) = FlowStreamFlagNone (te_api env))\<rparr>))
      })"

fun tcp_records ::
  "tun_env \<Rightarrow> tun_session \<Rightarrow> flow \<Rightarrow> CompletionRecord list \<Rightarrow> wait_state \<Rightarrow> (CompletionWaitResult + wait_state) tun" where
  "tcp_records env s f [] st = State_Monad.return (Inr st)"
| "tcp_records env s f (c # cs) st =
     (if co_flow c \<noteq> f \<or> co_flow_kind c \<noteq> TcpFlow then tcp_records env s f cs (count_ignored st)
      else if co_type c = FlowStateChanged then do {
        changed \<leftarrow> tcp_state_changed env s f c (ws_result st);
        (case changed of
           Inl result \<Rightarrow> State_Monad.return (Inl result)
         | Inr result \<Rightarrow> tcp_records env s f cs (st\<lparr>ws_result := result\<rparr>))
      }
      else if co_type c \<noteq> InboundTcpStream \<or> \<not> in_storage c (ws_storage st) then
        tcp_records env s f cs (count_ignored st)
      else if length TcpExpectedReply < length (ws_reply st) + unat (co_payload_size c) then
        tcp_records env s f cs (st\<lparr>ws_result := (ws_result st)\<lparr>cw_malformed_reply := True\<rparr>\<rparr>)
      else tcp_records env s f cs (st\<lparr>ws_reply := ws_reply st @ payload_at c (ws_storage st)\<rparr>))"

text \<open>The checks after the records of a batch.\<close>

definition tcp_check :: "bool \<Rightarrow> bool \<Rightarrow> bool \<Rightarrow> wait_state \<Rightarrow> CompletionWaitResult + wait_state" where
  "tcp_check require_open require_reply require_remote_write_closed st =
     (let reply_full = (length (ws_reply st) = length TcpExpectedReply);
          reply_valid = (reply_full \<and> ws_reply st = TcpExpectedReply);
          result = (if require_reply \<and> reply_full \<and> \<not> reply_valid then (ws_result st)\<lparr>cw_malformed_reply := True\<rparr>
                    else ws_result st)
      in if require_reply \<and> cw_remote_write_closed result \<and> \<not> reply_valid then
           Inl (result\<lparr>cw_premature_eof := \<not> cw_malformed_reply result,
             cw_detail := (if cw_malformed_reply result then ''TCP malformed reply before remote EOF''
                           else ''TCP premature remote EOF'')\<rparr>)
         else if cw_malformed_reply result then Inl (result\<lparr>cw_detail := ''TCP malformed reply''\<rparr>)
         else if require_open \<and> \<not> cw_open result \<or> require_reply \<and> \<not> reply_valid
             \<or> require_remote_write_closed \<and> \<not> cw_remote_write_closed result then
           Inr (st\<lparr>ws_result := result\<rparr>)
         else Inl (result\<lparr>cw_received_expected := True\<rparr>))"

definition tcp_expired_text :: "bool \<Rightarrow> string" where
  "tcp_expired_text require_open = (if require_open then ''TCP connect deadline expired'' else ''TCP reply deadline expired'')"

definition tcp_style :: "tun_env \<Rightarrow> tun_session \<Rightarrow> flow \<Rightarrow> bool \<Rightarrow> bool \<Rightarrow> bool \<Rightarrow> wait_style" where
  "tcp_style env s f require_open require_reply require_remote_write_closed =
     \<lparr>wt_wait_failed = (\<lambda>rc result.
        if rc = TimedOut_rc (te_api env) then
          result\<lparr>cw_rc := rc, cw_deadline_expired := True, cw_detail := tcp_expired_text require_open\<rparr>
        else event_wait_failed ''TCP completion event wait rc='' rc result),
      wt_lost_text = ''wgnx:tun service closed after TCP completion wake ReceiveCompletions CMIF rc='',
      wt_status_text = ''TCP ReceiveCompletions status='',
      wt_expired = (\<lambda>result. result\<lparr>cw_deadline_expired := True, cw_detail := tcp_expired_text require_open\<rparr>),
      wt_records = (\<lambda>cs st. do {
        read \<leftarrow> tcp_records env s f cs st;
        State_Monad.return (case read of
            Inl result \<Rightarrow> Inl result
          | Inr st \<Rightarrow> tcp_check require_open require_reply require_remote_write_closed st)
      })\<rparr>"

definition WaitForTcpProgress ::
  "tun_env \<Rightarrow> tun_session \<Rightarrow> u32 \<Rightarrow> flow \<Rightarrow> bool \<Rightarrow> bool \<Rightarrow> bool \<Rightarrow> u32 \<Rightarrow> CompletionWaitResult option tun" where
  "WaitForTcpProgress env s event f require_open require_reply require_remote_write_closed timeout_ms =
     wait_loop env (tcp_style env s f require_open require_reply require_remote_write_closed) s event
       (MaximumTcpWriteStorageBytes (te_api env)) timeout_ms"

end
