(* ===== verification/TunnelTcp.thy ===== *)
theory TunnelTcp
  imports TunnelWaits
begin

text \<open>
  The TCP exchange through the tunnel (\<^verbatim>\<open>RunWgnxTunnelTcpExchange\<close> of
  \<^verbatim>\<open>toolbox/src/wgnx_tunnel_scenario.cpp\<close>): open a flow, wait until it is connected, write
  the request, close the write side, and wait for the reply and the end of the stream.
\<close>

text \<open>Ends the scenario with a result; the flow and the event are given up first.\<close>

definition drop_flow :: "tun_env \<Rightarrow> tun_session \<Rightarrow> flow \<Rightarrow> ScenarioResult \<Rightarrow> ScenarioResult option tun" where
  "drop_flow env s f result = do {
     tn_close_flow env s f;
     State_Monad.return (Some result)
   }"

definition drop_flow_event :: "tun_env \<Rightarrow> tun_session \<Rightarrow> u32 \<Rightarrow> flow \<Rightarrow> ScenarioResult \<Rightarrow> ScenarioResult option tun" where
  "drop_flow_event env s event f result = do {
     tn_close_flow env s f;
     tn_close_event event;
     State_Monad.return (Some result)
   }"

definition tcp_request :: "u32 \<Rightarrow> u8 list" where
  "tcp_request workload_id = map of_char (''NXRV TCP '' @ to_string workload_id @ [CHR 0x0D, CHR 0x0A])"

text \<open>The last step: close the flow and report.\<close>

definition finish_tcp ::
  "tun_env \<Rightarrow> tun_session \<Rightarrow> flow \<Rightarrow> Capabilities \<Rightarrow> FlowStateResult \<Rightarrow> PayloadResult \<Rightarrow> u32 \<Rightarrow> nat \<Rightarrow> ScenarioResult
     \<Rightarrow> ScenarioResult option tun" where
  "finish_tcp env s f capabilities state write wakes request_size result = do {
     (close_rc, close_status) \<leftarrow> tn_close_flow env s f;
     State_Monad.return (Some
       (if failed close_rc \<or> close_status \<noteq> Success then
          result\<lparr>sr_rc := close_rc,
            sr_detail := (if failed close_rc then ''CloseFlow CMIF failure'' else ''CloseFlow status='' @ StatusName close_status)\<rparr>
        else result\<lparr>sr_success := True, sr_bytes_sent := request_size, sr_bytes_received := length TcpExpectedReply,
          sr_detail := ''api='' @ to_string (api_version capabilities)
            @ '' virtual_local_port='' @ to_string (fs_local_port state) @ '' accepted='' @ to_string (pr_accepted_bytes write)
            @ '' event_wakes='' @ to_string wakes @ '' reply=validated eof=observed close=ok''\<rparr>))
   }"

text \<open>The wait for the reply; the event is closed before anything else happens.\<close>

definition await_reply ::
  "tun_env \<Rightarrow> tun_session \<Rightarrow> u32 \<Rightarrow> flow \<Rightarrow> Capabilities \<Rightarrow> FlowStateResult \<Rightarrow> PayloadResult \<Rightarrow> u32 \<Rightarrow> nat \<Rightarrow> u32
     \<Rightarrow> ScenarioResult \<Rightarrow> ScenarioResult option tun" where
  "await_reply env s event f capabilities state write wakes request_size deadline_ms result =
     when_done (WaitForTcpProgress env s event f False True True deadline_ms) (\<lambda>reply. do {
       tn_close_event event;
       if \<not> cw_received_expected reply then
         drop_flow env s f (result\<lparr>sr_rc := cw_rc reply, sr_detail := ''TCP reply failure: '' @ cw_detail reply\<rparr>)
       else finish_tcp env s f capabilities state write (wakes + cw_wake_count reply) request_size result
     })"

text \<open>The request and the end of the write side.\<close>

definition exchange_tcp ::
  "tun_env \<Rightarrow> tun_session \<Rightarrow> u32 \<Rightarrow> flow \<Rightarrow> Capabilities \<Rightarrow> FlowStateResult \<Rightarrow> u32 \<Rightarrow> u32 \<Rightarrow> u32
     \<Rightarrow> ScenarioResult \<Rightarrow> ScenarioResult option tun" where
  "exchange_tcp env s event f capabilities state wakes workload_id deadline_ms result = do {
     let request = tcp_request workload_id;
     if 32 \<le> length request \<or> unat (maximum_tcp_write_bytes capabilities) < length request then
       drop_flow_event env s event f (result\<lparr>sr_detail := ''TCP request exceeds the configured stream-write bound''\<rparr>)
     else do {
       (rc, write) \<leftarrow> tn_write env s
         \<lparr>rg_flow = f, rg_offset = 0, rg_size = of_nat (length request), rg_client_tag = ucast workload_id\<rparr> request;
       if failed rc \<or> pr_status write \<noteq> Success \<or> pr_accepted_bytes write \<noteq> of_nat (length request) then
         drop_flow_event env s event f (result\<lparr>sr_rc := rc,
           sr_detail := (if failed rc then ''WriteTcpStream CMIF failure'' else ''WriteTcpStream status='' @ StatusName (pr_status write))\<rparr>)
       else do {
         (rc, shutdown_status) \<leftarrow> tn_shutdown_write env s f;
         if failed rc \<or> shutdown_status \<noteq> Success then
           drop_flow_event env s event f (result\<lparr>sr_rc := rc,
             sr_detail := (if failed rc then ''ShutdownTcpWrite CMIF failure''
                           else ''ShutdownTcpWrite status='' @ StatusName shutdown_status)\<rparr>)
         else await_reply env s event f capabilities state write wakes (length request) deadline_ms result
       }
     }
   }"

text \<open>The flow from the moment it is open.\<close>

definition connect_tcp ::
  "tun_env \<Rightarrow> tun_session \<Rightarrow> u32 \<Rightarrow> flow \<Rightarrow> Capabilities \<Rightarrow> u32 \<Rightarrow> u32 \<Rightarrow> ScenarioResult \<Rightarrow> ScenarioResult option tun" where
  "connect_tcp env s event f capabilities workload_id deadline_ms result =
     when_done (WaitForTcpProgress env s event f True False False deadline_ms) (\<lambda>connected.
       if \<not> cw_received_expected connected then
         drop_flow_event env s event f
           (result\<lparr>sr_rc := cw_rc connected, sr_detail := ''TCP connect failure: '' @ cw_detail connected\<rparr>)
       else do {
         (rc, state) \<leftarrow> tn_flow_state env s f;
         if failed rc \<or> fs_status state \<noteq> Success \<or> fs_state state \<noteq> FlowOpen \<or> fs_kind state \<noteq> TcpFlow
             \<or> fs_local_port state = 0 then
           drop_flow_event env s event f (result\<lparr>sr_rc := rc,
             sr_detail := (if failed rc then ''GetFlowState CMIF failure''
                           else ''TCP flow did not publish an open virtual local endpoint'')\<rparr>)
         else exchange_tcp env s event f capabilities state (cw_wake_count connected) workload_id deadline_ms result
       })"

text \<open>What the failure of \<^verbatim>\<open>OpenConnectedFlow\<close> is reported as.\<close>

definition open_failure :: "u32 \<Rightarrow> OpenConnectedFlowResult \<Rightarrow> string" where
  "open_failure rc opened =
     (if failed rc then ''OpenConnectedFlow CMIF failure''
      else if op_status opened \<noteq> Success then ''OpenConnectedFlow status='' @ StatusName (op_status opened)
      else ''OpenConnectedFlow did not publish a virtual local endpoint'')"

definition start_tcp_flow ::
  "tun_env \<Rightarrow> RuntimeProfile \<Rightarrow> u32 \<Rightarrow> TcpScenarioConfig \<Rightarrow> Capabilities \<Rightarrow> u8 list \<Rightarrow> tun_session \<Rightarrow> u32
     \<Rightarrow> ScenarioResult \<Rightarrow> ScenarioResult option tun" where
  "start_tcp_flow env profile workload_id config capabilities destination s event result = do {
     tn_load_event event;
     (rc, opened) \<leftarrow> tn_open_flow env s
       \<lparr>rq_address = destination, rq_port = tcp_destination_port profile, rq_kind = TcpFlow,
        rq_diagnostic_tag = ucast workload_id\<rparr>;
     if \<not> published rc opened then do {
       tn_close_event event;
       State_Monad.return (Some (result\<lparr>sr_rc := rc, sr_detail := open_failure rc opened\<rparr>))
     }
     else connect_tcp env s event (op_flow opened) capabilities workload_id (tcp_receive_deadline_ms config) result
   }"

definition open_tcp_flow ::
  "tun_env \<Rightarrow> RuntimeProfile \<Rightarrow> u32 \<Rightarrow> TcpScenarioConfig \<Rightarrow> Capabilities \<Rightarrow> u8 list \<Rightarrow> ScenarioResult
     \<Rightarrow> ScenarioResult option tun" where
  "open_tcp_flow env profile workload_id config capabilities destination result = do {
     (rc, s) \<leftarrow> tn_open_client env;
     if failed rc then State_Monad.return (Some (result\<lparr>sr_rc := rc, sr_detail := ''OpenTunnelClient CMIF failure''\<rparr>))
     else do {
       (rc, event) \<leftarrow> tn_get_event env s;
       if failed rc then State_Monad.return (Some (result\<lparr>sr_rc := rc, sr_detail := ''GetCompletionEvent CMIF failure''\<rparr>))
       else start_tcp_flow env profile workload_id config capabilities destination s event result
     }
   }"

text \<open>The service and what it can do.\<close>

definition RunWgnxTunnelTcpExchange ::
  "tun_env \<Rightarrow> RuntimeProfile \<Rightarrow> u32 \<Rightarrow> TcpScenarioConfig \<Rightarrow> ScenarioResult option tun" where
  "RunWgnxTunnelTcpExchange env profile workload_id config = do {
     let result = new_result ''wgnx_tunnel_tcp_exchange'';
     (rc, present) \<leftarrow> tn_present env;
     if failed rc \<or> \<not> present then
       State_Monad.return (Some (result\<lparr>sr_rc := rc,
         sr_detail := (if failed rc then ''wgnx:tun availability query failed'' else ''wgnx:tun is not running'')\<rparr>))
     else do {
       rc \<leftarrow> tn_root_open env;
       if failed rc then State_Monad.return (Some (result\<lparr>sr_rc := rc, sr_detail := ''wgnx:tun root open failure''\<rparr>))
       else do {
         (rc, capabilities) \<leftarrow> tn_root_capabilities env;
         if failed rc then State_Monad.return (Some (result\<lparr>sr_rc := rc, sr_detail := ''GetCapabilities CMIF failure''\<rparr>))
         else if api_version capabilities \<noteq> TunApiVersion (te_api env) then
           State_Monad.return (Some (result\<lparr>sr_detail := ''API mismatch compiled='' @ to_string (TunApiVersion (te_api env))
             @ '' actual='' @ to_string (api_version capabilities)\<rparr>))
         else if capability_mask capabilities AND ConnectedIpv4Tcp (te_api env) = 0 then
           State_Monad.return (Some (result\<lparr>sr_detail := ''connected TCP capability unavailable''\<rparr>))
         else (case te_inet_pton env (tunnel_destination_ipv4 profile) of
             None \<Rightarrow> State_Monad.return (Some (result\<lparr>sr_detail := ''invalid configured tunnel TCP destination''\<rparr>))
           | Some destination \<Rightarrow> open_tcp_flow env profile workload_id config capabilities destination result)
       }
     }
   }"

end
