(* ===== verification/TunnelUdp.thy ===== *)
theory TunnelUdp
  imports TunnelTcp BsdUdp
begin

text \<open>
  The UDP workload through the tunnel (\<^verbatim>\<open>RunWgnxTunnelUdpWorkload\<close> of
  \<^verbatim>\<open>toolbox/src/wgnx_tunnel_scenario.cpp\<close>): several flows, numbered payloads, a bounded number
  of retries while the queue is full, and an echo for every datagram.
\<close>

subsection \<open>The flows\<close>

definition udp_request :: "TunnelUdpWorkloadConfig \<Rightarrow> u8 list \<Rightarrow> u32 \<Rightarrow> OpenConnectedFlowRequest" where
  "udp_request config destination tag = \<lparr>rq_address = destination, rq_port = tw_destination_port config, rq_kind = UdpFlow,
     rq_diagnostic_tag = push_bit 32 (ucast (tw_workload_id config)) OR ucast tag\<rparr>"

text \<open>Opens as many flows as are asked for; gives those opened, and the result of the one that failed.\<close>

fun open_udp_flows ::
  "tun_env \<Rightarrow> tun_session \<Rightarrow> TunnelUdpWorkloadConfig \<Rightarrow> u8 list \<Rightarrow> nat list \<Rightarrow> flow list \<Rightarrow> ScenarioResult
     \<Rightarrow> (bool \<times> ScenarioResult \<times> flow list) tun" where
  "open_udp_flows env s config destination [] flows result = State_Monad.return (True, result, flows)"
| "open_udp_flows env s config destination (i # is) flows result = do {
     (rc, opened) \<leftarrow> tn_open_flow env s (udp_request config destination (of_nat i));
     if \<not> published rc opened then
       State_Monad.return (False, result\<lparr>sr_rc := rc, sr_detail := open_failure rc opened\<rparr>, flows)
     else open_udp_flows env s config destination is (flows @ [op_flow opened]) result
   }"

fun close_flows :: "tun_env \<Rightarrow> tun_session \<Rightarrow> flow list \<Rightarrow> unit tun" where
  "close_flows env s [] = State_Monad.return ()"
| "close_flows env s (f # fs) = do { tn_close_flow env s f; close_flows env s fs }"

definition close_text :: "u32 \<Rightarrow> ProtocolStatus \<Rightarrow> string" where
  "close_text rc st = ''scenario=wgnx_tunnel_udp_workload close rc='' @ FormatResult rc @ '' status='' @ StatusName st"

fun close_flows_logged :: "tun_env \<Rightarrow> tun_session \<Rightarrow> flow list \<Rightarrow> unit tun" where
  "close_flows_logged env s [] = State_Monad.return ()"
| "close_flows_logged env s (f # fs) = do {
     (close_rc, close_status) \<leftarrow> tn_close_flow env s f;
     tn_log (close_text close_rc close_status);
     close_flows_logged env s fs
   }"

subsection \<open>One datagram\<close>

record tunnel_workload =
  tu_result :: ScenarioResult
  tu_metrics :: UdpWorkloadMetrics
  tu_accepted :: u32
  tu_echoed :: u32
  tu_ignored :: u32
  tu_wakes :: u32
  tu_queue_full :: u32
  tu_lost :: bool
  tu_storage :: "u8 list"

definition new_tunnel_workload :: "nat \<Rightarrow> ScenarioResult \<Rightarrow> tunnel_workload" where
  "new_tunnel_workload storage_size result = \<lparr>tu_result = result, tu_metrics = new_metrics, tu_accepted = 0, tu_echoed = 0,
     tu_ignored = 0, tu_wakes = 0, tu_queue_full = 0, tu_lost = False, tu_storage = replicate storage_size 0\<rparr>"

definition tu_payload :: "TunnelUdpWorkloadConfig \<Rightarrow> tunnel_workload \<Rightarrow> u8 list" where
  "tu_payload config w = take (unat (tw_payload_bytes config)) (tu_storage w)"

definition tu_fail :: "u32 \<Rightarrow> string \<Rightarrow> tunnel_workload \<Rightarrow> tunnel_workload" where
  "tu_fail rc detail w = w\<lparr>tu_result := (tu_result w)\<lparr>sr_rc := rc, sr_detail := detail\<rparr>\<rparr>"

definition count_wait :: "CompletionWaitResult \<Rightarrow> tunnel_workload \<Rightarrow> tunnel_workload" where
  "count_wait wait w = w\<lparr>tu_ignored := tu_ignored w + cw_ignored wait, tu_wakes := tu_wakes w + cw_wake_count wait\<rparr>"

definition retry_text :: "nat \<Rightarrow> tunnel_workload \<Rightarrow> u32 \<Rightarrow> string" where
  "retry_text seq w retries = '' sequence='' @ show_dec seq @ '' queue_full_events='' @ to_string (tu_queue_full w)
     @ '' retries_for_datagram='' @ to_string retries"

text \<open>
  One turn of the loop that sends a datagram: it ends with a flag that says whether the service
  took the datagram, or goes on after the queue has room again. \<open>None\<close> stands for a wait that
  does not end.
\<close>

definition tunnel_send_turn ::
  "tun_env \<Rightarrow> tunnel_limits \<Rightarrow> tun_session \<Rightarrow> u32 \<Rightarrow> flow \<Rightarrow> PayloadRange \<Rightarrow> u8 list \<Rightarrow> nat \<Rightarrow> u32
     \<Rightarrow> tunnel_workload \<times> u32 \<Rightarrow> ((bool \<times> tunnel_workload) option + tunnel_workload \<times> u32) tun" where
  "tunnel_send_turn env lim s event f descriptor payload seq deadline_ms = (\<lambda>(w, retries). do {
     (rc, disposition) \<leftarrow> tn_send env s descriptor payload;
     if failed rc then
       State_Monad.return (Inl (Some (False, (tu_fail rc
         (''wgnx:tun service closed during SendUdpDatagram CMIF rc='' @ FormatResult rc) w)\<lparr>tu_lost := True\<rparr>)))
     else if pr_status disposition = Success then State_Monad.return (Inl (Some (True, w)))
     else if pr_status disposition \<noteq> QueueFull \<or> retries = MaximumQueueFullRetriesPerDatagram then
       State_Monad.return (Inl (Some (False, w\<lparr>tu_result := (tu_result w)\<lparr>
         sr_detail := ''SendUdpDatagram status='' @ StatusName (pr_status disposition) @ retry_text seq w retries\<rparr>\<rparr>)))
     else do {
       let w = w\<lparr>tu_queue_full := tu_queue_full w + 1\<rparr>;
       let retries = retries + 1;
       waited \<leftarrow> WaitForWritable env lim s event f deadline_ms;
       State_Monad.return (case waited of
           None \<Rightarrow> Inl None
         | Some wait \<Rightarrow>
             let w = count_wait wait w
             in if \<not> cw_writable wait then
                  Inl (Some (False, (tu_fail (cw_rc wait) (cw_detail wait @ '' waiting_for_writable'' @ retry_text seq w retries) w)
                    \<lparr>tu_lost := cw_service_lost wait\<rparr>))
                else Inr (w, retries))
     }
   })"

text \<open>
  The sixteenth retry is the last, so seventeen turns are enough; a loop that would need more
  counts as one that does not end.
\<close>

definition send_datagram ::
  "tun_env \<Rightarrow> tunnel_limits \<Rightarrow> tun_session \<Rightarrow> u32 \<Rightarrow> flow \<Rightarrow> PayloadRange \<Rightarrow> u8 list \<Rightarrow> nat \<Rightarrow> u32
     \<Rightarrow> tunnel_workload \<Rightarrow> (bool \<times> tunnel_workload) option tun" where
  "send_datagram env lim s event f descriptor payload seq deadline_ms w =
     when_done (turns (unat MaximumQueueFullRetriesPerDatagram)
         (tunnel_send_turn env lim s event f descriptor payload seq deadline_ms) (w, 0))
       State_Monad.return"

text \<open>The echo of an accepted datagram.\<close>

definition await_tunnel_echo ::
  "tun_env \<Rightarrow> tunnel_limits \<Rightarrow> tun_session \<Rightarrow> u32 \<Rightarrow> flow \<Rightarrow> TunnelUdpWorkloadConfig \<Rightarrow> nat \<Rightarrow> u64
     \<Rightarrow> tunnel_workload \<Rightarrow> (bool \<times> tunnel_workload) option tun" where
  "await_tunnel_echo env lim s event f config seq send_start_tick w =
     (if \<not> tw_echo_replies config then State_Monad.return (Some (True, w))
      else when_done (WaitForEcho env lim s event f (tu_payload config w) (tw_receive_deadline_ms config)) (\<lambda>wait. do {
        let w = count_wait wait w;
        if \<not> cw_received_expected wait then
          State_Monad.return (Some (False, (tu_fail (cw_rc wait) (cw_detail wait @ '' sequence='' @ show_dec seq) w)
            \<lparr>tu_lost := cw_service_lost wait\<rparr>))
        else do {
          received_tick \<leftarrow> tn_tick env;
          State_Monad.return (Some (True, w\<lparr>tu_echoed := tu_echoed w + 1,
            tu_result := (tu_result w)\<lparr>sr_bytes_received := sr_bytes_received (tu_result w) + unat (tw_payload_bytes config)\<rparr>,
            tu_metrics := RecordEcho send_start_tick received_tick (te_tick_frequency env) (tw_payload_bytes config)
              (tu_metrics w)\<rparr>))
        }
      }))"

definition record_tunnel_accepted :: "tun_env \<Rightarrow> TunnelUdpWorkloadConfig \<Rightarrow> tunnel_workload \<Rightarrow> tunnel_workload tun" where
  "record_tunnel_accepted env config w = do {
     accepted_tick \<leftarrow> tn_tick env;
     State_Monad.return (w\<lparr>tu_accepted := tu_accepted w + 1,
       tu_result := (tu_result w)\<lparr>sr_bytes_sent := sr_bytes_sent (tu_result w) + unat (tw_payload_bytes config)\<rparr>,
       tu_metrics := RecordSubmission accepted_tick (tw_payload_bytes config) (tu_metrics w)\<rparr>)
   }"

text \<open>After the service took a datagram: its echo, and the pause before the next one.\<close>

definition datagram_taken ::
  "tun_env \<Rightarrow> tunnel_limits \<Rightarrow> tun_session \<Rightarrow> u32 \<Rightarrow> flow \<Rightarrow> TunnelUdpWorkloadConfig \<Rightarrow> nat \<Rightarrow> u64
     \<Rightarrow> tunnel_workload \<Rightarrow> (bool \<times> tunnel_workload) option tun" where
  "datagram_taken env lim s event f config seq send_start_tick w = do {
     w \<leftarrow> record_tunnel_accepted env config w;
     when_done (await_tunnel_echo env lim s event f config seq send_start_tick w) (\<lambda>(continues, w).
       if \<not> continues then State_Monad.return (Some (False, w))
       else do {
         (if tw_pacing_ms config \<noteq> 0 then tn_sleep (tw_pacing_ms config) else State_Monad.return ());
         State_Monad.return (Some (True, w))
       })
   }"

definition tu_prepare :: "TunnelUdpWorkloadConfig \<Rightarrow> nat \<Rightarrow> nat \<Rightarrow> tunnel_workload \<Rightarrow> tunnel_workload" where
  "tu_prepare config seq flow_index w =
     w\<lparr>tu_storage := BuildPayload TunnelPayloadMagic (unat (tw_payload_bytes config)) (of_nat seq) (of_nat flow_index)
         config (tu_storage w),
       tu_metrics := RecordAttempt (tu_metrics w)\<rparr>"

definition datagram_range :: "TunnelUdpWorkloadConfig \<Rightarrow> nat \<Rightarrow> flow \<Rightarrow> PayloadRange" where
  "datagram_range config seq f = \<lparr>rg_flow = f, rg_offset = 0, rg_size = ucast (tw_payload_bytes config),
     rg_client_tag = push_bit 32 (ucast (tw_workload_id config)) OR of_nat seq\<rparr>"

definition datagram_turn ::
  "tun_env \<Rightarrow> tunnel_limits \<Rightarrow> tun_session \<Rightarrow> u32 \<Rightarrow> flow list \<Rightarrow> TunnelUdpWorkloadConfig \<Rightarrow> nat
     \<Rightarrow> tunnel_workload \<Rightarrow> (bool \<times> tunnel_workload) option tun" where
  "datagram_turn env lim s event flows config seq w = do {
     let flow_index = seq mod unat (tw_concurrent_flows config);
     let f = flows ! flow_index;
     let w = tu_prepare config seq flow_index w;
     send_start_tick \<leftarrow> tn_tick env;
     when_done (send_datagram env lim s event f (datagram_range config seq f) (tu_payload config w) seq
         (tw_receive_deadline_ms config) w) (\<lambda>(taken, w).
       if \<not> taken then State_Monad.return (Some (False, w))
       else datagram_taken env lim s event f config seq send_start_tick w)
   }"

fun datagram_loop ::
  "tun_env \<Rightarrow> tunnel_limits \<Rightarrow> tun_session \<Rightarrow> u32 \<Rightarrow> flow list \<Rightarrow> TunnelUdpWorkloadConfig \<Rightarrow> nat list
     \<Rightarrow> tunnel_workload \<Rightarrow> tunnel_workload option tun" where
  "datagram_loop env lim s event flows config [] w = State_Monad.return (Some w)"
| "datagram_loop env lim s event flows config (seq # seqs) w =
     when_done (datagram_turn env lim s event flows config seq w) (\<lambda>(continues, w).
       if continues then datagram_loop env lim s event flows config seqs w else State_Monad.return (Some w))"

subsection \<open>The workload\<close>

definition tunnel_udp_detail ::
  "tun_env \<Rightarrow> TunnelUdpWorkloadConfig \<Rightarrow> Capabilities \<Rightarrow> RoutingPolicySnapshot \<Rightarrow> tunnel_workload \<Rightarrow> string" where
  "tunnel_udp_detail env config capabilities policy w =
     ''api='' @ to_string (api_version capabilities) @ '' policy='' @ to_string (policy_generation policy)
     @ '' routes='' @ to_string (route_count policy) @ '' flows='' @ to_string (tw_concurrent_flows config)
     @ '' accepted='' @ to_string (tu_accepted w) @ '' echoed='' @ to_string (tu_echoed w)
     @ '' queue_full_events='' @ to_string (tu_queue_full w) @ '' ignored_completions='' @ to_string (tu_ignored w)
     @ '' event_wakes='' @ to_string (tu_wakes w)
     @ (if tw_echo_replies config then '' avg_echo_latency_ms='' @ te_ms_text env (RttMeanNanoseconds (tu_metrics w)) else [])"

definition tunnel_udp_verdict ::
  "tun_env \<Rightarrow> TunnelUdpWorkloadConfig \<Rightarrow> Capabilities \<Rightarrow> RoutingPolicySnapshot \<Rightarrow> tunnel_workload \<Rightarrow> ScenarioResult" where
  "tunnel_udp_verdict env config capabilities policy w =
     (if tu_accepted w = tw_datagram_count config \<and> (\<not> tw_echo_replies config \<or> tu_echoed w = tu_accepted w)
      then (tu_result w)\<lparr>sr_success := True, sr_detail := tunnel_udp_detail env config capabilities policy w\<rparr>
      else tu_result w)"

text \<open>From the loaded event on.\<close>

definition run_tunnel_flows ::
  "tun_env \<Rightarrow> tunnel_limits \<Rightarrow> TunnelUdpWorkloadConfig \<Rightarrow> tun_session \<Rightarrow> u32 \<Rightarrow> u8 list \<Rightarrow> Capabilities
     \<Rightarrow> RoutingPolicySnapshot \<Rightarrow> ScenarioResult \<Rightarrow> ScenarioResult option tun" where
  "run_tunnel_flows env lim config s event destination capabilities policy result = do {
     (opened, result, flows) \<leftarrow> open_udp_flows env s config destination [0..<unat (tw_concurrent_flows config)] [] result;
     if \<not> opened then do {
       close_flows env s flows;
       tn_close_event event;
       State_Monad.return (Some result)
     }
     else when_done (datagram_loop env lim s event flows config [0..<unat (tw_datagram_count config)]
         (new_tunnel_workload (unat (MaximumUdpPayloadStorageBytes lim)) result)) (\<lambda>w. do {
       (if tu_lost w then tn_log ''scenario=wgnx_tunnel_udp_workload skip CloseFlow because wgnx:tun closed''
        else close_flows_logged env s flows);
       tn_close_event event;
       tn_log (metrics_line ''wgnx-tun'' ''queue_full_events'' (te_tick_frequency env) config (tu_metrics w) (tu_queue_full w));
       State_Monad.return (Some (tunnel_udp_verdict env config capabilities policy w))
     })
   }"

definition start_udp_flows ::
  "tun_env \<Rightarrow> tunnel_limits \<Rightarrow> TunnelUdpWorkloadConfig \<Rightarrow> tun_session \<Rightarrow> u32 \<Rightarrow> u8 list \<Rightarrow> Capabilities
     \<Rightarrow> RoutingPolicySnapshot \<Rightarrow> ScenarioResult \<Rightarrow> ScenarioResult option tun" where
  "start_udp_flows env lim config s event destination capabilities policy result = do {
     tn_load_event event;
     run_tunnel_flows env lim config s event destination capabilities policy result
   }"

text \<open>The checks of the client session, and its event.\<close>

definition open_udp_session ::
  "tun_env \<Rightarrow> tunnel_limits \<Rightarrow> TunnelUdpWorkloadConfig \<Rightarrow> ScenarioResult \<Rightarrow> ScenarioResult option tun" where
  "open_udp_session env lim config result = do {
     (rc, s) \<leftarrow> tn_open_client env;
     if failed rc then State_Monad.return (Some (result\<lparr>sr_rc := rc, sr_detail := ''OpenTunnelClient CMIF failure''\<rparr>))
     else do {
       (rc, capabilities) \<leftarrow> tn_capabilities env s;
       if failed rc \<or> api_version capabilities \<noteq> TunApiVersion (te_api env)
           \<or> unat (maximum_udp_payload_bytes capabilities) < unat (tw_payload_bytes config) then
         State_Monad.return (Some (result\<lparr>sr_rc := rc,
           sr_detail := (if failed rc then ''GetCapabilities CMIF failure'' else ''capability bounds mismatch'')\<rparr>))
       else do {
         (rc, policy) \<leftarrow> tn_routing env s;
         if failed rc then
           State_Monad.return (Some (result\<lparr>sr_rc := rc, sr_detail := ''GetRoutingPolicySnapshot CMIF failure''\<rparr>))
         else (case te_inet_pton env (tw_destination_ipv4 config) of
             None \<Rightarrow> State_Monad.return (Some (result\<lparr>sr_detail := ''invalid configured workload destination''\<rparr>))
           | Some destination \<Rightarrow> do {
               (rc, event) \<leftarrow> tn_get_event env s;
               if failed rc then
                 State_Monad.return (Some (result\<lparr>sr_rc := rc, sr_detail := ''GetCompletionEvent CMIF failure''\<rparr>))
               else start_udp_flows env lim config s event destination capabilities policy result
             })
       }
     }
   }"

definition RunWgnxTunnelUdpWorkload ::
  "tun_env \<Rightarrow> tunnel_limits \<Rightarrow> TunnelUdpWorkloadConfig \<Rightarrow> ScenarioResult option tun" where
  "RunWgnxTunnelUdpWorkload env lim config = do {
     let result = new_result ''wgnx_tunnel_udp_workload'';
     tn_log (''Running wgnx:tun UDP workload to '' @ tw_destination_ipv4 config @ '':'' @ to_string (tw_destination_port config));
     (rc, present) \<leftarrow> tn_present env;
     if failed rc then State_Monad.return (Some (result\<lparr>sr_rc := rc, sr_detail := ''wgnx:tun availability query failed''\<rparr>))
     else if \<not> present then State_Monad.return (Some (result\<lparr>sr_detail := ''wgnx:tun is not running''\<rparr>))
     else if tw_concurrent_flows config = 0 \<or> MaximumFlowsPerClient lim < tw_concurrent_flows config then
       State_Monad.return (Some (result\<lparr>sr_detail := ''configured WGNX workload flow count is unsupported''\<rparr>))
     else do {
       rc \<leftarrow> tn_root_open env;
       if failed rc then State_Monad.return (Some (result\<lparr>sr_rc := rc, sr_detail := ''wgnx:tun root open failure''\<rparr>))
       else do {
         (rc, capabilities) \<leftarrow> tn_root_capabilities env;
         if failed rc \<or> api_version capabilities \<noteq> TunApiVersion (te_api env) then
           State_Monad.return (Some (result\<lparr>sr_rc := rc,
             sr_detail := (if failed rc then ''GetCapabilities CMIF failure''
                           else ''API mismatch compiled='' @ to_string (TunApiVersion (te_api env))
                             @ '' actual='' @ to_string (api_version capabilities))\<rparr>))
         else open_udp_session env lim config result
       }
     }
   }"

end
