(* ===== verification/TunnelContract.thy ===== *)
theory TunnelContract
  imports TunnelTcp
begin

text \<open>
  The contract validation of the tunnel service (\<^verbatim>\<open>RunWgnxTunnelContractValidation\<close> of
  \<^verbatim>\<open>toolbox/src/wgnx_tunnel_scenario.cpp\<close>): a clone of a session keeps the client context
  alive when the first session is closed, and a batch with three invalid datagrams is answered
  entry by entry.
\<close>

definition contract_request :: "TunnelUdpWorkloadConfig \<Rightarrow> u8 list \<Rightarrow> OpenConnectedFlowRequest" where
  "contract_request workload destination = \<lparr>rq_address = destination, rq_port = tw_destination_port workload, rq_kind = UdpFlow,
     rq_diagnostic_tag = push_bit 32 (ucast (tw_workload_id workload)) OR 0x434F4E54\<rparr>"

text \<open>The flow when it was published, or the result that says why not.\<close>

definition open_contract_flow ::
  "tun_env \<Rightarrow> tun_session \<Rightarrow> OpenConnectedFlowRequest \<Rightarrow> ScenarioResult \<Rightarrow> (ScenarioResult + flow) tun" where
  "open_contract_flow env s request result = do {
     (rc, opened) \<leftarrow> tn_open_flow env s request;
     State_Monad.return
       (if \<not> published rc opened then Inl (result\<lparr>sr_rc := rc, sr_detail := open_failure rc opened\<rparr>)
        else Inr (op_flow opened))
   }"

definition close_contract_flow :: "tun_env \<Rightarrow> tun_session \<Rightarrow> flow \<Rightarrow> unit tun" where
  "close_contract_flow env s f =
     (if f = 0 then State_Monad.return () else do { tn_close_flow env s f; State_Monad.return () })"

definition load_contract_event :: "tun_env \<Rightarrow> tun_session \<Rightarrow> ScenarioResult \<Rightarrow> (ScenarioResult + u32) tun" where
  "load_contract_event env s result = do {
     (rc, event) \<leftarrow> tn_get_event env s;
     if failed rc then
       State_Monad.return (Inl (result\<lparr>sr_rc := rc, sr_detail := ''GetCompletionEvent CMIF failure''\<rparr>))
     else do { tn_load_event event; State_Monad.return (Inr event) }
   }"

text \<open>What the validation sends: a payload in an array that is one byte longer than any payload.\<close>

definition contract_storage :: "tunnel_limits \<Rightarrow> TunnelUdpWorkloadConfig \<Rightarrow> u8 list" where
  "contract_storage lim workload = BuildPayload TunnelPayloadMagic (unat (tw_payload_bytes workload)) 0x434C4F4E 0 workload
     (replicate (unat (MaximumUdpPayloadStorageBytes lim) + 1) 0)"

definition contract_payload :: "tunnel_limits \<Rightarrow> TunnelUdpWorkloadConfig \<Rightarrow> u8 list" where
  "contract_payload lim workload = take (unat (tw_payload_bytes workload)) (contract_storage lim workload)"

subsection \<open>The lifetime of a cloned session\<close>

text \<open>Opens the sessions that fill up the client contexts; the flag says whether all opened.\<close>

fun open_retained :: "tun_env \<Rightarrow> nat \<Rightarrow> tun_session list \<Rightarrow> (u32 \<times> tun_session list) tun" where
  "open_retained env 0 retained = State_Monad.return (0, retained)"
| "open_retained env (Suc n) retained = do {
     (rc, s) \<leftarrow> tn_open_client env;
     if failed rc then State_Monad.return (rc, retained) else open_retained env n (retained @ [s])
   }"

fun close_clients :: "tun_session list \<Rightarrow> unit tun" where
  "close_clients [] = State_Monad.return ()"
| "close_clients (s # ss) = do { tn_close_client s; close_clients ss }"

text \<open>Gives up the event and the flow of the clone and ends with a result.\<close>

definition drop_clone :: "tun_env \<Rightarrow> tun_session \<Rightarrow> u32 \<Rightarrow> flow \<Rightarrow> ScenarioResult \<Rightarrow> (ScenarioResult + tun_session) option tun" where
  "drop_clone env clone event f result = do {
     tn_close_event event;
     close_contract_flow env clone f;
     State_Monad.return (Some (Inl result))
   }"

text \<open>The last reference is given up: a context is free again.\<close>

definition release_clone ::
  "tun_env \<Rightarrow> tun_session \<Rightarrow> tun_session list \<Rightarrow> flow \<Rightarrow> ScenarioResult \<Rightarrow> (ScenarioResult + tun_session) option tun" where
  "release_clone env clone retained f result = do {
     close_contract_flow env clone f;
     tn_close_client clone;
     close_clients retained;
     (rc, primary) \<leftarrow> tn_open_client env;
     if failed rc then
       State_Monad.return (Some (Inl (result\<lparr>sr_rc := rc, sr_detail := ''final clone close did not release client context''\<rparr>)))
     else do {
       tn_log ''contract_validation clone final_reference_released'';
       State_Monad.return (Some (Inr primary))
     }
   }"

definition clone_echoed ::
  "tun_env \<Rightarrow> tun_session \<Rightarrow> tun_session list \<Rightarrow> u32 \<Rightarrow> flow \<Rightarrow> ScenarioResult \<Rightarrow> CompletionWaitResult
     \<Rightarrow> (ScenarioResult + tun_session) option tun" where
  "clone_echoed env clone retained event f result echo = do {
     tn_close_event event;
     if \<not> cw_received_expected echo then do {
       (if cw_service_lost echo then State_Monad.return () else close_contract_flow env clone f);
       State_Monad.return (Some (Inl (result\<lparr>sr_rc := cw_rc echo, sr_detail := ''clone echo failure: '' @ cw_detail echo\<rparr>)))
     }
     else release_clone env clone retained f result
   }"

definition clone_echo ::
  "tun_env \<Rightarrow> tunnel_limits \<Rightarrow> TunnelUdpWorkloadConfig \<Rightarrow> tun_session \<Rightarrow> tun_session list \<Rightarrow> u32 \<Rightarrow> flow
     \<Rightarrow> ScenarioResult \<Rightarrow> (ScenarioResult + tun_session) option tun" where
  "clone_echo env lim workload clone retained event f result = do {
     let payload = contract_payload lim workload;
     (rc, disposition) \<leftarrow> tn_send env clone
       \<lparr>rg_flow = f, rg_offset = 0, rg_size = of_nat (length payload), rg_client_tag = 0x434C4F4E\<rparr> payload;
     if failed rc \<or> pr_status disposition \<noteq> Success then
       drop_clone env clone event f (result\<lparr>sr_rc := rc,
         sr_detail := (if failed rc then ''clone SendUdpDatagram CMIF failure''
                       else ''clone SendUdpDatagram status='' @ StatusName (pr_status disposition))\<rparr>)
     else when_done (WaitForEcho env lim clone event f payload (tw_receive_deadline_ms workload))
       (clone_echoed env clone retained event f result)
   }"

text \<open>The first session is closed, and the contexts that are left are filled up.\<close>

definition fill_contexts ::
  "tun_env \<Rightarrow> tunnel_limits \<Rightarrow> TunnelUdpWorkloadConfig \<Rightarrow> tun_session \<Rightarrow> tun_session \<Rightarrow> u32 \<Rightarrow> flow
     \<Rightarrow> ScenarioResult \<Rightarrow> (ScenarioResult + tun_session) option tun" where
  "fill_contexts env lim workload primary clone event f result = do {
     tn_close_client primary;
     (rc, retained) \<leftarrow> open_retained env (MaximumClientContexts (te_api env) - 1) [];
     if failed rc then
       drop_clone env clone event f (result\<lparr>sr_rc := rc, sr_detail := ''client-context capacity setup failure''\<rparr>)
     else do {
       (capacity_rc, capacity_probe) \<leftarrow> tn_open_client env;
       tn_log (''contract_validation clone capacity_probe_rc='' @ FormatResult capacity_rc);
       if \<not> failed capacity_rc then do {
         tn_close_client capacity_probe;
         drop_clone env clone event f (result\<lparr>sr_detail := ''clone did not retain its logical client context''\<rparr>)
       }
       else clone_echo env lim workload clone retained event f result
     }
   }"

definition use_clone ::
  "tun_env \<Rightarrow> tunnel_limits \<Rightarrow> TunnelUdpWorkloadConfig \<Rightarrow> u8 list \<Rightarrow> tun_session \<Rightarrow> tun_session \<Rightarrow> ScenarioResult
     \<Rightarrow> (ScenarioResult + tun_session) option tun" where
  "use_clone env lim workload destination primary clone result = do {
     opened \<leftarrow> open_contract_flow env primary (contract_request workload destination) result;
     (case opened of
        Inl result \<Rightarrow> State_Monad.return (Some (Inl result))
      | Inr f \<Rightarrow> do {
          loaded \<leftarrow> load_contract_event env clone result;
          (case loaded of
             Inl result \<Rightarrow> do { close_contract_flow env clone f; State_Monad.return (Some (Inl result)) }
           | Inr event \<Rightarrow> fill_contexts env lim workload primary clone event f result)
        })
   }"

definition validate_clone ::
  "tun_env \<Rightarrow> tunnel_limits \<Rightarrow> TunnelUdpWorkloadConfig \<Rightarrow> u8 list \<Rightarrow> tun_session \<Rightarrow> ScenarioResult
     \<Rightarrow> (ScenarioResult + tun_session) option tun" where
  "validate_clone env lim workload destination primary result = do {
     (rc, clone) \<leftarrow> tn_clone_client env primary;
     if failed rc then
       State_Monad.return (Some (Inl (result\<lparr>sr_rc := rc, sr_detail := ''serviceClone wgnx:tun client failure''\<rparr>)))
     else do {
       tn_log ''contract_validation clone created'';
       (rc, clone_capabilities) \<leftarrow> tn_capabilities env clone;
       if failed rc \<or> api_version clone_capabilities \<noteq> TunApiVersion (te_api env) then
         State_Monad.return (Some (Inl (result\<lparr>sr_rc := rc,
           sr_detail := (if failed rc then ''clone GetCapabilities CMIF failure'' else ''clone API version mismatch'')\<rparr>)))
       else use_clone env lim workload destination primary clone result
     }
   }"

subsection \<open>The mixed batch\<close>

definition batch_ranges :: "tunnel_limits \<Rightarrow> TunnelUdpWorkloadConfig \<Rightarrow> flow \<Rightarrow> PayloadRange list" where
  "batch_ranges lim workload f =
     (let payload_size = of_nat (length (contract_payload lim workload));
          storage_size = of_nat (length (contract_storage lim workload))
      in [\<lparr>rg_flow = f, rg_offset = 0, rg_size = payload_size, rg_client_tag = 1\<rparr>,
          \<lparr>rg_flow = f, rg_offset = storage_size, rg_size = 1, rg_client_tag = 2\<rparr>,
          \<lparr>rg_flow = f, rg_offset = 0, rg_size = storage_size, rg_client_tag = 3\<rparr>,
          \<lparr>rg_flow = 0, rg_offset = 0, rg_size = payload_size, rg_client_tag = 4\<rparr>])"

definition expected_dispositions :: "ProtocolStatus list" where
  "expected_dispositions = [Success, MalformedInput, PayloadTooLarge, StaleHandle]"

text \<open>Logs every disposition and says whether all are as expected.\<close>

fun check_dispositions :: "nat \<Rightarrow> (PayloadResult \<times> ProtocolStatus) list \<Rightarrow> bool \<Rightarrow> bool tun" where
  "check_dispositions index [] matches = State_Monad.return matches"
| "check_dispositions index ((d, expected) # ds) matches = do {
     tn_log (''contract_validation batch index='' @ show_dec index @ '' tag='' @ to_string (pr_client_tag d)
       @ '' status='' @ StatusName (pr_status d));
     check_dispositions (index + 1) ds
       (matches \<and> pr_client_tag d = of_nat (index + 1) \<and> pr_status d = expected)
   }"

definition batch_echoed ::
  "tun_env \<Rightarrow> tun_session \<Rightarrow> u32 \<Rightarrow> flow \<Rightarrow> ScenarioResult \<Rightarrow> CompletionWaitResult \<Rightarrow> ScenarioResult option option tun" where
  "batch_echoed env primary event f result echo = do {
     tn_close_event event;
     (if cw_service_lost echo then State_Monad.return () else close_contract_flow env primary f);
     State_Monad.return (Some
       (if \<not> cw_received_expected echo then
          Some (result\<lparr>sr_rc := cw_rc echo, sr_detail := ''mixed batch echo failure: '' @ cw_detail echo\<rparr>)
        else None))
   }"

definition batch_echo ::
  "tun_env \<Rightarrow> tunnel_limits \<Rightarrow> TunnelUdpWorkloadConfig \<Rightarrow> tun_session \<Rightarrow> u32 \<Rightarrow> flow \<Rightarrow> ScenarioResult
     \<Rightarrow> ScenarioResult option option tun" where
  "batch_echo env lim workload primary event f result =
     when_done (WaitForEcho env lim primary event f (contract_payload lim workload) (tw_receive_deadline_ms workload))
       (batch_echoed env primary event f result)"

text \<open>The inner option is the result when the validation failed.\<close>

definition validate_batch ::
  "tun_env \<Rightarrow> tunnel_limits \<Rightarrow> TunnelUdpWorkloadConfig \<Rightarrow> u8 list \<Rightarrow> tun_session \<Rightarrow> ScenarioResult
     \<Rightarrow> ScenarioResult option option tun" where
  "validate_batch env lim workload destination primary result = do {
     opened \<leftarrow> open_contract_flow env primary (contract_request workload destination) result;
     (case opened of
        Inl result \<Rightarrow> State_Monad.return (Some (Some result))
      | Inr f \<Rightarrow> do {
          (rc, dispositions) \<leftarrow> tn_send_batch env primary (batch_ranges lim workload f) (contract_storage lim workload);
          matches \<leftarrow> check_dispositions 0 (zip dispositions expected_dispositions) (\<not> failed rc);
          if \<not> matches then do {
            close_contract_flow env primary f;
            State_Monad.return (Some (Some (result\<lparr>sr_rc := rc,
              sr_detail := (if failed rc then ''SendUdpDatagramBatch CMIF failure''
                            else ''mixed batch dispositions differed from contract'')\<rparr>)))
          }
          else do {
            loaded \<leftarrow> load_contract_event env primary result;
            (case loaded of
               Inl result \<Rightarrow> do { close_contract_flow env primary f; State_Monad.return (Some (Some result)) }
             | Inr event \<Rightarrow> batch_echo env lim workload primary event f result)
          }
        })
   }"

subsection \<open>The validation\<close>

definition contract_success ::
  "Capabilities \<Rightarrow> TunnelContractValidationConfig \<Rightarrow> nat \<Rightarrow> ScenarioResult \<Rightarrow> ScenarioResult" where
  "contract_success capabilities config payload_size result =
     (let bytes = payload_size * of_bool (verify_cloned_session_lifetime config)
            + payload_size * of_bool (verify_mixed_batch config);
          completed = (if verify_cloned_session_lifetime config then ''clone_lifetime=ok'' else []);
          completed = (if verify_mixed_batch config
                       then (if completed \<noteq> [] then completed @ '' '' else completed) @ ''mixed_batch=ok'' else completed)
      in result\<lparr>sr_success := True, sr_bytes_sent := bytes, sr_bytes_received := bytes,
           sr_detail := ''api='' @ to_string (api_version capabilities) @ '' '' @ completed\<rparr>)"

definition run_validations ::
  "tun_env \<Rightarrow> tunnel_limits \<Rightarrow> TunnelUdpWorkloadConfig \<Rightarrow> TunnelContractValidationConfig \<Rightarrow> u8 list \<Rightarrow> Capabilities
     \<Rightarrow> tun_session \<Rightarrow> ScenarioResult \<Rightarrow> ScenarioResult option tun" where
  "run_validations env lim workload config destination capabilities primary result =
     when_done (if verify_cloned_session_lifetime config
                then validate_clone env lim workload destination primary result
                else State_Monad.return (Some (Inr primary))) (\<lambda>cloned.
       case cloned of
         Inl result \<Rightarrow> State_Monad.return (Some result)
       | Inr primary \<Rightarrow>
           when_done (if verify_mixed_batch config then validate_batch env lim workload destination primary result
                      else State_Monad.return (Some None)) (\<lambda>batch.
             State_Monad.return (Some (case batch of
                 Some result \<Rightarrow> result
               | None \<Rightarrow> contract_success capabilities config (length (contract_payload lim workload)) result))))"

definition open_contract_session ::
  "tun_env \<Rightarrow> tunnel_limits \<Rightarrow> TunnelUdpWorkloadConfig \<Rightarrow> TunnelContractValidationConfig \<Rightarrow> u8 list \<Rightarrow> ScenarioResult
     \<Rightarrow> ScenarioResult option tun" where
  "open_contract_session env lim workload config destination result = do {
     rc \<leftarrow> tn_root_open env;
     if failed rc then State_Monad.return (Some (result\<lparr>sr_rc := rc, sr_detail := ''wgnx:tun root open failure''\<rparr>))
     else do {
       (rc, capabilities) \<leftarrow> tn_root_capabilities env;
       if failed rc \<or> api_version capabilities \<noteq> TunApiVersion (te_api env) then
         State_Monad.return (Some (result\<lparr>sr_rc := rc,
           sr_detail := (if failed rc then ''GetCapabilities CMIF failure'' else ''wgnx:tun API version mismatch'')\<rparr>))
       else if unat (maximum_udp_payload_bytes capabilities) < unat (tw_payload_bytes workload) then
         State_Monad.return (Some (result\<lparr>sr_detail := ''configured payload exceeds wgnx:tun capability''\<rparr>))
       else do {
         (rc, primary) \<leftarrow> tn_open_client env;
         if failed rc then State_Monad.return (Some (result\<lparr>sr_rc := rc, sr_detail := ''OpenTunnelClient CMIF failure''\<rparr>))
         else run_validations env lim workload config destination capabilities primary result
       }
     }
   }"

definition RunWgnxTunnelContractValidation ::
  "tun_env \<Rightarrow> tunnel_limits \<Rightarrow> TunnelUdpWorkloadConfig \<Rightarrow> TunnelContractValidationConfig \<Rightarrow> ScenarioResult option tun" where
  "RunWgnxTunnelContractValidation env lim workload config = do {
     let result = new_result ''wgnx_tunnel_contract_validation'';
     if \<not> verify_cloned_session_lifetime config \<and> \<not> verify_mixed_batch config then
       State_Monad.return (Some (result\<lparr>sr_detail := ''no contract validations are enabled''\<rparr>))
     else do {
       tn_log (''Running wgnx:tun contract validation clone_lifetime=''
         @ (if verify_cloned_session_lifetime config then ''1'' else ''0'')
         @ '' mixed_batch='' @ (if verify_mixed_batch config then ''1'' else ''0''));
       (rc, present) \<leftarrow> tn_present env;
       if failed rc then State_Monad.return (Some (result\<lparr>sr_rc := rc, sr_detail := ''wgnx:tun availability query failed''\<rparr>))
       else if \<not> present then State_Monad.return (Some (result\<lparr>sr_detail := ''wgnx:tun is not running''\<rparr>))
       else (case te_inet_pton env (tw_destination_ipv4 workload) of
           None \<Rightarrow> State_Monad.return (Some (result\<lparr>sr_detail := ''invalid configured workload destination''\<rparr>))
         | Some destination \<Rightarrow> open_contract_session env lim workload config destination result)
     }
   }"

end
