(* ===== verification/TunnelRelease.thy ===== *)
theory TunnelRelease
  imports TunnelUdp TunnelContract
begin

text \<open>
  The tunnel scenarios give back what they acquire: the completion event on every path, and
  every flow the service published, unless the service itself went away.
\<close>

subsection \<open>The computations between opening and closing are plain\<close>

lemma plain_wait_turn:
  assumes "\<And>cs st. emits plain (wt_records style cs st)" shows "emits plain (wait_turn env style s event deadline st)"
  using assms by (auto simp: wait_turn_def await_event_def receive_batch_def Let_def intro!: emit_rules)

lemma plain_tcp_records: "emits plain (tcp_records env s f cs st)"
  by (induction cs arbitrary: st) (auto simp: tcp_state_changed_def Let_def intro!: emit_rules)

lemma plain_wait_loop:
  assumes "\<And>cs st. emits plain (wt_records style cs st)" shows "emits plain (wait_loop env style s event n timeout_ms)"
  unfolding wait_loop_def DeadlineAfterMilliseconds_def
  by (intro emit_rules plain_wait_turn assms) simp

lemma plain_waits [emit_rules]:
  "emits plain (WaitForEcho env lim s event f expected timeout_ms)"
  "emits plain (WaitForWritable env lim s event f timeout_ms)"
  "emits plain (WaitForTcpProgress env s event f require_open require_reply require_closed timeout_ms)"
  unfolding WaitForEcho_def WaitForWritable_def WaitForTcpProgress_def
  by (intro plain_wait_loop; auto simp: echo_style_def writable_style_def tcp_style_def intro!: emit_rules plain_tcp_records)+

subsection \<open>Computations that settle\<close>

text \<open>
  A computation that, when it ends, has given up the flows \<open>F\<close> and the events \<open>E\<close> and nothing
  else; for the results \<open>g\<close> the flows may stay when the service is gone.
\<close>

definition settles :: "('a \<Rightarrow> bool) \<Rightarrow> flow set \<Rightarrow> u32 set \<Rightarrow> (tun_history, 'a option) state \<Rightarrow> bool" where
  "settles g F E m \<longleftrightarrow> (\<forall>h a h'. run_state m h = (Some a, h') \<longrightarrow>
     loaded_events h' = loaded_events h - E
     \<and> (published_handles h' = published_handles h - F \<or> g a \<and> service_gone h'))"

lemma settlesI:
  assumes "\<And>h a h'. run_state m h = (Some a, h') \<Longrightarrow> loaded_events h' = loaded_events h - E
     \<and> (published_handles h' = published_handles h - F \<or> g a \<and> service_gone h')"
  shows "settles g F E m"
  using assms by (simp add: settles_def)

lemma settlesD:
  "settles g F E m \<Longrightarrow> run_state m h = (Some a, h') \<Longrightarrow> loaded_events h' = loaded_events h - E
     \<and> (published_handles h' = published_handles h - F \<or> g a \<and> service_gone h')"
  by (simp add: settles_def)

named_theorems settle_rules \<open>introduction rules for \<^const>\<open>settles\<close>\<close>

lemma settles_bind [settle_rules]:
  assumes "emits plain m" "\<And>a. settles g F E (f a)" shows "settles g F E (State_Monad.bind m f)"
proof (rule settlesI)
  fix h b h'
  assume run: "run_state (State_Monad.bind m f) h = (Some b, h')"
  obtain a h1 where a: "run_state m h = (a, h1)" by (rule prod.exhaust)
  with run have b: "run_state (f a) h1 = (Some b, h')" by simp
  from plain_run [OF assms(1) a] settlesD [OF assms(2) b]
  show "loaded_events h' = loaded_events h - E \<and> (published_handles h' = published_handles h - F \<or> g b \<and> service_gone h')"
    by simp
qed

lemma settles_when_done [settle_rules]:
  assumes "emits plain m" "\<And>a. settles g F E (f a)" shows "settles g F E (when_done m f)"
  unfolding when_done_def
  by (rule settles_bind [OF assms(1)]) (simp add: settles_def State_Monad.return_def split: option.splits, use assms(2) in \<open>simp add: settles_def\<close>)

lemma settles_close_flow:
  assumes "\<And>a. settles g F E (k a)" shows "settles g (insert f F) E (State_Monad.bind (tn_close_flow env s f) k)"
  using assms by (fastforce simp: settles_def tn_close_flow_def call_def Let_def split: prod.splits)

lemma settles_close_event:
  assumes "\<And>a. settles g F E (k a)" shows "settles g F (insert e E) (State_Monad.bind (tn_close_event e) k)"
  using assms by (fastforce simp: settles_def tn_close_event_def call_def Let_def)

lemma settles_cases [settle_rules]:
  "settles g F E (State_Monad.return None)"
  "(b \<Longrightarrow> settles g F E m) \<Longrightarrow> (\<not> b \<Longrightarrow> settles g F E n) \<Longrightarrow> settles g F E (if b then m else n)"
  "(\<And>x. settles g F E (p x)) \<Longrightarrow> settles g F E (let x = v in p x)"
  "(\<And>a c. settles g F E (q a c)) \<Longrightarrow> settles g F E (case pr of (a, c) \<Rightarrow> q a c)"
  "settles g F E m \<Longrightarrow> (\<And>y. settles g F E (k y)) \<Longrightarrow> settles g F E (case o' of None \<Rightarrow> m | Some y \<Rightarrow> k y)"
  "(\<And>y. settles g F E (k y)) \<Longrightarrow> (\<And>y. settles g F E (l y)) \<Longrightarrow> settles g F E (case s' of Inl y \<Rightarrow> k y | Inr y \<Rightarrow> l y)"
  by (simp_all add: settles_def State_Monad.return_def split: prod.split option.split sum.split)

lemma settles_return [settle_rules]: "settles g {} {} (State_Monad.return (Some a))"
  by (simp add: settles_def State_Monad.return_def)

subsection \<open>The TCP exchange\<close>

lemma settles_drop [settle_rules]:
  "settles g {f} {} (drop_flow env s f result)" "settles g {f} {event} (drop_flow_event env s event f result)"
  "settles g {f} {} (finish_tcp env s f capabilities state write wakes n result)"
  unfolding drop_flow_def drop_flow_event_def finish_tcp_def
  by (intro settles_close_flow settles_close_event settle_rules)+

lemma settles_await_reply [settle_rules]:
  "settles g {f} {event} (await_reply env s event f capabilities state write wakes n deadline_ms result)"
  unfolding await_reply_def
  by (intro settles_when_done emit_rules settles_close_event settles_cases settles_drop)

lemma settles_connect_tcp: "settles g {f} {event} (connect_tcp env s event f capabilities workload_id deadline_ms result)"
  unfolding connect_tcp_def exchange_tcp_def
  by (auto intro!: settle_rules emit_rules)

subsection \<open>Scenarios\<close>

text \<open>
  A computation that starts with at most the flows \<open>F\<close> and the events \<open>E\<close> and ends with none.
\<close>

definition within :: "('a \<Rightarrow> bool) \<Rightarrow> flow set \<Rightarrow> u32 set \<Rightarrow> (tun_history, 'a option) state \<Rightarrow> bool" where
  "within g F E m \<longleftrightarrow> (\<forall>h a h'. run_state m h = (Some a, h') \<longrightarrow> published_handles h \<subseteq> F \<longrightarrow> loaded_events h \<subseteq> E
     \<longrightarrow> loaded_events h' = {} \<and> (published_handles h' = {} \<or> g a \<and> service_gone h'))"

named_theorems within_rules \<open>introduction rules for \<^const>\<open>within\<close>\<close>

lemma withinD:
  "within g F E m \<Longrightarrow> run_state m h = (Some a, h') \<Longrightarrow> published_handles h \<subseteq> F \<Longrightarrow> loaded_events h \<subseteq> E
   \<Longrightarrow> loaded_events h' = {} \<and> (published_handles h' = {} \<or> g a \<and> service_gone h')"
  by (simp add: within_def)

lemma within_settles: "settles g F E m \<Longrightarrow> within g F E m"
  by (fastforce simp: within_def settles_def)

lemma within_bind [within_rules]:
  assumes "emits plain m" "\<And>a. within g F E (f a)" shows "within g F E (State_Monad.bind m f)"
  unfolding within_def
proof (intro allI impI)
  fix h b h'
  assume run: "run_state (State_Monad.bind m f) h = (Some b, h')" and h: "published_handles h \<subseteq> F" "loaded_events h \<subseteq> E"
  obtain a h1 where a: "run_state m h = (a, h1)" by (rule prod.exhaust)
  with run have "run_state (f a) h1 = (Some b, h')" by simp
  with withinD [OF assms(2)] plain_run [OF assms(1) a] h
  show "loaded_events h' = {} \<and> (published_handles h' = {} \<or> g b \<and> service_gone h')" by simp
qed

lemma within_cases [within_rules]:
  "within g {} {} (State_Monad.return (Some a))"
  "(b \<Longrightarrow> within g F E m) \<Longrightarrow> (\<not> b \<Longrightarrow> within g F E n) \<Longrightarrow> within g F E (if b then m else n)"
  "(\<And>x. within g F E (p x)) \<Longrightarrow> within g F E (let x = v in p x)"
  "(\<And>a c. within g F E (q a c)) \<Longrightarrow> within g F E (case pr of (a, c) \<Rightarrow> q a c)"
  "within g F E m \<Longrightarrow> (\<And>y. within g F E (k y)) \<Longrightarrow> within g F E (case o' of None \<Rightarrow> m | Some y \<Rightarrow> k y)"
  by (auto simp: within_def State_Monad.return_def split: prod.split option.split)

lemma within_load_event:
  assumes "within g F (insert e E) (k ())" shows "within g F E (State_Monad.bind (tn_load_event e) k)"
  using assms by (fastforce simp: within_def tn_load_event_def call_def Let_def)

lemma within_open_flow:
  assumes "\<And>rc opened. within g (if published rc opened then insert (op_flow opened) F else F) E (k (rc, opened))"
  shows "within g F E (State_Monad.bind (tn_open_flow env s request) k)"
  unfolding within_def
proof (intro allI impI)
  fix h a h'
  assume h: "run_state (State_Monad.bind (tn_open_flow env s request) k) h = (Some a, h')"
    "published_handles h \<subseteq> F" "loaded_events h \<subseteq> E"
  obtain rc opened where o: "te_open_flow env h s request = (rc, opened)" by (rule prod.exhaust)
  with h show "loaded_events h' = {} \<and> (published_handles h' = {} \<or> g a \<and> service_gone h')"
    by (intro withinD [OF assms [of rc opened], of "h @ [Tn_open_flow s request rc opened]" a])
      (auto simp: tn_open_flow_def call_def Let_def split: if_splits)
qed

lemma within_start_tcp_flow:
  "within g {} {} (start_tcp_flow env profile workload_id config capabilities destination s event result)"
proof -
  have "within g {} {event} (State_Monad.bind (tn_close_event event) (\<lambda>_. State_Monad.return (Some r)))" for r :: ScenarioResult
    by (intro within_settles settles_close_event settle_rules)
  then show ?thesis
    unfolding start_tcp_flow_def
    by (intro within_load_event within_open_flow) (simp add: within_settles settles_connect_tcp)
qed

lemma within_tcp: "within g {} {} (RunWgnxTunnelTcpExchange env profile workload_id config)"
  unfolding RunWgnxTunnelTcpExchange_def open_tcp_flow_def
  by (auto intro!: within_rules emit_rules within_start_tcp_flow)

subsection \<open>The UDP workload\<close>

lemma gone_grows: "emits P m \<Longrightarrow> run_state m h = (a, h') \<Longrightarrow> service_gone h \<Longrightarrow> service_gone h'"
  by (auto dest: emitsD)

text \<open>A wait finds the service lost, or the datagram it waits for, only when it ends.\<close>

definition undecided :: "CompletionWaitResult \<Rightarrow> bool" where
  "undecided r \<longleftrightarrow> \<not> cw_service_lost r \<and> \<not> cw_received_expected r"

lemma wait_lost:
  assumes records: "\<And>cs st k t k'. run_state (wt_records style cs st) k = (t, k') \<Longrightarrow> undecided (ws_result st)
      \<Longrightarrow> (case t of Inl r \<Rightarrow> \<not> cw_service_lost r | Inr st' \<Rightarrow> undecided (ws_result st'))"
    and "\<And>rc r. cw_service_lost (wt_wait_failed style rc r) = cw_service_lost r"
    and "\<And>r. cw_service_lost (wt_expired style r) = cw_service_lost r"
    and "run_state (wait_loop env style s event n timeout_ms) h = (Some r, h')" "cw_service_lost r"
  shows "service_gone h' \<and> \<not> cw_received_expected r"
proof -
  obtain deadline h1 where run: "run_state (repeat_turns (wait_turn env style s event deadline) (new_wait_state n)) h1 = (Some r, h')"
    using assms(4) by (auto simp: wait_loop_def split: prod.splits)
  have "cw_service_lost r \<longrightarrow> service_gone h' \<and> \<not> cw_received_expected r"
  proof (rule repeat_turns_result [where I = "\<lambda>st k. undecided (ws_result st)", OF _ _ run])
    fix st k st' k'
    assume "undecided (ws_result st)" "run_state (wait_turn env style s event deadline st) k = (Inr st', k')"
    then show "undecided (ws_result st')"
      using records by (fastforce simp: wait_turn_def await_event_def receive_batch_def State_Monad.return_def Let_def undecided_def
          split: prod.splits if_splits)
  next
    fix st k r k'
    assume "undecided (ws_result st)" "run_state (wait_turn env style s event deadline st) k = (Inl r, k')"
    then show "cw_service_lost r \<longrightarrow> service_gone k' \<and> \<not> cw_received_expected r"
      using records assms(2,3)
      by (fastforce simp: wait_turn_def await_event_def receive_batch_def tn_receive_def call_def service_gone_def undecided_def
          State_Monad.return_def Let_def split: prod.splits if_splits)
  qed (simp add: new_wait_state_def new_wait_def undecided_def)
  with assms(5) show ?thesis by simp
qed

lemma echo_records_undecided:
  "undecided (ws_result st) \<Longrightarrow>
   (case echo_records env f expected cs st of Inl r \<Rightarrow> \<not> cw_service_lost r | Inr st' \<Rightarrow> undecided (ws_result st'))"
  by (induction cs arbitrary: st) (simp_all add: flow_terminal_def count_ignored_def undecided_def)

lemma writable_records_undecided:
  "undecided (ws_result st) \<Longrightarrow>
   (case writable_records env f cs st of Inl r \<Rightarrow> \<not> cw_service_lost r | Inr st' \<Rightarrow> undecided (ws_result st'))"
  by (induction cs arbitrary: st) (simp_all add: flow_terminal_def count_ignored_def undecided_def)

lemma waits_gone:
  "run_state (WaitForEcho env lim s event f expected timeout_ms) h = (Some r, h') \<Longrightarrow> cw_service_lost r
   \<Longrightarrow> service_gone h' \<and> \<not> cw_received_expected r"
  "run_state (WaitForWritable env lim s event f timeout_ms) h = (Some r, h') \<Longrightarrow> cw_service_lost r
   \<Longrightarrow> service_gone h' \<and> \<not> cw_received_expected r"
  unfolding WaitForEcho_def WaitForWritable_def
  by (erule wait_lost [rotated 3]; auto simp: echo_style_def writable_style_def event_wait_failed_def State_Monad.return_def
      dest: echo_records_undecided writable_records_undecided)+

lemmas waits_lost = waits_gone [THEN conjunct1]

text \<open>A workload that takes the service for lost has seen a call fail.\<close>

definition lost_seen :: "tunnel_workload \<Rightarrow> tun_history \<Rightarrow> bool" where
  "lost_seen w h \<longleftrightarrow> (tu_lost w \<longrightarrow> service_gone h)"

lemma send_turn_lost:
  assumes "run_state (tunnel_send_turn env lim s event f descriptor payload seq deadline_ms (w, retries)) h = (t, h')" "\<not> tu_lost w"
  shows "case t of Inl (Some (taken, w')) \<Rightarrow> lost_seen w' h' \<and> (taken \<longrightarrow> \<not> tu_lost w')
    | Inl None \<Rightarrow> True | Inr (w', retries') \<Rightarrow> \<not> tu_lost w'"
  using assms
  by (auto simp: tunnel_send_turn_def tn_send_def call_def Let_def State_Monad.return_def lost_seen_def service_gone_def
      tu_fail_def count_wait_def dest: waits_lost split: prod.splits if_splits option.splits)

lemma send_datagram_lost:
  assumes "run_state (send_datagram env lim s event f descriptor payload seq deadline_ms w) h = (Some (taken, w'), h')"
    "\<not> tu_lost w"
  shows "lost_seen w' h' \<and> (taken \<longrightarrow> \<not> tu_lost w')"
proof -
  let ?body = "tunnel_send_turn env lim s event f descriptor payload seq deadline_ms"
  obtain r where run: "run_state (turns (unat MaximumQueueFullRetriesPerDatagram) ?body (w, 0)) h = (Some r, h')"
    "r = Some (taken, w')"
    using assms(1) by (auto simp: send_datagram_def State_Monad.return_def elim!: when_done_cases)
  have "case r of None \<Rightarrow> True | Some (taken, w') \<Rightarrow> lost_seen w' h' \<and> (taken \<longrightarrow> \<not> tu_lost w')"
    by (rule turns_result [where I = "\<lambda>x k. \<not> tu_lost (fst x)", OF _ _ run(1)])
      (use assms(2) send_turn_lost in \<open>fastforce split: option.splits prod.splits\<close>)+
  with run(2) show ?thesis by simp
qed

lemma lost_seen_plain: "run_state m h = (a, h') \<Longrightarrow> emits plain m \<Longrightarrow> lost_seen w h \<Longrightarrow> lost_seen w h'"
  by (auto simp: lost_seen_def dest: gone_grows)

lemma await_echo_lost:
  assumes "run_state (await_tunnel_echo env lim s event f config seq tick w) h = (Some (continues, w'), h')" "\<not> tu_lost w"
  shows "lost_seen w' h' \<and> (continues \<longrightarrow> \<not> tu_lost w')"
  using assms
  by (auto simp: await_tunnel_echo_def tn_tick_def call_def Let_def State_Monad.return_def lost_seen_def tu_fail_def count_wait_def
      elim!: when_done_cases split: if_splits) (metis waits_lost(1))

lemma plain_datagrams [emit_rules]:
  "emits plain (send_datagram env lim s event f descriptor payload seq deadline_ms w)"
  "emits plain (await_tunnel_echo env lim s event f config seq tick w)"
  "emits plain (record_tunnel_accepted env config w)"
  by (auto simp: send_datagram_def tunnel_send_turn_def await_tunnel_echo_def record_tunnel_accepted_def Let_def
      intro!: emit_rules split: prod.split)

lemma plain_datagram_turn [emit_rules]:
  "emits plain (datagram_taken env lim s event f config seq tick w)" "emits plain (datagram_turn env lim s event flows config seq w)"
  by (auto simp: datagram_taken_def datagram_turn_def Let_def intro!: emit_rules)

lemma plain_datagram_loop [emit_rules]: "emits plain (datagram_loop env lim s event flows config seqs w)"
  by (induction seqs arbitrary: w) (auto intro!: emit_rules)

lemma datagram_taken_lost:
  assumes "run_state (datagram_taken env lim s event f config seq tick w) h = (Some (continues, w'), h')" "\<not> tu_lost w"
  shows "lost_seen w' h' \<and> (continues \<longrightarrow> \<not> tu_lost w')"
proof -
  obtain w1 h1 where r: "run_state (record_tunnel_accepted env config w) h = (w1, h1)" by (rule prod.exhaust)
  then have w1: "\<not> tu_lost w1"
    using assms(2) by (auto simp: record_tunnel_accepted_def State_Monad.return_def split: prod.splits)
  obtain c w2 h2 where e: "run_state (await_tunnel_echo env lim s event f config seq tick w1) h1 = (Some (c, w2), h2)"
    and rest: "w' = w2" "continues = c" "\<exists>es. h' = h2 @ es"
    using assms(1) r
    by (auto simp: datagram_taken_def tn_sleep_def call_def Let_def State_Monad.return_def elim!: when_done_cases split: if_splits)
  from await_echo_lost [OF e w1] rest show ?thesis by (auto simp: lost_seen_def)
qed

lemma datagram_turn_lost:
  assumes "run_state (datagram_turn env lim s event flows config seq w) h = (Some (continues, w'), h')" "\<not> tu_lost w"
  shows "lost_seen w' h' \<and> (continues \<longrightarrow> \<not> tu_lost w')"
proof -
  let ?i = "seq mod unat (tw_concurrent_flows config)"
  obtain tick h1 where t: "run_state (tn_tick env) h = (tick, h1)" by (rule prod.exhaust)
  obtain taken w1 h2 where s: "run_state (send_datagram env lim s event (flows ! ?i) (datagram_range config seq (flows ! ?i))
      (tu_payload config (tu_prepare config seq ?i w)) seq (tw_receive_deadline_ms config) (tu_prepare config seq ?i w)) h1
      = (Some (taken, w1), h2)"
    and rest: "run_state (if \<not> taken then State_Monad.return (Some (False, w1))
       else datagram_taken env lim s event (flows ! ?i) config seq tick w1) h2 = (Some (continues, w'), h')"
    using assms(1) t by (auto simp: datagram_turn_def Let_def elim!: when_done_cases)
  have "\<not> tu_lost (tu_prepare config seq ?i w)" using assms(2) by (simp add: tu_prepare_def)
  from send_datagram_lost [OF s this] rest datagram_taken_lost show ?thesis
    by (cases taken) (auto simp: State_Monad.return_def)
qed

lemma datagram_loop_lost:
  assumes "run_state (datagram_loop env lim s event flows config seqs w) h = (Some w', h')" "\<not> tu_lost w"
  shows "lost_seen w' h'"
  using assms
proof (induction seqs arbitrary: w h)
  case (Cons seq seqs)
  from Cons.prems(1) obtain continues w1 h1 where t: "run_state (datagram_turn env lim s event flows config seq w) h
      = (Some (continues, w1), h1)"
    and rest: "run_state (if continues then datagram_loop env lim s event flows config seqs w1
      else State_Monad.return (Some w1)) h1 = (Some w', h')"
    by (auto elim!: when_done_cases)
  from datagram_turn_lost [OF t Cons.prems(2)] rest Cons.IH show ?case
    by (cases continues) (auto simp: State_Monad.return_def)
qed (simp add: State_Monad.return_def lost_seen_def)

lemma settles_close_flows:
  assumes "\<And>u. settles g F E (k u)"
  shows "settles g (set fs \<union> F) E (State_Monad.bind (close_flows env s fs) k)"
    and "settles g (set fs \<union> F) E (State_Monad.bind (close_flows_logged env s fs) k)"
proof (induction fs)
  case Nil
  {
    case 1
    then show ?case using assms by (simp add: settles_def State_Monad.return_def)
  next
    case 2
    then show ?case using assms by (simp add: settles_def State_Monad.return_def)
  }
next
  case (Cons f fs)
  have log: "emits plain (tn_log line)" for line by (auto intro!: emit_rules)
  {
    case 1
    then show ?case using settles_close_flow [OF Cons(1), of f env s] by simp
  next
    case 2
    have "settles g (insert f (set fs \<union> F)) E (State_Monad.bind (tn_close_flow env s f)
        (\<lambda>a. State_Monad.bind (tn_log (close_text (fst a) (snd a))) (\<lambda>_. State_Monad.bind (close_flows_logged env s fs) k)))"
      by (rule settles_close_flow, rule settles_bind [OF log Cons(2)])
    then show ?case by (simp add: split_def)
  }
qed

lemma open_udp_flows_owned:
  assumes "run_state (open_udp_flows env s config destination idx flows result) h = ((b, r, flows'), h')"
    and "published_handles h \<subseteq> set flows"
  shows "published_handles h' \<subseteq> set flows' \<and> loaded_events h' = loaded_events h"
  using assms
proof (induction idx arbitrary: flows h)
  case (Cons i idx)
  obtain rc opened where o: "te_open_flow env h s (udp_request config destination (of_nat i)) = (rc, opened)" by (rule prod.exhaust)
  let ?h = "h @ [Tn_open_flow s (udp_request config destination (of_nat i)) rc opened]"
  have h1: "published_handles ?h \<subseteq> (if published rc opened then insert (op_flow opened) (set flows) else set flows)"
    "loaded_events ?h = loaded_events h" using Cons.prems(2) by auto
  show ?case
  proof (cases "published rc opened")
    case True
    with Cons.prems(1) o have "run_state (open_udp_flows env s config destination idx (flows @ [op_flow opened]) result) ?h
      = ((b, r, flows'), h')" by (simp add: tn_open_flow_def call_def Let_def)
    from Cons.IH [OF this] h1 True show ?thesis by simp
  next
    case False
    with Cons.prems(1) o have "flows' = flows" "h' = ?h"
      by (auto simp: tn_open_flow_def call_def Let_def State_Monad.return_def)
    with h1 False show ?thesis by simp
  qed
qed (simp add: State_Monad.return_def)

lemma settles_unopened:
  "settles g (set flows) {event} (do { close_flows env s flows; tn_close_event event; State_Monad.return (Some r) })"
  by (rule settles_close_flows(1) [where F = "{}", unfolded Un_empty_right], rule settles_close_event, rule settles_return)

lemma settles_finished:
  "settles g (set flows) {event} (do { close_flows_logged env s flows; tn_close_event event; tn_log line; State_Monad.return (Some r) })"
  by (rule settles_close_flows(2) [where F = "{}", unfolded Un_empty_right], rule settles_close_event)
    (intro settle_rules emit_rules, simp)

lemma within_run_tunnel_flows:
  "within (\<lambda>_. True) {} {event} (run_tunnel_flows env lim config s event destination capabilities policy result)"
  unfolding within_def
proof (intro allI impI)
  fix h a h'
  assume run: "run_state (run_tunnel_flows env lim config s event destination capabilities policy result) h = (Some a, h')"
    and h: "published_handles h \<subseteq> {}" "loaded_events h \<subseteq> {event}"
  obtain b r flows h1 where o: "run_state (open_udp_flows env s config destination [0..<unat (tw_concurrent_flows config)] [] result) h
      = ((b, r, flows), h1)" by (metis prod.exhaust)
  from open_udp_flows_owned [OF o] h have h1: "published_handles h1 \<subseteq> set flows" "loaded_events h1 \<subseteq> {event}" by auto
  show "loaded_events h' = {} \<and> (published_handles h' = {} \<or> (\<lambda>_. True) a \<and> service_gone h')"
  proof (cases b)
    case False
    with run o have "run_state (do { close_flows env s flows; tn_close_event event; State_Monad.return (Some r) }) h1 = (Some a, h')"
      by (simp add: run_tunnel_flows_def)
    from settlesD [OF settles_unopened [where g = "\<lambda>_. True"] this] h1 show ?thesis by auto
  next
    case True
    with run o obtain w h2 where l: "run_state (datagram_loop env lim s event flows config [0..<unat (tw_datagram_count config)]
        (new_tunnel_workload (unat (MaximumUdpPayloadStorageBytes lim)) r)) h1 = (Some w, h2)"
      and rest: "run_state (do {
         (if tu_lost w then tn_log ''scenario=wgnx_tunnel_udp_workload skip CloseFlow because wgnx:tun closed''
          else close_flows_logged env s flows);
         tn_close_event event;
         tn_log (metrics_line ''wgnx-tun'' ''queue_full_events'' (te_tick_frequency env) config (tu_metrics w) (tu_queue_full w));
         State_Monad.return (Some (tunnel_udp_verdict env config capabilities policy w)) }) h2 = (Some a, h')"
      by (auto simp: run_tunnel_flows_def elim!: when_done_cases)
    have "emits plain (datagram_loop env lim s event flows config [0..<unat (tw_datagram_count config)]
        (new_tunnel_workload (unat (MaximumUdpPayloadStorageBytes lim)) r))" by (intro emit_rules)
    from plain_run [OF this l] h1 have h2: "published_handles h2 \<subseteq> set flows" "loaded_events h2 \<subseteq> {event}" by auto
    show ?thesis
    proof (cases "tu_lost w")
      case True
      with datagram_loop_lost [OF l] have "service_gone h2" by (simp add: lost_seen_def new_tunnel_workload_def)
      with True rest h2 show ?thesis
        by (auto simp: tn_log_def tn_close_event_def call_def State_Monad.return_def)
    next
      case False
      with rest settlesD [OF settles_finished [where g = "\<lambda>_. True"]] h2 show ?thesis by fastforce
    qed
  qed
qed

lemma within_udp: "within (\<lambda>_. True) {} {} (RunWgnxTunnelUdpWorkload env lim config)"
proof -
  have "within (\<lambda>_. True) {} {} (start_udp_flows env lim config s event destination capabilities policy result)"
    for s event destination capabilities policy result
    unfolding start_udp_flows_def by (rule within_load_event) (rule within_run_tunnel_flows)
  then show ?thesis
    unfolding RunWgnxTunnelUdpWorkload_def open_udp_session_def by (auto intro!: within_rules emit_rules)
qed

subsection \<open>The contract validation\<close>

lemma zero_not_open: "0 \<notin> published_handles h"
proof (induction h rule: rev_induct)
  case (snoc e h)
  then show ?case by (cases e) auto
qed simp

lemma settles_close_contract_flow:
  assumes "\<And>u. settles g F E (k u)" shows "settles g (insert f F) E (State_Monad.bind (close_contract_flow env s f) k)"
proof (cases "f = 0")
  case True
  have "published_handles h - insert 0 F = published_handles h - F" for h using zero_not_open by auto
  with True assms show ?thesis by (simp add: close_contract_flow_def settles_def)
next
  case False
  then show ?thesis
    using settles_close_flow [of g F E "\<lambda>_. State_Monad.bind (State_Monad.return ()) k"] assms
    by (simp add: close_contract_flow_def)
qed

lemma within_open_contract_flow:
  assumes "\<And>r. within g F E (k (Inl r))" "\<And>f. within g (insert f F) E (k (Inr f))"
  shows "within g F E (State_Monad.bind (open_contract_flow env s request result) k)"
  unfolding open_contract_flow_def State_Monad.bind_assoc
  by (rule within_open_flow) (simp add: assms)

lemma within_load_contract_event:
  assumes "\<And>r. within g F E (k (Inl r))" "\<And>e. within g F (insert e E) (k (Inr e))"
  shows "within g F E (State_Monad.bind (load_contract_event env s result) k)"
proof -
  have "emits plain (tn_get_event env s)" by (auto intro!: emit_rules)
  then show ?thesis
    unfolding load_contract_event_def State_Monad.bind_assoc
    by (rule within_bind)
      (auto simp: assms State_Monad.bind_assoc intro!: within_cases(4) within_load_event split: prod.split)
qed

lemma settles_drop_clone: "settles g {f} {event} (drop_clone env clone event f result)"
  unfolding drop_clone_def
  by (intro settles_close_event settles_close_contract_flow settle_rules)

lemma plain_open_retained [emit_rules]: "emits plain (open_retained env n retained)" "emits plain (close_clients ss)"
  by (induction n arbitrary: retained, auto intro!: emit_rules) (induction ss, auto intro!: emit_rules)

text \<open>After the wait for an echo: the flow stays only when the service is gone.\<close>

lemma within_echo:
  assumes "\<And>echo. \<not> cw_service_lost echo \<Longrightarrow> within g F E (k echo)"
    and "\<And>echo h a h'. \<lbrakk>cw_service_lost echo; \<not> cw_received_expected echo; loaded_events h \<subseteq> E;
      run_state (k echo) h = (Some a, h')\<rbrakk> \<Longrightarrow> loaded_events h' = {} \<and> g a \<and> (service_gone h \<longrightarrow> service_gone h')"
  shows "within g F E (when_done (WaitForEcho env lim s event f expected timeout_ms) k)"
  unfolding within_def
proof (intro allI impI)
  fix h a h'
  assume run: "run_state (when_done (WaitForEcho env lim s event f expected timeout_ms) k) h = (Some a, h')"
    and h: "published_handles h \<subseteq> F" "loaded_events h \<subseteq> E"
  obtain echo h1 where e: "run_state (WaitForEcho env lim s event f expected timeout_ms) h = (Some echo, h1)"
    and r: "run_state (k echo) h1 = (Some a, h')" using run by (rule when_done_cases)
  from plain_run [OF plain_waits(1) e] h have h1: "published_handles h1 \<subseteq> F" "loaded_events h1 \<subseteq> E" by auto
  show "loaded_events h' = {} \<and> (published_handles h' = {} \<or> g a \<and> service_gone h')"
  proof (cases "cw_service_lost echo")
    case True
    with assms(2) [OF _ _ h1(2) r] waits_gone(1) [OF e] show ?thesis by auto
  next
    case False
    from withinD [OF assms(1) [OF this] r h1] show ?thesis .
  qed
qed

lemma settles_release_clone: "settles g {f} {} (release_clone env clone retained f result)"
  unfolding release_clone_def
  by (rule settles_close_contract_flow) (auto intro!: settle_rules emit_rules)

lemma within_clone_echo: "within isl {f} {event} (clone_echo env lim workload clone retained event f result)"
proof -
  have send: "emits plain (tn_send env s r bytes)" for s r bytes by (auto intro!: emit_rules)
  have "within isl {f} {event} (clone_echoed env clone retained event f result echo)" if "\<not> cw_service_lost echo" for echo
    unfolding clone_echoed_def using that
    by (intro within_settles settles_close_event) (simp add: settles_release_clone settles_close_contract_flow settles_return)
  moreover have "loaded_events h' = {} \<and> isl a \<and> (service_gone h \<longrightarrow> service_gone h')"
    if "cw_service_lost echo" "\<not> cw_received_expected echo" "loaded_events h \<subseteq> {event}"
      "run_state (clone_echoed env clone retained event f result echo) h = (Some a, h')" for echo h a h'
    using that by (auto simp: clone_echoed_def tn_close_event_def call_def Let_def State_Monad.return_def)
  ultimately have "within isl {f} {event} (when_done (WaitForEcho env lim clone event f payload timeout_ms)
      (clone_echoed env clone retained event f result))" for payload timeout_ms
    by (rule within_echo)
  then show ?thesis
    unfolding clone_echo_def
    by (auto simp: Let_def within_settles settles_drop_clone intro!: within_bind [OF send] within_cases(2,4))
qed

lemma within_fill_contexts: "within isl {f} {event} (fill_contexts env lim workload primary clone event f result)"
proof -
  have "settles isl {f} {event} (do { tn_close_client p; drop_clone env clone event f r })" for p r
    by (auto intro!: settle_rules settles_drop_clone emit_rules)
  then show ?thesis
    unfolding fill_contexts_def
    by (auto intro!: within_rules emit_rules within_clone_echo intro: within_settles settles_drop_clone)
qed

lemma within_validate_clone: "within isl {} {} (validate_clone env lim workload destination primary result)"
proof -
  have drop: "within isl {f} {} (do { close_contract_flow env clone f; State_Monad.return (Some (Inl r)) })" for clone f r
    by (intro within_settles settles_close_contract_flow settles_return)
  have "within isl {} {} (use_clone env lim workload destination primary clone result)" for clone
    unfolding use_clone_def
    by (rule within_open_contract_flow) (simp_all add: within_cases(1) within_load_contract_event drop within_fill_contexts)
  then show ?thesis
    unfolding validate_clone_def by (auto intro!: within_rules emit_rules)
qed

lemma plain_check_dispositions [emit_rules]: "emits plain (check_dispositions index ds matches)"
  by (induction index ds matches rule: check_dispositions.induct) (auto intro!: emit_rules)

lemma within_batch_echo: "within (\<lambda>x. x \<noteq> None) {f} {event} (batch_echo env lim workload primary event f result)"
proof -
  have "within (\<lambda>x. x \<noteq> None) {f} {event} (batch_echoed env primary event f result echo)" if "\<not> cw_service_lost echo" for echo
    unfolding batch_echoed_def using that
    by (intro within_settles settles_close_event) (simp add: settles_close_contract_flow settles_return)
  moreover have "loaded_events h' = {} \<and> a \<noteq> None \<and> (service_gone h \<longrightarrow> service_gone h')"
    if "cw_service_lost echo" "\<not> cw_received_expected echo" "loaded_events h \<subseteq> {event}"
      "run_state (batch_echoed env primary event f result echo) h = (Some a, h')" for echo h a h'
    using that by (auto simp: batch_echoed_def tn_close_event_def call_def Let_def State_Monad.return_def)
  ultimately show ?thesis unfolding batch_echo_def by (rule within_echo)
qed

lemma within_validate_batch: "within (\<lambda>x. x \<noteq> None) {} {} (validate_batch env lim workload destination primary result)"
proof -
  let ?g = "\<lambda>x. x \<noteq> None"
  have drop: "within ?g {f} {} (do { close_contract_flow env primary f; State_Monad.return (Some r) })" for f r
    by (intro within_settles settles_close_contract_flow settles_return)
  have send: "emits plain (tn_send_batch env s r bytes)" for s r bytes by (auto intro!: emit_rules)
  have load: "within ?g {f} {} (do {
            loaded \<leftarrow> load_contract_event env primary result;
            (case loaded of
               Inl result \<Rightarrow> do { close_contract_flow env primary f; State_Monad.return (Some (Some result)) }
             | Inr event \<Rightarrow> batch_echo env lim workload primary event f result) })" for f
    by (rule within_load_contract_event) (simp_all del: not_None_eq add: drop within_batch_echo)
  show ?thesis
    unfolding validate_batch_def
    by (rule within_open_contract_flow)
      (auto simp del: not_None_eq simp: within_cases(1) drop load intro!: within_bind [OF send] within_bind [OF plain_check_dispositions] within_cases(2,4))
qed

lemma within_contract: "within (\<lambda>_. True) {} {} (RunWgnxTunnelContractValidation env lim workload config)"
proof -
  have batch: "within (\<lambda>_. True) {} {} (when_done (if verify_mixed_batch config
        then validate_batch env lim workload destination primary result else State_Monad.return (Some None)) (\<lambda>batch.
      State_Monad.return (Some (finish batch))))" for destination primary result finish
    using within_validate_batch [of env lim workload destination primary result]
    by (auto simp: within_def State_Monad.return_def elim!: when_done_cases split: if_splits) (fastforce+)?
  have "within (\<lambda>_. True) {} {} (run_validations env lim workload config destination capabilities primary result)"
    for destination capabilities primary result
    unfolding within_def
  proof (intro allI impI)
    fix h a h'
    assume run: "run_state (run_validations env lim workload config destination capabilities primary result) h = (Some a, h')"
      and h: "published_handles h \<subseteq> {}" "loaded_events h \<subseteq> {}"
    from run obtain cloned h1 where c: "run_state (if verify_cloned_session_lifetime config
          then validate_clone env lim workload destination primary result else State_Monad.return (Some (Inr primary))) h
        = (Some cloned, h1)"
      and rest: "run_state (case cloned of Inl result \<Rightarrow> State_Monad.return (Some result)
        | Inr primary \<Rightarrow> when_done (if verify_mixed_batch config then validate_batch env lim workload destination primary result
              else State_Monad.return (Some None)) (\<lambda>batch.
            State_Monad.return (Some (case batch of Some result \<Rightarrow> result
              | None \<Rightarrow> contract_success capabilities config (length (contract_payload lim workload)) result)))) h1 = (Some a, h')"
      unfolding run_validations_def by (rule when_done_cases)
    have h1: "loaded_events h1 = {} \<and> (published_handles h1 = {} \<or> isl cloned \<and> service_gone h1)"
      using c h withinD [OF within_validate_clone] by (auto simp: State_Monad.return_def split: if_splits)
    show "loaded_events h' = {} \<and> (published_handles h' = {} \<or> True \<and> service_gone h')"
    proof (cases cloned)
      case (Inl r)
      with rest h1 show ?thesis by (auto simp: State_Monad.return_def)
    next
      case (Inr p)
      with rest h1 show ?thesis using withinD [OF batch] by fastforce
    qed
  qed
  then show ?thesis
    unfolding RunWgnxTunnelContractValidation_def open_contract_session_def by (auto intro!: within_rules emit_rules)
qed

end
