(* ===== verification/TunnelSuccess.thy ===== *)
theory TunnelSuccess
  imports TunnelRelease
begin

text \<open>
  What success of the UDP workload of \<^verbatim>\<open>toolbox/src/wgnx_tunnel_scenario.cpp\<close> means:
  every datagram came back in a completion of its own flow. The lemmas follow the run
  from the wait for one echo to the loop over the datagrams.
\<close>

subsection \<open>What a wait found\<close>










subsection \<open>The UDP workload\<close>














lemma close_flows_grow [emit_rules]:
  "emits (\<lambda>_. True) (close_flows env s fs)" "emits (\<lambda>_. True) (close_flows_logged env s fs)"
  by (induction fs) (auto intro!: emit_rules)




end
