(* ===== verification/TunnelTcpSuccess.thy ===== *)
theory TunnelTcpSuccess
  imports TunnelSuccess
begin

text \<open>
  What success of the TCP exchange of \<^verbatim>\<open>toolbox/src/wgnx_tunnel_scenario.cpp\<close> means: the
  stream the service brought on the flow, put together from all its completions, is the
  expected reply.
\<close>

subsection \<open>The stream of a TCP flow\<close>

text \<open>What an answer adds to the stream of a flow, and what the answers of a history add up to.\<close>

definition stream_record :: "flow \<Rightarrow> CompletionRecord \<Rightarrow> bool" where
  "stream_record f c \<longleftrightarrow> co_type c = InboundTcpStream \<and> co_flow c = f \<and> co_flow_kind c = TcpFlow"

definition batch_stream :: "flow \<Rightarrow> u8 list \<Rightarrow> CompletionRecord list \<Rightarrow> u8 list" where
  "batch_stream f bytes cs = concat (map (\<lambda>c. payload_at c bytes) (filter (stream_record f) cs))"

definition answer_stream :: "flow \<Rightarrow> receive_answer \<Rightarrow> u8 list" where
  "answer_stream f a = (if failed (ra_rc a) \<or> ra_status a \<noteq> Success then [] else batch_stream f (ra_bytes a) (ra_records a))"

definition tunnel_stream :: "tun_session \<Rightarrow> flow \<Rightarrow> tun_history \<Rightarrow> u8 list" where
  "tunnel_stream s f h = concat (map (\<lambda>e. case e of
      Tn_receive s' a \<Rightarrow> (if s' = s then answer_stream f a else []) | _ \<Rightarrow> []) h)"

text \<open>The service said that the peer ended the stream.\<close>

definition stream_ended :: "tun_env \<Rightarrow> tun_session \<Rightarrow> flow \<Rightarrow> tun_history \<Rightarrow> bool" where
  "stream_ended env s f h \<longleftrightarrow> (\<exists>state. Tn_flow_state s f 0 state \<in> set h \<and> fs_status state = Success
     \<and> fs_stream_flags state AND FlowStreamFlagRemoteWriteOpen (te_api env) = FlowStreamFlagNone (te_api env))"

lemma tunnel_stream_simps [simp]:
  "tunnel_stream s f [] = []" "tunnel_stream s f (h @ k) = tunnel_stream s f h @ tunnel_stream s f k"
  "stream_ended env s f (h @ k) \<longleftrightarrow> stream_ended env s f h \<or> stream_ended env s f k"
  by (auto simp: tunnel_stream_def stream_ended_def)

lemma batch_stream_simps [simp]:
  "batch_stream f bytes [] = []"
  "batch_stream f bytes (c # cs) = (if stream_record f c then payload_at c bytes else []) @ batch_stream f bytes cs"
  by (simp_all add: batch_stream_def)








subsection \<open>The TCP exchange\<close>












end
