(* ===== verification/TunnelReturns.thy ===== *)
theory TunnelReturns
  imports TunnelUdp TunnelContract
begin

text \<open>
  The tunnel scenarios come to an end when the clock moves on and the queue of completions
  can be drained: each wait has a measure that every turn of its loop decreases.
\<close>

subsection \<open>What the platform has to do\<close>

fun tick_step :: "tun_event \<Rightarrow> nat \<Rightarrow> nat" where
  "tick_step (Tn_tick now) n = n + 1"
| "tick_step _ n = n"

definition clock_ticks :: "tun_history \<Rightarrow> nat" where
  "clock_ticks h = fold tick_step h 0"

text \<open>Every reading of the clock is later than all readings before, up to the last value it has.\<close>

definition tunnel_clock_advances :: "tun_env \<Rightarrow> bool" where
  "tunnel_clock_advances env \<longleftrightarrow> (\<forall>h. min (clock_ticks h) (2 ^ 64 - 1) \<le> unat (te_tick env h))"

text \<open>How many batches the service delivered since the last wait for its event.\<close>

fun batch_step :: "tun_event \<Rightarrow> nat \<Rightarrow> nat" where
  "batch_step (Tn_wait e ns rc) n = 0"
| "batch_step (Tn_receive s a) n = (if \<not> failed (ra_rc a) \<and> ra_status a = Success then n + 1 else n)"
| "batch_step _ n = n"

definition batches :: "tun_history \<Rightarrow> nat" where
  "batches h = fold batch_step h 0"

definition queue_drains :: "tun_env \<Rightarrow> nat \<Rightarrow> bool" where
  "queue_drains env b \<longleftrightarrow> (\<forall>h s n. let a = te_receive env h s n in
     \<not> failed (ra_rc a) \<longrightarrow> ra_status a = Success \<longrightarrow> batches h < b)"

lemma counts_simps [simp]:
  "clock_ticks [] = 0" "clock_ticks (h @ es) = fold tick_step es (clock_ticks h)"
  "batches [] = 0" "batches (h @ es) = fold batch_step es (batches h)"
  by (simp_all add: clock_ticks_def batches_def)

text \<open>Events that do not count for either.\<close>

fun inert :: "tun_event \<Rightarrow> bool" where
  "inert (Tn_tick now) = False"
| "inert (Tn_wait e ns rc) = False"
| "inert (Tn_receive s a) = False"
| "inert _ = True"

lemma inert_steps: "inert e \<Longrightarrow> batch_step e n = n" "inert e \<Longrightarrow> tick_step e n = n"
  by (cases e; simp)+

interpretation batch_count: account batch_step inert
  by unfold_locales (rule inert_steps)

interpretation tick_count: account tick_step inert
  by unfold_locales (rule inert_steps)

lemma inert_run:
  assumes "emits inert m" "run_state m h = (a, h')" shows "batches h' = batches h \<and> clock_ticks h' = clock_ticks h"
  unfolding batches_def clock_ticks_def
  using batch_count.silent_run [OF assms] tick_count.silent_run [OF assms] by blast

subsection \<open>The waits end\<close>

lemma wait_loop_ends:
  assumes records: "\<And>cs st. emits inert (wt_records style cs st)"
    "\<And>cs st k st' k'. run_state (wt_records style cs st) k = (Inr st', k') \<Longrightarrow> ws_draining st' = ws_draining st"
    and clock: "tunnel_clock_advances env" and queue: "queue_drains env b"
  shows "\<exists>r h'. run_state (wait_loop env style s event n timeout_ms) h = (Some r, h')"
proof -
  let ?m = "\<lambda>deadline st h. (unat deadline - clock_ticks h) * (b + 2) + (if ws_draining st then 1 + (b - batches h) else 0)"
  have ends: "\<exists>r h'. run_state (repeat_turns (wait_turn env style s event deadline) st) h = (Some r, h')" for deadline :: u64 and st h
  proof (rule repeat_turns_ends [where I = "\<lambda>_ _. True" and m = "?m deadline"])
    fix st h st' h'
    assume turn: "run_state (wait_turn env style s event deadline st) h = (Inr st', h')"
    have "?m deadline st' h' < ?m deadline st h"
    proof (cases "ws_draining st")
      case False
      from turn False obtain ns rc where running: "te_tick env h < deadline" and st': "ws_draining st'"
        and h': "h' = h @ [Tn_tick (te_tick env h), Tn_tick (te_tick env (h @ [Tn_tick (te_tick env h)])), Tn_wait event ns rc]"
        by (auto simp: wait_turn_def await_event_def tn_tick_def tn_wait_def call_def Let_def State_Monad.return_def
            not_le split: if_splits)
      have "min (clock_ticks h) (2 ^ 64 - 1) \<le> unat (te_tick env h)" using clock by (simp add: tunnel_clock_advances_def)
      moreover have "unat (te_tick env h) < unat deadline" using running by (simp add: word_less_nat_alt)
      moreover have "unat deadline < 2 ^ LENGTH(64)" by (rule unsigned_less)
      ultimately have "clock_ticks h < unat deadline" by (simp add: min_def split: if_splits)
      then obtain d where d: "unat deadline = clock_ticks h + Suc d" by (auto dest: less_imp_Suc_add)
      have "?m deadline st' h' = (d - 1) * (b + 2) + (1 + b)" using d h' st' by (simp add: distrib_left)
      also have "\<dots> < Suc d * (b + 2)" using mult_le_mono1 [of "d - 1" d "b + 2"] unfolding mult_Suc by linarith
      also have "\<dots> = ?m deadline st h" using d False by simp
      finally show ?thesis .
    next
      case True
      from turn True obtain a k where a: "run_state (tn_receive env s (length (ws_storage st))) h = (a, k)"
        "\<not> failed (ra_rc a)" and rest: "if ra_status a = QueueEmpty then \<not> ws_draining st' \<and> h' = k
          else ra_status a = Success \<and> (\<exists>st1. ws_draining st1 \<and> run_state (wt_records style (ra_records a) st1) k = (Inr st', h'))"
        by (cases "run_state (tn_receive env s (length (ws_storage st))) h")
          (fastforce simp: wait_turn_def receive_batch_def Let_def State_Monad.return_def split: if_splits)
      from a have k: "k = h @ [Tn_receive s a]" "ra_status (te_receive env h s (length (ws_storage st))) = ra_status a"
        "ra_rc (te_receive env h s (length (ws_storage st))) = ra_rc a"
        by (auto simp: tn_receive_def call_def Let_def)
      show ?thesis
      proof (cases "ra_status a = QueueEmpty")
        case empty: True
        with rest k True show ?thesis by simp
      next
        case False
        with rest obtain st1 where success: "ra_status a = Success" "ws_draining st1"
          and st1: "run_state (wt_records style (ra_records a) st1) k = (Inr st', h')" by auto
        from records(2) [OF st1] inert_run [OF records(1) st1] success(2)
        have "ws_draining st'" "batches h' = batches k \<and> clock_ticks h' = clock_ticks k" by simp_all
        moreover have "batches h < b"
          using queue a(2) success(1) k by (auto simp: queue_drains_def Let_def) metis
        ultimately show ?thesis using k a(2) success(1) True by auto
      qed
    qed
    then show "True \<and> ?m deadline st' h' < ?m deadline st h" by simp
  qed simp
  show ?thesis by (simp add: wait_loop_def DeadlineAfterMilliseconds_def tn_tick_def call_def Let_def ends)
qed

lemma inert_tcp_records: "emits inert (tcp_records env s f cs st)"
  by (induction cs arbitrary: st) (auto simp: tcp_state_changed_def Let_def intro!: emit_rules)

lemma draining_kept:
  "echo_records env f expected cs st = Inr st' \<Longrightarrow> ws_draining st' = ws_draining st"
  "writable_records env f cs st = Inr st' \<Longrightarrow> ws_draining st' = ws_draining st"
  by (induction cs arbitrary: st) (auto simp: count_ignored_def split: if_splits)

lemma tcp_draining_kept: "run_state (tcp_records env s f cs st) k = (Inr st', k') \<Longrightarrow> ws_draining st' = ws_draining st"
proof (induction cs arbitrary: st k)
  case (Cons c cs)
  then show ?case
    by (auto simp: count_ignored_def State_Monad.return_def Let_def split: if_splits prod.splits sum.splits)
qed (simp add: State_Monad.return_def)

lemma records_inert:
  "emits inert (wt_records (echo_style env f expected) cs st)" "emits inert (wt_records (writable_style env f) cs st)"
  "emits inert (wt_records (tcp_style env s f require_open require_reply require_closed) cs st)"
  by (auto simp: echo_style_def writable_style_def tcp_style_def intro!: emit_rules inert_tcp_records)

lemma only_inr: "(if a then Inl x else if b then Inl y else if c then Inr z else Inl v) = Inr t \<Longrightarrow> t = z"
  by (simp split: if_splits)

lemma tcp_check_kept: "tcp_check require_open require_reply require_closed st = Inr st' \<Longrightarrow> ws_draining st' = ws_draining st"
  unfolding tcp_check_def Let_def by (drule only_inr) simp

lemma records_draining:
  "run_state (wt_records (echo_style env f expected) cs st) k = (Inr st', k') \<Longrightarrow> ws_draining st' = ws_draining st"
  "run_state (wt_records (writable_style env f) cs st) k = (Inr st', k') \<Longrightarrow> ws_draining st' = ws_draining st"
  by (auto simp: echo_style_def writable_style_def State_Monad.return_def dest: draining_kept)

lemma tcp_records_draining:
  assumes "run_state (wt_records (tcp_style env s f require_open require_reply require_closed) cs st) k = (Inr st', k')"
  shows "ws_draining st' = ws_draining st"
proof -
  obtain t k1 where t: "run_state (tcp_records env s f cs st) k = (t, k1)" by (rule prod.exhaust)
  show ?thesis
  proof (cases t)
    case (Inl r)
    with assms t show ?thesis by (simp add: tcp_style_def State_Monad.return_def)
  next
    case (Inr st1)
    with assms t have "tcp_check require_open require_reply require_closed st1 = Inr st'"
      by (simp add: tcp_style_def State_Monad.return_def)
    with t Inr show ?thesis by (simp add: tcp_check_kept tcp_draining_kept)
  qed
qed

lemma waits_end:
  assumes "tunnel_clock_advances env" "queue_drains env b"
  shows "\<exists>r h'. run_state (WaitForEcho env lim s event f expected timeout_ms) h = (Some r, h')"
    and "\<exists>r h'. run_state (WaitForWritable env lim s event f timeout_ms) h = (Some r, h')"
    and "\<exists>r h'. run_state (WaitForTcpProgress env s event f require_open require_reply require_closed timeout_ms) h = (Some r, h')"
  unfolding WaitForEcho_def WaitForWritable_def WaitForTcpProgress_def
  by (rule wait_loop_ends [OF _ _ assms]; simp add: records_inert records_draining tcp_records_draining)+

subsection \<open>The scenarios end\<close>

definition ends :: "(tun_history, 'a option) state \<Rightarrow> bool" where
  "ends m \<longleftrightarrow> (\<forall>h. \<exists>a h'. run_state m h = (Some a, h'))"

named_theorems end_rules \<open>introduction rules for \<^const>\<open>ends\<close>\<close>

lemma ends_rules [end_rules]:
  "ends (State_Monad.return (Some a))"
  "(\<And>a. ends (f a)) \<Longrightarrow> ends (State_Monad.bind m f)"
  "(b \<Longrightarrow> ends p) \<Longrightarrow> (\<not> b \<Longrightarrow> ends q) \<Longrightarrow> ends (if b then p else q)"
  "(\<And>x. ends (k x)) \<Longrightarrow> ends (let x = v in k x)"
  "(\<And>a c. ends (g a c)) \<Longrightarrow> ends (case pr of (a, c) \<Rightarrow> g a c)"
  "ends p \<Longrightarrow> (\<And>y. ends (l y)) \<Longrightarrow> ends (case o' of None \<Rightarrow> p | Some y \<Rightarrow> l y)"
  "(\<And>y. ends (u y)) \<Longrightarrow> (\<And>y. ends (l y)) \<Longrightarrow> ends (case s' of Inl y \<Rightarrow> u y | Inr y \<Rightarrow> l y)"
  by (auto simp: ends_def State_Monad.return_def split: prod.split option.split sum.split)

lemma ends_when_done [end_rules]: "ends m \<Longrightarrow> (\<And>a. ends (f a)) \<Longrightarrow> ends (when_done m f)"
  unfolding ends_def by (metis when_done_run)

lemma ends_waits:
  assumes "tunnel_clock_advances env" "queue_drains env b"
  shows "ends (WaitForEcho env lim s event f expected timeout_ms)" "ends (WaitForWritable env lim s event f timeout_ms)"
    "ends (WaitForTcpProgress env s event f require_open require_reply require_closed timeout_ms)"
  using waits_end [OF assms] by (simp_all add: ends_def)

lemma send_turn_result:
  assumes "ends (WaitForWritable env lim s event f deadline_ms)"
    and "run_state (tunnel_send_turn env lim s event f descriptor payload seq deadline_ms (w, retries)) h = (t, h')"
  shows "t \<noteq> Inl None" and "t = Inr (w', retries') \<Longrightarrow> retries' = retries + 1 \<and> retries \<noteq> 16"
proof -
  obtain rc disposition where send: "te_send env h s descriptor payload = (rc, disposition)" by (rule prod.exhaust)
  obtain r h2 where wait: "run_state (WaitForWritable env lim s event f deadline_ms) (h @ [Tn_send s descriptor payload rc disposition])
      = (Some r, h2)" using assms(1) unfolding ends_def by blast
  show "t \<noteq> Inl None" and "t = Inr (w', retries') \<Longrightarrow> retries' = retries + 1 \<and> retries \<noteq> 16"
    using assms(2) send wait
    by (auto simp: tunnel_send_turn_def tn_send_def call_def Let_def State_Monad.return_def MaximumQueueFullRetriesPerDatagram_def
        split: if_splits)
qed

lemma send_datagram_ends:
  assumes "ends (WaitForWritable env lim s event f deadline_ms)"
  shows "ends (send_datagram env lim s event f descriptor payload seq deadline_ms w)"
  unfolding ends_def
proof
  fix h
  let ?body = "tunnel_send_turn env lim s event f descriptor payload seq deadline_ms"
  have "\<exists>r h'. run_state (turns (unat MaximumQueueFullRetriesPerDatagram) ?body (w, 0)) h = (Some r, h')"
  proof (rule turns_end [where m = "\<lambda>x. unat (16 - snd x)"])
    fix x h x' h'
    assume "run_state (?body x) h = (Inr x', h')"
    then have "snd x' = snd x + 1 \<and> snd x \<noteq> 16" using send_turn_result(2) [OF assms] by (metis prod.collapse)
    then have "16 - snd x \<noteq> 0" "16 - snd x' = 16 - snd x - 1" by simp_all
    then show "unat (16 - snd x') < unat (16 - snd x)" using measure_unat by metis
  qed (simp add: MaximumQueueFullRetriesPerDatagram_def)
  then obtain r h' where r: "run_state (turns (unat MaximumQueueFullRetriesPerDatagram) ?body (w, 0)) h = (Some r, h')" by blast
  have turn: "r \<noteq> None" if "run_state (?body x) k = (Inl r, k')" for x k r k'
  proof -
    from that have "run_state (?body (fst x, snd x)) k = (Inl r, k')" by simp
    from send_turn_result(1) [OF assms this] show ?thesis by simp
  qed
  have "r \<noteq> None"
    by (rule turns_result [where I = "\<lambda>_ _. True" and Q = "\<lambda>r _. r \<noteq> None", OF _ _ r]) (use turn in blast)+
  with r show "\<exists>a h'. run_state (send_datagram env lim s event f descriptor payload seq deadline_ms w) h = (Some a, h')"
    by (auto simp: send_datagram_def when_done_run State_Monad.return_def)
qed

lemma tunnel_runs_end:
  assumes "tunnel_clock_advances env" "queue_drains env b"
  shows "ends (RunWgnxTunnelTcpExchange env profile workload_id tcp_config)" "ends (RunWgnxTunnelUdpWorkload env lim config)"
    and "ends (RunWgnxTunnelContractValidation env lim config contract)"
proof -
  note waits = ends_waits [OF assms]
  show "ends (RunWgnxTunnelTcpExchange env profile workload_id tcp_config)"
    unfolding RunWgnxTunnelTcpExchange_def open_tcp_flow_def start_tcp_flow_def connect_tcp_def exchange_tcp_def await_reply_def
      drop_flow_def drop_flow_event_def finish_tcp_def
    by (intro end_rules waits)
  have turn: "ends (datagram_turn env lim s event flows config seq w)" for s event flows seq w
    unfolding datagram_turn_def datagram_taken_def await_tunnel_echo_def
    by (intro end_rules waits send_datagram_ends)
  have "ends (datagram_loop env lim s event flows config seqs w)" for s event flows seqs w
    by (induction seqs arbitrary: w) (auto intro!: end_rules turn)
  then show "ends (RunWgnxTunnelUdpWorkload env lim config)"
    unfolding RunWgnxTunnelUdpWorkload_def open_udp_session_def start_udp_flows_def run_tunnel_flows_def
    by (intro end_rules)
  have "ends (validate_clone env lim workload destination primary result)" for workload destination primary result
    unfolding validate_clone_def use_clone_def fill_contexts_def clone_echo_def clone_echoed_def release_clone_def drop_clone_def
    by (intro end_rules waits)
  moreover have "ends (validate_batch env lim workload destination primary result)" for workload destination primary result
    unfolding validate_batch_def batch_echo_def batch_echoed_def
    by (intro end_rules waits)
  ultimately show "ends (RunWgnxTunnelContractValidation env lim config contract)"
    unfolding RunWgnxTunnelContractValidation_def open_contract_session_def run_validations_def
    by (intro end_rules)
qed

end
