(* ===== verification/TunnelProperties.thy ===== *)
theory TunnelProperties
  imports TunnelRelease TunnelReturns
begin

text \<open>The guarantees of the tunnel scenarios, and a service to run them on.\<close>

text \<open>
  C9. A tunnel scenario gives back what it acquires, but for the flows that the service opens
  without a local endpoint: run on a history with no open flow, no loaded event and no failed
  call, it ends with no loaded event, and every flow it leaves open was opened with success but
  without an endpoint (those are never closed), unless a call on its session failed because the
  service went away; the TCP exchange closes its flow even then. A handle of zero is no flow.
\<close>

theorem tunnel_runs_release_everything:
  assumes "open_flow_handles h = {}" "loaded_events h = {}" "\<not> service_gone h"
    and "is_tcp \<and> run_state (RunWgnxTunnelTcpExchange env profile workload_id tcp_config) h = (Some r, h')
      \<or> \<not> is_tcp \<and> run_state (RunWgnxTunnelUdpWorkload env lim config) h = (Some r, h')
      \<or> \<not> is_tcp \<and> run_state (RunWgnxTunnelContractValidation env lim config contract) h = (Some r, h')"
  shows "loaded_events h' = {} \<and> (open_flow_handles h' = endpointless_handles h' \<or> \<not> is_tcp \<and> service_gone h')"
proof -
  have "published_handles h = {}" using assms(1) by (simp add: open_flow_handles_split)
  with assms(2-4) have "loaded_events h' = {} \<and> (published_handles h' = {} \<or> \<not> is_tcp \<and> service_gone h')"
    using withinD [OF within_tcp [where g = "\<lambda>_. False"]] withinD [OF within_udp] withinD [OF within_contract] by fastforce
  then show ?thesis by (auto simp: open_flow_handles_split)
qed

text \<open>
  C10. The tunnel scenarios return, whatever the service answers, when the clock moves on from
  reading to reading and the service delivers at most \<open>b\<close> batches of completions between two
  waits for its event.
\<close>

theorem tunnel_runs_return:
  assumes "tunnel_clock_advances env" "queue_drains env b"
  shows "(\<exists>r h'. run_state (RunWgnxTunnelTcpExchange env profile workload_id tcp_config) h = (Some r, h'))
    \<and> (\<exists>r h'. run_state (RunWgnxTunnelUdpWorkload env lim config) h = (Some r, h'))
    \<and> (\<exists>r h'. run_state (RunWgnxTunnelContractValidation env lim config contract) h = (Some r, h'))"
  using tunnel_runs_end [OF assms] unfolding ends_def by blast

subsection \<open>A service\<close>

text \<open>
  A service that publishes one flow and has no room for a second; its queue of completions is
  always empty, and every other call succeeds.
\<close>

definition example_tun_api :: tun_api where
  "example_tun_api = \<lparr>TunApiVersion = 5, ConnectedIpv4Tcp = 4, FlowStreamFlagRemoteWriteOpen = 2, FlowStreamFlagNone = 0,
     MaximumBatchEntries = 8, MaximumTcpWriteStorageBytes = 64, MaximumClientContexts = 2, TimedOut_rc = 0xEA01,
     reason_number = (\<lambda>_. 0)\<rparr>"

definition example_capabilities :: Capabilities where
  "example_capabilities = \<lparr>api_version = 5, capability_mask = 7, maximum_udp_payload_bytes = 1200, maximum_tcp_write_bytes = 64\<rparr>"

definition example_opened :: "u64 \<Rightarrow> OpenConnectedFlowResult" where
  "example_opened tag = (if ucast tag = (0 :: u32) then \<lparr>op_status = Success, op_flow = 9, op_local_port = 40000\<rparr>
     else \<lparr>op_status = FlowQuotaExhausted, op_flow = 0, op_local_port = 0\<rparr>)"

definition example_tunnel :: tun_env where
  "example_tunnel = \<lparr>te_present = (\<lambda>_. (0, 1)), te_root_open = (\<lambda>_. 0), te_root_capabilities = (\<lambda>_. (0, example_capabilities)),
     te_open_client = (\<lambda>_. (0, 1)), te_clone_client = (\<lambda>_ _. (0, 2)), te_capabilities = (\<lambda>_ _. (0, example_capabilities)),
     te_routing = (\<lambda>_ _. (0, \<lparr>policy_generation = 3, route_count = 1\<rparr>)), te_get_event = (\<lambda>_ _. (0, 77)),
     te_wait = (\<lambda>_ _ _. 0), te_receive = (\<lambda>_ _ _. \<lparr>ra_rc = 0, ra_status = QueueEmpty, ra_records = [], ra_bytes = []\<rparr>),
     te_open_flow = (\<lambda>_ _ request. (0, example_opened (rq_diagnostic_tag request))),
     te_flow_state = (\<lambda>_ _ _. (0, \<lparr>fs_status = Success, fs_state = FlowOpen, fs_kind = TcpFlow, fs_local_port = 40000, fs_stream_flags = 2\<rparr>)),
     te_close_flow = (\<lambda>_ _ _. (0, Success)), te_send = (\<lambda>_ _ _ _. (0, \<lparr>pr_status = Success, pr_accepted_bytes = 0, pr_client_tag = 0\<rparr>)),
     te_send_batch = (\<lambda>_ _ _ _. (0, \<lambda>_. \<lparr>pr_status = Success, pr_accepted_bytes = 0, pr_client_tag = 0\<rparr>)),
     te_write = (\<lambda>_ _ rng _. (0, \<lparr>pr_status = Success, pr_accepted_bytes = rg_size rng, pr_client_tag = 0\<rparr>)),
     te_shutdown_write = (\<lambda>_ _ _. (0, Success)), te_tick = (\<lambda>h. of_nat (min (clock_ticks h) (2 ^ 64 - 1))),
     te_tick_frequency = 19200000, te_inet_pton = (\<lambda>text. if text = ''10.1.0.2'' then Some [10, 1, 0, 2] else None),
     te_ms_text = (\<lambda>_. ''0.1''), te_api = example_tun_api\<rparr>"

definition example_tunnel_limits :: tunnel_limits where
  "example_tunnel_limits = \<lparr>MaximumUdpPayloadStorageBytes = 40, MaximumFlowsPerClient = 2\<rparr>"

lemma example_tunnel_clock: "tunnel_clock_advances example_tunnel"
proof -
  have "unat (of_nat (min n (2 ^ 64 - 1)) :: u64) = min n (2 ^ 64 - 1)" for n
    by (rule of_nat_inverse [OF refl]) (simp add: min_less_iff_disj)
  then show ?thesis by (simp add: tunnel_clock_advances_def example_tunnel_def)
qed

theorem tunnel_runs_return_witness:
  "\<exists>r h'. run_state (RunWgnxTunnelUdpWorkload example_tunnel example_tunnel_limits example_workload) [] = (Some r, h')"
proof -
  have "queue_drains example_tunnel 1" by (simp add: queue_drains_def example_tunnel_def)
  from tunnel_runs_return [OF example_tunnel_clock this] show ?thesis by blast
qed

text \<open>Two flows are asked for, and the second is refused: the first is closed.\<close>

lemma example_tunnel_calls:
  "run_state (tn_present example_tunnel) h = ((0, True), h @ [Tn_present 0 True])"
  "run_state (tn_root_open example_tunnel) h = (0, h @ [Tn_root_open 0])"
  "run_state (tn_root_capabilities example_tunnel) h = ((0, example_capabilities), h @ [Tn_root_capabilities 0 example_capabilities])"
  "run_state (tn_open_client example_tunnel) h = ((0, 1), h @ [Tn_open_client 0 1])"
  "run_state (tn_capabilities example_tunnel s) h = ((0, example_capabilities), h @ [Tn_capabilities s 0 example_capabilities])"
  "run_state (tn_routing example_tunnel s) h = ((0, \<lparr>policy_generation = 3, route_count = 1\<rparr>),
     h @ [Tn_routing s 0 \<lparr>policy_generation = 3, route_count = 1\<rparr>])"
  "run_state (tn_get_event example_tunnel s) h = ((0, 77), h @ [Tn_get_event s 0 77])"
  "run_state (tn_load_event e) h = ((), h @ [Tn_load_event e])"
  "run_state (tn_close_event e) h = ((), h @ [Tn_close_event e])"
  "run_state (tn_log line) h = ((), h @ [Tn_log line])"
  "run_state (tn_open_flow example_tunnel s request) h = ((0, example_opened (rq_diagnostic_tag request)),
     h @ [Tn_open_flow s request 0 (example_opened (rq_diagnostic_tag request))])"
  "run_state (tn_close_flow example_tunnel s f) h = ((0, Success), h @ [Tn_close_flow s f 0 Success])"
  by (simp_all add: tn_call_defs call_def example_tunnel_def Let_def)

lemma example_refused_flow:
  "\<exists>r h'. run_state (RunWgnxTunnelUdpWorkload example_tunnel example_tunnel_limits (example_workload\<lparr>tw_concurrent_flows := 2\<rparr>)) []
      = (Some r, h') \<and> Tn_close_flow 1 9 0 Success \<in> set h'"
proof -
  let ?config = "example_workload\<lparr>tw_concurrent_flows := 2\<rparr>"
  have flows: "run_state (open_udp_flows example_tunnel s ?config destination [0..<2] [] result) h
      = ((False, result\<lparr>sr_rc := 0, sr_detail := ''OpenConnectedFlow status=flow_quota_exhausted''\<rparr>, [9]),
         h @ [Tn_open_flow s (udp_request ?config destination 0) 0 (example_opened (rq_diagnostic_tag (udp_request ?config destination 0))),
              Tn_open_flow s (udp_request ?config destination 1) 0 (example_opened (rq_diagnostic_tag (udp_request ?config destination 1)))])"
    for s destination result h
  proof -
    have "ucast (rq_diagnostic_tag (udp_request ?config destination 0)) = (0 :: u32)"
      "ucast (rq_diagnostic_tag (udp_request ?config destination 1)) = (1 :: u32)"
      by (simp_all add: udp_request_def example_workload_def)
    then have "published 0 (example_opened (rq_diagnostic_tag (udp_request ?config destination 0)))"
      "op_flow (example_opened (rq_diagnostic_tag (udp_request ?config destination 0))) = 9"
      "\<not> published 0 (example_opened (rq_diagnostic_tag (udp_request ?config destination 1)))"
      "open_failure 0 (example_opened (rq_diagnostic_tag (udp_request ?config destination 1)))
        = ''OpenConnectedFlow status=flow_quota_exhausted''"
      by (simp_all add: example_opened_def published_def open_failure_def failed_def)
    then show ?thesis
      by (simp add: upt_rec numeral_2_eq_2 example_tunnel_calls State_Monad.return_def)
  qed
  have config: "tw_payload_bytes example_workload = 26" "tw_destination_ipv4 example_workload = ''10.1.0.2''"
    "te_inet_pton example_tunnel ''10.1.0.2'' = Some [10, 1, 0, 2]" "maximum_udp_payload_bytes example_capabilities = 1200"
    "api_version example_capabilities = TunApiVersion (te_api example_tunnel)" "MaximumFlowsPerClient example_tunnel_limits = 2"
    by (simp_all add: example_workload_def example_tunnel_def example_capabilities_def example_tun_api_def example_tunnel_limits_def)
  show ?thesis
    by (simp add: RunWgnxTunnelUdpWorkload_def open_udp_session_def start_udp_flows_def run_tunnel_flows_def example_tunnel_calls
        config flows failed_def Let_def State_Monad.return_def)
qed

theorem tunnel_runs_release_everything_witness:
  "\<exists>r h'. run_state (RunWgnxTunnelUdpWorkload example_tunnel example_tunnel_limits (example_workload\<lparr>tw_concurrent_flows := 2\<rparr>)) []
      = (Some r, h') \<and> loaded_events h' = {} \<and> Tn_close_flow 1 9 0 Success \<in> set h'"
proof -
  obtain r h' where run: "run_state (RunWgnxTunnelUdpWorkload example_tunnel example_tunnel_limits
      (example_workload\<lparr>tw_concurrent_flows := 2\<rparr>)) [] = (Some r, h')" "Tn_close_flow 1 9 0 Success \<in> set h'"
    using example_refused_flow by blast
  from tunnel_runs_release_everything [of "[]" False] run show ?thesis by fastforce
qed

subsection \<open>Two slips\<close>

text \<open>
  A flow that the service opens without a local endpoint is not closed: the scenario reports
  the failure and returns.
\<close>

lemma unpublished_flow_left_open:
  "\<exists>r h'. run_state (RunWgnxTunnelTcpExchange
      (example_tunnel\<lparr>te_open_flow := \<lambda>_ _ _. (0, \<lparr>op_status = Success, op_flow = 9, op_local_port = 0\<rparr>)\<rparr>)
      \<lparr>pr_name = ''lab'', tunnel_destination_ipv4 = ''10.1.0.2'', bsd_destination_ipv4 = ''10.1.0.2'',
       udp_destination_port = 29000, tcp_destination_port = 29001\<rparr> 7 \<lparr>tcp_receive_deadline_ms = 5000\<rparr>) [] = (Some r, h')
    \<and> (\<exists>s request. Tn_open_flow s request 0 \<lparr>op_status = Success, op_flow = 9, op_local_port = 0\<rparr> \<in> set h')
    \<and> list_all (\<lambda>e. case e of Tn_close_flow s f rc st \<Rightarrow> False | _ \<Rightarrow> True) h'"
proof -
  let ?opened = "\<lparr>op_status = Success, op_flow = 9, op_local_port = 0\<rparr>"
  let ?env = "example_tunnel\<lparr>te_open_flow := \<lambda>_ _ _. (0, ?opened)\<rparr>"
  have calls: "run_state (tn_present ?env) h = ((0, True), h @ [Tn_present 0 True])"
    "run_state (tn_root_open ?env) h = (0, h @ [Tn_root_open 0])"
    "run_state (tn_root_capabilities ?env) h = ((0, example_capabilities), h @ [Tn_root_capabilities 0 example_capabilities])"
    "run_state (tn_open_client ?env) h = ((0, 1), h @ [Tn_open_client 0 1])"
    "run_state (tn_get_event ?env s) h = ((0, 77), h @ [Tn_get_event s 0 77])"
    "run_state (tn_open_flow ?env s request) h = ((0, ?opened), h @ [Tn_open_flow s request 0 ?opened])"
    "te_api example_tunnel = example_tun_api" "te_inet_pton example_tunnel ''10.1.0.2'' = Some [10, 1, 0, 2]" for h s request
    by (simp_all add: tn_call_defs call_def example_tunnel_def Let_def)
  have "api_version example_capabilities = TunApiVersion example_tun_api"
    "capability_mask example_capabilities AND ConnectedIpv4Tcp example_tun_api \<noteq> 0"
    by (simp_all add: example_capabilities_def example_tun_api_def)
  then show ?thesis
    by (auto simp: RunWgnxTunnelTcpExchange_def open_tcp_flow_def start_tcp_flow_def calls example_tunnel_calls(8,9) published_def
        failed_def Let_def State_Monad.return_def)
qed

text \<open>
  The waits read the clock twice: when the second reading is past the deadline that the first
  one met, the time that is left wraps around, and the wait is asked to take sixteen minutes.
\<close>

lemma late_reading_waits_long: "remaining_ns 19200000 1000 1001 = 960767920453"
  by (simp add: remaining_ns_def)

end
