(* ===== verification/TunnelPeers.thy ===== *)
theory TunnelPeers
  imports TunnelTcpSuccess TunnelProperties BsdTcpProperties
begin

text \<open>
  Two services with which the tunnel scenarios succeed, and their runs: one that echoes every
  datagram, one that replies to the request of the TCP exchange.
\<close>

subsection \<open>A service that echoes\<close>














subsection \<open>A service that replies\<close>

text \<open>
  The service of the other runs, over TCP: it reports the flow open until the write side is
  shut, and then the reply with the end of the stream.
\<close>

fun write_shut :: "tun_history \<Rightarrow> bool" where
  "write_shut [] = False"
| "write_shut (e # h) = ((case e of Tn_shutdown_write s f rc st \<Rightarrow> True | _ \<Rightarrow> False) \<or> write_shut h)"






lemma write_shut_append [simp]: "write_shut (h @ k) \<longleftrightarrow> write_shut h \<or> write_shut k"
  by (induction h) auto











end
