(* ===== verification/Spec2Isabelle.thy ===== *)
theory Spec2Isabelle
  imports ConfigProperties UdpMetrics HttpsParsing TraceProperties PacketScenario BsdTcpProperties TunnelPeers
begin

text \<open>
  A verification development for the Horizon networking probes: the trace module and the
  logger of the probe (\<^verbatim>\<open>net-probe/\<close>), a passive man in the middle of the console's network
  services, and the configuration and the scenarios of the toolbox (\<^verbatim>\<open>toolbox/\<close>), the program
  that makes controlled traffic. The models are translated from the C++ sources; machine
  integers keep their width, character buffers their size, and every call of the platform is
  answered by a parameter.

  \<^bold>\<open>The parts and how they interact.\<close> The service manager of the probe calls the hooks of
  \<^verbatim>\<open>net-probe/src/mitm_trace.cpp\<close>: a session opens, closes or is cloned, a domain object is
  created, a request passes through. A hook looks the session up in tables of fixed size,
  decodes the message, and prints a JSON line or a binary record, which it hands to
  \<^verbatim>\<open>net-probe/src/logger.cpp\<close>: producers queue, a thread writes to append-only files. The
  toolbox reads and saves its configuration (\<^verbatim>\<open>toolbox/src/runtime_config.cpp\<close>), and runs
  scenarios with it: raw packets to the tunnel's control service, a UDP workload and a TCP
  exchange over the system's sockets, and the same through the tunnel's client service.

  \<^bold>\<open>Shared theories.\<close> \<open>Prelude\<close>: words, C strings, number printing and parsing, bounded buffers.
  \<open>ScenarioBase\<close>: the result record of a scenario (\<^verbatim>\<open>toolbox/src/scenarios.hpp\<close>) and a loop that
  may not end. \<open>HistoryMonad\<close>: computations over the history of their calls, bounded and
  unbounded loops, the calculus \<open>emits\<close> of what a computation adds to its history, and the
  interface \<open>account\<close> of what is counted over one.

  \<^bold>\<open>The toolbox.\<close> \<open>Ipv4Text\<close> holds the two IPv4 validators and shows that they agree.
  \<open>RuntimeConfig\<close> is the data of \<^verbatim>\<open>runtime_config.hpp\<close> with \<^verbatim>\<open>ApplySetting\<close>,
  \<^verbatim>\<open>ValidateRuntimeConfig\<close> and the compiled defaults; \<open>ConfigText\<close> the reading loop of
  \<^verbatim>\<open>LoadRuntimeConfig\<close> and the text that is saved; \<open>ConfigSave\<close> the file operations of
  \<^verbatim>\<open>SaveRuntimeConfig\<close>; \<open>ConfigRoundTrip\<close> and \<open>ConfigProperties\<close> show that a saved
  configuration loads, that loading always returns a valid one, and that a save is all or
  nothing, even when the power fails between two operations. \<open>HttpsParsing\<close>, \<open>UdpMetrics\<close> and
  \<open>ToolboxRuntime\<close> are the parsers, the counters and the runtime helpers with the logger of the
  toolbox. \<open>UdpPacket\<close> and \<open>PacketScenario\<close> are \<^verbatim>\<open>wgnx_packet_scenario.cpp\<close>: the packet that is
  built validates, a flipped checksum does not, success means an echo, the scenario returns.
  \<open>SocketWorld\<close> has the socket calls; \<open>UdpPayload\<close>, \<open>BsdUdp\<close> and \<open>BsdUdpProperties\<close> are
  \<^verbatim>\<open>bsd_system_udp_scenario.cpp\<close>, \<open>BsdTcp\<close> and \<open>BsdTcpProperties\<close> \<^verbatim>\<open>bsd_system_tcp_scenario.cpp\<close>:
  every descriptor and the socket service are given back on every path, and success means
  that the bytes went out and came back. \<open>TunnelWorld\<close> has the calls of the tunnel's client
  service; \<open>TunnelWaits\<close>, \<open>TunnelTcp\<close>, \<open>TunnelUdp\<close> and \<open>TunnelContract\<close> are
  \<^verbatim>\<open>wgnx_tunnel_scenario.cpp\<close>: the waits for completions and the three scenarios; \<open>TunnelRelease\<close>
  shows that events and flows are given back, except a flow the service opened without a local
  endpoint, which the code leaves open, \<open>TunnelReturns\<close> that the scenarios return;
  \<open>TunnelProperties\<close> states both, on a service that refuses a flow. \<open>TunnelSuccess\<close> and
  \<open>TunnelTcpSuccess\<close> show what success of the two workloads means, the echo of every datagram
  and the whole reply; \<open>TunnelPeers\<close> has services with which they succeed.

  \<^bold>\<open>The probe.\<close> \<open>RingQueue\<close> and \<open>ProbeLogger\<close> are \<^verbatim>\<open>logger.cpp\<close>: a bounded queue that overwrites its
  oldest entries refines a plain list with a count of what was dropped, and the flush writes
  in order. All other theories are \<^verbatim>\<open>mitm_trace.cpp\<close>, from the bottom up: \<open>TraceTypes\<close> (families,
  sinks), \<open>SlotTable\<close> and \<open>TraceTables\<close> (the tables, bounded and without duplicates under every
  operation), \<open>TraceText\<close>, \<open>TraceNames\<close> (object paths and command names), \<open>TraceBinary\<close> (binary
  records), \<open>TraceViews\<close> (the buffers of a call), \<open>TraceDecode\<close> (summaries), \<open>TraceCmif\<close> (messages
  and returned objects), \<open>TraceHooks\<close> (the state of the module), \<open>TraceEvents\<close>, \<open>TraceDomain\<close>,
  \<open>TraceForward\<close> and \<open>TraceRequest\<close> (the hooks). \<open>TraceJson\<close> is a reader for the lines;
  \<open>TraceLines\<close>, \<open>TraceSummaries\<close>, \<open>TraceKeeps\<close>, \<open>TraceInvariant\<close> and \<open>TraceProperties\<close> show that any
  sequence of hooks prints complete JSON events and keeps the tables sound.

  \<^bold>\<open>Interfaces.\<close> The locales are what one part relies on another for: \<open>text_codec\<close> (a printed
  setting reads back), \<open>bounded_queue\<close> (the logger's ring), \<open>slot_table\<close> (the four tables),
  \<open>hook_invariant\<close> (what every step of a hook keeps), \<open>account\<close> (descriptors, service users, flows,
  events and the measures of the waits). Each is interpreted on the model's own definitions.

  \<^bold>\<open>The platform.\<close> A call that leaves the program is a parameter: file operations, sockets, the
  tunnel's services, the clock, random numbers, and the message library of the probe. The
  scenarios pass the whole history of calls and results to it, so a call may fail or change its
  answer at any point of a run. Where a theorem needs the platform to behave, it says so: the
  clock moves on from reading to reading, the tunnel's service does not deliver completions
  for ever without the scenario waiting in between and reports only bytes it wrote, an address
  parser gives four bytes.

  \<^bold>\<open>Loops and bounds.\<close> Loops with a decreasing argument are functions with a termination proof. The
  bounded loops are \<open>send_loop\<close> and \<open>turns\<close>: a datagram is sent at most seventeen times, as the
  sixteenth retry is the last; the TCP loops move on by a byte a turn, so the number of bytes
  is enough; \<open>tcp_run_completes\<close> and the lemmas about sending show that no run needs more. The
  loops that wait for the tunnel are partial functions: \<open>None\<close> is a run that does not end, and
  \<open>packet_scenario_returns\<close> and \<open>tunnel_runs_return\<close> show that it does when the clock moves on.

  \<^bold>\<open>Not modelled.\<close> \<^verbatim>\<open>net-probe/src/mitm_service.cpp\<close> is the set-up of server managers, threads and
  template instances of a library that is not in the repository; \<^verbatim>\<open>ipc_helpers.cpp\<close>, \<^verbatim>\<open>probe.cpp\<close>,
  \<^verbatim>\<open>fs_runtime.cpp\<close> and \<^verbatim>\<open>main.cpp\<close> call services of the platform and report their results.
  \<^verbatim>\<open>toolbox/src/scenarios.cpp\<close> and \<^verbatim>\<open>manual_bsd_lifecycle.cpp\<close> drive libcurl, the resolver, the
  network interface service and sockets on the device; what they compute themselves, the parsers and
  the metrics, is modelled. The user interface (\<^verbatim>\<open>app_ui.cpp\<close>, \<^verbatim>\<open>borealis_platform.cpp\<close>) is a view
  library's. Sessions of the tunnel service that are closed by destructors of the client library
  are no events of the model. Interleavings of the logger's thread with its producers are
  sequences of whole operations, as the logger's lock makes them.
\<close>

end
